(* ===== verification/Regex.thy ===== *)
theory Regex
  imports Prelude
begin

text \<open>
  The regular expressions of JavaScript that the frontend uses, with their backtracking
  semantics: \<open>rests r s\<close> lists what is left of \<open>s\<close> after each way \<open>r\<close> can match a
  prefix of it, in the order the engine tries them. The first element is the match the
  engine reports. The semantics is related to the language of the expression, which is
  what \<open>test\<close> depends on.
\<close>

section \<open>Expressions and their language\<close>

datatype rx =
    Cls "char \<Rightarrow> bool"
  | Empty
  | Seq rx rx
  | Alt rx rx
  | Star rx

inductive matches :: "rx \<Rightarrow> string \<Rightarrow> bool" where
  m_cls: "p c \<Longrightarrow> matches (Cls p) [c]"
| m_empty: "matches Empty []"
| m_seq: "matches a u \<Longrightarrow> matches b v \<Longrightarrow> matches (Seq a b) (u @ v)"
| m_altL: "matches a u \<Longrightarrow> matches (Alt a b) u"
| m_altR: "matches b u \<Longrightarrow> matches (Alt a b) u"
| m_star0: "matches (Star a) []"
| m_star: "matches a u \<Longrightarrow> matches (Star a) v \<Longrightarrow> matches (Star a) (u @ v)"

inductive_cases matches_ClsE [elim!]: "matches (Cls p) u"
inductive_cases matches_EmptyE [elim!]: "matches Empty u"
inductive_cases matches_SeqE [elim!]: "matches (Seq a b) u"
inductive_cases matches_AltE [elim!]: "matches (Alt a b) u"

section \<open>The backtracking matcher\<close>

text \<open>
  A greedy star tries another round first and rejects a round that consumed nothing, as
  the specification of the language does; the rejection is also what makes the recursion end.
\<close>

function (sequential) rests :: "rx \<Rightarrow> string \<Rightarrow> string list" where
  "rests (Cls p) s = (case s of [] \<Rightarrow> [] | c # t \<Rightarrow> if p c then [t] else [])"
| "rests Empty s = [s]"
| "rests (Seq a b) s = concat (map (rests b) (rests a s))"
| "rests (Alt a b) s = rests a s @ rests b s"
| "rests (Star a) s =
     concat (map (\<lambda>t. if length t < length s then rests (Star a) t else []) (rests a s)) @ [s]"
  by pat_completeness auto
termination
  by (relation "measures [\<lambda>(r, s). size r, \<lambda>(r, s). length s]") auto

declare rests.simps(5) [simp del]

text \<open>
  \<open>RegExp.prototype.test\<close>: a match may start at any position; \<open>^\<close> pins the start and
  \<open>$\<close> the end.
\<close>

record pattern =
  anchored :: bool
  to_end :: bool
  body_rx :: rx

definition matches_here :: "pattern \<Rightarrow> string \<Rightarrow> bool" where
  "matches_here p s \<longleftrightarrow>
     (if to_end p then list_ex (\<lambda>t. t = []) (rests (body_rx p) s) else rests (body_rx p) s \<noteq> [])"

fun search_from :: "pattern \<Rightarrow> string \<Rightarrow> bool" where
  "search_from p [] \<longleftrightarrow> matches_here p []"
| "search_from p (c # s) \<longleftrightarrow> matches_here p (c # s) \<or> search_from p s"

definition test :: "pattern \<Rightarrow> string \<Rightarrow> bool" where
  "test p s \<longleftrightarrow> (if anchored p then matches_here p s else search_from p s)"

section \<open>Constructors used by the code\<close>

definition ch :: "char \<Rightarrow> rx" where
  "ch c = Cls (\<lambda>d. d = c)"

definition ch_i :: "char \<Rightarrow> rx" where
  "ch_i c = Cls (\<lambda>d. to_lower d = to_lower c)"

fun seqs :: "rx list \<Rightarrow> rx" where
  "seqs [] = Empty"
| "seqs [r] = r"
| "seqs (r # q # rs) = Seq r (seqs (q # rs))"

definition lit :: "string \<Rightarrow> rx" where
  "lit s = seqs (map ch s)"

definition lit_i :: "string \<Rightarrow> rx" where
  "lit_i s = seqs (map ch_i s)"

definition plus :: "rx \<Rightarrow> rx" where
  "plus r = Seq r (Star r)"

definition digit :: rx where "digit = Cls is_digit"
definition space :: rx where "space = Cls is_space"
definition wordc :: rx where "wordc = Cls is_word"
definition anyc :: rx where "anyc = Cls not_newline"

definition find_rx :: "rx \<Rightarrow> pattern" where
  "find_rx r = \<lparr>anchored = False, to_end = False, body_rx = r\<rparr>"

definition find_end :: "rx \<Rightarrow> pattern" where
  "find_end r = \<lparr>anchored = False, to_end = True, body_rx = r\<rparr>"

definition whole :: "rx \<Rightarrow> pattern" where
  "whole r = \<lparr>anchored = True, to_end = True, body_rx = r\<rparr>"

section \<open>The matcher computes the language\<close>

lemma rests_sound: "t \<in> set (rests r s) \<Longrightarrow> \<exists>u. s = u @ t \<and> matches r u"
proof (induction r s arbitrary: t rule: rests.induct)
  case (1 p s)
  then show ?case by (auto split: list.splits if_splits intro: matches.intros)
next
  case (2 s)
  then show ?case by (auto intro: matches.intros)
next
  case (3 a b s)
  then obtain m where m: "m \<in> set (rests a s)" "t \<in> set (rests b m)" by auto
  from "3.IH"(1) [OF m(1)] obtain u where u: "s = u @ m" "matches a u" by blast
  from "3.IH"(2) [OF m(1) m(2)] obtain v where v: "m = v @ t" "matches b v" by blast
  from u v have "s = (u @ v) @ t" "matches (Seq a b) (u @ v)" by (auto intro: m_seq)
  then show ?case by metis
next
  case (4 a b s)
  then show ?case by (auto dest!: "4.IH" intro: matches.intros)
next
  case (5 a s)
  show ?case
  proof (cases "t = s")
    case True
    then show ?thesis by (auto intro: m_star0)
  next
    case False
    with "5.prems" obtain m where m: "m \<in> set (rests a s)" "length m < length s"
      "t \<in> set (rests (Star a) m)" by (auto simp: rests.simps(5) [of a s] split: if_splits)
    from "5.IH"(1) [OF m(1)] obtain u where u: "s = u @ m" "matches a u" by blast
    from "5.IH"(2) [OF m(1) m(2) m(3)] obtain v where v: "m = v @ t" "matches (Star a) v"
      by blast
    from u v have "s = (u @ v) @ t" "matches (Star a) (u @ v)" by (auto intro: m_star)
    then show ?thesis by metis
  qed
qed

lemma rests_complete: "matches r u \<Longrightarrow> t \<in> set (rests r (u @ t))"
proof (induction arbitrary: t rule: matches.induct)
  case (m_seq a u b v)
  have "v @ t \<in> set (rests a (u @ v @ t))" by (rule m_seq.IH(1))
  with m_seq.IH(2) [of t] show ?case by auto
next
  case (m_star0 a)
  show ?case by (subst rests.simps(5)) simp
next
  case (m_star a u v)
  show ?case
  proof (cases "u = []")
    case True
    with m_star.IH(2) show ?thesis by simp
  next
    case False
    have "v @ t \<in> set (rests a (u @ v @ t))" by (rule m_star.IH(1))
    moreover have "t \<in> set (rests (Star a) (v @ t))" by (rule m_star.IH(2))
    ultimately show ?thesis
      using False by (subst rests.simps(5)) (auto intro!: bexI [of _ "v @ t"])
  qed
qed auto

theorem rests_iff: "t \<in> set (rests r s) \<longleftrightarrow> (\<exists>u. s = u @ t \<and> matches r u)"
  by (auto dest: rests_sound intro: rests_complete)

lemma rests_ne_iff: "rests r s \<noteq> [] \<longleftrightarrow> (\<exists>u t. s = u @ t \<and> matches r u)"
  by (metis ex_in_conv rests_iff set_empty)

lemma matches_here_iff:
  "matches_here p s \<longleftrightarrow>
     (\<exists>u t. s = u @ t \<and> matches (body_rx p) u \<and> (to_end p \<longrightarrow> t = []))"
proof -
  have "list_ex (\<lambda>t. t = []) (rests (body_rx p) s) \<longleftrightarrow> [] \<in> set (rests (body_rx p) s)"
    by (auto simp: list_ex_iff)
  then show ?thesis
    by (auto simp: matches_here_def rests_ne_iff rests_iff)
qed

lemma search_from_iff: "search_from p s \<longleftrightarrow> (\<exists>pre suf. s = pre @ suf \<and> matches_here p suf)"
proof (induction s)
  case (Cons c s)
  note IH = Cons.IH
  show ?case
  proof
    assume "search_from p (c # s)"
    then consider "matches_here p (c # s)" | "search_from p s" by auto
    then show "\<exists>pre suf. c # s = pre @ suf \<and> matches_here p suf"
    proof cases
      case 1
      then have "c # s = [] @ (c # s) \<and> matches_here p (c # s)" by simp
      then show ?thesis by blast
    next
      case 2
      with IH obtain pre suf where "s = pre @ suf" "matches_here p suf" by blast
      then have "c # s = (c # pre) @ suf \<and> matches_here p suf" by simp
      then show ?thesis by blast
    qed
  next
    assume "\<exists>pre suf. c # s = pre @ suf \<and> matches_here p suf"
    then obtain pre suf where ps: "c # s = pre @ suf" "matches_here p suf" by blast
    show "search_from p (c # s)"
    proof (cases pre)
      case Nil
      with ps have "matches_here p (c # s)" by simp
      then show ?thesis by simp
    next
      case (Cons d pre')
      with ps have "s = pre' @ suf" by simp
      with ps IH show ?thesis by auto
    qed
  qed
qed simp

lemma test_whole: "test (whole r) s \<longleftrightarrow> matches r s"
  by (auto simp: test_def whole_def matches_here_iff)

lemma test_find: "test (find_rx r) s \<longleftrightarrow> (\<exists>x u y. s = x @ u @ y \<and> matches r u)"
  by (auto simp: test_def find_rx_def search_from_iff matches_here_iff)

lemma test_find_end: "test (find_end r) s \<longleftrightarrow> (\<exists>x u. s = x @ u \<and> matches r u)"
  by (auto simp: test_def find_end_def search_from_iff matches_here_iff)

section \<open>Derived facts about the language\<close>

inductive_simps matches_Cls_iff: "matches (Cls p) u"
inductive_simps matches_Empty_iff: "matches Empty u"
inductive_simps matches_Seq_iff: "matches (Seq a b) u"
inductive_simps matches_Alt_iff: "matches (Alt a b) u"

lemma matches_Star_Cls: "matches (Star (Cls p)) u \<longleftrightarrow> (\<forall>c \<in> set u. p c)"
proof
  assume "matches (Star (Cls p)) u"
  then show "\<forall>c \<in> set u. p c"
    by (induction "Star (Cls p)" u rule: matches.induct) auto
next
  assume "\<forall>c \<in> set u. p c"
  then show "matches (Star (Cls p)) u"
  proof (induction u)
    case Nil
    then show ?case by (auto intro: matches.intros)
  next
    case (Cons c u)
    then have "matches (Cls p) [c]" "matches (Star (Cls p)) u" by (auto intro: matches.intros)
    then have "matches (Star (Cls p)) ([c] @ u)" by (rule m_star)
    then show ?case by simp
  qed
qed

lemma matches_plus_Cls: "matches (plus (Cls p)) u \<longleftrightarrow> u \<noteq> [] \<and> (\<forall>c \<in> set u. p c)"
proof
  assume "matches (plus (Cls p)) u"
  then show "u \<noteq> [] \<and> (\<forall>c \<in> set u. p c)"
    by (auto simp: plus_def matches_Star_Cls)
next
  assume u: "u \<noteq> [] \<and> (\<forall>c \<in> set u. p c)"
  then obtain c v where c: "u = [c] @ v" by (cases u) auto
  with u have "matches (Cls p) [c]" "matches (Star (Cls p)) v"
    by (auto simp: matches_Star_Cls intro: m_cls)
  then show "matches (plus (Cls p)) u"
    unfolding plus_def c by (rule m_seq)
qed

lemma matches_ch [simp]: "matches (ch c) u \<longleftrightarrow> u = [c]"
  by (auto simp: ch_def intro: matches.intros)

lemma matches_seqs_Cons: "matches (seqs (r # rs)) u \<longleftrightarrow> matches (Seq r (seqs rs)) u"
  by (cases rs) (auto simp: matches_Seq_iff matches_Empty_iff)

lemma matches_lit [simp]: "matches (lit s) u \<longleftrightarrow> u = s"
proof (induction s arbitrary: u)
  case (Cons c s)
  then show ?case
    by (auto simp: lit_def matches_seqs_Cons matches_Seq_iff)
qed (auto simp: lit_def matches_Empty_iff)

section \<open>Case-insensitive expressions\<close>

text \<open>
  An expression whose classes do not distinguish a letter from its capital matches a
  string exactly when it matches the string with its first letter capitalised.
\<close>

fun caseless :: "rx \<Rightarrow> bool" where
  "caseless (Cls p) \<longleftrightarrow> (\<forall>c. p (to_upper c) = p c)"
| "caseless Empty \<longleftrightarrow> True"
| "caseless (Seq a b) \<longleftrightarrow> caseless a \<and> caseless b"
| "caseless (Alt a b) \<longleftrightarrow> caseless a \<and> caseless b"
| "caseless (Star a) \<longleftrightarrow> caseless a"

text \<open>Enough for a capital first letter: only what can be read first must be caseless.\<close>

fun caseless_head :: "rx \<Rightarrow> bool" where
  "caseless_head (Seq (Cls p) b) \<longleftrightarrow> (\<forall>c. p (to_upper c) = p c)"
| "caseless_head r \<longleftrightarrow> caseless r"

definition capitalizeFirst :: "string \<Rightarrow> string" where
  "capitalizeFirst s = (if length s = 0 then s else to_upper (hd s) # drop 1 s)"

lemma capitalizeFirst_simps [simp]:
  "capitalizeFirst [] = []" "capitalizeFirst (c # s) = to_upper c # s"
  by (simp_all add: capitalizeFirst_def)

lemma capitalizeFirst_idem [simp]: "capitalizeFirst (capitalizeFirst s) = capitalizeFirst s"
  by (cases s) auto

lemma length_capitalizeFirst [simp]: "length (capitalizeFirst s) = length s"
  by (cases s) auto

lemma matches_caseless:
  "matches r u \<Longrightarrow> caseless r \<Longrightarrow> map to_upper u = map to_upper v \<Longrightarrow> matches r v"
proof (induction arbitrary: v rule: matches.induct)
  case (m_cls p c)
  then obtain d where d: "v = [d]" "to_upper c = to_upper d" by auto
  with m_cls have "p d" by (metis caseless.simps(1))
  with d show ?case by (auto intro: matches.m_cls)
next
  case (m_seq a u b w)
  let ?x = "take (length u) v" and ?y = "drop (length u) v"
  have "map to_upper u = map to_upper ?x" "map to_upper w = map to_upper ?y"
    using m_seq.prems(2) by (metis append_eq_conv_conj length_map map_append take_map drop_map)+
  with m_seq have "matches a ?x" "matches b ?y" by auto
  then have "matches (Seq a b) (?x @ ?y)" by (rule matches.m_seq)
  then show ?case by simp
next
  case (m_star a u w)
  let ?x = "take (length u) v" and ?y = "drop (length u) v"
  have "map to_upper u = map to_upper ?x" "map to_upper w = map to_upper ?y"
    using m_star.prems(2) by (metis append_eq_conv_conj length_map map_append take_map drop_map)+
  with m_star have "matches a ?x" "matches (Star a) ?y" by auto
  then have "matches (Star a) (?x @ ?y)" by (rule matches.m_star)
  then show ?case by simp
qed (auto intro: matches.intros)

lemma caseless_head_split:
  "caseless_head r \<Longrightarrow>
     caseless r \<or> (\<exists>p b. r = Seq (Cls p) b \<and> (\<forall>c. p (to_upper c) = p c))"
  by (cases r rule: caseless_head.cases) auto

lemma matches_upper_head:
  assumes "caseless_head r" and "matches r (c # u)" and eq: "to_upper c = to_upper d"
  shows "matches r (d # u)"
  using caseless_head_split [OF assms(1)]
proof
  assume "caseless r"
  with assms(2) eq show ?thesis by (auto intro: matches_caseless)
next
  assume "\<exists>p b. r = Seq (Cls p) b \<and> (\<forall>c. p (to_upper c) = p c)"
  then obtain p b where r: "r = Seq (Cls p) b" and p: "\<forall>c. p (to_upper c) = p c" by metis
  from assms(2) [unfolded r matches_Seq_iff]
  obtain x y where "matches (Cls p) x" "c # u = x @ y" "matches b y" by metis
  moreover have "p c = p d"
    using eq p by metis
  ultimately have "matches (Cls p) [d]" "matches b u" by (auto intro: m_cls)
  then have "matches (Seq (Cls p) b) ([d] @ u)" by (rule m_seq)
  with r show ?thesis by simp
qed

lemma test_capitalizeFirst:
  assumes "caseless_head r"
  shows "test (find_rx r) (capitalizeFirst s) = test (find_rx r) s"
proof (cases s)
  case (Cons c t)
  have swap: "\<exists>x u y. d' # t = x @ u @ y \<and> matches r u"
    if "d # t = x @ u @ y" "matches r u" "to_upper d = to_upper d'" for d d' x u y
  proof (cases x)
    case Nil
    show ?thesis
    proof (cases u)
      case Nil
      with that(2) show ?thesis by (metis append_Nil)
    next
      case (Cons e v)
      with that \<open>x = []\<close> have "matches r (d' # v)" "d' # t = [] @ (d' # v) @ y"
        using matches_upper_head [OF assms] by auto
      then show ?thesis by blast
    qed
  next
    case (Cons e x')
    with that have "d' # t = (d' # x') @ u @ y" by simp
    with that(2) show ?thesis by blast
  qed
  show ?thesis unfolding test_find Cons capitalizeFirst_simps
    using swap [of "to_upper c" _ _ _ c] swap [of c _ _ _ "to_upper c"] by auto
qed simp

section \<open>Literals without regard to case are substrings\<close>

text \<open>
  The most common shape of pattern in the code is a literal with the \<open>i\<close> flag. Testing for
  it is a search for a substring among the lower-case letters, which evaluates faster.
\<close>

fun begins :: "string \<Rightarrow> string \<Rightarrow> bool" where
  "begins [] s = True"
| "begins (y # w) [] = False"
| "begins (y # w) (x # s) = (if x = y then begins w s else False)"

fun occurs :: "string \<Rightarrow> string \<Rightarrow> bool" where
  "occurs w [] = (w = [])"
| "occurs w (c # s) = (if begins w (c # s) then True else occurs w s)"

fun line_occurs :: "string \<Rightarrow> string \<Rightarrow> bool" where
  "line_occurs w [] = (w = [])"
| "line_occurs w (c # s) =
     (if begins w (c # s) then True else if not_newline c then line_occurs w s else False)"

fun occurs_later :: "string \<Rightarrow> string \<Rightarrow> string \<Rightarrow> bool" where
  "occurs_later v w [] = (v = [] \<and> w = [])"
| "occurs_later v w (c # s) =
     (if (if begins v (c # s) then line_occurs w (drop (length v) (c # s)) else False) then True
      else occurs_later v w s)"

lemma begins_iff: "begins w s \<longleftrightarrow> (\<exists>t. s = w @ t)"
  by (induction w s rule: begins.induct) auto

lemma occurs_iff: "occurs w s \<longleftrightarrow> (\<exists>x y. s = x @ w @ y)"
proof (induction s)
  case (Cons c s)
  have "(\<exists>x y. c # s = x @ w @ y) \<longleftrightarrow> begins w (c # s) \<or> (\<exists>x y. s = x @ w @ y)" (is "?l \<longleftrightarrow> ?r")
  proof
    assume ?l
    then obtain x y where xy: "c # s = x @ w @ y" by blast
    show ?r
    proof (cases x)
      case Nil
      with xy show ?thesis by (auto simp: begins_iff)
    next
      case (Cons d x')
      with xy show ?thesis by auto
    qed
  next
    assume ?r
    then show ?l by (auto simp: begins_iff intro: exI [of _ "[]"]) (metis append_Cons)
  qed
  with Cons show ?case by auto
qed auto

lemma matches_ch_i [simp]: "matches (ch_i c) u \<longleftrightarrow> (\<exists>d. u = [d] \<and> to_lower d = to_lower c)"
  by (auto simp: ch_i_def intro: matches.intros)

lemma matches_lit_i [simp]: "matches (lit_i w) u \<longleftrightarrow> map to_lower u = map to_lower w"
proof (induction w arbitrary: u)
  case (Cons c w)
  have "matches (lit_i (c # w)) u \<longleftrightarrow> matches (Seq (ch_i c) (lit_i w)) u"
    by (simp add: lit_i_def matches_seqs_Cons)
  also have "\<dots> \<longleftrightarrow> (\<exists>d v. u = [d] @ v \<and> to_lower d = to_lower c \<and> map to_lower v = map to_lower w)"
    unfolding matches_Seq_iff matches_ch_i Cons by blast
  finally show ?case by (auto simp: map_eq_Cons_conv)
qed (auto simp: lit_i_def matches_Empty_iff)

lemma map_eq_appendE:
  assumes "map f s = a @ b"
  obtains x y where "s = x @ y" "map f x = a" "map f y = b"
  using assms by (auto simp: map_eq_append_conv)

lemma test_lit_i: "test (find_rx (lit_i w)) s = occurs (map to_lower w) (map to_lower s)"
proof
  assume "test (find_rx (lit_i w)) s"
  then obtain x u y where "s = x @ u @ y" "map to_lower u = map to_lower w"
    by (auto simp: test_find)
  then have "map to_lower s = map to_lower x @ map to_lower w @ map to_lower y" by simp
  then show "occurs (map to_lower w) (map to_lower s)" unfolding occurs_iff by blast
next
  assume "occurs (map to_lower w) (map to_lower s)"
  then obtain a b where "map to_lower s = a @ map to_lower w @ b" by (auto simp: occurs_iff)
  then obtain x r where "s = x @ r" "map to_lower r = map to_lower w @ b"
    by (rule map_eq_appendE)
  moreover from this(2) obtain u y where "r = u @ y" "map to_lower u = map to_lower w"
    by (rule map_eq_appendE)
  ultimately show "test (find_rx (lit_i w)) s" by (auto simp: test_find)
qed

lemma matches_seqs_append:
  "matches (seqs (xs @ ys)) u \<longleftrightarrow> (\<exists>a b. u = a @ b \<and> matches (seqs xs) a \<and> matches (seqs ys) b)"
proof (induction xs arbitrary: u)
  case (Cons r xs)
  have "matches (seqs ((r # xs) @ ys)) u \<longleftrightarrow>
      (\<exists>p a b. u = p @ a @ b \<and> matches r p \<and> matches (seqs xs) a \<and> matches (seqs ys) b)"
    unfolding append_Cons matches_seqs_Cons matches_Seq_iff Cons by metis
  also have "\<dots> \<longleftrightarrow> (\<exists>a b. u = a @ b \<and> matches (seqs (r # xs)) a \<and> matches (seqs ys) b)"
    unfolding matches_seqs_Cons matches_Seq_iff by (metis append.assoc)
  finally show ?case .
qed (auto simp: matches_Empty_iff)

lemma not_newline_to_lower [simp]: "not_newline (to_lower c) = not_newline c"
  by (auto simp: not_newline_def code_unit_to_lower is_upper_def)

lemma line_occurs_iff:
  "line_occurs w s \<longleftrightarrow> (\<exists>m y. s = m @ w @ y \<and> (\<forall>c \<in> set m. not_newline c))"
proof (induction s)
  case (Cons c s)
  have "(\<exists>m y. c # s = m @ w @ y \<and> (\<forall>c \<in> set m. not_newline c)) \<longleftrightarrow>
      begins w (c # s) \<or> (not_newline c \<and> (\<exists>m y. s = m @ w @ y \<and> (\<forall>c \<in> set m. not_newline c)))"
    (is "?l \<longleftrightarrow> ?r")
  proof
    assume ?l
    then obtain m y where my: "c # s = m @ w @ y" "\<forall>c \<in> set m. not_newline c" by blast
    then show ?r by (cases m) (auto simp: begins_iff)
  next
    assume ?r
    then show ?l
    proof
      assume "begins w (c # s)"
      then obtain y where "c # s = [] @ w @ y" by (auto simp: begins_iff)
      then show ?l by (metis empty_iff empty_set)
    next
      assume "not_newline c \<and> (\<exists>m y. s = m @ w @ y \<and> (\<forall>c \<in> set m. not_newline c))"
      then obtain m y where "not_newline c" "s = m @ w @ y" "\<forall>c \<in> set m. not_newline c" by blast
      then have "c # s = (c # m) @ w @ y \<and> (\<forall>c \<in> set (c # m). not_newline c)" by simp
      then show ?l by blast
    qed
  qed
  with Cons show ?case by auto
qed auto

lemma occurs_later_iff:
  "occurs_later v w s \<longleftrightarrow> (\<exists>x m y. s = x @ v @ m @ w @ y \<and> (\<forall>c \<in> set m. not_newline c))"
proof (induction s)
  case (Cons c s)
  have "(\<exists>x m y. c # s = x @ v @ m @ w @ y \<and> (\<forall>c \<in> set m. not_newline c)) \<longleftrightarrow>
      (\<exists>t. c # s = v @ t \<and> line_occurs w t) \<or>
      (\<exists>x m y. s = x @ v @ m @ w @ y \<and> (\<forall>c \<in> set m. not_newline c))"
    (is "?l \<longleftrightarrow> ?r1 \<or> ?r2")
  proof
    assume ?l
    then obtain x m y where xy: "c # s = x @ v @ m @ w @ y" "\<forall>c \<in> set m. not_newline c" by blast
    then show "?r1 \<or> ?r2"
    proof (cases x)
      case Nil
      with xy have ?r1 by (auto simp: line_occurs_iff)
      then show ?thesis ..
    next
      case (Cons d x')
      with xy have ?r2 by auto
      then show ?thesis ..
    qed
  next
    assume "?r1 \<or> ?r2"
    then show ?l
    proof
      assume ?r1
      then obtain m y where "c # s = [] @ v @ m @ w @ y" "\<forall>c \<in> set m. not_newline c"
        by (auto simp: line_occurs_iff)
      then show ?l by blast
    next
      assume ?r2
      then obtain x m y where "s = x @ v @ m @ w @ y" "\<forall>c \<in> set m. not_newline c" by blast
      then have "c # s = (c # x) @ v @ m @ w @ y \<and> (\<forall>c \<in> set m. not_newline c)" by simp
      then show ?l by blast
    qed
  qed
  moreover have "(\<exists>t. c # s = v @ t \<and> line_occurs w t) \<longleftrightarrow>
      begins v (c # s) \<and> line_occurs w (drop (length v) (c # s))"
    by (auto simp: begins_iff)
  ultimately show ?case using Cons by auto
qed auto

end
