(* ===== verification/Sanitizer.thy ===== *)
theory Sanitizer
  imports Regex
begin

text \<open>
  The error sanitizer of \<open>src/frontend/src/core/error-sanitizer.ts\<close>: a table of patterns
  with friendly messages, tried in order, then a heuristic that lets short messages
  without internals through with a capital first letter, then the fallback.
\<close>

section \<open>The tables\<close>

text \<open>A thrown value as \<open>extractRawMessage\<close> distinguishes it.\<close>

datatype thrown = ErrorObj string | StringVal string | OtherVal

fun extractRawMessage :: "thrown \<Rightarrow> string" where
  "extractRawMessage (ErrorObj m) = m"
| "extractRawMessage (StringVal m) = m"
| "extractRawMessage OtherVal = ''Unknown error''"

definition then_later :: "string \<Rightarrow> string \<Rightarrow> rx" where
  "then_later a b = seqs (map ch_i a @ [Star anyc] @ map ch_i b)"

definition ERROR_PATTERNS :: "(pattern \<times> string) list" where
  "ERROR_PATTERNS =
    [(find_rx (lit_i ''unauthorized''), ''Your session has expired. Please sign in again.''),
     (find_rx (lit_i ''forbidden''), ''You do not have permission to perform this action.''),
     (find_rx (lit_i ''invalid credentials''), ''Invalid email or password.''),
     (find_rx (lit_i ''invalid email or password''), ''Invalid email or password.''),
     (find_rx (then_later ''account'' ''disabled''),
        ''This account has been disabled. Contact your administrator.''),
     (find_rx (then_later ''email'' ''already''), ''An account with this email already exists.''),
     (find_rx (lit_i ''invalid or expired reset token''),
        ''This reset link is invalid or has expired. Please request a new one.''),
     (find_rx (then_later ''token'' ''expired''), ''Your session has expired. Please sign in again.''),
     (find_rx (then_later ''invalid'' ''token''), ''Your session is invalid. Please sign in again.''),
     (find_rx (lit_i ''must_change_password''),
        ''You must change your password before continuing.''),
     (find_rx (lit_i ''rate limit''), ''Too many requests. Please wait a moment and try again.''),
     (find_rx (lit_i ''failed to fetch''),
        ''Unable to connect to the server. Check your network connection.''),
     (find_rx (lit_i ''network''),
        ''A network error occurred. Please check your connection and try again.''),
     (find_rx (lit_i ''timeout''), ''The request timed out. Please try again.''),
     (find_rx (lit_i ''abort''), ''The request was cancelled.''),
     (find_end (seqs [ch CHR ''5'', digit, digit]),
        ''An unexpected server error occurred. Please try again later.''),
     (find_rx (seqs (map ch_i ''API error: 5'' @ [digit, digit])),
        ''An unexpected server error occurred. Please try again later.''),
     (find_rx (seqs (map ch_i ''API error: 4'' @ [digit, digit])),
        ''The request could not be completed. Please try again.''),
     (find_rx (lit_i ''bad request''), ''The request was invalid. Please check your input.''),
     (find_rx (lit_i ''conflict''),
        ''A conflict occurred. The resource may have been modified by someone else.''),
     (find_rx (lit_i ''payload too large''), ''The uploaded data is too large.'')]"

text \<open>\<open>/sql:|select\\s|insert\\s/i\<close> and the other patterns of \<open>isSafeMessage\<close>.\<close>

definition source_ref :: "string \<Rightarrow> rx" where
  "source_ref ext = seqs (map ch ext @ [ch CHR '':'', plus digit])"

definition unsafePatterns :: "pattern list" where
  "unsafePatterns =
    [find_rx (seqs [ch_i CHR ''a'', ch_i CHR ''t'', plus space, plus wordc, plus space,
       ch CHR ''('']),
     find_rx (source_ref ''.go''),
     find_rx (source_ref ''.ts''),
     find_rx (source_ref ''.js''),
     find_rx (Alt (lit_i ''sql:'')
       (Alt (seqs (map ch_i ''select'' @ [space])) (seqs (map ch_i ''insert'' @ [space])))),
     find_rx (lit_i ''panic:''),
     find_rx (lit_i ''GORM''),
     find_rx (lit_i ''pq:''),
     find_rx (lit_i ''redis:''),
     find_rx (lit_i ''internal server''),
     find_rx (lit_i ''stack trace'')]"

section \<open>The functions\<close>

definition isSafeMessage :: "string \<Rightarrow> bool" where
  "isSafeMessage msg \<longleftrightarrow>
     (if length msg > 200 then False else \<not> list_ex (\<lambda>p. test p msg) unsafePatterns)"

fun first_match :: "(pattern \<times> string) list \<Rightarrow> string \<Rightarrow> string option" where
  "first_match [] raw = None"
| "first_match ((p, friendly) # ps) raw = (if test p raw then Some friendly else first_match ps raw)"

definition generic_message :: string where
  "generic_message = ''Something went wrong. Please try again.''"

definition sanitizeErrorMessage :: "thrown \<Rightarrow> string option \<Rightarrow> string" where
  "sanitizeErrorMessage err fallback =
     (let raw = extractRawMessage err in
      case first_match ERROR_PATTERNS raw of
        Some friendly \<Rightarrow> friendly
      | None \<Rightarrow>
          (if isSafeMessage raw then capitalizeFirst raw
           else case fallback of Some m \<Rightarrow> m | None \<Rightarrow> generic_message))"

section \<open>Capitalising does not change what matches\<close>

lemma caseless_ch_i [simp]: "caseless (ch_i c)"
  by (simp add: ch_i_def)

lemma caseless_classes [simp]:
  "caseless digit" "caseless space" "caseless wordc" "caseless anyc"
  by (simp_all add: digit_def space_def wordc_def anyc_def)

lemma caseless_seqs [simp]: "caseless (seqs rs) \<longleftrightarrow> (\<forall>r \<in> set rs. caseless r)"
  by (induction rs rule: seqs.induct) auto

lemma caseless_lit_i [simp]: "caseless (lit_i s)"
  by (simp add: lit_i_def)

lemma caseless_then_later [simp]: "caseless (then_later a b)"
  by (auto simp: then_later_def)

lemma caseless_plus [simp]: "caseless (plus r) \<longleftrightarrow> caseless r"
  by (simp add: plus_def)

lemma caseless_imp_head: "caseless r \<Longrightarrow> caseless_head r"
  by (cases r rule: caseless_head.cases) auto

lemma caseless_ch: "to_upper c = c \<Longrightarrow> \<forall>d. to_upper d = c \<longleftrightarrow> d = c \<Longrightarrow> caseless (ch c)"
  by (simp add: ch_def)

lemma to_upper_eq_iff:
  "\<not> is_upper c \<Longrightarrow> \<not> is_lower c \<Longrightarrow> to_upper d = c \<longleftrightarrow> d = c"
proof -
  assume c: "\<not> is_upper c" "\<not> is_lower c"
  have "code_unit (to_upper d) = code_unit c \<longleftrightarrow> code_unit d = code_unit c"
    using c by (auto simp: code_unit_to_upper is_upper_def is_lower_def)
  then show ?thesis by simp
qed

lemma caseless_ch_nonletter: "\<not> is_upper c \<Longrightarrow> \<not> is_lower c \<Longrightarrow> caseless (ch c)"
  by (simp add: ch_def to_upper_eq_iff)

lemma caseless_head_source_ref:
  "\<not> is_upper c \<Longrightarrow> \<not> is_lower c \<Longrightarrow> caseless_head (source_ref (c # d # ext))"
  by (simp add: source_ref_def ch_def to_upper_eq_iff)

lemma test_end_capitalizeFirst:
  assumes "caseless r"
  shows "test (find_end r) (capitalizeFirst s) = test (find_end r) s"
proof (cases s)
  case (Cons c t)
  have swap: "\<exists>x u. d' # t = x @ u \<and> matches r u"
    if "d # t = x @ u" "matches r u" "to_upper d = to_upper d'" for d d' x u
  proof (cases x)
    case Nil
    with that have "matches r (d' # t)"
      using matches_upper_head [OF caseless_imp_head [OF assms]] by auto
    then show ?thesis by (metis append_Nil)
  next
    case (Cons e x')
    with that have "d' # t = (d' # x') @ u" by simp
    with that(2) show ?thesis by blast
  qed
  show ?thesis unfolding test_find_end Cons capitalizeFirst_simps
    using swap [of "to_upper c" _ _ c] swap [of c _ _ "to_upper c"] by auto
qed simp

lemma unsafePatterns_capitalizeFirst:
  "p \<in> set unsafePatterns \<Longrightarrow> test p (capitalizeFirst s) = test p s"
  by (auto simp: unsafePatterns_def caseless_ch_nonletter
      intro!: test_capitalizeFirst intro: caseless_head_source_ref caseless_imp_head)

lemma isSafeMessage_capitalizeFirst [simp]:
  "isSafeMessage (capitalizeFirst s) = isSafeMessage s"
  unfolding isSafeMessage_def
  by (auto simp: list_ex_iff unsafePatterns_capitalizeFirst)

lemma ERROR_PATTERNS_capitalizeFirst:
  "(p, f) \<in> set ERROR_PATTERNS \<Longrightarrow> test p (capitalizeFirst s) = test p s"
  by (auto simp: ERROR_PATTERNS_def caseless_ch_nonletter
      intro!: test_capitalizeFirst test_end_capitalizeFirst caseless_imp_head)

lemma first_match_cong:
  "(\<And>p f. (p, f) \<in> set ps \<Longrightarrow> test p s = test p s') \<Longrightarrow> first_match ps s = first_match ps s'"
proof (induction ps)
  case (Cons a ps)
  then have "first_match ps s = first_match ps s'" by (meson list.set_intros(2))
  with Cons.prems [of "fst a" "snd a"] show ?case by (cases a) simp
qed simp

lemma first_match_capitalizeFirst [simp]:
  "first_match ERROR_PATTERNS (capitalizeFirst s) = first_match ERROR_PATTERNS s"
  by (rule first_match_cong) (rule ERROR_PATTERNS_capitalizeFirst)

lemma first_match_in: "first_match ps s = Some f \<Longrightarrow> f \<in> snd ` set ps"
  by (induction ps) (auto split: if_splits)

section \<open>The friendly messages themselves\<close>

definition friendly_messages :: "string list" where
  "friendly_messages = remdups (map snd ERROR_PATTERNS)"

lemma matches_then_later:
  "matches (then_later a b) u \<longleftrightarrow>
     (\<exists>x m y. u = x @ m @ y \<and> map to_lower x = map to_lower a \<and> map to_lower y = map to_lower b \<and>
        (\<forall>c \<in> set m. not_newline c))"
proof -
  have "matches (then_later a b) u \<longleftrightarrow>
      (\<exists>x m y. u = x @ m @ y \<and> matches (lit_i a) x \<and> matches (seqs [Star anyc]) m \<and> matches (lit_i b) y)"
    unfolding then_later_def matches_seqs_append lit_i_def by metis
  then show ?thesis unfolding matches_lit_i by (auto simp: anyc_def matches_Star_Cls)
qed

lemma test_then_later:
  "test (find_rx (then_later a b)) s =
     occurs_later (map to_lower a) (map to_lower b) (map to_lower s)"
proof
  assume "test (find_rx (then_later a b)) s"
  then obtain p x m y q where "s = p @ (x @ m @ y) @ q" "map to_lower x = map to_lower a"
    "map to_lower y = map to_lower b" "\<forall>c \<in> set m. not_newline c"
    unfolding test_find matches_then_later by blast
  then have "map to_lower s = map to_lower p @ map to_lower a @ map to_lower m @ map to_lower b @
      map to_lower q \<and> (\<forall>c \<in> set (map to_lower m). not_newline c)" by simp
  then show "occurs_later (map to_lower a) (map to_lower b) (map to_lower s)"
    unfolding occurs_later_iff by blast
next
  assume "occurs_later (map to_lower a) (map to_lower b) (map to_lower s)"
  then obtain P M Q where s: "map to_lower s = P @ map to_lower a @ M @ map to_lower b @ Q"
    and M: "\<forall>c \<in> set M. not_newline c" by (auto simp: occurs_later_iff)
  from s obtain p r where 1: "s = p @ r" "map to_lower r = map to_lower a @ M @ map to_lower b @ Q"
    by (rule map_eq_appendE)
  from 1(2) obtain x r' where 2: "r = x @ r'" "map to_lower x = map to_lower a"
    "map to_lower r' = M @ map to_lower b @ Q" by (rule map_eq_appendE)
  from 2(3) obtain m r'' where 3: "r' = m @ r''" "map to_lower m = M"
    "map to_lower r'' = map to_lower b @ Q" by (rule map_eq_appendE)
  from 3(3) obtain y q where 4: "r'' = y @ q" "map to_lower y = map to_lower b"
    by (rule map_eq_appendE)
  from 1 2 3 4 have "s = p @ (x @ m @ y) @ q" by simp
  moreover from M 3(2) have "\<forall>c \<in> set m. not_newline c" by auto
  ultimately show "test (find_rx (then_later a b)) s"
    using 2(2) 4(2) unfolding test_find matches_then_later by blast
qed

lemmas fast_tests = test_lit_i test_then_later

lemma friendly_list:
  "friendly_messages =
    [''You do not have permission to perform this action.'',
     ''Invalid email or password.'',
     ''This account has been disabled. Contact your administrator.'',
     ''An account with this email already exists.'',
     ''This reset link is invalid or has expired. Please request a new one.'',
     ''Your session has expired. Please sign in again.'',
     ''Your session is invalid. Please sign in again.'',
     ''You must change your password before continuing.'',
     ''Too many requests. Please wait a moment and try again.'',
     ''Unable to connect to the server. Check your network connection.'',
     ''A network error occurred. Please check your connection and try again.'',
     ''The request timed out. Please try again.'',
     ''The request was cancelled.'',
     ''An unexpected server error occurred. Please try again later.'',
     ''The request could not be completed. Please try again.'',
     ''The request was invalid. Please check your input.'',
     ''A conflict occurred. The resource may have been modified by someone else.'',
     ''The uploaded data is too large.'']"
  unfolding friendly_messages_def ERROR_PATTERNS_def list.map snd_conv
  by simp

definition connection_message :: string where
  "connection_message = ''Unable to connect to the server. Check your network connection.''"

definition network_message :: string where
  "network_message = ''A network error occurred. Please check your connection and try again.''"

text \<open>
  Every friendly message but one is left alone by a further pass: no pattern matches it, or
  the first one that does has it as its own message.
\<close>

abbreviation own_message :: "string \<Rightarrow> bool" where
  "own_message m \<equiv>
     (case first_match ERROR_PATTERNS m of None \<Rightarrow> capitalizeFirst m = m | Some f \<Rightarrow> f = m)"

lemma own_message_1: "list_all own_message (take 9 friendly_messages)"
  unfolding friendly_list ERROR_PATTERNS_def first_match.simps fast_tests by code_simp

lemma own_message_2: "list_all own_message (take 4 (drop 10 friendly_messages))"
  unfolding friendly_list ERROR_PATTERNS_def first_match.simps fast_tests by code_simp

lemma own_message_3: "list_all own_message (generic_message # drop 14 friendly_messages)"
  unfolding friendly_list ERROR_PATTERNS_def first_match.simps fast_tests by code_simp

lemma generic_safe: "isSafeMessage generic_message"
  unfolding isSafeMessage_def unsafePatterns_def fast_tests list_ex_Cons_iff list_ex_Nil_iff by code_simp

lemma friendly_safe_1: "list_all isSafeMessage (take 8 friendly_messages)"
  unfolding friendly_list isSafeMessage_def unsafePatterns_def fast_tests list_ex_Cons_iff list_ex_Nil_iff by code_simp

lemma friendly_safe_2: "list_all isSafeMessage (drop 8 friendly_messages)"
  unfolding friendly_list isSafeMessage_def unsafePatterns_def fast_tests list_ex_Cons_iff list_ex_Nil_iff by code_simp

lemma friendly_safe: "m \<in> set friendly_messages \<Longrightarrow> isSafeMessage m"
proof -
  have "list_all isSafeMessage (take 8 friendly_messages @ drop 8 friendly_messages)"
    unfolding list_all_append using friendly_safe_1 friendly_safe_2 by blast
  then show "m \<in> set friendly_messages \<Longrightarrow> isSafeMessage m"
    unfolding append_take_drop_id list_all_iff by blast
qed

lemma sanitize_own: "own_message m \<Longrightarrow> isSafeMessage m \<Longrightarrow> sanitizeErrorMessage (ErrorObj m) fb = m"
  by (simp add: sanitizeErrorMessage_def split: option.splits)

lemma friendly_split:
  "friendly_messages = take 9 friendly_messages @ [connection_message] @
     take 4 (drop 10 friendly_messages) @ drop 14 friendly_messages"
  unfolding friendly_list connection_message_def by simp

lemma connection_once:
  "sanitizeErrorMessage (ErrorObj connection_message) None = network_message"
proof -
  have "first_match ERROR_PATTERNS connection_message = Some network_message"
    unfolding ERROR_PATTERNS_def first_match.simps fast_tests by code_simp
  then show ?thesis by (simp add: sanitizeErrorMessage_def)
qed

lemma network_own: "own_message network_message"
proof -
  have "network_message \<in> set (take 4 (drop 10 friendly_messages))"
    unfolding friendly_list network_message_def by simp
  with own_message_2 [unfolded list_all_iff] show ?thesis by (rule bspec)
qed

lemma network_safe: "isSafeMessage network_message"
  by (rule friendly_safe) (simp add: friendly_list network_message_def)

lemma generic_settles: "sanitizeErrorMessage (ErrorObj generic_message) fb = generic_message"
  using own_message_3 generic_safe by (simp add: sanitize_own)

lemma friendly_settles:
  assumes "m \<in> set friendly_messages"
  shows "sanitizeErrorMessage (ErrorObj m) None = m \<or>
    (m = connection_message \<and> sanitizeErrorMessage (ErrorObj m) None = network_message)"
proof -
  have "m \<in> set (take 9 friendly_messages @ [connection_message] @
     take 4 (drop 10 friendly_messages) @ drop 14 friendly_messages)"
    using assms friendly_split by metis
  then consider "m = connection_message" | "own_message m"
    using own_message_1 own_message_2 own_message_3 unfolding list_all_iff set_append
    by auto
  then show ?thesis
    using connection_once friendly_safe [OF assms] by cases (auto simp: sanitize_own)
qed

lemma settles_twice:
  assumes "m \<in> set friendly_messages"
  shows "sanitizeErrorMessage (ErrorObj (sanitizeErrorMessage (ErrorObj m) None)) None =
    sanitizeErrorMessage (ErrorObj m) None"
  using friendly_settles [OF assms] sanitize_own [OF network_own network_safe] by auto

lemma friendly_in_list: "f \<in> snd ` set ERROR_PATTERNS \<Longrightarrow> f \<in> set friendly_messages"
  by (simp add: friendly_messages_def)

lemma sanitize_cases [case_names friendly safe unsafe]:
  obtains f where "f \<in> set friendly_messages" "sanitizeErrorMessage e fb = f"
  | "first_match ERROR_PATTERNS (extractRawMessage e) = None"
    "isSafeMessage (extractRawMessage e)"
    "sanitizeErrorMessage e fb = capitalizeFirst (extractRawMessage e)"
  | "\<not> isSafeMessage (extractRawMessage e)"
    "sanitizeErrorMessage e fb = (case fb of Some m \<Rightarrow> m | None \<Rightarrow> generic_message)"
proof (cases "first_match ERROR_PATTERNS (extractRawMessage e)")
  case None
  then show ?thesis using that by (cases "isSafeMessage (extractRawMessage e)")
      (auto simp: sanitizeErrorMessage_def)
next
  case (Some f)
  then have "f \<in> set friendly_messages" by (intro friendly_in_list first_match_in)
  with Some show ?thesis by (intro that(1)) (auto simp: sanitizeErrorMessage_def)
qed

lemma sanitized_safe: "isSafeMessage (sanitizeErrorMessage e None)"
proof (cases e "None :: string option" rule: sanitize_cases)
  case (friendly f)
  then show ?thesis by (simp add: friendly_safe)
qed (simp_all add: generic_safe)

section \<open>Properties\<close>


lemma sanitize_capital:
  assumes "first_match ERROR_PATTERNS s = None" and "isSafeMessage s"
  shows "sanitizeErrorMessage (ErrorObj (capitalizeFirst s)) fb = capitalizeFirst s"
  using assms by (simp add: sanitizeErrorMessage_def)

text \<open>Sanitizing is applied twice on the way from the HTTP client to a toast (once in
  \<open>fetchApi\<close>, once in the \<open>onError\<close> handler); after the second pass the text is
  stable, a third pass changes nothing.\<close>

theorem sanitize_stable_after_two:
  "sanitizeErrorMessage (ErrorObj (sanitizeErrorMessage (ErrorObj
      (sanitizeErrorMessage e None)) None)) None =
   sanitizeErrorMessage (ErrorObj (sanitizeErrorMessage e None)) None"
proof (cases e "None :: string option" rule: sanitize_cases)
  case (friendly f)
  then show ?thesis by (simp add: settles_twice)
next
  case safe
  then show ?thesis by (simp add: sanitize_capital)
next
  case unsafe
  with generic_settles show ?thesis by simp
qed

text \<open>One pass is not enough: the message for a failed connection contains the word
  ``network'' and a second pass turns it into the message for a network error, so an error
  that is sanitized twice loses the more precise text.\<close>

theorem sanitize_not_idempotent:
  "sanitizeErrorMessage (ErrorObj (sanitizeErrorMessage (ErrorObj ''Failed to fetch'') None)) None
     \<noteq> sanitizeErrorMessage (ErrorObj ''Failed to fetch'') None"
proof -
  have "first_match ERROR_PATTERNS ''Failed to fetch'' = Some connection_message"
    unfolding ERROR_PATTERNS_def first_match.simps fast_tests by code_simp
  then have "sanitizeErrorMessage (ErrorObj ''Failed to fetch'') None = connection_message"
    by (simp add: sanitizeErrorMessage_def)
  moreover have "network_message \<noteq> connection_message"
    by (simp add: network_message_def connection_message_def)
  ultimately show ?thesis by (simp add: connection_once)
qed

section \<open>The rate-limit message\<close>

lemma occurs_skip: "y \<notin> set d \<Longrightarrow> occurs (y # w) (d @ s) = occurs (y # w) s"
proof (induction d)
  case (Cons c d)
  then have "\<not> begins (y # w) (c # d @ s)" by auto
  with Cons show ?case by simp
qed simp

lemma occurs_later_skip:
  "y \<notin> set d \<Longrightarrow> occurs_later (y # v) w (d @ s) = occurs_later (y # v) w s"
proof (induction d)
  case (Cons c d)
  then have "\<not> begins (y # v) (c # d @ s)" by auto
  with Cons show ?case by simp
qed simp

text \<open>The message \<open>fetchApi\<close> throws for status 429, for a numeric Retry-After.\<close>

definition rate_limit_message :: "int \<Rightarrow> string" where
  "rate_limit_message n = ''Rate limited. Please try again in '' @ show_int n @ '' second'' @
     (if n \<noteq> 1 then ''s'' else []) @ ''.''"

lemma rate_limit_matched:
  "first_match ERROR_PATTERNS (rate_limit_message n) =
     Some ''Too many requests. Please wait a moment and try again.''"
proof -
  obtain d where d: "map to_lower (show_int n) = d" by simp
  have no: "y \<notin> set d" if "is_lower y" for y
  proof
    assume "y \<in> set d"
    then obtain c where "c \<in> set (show_int n)" "y = to_lower c" by (auto simp: d [symmetric])
    then have "code_unit y = code_unit c" "is_digit c \<or> c = CHR ''-''"
      by (auto dest!: show_int_chars simp: code_unit_to_lower is_upper_def is_digit_def)
    with that show False by (auto simp: is_lower_def is_digit_def)
  qed
  have low: "map to_lower (rate_limit_message n) = ''rate limited. please try again in '' @ d @
      (if n = 1 then '' second.'' else '' seconds.'')"
    by (simp add: rate_limit_message_def d)
  show ?thesis
    unfolding ERROR_PATTERNS_def first_match.simps fast_tests low
    by (cases "n = 1") (simp_all add: occurs_skip occurs_later_skip no)
qed

text \<open>The number of seconds that \<open>fetchApi\<close> puts into its rate-limit error never
  reaches the user through a mutation's error handler: the sanitizer's own rate-limit pattern
  matches the message and replaces it, for every number and whatever the handler's fallback.\<close>

theorem rate_limit_seconds_lost:
  "sanitizeErrorMessage (ErrorObj (rate_limit_message n)) fb =
     ''Too many requests. Please wait a moment and try again.''"
  by (simp add: sanitizeErrorMessage_def rate_limit_matched)

end
