(* ===== verification/Json.thy ===== *)
theory Json
  imports Prelude
begin

text \<open>
  The values the frontend exchanges with the backend: parsed JSON, read with the property
  access, truthiness and string conversion of JavaScript. A value that may be
  \<open>undefined\<close> is a \<^typ>\<open>'a option\<close> with \<^term>\<open>None\<close> for \<open>undefined\<close>. Numbers are
  integers: every number the modelled code inspects is a count, an index or a status. A number
  that was written with a fraction or an exponent is kept as its literal.
\<close>

datatype json =
    JNull
  | JBool bool
  | JNum int
  | JFlt string
  | JStr string
  | JArr "json list"
  | JObj "(string \<times> json) list"

text \<open>\<open>v?.k\<close>: \<open>undefined\<close> on \<open>null\<close>, on \<open>undefined\<close> and on values without the property.\<close>

fun opt_prop :: "json option \<Rightarrow> string \<Rightarrow> json option" where
  "opt_prop (Some (JObj kvs)) k = map_of kvs k"
| "opt_prop v k = None"

text \<open>\<open>v.k\<close> throws a \<open>TypeError\<close> on \<open>null\<close> and \<open>undefined\<close>: the outer option is \<open>None\<close> then.\<close>

fun get_prop :: "json option \<Rightarrow> string \<Rightarrow> json option option" where
  "get_prop None k = None"
| "get_prop (Some JNull) k = None"
| "get_prop v k = Some (opt_prop v k)"

fun nullish :: "json option \<Rightarrow> bool" where
  "nullish None = True"
| "nullish (Some JNull) = True"
| "nullish _ = False"

fun truthy :: "json option \<Rightarrow> bool" where
  "truthy None = False"
| "truthy (Some JNull) = False"
| "truthy (Some (JBool b)) = b"
| "truthy (Some (JNum n)) = (n \<noteq> 0)"
| "truthy (Some (JFlt l)) = list_ex (\<lambda>c. is_digit c \<and> digit_value c \<noteq> 0)
     (takeWhile (\<lambda>c. is_digit c \<or> c = CHR ''-'' \<or> c = CHR ''.'') l)"
| "truthy (Some (JStr s)) = (s \<noteq> [])"
| "truthy (Some (JArr xs)) = True"
| "truthy (Some (JObj kvs)) = True"

text \<open>\<open>String(v)\<close>; the elements of an array are joined with commas, \<open>null\<close> ones as empty.\<close>

function js_string :: "json \<Rightarrow> string" where
  "js_string JNull = ''null''"
| "js_string (JBool b) = (if b then ''true'' else ''false'')"
| "js_string (JNum n) = show_int n"
| "js_string (JFlt l) = l"
| "js_string (JStr s) = s"
| "js_string (JArr xs) = join_with '','' (map (\<lambda>x. if x = JNull then [] else js_string x) xs)"
| "js_string (JObj kvs) = ''[object Object]''"
  by pat_completeness auto
termination
  by (relation "measure size") (auto simp: less_Suc_eq_le intro: size_list_estimation')

definition js_string_opt :: "json option \<Rightarrow> string" where
  "js_string_opt v = (case v of None \<Rightarrow> ''undefined'' | Some j \<Rightarrow> js_string j)"

text \<open>An object literal with optional members: \<open>JSON.stringify\<close> drops the undefined ones.\<close>

fun obj_of :: "(string \<times> json option) list \<Rightarrow> (string \<times> json) list" where
  "obj_of [] = []"
| "obj_of ((k, None) # kvs) = obj_of kvs"
| "obj_of ((k, Some v) # kvs) = (k, v) # obj_of kvs"

lemma obj_of_keys: "k \<notin> fst ` set kvs \<Longrightarrow> k \<notin> fst ` set (obj_of kvs)"
  by (induction kvs rule: obj_of.induct) auto

lemma obj_of_distinct: "distinct (map fst kvs) \<Longrightarrow> distinct (map fst (obj_of kvs))"
  by (induction kvs rule: obj_of.induct) (auto simp: obj_of_keys)

lemma map_of_obj_of:
  "distinct (map fst kvs) \<Longrightarrow> map_of (obj_of kvs) k = Option.bind (map_of kvs k) id"
proof (induction kvs rule: obj_of.induct)
  case (2 j kvs)
  then have "map_of kvs j = None" by (simp add: map_of_eq_None_iff)
  with 2 show ?case by auto
qed auto

lemma truthy_not_nullish: "truthy v \<Longrightarrow> \<not> nullish v"
  by (cases v rule: truthy.cases) auto

lemma js_string_opt_Str [simp]: "js_string_opt (Some (JStr s)) = s"
  by (simp add: js_string_opt_def)

end
