(* ===== verification/Kv_Store.thy ===== *)
theory Kv_Store
  imports Main
begin

text \<open>
  The interface the HTTP client expects of the browser's key-value stores: localStorage,
  and the cookie jar as far as the origin lets the page write it. The laws say what a read
  returns after a write; \<open>ok\<close> is what the store needs for them to hold.
\<close>

locale kv_store =
  fixes get :: "'s \<Rightarrow> 'k \<Rightarrow> 'v option"
    and put :: "'k \<Rightarrow> 'v \<Rightarrow> 's \<Rightarrow> 's"
    and del :: "'k \<Rightarrow> 's \<Rightarrow> 's"
    and ok :: "'s \<Rightarrow> bool"
  assumes get_put: "ok s \<Longrightarrow> get (put k v s) j = (if j = k then Some v else get s j)"
    and get_del: "ok s \<Longrightarrow> get (del k s) j = (if j = k then None else get s j)"
    and ok_put: "ok s \<Longrightarrow> ok (put k v s)"
    and ok_del: "ok s \<Longrightarrow> ok (del k s)"
begin

lemma ok_put_all: "ok s \<Longrightarrow> ok (fold (\<lambda>(k, v). put k v) kvs s)"
  by (induction kvs arbitrary: s) (auto simp: ok_put)

lemma ok_del_all: "ok s \<Longrightarrow> ok (fold del ks s)"
  by (induction ks arbitrary: s) (auto simp: ok_del)

text \<open>A sequence of writes: the last one to a key wins, other keys keep their values.\<close>

lemma get_put_all:
  "ok s \<Longrightarrow> get (fold (\<lambda>(k, v). put k v) kvs s) j =
     (case map_of (rev kvs) j of Some v \<Rightarrow> Some v | None \<Rightarrow> get s j)"
proof (induction kvs arbitrary: s)
  case (Cons kv kvs)
  then show ?case
    by (cases kv) (auto simp: ok_put get_put map_add_def split: option.splits)
qed simp

lemma get_del_all: "ok s \<Longrightarrow> get (fold del ks s) j = (if j \<in> set ks then None else get s j)"
  by (induction ks arbitrary: s) (auto simp: ok_del get_del)

lemma get_put_del: "ok s \<Longrightarrow> get (del k (put k v s)) j = (if j = k then None else get s j)"
  by (simp add: get_put get_del ok_put)

lemma get_overwrite: "ok s \<Longrightarrow> get (put k v (put k u s)) j = get (put k v s) j"
  by (simp add: get_put ok_put)

end

end
