(* ===== verification/Browser.thy ===== *)
theory Browser
  imports Sanitizer Json Kv_Store "HOL-Library.AList"
begin

text \<open>
  The page's side of \<open>src/frontend/src/core/http.ts\<close>: localStorage, the cookie jar with the
  hint cookies, the stored tokens and workspace, and the CSRF token read from the cookies.
  The browser's stores and the module's variables are fields of a record; the backend is an
  arbitrary function from the requests it has seen and the next request to an answer.
\<close>

section \<open>The world of a page\<close>

record request =
  req_url :: string
  req_method :: string
  req_headers :: "(string \<times> string) list"
  req_body :: "json option"

record response =
  status :: nat
  resp_headers :: "string \<Rightarrow> string option"
  payload :: "json option"   \<comment> \<open>\<^term>\<open>None\<close>: \<open>response.json()\<close> rejects\<close>

record cookie =
  ck_name :: string
  ck_value :: string
  ck_secure :: bool

record http_world =
  ls :: "string \<Rightarrow> string option"
  jar :: "cookie list"
  protocol :: string
  secureOrigin :: bool            \<comment> \<open>the browser accepts \<open>Secure\<close> cookies from the page\<close>
  windowDefined :: bool           \<comment> \<open>false while rendering on the server\<close>
  env_api_url :: "string option"  \<comment> \<open>\<open>NEXT_PUBLIC_API_URL\<close>\<close>
  isRefreshing :: bool
  refreshPromise :: "bool option" \<comment> \<open>the promise, as the value it settles with\<close>
  sent :: "request list"

text \<open>The answer to a fetch: rejected with an error message, or a response.\<close>

type_synonym server = "request list \<Rightarrow> request \<Rightarrow> string + response"

definition ok_status :: "response \<Rightarrow> bool" where
  "ok_status r \<longleftrightarrow> 200 \<le> status r \<and> status r \<le> 299"

definition net_fetch ::
  "server \<Rightarrow> request \<Rightarrow> 'a http_world_scheme \<Rightarrow> (string + response) \<times> 'a http_world_scheme" where
  "net_fetch srv r w = (srv (sent w) r, w\<lparr>sent := sent w @ [r]\<rparr>)"

definition apiBaseUrl :: "'a http_world_scheme \<Rightarrow> string" where
  "apiBaseUrl w = (case env_api_url w of Some u \<Rightarrow> u | None \<Rightarrow> ''http://localhost:8080'')"

section \<open>Storage and cookies of the browser\<close>

definition getItem :: "'a http_world_scheme \<Rightarrow> string \<Rightarrow> string option" where
  "getItem w k = ls w k"

definition setItem :: "string \<Rightarrow> string \<Rightarrow> 'a http_world_scheme \<Rightarrow> 'a http_world_scheme" where
  "setItem k v w = w\<lparr>ls := (ls w)(k \<mapsto> v)\<rparr>"

definition removeItem :: "string \<Rightarrow> 'a http_world_scheme \<Rightarrow> 'a http_world_scheme" where
  "removeItem k w = w\<lparr>ls := (ls w)(k := None)\<rparr>"

fun put_cookie :: "cookie \<Rightarrow> cookie list \<Rightarrow> cookie list" where
  "put_cookie c [] = [c]"
| "put_cookie c (d # ds) = (if ck_name d = ck_name c then c # ds else d # put_cookie c ds)"

definition drop_cookie :: "string \<Rightarrow> cookie list \<Rightarrow> cookie list" where
  "drop_cookie n cs = filter (\<lambda>c. ck_name c \<noteq> n) cs"

text \<open>
  Assigning to \<open>document.cookie\<close>. A browser ignores a cookie with the \<open>Secure\<close> attribute
  from an origin that is not secure, and does not let such an origin overwrite a secure
  cookie; a \<open>max-age\<close> of zero deletes. (RFC 6265bis, section 5.7.)
\<close>

definition assign_cookie ::
  "string \<Rightarrow> string \<Rightarrow> int \<Rightarrow> bool \<Rightarrow> 'a http_world_scheme \<Rightarrow> 'a http_world_scheme" where
  "assign_cookie n v maxAge secure w =
     (if secure \<and> \<not> secureOrigin w then w
      else if \<not> secureOrigin w \<and> list_ex (\<lambda>c. ck_name c = n \<and> ck_secure c) (jar w) then w
      else if maxAge \<le> 0 then w\<lparr>jar := drop_cookie n (jar w)\<rparr>
      else w\<lparr>jar := put_cookie \<lparr>ck_name = n, ck_value = v, ck_secure = secure\<rparr> (jar w)\<rparr>)"

definition find_cookie :: "string \<Rightarrow> cookie list \<Rightarrow> string option" where
  "find_cookie n cs = map_option ck_value (find (\<lambda>c. ck_name c = n) cs)"

definition cookie :: "'a http_world_scheme \<Rightarrow> string \<Rightarrow> string option" where
  "cookie w n = find_cookie n (jar w)"

text \<open>Reading \<open>document.cookie\<close>.\<close>

definition cookie_string :: "cookie list \<Rightarrow> string" where
  "cookie_string cs = join_with ''; '' (map (\<lambda>c. ck_name c @ ''='' @ ck_value c) cs)"

section \<open>Tokens, workspace and hints\<close>

definition TOKEN_KEY :: string where "TOKEN_KEY = ''vmx_access_token''"
definition REFRESH_TOKEN_KEY :: string where "REFRESH_TOKEN_KEY = ''vmx_refresh_token''"
definition WORKSPACE_ID_KEY :: string where "WORKSPACE_ID_KEY = ''vmx_current_workspace_id''"
definition AUTH_HINT :: string where "AUTH_HINT = ''vmx_authenticated''"
definition ADMIN_HINT :: string where "ADMIN_HINT = ''vmx_super_admin''"

lemmas key_defs = TOKEN_KEY_def REFRESH_TOKEN_KEY_def WORKSPACE_ID_KEY_def
lemmas hint_defs = AUTH_HINT_def ADMIN_HINT_def

definition getStoredAccessToken :: "'a http_world_scheme \<Rightarrow> string option" where
  "getStoredAccessToken w = (if \<not> windowDefined w then None else getItem w TOKEN_KEY)"

definition getStoredRefreshToken :: "'a http_world_scheme \<Rightarrow> string option" where
  "getStoredRefreshToken w = (if \<not> windowDefined w then None else getItem w REFRESH_TOKEN_KEY)"

definition storeTokens ::
  "string \<Rightarrow> string \<Rightarrow> 'a http_world_scheme \<Rightarrow> 'a http_world_scheme" where
  "storeTokens accessToken refreshToken w =
     (let w1 = setItem TOKEN_KEY accessToken w;
          w2 = setItem REFRESH_TOKEN_KEY refreshToken w1
      in assign_cookie AUTH_HINT ''1'' 604800 (protocol w2 = ''https:'') w2)"

definition clearTokens :: "'a http_world_scheme \<Rightarrow> 'a http_world_scheme" where
  "clearTokens w =
     (let w1 = removeItem TOKEN_KEY w;
          w2 = removeItem REFRESH_TOKEN_KEY w1;
          w3 = assign_cookie AUTH_HINT [] 0 True w2
      in assign_cookie ADMIN_HINT [] 0 True w3)"

definition setSuperAdminHint :: "bool \<Rightarrow> 'a http_world_scheme \<Rightarrow> 'a http_world_scheme" where
  "setSuperAdminHint isSuperAdmin w =
     (if isSuperAdmin then assign_cookie ADMIN_HINT ''1'' 604800 False w
      else assign_cookie ADMIN_HINT [] 0 False w)"

definition getStoredWorkspaceId :: "'a http_world_scheme \<Rightarrow> string option" where
  "getStoredWorkspaceId w =
     (if \<not> windowDefined w then None
      else case getItem w WORKSPACE_ID_KEY of None \<Rightarrow> None | Some v \<Rightarrow> if v = [] then None else Some v)"

definition storeWorkspaceId :: "string \<Rightarrow> 'a http_world_scheme \<Rightarrow> 'a http_world_scheme" where
  "storeWorkspaceId workspaceId w = setItem WORKSPACE_ID_KEY workspaceId w"

definition clearWorkspaceId :: "'a http_world_scheme \<Rightarrow> 'a http_world_scheme" where
  "clearWorkspaceId w = removeItem WORKSPACE_ID_KEY w"

section \<open>The stores meet the interface\<close>

interpretation storage: kv_store getItem setItem removeItem "\<lambda>_. True"
  by unfold_locales (auto simp: getItem_def setItem_def removeItem_def)

definition jar_ok :: "'a http_world_scheme \<Rightarrow> bool" where
  "jar_ok w \<longleftrightarrow> secureOrigin w \<and> distinct (map ck_name (jar w))"

lemma find_put_cookie:
  "find_cookie n (put_cookie c cs) = (if n = ck_name c then Some (ck_value c) else find_cookie n cs)"
  by (induction cs) (auto simp: find_cookie_def)

lemma find_drop_cookie:
  "find_cookie n (drop_cookie m cs) = (if n = m then None else find_cookie n cs)"
  by (induction cs) (auto simp: find_cookie_def drop_cookie_def)

lemma names_put_cookie: "ck_name ` set (put_cookie c cs) = insert (ck_name c) (ck_name ` set cs)"
  by (induction cs) auto

lemma distinct_put_cookie:
  "distinct (map ck_name cs) \<Longrightarrow> distinct (map ck_name (put_cookie c cs))"
  by (induction cs) (auto simp: names_put_cookie)

lemma distinct_drop_cookie:
  "distinct (map ck_name cs) \<Longrightarrow> distinct (map ck_name (drop_cookie n cs))"
  by (simp add: drop_cookie_def distinct_map_filter)

interpretation secure_jar: kv_store cookie "\<lambda>k v. assign_cookie k v 604800 s"
  "\<lambda>k. assign_cookie k [] 0 t" jar_ok for s t
  by unfold_locales
    (auto simp: cookie_def assign_cookie_def jar_ok_def find_put_cookie find_drop_cookie
      distinct_put_cookie distinct_drop_cookie)

text \<open>What writing to one store leaves alone in the rest of the world.\<close>

lemma setItem_frame [http_simps]:
  "jar (setItem k v w) = jar w" "protocol (setItem k v w) = protocol w"
  "secureOrigin (setItem k v w) = secureOrigin w" "windowDefined (setItem k v w) = windowDefined w"
  "sent (setItem k v w) = sent w" "cookie (setItem k v w) n = cookie w n"
  "isRefreshing (setItem k v w) = isRefreshing w"
  "refreshPromise (setItem k v w) = refreshPromise w" "env_api_url (setItem k v w) = env_api_url w"
  by (simp_all add: setItem_def cookie_def)

lemma removeItem_frame [http_simps]:
  "jar (removeItem k w) = jar w" "protocol (removeItem k w) = protocol w"
  "secureOrigin (removeItem k w) = secureOrigin w"
  "windowDefined (removeItem k w) = windowDefined w"
  "sent (removeItem k w) = sent w" "cookie (removeItem k w) n = cookie w n"
  "isRefreshing (removeItem k w) = isRefreshing w"
  "refreshPromise (removeItem k w) = refreshPromise w"
  "env_api_url (removeItem k w) = env_api_url w"
  by (simp_all add: removeItem_def cookie_def)

lemma assign_cookie_frame [http_simps]:
  "ls (assign_cookie n v m s w) = ls w" "protocol (assign_cookie n v m s w) = protocol w"
  "secureOrigin (assign_cookie n v m s w) = secureOrigin w"
  "windowDefined (assign_cookie n v m s w) = windowDefined w"
  "sent (assign_cookie n v m s w) = sent w"
  "getItem (assign_cookie n v m s w) k = getItem w k"
  "isRefreshing (assign_cookie n v m s w) = isRefreshing w"
  "refreshPromise (assign_cookie n v m s w) = refreshPromise w"
  "env_api_url (assign_cookie n v m s w) = env_api_url w"
  by (simp_all add: assign_cookie_def getItem_def)

lemmas storage_get [http_simps] = storage.get_put [OF TrueI] storage.get_del [OF TrueI]

lemmas session_defs = storeTokens_def clearTokens_def setSuperAdminHint_def storeWorkspaceId_def
  clearWorkspaceId_def getStoredAccessToken_def getStoredRefreshToken_def getStoredWorkspaceId_def

lemma session_frame [simp]:
  "sent (storeTokens a r w) = sent w" "sent (clearTokens w) = sent w"
  "sent (clearWorkspaceId w) = sent w" "sent (storeWorkspaceId i w) = sent w"
  "sent (setSuperAdminHint b w) = sent w"
  "windowDefined (storeTokens a r w) = windowDefined w" "windowDefined (clearTokens w) = windowDefined w"
  "windowDefined (clearWorkspaceId w) = windowDefined w"
  "windowDefined (storeWorkspaceId i w) = windowDefined w"
  "windowDefined (setSuperAdminHint b w) = windowDefined w"
  "secureOrigin (storeTokens a r w) = secureOrigin w" "secureOrigin (clearTokens w) = secureOrigin w"
  "secureOrigin (clearWorkspaceId w) = secureOrigin w"
  "secureOrigin (storeWorkspaceId i w) = secureOrigin w"
  "secureOrigin (setSuperAdminHint b w) = secureOrigin w"
  by (simp_all add: session_defs http_simps Let_def)

lemma getStored_after [simp]:
  "windowDefined w \<Longrightarrow> getStoredAccessToken (storeTokens a r w) = Some a"
  "windowDefined w \<Longrightarrow> getStoredRefreshToken (storeTokens a r w) = Some r"
  "getStoredAccessToken (clearTokens w) = None" "getStoredRefreshToken (clearTokens w) = None"
  "getStoredWorkspaceId (clearWorkspaceId w) = None"
  "getStoredWorkspaceId (storeTokens a r w) = getStoredWorkspaceId w"
  "getStoredWorkspaceId (clearTokens w) = getStoredWorkspaceId w"
  "getStoredAccessToken (clearWorkspaceId w) = getStoredAccessToken w"
  "getStoredRefreshToken (clearWorkspaceId w) = getStoredRefreshToken w"
  "getStoredAccessToken (storeWorkspaceId i w) = getStoredAccessToken w"
  "getStoredRefreshToken (storeWorkspaceId i w) = getStoredRefreshToken w"
  "getStoredAccessToken (setSuperAdminHint b w) = getStoredAccessToken w"
  "getStoredRefreshToken (setSuperAdminHint b w) = getStoredRefreshToken w"
  "getStoredWorkspaceId (setSuperAdminHint b w) = getStoredWorkspaceId w"
  by (simp_all add: session_defs http_simps key_defs Let_def)

lemma getStoredWorkspaceId_store:
  "windowDefined w \<Longrightarrow> getStoredWorkspaceId (storeWorkspaceId i w) = (if i = [] then None else Some i)"
  by (simp add: session_defs http_simps)

lemma cookie_clearTokens:
  assumes "jar_ok w"
  shows "cookie (clearTokens w) n = (if n \<in> {AUTH_HINT, ADMIN_HINT} then None else cookie w n)"
proof -
  have ok: "jar_ok (removeItem REFRESH_TOKEN_KEY (removeItem TOKEN_KEY w))"
    using assms by (simp add: jar_ok_def http_simps)
  show ?thesis
    unfolding clearTokens_def Let_def
    using secure_jar.get_del_all [OF ok, of True "[AUTH_HINT, ADMIN_HINT]" n]
    by (simp add: http_simps)
qed

lemma cookie_storeTokens:
  assumes "jar_ok w"
  shows "cookie (storeTokens a r w) n = (if n = AUTH_HINT then Some ''1'' else cookie w n)"
proof -
  have "jar_ok (setItem REFRESH_TOKEN_KEY r (setItem TOKEN_KEY a w))"
    using assms by (simp add: jar_ok_def http_simps)
  then show ?thesis
    unfolding storeTokens_def Let_def by (simp add: secure_jar.get_put http_simps)
qed

section \<open>The CSRF token\<close>

text \<open>
  \<open>document.cookie.match(/(?:^|;\s*)_csrf_token=([^;]+)/)\<close>: at each position the two
  alternatives are tried in order, and the first way to reach a non-empty capture wins.
\<close>

definition CSRF_COOKIE :: string where "CSRF_COOKIE = ''_csrf_token''"

definition csrf_capture :: "string list \<Rightarrow> string option" where
  "csrf_capture ts = find (\<lambda>v. v \<noteq> []) (map (takeWhile (\<lambda>c. c \<noteq> CHR '';'')) ts)"

definition csrf_at :: "bool \<Rightarrow> string \<Rightarrow> string option" where
  "csrf_at start s =
     csrf_capture ((if start then rests (lit (CSRF_COOKIE @ ''='')) s else []) @
       rests (Seq (ch CHR '';'') (Seq (Star space) (lit (CSRF_COOKIE @ ''='')))) s)"

fun csrf_search :: "bool \<Rightarrow> string \<Rightarrow> string option" where
  "csrf_search start [] = csrf_at start []"
| "csrf_search start (c # s) =
     (case csrf_at start (c # s) of Some v \<Rightarrow> Some v | None \<Rightarrow> csrf_search False s)"

definition getCsrfToken :: "'a http_world_scheme \<Rightarrow> string" where
  "getCsrfToken w =
     (if \<not> windowDefined w then []
      else case csrf_search True (cookie_string (jar w)) of Some v \<Rightarrow> v | None \<Rightarrow> [])"

definition CSRF_METHODS :: "string list" where
  "CSRF_METHODS = [''POST'', ''PUT'', ''PATCH'', ''DELETE'']"

section \<open>The CSRF token is the cookie's value\<close>

lemma rests_seqs_Cons: "rests (seqs (r # rs)) s = concat (map (rests (seqs rs)) (rests r s))"
proof (cases rs)
  case Nil
  have "concat (map (\<lambda>x. [x]) xs) = xs" for xs :: "string list" by (induction xs) auto
  moreover have "rests Empty = (\<lambda>x. [x])" by (rule ext) simp
  ultimately show ?thesis using Nil by simp
qed simp

lemma rests_lit: "rests (lit w) s = (if startsWith s w then [drop (length w) s] else [])"
proof (induction w arbitrary: s)
  case (Cons c w)
  show ?case
  proof (cases s)
    case Nil
    then show ?thesis by (simp add: lit_def rests_seqs_Cons ch_def del: seqs.simps)
  next
    case [simp]: (Cons d t)
    have "rests (lit (c # w)) s = (if d = c then rests (lit w) t else [])"
      by (simp add: lit_def rests_seqs_Cons ch_def del: seqs.simps)
    then show ?thesis by (simp add: Cons.IH)
  qed
qed (simp add: lit_def)

lemma rests_Star_Cls_Cons:
  "rests (Star (Cls p)) (c # s) = (if p c then rests (Star (Cls p)) s else []) @ [c # s]"
  by (subst rests.simps(5)) simp

lemma rests_Star_Nil: "rests (Star (Cls p)) [] = [[]]"
  by (subst rests.simps(5)) simp

lemma startsWith_upto_eq:
  "CHR ''='' \<notin> set a \<Longrightarrow> CHR ''='' \<notin> set b \<Longrightarrow>
     startsWith (a @ CHR ''='' # x) (b @ [CHR ''='']) \<longleftrightarrow> a = b"
proof (induction a arbitrary: b)
  case Nil
  then show ?case by (cases b) auto
next
  case (Cons c a)
  then show ?case by (cases b) auto
qed

text \<open>A cookie as it can be in the jar: no separator inside, a name that is not blank.\<close>

definition cookie_ok :: "cookie \<Rightarrow> bool" where
  "cookie_ok c \<longleftrightarrow> CHR '';'' \<notin> set (ck_name c) \<and> CHR '';'' \<notin> set (ck_value c) \<and>
     CHR ''='' \<notin> set (ck_name c) \<and> ck_name c \<noteq> [] \<and> \<not> is_space (hd (ck_name c))"

abbreviation cookie_part :: "cookie \<Rightarrow> string" where
  "cookie_part c \<equiv> ck_name c @ ''='' @ ck_value c"

lemma CSRF_COOKIE_no_eq: "CHR ''='' \<notin> set CSRF_COOKIE"
  by (simp add: CSRF_COOKIE_def)

lemma csrf_at_other: "c \<noteq> CHR '';'' \<Longrightarrow> csrf_at False (c # s) = None"
  by (simp add: csrf_at_def csrf_capture_def ch_def)

lemma csrf_search_skip: "CHR '';'' \<notin> set u \<Longrightarrow> csrf_search False (u @ s) = csrf_search False s"
  by (induction u) (auto simp: csrf_at_other)

lemma csrf_at_start:
  assumes "c \<noteq> CHR '';''"
  shows "csrf_at True (c # s) = csrf_capture (rests (lit (CSRF_COOKIE @ ''='')) (c # s))"
  using assms by (simp add: csrf_at_def ch_def)

lemma csrf_at_separator:
  assumes "\<not> is_space c"
  shows "csrf_at False (CHR '';'' # CHR '' '' # c # s) =
    csrf_capture (rests (lit (CSRF_COOKIE @ ''='')) (c # s))"
proof -
  have "rests (Star space) (CHR '' '' # c # s) = [c # s, CHR '' '' # c # s]"
    using assms by (simp add: space_def rests_Star_Cls_Cons)
  moreover have "rests (lit (CSRF_COOKIE @ ''='')) (CHR '' '' # c # s) = []"
    by (simp add: rests_lit CSRF_COOKIE_def)
  ultimately show ?thesis by (simp add: csrf_at_def ch_def)
qed

lemma csrf_search_separator:
  assumes "\<not> is_space c" "c \<noteq> CHR '';''"
  shows "csrf_search False (CHR '';'' # CHR '' '' # c # s) = csrf_search True (c # s)"
proof -
  have "csrf_search False (CHR '' '' # c # s) = csrf_search False s"
    using assms by (simp add: csrf_at_other)
  moreover have "csrf_at False (CHR '';'' # CHR '' '' # c # s) = csrf_at True (c # s)"
    using assms by (simp add: csrf_at_separator csrf_at_start)
  ultimately show ?thesis
    by (simp only: csrf_search.simps(2) [of False "CHR '';''"] csrf_search.simps(2) [of True])
qed

lemma csrf_capture_part:
  assumes "cookie_ok c" and "s = [] \<or> (\<exists>t. s = CHR '';'' # t)"
  shows "csrf_capture (rests (lit (CSRF_COOKIE @ ''='')) (cookie_part c @ s)) =
    (if ck_name c = CSRF_COOKIE \<and> ck_value c \<noteq> [] then Some (ck_value c) else None)"
proof -
  have st: "startsWith (cookie_part c @ s) (CSRF_COOKIE @ ''='') \<longleftrightarrow> ck_name c = CSRF_COOKIE"
    using startsWith_upto_eq [of "ck_name c" CSRF_COOKIE "ck_value c @ s"] assms CSRF_COOKIE_no_eq
    by (simp add: cookie_ok_def)
  have "takeWhile (\<lambda>x. x \<noteq> CHR '';'') (ck_value c @ s) = ck_value c"
  proof -
    have "\<forall>x \<in> set (ck_value c). x \<noteq> CHR '';''" using assms by (auto simp: cookie_ok_def)
    then have "takeWhile (\<lambda>x. x \<noteq> CHR '';'') (ck_value c @ s) =
        ck_value c @ takeWhile (\<lambda>x. x \<noteq> CHR '';'') s" by (intro takeWhile_append2) blast
    with assms(2) show ?thesis by auto
  qed
  with st show ?thesis by (auto simp: rests_lit csrf_capture_def)
qed

lemma csrf_search_jar:
  "list_all cookie_ok cs \<Longrightarrow>
     csrf_search True (cookie_string cs) =
       find (\<lambda>v. v \<noteq> []) (map ck_value (filter (\<lambda>c. ck_name c = CSRF_COOKIE) cs))"
proof (induction cs)
  case Nil
  then show ?case
    by (simp add: cookie_string_def csrf_at_def csrf_capture_def ch_def rests_lit CSRF_COOKIE_def)
next
  case (Cons c cs)
  let ?s = "if cs = [] then [] else CHR '';'' # CHR '' '' # cookie_string cs"
  have str: "cookie_string (c # cs) = cookie_part c @ ?s"
    by (cases cs) (auto simp: cookie_string_def)
  from Cons.prems obtain d t where dt: "cookie_part c = d # t" "\<not> is_space d" "d \<noteq> CHR '';''"
    "CHR '';'' \<notin> set t"
    by (cases "ck_name c") (auto simp: cookie_ok_def)
  have rest: "csrf_search False ?s = csrf_search True (cookie_string cs)" if "cs \<noteq> []"
  proof -
    from that obtain e es where cs: "cs = e # es" by (cases cs) auto
    with Cons.prems obtain x y where "cookie_string cs = x # y" "\<not> is_space x" "x \<noteq> CHR '';''"
      by (cases es; cases "ck_name e") (auto simp: cookie_ok_def cookie_string_def)
    with that show ?thesis by (simp add: csrf_search_separator del: csrf_search.simps)
  qed
  have none: "csrf_search False [] = None"
    by (simp add: csrf_at_def csrf_capture_def ch_def)
  have "csrf_search True (cookie_part c @ ?s) =
      (case csrf_capture (rests (lit (CSRF_COOKIE @ ''='')) (cookie_part c @ ?s)) of
         Some v \<Rightarrow> Some v | None \<Rightarrow> csrf_search False ?s)"
  proof -
    have "csrf_search False (t @ ?s) = csrf_search False ?s"
      using dt(4) by (rule csrf_search_skip)
    moreover have "cookie_part c @ ?s = d # t @ ?s" using dt(1) by simp
    ultimately show ?thesis
      by (simp only: csrf_search.simps(2) [of True] csrf_at_start [OF dt(3)])
  qed
  also have "\<dots> = (if ck_name c = CSRF_COOKIE \<and> ck_value c \<noteq> [] then Some (ck_value c)
      else csrf_search False ?s)"
    using Cons.prems by (subst csrf_capture_part) auto
  also have "\<dots> = find (\<lambda>v. v \<noteq> []) (map ck_value (filter (\<lambda>c. ck_name c = CSRF_COOKIE) (c # cs)))"
  proof (cases "cs = []")
    case True
    with none show ?thesis by simp
  next
    case False
    with rest Cons show ?thesis by simp
  qed
  finally show ?case by (simp add: str)
qed

lemma find_named_value:
  "distinct (map ck_name cs) \<Longrightarrow>
     (case find (\<lambda>v. v \<noteq> []) (map ck_value (filter (\<lambda>c. ck_name c = n) cs)) of
        Some v \<Rightarrow> v | None \<Rightarrow> []) =
     (case find_cookie n cs of Some v \<Rightarrow> v | None \<Rightarrow> [])"
proof (induction cs)
  case (Cons c cs)
  show ?case
  proof (cases "ck_name c = n")
    case True
    with Cons.prems have "filter (\<lambda>c. ck_name c = n) cs = []"
      by (auto simp: filter_empty_conv image_iff)
    with True show ?thesis by (simp add: find_cookie_def)
  next
    case False
    with Cons show ?thesis by (simp add: find_cookie_def)
  qed
qed (simp add: find_cookie_def)

text \<open>The regular expression that \<open>getCsrfToken\<close> runs over \<open>document.cookie\<close> finds exactly
  the value of the cookie \<open>_csrf_token\<close>, wherever it stands in the jar, and the empty string
  when there is none; values of other cookies are never taken for it.\<close>

theorem csrf_token_is_cookie:
  assumes "windowDefined w" and "list_all cookie_ok (jar w)" and "distinct (map ck_name (jar w))"
  shows "getCsrfToken w = (case cookie w CSRF_COOKIE of Some v \<Rightarrow> v | None \<Rightarrow> [])"
  using assms find_named_value [of "jar w" CSRF_COOKIE]
  by (simp add: getCsrfToken_def csrf_search_jar cookie_def split: option.splits)

definition csrf_demo :: http_world where
  "csrf_demo = \<lparr>ls = (\<lambda>_. None),
     jar = [\<lparr>ck_name = ''theme'', ck_value = ''_csrf_token=x'', ck_secure = False\<rparr>,
            \<lparr>ck_name = CSRF_COOKIE, ck_value = ''tok1'', ck_secure = True\<rparr>],
     protocol = ''https:'', secureOrigin = True, windowDefined = True, env_api_url = None,
     isRefreshing = False, refreshPromise = None, sent = []\<rparr>"

lemma csrf_token_is_cookie_witness: "getCsrfToken csrf_demo = ''tok1''"
  using csrf_token_is_cookie [of csrf_demo]
  by (simp add: csrf_demo_def cookie_def find_cookie_def CSRF_COOKIE_def cookie_ok_def)

end
