(* ===== verification/Http.thy ===== *)
theory Http
  imports Browser
begin

text \<open>
  The HTTP client of \<open>src/frontend/src/core/http.ts\<close>: \<open>attemptTokenRefresh\<close> and \<open>fetchApi\<close>, run
  to completion one call at a time. The interleaving of calls is the subject of the theory
  \<open>Refresh_Flight\<close>. Every request is sent with \<open>credentials: "include"\<close>, which the model
  leaves out.
\<close>

section \<open>Refreshing the access token\<close>

text \<open>The part of \<open>attemptTokenRefresh\<close> after the refresh request was answered.\<close>

definition refresh_answer :: "string + response \<Rightarrow> 'a http_world_scheme \<Rightarrow> bool \<times> 'a http_world_scheme" where
  "refresh_answer ans w =
     (case ans of
        Inl _ \<Rightarrow> (False, w)
      | Inr resp \<Rightarrow>
          (if \<not> ok_status resp then (False, w)
           else case payload resp of
               None \<Rightarrow> (False, w)
             | Some body \<Rightarrow>
                 (case get_prop (Some body) ''data'' of
                    None \<Rightarrow> (False, w)
                  | Some d \<Rightarrow>
                      (if truthy (opt_prop d ''accessToken'') \<and> truthy (opt_prop d ''refreshToken'')
                       then (True, storeTokens (js_string_opt (opt_prop d ''accessToken''))
                                     (js_string_opt (opt_prop d ''refreshToken'')) w)
                       else (False, w)))))"

definition refresh_request :: "string \<Rightarrow> 'a http_world_scheme \<Rightarrow> request" where
  "refresh_request refreshToken w =
     \<lparr>req_url = apiBaseUrl w @ ''/api/auth/refresh'', req_method = ''POST'',
      req_headers = [(''Content-Type'', ''application/json'')],
      req_body = Some (JObj [(''refreshToken'', JStr refreshToken)])\<rparr>"

text \<open>
  A refresh already under way is joined: its promise is awaited. Without a refresh token
  the inner function returns before its first suspension, so its \<open>finally\<close> runs first and the
  assignment to \<open>refreshPromise\<close> comes last and leaves the settled promise behind. Otherwise
  the assignment precedes the answer, and \<open>finally\<close> clears both variables.
\<close>

definition attemptTokenRefresh ::
  "server \<Rightarrow> 'a http_world_scheme \<Rightarrow> bool \<times> 'a http_world_scheme" where
  "attemptTokenRefresh srv w =
     (case (isRefreshing w, refreshPromise w) of
        (True, Some v) \<Rightarrow> (v, w)
      | _ \<Rightarrow>
          (let w1 = w\<lparr>isRefreshing := True\<rparr> in
           case getStoredRefreshToken w1 of
             None \<Rightarrow> (False, w1\<lparr>isRefreshing := False, refreshPromise := Some False\<rparr>)
           | Some t \<Rightarrow>
               (if t = [] then (False, w1\<lparr>isRefreshing := False, refreshPromise := Some False\<rparr>)
                else
                  let (ans, w2) = net_fetch srv (refresh_request t w1) w1;
                      (res, w3) = refresh_answer ans w2
                  in (res, w3\<lparr>isRefreshing := False, refreshPromise := None\<rparr>))))"

section \<open>\<open>fetchApi\<close>\<close>

record options =
  opt_method :: "string option"
  opt_headers :: "(string \<times> string) list"
  opt_body :: "json option"
  skipAuth :: bool

text \<open>\<open>parseInt(s, 10)\<close>: \<^term>\<open>None\<close> for \<open>NaN\<close>.\<close>

definition parseInt10 :: "string \<Rightarrow> int option" where
  "parseInt10 s =
     (let t = dropWhile is_space s;
          neg = (t \<noteq> [] \<and> hd t = CHR ''-'');
          u = (if t \<noteq> [] \<and> (hd t = CHR ''-'' \<or> hd t = CHR ''+'') then tl t else t);
          ds = takeWhile is_digit u
      in if ds = [] then None
         else Some (if neg then - int (read_nat ds) else int (read_nat ds)))"

definition rate_limited_error :: "string option \<Rightarrow> string" where
  "rate_limited_error retryAfter =
     (let seconds = (case retryAfter of None \<Rightarrow> Some 60
                     | Some s \<Rightarrow> if s = [] then Some 60 else parseInt10 s)
      in case seconds of
           None \<Rightarrow> ''Rate limited. Please try again in NaN seconds.''
         | Some n \<Rightarrow> rate_limit_message n)"

definition set_header :: "string \<Rightarrow> string option \<Rightarrow> (string \<times> string) list \<Rightarrow> (string \<times> string) list" where
  "set_header k v hs = (case v of None \<Rightarrow> hs | Some x \<Rightarrow> if x = [] then hs else AList.update k x hs)"

definition bearer :: "string option \<Rightarrow> string option" where
  "bearer t = (case t of None \<Rightarrow> None | Some x \<Rightarrow> if x = [] then None else Some (''Bearer '' @ x))"

definition method_of :: "options \<Rightarrow> string" where
  "method_of opts = (case opt_method opts of None \<Rightarrow> ''GET'' | Some m \<Rightarrow> m)"

definition build_headers :: "options \<Rightarrow> 'a http_world_scheme \<Rightarrow> (string \<times> string) list" where
  "build_headers opts w =
     (let h0 = fold (\<lambda>(k, v). AList.update k v) (opt_headers opts)
                 [(''Content-Type'', ''application/json'')];
          h1 = (if skipAuth opts then h0
                else set_header ''X-Workspace-ID'' (getStoredWorkspaceId w)
                       (set_header ''Authorization'' (bearer (getStoredAccessToken w)) h0))
      in if toUpperCase (method_of opts) \<in> set CSRF_METHODS
         then set_header ''X-CSRF-Token'' (Some (getCsrfToken w)) h1
         else h1)"

definition build_request ::
  "string \<Rightarrow> options \<Rightarrow> (string \<times> string) list \<Rightarrow> 'a http_world_scheme \<Rightarrow> request" where
  "build_request endpoint opts hs w =
     \<lparr>req_url = apiBaseUrl w @ endpoint, req_method = method_of opts, req_headers = hs,
      req_body = opt_body opts\<rparr>"

definition type_error_message :: string where
  "type_error_message = ''Cannot read properties of null (reading '' @ [CHR 0x27] @ ''error'' @
     [CHR 0x27] @ '')''"

definition api_error_text :: "nat \<Rightarrow> string" where
  "api_error_text n = ''API error: '' @ show_nat n"

text \<open>The message of a response that is not ok: \<open>body.error ?? `API error: ${status}`\<close>.\<close>

definition raw_error :: "nat \<Rightarrow> json option \<Rightarrow> thrown" where
  "raw_error n v =
     (case v of
        Some (JStr m) \<Rightarrow> StringVal m
      | None \<Rightarrow> StringVal (api_error_text n)
      | Some JNull \<Rightarrow> StringVal (api_error_text n)
      | Some _ \<Rightarrow> OtherVal)"

text \<open>From the final response to the result: rate limiting, no content, parsing, errors.\<close>

definition finish :: "response \<Rightarrow> thrown + json" where
  "finish resp =
     (if status resp = 429
      then Inl (ErrorObj (rate_limited_error (resp_headers resp ''Retry-After'')))
      else if status resp = 204 then Inr (JObj [(''data'', JNull), (''error'', JNull)])
      else case payload resp of
          None \<Rightarrow> Inl (ErrorObj (api_error_text (status resp)))
        | Some body \<Rightarrow>
            (if \<not> ok_status resp then
               (case get_prop (Some body) ''error'' of
                  None \<Rightarrow> Inl (ErrorObj type_error_message)
                | Some e \<Rightarrow>
                    Inl (ErrorObj (sanitizeErrorMessage (raw_error (status resp) e) None)))
             else Inr body))"

text \<open>
  \<open>onExpired\<close> is the listener of the event \<open>auth:session-expired\<close>, which runs inside
  \<open>dispatchEvent\<close>, before \<open>fetchApi\<close> goes on.
\<close>

definition fetchApi ::
  "server \<Rightarrow> ('a http_world_scheme \<Rightarrow> 'a http_world_scheme) \<Rightarrow> string \<Rightarrow> options \<Rightarrow>
   'a http_world_scheme \<Rightarrow> (thrown + json) \<times> 'a http_world_scheme" where
  "fetchApi srv onExpired endpoint opts w =
     (let headers = build_headers opts w;
          (ans, w1) = net_fetch srv (build_request endpoint opts headers w) w
      in case ans of
           Inl m \<Rightarrow> (Inl (ErrorObj m), w1)
         | Inr resp \<Rightarrow>
             (if status resp = 401 \<and> \<not> skipAuth opts then
                (let (refreshed, w2) = attemptTokenRefresh srv w1 in
                 if refreshed then
                   (let headers' = set_header ''Authorization'' (bearer (getStoredAccessToken w2)) headers;
                        (ans', w3) = net_fetch srv (build_request endpoint opts headers' w2) w2
                    in case ans' of
                         Inl m \<Rightarrow> (Inl (ErrorObj m), w3)
                       | Inr resp' \<Rightarrow> (finish resp', w3))
                 else
                   (let w3 = clearWorkspaceId (clearTokens w2);
                        w4 = (if windowDefined w3 then onExpired w3 else w3)
                    in (finish resp, w4)))
              else (finish resp, w1)))"

section \<open>Headers\<close>

lemma map_of_set_header:
  "map_of (set_header k v hs) j =
     (if j = k \<and> v \<noteq> None \<and> v \<noteq> Some [] then v else map_of hs j)"
  by (auto simp: set_header_def update_conv' split: option.splits)

lemma map_of_fold_update:
  "map_of (fold (\<lambda>(k, v). AList.update k v) kvs hs) j =
     (case map_of (rev kvs) j of Some v \<Rightarrow> Some v | None \<Rightarrow> map_of hs j)"
  by (induction kvs arbitrary: hs) (auto simp: update_conv' map_add_def split: option.splits)

lemma bearer_Some_iff [simp]: "bearer t = Some h \<longleftrightarrow> (\<exists>x. t = Some x \<and> x \<noteq> [] \<and> h = ''Bearer '' @ x)"
  by (auto simp: bearer_def split: option.splits)

lemma bearer_None_iff [simp]: "bearer t = None \<longleftrightarrow> \<not> truthy_str t"
  by (auto simp: bearer_def split: option.splits)

definition changes_state :: "options \<Rightarrow> bool" where
  "changes_state opts \<longleftrightarrow> toUpperCase (method_of opts) \<in> set CSRF_METHODS"

text \<open>The requests \<open>fetchApi\<close> itself sends.\<close>

lemma net_fetch_simps [simp]:
  "fst (net_fetch srv r w) = srv (sent w) r" "sent (snd (net_fetch srv r w)) = sent w @ [r]"
  "snd (net_fetch srv r w) = w\<lparr>sent := sent w @ [r]\<rparr>"
  by (simp_all add: net_fetch_def)

lemma stored_upd [simp]:
  "getStoredAccessToken (w\<lparr>sent := x\<rparr>) = getStoredAccessToken w"
  "getStoredRefreshToken (w\<lparr>sent := x\<rparr>) = getStoredRefreshToken w"
  "getStoredWorkspaceId (w\<lparr>sent := x\<rparr>) = getStoredWorkspaceId w"
  "getCsrfToken (w\<lparr>sent := x\<rparr>) = getCsrfToken w" "apiBaseUrl (w\<lparr>sent := x\<rparr>) = apiBaseUrl w"
  "getStoredAccessToken (w\<lparr>isRefreshing := b\<rparr>) = getStoredAccessToken w"
  "getStoredRefreshToken (w\<lparr>isRefreshing := b\<rparr>) = getStoredRefreshToken w"
  "getStoredAccessToken (w\<lparr>refreshPromise := p\<rparr>) = getStoredAccessToken w"
  "getStoredRefreshToken (w\<lparr>refreshPromise := p\<rparr>) = getStoredRefreshToken w"
  "apiBaseUrl (w\<lparr>isRefreshing := b\<rparr>) = apiBaseUrl w"
  by (simp_all add: session_defs getItem_def getCsrfToken_def apiBaseUrl_def)

lemma build_headers_sent [simp]: "build_headers opts (w\<lparr>sent := x\<rparr>) = build_headers opts w"
  unfolding build_headers_def stored_upd ..

lemma refresh_answer_sent [simp]: "sent (snd (refresh_answer ans w)) = sent w"
  by (auto simp: refresh_answer_def split: sum.splits option.splits)

lemma refresh_answer_True:
  assumes "refresh_answer ans w = (True, w')"
  obtains a r where "w' = storeTokens a r w"
  using assms by (auto simp: refresh_answer_def split: sum.splits option.splits if_splits)

lemma attemptTokenRefresh_requests:
  obtains rs where "sent (snd (attemptTokenRefresh srv w)) = sent w @ rs"
    and "rs = [] \<or> (\<exists>t. getStoredRefreshToken w = Some t \<and> rs = [refresh_request t w])"
proof (cases "isRefreshing w \<and> (\<exists>v. refreshPromise w = Some v)")
  case True
  then show ?thesis using that [of "[]"] by (auto simp: attemptTokenRefresh_def)
next
  case False
  then have eq: "attemptTokenRefresh srv w =
      (let w1 = w\<lparr>isRefreshing := True\<rparr> in
           case getStoredRefreshToken w1 of
             None \<Rightarrow> (False, w1\<lparr>isRefreshing := False, refreshPromise := Some False\<rparr>)
           | Some t \<Rightarrow>
               (if t = [] then (False, w1\<lparr>isRefreshing := False, refreshPromise := Some False\<rparr>)
                else
                  let (ans, w2) = net_fetch srv (refresh_request t w1) w1;
                      (res, w3) = refresh_answer ans w2
                  in (res, w3\<lparr>isRefreshing := False, refreshPromise := None\<rparr>)))"
    by (cases "isRefreshing w"; cases "refreshPromise w") (auto simp: attemptTokenRefresh_def)
  have req: "refresh_request t (w\<lparr>isRefreshing := True\<rparr>) = refresh_request t w" for t
    by (simp add: refresh_request_def apiBaseUrl_def)
  show ?thesis
  proof (cases "\<exists>t. getStoredRefreshToken w = Some t \<and> t \<noteq> []")
    case True
    then obtain t where "getStoredRefreshToken w = Some t" "t \<noteq> []" by blast
    then have "sent (snd (attemptTokenRefresh srv w)) = sent w @ [refresh_request t w]"
      unfolding eq by (simp add: Let_def split_beta req)
    with \<open>getStoredRefreshToken w = Some t\<close> that show ?thesis by blast
  next
    case False
    then have "sent (snd (attemptTokenRefresh srv w)) = sent w"
      unfolding eq by (auto simp: Let_def split: option.splits)
    with that [of "[]"] show ?thesis by simp
  qed
qed

lemma map_of_set_header_other [simp]: "j \<noteq> k \<Longrightarrow> map_of (set_header k v hs) j = map_of hs j"
  by (simp add: map_of_set_header)

lemma build_headers_lookup:
  "map_of (build_headers opts w) k =
     (if k = ''X-CSRF-Token'' \<and> changes_state opts \<and> getCsrfToken w \<noteq> [] then Some (getCsrfToken w)
      else if k = ''X-Workspace-ID'' \<and> \<not> skipAuth opts \<and> getStoredWorkspaceId w \<noteq> None
        then getStoredWorkspaceId w
      else if k = ''Authorization'' \<and> \<not> skipAuth opts \<and> truthy_str (getStoredAccessToken w)
        then bearer (getStoredAccessToken w)
      else case map_of (rev (opt_headers opts)) k of
          Some v \<Rightarrow> Some v
        | None \<Rightarrow> if k = ''Content-Type'' then Some ''application/json'' else None)"
proof -
  have ws: "getStoredWorkspaceId w \<noteq> Some []"
    by (simp add: getStoredWorkspaceId_def split: option.splits)
  have bt: "bearer t \<noteq> Some []" for t
    by (simp add: bearer_def split: option.splits)
  obtain h0 where h0: "fold (\<lambda>(k, v). AList.update k v) (opt_headers opts)
      [(''Content-Type'', ''application/json'')] = h0" by simp
  have own: "map_of h0 k = (case map_of (rev (opt_headers opts)) k of Some v \<Rightarrow> Some v
      | None \<Rightarrow> if k = ''Content-Type'' then Some ''application/json'' else None)"
    unfolding h0 [symmetric] by (simp add: map_of_fold_update split: option.split)
  show ?thesis
    unfolding own [symmetric] build_headers_def Let_def changes_state_def h0
    using ws bt by (cases "getStoredWorkspaceId w") (simp_all add: map_of_set_header)
qed

text \<open>The headers of a request are, key by key, exactly those the code means to send: the
  CSRF token for a state-changing method, the workspace and the bearer token unless the
  call skips authentication, the caller's own headers, and the JSON content type by default.\<close>

theorem request_headers:
  "map_of (build_headers opts w) k =
     (if k = ''X-CSRF-Token'' \<and> changes_state opts \<and> getCsrfToken w \<noteq> [] then Some (getCsrfToken w)
      else if k = ''X-Workspace-ID'' \<and> \<not> skipAuth opts \<and> getStoredWorkspaceId w \<noteq> None
        then getStoredWorkspaceId w
      else if k = ''Authorization'' \<and> \<not> skipAuth opts \<and> truthy_str (getStoredAccessToken w)
        then bearer (getStoredAccessToken w)
      else case map_of (rev (opt_headers opts)) k of
          Some v \<Rightarrow> Some v
        | None \<Rightarrow> if k = ''Content-Type'' then Some ''application/json'' else None)"
  by (rule build_headers_lookup)

section \<open>The requests of one call\<close>

definition same_but_bearer :: "request \<Rightarrow> request \<Rightarrow> bool" where
  "same_but_bearer r r' \<longleftrightarrow> req_url r' = req_url r \<and> req_method r' = req_method r \<and>
     req_body r' = req_body r \<and>
     (\<forall>k. k \<noteq> ''Authorization'' \<longrightarrow> map_of (req_headers r') k = map_of (req_headers r) k)"

definition first_request :: "string \<Rightarrow> options \<Rightarrow> 'a http_world_scheme \<Rightarrow> request" where
  "first_request endpoint opts w = build_request endpoint opts (build_headers opts w) w"

lemma env_storeTokens [simp]: "apiBaseUrl (storeTokens a r w) = apiBaseUrl w"
  by (simp add: apiBaseUrl_def session_defs http_simps Let_def)

lemma env_upd [simp]: "apiBaseUrl (w\<lparr>refreshPromise := p\<rparr>) = apiBaseUrl w"
  by (simp add: apiBaseUrl_def)

lemma refresh_answer_env [simp]: "apiBaseUrl (snd (refresh_answer ans w)) = apiBaseUrl w"
  by (auto simp: refresh_answer_def split: sum.splits option.splits)

lemma attemptTokenRefresh_env [simp]: "apiBaseUrl (snd (attemptTokenRefresh srv w)) = apiBaseUrl w"
  by (auto simp: attemptTokenRefresh_def Let_def split_beta split: option.splits bool.splits)

lemma same_but_bearer_retry:
  "apiBaseUrl v = apiBaseUrl w \<Longrightarrow>
     same_but_bearer (build_request e opts hs w)
       (build_request e opts (set_header ''Authorization'' b hs) v)"
  by (simp add: same_but_bearer_def build_request_def)


definition no_listener :: "http_world \<Rightarrow> http_world" where
  "no_listener w = w"

definition demo_world :: http_world where
  "demo_world = \<lparr>ls = [TOKEN_KEY \<mapsto> ''old'', REFRESH_TOKEN_KEY \<mapsto> ''r1''], jar = [], protocol = ''https:'',
     secureOrigin = True, windowDefined = True, env_api_url = None, isRefreshing = False,
     refreshPromise = None, sent = []\<rparr>"


section \<open>An expired session\<close>

lemma windowDefined_refresh [simp]:
  "windowDefined (snd (attemptTokenRefresh srv w)) = windowDefined w"
  by (auto simp: attemptTokenRefresh_def refresh_answer_def Let_def split_beta
      split: option.splits bool.splits sum.splits)

text \<open>C5: when a request is answered with 401 and the refresh does not succeed, the listener of
  \<open>auth:session-expired\<close> runs on a world that holds neither an access token nor a refresh token
  nor a workspace any more, so nothing stale can be sent from inside it, and the caller sees
  the error of the original response.\<close>

theorem fetchApi_session_expired:
  assumes "srv (sent w) (first_request endpoint opts w) = Inr resp" and "status resp = 401"
    and "\<not> skipAuth opts" and "windowDefined w"
    and "\<not> fst (attemptTokenRefresh srv (w\<lparr>sent := sent w @ [first_request endpoint opts w]\<rparr>))"
  shows "\<exists>v. fetchApi srv onExpired endpoint opts w = (finish resp, onExpired v) \<and>
     getStoredAccessToken v = None \<and> getStoredRefreshToken v = None \<and> getStoredWorkspaceId v = None"
proof -
  let ?w1 = "w\<lparr>sent := sent w @ [first_request endpoint opts w]\<rparr>"
  obtain w2 where w2: "attemptTokenRefresh srv ?w1 = (False, w2)"
    using assms(5) by (cases "attemptTokenRefresh srv ?w1") auto
  with windowDefined_refresh [of srv ?w1] assms(4) have "windowDefined w2" by simp
  with assms(1-3) w2 have "fetchApi srv onExpired endpoint opts w =
      (finish resp, onExpired (clearWorkspaceId (clearTokens w2)))"
    by (simp add: fetchApi_def first_request_def [symmetric] net_fetch_def Let_def)
  then show ?thesis by (intro exI [of _ "clearWorkspaceId (clearTokens w2)"]) simp
qed

definition unauthorized :: response where
  "unauthorized = \<lparr>status = 401, resp_headers = (\<lambda>_. None),
     payload = Some (JObj [(''error'', JStr ''token expired'')])\<rparr>"

lemma fetchApi_session_expired_witness:
  "\<exists>v. fetchApi (\<lambda>_ _. Inr unauthorized) no_listener ''/api/alerts''
       \<lparr>opt_method = None, opt_headers = [], opt_body = None, skipAuth = False\<rparr> demo_world =
       (finish unauthorized, no_listener v) \<and> getStoredAccessToken v = None \<and>
     getStoredRefreshToken v = None \<and> getStoredWorkspaceId v = None"
proof (rule fetchApi_session_expired)
  show "\<not> fst (attemptTokenRefresh (\<lambda>_ _. Inr unauthorized) (demo_world\<lparr>sent := sent demo_world @
      [first_request ''/api/alerts'' \<lparr>opt_method = None, opt_headers = [], opt_body = None,
         skipAuth = False\<rparr> demo_world]\<rparr>))"
    by (simp add: attemptTokenRefresh_def demo_world_def getStoredRefreshToken_def getItem_def
        key_defs net_fetch_def refresh_answer_def unauthorized_def ok_status_def Let_def)
qed (simp_all add: unauthorized_def demo_world_def)

text \<open>After \<open>clearTokens\<close> no token is left in the browser, and the two hint cookies that
  steer the routing proxy are gone exactly when the page's origin may write secure cookies. On a
  plain-http origin the cookie jar is untouched: the assignments carry \<open>Secure\<close>, while
  \<open>storeTokens\<close> sets the cookie without it.\<close>

theorem clearTokens_cookies:
  "getStoredAccessToken (clearTokens w) = None \<and> getStoredRefreshToken (clearTokens w) = None \<and>
   jar (clearTokens w) =
     (if secureOrigin w then drop_cookie ADMIN_HINT (drop_cookie AUTH_HINT (jar w)) else jar w)"
  by (simp add: clearTokens_def assign_cookie_def removeItem_def getStoredAccessToken_def
      getStoredRefreshToken_def getItem_def key_defs)

section \<open>From the response to the result\<close>

text \<open>\<open>fetchApi\<close> returns data for a response only if its status is 204 (then with empty
  data) or a success status with a parsable body, which is passed on unchanged; every other
  response makes it throw.\<close>

theorem finish_returns_iff:
  "finish resp = Inr j \<longleftrightarrow>
     (status resp = 204 \<and> j = JObj [(''data'', JNull), (''error'', JNull)]) \<or>
     (status resp \<noteq> 204 \<and> ok_status resp \<and> payload resp = Some j)"
  by (auto simp: finish_def ok_status_def split: option.splits)

text \<open>A backend error whose body could be read is never shown raw: the text of the
  \<open>Error\<close> that \<open>fetchApi\<close> throws has passed the sanitizer, and so satisfies its safety
  heuristic, for every status but 429 and every body that is not \<open>null\<close>.\<close>

theorem finish_error_sanitized:
  assumes "finish resp = Inl e" and "payload resp = Some body" and "body \<noteq> JNull"
    and "status resp \<noteq> 429"
  shows "\<exists>m. e = ErrorObj m \<and> isSafeMessage m"
proof -
  obtain v where "get_prop (Some body) ''error'' = Some v"
    using assms(3) by (cases body) auto
  with assms have "e = ErrorObj (sanitizeErrorMessage (raw_error (status resp) v) None)"
    by (auto simp: finish_def split: if_splits)
  then show ?thesis using sanitized_safe by blast
qed

lemma finish_error_sanitized_witness:
  "\<exists>m. ErrorObj (sanitizeErrorMessage (StringVal ''token expired'') None) = ErrorObj m \<and> isSafeMessage m"
  by (rule finish_error_sanitized [of unauthorized _ "JObj [(''error'', JStr ''token expired'')]"])
    (simp_all add: finish_def unauthorized_def ok_status_def raw_error_def)

lemma parseInt10_show_nat: "parseInt10 (show_nat n) = Some (int n)"
proof -
  have d: "\<forall>c \<in> set (show_nat n). is_digit c" using show_nat_digits by blast
  obtain c cs where c: "show_nat n = c # cs" by (cases "show_nat n") auto
  have "takeWhile is_digit (show_nat n) = show_nat n" using d by (simp add: takeWhile_eq_all_conv)
  moreover from c d have "is_digit c" by simp
  then have "\<not> is_space c" "c \<noteq> CHR ''-''" "c \<noteq> CHR ''+''"
    by (auto simp: is_space_def is_digit_def Let_def)
  then have "dropWhile is_space (show_nat n) = show_nat n" "hd (show_nat n) \<noteq> CHR ''-''"
    "hd (show_nat n) \<noteq> CHR ''+''" using c by simp_all
  ultimately show ?thesis by (simp add: parseInt10_def Let_def del: takeWhile_eq_all_conv)
qed

text \<open>For status 429 the thrown message names the seconds of a numeric \<open>Retry-After\<close>
  header, 60 without one, and the text ``NaN seconds'' for the header's other legal form, a
  date.\<close>

theorem finish_rate_limited:
  "finish (resp\<lparr>status := 429, resp_headers := h(''Retry-After'' \<mapsto> show_nat n)\<rparr>) =
     Inl (ErrorObj (rate_limit_message (int n))) \<and>
   finish (resp\<lparr>status := 429, resp_headers := h(''Retry-After'' := None)\<rparr>) =
     Inl (ErrorObj (rate_limit_message 60)) \<and>
   finish (resp\<lparr>status := 429,
       resp_headers := h(''Retry-After'' \<mapsto> ''Wed, 21 Oct 2026 07:28:00 GMT'')\<rparr>) =
     Inl (ErrorObj ''Rate limited. Please try again in NaN seconds.'')"
proof -
  have "parseInt10 ''Wed, 21 Oct 2026 07:28:00 GMT'' = None" by code_simp
  then show ?thesis by (simp add: finish_def rate_limited_error_def parseInt10_show_nat)
qed

end
