(* ===== verification/Refresh_Flight.thy ===== *)
theory Refresh_Flight
  imports Http
begin

text \<open>
  Concurrent calls of \<open>fetchApi\<close>. Each handler below is one stretch of code that JavaScript runs
  without interruption: from a call or an answer to the next \<open>await\<close>. The step
  relation interleaves them in every order, with any answer of the network, with other
  activity of the page (login, logout, workspace switches) and with the refresh that the
  authentication provider starts every ten minutes. The promise objects that
  \<open>refreshPromise\<close> holds over time are numbered; \<^term>\<open>None\<close> is a pending one.
\<close>

section \<open>State\<close>

datatype call =
    Fresh
  | InFlight "(string \<times> string) list"              \<comment> \<open>the first request is on the wire\<close>
  | Awaiting nat "(string \<times> string) list" response  \<comment> \<open>answered with 401, waits for a refresh\<close>
  | Retrying                                        \<comment> \<open>the repeated request is on the wire\<close>
  | Settled "thrown + json"

record flight =
  page :: http_world
  promises :: "bool option list"
  promiseVar :: "nat option"
  calls :: "nat \<Rightarrow> call"
  proactive :: "string list"                        \<comment> \<open>tokens of provider refreshes on the wire\<close>

type_synonym jobs = "nat \<Rightarrow> string \<times> options"

definition set_call :: "nat \<Rightarrow> call \<Rightarrow> flight \<Rightarrow> flight" where
  "set_call i c s = s\<lparr>calls := (calls s)(i := c)\<rparr>"

section \<open>The handlers\<close>

definition begin_call :: "jobs \<Rightarrow> nat \<Rightarrow> flight \<Rightarrow> flight" where
  "begin_call jobs i s =
     (let (endpoint, opts) = jobs i; w = page s; hs = build_headers opts w
      in set_call i (InFlight hs)
           (s\<lparr>page := w\<lparr>sent := sent w @ [build_request endpoint opts hs w]\<rparr>\<rparr>))"

text \<open>\<open>attemptTokenRefresh\<close> up to its first suspension: the promise to wait for.\<close>

definition fresh_refresh :: "flight \<Rightarrow> nat \<times> flight" where
  "fresh_refresh s =
     (let n = length (promises s); w = (page s)\<lparr>isRefreshing := True\<rparr> in
      case getStoredRefreshToken w of
        None \<Rightarrow> (n, s\<lparr>page := w\<lparr>isRefreshing := False\<rparr>, promises := promises s @ [Some False],
                    promiseVar := Some n\<rparr>)
      | Some t \<Rightarrow>
          (if t = [] then (n, s\<lparr>page := w\<lparr>isRefreshing := False\<rparr>,
                                promises := promises s @ [Some False], promiseVar := Some n\<rparr>)
           else (n, s\<lparr>page := w\<lparr>sent := sent w @ [refresh_request t w]\<rparr>,
                      promises := promises s @ [None], promiseVar := Some n\<rparr>)))"

definition start_refresh :: "flight \<Rightarrow> nat \<times> flight" where
  "start_refresh s =
     (case (isRefreshing (page s), promiseVar s) of
        (True, Some p) \<Rightarrow> (p, s)
      | _ \<Rightarrow> fresh_refresh s)"

definition on_answer :: "jobs \<Rightarrow> nat \<Rightarrow> string + response \<Rightarrow> flight \<Rightarrow> flight" where
  "on_answer jobs i ans s =
     (case calls s i of
        InFlight hs \<Rightarrow>
          (case ans of
             Inl m \<Rightarrow> set_call i (Settled (Inl (ErrorObj m))) s
           | Inr resp \<Rightarrow>
               (if status resp = 401 \<and> \<not> skipAuth (snd (jobs i)) then
                  (let (p, s') = start_refresh s in set_call i (Awaiting p hs resp) s')
                else set_call i (Settled (finish resp)) s))
      | _ \<Rightarrow> s)"

text \<open>The refresh request of the promise \<open>p\<close> is answered: tokens, then \<open>finally\<close>.\<close>

definition on_refresh_answer :: "nat \<Rightarrow> string + response \<Rightarrow> flight \<Rightarrow> flight" where
  "on_refresh_answer p ans s =
     (let (b, w) = refresh_answer ans (page s)
      in s\<lparr>page := w\<lparr>isRefreshing := False\<rparr>, promises := (promises s)[p := Some b],
           promiseVar := None\<rparr>)"

text \<open>A waiting call goes on: it repeats its request, or it ends the session.\<close>

definition resume :: "jobs \<Rightarrow> nat \<Rightarrow> flight \<Rightarrow> flight" where
  "resume jobs i s =
     (case calls s i of
        Awaiting p hs resp \<Rightarrow>
          (case promises s ! p of
             None \<Rightarrow> s
           | Some True \<Rightarrow>
               (let (endpoint, opts) = jobs i; w = page s;
                    hs' = set_header ''Authorization'' (bearer (getStoredAccessToken w)) hs
                in set_call i Retrying
                     (s\<lparr>page := w\<lparr>sent := sent w @ [build_request endpoint opts hs' w]\<rparr>\<rparr>))
           | Some False \<Rightarrow>
               set_call i (Settled (finish resp)) (s\<lparr>page := clearWorkspaceId (clearTokens (page s))\<rparr>))
      | _ \<Rightarrow> s)"

definition on_retry_answer :: "nat \<Rightarrow> string + response \<Rightarrow> flight \<Rightarrow> flight" where
  "on_retry_answer i ans s =
     (case ans of
        Inl m \<Rightarrow> set_call i (Settled (Inl (ErrorObj m))) s
      | Inr resp \<Rightarrow> set_call i (Settled (finish resp)) s)"

text \<open>The provider's own refresh, every ten minutes: \<open>fetchApi\<close> with \<open>skipAuth\<close>.\<close>

definition proactive_options :: "string \<Rightarrow> options" where
  "proactive_options t = \<lparr>opt_method = Some ''POST'', opt_headers = [],
     opt_body = Some (JObj [(''refreshToken'', JStr t)]), skipAuth = True\<rparr>"

definition proactive_tick :: "flight \<Rightarrow> flight" where
  "proactive_tick s =
     (case getStoredRefreshToken (page s) of
        None \<Rightarrow> s
      | Some t \<Rightarrow>
          (if t = [] then s
           else let w = page s; opts = proactive_options t in
             s\<lparr>page := w\<lparr>sent := sent w @ [first_request ''/api/auth/refresh'' opts w]\<rparr>,
               proactive := proactive s @ [t]\<rparr>))"

definition proactive_store :: "thrown + json \<Rightarrow> http_world \<Rightarrow> http_world" where
  "proactive_store res w =
     (case res of
        Inl _ \<Rightarrow> w
      | Inr body \<Rightarrow>
          (case get_prop (Some body) ''data'' of
             None \<Rightarrow> w
           | Some d \<Rightarrow>
               (if truthy (opt_prop d ''accessToken'') \<and> truthy (opt_prop d ''refreshToken'')
                then storeTokens (js_string_opt (opt_prop d ''accessToken''))
                       (js_string_opt (opt_prop d ''refreshToken'')) w
                else w)))"

definition on_proactive_answer :: "string \<Rightarrow> string + response \<Rightarrow> flight \<Rightarrow> flight" where
  "on_proactive_answer t ans s =
     s\<lparr>page := (case ans of Inl _ \<Rightarrow> page s | Inr resp \<Rightarrow> proactive_store (finish resp) (page s)),
       proactive := remove1 t (proactive s)\<rparr>"

section \<open>The step relation\<close>

inductive fstep :: "jobs \<Rightarrow> flight \<Rightarrow> flight \<Rightarrow> bool" for jobs where
  start: "calls s i = Fresh \<Longrightarrow> fstep jobs s (begin_call jobs i s)"
| answer: "calls s i = InFlight hs \<Longrightarrow> fstep jobs s (on_answer jobs i ans s)"
| refreshed: "p < length (promises s) \<Longrightarrow> promises s ! p = None \<Longrightarrow>
    fstep jobs s (on_refresh_answer p ans s)"
| resumed: "calls s i = Awaiting p hs resp \<Longrightarrow> promises s ! p \<noteq> None \<Longrightarrow>
    fstep jobs s (resume jobs i s)"
| retried: "calls s i = Retrying \<Longrightarrow> fstep jobs s (on_retry_answer i ans s)"
| page_event: "isRefreshing w' = isRefreshing (page s) \<Longrightarrow> fstep jobs s (s\<lparr>page := w'\<rparr>)"
| tick: "fstep jobs s (proactive_tick s)"
| ticked: "t \<in> set (proactive s) \<Longrightarrow> fstep jobs s (on_proactive_answer t ans s)"

definition boot :: "http_world \<Rightarrow> flight" where
  "boot w = \<lparr>page = w\<lparr>isRefreshing := False\<rparr>, promises = [], promiseVar = None,
     calls = (\<lambda>_. Fresh), proactive = []\<rparr>"

inductive reachable :: "jobs \<Rightarrow> flight \<Rightarrow> bool" for jobs where
  init: "reachable jobs (boot w)"
| next_step: "reachable jobs s \<Longrightarrow> fstep jobs s s' \<Longrightarrow> reachable jobs s'"

inductive_cases fstepE: "fstep jobs s s'"

section \<open>The invariant\<close>

text \<open>
  A refresh request of \<open>attemptTokenRefresh\<close> is outstanding exactly while its promise is
  pending. The flag says whether there is one, and then the variable holds that promise.
\<close>

definition outstanding :: "flight \<Rightarrow> nat set" where
  "outstanding s = {p. p < length (promises s) \<and> promises s ! p = None}"

definition single :: "flight \<Rightarrow> bool" where
  "single s \<longleftrightarrow>
     (if isRefreshing (page s) then \<exists>p. promiseVar s = Some p \<and> outstanding s = {p}
      else outstanding s = {})"

definition waits_ok :: "flight \<Rightarrow> bool" where
  "waits_ok s \<longleftrightarrow> (\<forall>i p hs resp. calls s i = Awaiting p hs resp \<longrightarrow> p < length (promises s))"

lemma set_call_frame [simp]:
  "page (set_call i c s) = page s" "promises (set_call i c s) = promises s"
  "promiseVar (set_call i c s) = promiseVar s" "proactive (set_call i c s) = proactive s"
  "calls (set_call i c s) = (calls s)(i := c)" "outstanding (set_call i c s) = outstanding s"
  by (simp_all add: set_call_def outstanding_def)

lemma single_set_call [simp]: "single (set_call i c s) = single s"
  by (simp add: single_def)

lemma isRefreshing_session [simp]:
  "isRefreshing (storeTokens a r w) = isRefreshing w" "isRefreshing (clearTokens w) = isRefreshing w"
  "isRefreshing (clearWorkspaceId w) = isRefreshing w"
  by (simp_all add: session_defs http_simps Let_def)

lemma isRefreshing_refresh_answer [simp]:
  "isRefreshing (snd (refresh_answer ans w)) = isRefreshing w"
  by (auto simp: refresh_answer_def split: sum.splits option.splits)

lemma outstanding_page [simp]: "outstanding (s\<lparr>page := w\<rparr>) = outstanding s"
  "outstanding (s\<lparr>page := w, proactive := x\<rparr>) = outstanding s"
  by (simp_all add: outstanding_def)

lemma single_page: "isRefreshing w = isRefreshing (page s) \<Longrightarrow> single (s\<lparr>page := w\<rparr>) = single s"
  "isRefreshing w = isRefreshing (page s) \<Longrightarrow> single (s\<lparr>page := w, proactive := x\<rparr>) = single s"
  by (simp_all add: single_def)

lemma outstanding_append:
  "promises s' = promises s @ [b] \<Longrightarrow>
     outstanding s' = (if b = None then insert (length (promises s)) (outstanding s) else outstanding s)"
  by (auto simp: outstanding_def nth_append less_Suc_eq)

lemma fresh_refresh_single:
  assumes "outstanding s = {}"
  shows "single (snd (fresh_refresh s))"
proof (cases "getStoredRefreshToken (page s)")
  case None
  then show ?thesis using assms
    by (simp add: fresh_refresh_def Let_def single_def outstanding_append [where s = s])
next
  case (Some t)
  then show ?thesis using assms
    by (cases "t = []") (simp_all add: fresh_refresh_def Let_def single_def outstanding_append [where s = s])
qed

lemma start_refresh_cases:
  assumes "single s"
  obtains (join) p where "start_refresh s = (p, s)" "p \<in> outstanding s"
  | (fresh) "start_refresh s = fresh_refresh s" "outstanding s = {}"
proof (cases "isRefreshing (page s)")
  case True
  with assms obtain p where "promiseVar s = Some p" "outstanding s = {p}" by (auto simp: single_def)
  with True join show ?thesis by (simp add: start_refresh_def)
next
  case False
  with assms fresh show ?thesis by (simp add: start_refresh_def single_def)
qed

lemma start_refresh_single: "single s \<Longrightarrow> single (snd (start_refresh s))"
  by (cases s rule: start_refresh_cases) (simp_all add: fresh_refresh_single)

lemma fresh_refresh_id:
  "fst (fresh_refresh s) = length (promises s)"
  "length (promises (snd (fresh_refresh s))) = Suc (length (promises s))"
  "calls (snd (fresh_refresh s)) = calls s"
  by (auto simp: fresh_refresh_def Let_def split: option.splits)

lemma start_refresh_id:
  assumes "single s"
  shows "fst (start_refresh s) < length (promises (snd (start_refresh s)))"
    and "length (promises s) \<le> length (promises (snd (start_refresh s)))"
    and "calls (snd (start_refresh s)) = calls s"
proof -
  have *: "(\<exists>p. start_refresh s = (p, s) \<and> p < length (promises s)) \<or> start_refresh s = fresh_refresh s"
    using assms by (cases s rule: start_refresh_cases) (auto simp: outstanding_def)
  show "fst (start_refresh s) < length (promises (snd (start_refresh s)))"
    "length (promises s) \<le> length (promises (snd (start_refresh s)))"
    "calls (snd (start_refresh s)) = calls s"
    using * fresh_refresh_id [of s] by auto
qed

lemma single_refresh_answer:
  assumes "single s" and "p \<in> outstanding s"
  shows "single (on_refresh_answer p ans s)"
proof -
  have "outstanding s = {p}"
    using assms by (auto simp: single_def split: if_splits)
  then have other: "promises s ! q \<noteq> None" if "q < length (promises s)" "q \<noteq> p" for q
    using that by (auto simp: outstanding_def)
  have "(promises s)[p := Some b] ! q \<noteq> None" if "q < length (promises s)" for q b
    using that other [OF that] by (cases "q = p") simp_all
  then have "outstanding (on_refresh_answer p ans s) = {}"
    by (simp add: outstanding_def on_refresh_answer_def split_beta)
  then show ?thesis by (simp add: single_def on_refresh_answer_def split_beta)
qed

lemma single_on_answer: "single s \<Longrightarrow> single (on_answer jobs i ans s)"
  by (auto simp: on_answer_def split_beta start_refresh_single split: call.splits sum.splits)

lemma single_resume: "single s \<Longrightarrow> single (resume jobs i s)"
  by (auto simp: resume_def split_beta Let_def single_page split: call.splits option.splits bool.splits)

lemma isRefreshing_proactive_store [simp]:
  "isRefreshing (proactive_store res w) = isRefreshing w"
  by (auto simp: proactive_store_def split: sum.splits option.splits)

lemma single_step: "fstep jobs s s' \<Longrightarrow> single s \<Longrightarrow> single s'"
proof (induction rule: fstep.induct)
  case (refreshed p s ans)
  then show ?case by (intro single_refresh_answer) (auto simp: outstanding_def)
next
  case (tick s)
  then show ?case
    by (auto simp: proactive_tick_def Let_def single_page split: option.splits)
next
  case (ticked t s ans)
  then show ?case
    by (auto simp: on_proactive_answer_def single_page split: sum.splits)
qed (auto simp: begin_call_def split_beta Let_def single_on_answer single_resume single_page
    on_retry_answer_def split: sum.splits)

lemma waits_step:
  assumes "fstep jobs s s'" and "single s" and "waits_ok s"
  shows "waits_ok s'"
  using assms
proof (induction rule: fstep.induct)
  case (answer s i hs ans)
  show ?case
  proof (cases "\<exists>resp. ans = Inr resp \<and> status resp = 401 \<and> \<not> skipAuth (snd (jobs i))")
    case True
    obtain p s1 where p: "start_refresh s = (p, s1)" by fastforce
    with start_refresh_id [OF answer.prems(1)] have
      "p < length (promises s1)" "length (promises s) \<le> length (promises s1)" "calls s1 = calls s"
      by simp_all
    with True answer p show ?thesis
      by (force simp: on_answer_def waits_ok_def)
  next
    case False
    with answer show ?thesis
      by (auto simp: on_answer_def waits_ok_def split: sum.splits)
  qed
next
  case (refreshed p s ans)
  then show ?case by (simp add: waits_ok_def on_refresh_answer_def split_beta)
next
  case (resumed s i p hs resp)
  then show ?case
    by (auto simp: resume_def waits_ok_def split_beta Let_def split: option.splits bool.splits)
next
  case (tick s)
  then show ?case by (auto simp: proactive_tick_def waits_ok_def Let_def split: option.splits)
qed (auto simp: begin_call_def split_beta Let_def waits_ok_def on_retry_answer_def
    on_proactive_answer_def split: sum.splits)

lemma reachable_inv: "reachable jobs s \<Longrightarrow> single s \<and> waits_ok s"
proof (induction rule: reachable.induct)
  case (init w)
  then show ?case by (simp add: single_def waits_ok_def boot_def outstanding_def)
next
  case (next_step s s')
  then show ?case using single_step waits_step by blast
qed

section \<open>Properties\<close>

text \<open>C1: single flight: however the calls, answers and page events interleave,
  \<open>fetchApi\<close>'s own token refresh has at most one request on the wire; it has one exactly
  while \<open>isRefreshing\<close> is set, and \<open>refreshPromise\<close> is then the promise of that
  very request.\<close>

theorem refresh_single_flight:
  assumes "reachable jobs s"
  shows "(isRefreshing (page s) \<longrightarrow> (\<exists>p. outstanding s = {p} \<and> promiseVar s = Some p)) \<and>
     (\<not> isRefreshing (page s) \<longrightarrow> outstanding s = {})"
  using reachable_inv [OF assms] by (auto simp: single_def)

text \<open>C4: no call is lost: in every reachable state a call that waits for a refresh waits
  for a promise that has settled, so the call can go on, or for the one refresh request
  that is on the wire and whose answer or failure will settle it.\<close>

theorem waiting_call_not_stuck:
  assumes "reachable jobs s" and "calls s i = Awaiting p hs resp"
  shows "promises s ! p \<noteq> None \<or> (isRefreshing (page s) \<and> outstanding s = {p})"
proof (cases "promises s ! p")
  case None
  moreover have "p < length (promises s)"
    using reachable_inv [OF assms(1)] assms(2) by (auto simp: waits_ok_def)
  ultimately have "p \<in> outstanding s" by (simp add: outstanding_def)
  with reachable_inv [OF assms(1)] show ?thesis by (auto simp: single_def split: if_splits)
qed simp

text \<open>How far a call is from its result.\<close>

fun rank :: "call \<Rightarrow> nat" where
  "rank Fresh = 4"
| "rank (InFlight hs) = 3"
| "rank (Awaiting p hs resp) = 2"
| "rank Retrying = 1"
| "rank (Settled r) = 0"

lemma calls_start_refresh [simp]: "calls (snd (start_refresh s)) = calls s"
  by (auto simp: start_refresh_def fresh_refresh_id split: option.splits bool.splits)

lemma rank_step_le: "fstep jobs s s' \<Longrightarrow> rank (calls s' j) \<le> rank (calls s j)"
proof (induction rule: fstep.induct)
  case (answer s i hs ans)
  then show ?case by (auto simp: on_answer_def split_beta split: sum.splits)
next
  case (resumed s i p hs resp)
  then show ?case by (auto simp: resume_def split_beta Let_def split: option.splits bool.splits)
next
  case (tick s)
  then show ?case by (auto simp: proactive_tick_def Let_def split: option.splits)
qed (auto simp: begin_call_def on_retry_answer_def on_refresh_answer_def on_proactive_answer_def
    split_beta Let_def split: sum.splits)

lemma rank_own_step:
  "calls s i = Fresh \<Longrightarrow> rank (calls (begin_call jobs i s) i) = 3"
  "calls s i = InFlight hs \<Longrightarrow> rank (calls (on_answer jobs i ans s) i) < 3"
  "calls s i = Awaiting p hs resp \<Longrightarrow> promises s ! p \<noteq> None \<Longrightarrow> rank (calls (resume jobs i s) i) < 2"
  "rank (calls (on_retry_answer i ans s) i) = 0"
  by (auto simp: begin_call_def on_answer_def resume_def on_retry_answer_def split_beta Let_def
      split: sum.splits option.splits bool.splits)

text \<open>A call cannot retry for ever: no step, of this call or of any other, moves a call
  back, and each of the four steps a call can take itself brings it strictly closer to its
  result, so it takes at most four steps in every execution.\<close>

theorem calls_never_regress:
  "(fstep jobs s s' \<longrightarrow> rank (calls s' j) \<le> rank (calls s j)) \<and>
   (calls s i = Fresh \<longrightarrow> rank (calls (begin_call jobs i s) i) < rank (calls s i)) \<and>
   (calls s i = InFlight hs \<longrightarrow> rank (calls (on_answer jobs i ans s) i) < rank (calls s i)) \<and>
   (calls s i = Awaiting p hs resp \<and> promises s ! p \<noteq> None \<longrightarrow>
      rank (calls (resume jobs i s) i) < rank (calls s i)) \<and>
   (calls s i = Retrying \<longrightarrow> rank (calls (on_retry_answer i ans s) i) < rank (calls s i))"
  using rank_step_le rank_own_step by (auto simp: rank_own_step(4))

section \<open>Races\<close>

definition granted :: "string \<Rightarrow> string \<Rightarrow> response" where
  "granted a r = \<lparr>status = 200, resp_headers = (\<lambda>_. None),
     payload = Some (JObj [(''data'', JObj [(''accessToken'', JStr a), (''refreshToken'', JStr r)]),
       (''error'', JNull)])\<rparr>"

lemma refresh_answer_granted:
  "a \<noteq> [] \<Longrightarrow> r \<noteq> [] \<Longrightarrow> refresh_answer (Inr (granted a r)) w = (True, storeTokens a r w)"
  by (simp add: refresh_answer_def granted_def ok_status_def)

lemma refresh_answer_unauthorized: "refresh_answer (Inr unauthorized) w = (False, w)"
  by (simp add: refresh_answer_def unauthorized_def ok_status_def)

lemma proactive_store_granted:
  "a \<noteq> [] \<Longrightarrow> r \<noteq> [] \<Longrightarrow> proactive_store (finish (granted a r)) w = storeTokens a r w"
  by (simp add: proactive_store_def finish_def granted_def ok_status_def)

text \<open>A logout does not cancel a refresh that is on the wire: whenever the answer arrives
  after \<open>logout\<close> has emptied the storage, the new tokens are stored and the browser is
  signed in again, without a user having asked for it.\<close>

theorem late_refresh_restores_session:
  assumes "windowDefined (page s)" and "a \<noteq> []" and "r \<noteq> []"
    and "logged_out = s\<lparr>page := clearWorkspaceId (clearTokens (page s))\<rparr>"
  shows "getStoredAccessToken (page logged_out) = None \<and>
     getStoredAccessToken (page (on_refresh_answer p (Inr (granted a r)) logged_out)) = Some a \<and>
     getStoredRefreshToken (page (on_refresh_answer p (Inr (granted a r)) logged_out)) = Some r"
  using assms by (simp add: on_refresh_answer_def refresh_answer_granted)

definition demo_jobs :: jobs where
  "demo_jobs i = (''/api/alerts'',
     \<lparr>opt_method = None, opt_headers = [], opt_body = None, skipAuth = False\<rparr>)"

definition waiting_state :: flight where
  "waiting_state = on_answer demo_jobs 0 (Inr unauthorized) (begin_call demo_jobs 0 (boot demo_world))"

lemma demo_token [simp]: "getStoredRefreshToken demo_world = Some ''r1''"
  by (simp add: getStoredRefreshToken_def demo_world_def getItem_def key_defs)

lemma waiting_state_simps:
  "waiting_state = set_call 0 (Awaiting 0 (build_headers (snd (demo_jobs 0)) demo_world) unauthorized)
     \<lparr>page = demo_world\<lparr>isRefreshing := True, sent := [first_request ''/api/alerts'' (snd (demo_jobs 0))
        demo_world, refresh_request ''r1'' demo_world]\<rparr>,
      promises = [None], promiseVar = Some 0, calls = (\<lambda>_. Fresh), proactive = []\<rparr>"
proof -
  have w: "demo_world\<lparr>isRefreshing := False\<rparr> = demo_world" "sent demo_world = []" "\<not> isRefreshing demo_world"
    by (simp_all add: demo_world_def)
  have u: "status unauthorized = 401" by (simp add: unauthorized_def)
  have r: "refresh_request t (w\<lparr>sent := x, isRefreshing := b\<rparr>) = refresh_request t w" for t w b x
    by (simp add: refresh_request_def apiBaseUrl_def)
  have t: "getStoredRefreshToken (demo_world\<lparr>sent := x, isRefreshing := b\<rparr>) = Some ''r1''" for b x
    by (simp add: getStoredRefreshToken_def demo_world_def getItem_def key_defs)
  show ?thesis
    by (simp add: waiting_state_def boot_def w u begin_call_def on_answer_def demo_jobs_def r t
        start_refresh_def fresh_refresh_def first_request_def set_call_def Let_def split_beta)
qed

lemma waiting_reachable: "reachable demo_jobs waiting_state"
  unfolding waiting_state_def
proof (rule next_step, rule next_step, rule init)
  show "fstep demo_jobs (boot demo_world) (begin_call demo_jobs 0 (boot demo_world))"
    by (rule fstep.start) (simp add: boot_def)
  show "fstep demo_jobs (begin_call demo_jobs 0 (boot demo_world))
      (on_answer demo_jobs 0 (Inr unauthorized) (begin_call demo_jobs 0 (boot demo_world)))"
    by (rule fstep.answer) (simp add: begin_call_def Let_def demo_jobs_def)
qed

text \<open>The tokens that the recorded refresh requests carry.\<close>

definition refresh_body :: "string \<Rightarrow> json option" where
  "refresh_body t = Some (JObj [(''refreshToken'', JStr t)])"

definition raced_state :: flight where
  "raced_state = on_proactive_answer ''r1'' (Inr (granted ''a2'' ''r2'')) (proactive_tick waiting_state)"

lemma waiting_token: "getStoredRefreshToken (page waiting_state) = Some ''r1''"
  by (simp add: waiting_state_simps)

lemma raced_reachable: "reachable demo_jobs raced_state"
proof -
  have "reachable demo_jobs (proactive_tick waiting_state)"
    using waiting_reachable fstep.tick by (rule next_step)
  moreover have "''r1'' \<in> set (proactive (proactive_tick waiting_state))"
    by (simp add: proactive_tick_def waiting_token Let_def)
  ultimately show ?thesis
    unfolding raced_state_def using fstep.ticked next_step by blast
qed

lemma page_tick: "page (proactive_tick waiting_state) =
    demo_world\<lparr>isRefreshing := True, sent := [first_request ''/api/alerts'' (snd (demo_jobs 0)) demo_world,
      refresh_request ''r1'' demo_world,
      first_request ''/api/auth/refresh'' (proactive_options ''r1'') (page waiting_state)]\<rparr>"
  by (simp add: proactive_tick_def waiting_token Let_def) (simp add: waiting_state_simps)

lemma raced_simps:
  "page raced_state = storeTokens ''a2'' ''r2'' (page (proactive_tick waiting_state))"
  "promises raced_state = [None]"
  "calls raced_state 0 = Awaiting 0 (build_headers (snd (demo_jobs 0)) demo_world) unauthorized"
  by (simp_all add: raced_state_def on_proactive_answer_def proactive_store_granted proactive_tick_def
      waiting_token Let_def) (simp_all add: waiting_state_simps)

lemma raced_window: "windowDefined (page (proactive_tick waiting_state))"
  by (simp add: page_tick demo_world_def)

text \<open>The provider's ten-minute refresh does not take part in the single flight: there is
  an execution in which both refreshes are sent with the same refresh token, the provider's
  one is granted and its new tokens stored, and the answer of the other one, refused because
  the token has been rotated, then signs the user out.\<close>

theorem proactive_refresh_signs_out:
  "\<exists>s1 s2 s3. reachable demo_jobs s1 \<and> fstep demo_jobs s1 s2 \<and> fstep demo_jobs s2 s3 \<and>
     length (filter (\<lambda>r. req_body r = refresh_body ''r1'') (sent (page s1))) = 2 \<and>
     getStoredRefreshToken (page s1) = Some ''r2'' \<and> getStoredRefreshToken (page s3) = None \<and>
     (\<exists>e. calls s3 0 = Settled (Inl e))"
proof -
  let ?s2 = "on_refresh_answer 0 (Inr unauthorized) raced_state"
  let ?s3 = "resume demo_jobs 0 ?s2"
  have s2: "promises ?s2 = [Some False]"
    "calls ?s2 0 = Awaiting 0 (build_headers (snd (demo_jobs 0)) demo_world) unauthorized"
    by (simp_all add: on_refresh_answer_def refresh_answer_unauthorized raced_simps)
  have s3: "page ?s3 = clearWorkspaceId (clearTokens (page ?s2))"
    "calls ?s3 0 = Settled (finish unauthorized)"
    by (simp_all add: resume_def s2)
  have err: "\<exists>e. finish unauthorized = Inl e"
    by (simp add: finish_def unauthorized_def ok_status_def)
  have "fstep demo_jobs raced_state ?s2"
    by (rule fstep.refreshed) (simp_all add: raced_simps)
  moreover have "fstep demo_jobs ?s2 ?s3"
    using s2 by (intro fstep.resumed) auto
  moreover have "length (filter (\<lambda>r. req_body r = refresh_body ''r1'') (sent (page raced_state))) = 2"
    by (simp add: raced_simps page_tick first_request_def build_request_def refresh_request_def
        proactive_options_def refresh_body_def demo_jobs_def)
  moreover have "getStoredRefreshToken (page raced_state) = Some ''r2''"
    by (simp add: raced_simps raced_window)
  moreover have "getStoredRefreshToken (page ?s3) = None" by (simp add: s3)
  ultimately show ?thesis using raced_reachable s3(2) err
    by (intro exI [of _ raced_state] exI [of _ ?s2] exI [of _ ?s3]) auto
qed

lemma refresh_single_flight_witness:
  "isRefreshing (page waiting_state) \<and>
     (\<exists>p. outstanding waiting_state = {p} \<and> promiseVar waiting_state = Some p)"
  using refresh_single_flight [OF waiting_reachable] by (simp add: waiting_state_simps)

lemma waiting_call_not_stuck_witness: "outstanding waiting_state = {0}"
  using waiting_call_not_stuck [OF waiting_reachable, of 0 0] by (simp add: waiting_state_simps)

lemma late_refresh_restores_session_witness:
  "getStoredAccessToken (page (on_refresh_answer 0 (Inr (granted ''a2'' ''r2''))
     (waiting_state\<lparr>page := clearWorkspaceId (clearTokens (page waiting_state))\<rparr>))) = Some ''a2''"
  using late_refresh_restores_session [of waiting_state "''a2''" "''r2''"]
  by (simp add: waiting_state_simps demo_world_def)

lemma calls_never_regress_witness:
  "rank (calls (on_answer demo_jobs 0 (Inl ''offline'') (begin_call demo_jobs 0 (boot demo_world))) 0) < 3"
  using calls_never_regress [where jobs = demo_jobs and i = 0 and ans = "Inl ''offline''"
      and s = "begin_call demo_jobs 0 (boot demo_world)"
      and hs = "build_headers (snd (demo_jobs 0)) demo_world"]
  by (simp add: begin_call_def demo_jobs_def boot_def demo_world_def Let_def)

end
