(* ===== verification/Url.thy ===== *)
theory Url
  imports Prelude Kv_Store
begin

text \<open>
  Percent-encoding and \<open>URLSearchParams\<close> as the URL standard defines them, and the two hooks
  that keep table state in the address bar: \<open>core/hooks/use-sort-params.ts\<close> and
  \<open>core/hooks/use-filter-params.ts\<close>. Decoding gives \<^term>\<open>None\<close> when a byte sequence
  stands for a character outside the model's alphabet; encoding never produces one.
\<close>

section \<open>Percent-encoding\<close>

definition utf8 :: "char \<Rightarrow> nat list" where
  "utf8 c = (let n = code_unit c in if n < 128 then [n] else [192 + n div 64, 128 + n mod 64])"

definition hex_digit :: "nat \<Rightarrow> char" where
  "hex_digit d = (if d < 10 then char_of (48 + d) else char_of (55 + d))"

definition hex_value :: "char \<Rightarrow> nat option" where
  "hex_value c =
     (let n = code_unit c in
      if 48 \<le> n \<and> n \<le> 57 then Some (n - 48)
      else if 65 \<le> n \<and> n \<le> 70 then Some (n - 55)
      else if 97 \<le> n \<and> n \<le> 102 then Some (n - 87) else None)"

definition pct :: "nat \<Rightarrow> string" where
  "pct n = [CHR ''%'', hex_digit (n div 16), hex_digit (n mod 16)]"

definition alnum :: "char \<Rightarrow> bool" where
  "alnum c \<longleftrightarrow> is_upper c \<or> is_lower c \<or> is_digit c"

definition form_safe :: "char \<Rightarrow> bool" where
  "form_safe c \<longleftrightarrow> alnum c \<or> c \<in> set ''*-._''"

definition component_safe :: "char \<Rightarrow> bool" where
  "component_safe c \<longleftrightarrow> alnum c \<or> c \<in> set ''-_.!~*()'' \<or> c = CHR 0x27"

definition form_encode_char :: "char \<Rightarrow> string" where
  "form_encode_char c =
     (if c = CHR '' '' then ''+'' else if form_safe c then [c] else concat (map pct (utf8 c)))"

definition form_encode :: "string \<Rightarrow> string" where
  "form_encode s = concat (map form_encode_char s)"

definition encodeURIComponent :: "string \<Rightarrow> string" where
  "encodeURIComponent s =
     concat (map (\<lambda>c. if component_safe c then [c] else concat (map pct (utf8 c))) s)"

fun pct_decode :: "string \<Rightarrow> nat list" where
  "pct_decode [] = []"
| "pct_decode (c # s) =
     (if c = CHR ''%'' then
        (case s of
           x # y # t \<Rightarrow> (case (hex_value x, hex_value y) of
              (Some h, Some l) \<Rightarrow> (16 * h + l) # pct_decode t
            | _ \<Rightarrow> 37 # pct_decode s)
         | _ \<Rightarrow> 37 # pct_decode s)
      else utf8 c @ pct_decode s)"

fun utf8_decode :: "nat list \<Rightarrow> string option" where
  "utf8_decode [] = Some []"
| "utf8_decode (b # bs) =
     (if b < 128 then map_option ((#) (char_of b)) (utf8_decode bs)
      else case bs of
          c # cs \<Rightarrow>
            (if (b = 194 \<or> b = 195) \<and> 128 \<le> c \<and> c < 192
             then map_option ((#) (char_of ((b - 192) * 64 + (c - 128)))) (utf8_decode cs)
             else None)
        | [] \<Rightarrow> None)"

definition percent_decode :: "string \<Rightarrow> string option" where
  "percent_decode s = utf8_decode (pct_decode s)"

definition plus_to_space :: "char \<Rightarrow> char" where
  "plus_to_space c = (if c = CHR ''+'' then CHR '' '' else c)"

definition form_decode :: "string \<Rightarrow> string option" where
  "form_decode s = percent_decode (map plus_to_space s)"

lemma hex_value_digit [simp]: "d < 16 \<Longrightarrow> hex_value (hex_digit d) = Some d"
  by (auto simp: hex_value_def hex_digit_def Let_def)

lemma pct_decode_pct [simp]: "n < 256 \<Longrightarrow> pct_decode (pct n @ s) = n # pct_decode s"
  by (simp add: pct_def)

lemma utf8_bytes: "b \<in> set (utf8 c) \<Longrightarrow> b < 256"
proof -
  have "code_unit c div 64 < 4" using code_unit_less [of c] by (intro less_mult_imp_div_less) simp
  then show "b \<in> set (utf8 c) \<Longrightarrow> b < 256" by (auto simp: utf8_def Let_def split: if_splits)
qed

lemma pct_decode_bytes:
  "(\<forall>b \<in> set bs. b < 256) \<Longrightarrow> pct_decode (concat (map pct bs) @ s) = bs @ pct_decode s"
  by (induction bs) simp_all

lemma utf8_decode_utf8 [simp]: "utf8_decode (utf8 c @ bs) = map_option ((#) c) (utf8_decode bs)"
proof (cases "code_unit c < 128")
  case True
  then show ?thesis by (simp add: utf8_def Let_def)
next
  case False
  define n where "n = code_unit c"
  have n: "128 \<le> n" "n < 256" using False by (simp_all add: n_def)
  have "n div 64 = 2 \<or> n div 64 = 3" using n by arith
  moreover have "char_of n = c" by (simp add: n_def)
  moreover have "n div 64 * 64 + n mod 64 = n" by simp
  ultimately show ?thesis using n
    by (auto simp: utf8_def n_def [symmetric] Let_def)
qed

lemma safe_decode: "c \<noteq> CHR ''%'' \<Longrightarrow> utf8_decode (pct_decode (c # s)) = map_option ((#) c) (utf8_decode (pct_decode s))"
  by simp

text \<open>A component survives encoding and decoding, whatever it contains.\<close>

lemma percent_decode_encode [simp]: "percent_decode (encodeURIComponent s) = Some s"
proof (induction s)
  case (Cons c s)
  show ?case
  proof (cases "component_safe c")
    case True
    then have "c \<noteq> CHR ''%''" by (auto simp: component_safe_def alnum_def)
    with True Cons show ?thesis
      by (simp add: encodeURIComponent_def percent_decode_def)
  next
    case False
    with Cons show ?thesis
      by (simp add: encodeURIComponent_def percent_decode_def pct_decode_bytes utf8_bytes)
  qed
qed (simp add: encodeURIComponent_def percent_decode_def)

lemma pct_no_plus: "n < 256 \<Longrightarrow> map plus_to_space (pct n) = pct n"
proof -
  have "hex_digit d \<noteq> CHR ''+''" if "d < 16" for d
    using that hex_value_digit [OF that] by (auto simp: hex_value_def)
  then show "n < 256 \<Longrightarrow> map plus_to_space (pct n) = pct n"
    by (simp add: pct_def plus_to_space_def)
qed

lemma form_decode_encode [simp]: "form_decode (form_encode s) = Some s"
proof (induction s)
  case (Cons c s)
  have pp: "map plus_to_space (concat (map pct bs)) = concat (map pct bs)" if "\<forall>b \<in> set bs. b < 256" for bs
    using that by (induction bs) (simp_all add: pct_no_plus)
  show ?case
  proof (cases "c = CHR '' ''")
    case True
    with Cons show ?thesis
      by (simp add: form_encode_def form_decode_def percent_decode_def form_encode_char_def plus_to_space_def)
  next
    case False
    show ?thesis
    proof (cases "form_safe c")
      case True
      then have "c \<noteq> CHR ''%''" "c \<noteq> CHR ''+''" by (auto simp: form_safe_def alnum_def)
      with True False Cons show ?thesis
        by (simp add: form_encode_def form_decode_def percent_decode_def form_encode_char_def plus_to_space_def)
    next
      case unsafe: False
      have b: "\<forall>b \<in> set (utf8 c). b < 256" using utf8_bytes by blast
      show ?thesis using Cons False unsafe
        by (simp add: form_encode_def form_decode_def percent_decode_def form_encode_char_def
            pp [OF b] pct_decode_bytes [OF b])
    qed
  qed
qed (simp add: form_encode_def form_decode_def percent_decode_def)

lemma form_encode_chars: "c \<in> set (form_encode s) \<Longrightarrow> form_safe c \<or> c = CHR ''+'' \<or> c = CHR ''%''"
proof -
  have hex: "form_safe (hex_digit d)" if "d < 16" for d
    using that by (auto simp: form_safe_def alnum_def hex_digit_def is_digit_def is_upper_def)
  show "c \<in> set (form_encode s) \<Longrightarrow> form_safe c \<or> c = CHR ''+'' \<or> c = CHR ''%''"
    by (auto simp: form_encode_def form_encode_char_def pct_def hex dest: utf8_bytes split: if_splits)
qed

lemma form_encode_no_separator: "CHR ''&'' \<notin> set (form_encode s)" "CHR ''='' \<notin> set (form_encode s)"
  using form_encode_chars [of "CHR ''&''" s] form_encode_chars [of "CHR ''=''" s]
  by (auto simp: form_safe_def alnum_def)

text \<open>\<open>decodeURIComponent\<close> of JavaScript is strict: it throws on a stray percent sign.\<close>

fun strict_bytes :: "string \<Rightarrow> nat list option" where
  "strict_bytes [] = Some []"
| "strict_bytes (c # s) =
     (if c = CHR ''%'' then
        (case s of
           x # y # t \<Rightarrow> (case (hex_value x, hex_value y) of
              (Some h, Some l) \<Rightarrow> map_option ((#) (16 * h + l)) (strict_bytes t)
            | _ \<Rightarrow> None)
         | _ \<Rightarrow> None)
      else map_option ((@) (utf8 c)) (strict_bytes s))"

definition decodeURIComponent :: "string \<Rightarrow> string option" where
  "decodeURIComponent s = (case strict_bytes s of None \<Rightarrow> None | Some bs \<Rightarrow> utf8_decode bs)"

lemma strict_bytes_pct [simp]: "n < 256 \<Longrightarrow> strict_bytes (pct n @ s) = map_option ((#) n) (strict_bytes s)"
  by (simp add: pct_def)

lemma strict_bytes_concat:
  "(\<forall>b \<in> set bs. b < 256) \<Longrightarrow>
     strict_bytes (concat (map pct bs) @ s) = map_option ((@) bs) (strict_bytes s)"
  by (induction bs) (cases "strict_bytes s"; simp)+

lemma strict_bytes_encode: "strict_bytes (encodeURIComponent s) = Some (concat (map utf8 s))"
proof (induction s)
  case (Cons c s)
  have "c \<noteq> CHR ''%''" if "component_safe c"
    using that by (auto simp: component_safe_def alnum_def)
  with Cons show ?case
    by (auto simp: encodeURIComponent_def strict_bytes_concat utf8_bytes)
qed (simp add: encodeURIComponent_def)

lemma utf8_decode_all: "utf8_decode (concat (map utf8 s)) = Some s"
  by (induction s) simp_all

lemma decode_encodeURIComponent [simp]: "decodeURIComponent (encodeURIComponent s) = Some s"
  by (simp add: decodeURIComponent_def strict_bytes_encode utf8_decode_all)

section \<open>\<open>URLSearchParams\<close>\<close>

type_synonym params = "(string \<times> string) list"

definition usp_get :: "params \<Rightarrow> string \<Rightarrow> string option" where
  "usp_get ps k = map_of ps k"

definition usp_delete :: "string \<Rightarrow> params \<Rightarrow> params" where
  "usp_delete k ps = filter (\<lambda>(j, _). j \<noteq> k) ps"

text \<open>\<open>set\<close> replaces the first pair with the name, drops the others, or appends.\<close>

fun usp_set :: "string \<Rightarrow> string \<Rightarrow> params \<Rightarrow> params" where
  "usp_set k v [] = [(k, v)]"
| "usp_set k v ((j, u) # ps) = (if j = k then (k, v) # usp_delete k ps else (j, u) # usp_set k v ps)"

definition usp_pair :: "string \<times> string \<Rightarrow> string" where
  "usp_pair kv = form_encode (fst kv) @ ''='' @ form_encode (snd kv)"

definition usp_toString :: "params \<Rightarrow> string" where
  "usp_toString ps = join_with ''&'' (map usp_pair ps)"

definition parse_pair :: "string \<Rightarrow> (string \<times> string) option" where
  "parse_pair s =
     (case form_decode (takeWhile (\<lambda>c. c \<noteq> CHR ''='') s) of
        None \<Rightarrow> None
      | Some k \<Rightarrow> map_option (Pair k) (form_decode (drop 1 (dropWhile (\<lambda>c. c \<noteq> CHR ''='') s))))"

fun all_some :: "'a option list \<Rightarrow> 'a list option" where
  "all_some [] = Some []"
| "all_some (None # xs) = None"
| "all_some (Some x # xs) = map_option ((#) x) (all_some xs)"

definition usp_parse :: "string \<Rightarrow> params option" where
  "usp_parse s = all_some (map parse_pair (filter (\<lambda>x. x \<noteq> []) (split_char CHR ''&'' s)))"

lemma usp_get_delete: "usp_get (usp_delete k ps) j = (if j = k then None else usp_get ps j)"
  by (induction ps) (auto simp: usp_get_def usp_delete_def)

lemma usp_get_set: "usp_get (usp_set k v ps) j = (if j = k then Some v else usp_get ps j)"
proof (induction ps)
  case (Cons p ps)
  then show ?case
    using usp_get_delete [of k ps j] by (cases p) (auto simp: usp_get_def)
qed (simp add: usp_get_def)

interpretation usp: kv_store usp_get usp_set usp_delete "\<lambda>_. True"
  by unfold_locales (simp_all add: usp_get_set usp_get_delete)

lemma parse_usp_pair [simp]: "parse_pair (usp_pair kv) = Some kv"
proof -
  have no: "\<forall>c \<in> set (form_encode (fst kv)). c \<noteq> CHR ''=''"
    using form_encode_no_separator by metis
  then have "takeWhile (\<lambda>c. c \<noteq> CHR ''='') (usp_pair kv) = form_encode (fst kv)"
    "dropWhile (\<lambda>c. c \<noteq> CHR ''='') (usp_pair kv) = CHR ''='' # form_encode (snd kv)"
    by (simp_all add: usp_pair_def takeWhile_append2 dropWhile_append2)
  then show ?thesis by (simp add: parse_pair_def)
qed

lemma usp_pair_ne [simp]: "usp_pair kv \<noteq> []"
  by (simp add: usp_pair_def)

lemma usp_pair_no_amp: "CHR ''&'' \<notin> set (usp_pair kv)"
  using form_encode_no_separator by (simp add: usp_pair_def)

lemma usp_parse_toString [simp]: "usp_parse (usp_toString ps) = Some ps"
proof (cases "ps = []")
  case True
  then show ?thesis by (simp add: usp_parse_def usp_toString_def)
next
  case False
  then have "split_char CHR ''&'' (usp_toString ps) = map usp_pair ps"
    unfolding usp_toString_def by (intro split_join) (auto simp: usp_pair_no_amp)
  moreover have "filter (\<lambda>x. x \<noteq> []) (map usp_pair ps) = map usp_pair ps"
    by (induction ps) auto
  moreover have "all_some (map parse_pair (map usp_pair ps)) = Some ps"
    by (induction ps) auto
  ultimately show ?thesis by (simp add: usp_parse_def)
qed

lemma usp_toString_Nil [simp]: "usp_toString ps = [] \<longleftrightarrow> ps = []"
  by (cases ps; cases "tl ps") (auto simp: usp_toString_def)

text \<open>A location: what the router makes of a pushed URL (no fragment).\<close>

definition read_url :: "string \<Rightarrow> string \<times> params option" where
  "read_url url = (takeWhile (\<lambda>c. c \<noteq> CHR ''?'') url,
     usp_parse (drop 1 (dropWhile (\<lambda>c. c \<noteq> CHR ''?'') url)))"

text \<open>\<open>qs ? `${pathname}?${qs}` : pathname\<close>.\<close>

definition with_query :: "string \<Rightarrow> params \<Rightarrow> string" where
  "with_query pathname ps =
     (let qs = usp_toString ps in if qs \<noteq> [] then pathname @ ''?'' @ qs else pathname)"

lemma read_with_query:
  assumes "CHR ''?'' \<notin> set pathname"
  shows "read_url (with_query pathname ps) = (pathname, Some ps)"
proof -
  have p: "\<forall>c \<in> set pathname. c \<noteq> CHR ''?''" using assms by auto
  show ?thesis
  proof (cases "ps = []")
    case True
    have "takeWhile (\<lambda>c. c \<noteq> CHR ''?'') pathname = pathname"
      "dropWhile (\<lambda>c. c \<noteq> CHR ''?'') pathname = []"
      using p by (simp_all add: takeWhile_eq_all_conv dropWhile_eq_Nil_conv)
    moreover have "usp_parse [] = Some []"
      using usp_parse_toString [of "[]"] by (simp add: usp_toString_def)
    ultimately show ?thesis using True
      by (simp add: with_query_def read_url_def Let_def del: takeWhile_eq_all_conv dropWhile_eq_Nil_conv)
  next
    case False
    have "takeWhile (\<lambda>c. c \<noteq> CHR ''?'') (pathname @ CHR ''?'' # qs) = pathname"
      "dropWhile (\<lambda>c. c \<noteq> CHR ''?'') (pathname @ CHR ''?'' # qs) = CHR ''?'' # qs" for qs
      using p by (simp_all add: takeWhile_append2 dropWhile_append2)
    with False show ?thesis by (simp add: with_query_def read_url_def Let_def)
  qed
qed

section \<open>Conditional parameters\<close>

text \<open>\<open>if (v) params.set(k, v)\<close> for a string and for a number.\<close>

definition set_truthy :: "string \<Rightarrow> string option \<Rightarrow> params \<Rightarrow> params" where
  "set_truthy k v ps = (case v of None \<Rightarrow> ps | Some x \<Rightarrow> if x = [] then ps else usp_set k x ps)"

definition set_num :: "string \<Rightarrow> int option \<Rightarrow> params \<Rightarrow> params" where
  "set_num k v ps = (case v of None \<Rightarrow> ps | Some n \<Rightarrow> if n = 0 then ps else usp_set k (show_int n) ps)"

text \<open>\<open>if (params.page !== undefined)\<close>.\<close>

definition set_defined :: "string \<Rightarrow> int option \<Rightarrow> params \<Rightarrow> params" where
  "set_defined k v ps = (case v of None \<Rightarrow> ps | Some n \<Rightarrow> usp_set k (show_int n) ps)"

lemma usp_get_set_num:
  "usp_get (set_num k v ps) j = (if j = k \<and> v \<noteq> None \<and> v \<noteq> Some 0 then map_option show_int v else usp_get ps j)"
  "usp_get (set_defined k v ps) j = (if j = k \<and> v \<noteq> None then map_option show_int v else usp_get ps j)"
  by (auto simp: set_num_def set_defined_def usp_get_set split: option.splits)

lemma usp_get_set_truthy:
  "usp_get (set_truthy k v ps) j = (if j = k \<and> truthy_str v then v else usp_get ps j)"
  by (auto simp: set_truthy_def usp_get_set split: option.splits)

lemma usp_get_Cons [simp]: "usp_get [] k = None" "usp_get ((j, v) # ps) k = (if j = k then Some v else usp_get ps k)"
  by (simp_all add: usp_get_def)

section \<open>\<open>useSortParams\<close>\<close>

record sort_entry =
  sort_id :: string
  sort_desc :: bool

type_synonym sorting_state = "sort_entry list"

datatype updater = Value sorting_state | Update "sorting_state \<Rightarrow> sorting_state"

definition sorting_of :: "params \<Rightarrow> sorting_state" where
  "sorting_of ps =
     (case usp_get ps ''sort'' of
        None \<Rightarrow> []
      | Some s \<Rightarrow> if s = [] then []
                  else [\<lparr>sort_id = s, sort_desc = (usp_get ps ''order'' = Some ''desc'')\<rparr>])"

definition sort_params :: "updater \<Rightarrow> params \<Rightarrow> params" where
  "sort_params upd ps =
     (let next = (case upd of Update f \<Rightarrow> f (sorting_of ps) | Value v \<Rightarrow> v) in
      case next of
        e # _ \<Rightarrow> usp_set ''order'' (if sort_desc e then ''desc'' else ''asc'')
                  (usp_set ''sort'' (sort_id e) ps)
      | [] \<Rightarrow> usp_delete ''order'' (usp_delete ''sort'' ps))"

definition setSorting :: "string \<Rightarrow> params \<Rightarrow> updater \<Rightarrow> string" where
  "setSorting pathname searchParams upd = with_query pathname (sort_params upd searchParams)"

section \<open>\<open>useFilterParams\<close>\<close>

text \<open>The filters are the entries of a record, in their order.\<close>

definition filter_params :: "params \<Rightarrow> (string \<Rightarrow> string option) \<Rightarrow> params" where
  "filter_params filters defaults =
     fold (\<lambda>(key, val) ps.
        (let defaultValue = (case defaults key of Some d \<Rightarrow> d | None \<Rightarrow> []) in
         if val \<noteq> [] \<and> val \<noteq> defaultValue then usp_set key val ps else ps)) filters []"

definition useFilterParams :: "bool \<Rightarrow> string \<Rightarrow> params \<Rightarrow> (string \<Rightarrow> string option) \<Rightarrow> bool \<times> string option" where
  "useFilterParams isInitialMount pathname filters defaults =
     (if isInitialMount then (False, None)
      else (False, Some (with_query pathname (filter_params filters defaults))))"

section \<open>Properties\<close>

lemma sort_params_other:
  "k \<noteq> ''sort'' \<Longrightarrow> k \<noteq> ''order'' \<Longrightarrow> usp_get (sort_params upd ps) k = usp_get ps k"
  by (auto simp: sort_params_def Let_def usp_get_set usp_get_delete split: list.splits)

lemma sorting_of_sort_params:
  "sorting_of (sort_params (Value next) ps) = (case next of e # _ \<Rightarrow> if sort_id e = [] then [] else [e] | [] \<Rightarrow> [])"
  by (auto simp: sort_params_def sorting_of_def usp_get_set usp_get_delete split: list.splits)

text \<open>The table's sorting survives the address bar: the URL that \<open>setSorting\<close> pushes reads
  back as the same page with the first entry of the new sorting state, whatever characters its
  column id holds, and every other query parameter keeps its value.\<close>

theorem sorting_url_roundtrip:
  assumes "CHR ''?'' \<notin> set pathname" and "sort_id e \<noteq> []"
  shows "\<exists>ps. read_url (setSorting pathname searchParams (Value (e # es))) = (pathname, Some ps) \<and>
     sorting_of ps = [e] \<and>
     (\<forall>k. k \<notin> {''sort'', ''order''} \<longrightarrow> usp_get ps k = usp_get searchParams k)"
  using assms by (simp add: setSorting_def read_with_query sorting_of_sort_params sort_params_other)

lemma sorting_url_roundtrip_witness:
  "\<exists>ps. read_url (setSorting ''/alerts'' [(''q'', ''a b&c'')]
       (Value [\<lparr>sort_id = ''created at'', sort_desc = True\<rparr>])) = (''/alerts'', Some ps) \<and>
     sorting_of ps = [\<lparr>sort_id = ''created at'', sort_desc = True\<rparr>]"
  using sorting_url_roundtrip [of "''/alerts''" "\<lparr>sort_id = ''created at'', sort_desc = True\<rparr>"
      "[(''q'', ''a b&c'')]" "[]"] by auto

lemma filter_params_fold:
  "usp_get (fold (\<lambda>(key, val) ps.
        (let defaultValue = (case defaults key of Some d \<Rightarrow> d | None \<Rightarrow> []) in
         if val \<noteq> [] \<and> val \<noteq> defaultValue then usp_set key val ps else ps)) fs ps) k =
   (case map_of (rev (filter (\<lambda>(key, val). val \<noteq> [] \<and>
        val \<noteq> (case defaults key of Some d \<Rightarrow> d | None \<Rightarrow> [])) fs)) k of
      Some v \<Rightarrow> Some v | None \<Rightarrow> usp_get ps k)"
  by (induction fs arbitrary: ps)
    (auto simp: usp_get_set Let_def map_add_def split: option.splits)

lemma map_of_rev_distinct: "distinct (map fst xs) \<Longrightarrow> map_of (rev xs) = map_of xs"
proof (induction xs)
  case (Cons x xs)
  then have "map_of xs (fst x) = None" by (auto simp: map_of_eq_None_iff)
  with Cons show ?case
    by (cases x) (auto simp: map_add_def fun_eq_iff split: option.splits)
qed simp

lemma usp_get_filter_params:
  assumes "distinct (map fst filters)"
  shows "usp_get (filter_params filters defaults) k =
    (case map_of filters k of
       None \<Rightarrow> None
     | Some v \<Rightarrow> if v \<noteq> [] \<and> v \<noteq> (case defaults k of Some d \<Rightarrow> d | None \<Rightarrow> []) then Some v else None)"
proof -
  let ?keep = "\<lambda>(key, val). val \<noteq> [] \<and> val \<noteq> (case defaults key of Some d \<Rightarrow> d | None \<Rightarrow> [])"
  have "distinct (map fst (filter ?keep filters))"
    using assms by (rule distinct_map_filter)
  then have rv: "map_of (rev (filter ?keep filters)) k = map_of (filter ?keep filters) k"
    by (simp add: map_of_rev_distinct)
  have mf: "map_of (filter ?keep filters) k = (case map_of filters k of None \<Rightarrow> None
      | Some v \<Rightarrow> if ?keep (k, v) then Some v else None)"
    using assms
  proof (induction filters)
    case (Cons f fs)
    obtain a b where f: "f = (a, b)" by fastforce
    show ?case
    proof (cases "a = k")
      case True
      with Cons.prems f have "map_of fs k = None" by (simp add: map_of_eq_None_iff)
      with Cons f True show ?thesis by auto
    next
      case False
      with Cons f show ?thesis by auto
    qed
  qed simp
  have nil: "usp_get [] k = None" by (simp add: usp_get_def)
  show ?thesis
    unfolding filter_params_def filter_params_fold rv mf nil by (auto split: option.splits)
qed

text \<open>After a filter change the address bar holds exactly the filters that differ from
  their defaults, with their values, and nothing else.\<close>

theorem filter_url_exact:
  assumes "CHR ''?'' \<notin> set pathname" and "distinct (map fst filters)"
  shows "\<exists>url ps. useFilterParams False pathname filters defaults = (False, Some url) \<and>
     read_url url = (pathname, Some ps) \<and>
     (\<forall>k v. usp_get ps k = Some v \<longleftrightarrow>
        map_of filters k = Some v \<and> v \<noteq> [] \<and> v \<noteq> (case defaults k of Some d \<Rightarrow> d | None \<Rightarrow> []))"
  using assms by (simp add: useFilterParams_def read_with_query usp_get_filter_params
      del: map_of_eq_Some_iff Some_eq_map_of_iff split: option.split) blast

lemma filter_url_exact_witness:
  "\<exists>url ps. useFilterParams False ''/alerts'' [(''status'', ''open''), (''q'', [])] (\<lambda>_. None) =
       (False, Some url) \<and> read_url url = (''/alerts'', Some ps) \<and> usp_get ps ''status'' = Some ''open''"
  using filter_url_exact [of "''/alerts''" "[(''status'', ''open''), (''q'', [])]" "\<lambda>_. None"] by auto

text \<open>The two hooks do not compose. \<open>useFilterParams\<close> builds its parameters from scratch, so
  any filter change on a page that also sorts by URL removes the sort parameters: the sorting
  the user chose is silently reset.\<close>

theorem filter_change_drops_sorting:
  assumes "CHR ''?'' \<notin> set pathname" and "distinct (map fst filters)" and "''sort'' \<notin> fst ` set filters"
  shows "\<exists>url ps. useFilterParams False pathname filters defaults = (False, Some url) \<and>
     read_url url = (pathname, Some ps) \<and> sorting_of ps = []"
proof -
  have "map_of filters ''sort'' = None" using assms(3) by (simp add: map_of_eq_None_iff)
  with assms(1,2) show ?thesis
    by (auto simp: useFilterParams_def read_with_query usp_get_filter_params sorting_of_def)
qed

lemma filter_change_drops_sorting_witness:
  "\<exists>url ps. useFilterParams False ''/alerts'' [(''status'', ''open'')] (\<lambda>_. None) = (False, Some url) \<and>
     read_url url = (''/alerts'', Some ps) \<and> sorting_of ps = []"
  using filter_change_drops_sorting [of "''/alerts''" "[(''status'', ''open'')]" "\<lambda>_. None"] by simp

end
