(* ===== verification/Roles.thy ===== *)
theory Roles
  imports Json Sanitizer
begin

text \<open>
  Small ordered vocabularies of the core: workspace roles and what they permit
  (\<open>core/hooks/use-workspace-role.ts\<close>, \<open>features/auth/ui/require-role.tsx\<close>), screen
  breakpoints and column visibility (\<open>use-breakpoint.ts\<close>, \<open>use-responsive-columns.ts\<close>,
  \<open>use-mobile.ts\<close>), and the retry policy of \<open>query-provider.tsx\<close>.
\<close>

section \<open>Positions in a hierarchy\<close>

text \<open>\<open>xs.indexOf(x)\<close>, with -1 for an absent element.\<close>

fun indexOf :: "'a list \<Rightarrow> 'a \<Rightarrow> int" where
  "indexOf [] x = -1"
| "indexOf (y # ys) x = (if y = x then 0 else let i = indexOf ys x in if i = -1 then -1 else i + 1)"

section \<open>Workspace roles\<close>

datatype WorkspaceRole = owner | admin | member | viewer

definition ROLE_HIERARCHY :: "WorkspaceRole list" where
  "ROLE_HIERARCHY = [viewer, member, admin, owner]"

definition getRoleLevel :: "WorkspaceRole \<Rightarrow> int" where
  "getRoleLevel role = indexOf ROLE_HIERARCHY role"

definition hasMinimumRole :: "WorkspaceRole option \<Rightarrow> WorkspaceRole \<Rightarrow> bool" where
  "hasMinimumRole userRole minimumRole =
     (case userRole of None \<Rightarrow> False | Some r \<Rightarrow> getRoleLevel minimumRole \<le> getRoleLevel r)"

lemma getRoleLevel_simps [simp]:
  "getRoleLevel viewer = 0" "getRoleLevel member = 1" "getRoleLevel admin = 2" "getRoleLevel owner = 3"
  by (simp_all add: getRoleLevel_def ROLE_HIERARCHY_def)

instantiation WorkspaceRole :: linorder
begin

definition less_eq_WorkspaceRole :: "WorkspaceRole \<Rightarrow> WorkspaceRole \<Rightarrow> bool" where
  "less_eq_WorkspaceRole a b \<longleftrightarrow> getRoleLevel a \<le> getRoleLevel b"

definition less_WorkspaceRole :: "WorkspaceRole \<Rightarrow> WorkspaceRole \<Rightarrow> bool" where
  "less_WorkspaceRole a b \<longleftrightarrow> getRoleLevel a < getRoleLevel b"

instance
proof
  fix a b :: WorkspaceRole
  show "a \<le> b \<Longrightarrow> b \<le> a \<Longrightarrow> a = b"
    by (cases a; cases b) (simp_all add: less_eq_WorkspaceRole_def)
qed (auto simp: less_eq_WorkspaceRole_def less_WorkspaceRole_def)

end

text \<open>The role in the server's answer, \<open>data?.data?.role?.toLowerCase()\<close>. The type of the
  answer says that \<open>role\<close> is a string; on another value \<open>toLowerCase\<close> is a \<open>TypeError\<close>.\<close>

definition role_of_name :: "string \<Rightarrow> WorkspaceRole option" where
  "role_of_name n =
     (if n = ''owner'' then Some owner else if n = ''admin'' then Some admin
      else if n = ''member'' then Some member else if n = ''viewer'' then Some viewer else None)"

fun role_name :: "WorkspaceRole \<Rightarrow> string" where
  "role_name owner = ''owner''"
| "role_name admin = ''admin''"
| "role_name member = ''member''"
| "role_name viewer = ''viewer''"

datatype role_answer = TypeErr | Role "WorkspaceRole option"

definition currentWorkspaceRole :: "json option \<Rightarrow> role_answer" where
  "currentWorkspaceRole data =
     (let inner = (if nullish data then None else opt_prop data ''data'');
          r = (if nullish inner then None else opt_prop inner ''role'')
      in case r of
           None \<Rightarrow> Role None
         | Some JNull \<Rightarrow> Role None
         | Some (JStr s) \<Rightarrow> Role (role_of_name (toLowerCase s))
         | Some _ \<Rightarrow> TypeErr)"

definition role_endpoint :: "string option \<Rightarrow> string option \<Rightarrow> string option" where
  "role_endpoint workspaceId currentId =
     (case (case workspaceId of Some i \<Rightarrow> Some i | None \<Rightarrow> currentId) of
        None \<Rightarrow> None
      | Some i \<Rightarrow> if i = [] then None else Some (''/api/workspaces/'' @ i @ ''/members/me/role''))"

datatype role_gate = RoleSkeleton | RoleDenied | RoleChildren

definition RequireRole :: "bool \<Rightarrow> WorkspaceRole option \<Rightarrow> WorkspaceRole \<Rightarrow> role_gate" where
  "RequireRole isPending role minimumRole =
     (if isPending then RoleSkeleton
      else if \<not> hasMinimumRole role minimumRole then RoleDenied
      else RoleChildren)"

lemma toLowerCase_role [simp]: "toLowerCase (role_name r) = role_name r"
  by (cases r) (simp_all add: toLowerCase_def)

lemma role_of_name_name [simp]: "role_of_name (role_name r) = Some r"
  by (cases r) (simp_all add: role_of_name_def)

lemma role_of_name_iff: "role_of_name n = Some r \<longleftrightarrow> n = role_name r"
  by (cases r) (auto simp: role_of_name_def)

text \<open>The role check is the order of the roles: a user passes it exactly with a role at least
  as high as the required one, so whoever may do what a role may do may also do what every
  lower role may do, and without a role nothing.\<close>

theorem hasMinimumRole_order:
  "(hasMinimumRole u m \<longleftrightarrow> (\<exists>r. u = Some r \<and> m \<le> r)) \<and>
   (hasMinimumRole u m \<and> m' \<le> m \<longrightarrow> hasMinimumRole u m') \<and>
   (hasMinimumRole u owner \<longleftrightarrow> u = Some owner)"
proof -
  have top: "owner \<le> r \<longleftrightarrow> r = owner" for r :: WorkspaceRole
    by (cases r) (simp_all add: less_eq_WorkspaceRole_def)
  have *: "hasMinimumRole u m \<longleftrightarrow> (\<exists>r. u = Some r \<and> m \<le> r)" for m
    by (auto simp: hasMinimumRole_def less_eq_WorkspaceRole_def split: option.splits)
  show ?thesis unfolding * by (auto simp: top intro: order_trans)
qed

lemma hasMinimumRole_order_witness: "hasMinimumRole (Some admin) viewer"
  using hasMinimumRole_order [of "Some admin" member viewer]
  by (simp add: less_eq_WorkspaceRole_def hasMinimumRole_def)

text \<open>A guarded view is shown only for an answer of the server that names, in any mixture of
  upper and lower case, one of the four roles with the required level; a missing, unknown or
  empty role in the answer shows nothing.\<close>

theorem RequireRole_shows_only_named:
  assumes "currentWorkspaceRole (Some (JObj [(''data'', JObj [(''role'', JStr s)])])) = Role role"
  shows "RequireRole False role minimum = RoleChildren \<longleftrightarrow>
     (\<exists>r. toLowerCase s = role_name r \<and> minimum \<le> r)"
  using assms
  by (auto simp: currentWorkspaceRole_def RequireRole_def hasMinimumRole_def less_eq_WorkspaceRole_def
      role_of_name_iff [symmetric] split: option.splits)

lemma RequireRole_shows_only_named_witness:
  "RequireRole False (Some admin) member = RoleChildren"
proof -
  have "toLowerCase ''Admin'' = role_name admin" by code_simp
  moreover from this have
    "currentWorkspaceRole (Some (JObj [(''data'', JObj [(''role'', JStr ''Admin'')])])) = Role (Some admin)"
    by (simp add: currentWorkspaceRole_def role_of_name_def)
  ultimately show ?thesis
    using RequireRole_shows_only_named [of "''Admin''" "Some admin" member]
    by (auto simp: less_eq_WorkspaceRole_def intro: exI [of _ admin])
qed

section \<open>Breakpoints\<close>

datatype Breakpoint = mobile | tablet | desktop | xl

definition BREAKPOINT_tablet :: int where "BREAKPOINT_tablet = 768"
definition BREAKPOINT_desktop :: int where "BREAKPOINT_desktop = 1024"
definition BREAKPOINT_xl :: int where "BREAKPOINT_xl = 1440"

definition BREAKPOINT_ORDER :: "Breakpoint list" where
  "BREAKPOINT_ORDER = [mobile, tablet, desktop, xl]"

definition isAtLeast :: "Breakpoint \<Rightarrow> Breakpoint \<Rightarrow> bool" where
  "isAtLeast current minimum \<longleftrightarrow> indexOf BREAKPOINT_ORDER minimum \<le> indexOf BREAKPOINT_ORDER current"

definition useBreakpoint :: "int \<Rightarrow> Breakpoint" where
  "useBreakpoint w =
     (if w < BREAKPOINT_tablet then mobile
      else if w < BREAKPOINT_desktop then tablet
      else if w < BREAKPOINT_xl then desktop
      else xl)"

definition MOBILE_BREAKPOINT :: int where "MOBILE_BREAKPOINT = 768"

definition getIsMobile :: "int option \<Rightarrow> bool" where
  "getIsMobile innerWidth = (case innerWidth of Some w \<Rightarrow> w < MOBILE_BREAKPOINT | None \<Rightarrow> False)"

definition responsive_columns :: "Breakpoint \<Rightarrow> (string \<times> Breakpoint) list \<Rightarrow> (string \<times> bool) list" where
  "responsive_columns breakpoint columnBreakpoints =
     map (\<lambda>(columnId, minBreakpoint). (columnId, isAtLeast breakpoint minBreakpoint)) columnBreakpoints"

lemma isAtLeast_simps:
  "isAtLeast b mobile" "isAtLeast b tablet \<longleftrightarrow> b \<noteq> mobile"
  "isAtLeast b desktop \<longleftrightarrow> b \<notin> {mobile, tablet}" "isAtLeast b xl \<longleftrightarrow> b = xl"
  by (cases b; simp add: isAtLeast_def BREAKPOINT_ORDER_def)+

text \<open>Widening the window never hides a column: a column visible at one width is visible at
  every larger width, every column is visible at the largest breakpoint, and the two hooks
  agree on what a mobile width is.\<close>

theorem columns_monotone:
  "(v \<le> w \<and> (c, True) \<in> set (responsive_columns (useBreakpoint v) cols) \<longrightarrow>
      (c, True) \<in> set (responsive_columns (useBreakpoint w) cols)) \<and>
   (BREAKPOINT_xl \<le> w \<longrightarrow> (\<forall>x \<in> set (responsive_columns (useBreakpoint w) cols). snd x)) \<and>
   (getIsMobile (Some w) \<longleftrightarrow> useBreakpoint w = mobile)"
proof -
  have mono: "isAtLeast (useBreakpoint w) m" if "v \<le> w" "isAtLeast (useBreakpoint v) m" for m
    using that
    by (cases m) (auto simp: isAtLeast_simps useBreakpoint_def BREAKPOINT_tablet_def
        BREAKPOINT_desktop_def BREAKPOINT_xl_def split: if_splits)
  have top: "isAtLeast (useBreakpoint w) m" if "BREAKPOINT_xl \<le> w" for m
    using that by (cases m) (auto simp: isAtLeast_simps useBreakpoint_def BREAKPOINT_tablet_def
        BREAKPOINT_desktop_def BREAKPOINT_xl_def)
  have mob: "getIsMobile (Some w) \<longleftrightarrow> useBreakpoint w = mobile"
    by (simp add: getIsMobile_def useBreakpoint_def MOBILE_BREAKPOINT_def BREAKPOINT_tablet_def)
  have vis: "(c, True) \<in> set (responsive_columns b cols) \<longleftrightarrow> (\<exists>m. (c, m) \<in> set cols \<and> isAtLeast b m)" for b
    by (force simp: responsive_columns_def)
  show ?thesis unfolding mob vis using mono top by (auto simp: responsive_columns_def)
qed

lemma columns_monotone_witness:
  "(''rank'', True) \<in> set (responsive_columns (useBreakpoint 1500) [(''rank'', desktop)])"
proof -
  have "(''rank'', True) \<in> set (responsive_columns (useBreakpoint 1200) [(''rank'', desktop)])"
    by (simp add: responsive_columns_def useBreakpoint_def isAtLeast_simps BREAKPOINT_tablet_def
        BREAKPOINT_desktop_def BREAKPOINT_xl_def)
  then show ?thesis
    using columns_monotone [of 1200 1500 "''rank''" "[(''rank'', desktop)]"] by simp
qed

section \<open>The retry policy\<close>

definition retry_query :: "nat \<Rightarrow> thrown \<Rightarrow> bool" where
  "retry_query failureCount error =
     (case error of
        ErrorObj m \<Rightarrow> (if startsWith m ''Rate limited'' then False else failureCount < 1)
      | _ \<Rightarrow> failureCount < 1)"

definition retry_delay :: "nat \<Rightarrow> nat" where
  "retry_delay attemptIndex = min (1000 * 2 ^ attemptIndex) 30000"

text \<open>A query is sent at most twice, a rate-limited one once, with a back-off that never exceeds
  thirty seconds; but contrary to the policy's comment a query that failed because the session
  expired is repeated like any other.\<close>

theorem retry_policy:
  "(retry_query failureCount error \<longrightarrow> failureCount = 0) \<and>
   \<not> retry_query failureCount (ErrorObj (rate_limit_message n)) \<and>
   retry_query 0 (ErrorObj ''Your session has expired. Please sign in again.'') \<and>
   retry_delay i \<le> 30000 \<and> (i \<le> j \<longrightarrow> retry_delay i \<le> retry_delay j)"
proof -
  have "retry_delay i \<le> retry_delay j" if "i \<le> j"
  proof -
    have "(2::nat) ^ i \<le> 2 ^ j" using that by (simp add: power_increasing)
    then have "1000 * (2::nat) ^ i \<le> 1000 * 2 ^ j" by simp
    then show ?thesis unfolding retry_delay_def by (rule min.mono) simp
  qed
  then show ?thesis
    by (auto simp: retry_query_def rate_limit_message_def retry_delay_def split: thrown.splits if_splits)
qed

lemma retry_policy_witness: "retry_delay 3 \<le> retry_delay 4"
  using retry_policy [of 0 "ErrorObj []" 0 3 4] by simp

end
