(* ===== verification/Routes.thy ===== *)
theory Routes
  imports Http Url
begin

text \<open>
  Paths and guards: the route table of \<open>core/routes.ts\<close>, the server-side redirects of
  \<open>proxy.ts\<close>, and the client-side guards \<open>ProtectedRoute\<close>, \<open>RequireSuperAdmin\<close>,
  \<open>RequireWorkspace\<close> and \<open>AppShell\<close>. A guard's result is what it renders and
  the path it pushes.
\<close>

section \<open>The route table\<close>

datatype route =
    LOGIN | REGISTER | FORGOT_PASSWORD | RESET_PASSWORD | VERIFY_EMAIL | SETUP | CHANGE_PASSWORD
  | INVITE | SSO_CALLBACK
  | DASHBOARD | PACKAGES | PACKAGE_DETAIL string | PACKAGES_STALE | PACKAGES_SUGGESTIONS
  | PACKAGES_IMPORT | RELEASES | RELEASE_DETAIL string | ALERTS | ALERT_DETAIL string | WORKSPACES
  | WORKSPACE_DETAIL string | WORKSPACE_AUDIT string | WORKSPACES_INVITATIONS | SETTINGS
  | SETTINGS_API_KEYS | SETTINGS_SESSIONS | SETTINGS_QUEUE | SETTINGS_NOTIFICATIONS | ADMIN
  | ADMIN_SECURITY | ADMIN_USERS | ADMIN_AUDIT_LOGS | ACCOUNT | NOTIFICATIONS

fun ROUTES :: "route \<Rightarrow> string" where
  "ROUTES LOGIN = ''/login''"
| "ROUTES REGISTER = ''/register''"
| "ROUTES FORGOT_PASSWORD = ''/forgot-password''"
| "ROUTES RESET_PASSWORD = ''/reset-password''"
| "ROUTES VERIFY_EMAIL = ''/verify-email''"
| "ROUTES SETUP = ''/setup''"
| "ROUTES CHANGE_PASSWORD = ''/change-password''"
| "ROUTES INVITE = ''/invite''"
| "ROUTES SSO_CALLBACK = ''/auth/sso/callback''"
| "ROUTES DASHBOARD = ''/''"
| "ROUTES PACKAGES = ''/packages''"
| "ROUTES (PACKAGE_DETAIL i) = ''/packages/'' @ i"
| "ROUTES PACKAGES_STALE = ''/packages/stale''"
| "ROUTES PACKAGES_SUGGESTIONS = ''/packages/suggestions''"
| "ROUTES PACKAGES_IMPORT = ''/packages/import''"
| "ROUTES RELEASES = ''/releases''"
| "ROUTES (RELEASE_DETAIL i) = ''/releases/'' @ i"
| "ROUTES ALERTS = ''/alerts''"
| "ROUTES (ALERT_DETAIL i) = ''/alerts/'' @ i"
| "ROUTES WORKSPACES = ''/workspaces''"
| "ROUTES (WORKSPACE_DETAIL i) = ''/workspaces/'' @ i"
| "ROUTES (WORKSPACE_AUDIT i) = ''/workspaces/'' @ i @ ''/audit''"
| "ROUTES WORKSPACES_INVITATIONS = ''/workspaces/invitations''"
| "ROUTES SETTINGS = ''/settings''"
| "ROUTES SETTINGS_API_KEYS = ''/settings/api-keys''"
| "ROUTES SETTINGS_SESSIONS = ''/settings/sessions''"
| "ROUTES SETTINGS_QUEUE = ''/settings/queue''"
| "ROUTES SETTINGS_NOTIFICATIONS = ''/settings/notifications''"
| "ROUTES ADMIN = ''/admin''"
| "ROUTES ADMIN_SECURITY = ''/admin/security''"
| "ROUTES ADMIN_USERS = ''/admin/users''"
| "ROUTES ADMIN_AUDIT_LOGS = ''/admin/audit-logs''"
| "ROUTES ACCOUNT = ''/account''"
| "ROUTES NOTIFICATIONS = ''/notifications''"

definition PUBLIC_PATHS :: "string list" where
  "PUBLIC_PATHS = map ROUTES [LOGIN, REGISTER, FORGOT_PASSWORD, RESET_PASSWORD, VERIFY_EMAIL,
     SETUP, INVITE, SSO_CALLBACK]"

definition AUTH_PAGE_PATHS :: "string list" where
  "AUTH_PAGE_PATHS = map ROUTES [LOGIN, REGISTER, FORGOT_PASSWORD, RESET_PASSWORD]"

definition SUPER_ADMIN_PATHS :: "string list" where
  "SUPER_ADMIN_PATHS = map ROUTES [ADMIN_SECURITY, ADMIN_USERS, ADMIN_AUDIT_LOGS]"

definition NO_CHROME_PATHS :: "string list" where
  "NO_CHROME_PATHS = map ROUTES [LOGIN, REGISTER, FORGOT_PASSWORD, RESET_PASSWORD, VERIFY_EMAIL,
     SETUP, CHANGE_PASSWORD, INVITE]"

lemmas path_lists = PUBLIC_PATHS_def AUTH_PAGE_PATHS_def SUPER_ADMIN_PATHS_def NO_CHROME_PATHS_def

section \<open>The proxy\<close>

definition under :: "string \<Rightarrow> string \<Rightarrow> bool" where
  "under p pathname \<longleftrightarrow> pathname = p \<or> startsWith pathname (p @ ''/'')"

definition isPublicPath :: "string \<Rightarrow> bool" where
  "isPublicPath pathname \<longleftrightarrow> list_ex (\<lambda>p. under p pathname) PUBLIC_PATHS"

definition isAuthPagePath :: "string \<Rightarrow> bool" where
  "isAuthPagePath pathname \<longleftrightarrow> list_ex (\<lambda>p. under p pathname) AUTH_PAGE_PATHS"

definition isSuperAdminPath :: "string \<Rightarrow> bool" where
  "isSuperAdminPath pathname \<longleftrightarrow> list_ex (\<lambda>p. under p pathname) SUPER_ADMIN_PATHS"

definition AUTH_COOKIE :: string where "AUTH_COOKIE = ''vmx_authenticated''"
definition SUPER_ADMIN_COOKIE :: string where "SUPER_ADMIN_COOKIE = ''vmx_super_admin''"

datatype proxy_result = Next | Redirect string params

definition proxy :: "cookie list \<Rightarrow> string \<Rightarrow> params \<Rightarrow> proxy_result" where
  "proxy cookies pathname query =
     (let hasAuthCookie = (find_cookie AUTH_COOKIE cookies \<noteq> None);
          isSuperAdmin = (find_cookie SUPER_ADMIN_COOKIE cookies = Some ''1'')
      in if hasAuthCookie \<and> isAuthPagePath pathname then Redirect (ROUTES DASHBOARD) []
         else if \<not> hasAuthCookie \<and> \<not> isPublicPath pathname then
           Redirect (ROUTES LOGIN)
             (set_truthy ''message'' (usp_get query ''message'')
               (set_truthy ''error'' (usp_get query ''error'') (usp_set ''redirect'' pathname [])))
         else if hasAuthCookie \<and> isSuperAdminPath pathname \<and> \<not> isSuperAdmin then
           Redirect (ROUTES DASHBOARD) []
         else Next)"

section \<open>Guards on the client\<close>

text \<open>The part of the authentication context the guards read.\<close>

record session =
  s_authenticated :: bool
  s_loading :: bool
  s_must_change :: bool
  s_super_admin :: bool

datatype rendering = Skeleton | Blank | Children | Denied

definition login_url :: "string \<Rightarrow> string" where
  "login_url pathname = ROUTES LOGIN @ ''?redirect='' @ encodeURIComponent pathname"

definition protected_pushes :: "session \<Rightarrow> string \<Rightarrow> string list" where
  "protected_pushes s pathname =
     (if \<not> s_loading s \<and> \<not> s_authenticated s then [login_url pathname] else []) @
     (if \<not> s_loading s \<and> s_authenticated s \<and> s_must_change s \<and> pathname \<noteq> ROUTES CHANGE_PASSWORD
      then [ROUTES CHANGE_PASSWORD] else [])"

definition protected_render :: "bool \<Rightarrow> session \<Rightarrow> string \<Rightarrow> rendering" where
  "protected_render hasMounted s pathname =
     (if \<not> hasMounted \<or> s_loading s then Skeleton
      else if \<not> s_authenticated s then Blank
      else if s_must_change s \<and> pathname \<noteq> ROUTES CHANGE_PASSWORD then Blank
      else Children)"

definition RequireSuperAdmin :: "session \<Rightarrow> rendering" where
  "RequireSuperAdmin s =
     (if s_loading s then Skeleton else if \<not> s_super_admin s then Denied else Children)"

text \<open>With a workspace the children; else the two texts, the second with a button.\<close>

datatype workspace_gate = GateChildren | GateSelect | GateCreate

definition RequireWorkspace :: "'w option \<Rightarrow> 'w list \<Rightarrow> workspace_gate" where
  "RequireWorkspace currentWorkspace workspaces =
     (if currentWorkspace \<noteq> None then GateChildren
      else if 0 < length workspaces then GateSelect else GateCreate)"

datatype shell = Plain | FullShell

definition AppShell :: "session \<Rightarrow> string \<Rightarrow> shell" where
  "AppShell s pathname =
     (if list_ex (\<lambda>r. startsWith pathname r) NO_CHROME_PATHS then Plain
      else if s_loading s \<or> \<not> s_authenticated s then Plain
      else FullShell)"

section \<open>The proxy's redirects\<close>

lemma under_ROUTES:
  "under (ROUTES LOGIN) (ROUTES DASHBOARD) = False" "under (ROUTES LOGIN) (ROUTES LOGIN)"
  by (simp_all add: under_def)

lemma dashboard_class: "\<not> isAuthPagePath (ROUTES DASHBOARD)" "\<not> isSuperAdminPath (ROUTES DASHBOARD)"
    "\<not> isPublicPath (ROUTES DASHBOARD)"
  by (simp_all add: isAuthPagePath_def isSuperAdminPath_def isPublicPath_def path_lists under_def)

lemma login_class: "isPublicPath (ROUTES LOGIN)" "isAuthPagePath (ROUTES LOGIN)"
    "\<not> isSuperAdminPath (ROUTES LOGIN)"
  by (simp_all add: isAuthPagePath_def isSuperAdminPath_def isPublicPath_def path_lists under_def)

text \<open>The proxy never sends a browser in circles: whatever the cookies, path and query, the
  target of a redirect is let through when it is requested with the same cookies.\<close>

theorem proxy_redirect_settles:
  "case proxy cookies pathname query of Next \<Rightarrow> True
   | Redirect p q \<Rightarrow> proxy cookies p q = Next"
  using dashboard_class login_class by (auto simp: proxy_def Let_def)



text \<open>On a plain-http origin signing out locks the user in a loop. After \<open>clearTokens\<close> the
  hint cookie is still there; \<open>ProtectedRoute\<close>, with no user any more, pushes every page to
  the login page, and the proxy sends the login page back to the dashboard.\<close>

theorem insecure_logout_loops:
  assumes "\<not> secureOrigin w" and "cookie w AUTH_COOKIE \<noteq> None"
    and "\<not> s_authenticated s" and "\<not> s_loading s"
  shows "login_url pathname \<in> set (protected_pushes s pathname) \<and>
     proxy (jar (clearTokens w)) (ROUTES LOGIN) query = Redirect (ROUTES DASHBOARD) []"
proof -
  have "jar (clearTokens w) = jar w"
    using assms(1) by (simp add: clearTokens_def assign_cookie_def removeItem_def)
  with assms login_class show ?thesis
    by (simp add: protected_pushes_def proxy_def cookie_def)
qed

definition http_page :: http_world where
  "http_page = \<lparr>ls = (\<lambda>_. None), jar = [], protocol = ''http:'', secureOrigin = False,
     windowDefined = True, env_api_url = None, isRefreshing = False, refreshPromise = None, sent = []\<rparr>"

lemma insecure_logout_loops_witness:
  "proxy (jar (clearTokens (storeTokens ''a'' ''r'' http_page))) (ROUTES LOGIN) [] =
     Redirect (ROUTES DASHBOARD) []"
  using insecure_logout_loops [of "storeTokens ''a'' ''r'' http_page"
      "\<lparr>s_authenticated = False, s_loading = False, s_must_change = False, s_super_admin = False\<rparr>" "''/''" "[]"]
  by (simp add: http_page_def storeTokens_def setItem_def assign_cookie_def cookie_def find_cookie_def
      AUTH_COOKIE_def AUTH_HINT_def)

section \<open>The guards\<close>



lemma encodeURIComponent_chars:
  "c \<in> set (encodeURIComponent s) \<Longrightarrow> component_safe c \<or> c = CHR ''%''"
proof -
  have hex: "component_safe (hex_digit d)" if "d < 16" for d
    using that by (auto simp: component_safe_def alnum_def hex_digit_def is_digit_def is_upper_def)
  show "c \<in> set (encodeURIComponent s) \<Longrightarrow> component_safe c \<or> c = CHR ''%''"
    by (auto simp: encodeURIComponent_def pct_def hex dest: utf8_bytes split: if_splits)
qed

lemma component_no_separator:
  "c \<in> set ''+&=?'' \<Longrightarrow> c \<notin> set (encodeURIComponent s)"
  using encodeURIComponent_chars [of c s] by (auto simp: component_safe_def alnum_def)

lemma form_decode_component: "form_decode (encodeURIComponent s) = Some s"
proof -
  have "map plus_to_space (encodeURIComponent s) = encodeURIComponent s"
    using component_no_separator [of "CHR ''+''" s] by (intro map_idI) (auto simp: plus_to_space_def)
  then show ?thesis by (simp add: form_decode_def)
qed

text \<open>The login page gets back exactly the path the guard was on, whatever characters the path
  contains: the URL \<open>ProtectedRoute\<close> pushes reads as the login page with one parameter.\<close>

theorem login_url_roundtrip:
  "read_url (login_url pathname) = (ROUTES LOGIN, Some [(''redirect'', pathname)])"
proof -
  let ?q = "''redirect='' @ encodeURIComponent pathname"
  have amp: "split_char CHR ''&'' ?q = [?q]"
    using component_no_separator [of "CHR ''&''" pathname] by (intro split_char_absent) auto
  have "takeWhile (\<lambda>c. c \<noteq> CHR ''='') ?q = ''redirect''"
    "drop 1 (dropWhile (\<lambda>c. c \<noteq> CHR ''='') ?q) = encodeURIComponent pathname" by simp_all
  moreover have "form_decode ''redirect'' = Some ''redirect''" by code_simp
  ultimately have "parse_pair ?q = Some (''redirect'', pathname)"
    unfolding parse_pair_def by (simp only: form_decode_component option.case option.map)
  then have "usp_parse ?q = Some [(''redirect'', pathname)]"
    unfolding usp_parse_def amp by simp
  then show ?thesis by (simp add: read_url_def login_url_def)
qed

text \<open>The application pages by their route: the ones that need a session.\<close>

fun app_page :: "route \<Rightarrow> bool" where
  "app_page r = (r \<notin> {LOGIN, REGISTER, FORGOT_PASSWORD, RESET_PASSWORD, VERIFY_EMAIL, SETUP,
     CHANGE_PASSWORD, INVITE, SSO_CALLBACK})"

text \<open>The prefix test of \<open>AppShell\<close> and the segment test of the proxy classify every route of
  the table as intended, also the ones with an id in them: application pages are protected
  and get the full shell when signed in, and no id can turn one into a public page.\<close>

theorem app_pages_classified:
  "app_page r \<Longrightarrow> \<not> isPublicPath (ROUTES r) \<and> \<not> isAuthPagePath (ROUTES r) \<and>
     AppShell \<lparr>s_authenticated = True, s_loading = False, s_must_change = m, s_super_admin = a\<rparr>
       (ROUTES r) = FullShell"
  by (cases r) (simp_all add: isPublicPath_def isAuthPagePath_def AppShell_def path_lists under_def)

lemma app_pages_classified_witness: "\<not> isPublicPath (ROUTES (PACKAGE_DETAIL ''login''))"
  using app_pages_classified [of "PACKAGE_DETAIL ''login''"] by simp

end
