(* ===== verification/Api_Core.thy ===== *)
theory Api_Core
  imports Http Url
begin

text \<open>
  What a request builder of \<open>src/frontend/src/domains\<close> hands to \<open>fetchApi\<close>, the three
  shapes its options take, and the ways a builder writes a query string.
\<close>

record api_call =
  endpoint :: string
  call_opts :: options

definition api_get :: "string \<Rightarrow> api_call" where
  "api_get e = \<lparr>endpoint = e,
     call_opts = \<lparr>opt_method = None, opt_headers = [], opt_body = None, skipAuth = False\<rparr>\<rparr>"

definition api_send :: "string \<Rightarrow> string \<Rightarrow> json option \<Rightarrow> api_call" where
  "api_send m e b = \<lparr>endpoint = e,
     call_opts = \<lparr>opt_method = Some m, opt_headers = [], opt_body = b, skipAuth = False\<rparr>\<rparr>"

definition no_auth :: "api_call \<Rightarrow> api_call" where
  "no_auth c = c\<lparr>call_opts := (call_opts c)\<lparr>skipAuth := True\<rparr>\<rparr>"

definition run_call ::
  "server \<Rightarrow> ('a http_world_scheme \<Rightarrow> 'a http_world_scheme) \<Rightarrow> api_call \<Rightarrow>
   'a http_world_scheme \<Rightarrow> (thrown + json) \<times> 'a http_world_scheme" where
  "run_call srv onExpired c w = fetchApi srv onExpired (endpoint c) (call_opts c) w"

text \<open>\<open>`${path}?${searchParams.toString()}`\<close>, the question mark always there.\<close>

definition always_query :: "string \<Rightarrow> params \<Rightarrow> string" where
  "always_query path ps = path @ ''?'' @ usp_toString ps"

text \<open>\<open>v ? `?k=${v}` : ""\<close>, the value as it is.\<close>

definition raw_param :: "string \<Rightarrow> string option \<Rightarrow> string" where
  "raw_param k v = (case v of None \<Rightarrow> [] | Some x \<Rightarrow> if x = [] then [] else ''?'' @ k @ ''='' @ x)"

definition set_true :: "string \<Rightarrow> bool \<Rightarrow> params \<Rightarrow> params" where
  "set_true k b ps = (if b then usp_set k ''true'' ps else ps)"

lemma usp_get_set_true:
  "usp_get (set_true k b ps) j = (if j = k \<and> b then Some ''true'' else usp_get ps j)"
  by (simp add: set_true_def usp_get_set)

lemma endpoint_simps [simp]:
  "endpoint (api_get e) = e" "endpoint (api_send m e b) = e" "endpoint (no_auth c) = endpoint c"
  by (simp_all add: api_get_def api_send_def no_auth_def)

lemma call_opts_simps [simp]:
  "opt_method (call_opts (api_get e)) = None" "opt_method (call_opts (api_send m e b)) = Some m"
  "opt_method (call_opts (no_auth c)) = opt_method (call_opts c)"
  "opt_body (call_opts (api_get e)) = None" "opt_body (call_opts (api_send m e b)) = b"
  "opt_body (call_opts (no_auth c)) = opt_body (call_opts c)"
  "opt_headers (call_opts (api_get e)) = []" "opt_headers (call_opts (api_send m e b)) = []"
  "opt_headers (call_opts (no_auth c)) = opt_headers (call_opts c)"
  "skipAuth (call_opts (api_get e)) = False" "skipAuth (call_opts (api_send m e b)) = False"
  "skipAuth (call_opts (no_auth c)) = True"
  by (simp_all add: api_get_def api_send_def no_auth_def)

lemma startsWith_with_query:
  "startsWith path p \<Longrightarrow> startsWith (with_query path ps) p"
  "startsWith path p \<Longrightarrow> startsWith (always_query path ps) p"
  by (auto simp: with_query_def always_query_def Let_def startsWith_iff)

lemma read_always_query:
  assumes "CHR ''?'' \<notin> set path"
  shows "read_url (always_query path ps) = (path, Some ps)"
proof -
  have "\<forall>c \<in> set path. c \<noteq> CHR ''?''" using assms by auto
  then show ?thesis
    by (simp add: always_query_def read_url_def takeWhile_append2 dropWhile_append2)
qed

end
