(* ===== verification/Api_Account.thy ===== *)
theory Api_Account
  imports Api_Core
begin

text \<open>
  The request builders of the account side of the client: workspaces and their members,
  authentication, API keys, setup, public configuration and notifications (the
  \<open>api\<close> modules under \<open>src/frontend/src/domains\<close>). Each definition is what the
  function passes to \<open>fetchApi\<close>. An omitted \<open>params\<close> argument is the record
  without parameters, since \<open>params?.x\<close> reads the same from both.
\<close>

section \<open>Workspaces, members, invitations: \<open>domains/admin\<close>\<close>

record WorkspaceListParams =
  wl_search :: "string option"
  wl_page :: "int option"
  wl_limit :: "int option"

definition workspace_list_params :: "WorkspaceListParams \<Rightarrow> params" where
  "workspace_list_params p =
     set_num ''limit'' (wl_limit p)
      (set_num ''page'' (wl_page p)
      (set_truthy ''search'' (wl_search p) []))"

definition apiGetWorkspaces :: "WorkspaceListParams \<Rightarrow> api_call" where
  "apiGetWorkspaces p = api_get (with_query ''/api/workspaces'' (workspace_list_params p))"

definition apiGetWorkspace :: "string \<Rightarrow> api_call" where
  "apiGetWorkspace i = api_get (''/api/workspaces/'' @ i)"

definition apiCreateWorkspace :: "string \<Rightarrow> string \<Rightarrow> string option \<Rightarrow> api_call" where
  "apiCreateWorkspace name slug description =
     api_send ''POST'' ''/api/workspaces''
       (Some (JObj (obj_of [(''name'', Some (JStr name)), (''slug'', Some (JStr slug)),
        (''description'', map_option JStr description)])))"

definition apiUpdateWorkspace :: "string \<Rightarrow> string option \<Rightarrow> string option \<Rightarrow> api_call" where
  "apiUpdateWorkspace i name description =
     api_send ''PUT'' (''/api/workspaces/'' @ i)
       (Some (JObj (obj_of [(''name'', map_option JStr name),
        (''description'', map_option JStr description)])))"

definition apiDeleteWorkspace :: "string \<Rightarrow> api_call" where
  "apiDeleteWorkspace i = api_send ''DELETE'' (''/api/workspaces/'' @ i) None"

definition apiGetWorkspaceMembers :: "string \<Rightarrow> api_call" where
  "apiGetWorkspaceMembers ws = api_get (''/api/workspaces/'' @ ws @ ''/members'')"

definition apiInviteMember :: "string \<Rightarrow> string \<Rightarrow> string \<Rightarrow> api_call" where
  "apiInviteMember ws email roleId =
     api_send ''POST'' (''/api/workspaces/'' @ ws @ ''/invitations'')
       (Some (JObj [(''email'', JStr email), (''roleId'', JStr roleId)]))"

definition apiRemoveMember :: "string \<Rightarrow> string \<Rightarrow> api_call" where
  "apiRemoveMember ws userId =
     api_send ''DELETE'' (''/api/workspaces/'' @ ws @ ''/members/'' @ userId) None"

definition apiUpdateMemberRole :: "string \<Rightarrow> string \<Rightarrow> string \<Rightarrow> api_call" where
  "apiUpdateMemberRole ws userId roleId =
     api_send ''PUT'' (''/api/workspaces/'' @ ws @ ''/members/'' @ userId @ ''/role'')
       (Some (JObj [(''roleId'', JStr roleId)]))"

definition apiGetWorkspaceRoles :: "string \<Rightarrow> api_call" where
  "apiGetWorkspaceRoles ws = api_get (''/api/workspaces/'' @ ws @ ''/roles'')"

definition apiGetPermissions :: "api_call" where
  "apiGetPermissions = api_get ''/api/permissions''"

definition apiGetPendingInvitations :: "string \<Rightarrow> api_call" where
  "apiGetPendingInvitations ws = api_get (''/api/workspaces/'' @ ws @ ''/invitations'')"

definition apiRevokeInvitation :: "string \<Rightarrow> string \<Rightarrow> api_call" where
  "apiRevokeInvitation ws invitationId =
     api_send ''DELETE'' (''/api/workspaces/'' @ ws @ ''/invitations/'' @ invitationId) None"

record AuditLogParams =
  al_action :: "string option"
  al_resource :: "string option"
  al_from_date :: "string option"
  al_to_date :: "string option"
  al_page :: "int option"
  al_limit :: "int option"
  al_sort_by :: "string option"
  al_sort_dir :: "string option"

definition audit_log_params :: "AuditLogParams \<Rightarrow> params" where
  "audit_log_params p =
     set_truthy ''sort_dir'' (al_sort_dir p)
      (set_truthy ''sort_by'' (al_sort_by p)
      (set_num ''limit'' (al_limit p)
      (set_num ''page'' (al_page p)
      (set_truthy ''to_date'' (al_to_date p)
      (set_truthy ''from_date'' (al_from_date p)
      (set_truthy ''resource'' (al_resource p)
      (set_truthy ''action'' (al_action p) [])))))))"

definition apiGetAuditLogs :: "string \<Rightarrow> AuditLogParams \<Rightarrow> api_call" where
  "apiGetAuditLogs ws p = api_get (with_query (''/api/workspaces/'' @ ws @ ''/audit-logs'') (audit_log_params p))"

definition apiGetInvitationByToken :: "string \<Rightarrow> api_call" where
  "apiGetInvitationByToken token = no_auth (api_get (''/api/invitations/'' @ token))"

definition apiResendInvitation :: "string \<Rightarrow> string \<Rightarrow> api_call" where
  "apiResendInvitation ws invitationId =
     api_send ''POST'' (''/api/workspaces/'' @ ws @ ''/invitations/'' @ invitationId @ ''/resend'') None"

definition apiAcceptInvitation :: "string \<Rightarrow> string \<Rightarrow> api_call" where
  "apiAcceptInvitation ws token =
     api_send ''POST'' (''/api/workspaces/'' @ ws @ ''/invitations/'' @ token @ ''/accept'') None"

definition apiDeclineInvitationByToken :: "string \<Rightarrow> string \<Rightarrow> api_call" where
  "apiDeclineInvitationByToken ws token =
     api_send ''POST'' (''/api/workspaces/'' @ ws @ ''/invitations/'' @ token @ ''/decline'') None"

record AddMemberRequest =
  am_email :: "string"
  am_firstName :: "string"
  am_lastName :: "string"
  am_roleId :: "string"
  am_password :: "string option"

definition add_member_body :: "AddMemberRequest \<Rightarrow> json" where
  "add_member_body v = JObj (obj_of
    [(''email'', Some (JStr (am_email v))),
     (''firstName'', Some (JStr (am_firstName v))),
     (''lastName'', Some (JStr (am_lastName v))),
     (''roleId'', Some (JStr (am_roleId v))),
     (''password'', map_option JStr (am_password v))])"

definition apiAddMember :: "string \<Rightarrow> AddMemberRequest \<Rightarrow> api_call" where
  "apiAddMember ws v =
     api_send ''POST'' (''/api/workspaces/'' @ ws @ ''/members'')
       (Some (add_member_body v))"

definition apiGetMyInvitations :: "api_call" where
  "apiGetMyInvitations = api_get ''/api/invitations/mine''"

definition apiAcceptInvitationById :: "string \<Rightarrow> api_call" where
  "apiAcceptInvitationById i = api_send ''POST'' (''/api/invitations/'' @ i @ ''/accept'') None"

definition apiDeclineInvitationById :: "string \<Rightarrow> api_call" where
  "apiDeclineInvitationById i = api_send ''POST'' (''/api/invitations/'' @ i @ ''/decline'') None"

section \<open>Sessions and accounts: \<open>domains/auth\<close>, \<open>account\<close>, \<open>setup\<close>, \<open>config\<close>\<close>

definition apiRefreshToken :: "string \<Rightarrow> api_call" where
  "apiRefreshToken refreshToken = no_auth (
     api_send ''POST'' ''/api/auth/refresh''
       (Some (JObj [(''refreshToken'', JStr refreshToken)])))"

definition apiUpdateProfile :: "string \<Rightarrow> string \<Rightarrow> api_call" where
  "apiUpdateProfile firstName lastName =
     api_send ''PUT'' ''/api/auth/me''
       (Some (JObj [(''firstName'', JStr firstName), (''lastName'', JStr lastName)]))"

definition apiChangePassword :: "string \<Rightarrow> string \<Rightarrow> api_call" where
  "apiChangePassword currentPassword newPassword =
     api_send ''POST'' ''/api/auth/change-password''
       (Some (JObj [(''currentPassword'', JStr currentPassword), (''newPassword'', JStr newPassword)]))"

definition apiSendVerificationEmail :: "api_call" where
  "apiSendVerificationEmail = api_send ''POST'' ''/api/auth/send-verification'' None"

definition apiSendVerificationEmailByEmail :: "string \<Rightarrow> api_call" where
  "apiSendVerificationEmailByEmail email = no_auth (
     api_send ''POST'' ''/api/auth/resend-verification''
       (Some (JObj [(''email'', JStr email)])))"

definition apiForgotPassword :: "string \<Rightarrow> api_call" where
  "apiForgotPassword email = no_auth (
     api_send ''POST'' ''/api/auth/forgot-password''
       (Some (JObj [(''email'', JStr email)])))"

definition apiResetPassword :: "string \<Rightarrow> string \<Rightarrow> api_call" where
  "apiResetPassword token password = no_auth (
     api_send ''POST'' ''/api/auth/reset-password''
       (Some (JObj [(''token'', JStr token), (''newPassword'', JStr password)])))"

definition apiGetSessions :: "'a http_world_scheme \<Rightarrow> api_call" where
  "apiGetSessions w = (let c = api_get ''/api/auth/sessions'' in
     case getStoredRefreshToken w of
       None \<Rightarrow> c
     | Some t \<Rightarrow> if t = [] then c
                 else c\<lparr>call_opts := (call_opts c)\<lparr>opt_headers := [(''X-Refresh-Token'', t)]\<rparr>\<rparr>)"

definition apiRevokeSession :: "string \<Rightarrow> api_call" where
  "apiRevokeSession i = api_send ''DELETE'' (''/api/auth/sessions/'' @ i) None"

definition apiVerifyEmail :: "string \<Rightarrow> api_call" where
  "apiVerifyEmail token = no_auth (
     api_send ''POST'' ''/api/auth/verify-email''
       (Some (JObj [(''token'', JStr token)])))"

definition apiGetApiKeys :: "api_call" where
  "apiGetApiKeys = api_get ''/api/auth/api-keys''"

record CreateApiKeyRequest =
  ck_name :: "string"
  ck_role :: "string option"
  ck_expiresAt :: "string option"

definition create_api_key_body :: "CreateApiKeyRequest \<Rightarrow> json" where
  "create_api_key_body v = JObj (obj_of
    [(''name'', Some (JStr (ck_name v))),
     (''role'', map_option JStr (ck_role v)),
     (''expiresAt'', map_option JStr (ck_expiresAt v))])"

definition apiCreateApiKey :: "CreateApiKeyRequest \<Rightarrow> api_call" where
  "apiCreateApiKey v =
     api_send ''POST'' ''/api/auth/api-keys''
       (Some (create_api_key_body v))"

definition apiDeleteApiKey :: "string \<Rightarrow> api_call" where
  "apiDeleteApiKey i = api_send ''DELETE'' (''/api/auth/api-keys/'' @ i) None"

record SetupRequest =
  su_email :: "string"
  su_password :: "string"
  su_firstName :: "string"
  su_lastName :: "string"
  su_workspaceName :: "string"
  su_workspaceSlug :: "string"

definition setup_body :: "SetupRequest \<Rightarrow> json" where
  "setup_body v = JObj (obj_of
    [(''email'', Some (JStr (su_email v))),
     (''password'', Some (JStr (su_password v))),
     (''firstName'', Some (JStr (su_firstName v))),
     (''lastName'', Some (JStr (su_lastName v))),
     (''workspaceName'', Some (JStr (su_workspaceName v))),
     (''workspaceSlug'', Some (JStr (su_workspaceSlug v)))])"

definition apiInitializeSetup :: "SetupRequest \<Rightarrow> api_call" where
  "apiInitializeSetup v = no_auth (api_send ''POST'' ''/api/setup/initialize'' (Some (setup_body v)))"

definition apiGetPublicConfig :: "api_call" where
  "apiGetPublicConfig = no_auth (api_get ''/api/config/public'')"

section \<open>Notifications: \<open>domains/notifications\<close>\<close>

definition apiGetUnreadCount :: "api_call" where
  "apiGetUnreadCount = api_get ''/api/notifications/unread-count''"

record NotificationListParams =
  nl_page :: "int option"
  nl_limit :: "int option"
  nl_unread :: "bool"

definition notification_list_params :: "NotificationListParams \<Rightarrow> params" where
  "notification_list_params p =
     set_true ''unread'' (nl_unread p)
      (set_num ''limit'' (nl_limit p)
      (set_num ''page'' (nl_page p) []))"

definition apiListNotifications :: "NotificationListParams \<Rightarrow> api_call" where
  "apiListNotifications p = api_get (with_query ''/api/notifications'' (notification_list_params p))"

definition apiMarkNotificationRead :: "string \<Rightarrow> api_call" where
  "apiMarkNotificationRead i = api_send ''PUT'' (''/api/notifications/'' @ i @ ''/read'') None"

definition apiMarkAllNotificationsRead :: "api_call" where
  "apiMarkAllNotificationsRead = api_send ''PUT'' ''/api/notifications/read-all'' None"

definition apiListChannels :: "string \<Rightarrow> api_call" where
  "apiListChannels ws = api_get (''/api/workspaces/'' @ ws @ ''/notification-channels'')"

definition apiCreateChannel :: "string \<Rightarrow> string \<Rightarrow> string \<Rightarrow> string \<Rightarrow> api_call" where
  "apiCreateChannel ws name ty config =
     api_send ''POST'' (''/api/workspaces/'' @ ws @ ''/notification-channels'')
       (Some (JObj [(''name'', JStr name), (''type'', JStr ty), (''config'', JStr config)]))"

definition apiUpdateChannel :: "string \<Rightarrow> string \<Rightarrow> string \<Rightarrow> string \<Rightarrow> bool \<Rightarrow> api_call" where
  "apiUpdateChannel ws i name config isActive =
     api_send ''PUT'' (''/api/workspaces/'' @ ws @ ''/notification-channels/'' @ i)
       (Some (JObj [(''name'', JStr name), (''config'', JStr config), (''isActive'', JBool isActive)]))"

definition apiDeleteChannel :: "string \<Rightarrow> string \<Rightarrow> api_call" where
  "apiDeleteChannel ws i =
     api_send ''DELETE'' (''/api/workspaces/'' @ ws @ ''/notification-channels/'' @ i) None"

definition testNotificationChannel :: "string \<Rightarrow> string \<Rightarrow> api_call" where
  "testNotificationChannel ws channelId =
     api_send ''POST'' (''/api/workspaces/'' @ ws @ ''/notification-channels/'' @ channelId @ ''/test'') None"

definition apiListRules :: "string \<Rightarrow> api_call" where
  "apiListRules ws = api_get (''/api/workspaces/'' @ ws @ ''/notification-rules'')"

definition apiCreateRule :: "string \<Rightarrow> string \<Rightarrow> string \<Rightarrow> api_call" where
  "apiCreateRule ws channelId severity =
     api_send ''POST'' (''/api/workspaces/'' @ ws @ ''/notification-rules'')
       (Some (JObj [(''channelId'', JStr channelId), (''severity'', JStr severity)]))"

definition apiDeleteNotification :: "string \<Rightarrow> api_call" where
  "apiDeleteNotification i = api_send ''DELETE'' (''/api/notifications/'' @ i) None"

definition apiDeleteAllNotifications :: "api_call" where
  "apiDeleteAllNotifications = api_send ''DELETE'' ''/api/notifications/all'' None"

definition apiDeleteBatchNotifications :: "string list \<Rightarrow> api_call" where
  "apiDeleteBatchNotifications ids =
     api_send ''DELETE'' ''/api/notifications''
       (Some (JObj [(''ids'', JArr (map JStr ids))]))"

definition apiDeleteRule :: "string \<Rightarrow> string \<Rightarrow> api_call" where
  "apiDeleteRule ws i =
     api_send ''DELETE'' (''/api/workspaces/'' @ ws @ ''/notification-rules/'' @ i) None"

section \<open>The calls as a set\<close>

inductive account_api :: "api_call \<Rightarrow> bool" where
  "account_api (apiGetWorkspaces p)"
| "account_api (apiGetWorkspace i)"
| "account_api (apiCreateWorkspace name slug description)"
| "account_api (apiUpdateWorkspace i name description)"
| "account_api (apiDeleteWorkspace i)"
| "account_api (apiGetWorkspaceMembers ws)"
| "account_api (apiInviteMember ws email roleId)"
| "account_api (apiRemoveMember ws userId)"
| "account_api (apiUpdateMemberRole ws userId roleId)"
| "account_api (apiGetWorkspaceRoles ws)"
| "account_api apiGetPermissions"
| "account_api (apiGetPendingInvitations ws)"
| "account_api (apiRevokeInvitation ws invitationId)"
| "account_api (apiGetAuditLogs ws p)"
| "account_api (apiGetInvitationByToken token)"
| "account_api (apiResendInvitation ws invitationId)"
| "account_api (apiAcceptInvitation ws token)"
| "account_api (apiDeclineInvitationByToken ws token)"
| "account_api (apiAddMember ws v)"
| "account_api apiGetMyInvitations"
| "account_api (apiAcceptInvitationById i)"
| "account_api (apiDeclineInvitationById i)"
| "account_api (apiRefreshToken refreshToken)"
| "account_api (apiUpdateProfile firstName lastName)"
| "account_api (apiChangePassword currentPassword newPassword)"
| "account_api apiSendVerificationEmail"
| "account_api (apiSendVerificationEmailByEmail email)"
| "account_api (apiForgotPassword email)"
| "account_api (apiResetPassword token password)"
| "account_api (apiRevokeSession i)"
| "account_api (apiVerifyEmail token)"
| "account_api apiGetApiKeys"
| "account_api (apiCreateApiKey v)"
| "account_api (apiDeleteApiKey i)"
| "account_api (apiInitializeSetup v)"
| "account_api apiGetPublicConfig"
| "account_api apiGetUnreadCount"
| "account_api (apiListNotifications p)"
| "account_api (apiMarkNotificationRead i)"
| "account_api apiMarkAllNotificationsRead"
| "account_api (apiListChannels ws)"
| "account_api (apiCreateChannel ws name ty config)"
| "account_api (apiUpdateChannel ws i name config isActive)"
| "account_api (apiDeleteChannel ws i)"
| "account_api (testNotificationChannel ws channelId)"
| "account_api (apiListRules ws)"
| "account_api (apiCreateRule ws channelId severity)"
| "account_api (apiDeleteNotification i)"
| "account_api apiDeleteAllNotifications"
| "account_api (apiDeleteBatchNotifications ids)"
| "account_api (apiDeleteRule ws i)"

lemmas account_api_calls = apiGetWorkspaces_def
  apiGetWorkspace_def
  apiCreateWorkspace_def
  apiUpdateWorkspace_def
  apiDeleteWorkspace_def
  apiGetWorkspaceMembers_def
  apiInviteMember_def
  apiRemoveMember_def
  apiUpdateMemberRole_def
  apiGetWorkspaceRoles_def
  apiGetPermissions_def
  apiGetPendingInvitations_def
  apiRevokeInvitation_def
  apiGetAuditLogs_def
  apiGetInvitationByToken_def
  apiResendInvitation_def
  apiAcceptInvitation_def
  apiDeclineInvitationByToken_def
  apiAddMember_def
  apiGetMyInvitations_def
  apiAcceptInvitationById_def
  apiDeclineInvitationById_def
  apiRefreshToken_def
  apiUpdateProfile_def
  apiChangePassword_def
  apiSendVerificationEmail_def
  apiSendVerificationEmailByEmail_def
  apiForgotPassword_def
  apiResetPassword_def
  apiRevokeSession_def
  apiVerifyEmail_def
  apiGetApiKeys_def
  apiCreateApiKey_def
  apiDeleteApiKey_def
  apiInitializeSetup_def
  apiGetPublicConfig_def
  apiGetUnreadCount_def
  apiListNotifications_def
  apiMarkNotificationRead_def
  apiMarkAllNotificationsRead_def
  apiListChannels_def
  apiCreateChannel_def
  apiUpdateChannel_def
  apiDeleteChannel_def
  testNotificationChannel_def
  apiListRules_def
  apiCreateRule_def
  apiDeleteNotification_def
  apiDeleteAllNotifications_def
  apiDeleteBatchNotifications_def
  apiDeleteRule_def

section \<open>What all the calls have in common\<close>

lemma in_account_api: "account_api c \<Longrightarrow>
     startsWith (endpoint c) ''/api/'' \<and> opt_headers (call_opts c) = [] \<and>
     opt_method (call_opts c) \<in> {None, Some ''POST'', Some ''PUT'', Some ''DELETE''} \<and>
     (opt_method (call_opts c) = None \<longrightarrow> opt_body (call_opts c) = None)"
  by (induction rule: account_api.induct) (simp_all add: account_api_calls startsWith_with_query)

definition public_posts :: "string list" where
  "public_posts = [''/api/auth/refresh'', ''/api/auth/resend-verification'', ''/api/auth/forgot-password'',
     ''/api/auth/reset-password'', ''/api/auth/verify-email'', ''/api/setup/initialize'']"

lemma account_api_public: "account_api c \<Longrightarrow> skipAuth (call_opts c) \<Longrightarrow>
     (opt_method (call_opts c) = Some ''POST'' \<and> endpoint c \<in> set public_posts) \<or>
     (opt_method (call_opts c) = None \<and> opt_body (call_opts c) = None \<and>
        (endpoint c = ''/api/config/public'' \<or> startsWith (endpoint c) ''/api/invitations/''))"
  by (induction rule: account_api.induct) (simp_all add: account_api_calls public_posts_def)

text \<open>Path arguments are pasted into the endpoint as they are, so an identifier that equals a
  keyword of the API changes the meaning of the call: deleting the notification with id
  ``all'' is the request that deletes every notification, an invitation token ``mine'' reads the
  list of invitations, and a token with a slash in it reaches other endpoints.\<close>

theorem path_arguments_collide:
  "apiDeleteNotification ''all'' = apiDeleteAllNotifications \<and>
   endpoint (apiGetInvitationByToken ''mine'') = endpoint apiGetMyInvitations \<and>
   endpoint (apiGetInvitationByToken ''../workspaces'') = ''/api/invitations/../workspaces'' \<and>
   apiAcceptInvitationById (t @ ''/decline?'') = api_send ''POST'' (''/api/invitations/'' @ t @ ''/decline?/accept'') None"
  by (simp add: apiDeleteNotification_def apiDeleteAllNotifications_def apiGetInvitationByToken_def
      apiGetMyInvitations_def apiAcceptInvitationById_def)

end
