(* ===== verification/Api_Monitor.thy ===== *)
theory Api_Monitor
  imports Api_Core
begin

text \<open>
  The request builders of the monitoring and platform side of the client: packages, releases,
  alerts, the dashboard, the job queue, settings, platform administration and single
  sign-on (the \<open>api\<close> modules under \<open>src/frontend/src/domains\<close>).
\<close>

section \<open>Packages: \<open>domains/packages\<close>\<close>

record PackageListParams =
  pl_ecosystem :: "string option"
  pl_search :: "string option"
  pl_status :: "string option"
  pl_source :: "string option"
  pl_page :: "int option"
  pl_limit :: "int option"
  pl_sortBy :: "string option"
  pl_sortDir :: "string option"

definition package_list_params :: "PackageListParams \<Rightarrow> params" where
  "package_list_params p =
     set_truthy ''sort_dir'' (pl_sortDir p)
      (set_truthy ''sort_by'' (pl_sortBy p)
      (set_num ''limit'' (pl_limit p)
      (set_num ''page'' (pl_page p)
      (set_truthy ''source'' (pl_source p)
      (set_truthy ''status'' (pl_status p)
      (set_truthy ''search'' (pl_search p)
      (set_truthy ''ecosystem'' (pl_ecosystem p) [])))))))"

definition getPackages :: "PackageListParams \<Rightarrow> api_call" where
  "getPackages p = api_get (always_query ''/api/packages'' (package_list_params p))"

definition getPackage :: "string \<Rightarrow> api_call" where
  "getPackage i = api_get (''/api/packages/'' @ i)"

definition createPackage :: "string \<Rightarrow> string \<Rightarrow> api_call" where
  "createPackage name ecosystem =
     api_send ''POST'' ''/api/packages''
       (Some (JObj [(''name'', JStr name), (''ecosystem'', JStr ecosystem)]))"

definition deletePackage :: "string \<Rightarrow> api_call" where
  "deletePackage i = api_send ''DELETE'' (''/api/packages/'' @ i) None"

definition blockPackage :: "string \<Rightarrow> string option \<Rightarrow> api_call" where
  "blockPackage i reason =
     api_send ''POST'' (''/api/packages/'' @ i @ ''/block'')
       (Some (JObj (obj_of [(''reason'', map_option JStr reason)])))"

definition unblockPackage :: "string \<Rightarrow> api_call" where
  "unblockPackage i = api_send ''POST'' (''/api/packages/'' @ i @ ''/unblock'') None"

definition getPackageReleases :: "string \<Rightarrow> int option \<Rightarrow> int option \<Rightarrow> api_call" where
  "getPackageReleases i page limit = api_get (''/api/packages/'' @ i @ ''/releases?page='' @ show_int (case page of None \<Rightarrow> 1 | Some n \<Rightarrow> n) @
       ''&limit='' @ show_int (case limit of None \<Rightarrow> 20 | Some n \<Rightarrow> n))"

definition discoverPackages :: "string option \<Rightarrow> api_call" where
  "discoverPackages ecosystem = api_send ''POST'' (''/api/sync/discover'' @ raw_param ''ecosystem'' ecosystem) None"

definition bulkImportPackages :: "string \<Rightarrow> string \<Rightarrow> api_call" where
  "bulkImportPackages format content =
     api_send ''POST'' ''/api/packages/bulk-import''
       (Some (JObj [(''format'', JStr format), (''content'', JStr content)]))"

definition getAnalysisHistory :: "string \<Rightarrow> api_call" where
  "getAnalysisHistory i = api_get (''/api/packages/'' @ i @ ''/analysis-history'')"

record SuggestionParams =
  sg_page :: "int option"
  sg_limit :: "int option"
  sg_search :: "string option"
  sg_ecosystem :: "string option"
  sg_sortBy :: "string option"
  sg_sortDir :: "string option"

definition suggestion_params :: "SuggestionParams \<Rightarrow> params" where
  "suggestion_params p =
     set_truthy ''sort_dir'' (sg_sortDir p)
      (set_truthy ''sort_by'' (sg_sortBy p)
      (set_truthy ''ecosystem'' (sg_ecosystem p)
      (set_truthy ''search'' (sg_search p)
      (set_num ''limit'' (sg_limit p)
      (set_num ''page'' (sg_page p) [])))))"

definition getPackageSuggestions :: "SuggestionParams \<Rightarrow> api_call" where
  "getPackageSuggestions p = api_get (always_query ''/api/packages/suggestions'' (suggestion_params p))"

definition approvePackage :: "string \<Rightarrow> api_call" where
  "approvePackage i = api_send ''POST'' (''/api/packages/'' @ i @ ''/approve'') None"

definition rejectPackage :: "string \<Rightarrow> api_call" where
  "rejectPackage i = api_send ''POST'' (''/api/packages/'' @ i @ ''/reject'') None"

datatype bulk_approve = PackageIds "string list" | EcosystemOnly string | ApproveAll

fun bulk_approve_body :: "bulk_approve \<Rightarrow> json" where
  "bulk_approve_body (PackageIds ids) = JObj [(''packageIds'', JArr (map JStr ids))]"
| "bulk_approve_body (EcosystemOnly e) = JObj [(''ecosystem'', JStr e)]"
| "bulk_approve_body ApproveAll = JObj [(''approveAll'', JBool True)]"

definition bulkApprovePackages :: "bulk_approve \<Rightarrow> api_call" where
  "bulkApprovePackages v =
     api_send ''POST'' ''/api/packages/bulk-approve''
       (Some (bulk_approve_body v))"

record StaleParams =
  sp_months :: "int option"
  sp_ecosystem :: "string option"
  sp_search :: "string option"
  sp_page :: "int option"
  sp_limit :: "int option"
  sp_sortBy :: "string option"
  sp_sortDir :: "string option"

definition stale_params :: "StaleParams \<Rightarrow> params" where
  "stale_params p =
     set_truthy ''sort_dir'' (sp_sortDir p)
      (set_truthy ''sort_by'' (sp_sortBy p)
      (set_num ''limit'' (sp_limit p)
      (set_num ''page'' (sp_page p)
      (set_truthy ''search'' (sp_search p)
      (set_truthy ''ecosystem'' (sp_ecosystem p)
      (set_num ''months'' (sp_months p) []))))))"

definition getStalePackages :: "StaleParams \<Rightarrow> api_call" where
  "getStalePackages p = api_get (always_query ''/api/packages/stale'' (stale_params p))"

section \<open>Releases, alerts, dashboard, queue, settings\<close>

definition getRelease :: "string \<Rightarrow> api_call" where
  "getRelease i = api_get (''/api/releases/'' @ i)"

definition reanalyzeRelease :: "string \<Rightarrow> api_call" where
  "reanalyzeRelease i = api_send ''POST'' (''/api/releases/'' @ i @ ''/reanalyze'') None"

definition getPipelineStatus :: "api_call" where
  "getPipelineStatus = api_get ''/api/releases/pipeline-status''"

definition getReleaseHashes :: "string \<Rightarrow> api_call" where
  "getReleaseHashes i = api_get (''/api/releases/'' @ i @ ''/hashes'')"

record AlertListParams =
  ap_severity :: "string option"
  ap_status :: "string option"
  ap_search :: "string option"
  ap_page :: "int option"
  ap_limit :: "int option"
  ap_sortBy :: "string option"
  ap_sortDir :: "string option"

definition alert_list_params :: "AlertListParams \<Rightarrow> params" where
  "alert_list_params p =
     set_truthy ''sort_dir'' (ap_sortDir p)
      (set_truthy ''sort_by'' (ap_sortBy p)
      (set_num ''limit'' (ap_limit p)
      (set_num ''page'' (ap_page p)
      (set_truthy ''search'' (ap_search p)
      (set_truthy ''status'' (ap_status p)
      (set_truthy ''severity'' (ap_severity p) []))))))"

definition getAlerts :: "AlertListParams \<Rightarrow> api_call" where
  "getAlerts p = api_get (always_query ''/api/alerts'' (alert_list_params p))"

definition getAlert :: "string \<Rightarrow> api_call" where
  "getAlert i = api_get (''/api/alerts/'' @ i)"

definition updateAlertStatus :: "string \<Rightarrow> string \<Rightarrow> api_call" where
  "updateAlertStatus i s =
     api_send ''PATCH'' (''/api/alerts/'' @ i)
       (Some (JObj [(''status'', JStr s)]))"

definition getAlertNotes :: "string \<Rightarrow> api_call" where
  "getAlertNotes i = api_get (''/api/alerts/'' @ i @ ''/notes'')"

definition createAlertNote :: "string \<Rightarrow> string \<Rightarrow> api_call" where
  "createAlertNote i content =
     api_send ''POST'' (''/api/alerts/'' @ i @ ''/notes'')
       (Some (JObj [(''content'', JStr content)]))"

definition updateAlertNote :: "string \<Rightarrow> string \<Rightarrow> string \<Rightarrow> api_call" where
  "updateAlertNote i noteId content =
     api_send ''PUT'' (''/api/alerts/'' @ i @ ''/notes/'' @ noteId)
       (Some (JObj [(''content'', JStr content)]))"

definition deleteAlertNote :: "string \<Rightarrow> string \<Rightarrow> api_call" where
  "deleteAlertNote i noteId =
     api_send ''DELETE'' (''/api/alerts/'' @ i @ ''/notes/'' @ noteId) None"

definition getDashboardStats :: "api_call" where
  "getDashboardStats = api_get ''/api/dashboard/stats''"

definition getChartData :: "string option \<Rightarrow> string option \<Rightarrow> api_call" where
  "getChartData from to = api_get (with_query ''/api/dashboard/charts'' (set_truthy ''to'' to (set_truthy ''from'' from [])))"

record RecentReleaseParams =
  rr_page :: "int option"
  rr_limit :: "int option"
  rr_sortBy :: "string option"
  rr_sortDir :: "string option"
  rr_search :: "string option"
  rr_ecosystem :: "string option"
  rr_status :: "string option"
  rr_classification :: "string option"
  rr_latestPerPackage :: "bool"

definition recent_release_params :: "RecentReleaseParams \<Rightarrow> params" where
  "recent_release_params p =
     set_true ''latest_per_package'' (rr_latestPerPackage p)
      (set_truthy ''classification'' (rr_classification p)
      (set_truthy ''status'' (rr_status p)
      (set_truthy ''ecosystem'' (rr_ecosystem p)
      (set_truthy ''search'' (rr_search p)
      (set_truthy ''sort_dir'' (rr_sortDir p)
      (set_truthy ''sort_by'' (rr_sortBy p)
      (set_num ''limit'' (rr_limit p)
      (set_num ''page'' (rr_page p) []))))))))"

definition getRecentReleases :: "RecentReleaseParams \<Rightarrow> api_call" where
  "getRecentReleases p = api_get (always_query ''/api/dashboard/recent-releases'' (recent_release_params p))"

definition getQueueStats :: "api_call" where
  "getQueueStats = api_get ''/api/queue/stats''"

datatype QueueJobStatus = q_pending | q_processing | q_dead
datatype QueueJobType = q_diff | q_analyze

fun queue_status_name :: "QueueJobStatus \<Rightarrow> string" where
  "queue_status_name q_pending = ''pending''"
| "queue_status_name q_processing = ''processing''"
| "queue_status_name q_dead = ''dead''"

fun queue_type_name :: "QueueJobType \<Rightarrow> string" where
  "queue_type_name q_diff = ''diff''"
| "queue_type_name q_analyze = ''analyze''"

record QueueJobsParams =
  qp_type :: QueueJobType
  qp_status :: QueueJobStatus
  qp_page :: "int option"
  qp_limit :: "int option"

definition queue_jobs_params :: "QueueJobsParams \<Rightarrow> params" where
  "queue_jobs_params p =
     set_num ''limit'' (qp_limit p)
      (set_num ''page'' (qp_page p)
        [(''type'', queue_type_name (qp_type p)), (''status'', queue_status_name (qp_status p))])"

definition getQueueJobs :: "QueueJobsParams \<Rightarrow> api_call" where
  "getQueueJobs p = api_get (always_query ''/api/queue/jobs'' (queue_jobs_params p))"

definition retryDeadJobs :: "string option \<Rightarrow> api_call" where
  "retryDeadJobs ty = api_send ''POST'' (''/api/queue/retry-dead'' @ raw_param ''type'' ty) None"

definition retryDeadJob :: "string \<Rightarrow> api_call" where
  "retryDeadJob jobId = api_send ''POST'' (''/api/queue/dead/'' @ jobId @ ''/retry'') None"

definition getSettings :: "api_call" where
  "getSettings = api_get ''/api/settings''"

definition updateSettings :: "(string \<times> string) list \<Rightarrow> api_call" where
  "updateSettings settings =
     api_send ''PUT'' ''/api/settings''
       (Some (JObj (map (\<lambda>(k, v). (k, JStr v)) settings)))"

definition reanalyzeAll :: "api_call" where
  "reanalyzeAll = api_send ''POST'' ''/api/sync/reanalyze'' None"

section \<open>Platform administration and single sign-on\<close>

definition apiGetAuthSettings :: "api_call" where
  "apiGetAuthSettings = api_get ''/api/admin/auth-settings''"

definition apiUpdateAuthSettings :: "bool option \<Rightarrow> api_call" where
  "apiUpdateAuthSettings passwordLoginEnabled =
     api_send ''PUT'' ''/api/admin/auth-settings''
       (Some (JObj (obj_of [(''passwordLoginEnabled'', map_option JBool passwordLoginEnabled)])))"

record PlatformUserParams =
  pu_page :: "int option"
  pu_pageSize :: "int option"
  pu_search :: "string option"
  pu_sortBy :: "string option"
  pu_sortDir :: "string option"
  pu_status :: "string option"
  pu_role :: "string option"

definition platform_user_params :: "PlatformUserParams \<Rightarrow> params" where
  "platform_user_params p =
     set_truthy ''role'' (pu_role p)
      (set_truthy ''status'' (pu_status p)
      (set_truthy ''sort_dir'' (pu_sortDir p)
      (set_truthy ''sort_by'' (pu_sortBy p)
      (set_truthy ''search'' (pu_search p)
      (set_defined ''limit'' (pu_pageSize p)
      (set_defined ''page'' (pu_page p) []))))))"

definition apiGetPlatformUsers :: "PlatformUserParams \<Rightarrow> api_call" where
  "apiGetPlatformUsers p = api_get (with_query ''/api/admin/users'' (platform_user_params p))"

definition apiGetPlatformUser :: "string \<Rightarrow> api_call" where
  "apiGetPlatformUser i = api_get (''/api/admin/users/'' @ i)"

record UpdatePlatformUserRequest =
  uu_firstName :: "string option"
  uu_lastName :: "string option"
  uu_isSuperAdmin :: "bool option"
  uu_isActive :: "bool option"

definition update_platform_user_body :: "UpdatePlatformUserRequest \<Rightarrow> string \<Rightarrow> json" where
  "update_platform_user_body v confirmPassword = JObj (obj_of
    [(''firstName'', map_option JStr (uu_firstName v)),
     (''lastName'', map_option JStr (uu_lastName v)),
     (''isSuperAdmin'', map_option JBool (uu_isSuperAdmin v)),
     (''isActive'', map_option JBool (uu_isActive v)),
     (''confirmPassword'', Some (JStr confirmPassword))])"

definition apiUpdatePlatformUser :: "string \<Rightarrow> UpdatePlatformUserRequest \<Rightarrow> string \<Rightarrow> api_call" where
  "apiUpdatePlatformUser i v confirmPassword =
     api_send ''PUT'' (''/api/admin/users/'' @ i)
       (Some (update_platform_user_body v confirmPassword))"

record PlatformAuditLogParams =
  pa_page :: "int option"
  pa_limit :: "int option"
  pa_action :: "string option"
  pa_resource :: "string option"
  pa_user_email :: "string option"
  pa_workspace_name :: "string option"
  pa_from_date :: "string option"
  pa_to_date :: "string option"
  pa_sort_by :: "string option"
  pa_sort_dir :: "string option"

definition platform_audit_params :: "PlatformAuditLogParams \<Rightarrow> params" where
  "platform_audit_params p =
     set_truthy ''sort_dir'' (pa_sort_dir p)
      (set_truthy ''sort_by'' (pa_sort_by p)
      (set_truthy ''to_date'' (pa_to_date p)
      (set_truthy ''from_date'' (pa_from_date p)
      (set_truthy ''workspace_name'' (pa_workspace_name p)
      (set_truthy ''user_email'' (pa_user_email p)
      (set_truthy ''resource'' (pa_resource p)
      (set_truthy ''action'' (pa_action p)
      (set_defined ''limit'' (pa_limit p)
      (set_defined ''page'' (pa_page p) [])))))))))"

definition apiGetPlatformAuditLogs :: "PlatformAuditLogParams \<Rightarrow> api_call" where
  "apiGetPlatformAuditLogs p = api_get (with_query ''/api/admin/audit-logs'' (platform_audit_params p))"

definition apiGetSSOProviders :: "api_call" where
  "apiGetSSOProviders = api_get ''/api/auth/sso/providers''"

definition apiGetLinkedIdentities :: "api_call" where
  "apiGetLinkedIdentities = api_get ''/api/auth/identities''"

definition buildLinkIdentityUrl ::
  "'a http_world_scheme \<Rightarrow> string \<Rightarrow> string option \<Rightarrow> string option \<Rightarrow> string" where
  "buildLinkIdentityUrl w configId callbackUrl accessToken =
     apiBaseUrl w @ ''/api/auth/identities/link?'' @ usp_toString
       (set_truthy ''access_token'' accessToken
         (set_truthy ''callback_url'' callbackUrl [(''configId'', configId)]))"

definition apiUnlinkIdentity :: "string \<Rightarrow> api_call" where
  "apiUnlinkIdentity i = api_send ''DELETE'' (''/api/auth/identities/'' @ i) None"

definition apiGetPlatformSSOConfigs :: "api_call" where
  "apiGetPlatformSSOConfigs = api_get ''/api/admin/sso''"

definition apiGetPlatformSSOConfig :: "string \<Rightarrow> api_call" where
  "apiGetPlatformSSOConfig i = api_get (''/api/admin/sso/'' @ i)"

record CreateSSOConfigRequest =
  sc_provider :: "string"
  sc_displayName :: "string"
  sc_isEnabled :: "bool"
  sc_autoCreateUser :: "bool"
  sc_allowedDomains :: "string list"
  sc_samlEntityId :: "string option"
  sc_samlSsoUrl :: "string option"
  sc_samlCertificate :: "string option"
  sc_samlAttrEmail :: "string option"
  sc_samlAttrFirstName :: "string option"
  sc_samlAttrLastName :: "string option"
  sc_oauthClientId :: "string option"
  sc_oauthClientSecret :: "string option"
  sc_googleHostedDomain :: "string option"
  sc_githubOrgs :: "string list option"

definition create_sso_body :: "CreateSSOConfigRequest \<Rightarrow> json" where
  "create_sso_body v = JObj (obj_of
    [(''provider'', Some (JStr (sc_provider v))),
     (''displayName'', Some (JStr (sc_displayName v))),
     (''isEnabled'', Some (JBool (sc_isEnabled v))),
     (''autoCreateUser'', Some (JBool (sc_autoCreateUser v))),
     (''allowedDomains'', Some (JArr (map JStr (sc_allowedDomains v)))),
     (''samlEntityId'', map_option JStr (sc_samlEntityId v)),
     (''samlSsoUrl'', map_option JStr (sc_samlSsoUrl v)),
     (''samlCertificate'', map_option JStr (sc_samlCertificate v)),
     (''samlAttrEmail'', map_option JStr (sc_samlAttrEmail v)),
     (''samlAttrFirstName'', map_option JStr (sc_samlAttrFirstName v)),
     (''samlAttrLastName'', map_option JStr (sc_samlAttrLastName v)),
     (''oauthClientId'', map_option JStr (sc_oauthClientId v)),
     (''oauthClientSecret'', map_option JStr (sc_oauthClientSecret v)),
     (''googleHostedDomain'', map_option JStr (sc_googleHostedDomain v)),
     (''githubOrgs'', map_option (\<lambda>xs. JArr (map JStr xs)) (sc_githubOrgs v))])"

definition apiCreatePlatformSSOConfig :: "CreateSSOConfigRequest \<Rightarrow> api_call" where
  "apiCreatePlatformSSOConfig v = api_send ''POST'' ''/api/admin/sso'' (Some (create_sso_body v))"

record UpdateSSOConfigRequest =
  us_displayName :: "string option"
  us_isEnabled :: "bool option"
  us_autoCreateUser :: "bool option"
  us_allowedDomains :: "string list option"
  us_samlEntityId :: "string option"
  us_samlSsoUrl :: "string option"
  us_samlCertificate :: "string option"
  us_samlAttrEmail :: "string option"
  us_samlAttrFirstName :: "string option"
  us_samlAttrLastName :: "string option"
  us_oauthClientId :: "string option"
  us_oauthClientSecret :: "string option"
  us_googleHostedDomain :: "string option"
  us_githubOrgs :: "string list option"

definition update_sso_body :: "UpdateSSOConfigRequest \<Rightarrow> json" where
  "update_sso_body v = JObj (obj_of
    [(''displayName'', map_option JStr (us_displayName v)),
     (''isEnabled'', map_option JBool (us_isEnabled v)),
     (''autoCreateUser'', map_option JBool (us_autoCreateUser v)),
     (''allowedDomains'', map_option (\<lambda>xs. JArr (map JStr xs)) (us_allowedDomains v)),
     (''samlEntityId'', map_option JStr (us_samlEntityId v)),
     (''samlSsoUrl'', map_option JStr (us_samlSsoUrl v)),
     (''samlCertificate'', map_option JStr (us_samlCertificate v)),
     (''samlAttrEmail'', map_option JStr (us_samlAttrEmail v)),
     (''samlAttrFirstName'', map_option JStr (us_samlAttrFirstName v)),
     (''samlAttrLastName'', map_option JStr (us_samlAttrLastName v)),
     (''oauthClientId'', map_option JStr (us_oauthClientId v)),
     (''oauthClientSecret'', map_option JStr (us_oauthClientSecret v)),
     (''googleHostedDomain'', map_option JStr (us_googleHostedDomain v)),
     (''githubOrgs'', map_option (\<lambda>xs. JArr (map JStr xs)) (us_githubOrgs v))])"

definition apiUpdatePlatformSSOConfig :: "string \<Rightarrow> UpdateSSOConfigRequest \<Rightarrow> api_call" where
  "apiUpdatePlatformSSOConfig i v =
     api_send ''PUT'' (''/api/admin/sso/'' @ i)
       (Some (update_sso_body v))"

definition apiDeletePlatformSSOConfig :: "string \<Rightarrow> api_call" where
  "apiDeletePlatformSSOConfig i = api_send ''DELETE'' (''/api/admin/sso/'' @ i) None"

definition apiTestPlatformSSOConfig :: "string \<Rightarrow> api_call" where
  "apiTestPlatformSSOConfig i = api_send ''POST'' (''/api/admin/sso/'' @ i @ ''/test'') None"

definition apiImportSAMLMetadata :: "string \<Rightarrow> api_call" where
  "apiImportSAMLMetadata metadataUrl =
     api_send ''POST'' ''/api/admin/sso/saml/import-metadata''
       (Some (JObj [(''metadataUrl'', JStr metadataUrl)]))"

definition apiGetSAMLSPCertificate :: "api_call" where
  "apiGetSAMLSPCertificate = api_get ''/api/auth/saml/certificate''"

section \<open>The calls as a set\<close>

inductive monitor_api :: "api_call \<Rightarrow> bool" where
  "monitor_api (getPackages p)"
| "monitor_api (getPackage i)"
| "monitor_api (createPackage name ecosystem)"
| "monitor_api (deletePackage i)"
| "monitor_api (blockPackage i reason)"
| "monitor_api (unblockPackage i)"
| "monitor_api (getPackageReleases i page limit)"
| "monitor_api (discoverPackages ecosystem)"
| "monitor_api (bulkImportPackages format content)"
| "monitor_api (getAnalysisHistory i)"
| "monitor_api (getPackageSuggestions p)"
| "monitor_api (approvePackage i)"
| "monitor_api (rejectPackage i)"
| "monitor_api (bulkApprovePackages v)"
| "monitor_api (getStalePackages p)"
| "monitor_api (getRelease i)"
| "monitor_api (reanalyzeRelease i)"
| "monitor_api getPipelineStatus"
| "monitor_api (getReleaseHashes i)"
| "monitor_api (getAlerts p)"
| "monitor_api (getAlert i)"
| "monitor_api (updateAlertStatus i s)"
| "monitor_api (getAlertNotes i)"
| "monitor_api (createAlertNote i content)"
| "monitor_api (updateAlertNote i noteId content)"
| "monitor_api (deleteAlertNote i noteId)"
| "monitor_api getDashboardStats"
| "monitor_api (getChartData from to)"
| "monitor_api (getRecentReleases p)"
| "monitor_api getQueueStats"
| "monitor_api (getQueueJobs p)"
| "monitor_api (retryDeadJobs ty)"
| "monitor_api (retryDeadJob jobId)"
| "monitor_api getSettings"
| "monitor_api (updateSettings settings)"
| "monitor_api reanalyzeAll"
| "monitor_api apiGetAuthSettings"
| "monitor_api (apiUpdateAuthSettings passwordLoginEnabled)"
| "monitor_api (apiGetPlatformUsers p)"
| "monitor_api (apiGetPlatformUser i)"
| "monitor_api (apiUpdatePlatformUser i v confirmPassword)"
| "monitor_api (apiGetPlatformAuditLogs p)"
| "monitor_api apiGetSSOProviders"
| "monitor_api apiGetLinkedIdentities"
| "monitor_api (apiUnlinkIdentity i)"
| "monitor_api apiGetPlatformSSOConfigs"
| "monitor_api (apiGetPlatformSSOConfig i)"
| "monitor_api (apiCreatePlatformSSOConfig v)"
| "monitor_api (apiUpdatePlatformSSOConfig i v)"
| "monitor_api (apiDeletePlatformSSOConfig i)"
| "monitor_api (apiTestPlatformSSOConfig i)"
| "monitor_api (apiImportSAMLMetadata metadataUrl)"
| "monitor_api apiGetSAMLSPCertificate"

lemmas monitor_api_calls = getPackages_def
  getPackage_def
  createPackage_def
  deletePackage_def
  blockPackage_def
  unblockPackage_def
  getPackageReleases_def
  discoverPackages_def
  bulkImportPackages_def
  getAnalysisHistory_def
  getPackageSuggestions_def
  approvePackage_def
  rejectPackage_def
  bulkApprovePackages_def
  getStalePackages_def
  getRelease_def
  reanalyzeRelease_def
  getPipelineStatus_def
  getReleaseHashes_def
  getAlerts_def
  getAlert_def
  updateAlertStatus_def
  getAlertNotes_def
  createAlertNote_def
  updateAlertNote_def
  deleteAlertNote_def
  getDashboardStats_def
  getChartData_def
  getRecentReleases_def
  getQueueStats_def
  getQueueJobs_def
  retryDeadJobs_def
  retryDeadJob_def
  getSettings_def
  updateSettings_def
  reanalyzeAll_def
  apiGetAuthSettings_def
  apiUpdateAuthSettings_def
  apiGetPlatformUsers_def
  apiGetPlatformUser_def
  apiUpdatePlatformUser_def
  apiGetPlatformAuditLogs_def
  apiGetSSOProviders_def
  apiGetLinkedIdentities_def
  apiUnlinkIdentity_def
  apiGetPlatformSSOConfigs_def
  apiGetPlatformSSOConfig_def
  apiCreatePlatformSSOConfig_def
  apiUpdatePlatformSSOConfig_def
  apiDeletePlatformSSOConfig_def
  apiTestPlatformSSOConfig_def
  apiImportSAMLMetadata_def
  apiGetSAMLSPCertificate_def

section \<open>What all the calls have in common\<close>

lemma in_monitor_api: "monitor_api c \<Longrightarrow>
     startsWith (endpoint c) ''/api/'' \<and> opt_headers (call_opts c) = [] \<and>
     opt_method (call_opts c) \<in> {None, Some ''POST'', Some ''PUT'', Some ''PATCH'', Some ''DELETE''} \<and>
     (opt_method (call_opts c) = None \<longrightarrow> opt_body (call_opts c) = None)"
  by (induction rule: monitor_api.induct) (simp_all add: monitor_api_calls startsWith_with_query)

lemma monitor_api_private: "monitor_api c \<Longrightarrow> \<not> skipAuth (call_opts c)"
  by (induction rule: monitor_api.induct) (simp_all add: monitor_api_calls)

lemmas usp_reads = usp_get_set_truthy usp_get_set_num usp_get_set_true

text \<open>Search texts reach the backend unharmed: the query string of a list request decodes to the
  text the user typed, whatever characters it has, under the parameter name the backend
  reads, together with the other filters that are set, and filters that are not set are left out.\<close>

theorem list_queries_faithful:
  "(\<exists>ps. read_url (endpoint (getPackages p)) = (''/api/packages'', Some ps) \<and>
      usp_get ps ''search'' = (if truthy_str (pl_search p) then pl_search p else None) \<and>
      usp_get ps ''sort_by'' = (if truthy_str (pl_sortBy p) then pl_sortBy p else None) \<and>
      usp_get ps ''page'' = (if pl_page p = Some 0 then None else map_option show_int (pl_page p))) \<and>
   (\<exists>ps. read_url (endpoint (getAlerts a)) = (''/api/alerts'', Some ps) \<and>
      usp_get ps ''search'' = (if truthy_str (ap_search a) then ap_search a else None) \<and>
      usp_get ps ''severity'' = (if truthy_str (ap_severity a) then ap_severity a else None)) \<and>
   (\<exists>ps. read_url (endpoint (getRecentReleases r)) = (''/api/dashboard/recent-releases'', Some ps) \<and>
      usp_get ps ''search'' = (if truthy_str (rr_search r) then rr_search r else None) \<and>
      usp_get ps ''latest_per_package'' = (if rr_latestPerPackage r then Some ''true'' else None))"
proof (intro conjI)
  show "\<exists>ps. read_url (endpoint (getPackages p)) = (''/api/packages'', Some ps) \<and>
      usp_get ps ''search'' = (if truthy_str (pl_search p) then pl_search p else None) \<and>
      usp_get ps ''sort_by'' = (if truthy_str (pl_sortBy p) then pl_sortBy p else None) \<and>
      usp_get ps ''page'' = (if pl_page p = Some 0 then None else map_option show_int (pl_page p))"
    by (intro exI [of _ "package_list_params p"])
      (auto simp: getPackages_def read_always_query package_list_params_def usp_reads)
  show "\<exists>ps. read_url (endpoint (getAlerts a)) = (''/api/alerts'', Some ps) \<and>
      usp_get ps ''search'' = (if truthy_str (ap_search a) then ap_search a else None) \<and>
      usp_get ps ''severity'' = (if truthy_str (ap_severity a) then ap_severity a else None)"
    by (intro exI [of _ "alert_list_params a"])
      (auto simp: getAlerts_def read_always_query alert_list_params_def usp_reads)
  show "\<exists>ps. read_url (endpoint (getRecentReleases r)) = (''/api/dashboard/recent-releases'', Some ps) \<and>
      usp_get ps ''search'' = (if truthy_str (rr_search r) then rr_search r else None) \<and>
      usp_get ps ''latest_per_package'' = (if rr_latestPerPackage r then Some ''true'' else None)"
    by (intro exI [of _ "recent_release_params r"])
      (auto simp: getRecentReleases_def read_always_query recent_release_params_def usp_reads)
qed

text \<open>Linking an identity puts the caller's access token into the query string of a page
  navigation, unchanged, where the address bar, the history and server logs keep it.\<close>

theorem link_url_carries_token:
  assumes "CHR ''?'' \<notin> set (apiBaseUrl w)" and "t \<noteq> []"
  shows "\<exists>ps. read_url (buildLinkIdentityUrl w configId callbackUrl (Some t)) =
       (apiBaseUrl w @ ''/api/auth/identities/link'', Some ps) \<and>
     usp_get ps ''access_token'' = Some t \<and> usp_get ps ''configId'' = Some configId \<and>
     usp_get ps ''callback_url'' = (if truthy_str callbackUrl then callbackUrl else None)"
proof -
  let ?ps = "set_truthy ''access_token'' (Some t) (set_truthy ''callback_url'' callbackUrl [(''configId'', configId)])"
  have "buildLinkIdentityUrl w configId callbackUrl (Some t) =
      always_query (apiBaseUrl w @ ''/api/auth/identities/link'') ?ps"
    by (simp add: buildLinkIdentityUrl_def always_query_def)
  moreover have "CHR ''?'' \<notin> set (apiBaseUrl w @ ''/api/auth/identities/link'')"
    using assms(1) by simp
  ultimately show ?thesis using assms(2)
    by (intro exI [of _ ?ps]) (auto simp: read_always_query usp_reads)
qed

lemma link_url_carries_token_witness:
  "\<exists>ps. read_url (buildLinkIdentityUrl demo_world ''c1'' None (Some ''secret'')) =
       (''http://localhost:8080/api/auth/identities/link'', Some ps) \<and>
     usp_get ps ''access_token'' = Some ''secret''"
  using link_url_carries_token [of demo_world "''secret''" "''c1''" None]
  by (auto simp: apiBaseUrl_def demo_world_def)

end
