(* ===== verification/Auth.thy ===== *)
theory Auth
  imports Http
begin

text \<open>
  The authentication context of \<open>core/providers/auth-provider.tsx\<close>: its React state is a record
  that extends the world of the HTTP client, and its callbacks are state transformers that
  run one after another. A value of type \<open>User\<close>, \<open>Workspace\<close> or \<open>LoginResponse\<close> is
  the parsed JSON itself, since the code trusts the answer and checks nothing but what is
  written here; a list of workspaces is an array or nullish, as its type says.
\<close>

section \<open>State\<close>

datatype cache_event = ClearAll | InvalidateAll

record auth_world = http_world +
  user :: "json option"
  isLoading :: bool
  currentWorkspace :: "json option"
  workspaces :: "json list"
  workspacesLoading :: bool
  workspacesError :: "string option"
  toasts :: "string list"
  cacheLog :: "cache_event list"

definition isAuthenticated :: "auth_world \<Rightarrow> bool" where
  "isAuthenticated w \<longleftrightarrow> truthy (user w)"

definition get_options :: options where
  "get_options = \<lparr>opt_method = None, opt_headers = [], opt_body = None, skipAuth = False\<rparr>"

definition post_options :: "bool \<Rightarrow> json \<Rightarrow> options" where
  "post_options skip body = \<lparr>opt_method = Some ''POST'', opt_headers = [], opt_body = Some body,
     skipAuth = skip\<rparr>"

text \<open>\<open>const { data } = \<dots>\<close>: \<^term>\<open>None\<close> when it throws.\<close>

definition data_of :: "json \<Rightarrow> json option option" where
  "data_of body = get_prop (Some body) ''data''"

section \<open>Signing out\<close>

definition end_session :: "auth_world \<Rightarrow> auth_world" where
  "end_session w =
     (let w1 = clearWorkspaceId (clearTokens w)
      in w1\<lparr>user := Some JNull, currentWorkspace := Some JNull, workspaces := [],
            cacheLog := cacheLog w1 @ [ClearAll]\<rparr>)"

definition logout_with :: "(auth_world \<Rightarrow> auth_world) \<Rightarrow> server \<Rightarrow> auth_world \<Rightarrow> auth_world" where
  "logout_with onExpired srv w =
     (case getStoredRefreshToken w of
        None \<Rightarrow> end_session w
      | Some t \<Rightarrow>
          (if t = [] then end_session w
           else end_session (snd (fetchApi srv onExpired ''/api/auth/logout''
             (post_options False (JObj [(''refreshToken'', JStr t)])) w))))"

definition expired_toast :: string where
  "expired_toast = ''Your session has expired. Please log in again.''"

text \<open>
  The listener of \<open>auth:session-expired\<close> signs out, which sends a request, which may expire
  again. The fuel bounds that nesting; two levels are enough (lemma \<open>expired_depth\<close>).
\<close>

fun handleSessionExpired :: "nat \<Rightarrow> server \<Rightarrow> auth_world \<Rightarrow> auth_world" where
  "handleSessionExpired 0 srv w = w"
| "handleSessionExpired (Suc n) srv w =
     logout_with (handleSessionExpired n srv) srv (w\<lparr>toasts := toasts w @ [expired_toast]\<rparr>)"

abbreviation listener :: "server \<Rightarrow> auth_world \<Rightarrow> auth_world" where
  "listener srv \<equiv> handleSessionExpired 2 srv"

definition logout :: "server \<Rightarrow> auth_world \<Rightarrow> auth_world" where
  "logout srv w = logout_with (listener srv) srv w"

section \<open>Loading the user and the workspaces\<close>

definition refreshUser :: "server \<Rightarrow> auth_world \<Rightarrow> auth_world" where
  "refreshUser srv w =
     (let (res, w1) = fetchApi srv (listener srv) ''/api/auth/me'' get_options w;
          failed = clearTokens (w1\<lparr>user := Some JNull\<rparr>)
      in case res of
           Inl _ \<Rightarrow> failed
         | Inr body \<Rightarrow>
             (case data_of body of
                None \<Rightarrow> failed
              | Some d \<Rightarrow> setSuperAdminHint (truthy (opt_prop d ''isSuperAdmin'')) (w1\<lparr>user := d\<rparr>)))"

text \<open>\<open>data.find((o) => o.id === storedWorkspaceId)\<close>; the outer \<^term>\<open>None\<close> is a \<open>TypeError\<close>.\<close>

fun find_workspace :: "string \<Rightarrow> json list \<Rightarrow> json option option" where
  "find_workspace i [] = Some None"
| "find_workspace i (x # xs) =
     (case get_prop (Some x) ''id'' of
        None \<Rightarrow> None
      | Some v \<Rightarrow> if v = Some (JStr i) then Some (Some x) else find_workspace i xs)"

text \<open>\<open>setCurrentWorkspaceState(data[0]); storeWorkspaceId(data[0].id)\<close>: a \<open>TypeError\<close> in the second
  call comes after the first has set the state.\<close>

definition take_first :: "json \<Rightarrow> auth_world \<Rightarrow> bool \<times> auth_world" where
  "take_first x w =
     (let w1 = w\<lparr>currentWorkspace := Some x\<rparr> in
      case get_prop (Some x) ''id'' of
        None \<Rightarrow> (False, w1)
      | Some v \<Rightarrow> (True, storeWorkspaceId (js_string_opt v) w1))"

definition choose_workspace :: "json list option \<Rightarrow> auth_world \<Rightarrow> bool \<times> auth_world" where
  "choose_workspace data w =
     (case (getStoredWorkspaceId w, data) of
        (Some i, Some xs) \<Rightarrow>
          (case find_workspace i xs of
             None \<Rightarrow> (False, w)
           | Some (Some x) \<Rightarrow> (True, w\<lparr>currentWorkspace := Some x\<rparr>)
           | Some None \<Rightarrow> (case xs of [] \<Rightarrow> (True, w) | x # _ \<Rightarrow> take_first x w))
      | (_, Some (x # _)) \<Rightarrow> take_first x w
      | _ \<Rightarrow> (True, w))"

definition workspaces_failed :: "thrown \<Rightarrow> auth_world \<Rightarrow> auth_world" where
  "workspaces_failed err w =
     (let message = sanitizeErrorMessage err (Some ''Failed to load workspaces'')
      in w\<lparr>workspaces := [], workspacesError := Some message, toasts := toasts w @ [message],
           workspacesLoading := False\<rparr>)"

definition array_of :: "json option \<Rightarrow> json list option" where
  "array_of d = (case d of Some (JArr xs) \<Rightarrow> Some xs | _ \<Rightarrow> None)"

definition refreshWorkspaces :: "server \<Rightarrow> auth_world \<Rightarrow> auth_world" where
  "refreshWorkspaces srv w0 =
     (let w = w0\<lparr>workspacesLoading := True, workspacesError := None\<rparr>;
          (res, w1) = fetchApi srv (listener srv) ''/api/workspaces'' get_options w
      in case res of
           Inl e \<Rightarrow> workspaces_failed e w1
         | Inr body \<Rightarrow>
             (case data_of body of
                None \<Rightarrow> workspaces_failed (ErrorObj type_error_message) w1
              | Some d \<Rightarrow>
                  (let data = array_of d;
                       w2 = w1\<lparr>workspaces := (case data of None \<Rightarrow> [] | Some xs \<Rightarrow> xs)\<rparr>;
                       (fine, w3) = choose_workspace data w2
                   in if fine then w3\<lparr>workspacesLoading := False\<rparr>
                      else workspaces_failed (ErrorObj type_error_message) w3)))"

text \<open>\<open>Promise.all([refreshUser(), refreshWorkspaces()])\<close>: the two run to their ends in either order.\<close>

definition initAuth :: "bool \<Rightarrow> server \<Rightarrow> auth_world \<Rightarrow> auth_world" where
  "initAuth userFirst srv w =
     (if truthy_str (getStoredAccessToken w) then
        (let w1 = (if userFirst then refreshWorkspaces srv (refreshUser srv w)
                   else refreshUser srv (refreshWorkspaces srv w))
         in w1\<lparr>isLoading := False\<rparr>)
      else w\<lparr>isLoading := False\<rparr>)"

section \<open>Signing in\<close>

text \<open>\<open>storeTokens\<close>, \<open>setUser\<close>, \<open>setSuperAdminHint\<close> from a login response; false: a \<open>TypeError\<close>.\<close>

definition adopt_session :: "json option \<Rightarrow> auth_world \<Rightarrow> bool \<times> auth_world" where
  "adopt_session d w =
     (let w1 = storeTokens (js_string_opt (opt_prop d ''accessToken''))
                 (js_string_opt (opt_prop d ''refreshToken'')) w;
          u = opt_prop d ''user'';
          w2 = w1\<lparr>user := u\<rparr>
      in case get_prop u ''isSuperAdmin'' of
           None \<Rightarrow> (False, w2)
         | Some b \<Rightarrow> (True, setSuperAdminHint (truthy b) w2))"

definition login :: "server \<Rightarrow> string \<Rightarrow> string \<Rightarrow> auth_world \<Rightarrow> (thrown + json option) \<times> auth_world" where
  "login srv email password w =
     (let (res, w1) = fetchApi srv (listener srv) ''/api/auth/login''
            (post_options True (JObj [(''email'', JStr email), (''password'', JStr password)])) w
      in case res of
           Inl e \<Rightarrow> (Inl e, w1)
         | Inr body \<Rightarrow>
             (case data_of body of
                None \<Rightarrow> (Inl (ErrorObj type_error_message), w1)
              | Some d \<Rightarrow>
                  (if \<not> truthy d then (Inl (ErrorObj ''Login failed: no data received''), w1)
                   else case adopt_session d w1 of
                       (False, w2) \<Rightarrow> (Inl (ErrorObj type_error_message), w2)
                     | (True, w2) \<Rightarrow>
                         (let w3 = (if truthy (opt_prop d ''mustChangePassword'') then w2
                                    else refreshWorkspaces srv w2)
                          in (Inr (opt_prop d ''mustChangePassword''), w3)))))"

definition register ::
  "server \<Rightarrow> string \<Rightarrow> string \<Rightarrow> string \<Rightarrow> string \<Rightarrow> auth_world \<Rightarrow> (thrown + string option) \<times> auth_world" where
  "register srv email password firstName lastName w =
     (let (res, w1) = fetchApi srv (listener srv) ''/api/auth/register''
            (post_options True (JObj [(''email'', JStr email), (''password'', JStr password),
               (''firstName'', JStr firstName), (''lastName'', JStr lastName)])) w
      in case res of
           Inl e \<Rightarrow> (Inl e, w1)
         | Inr body \<Rightarrow>
             (case data_of body of
                None \<Rightarrow> (Inl (ErrorObj type_error_message), w1)
              | Some d \<Rightarrow>
                  (if \<not> truthy d then (Inl (ErrorObj ''Registration failed: no data received''), w1)
                   else if opt_prop d ''code'' = Some (JStr ''registration_complete_login_required'') \<or>
                           opt_prop d ''code'' = Some (JStr ''email_verification_required'')
                     then (Inr (Some (js_string_opt (opt_prop d ''code''))), w1)
                   else case adopt_session d w1 of
                       (False, w2) \<Rightarrow> (Inl (ErrorObj type_error_message), w2)
                     | (True, w2) \<Rightarrow> (Inr None, refreshWorkspaces srv w2))))"

definition setCurrentWorkspace :: "json \<Rightarrow> auth_world \<Rightarrow> auth_world" where
  "setCurrentWorkspace ws w =
     (let w1 = w\<lparr>currentWorkspace := Some ws\<rparr>;
          w2 = storeWorkspaceId (js_string_opt (opt_prop (Some ws) ''id'')) w1
      in w2\<lparr>cacheLog := cacheLog w2 @ [InvalidateAll]\<rparr>)"

section \<open>The proactive refresh\<close>

definition proactive_refresh :: "server \<Rightarrow> auth_world \<Rightarrow> auth_world" where
  "proactive_refresh srv w =
     (case getStoredRefreshToken w of
        None \<Rightarrow> w
      | Some t \<Rightarrow>
          (if t = [] then w
           else
             let (res, w1) = fetchApi srv (listener srv) ''/api/auth/refresh''
                   (post_options True (JObj [(''refreshToken'', JStr t)])) w;
                 failed = (if windowDefined w1 then listener srv w1 else w1)
             in case res of
                  Inl _ \<Rightarrow> failed
                | Inr body \<Rightarrow>
                    (case data_of body of
                       None \<Rightarrow> failed
                     | Some d \<Rightarrow>
                         (if truthy (opt_prop d ''accessToken'') \<and> truthy (opt_prop d ''refreshToken'')
                          then storeTokens (js_string_opt (opt_prop d ''accessToken''))
                                 (js_string_opt (opt_prop d ''refreshToken'')) w1
                          else w1))))"

section \<open>What the HTTP client leaves alone\<close>

lemma more_session [simp]:
  "http_world.more (storeTokens a r w) = http_world.more w"
  "http_world.more (clearTokens w) = http_world.more w"
  "http_world.more (clearWorkspaceId w) = http_world.more w"
  "http_world.more (storeWorkspaceId i w) = http_world.more w"
  "http_world.more (setSuperAdminHint b w) = http_world.more w"
  by (simp_all add: session_defs Let_def assign_cookie_def setItem_def removeItem_def)

lemma more_fields:
  assumes "http_world.more v = http_world.more w"
  shows "user v = user w" "currentWorkspace v = currentWorkspace w" "workspaces v = workspaces w"
    "toasts v = toasts w" "cacheLog v = cacheLog w"
  using assms by (cases v; cases w; simp)+

lemma fields_session [simp]:
  "user (storeTokens a r w) = user w" "user (clearTokens w) = user w"
  "user (setSuperAdminHint b w) = user w" "user (storeWorkspaceId i w) = user w"
  "currentWorkspace (storeWorkspaceId i w) = currentWorkspace w"
  "workspaces (storeWorkspaceId i w) = workspaces w"
  "toasts (clearTokens v) = toasts v" "toasts (clearWorkspaceId v) = toasts v"
  by (rule more_fields; simp)+

lemma stored_more_upd [simp]:
  "getStoredAccessToken (w\<lparr>user := u\<rparr>) = getStoredAccessToken w"
  "getStoredAccessToken (w\<lparr>isLoading := b\<rparr>) = getStoredAccessToken w"
  "getStoredAccessToken (w\<lparr>currentWorkspace := c\<rparr>) = getStoredAccessToken w"
  "getStoredAccessToken (w\<lparr>workspaces := x\<rparr>) = getStoredAccessToken w"
  "getStoredAccessToken (w\<lparr>workspacesLoading := b\<rparr>) = getStoredAccessToken w"
  "getStoredAccessToken (w\<lparr>workspacesError := e\<rparr>) = getStoredAccessToken w"
  "getStoredAccessToken (w\<lparr>toasts := t\<rparr>) = getStoredAccessToken w"
  "getStoredAccessToken (w\<lparr>cacheLog := l\<rparr>) = getStoredAccessToken w"
  "getStoredRefreshToken (w\<lparr>user := u\<rparr>) = getStoredRefreshToken w"
  "getStoredRefreshToken (w\<lparr>isLoading := b\<rparr>) = getStoredRefreshToken w"
  "getStoredRefreshToken (w\<lparr>currentWorkspace := c\<rparr>) = getStoredRefreshToken w"
  "getStoredRefreshToken (w\<lparr>workspaces := x\<rparr>) = getStoredRefreshToken w"
  "getStoredRefreshToken (w\<lparr>workspacesLoading := b\<rparr>) = getStoredRefreshToken w"
  "getStoredRefreshToken (w\<lparr>workspacesError := e\<rparr>) = getStoredRefreshToken w"
  "getStoredRefreshToken (w\<lparr>toasts := t\<rparr>) = getStoredRefreshToken w"
  "getStoredRefreshToken (w\<lparr>cacheLog := l\<rparr>) = getStoredRefreshToken w"
  "getStoredWorkspaceId (w\<lparr>user := u\<rparr>) = getStoredWorkspaceId w"
  "getStoredWorkspaceId (w\<lparr>isLoading := b\<rparr>) = getStoredWorkspaceId w"
  "getStoredWorkspaceId (w\<lparr>currentWorkspace := c\<rparr>) = getStoredWorkspaceId w"
  "getStoredWorkspaceId (w\<lparr>workspaces := x\<rparr>) = getStoredWorkspaceId w"
  "getStoredWorkspaceId (w\<lparr>workspacesLoading := b\<rparr>) = getStoredWorkspaceId w"
  "getStoredWorkspaceId (w\<lparr>workspacesError := e\<rparr>) = getStoredWorkspaceId w"
  "getStoredWorkspaceId (w\<lparr>toasts := t\<rparr>) = getStoredWorkspaceId w"
  "getStoredWorkspaceId (w\<lparr>cacheLog := l\<rparr>) = getStoredWorkspaceId w"
  by (simp_all add: session_defs getItem_def)

lemma end_session_simps [simp]:
  "getStoredAccessToken (end_session w) = None" "getStoredRefreshToken (end_session w) = None"
  "getStoredWorkspaceId (end_session w) = None" "user (end_session w) = Some JNull"
  "currentWorkspace (end_session w) = Some JNull" "workspaces (end_session w) = []"
  "cacheLog (end_session w) = cacheLog w @ [ClearAll]" "toasts (end_session w) = toasts w"
  using more_fields(5) [of "clearWorkspaceId (clearTokens w)" w]
  by (simp_all add: end_session_def Let_def)

section \<open>Signing out\<close>

lemma logout_with_ends: "\<exists>v. logout_with f srv w = end_session v"
  by (auto simp: logout_with_def split: option.splits)

text \<open>Signing out works whatever the backend answers: no token and no workspace is left in the
  browser, user, workspace and workspace list are empty, and the query cache has been
  cleared last, so nothing of the session can be shown to the next user.\<close>

theorem logout_clears_session:
  "getStoredAccessToken (logout srv w) = None \<and> getStoredRefreshToken (logout srv w) = None \<and>
   getStoredWorkspaceId (logout srv w) = None \<and> \<not> isAuthenticated (logout srv w) \<and>
   currentWorkspace (logout srv w) = Some JNull \<and> workspaces (logout srv w) = [] \<and>
   last (cacheLog (logout srv w)) = ClearAll"
proof -
  obtain v where "logout srv w = end_session v"
    using logout_with_ends unfolding logout_def by blast
  then show ?thesis by (simp add: isAuthenticated_def)
qed

text \<open>After signing out the next request carries neither a bearer token nor a workspace.\<close>

theorem logout_headers:
  assumes "opt_headers opts = []"
  shows "map_of (build_headers opts (logout srv w)) ''Authorization'' = None \<and>
     map_of (build_headers opts (logout srv w)) ''X-Workspace-ID'' = None"
proof -
  obtain v where v: "logout srv w = end_session v"
    using logout_with_ends unfolding logout_def by blast
  show ?thesis unfolding v using assms by (simp add: build_headers_lookup)
qed

lemma fetchApi_listener_cong:
  assumes "\<And>v. getStoredRefreshToken v = None \<Longrightarrow> f v = g v"
  shows "fetchApi srv f e opts w = fetchApi srv g e opts w"
proof -
  have fg: "f (clearWorkspaceId (clearTokens v)) = g (clearWorkspaceId (clearTokens v))" for v
    by (rule assms) simp
  show ?thesis unfolding fetchApi_def Let_def fg ..
qed

lemma expired_tokenless:
  "getStoredRefreshToken w = None \<Longrightarrow>
     handleSessionExpired (Suc n) srv w = end_session (w\<lparr>toasts := toasts w @ [expired_toast]\<rparr>)"
  by (simp add: logout_with_def)

lemma logout_with_cong:
  assumes "\<And>v. getStoredRefreshToken v = None \<Longrightarrow> f v = g v"
  shows "logout_with f srv w = logout_with g srv w"
proof -
  have eq: "fetchApi srv f ''/api/auth/logout'' opts v = fetchApi srv g ''/api/auth/logout'' opts v" for opts v
    by (rule fetchApi_listener_cong) (rule assms)
  show ?thesis unfolding logout_with_def eq ..
qed

lemma expired_depth: "handleSessionExpired (Suc (Suc n)) srv w = handleSessionExpired 2 srv w"
proof -
  have *: "handleSessionExpired (Suc n) srv v = handleSessionExpired (Suc 0) srv v"
    if "getStoredRefreshToken v = None" for n v
    using that by (simp only: expired_tokenless)
  have "logout_with (handleSessionExpired (Suc n) srv) srv v =
      logout_with (handleSessionExpired (Suc 0) srv) srv v" for v
    using * by (rule logout_with_cong)
  then show ?thesis by (simp only: handleSessionExpired.simps(2) numeral_2_eq_2)
qed

text \<open>C13: the end of a session does not chase its own tail. The listener signs out with a request
  that can expire in turn and call the listener again, but by then the refresh token is
  gone and the inner call sends nothing: any nesting deeper than two changes nothing.\<close>

theorem expiry_handling_terminates:
  assumes "2 \<le> n"
  shows "handleSessionExpired n srv w = listener srv w"
proof -
  obtain m where "n = Suc (Suc m)" using assms by (auto dest: le_Suc_ex)
  then show ?thesis by (simp only: expired_depth)
qed

section \<open>Loading\<close>

lemma fetchApi_rejected:
  "srv (sent w) (first_request e opts w) = Inl m \<Longrightarrow>
     fetchApi srv f e opts w = (Inl (ErrorObj m), w\<lparr>sent := sent w @ [first_request e opts w]\<rparr>)"
  by (simp add: fetchApi_def first_request_def Let_def net_fetch_def)

lemma fetchApi_answered:
  "srv (sent w) (first_request e opts w) = Inr resp \<Longrightarrow> status resp \<noteq> 401 \<or> skipAuth opts \<Longrightarrow>
     fetchApi srv f e opts w = (finish resp, w\<lparr>sent := sent w @ [first_request e opts w]\<rparr>)"
  by (auto simp: fetchApi_def first_request_def Let_def net_fetch_def)

text \<open>A lost connection while the page loads ends the session: \<open>refreshUser\<close> treats every
  error like a refused token and deletes both tokens, although no server has refused them.\<close>

theorem network_failure_signs_out:
  assumes "srv (sent w) (first_request ''/api/auth/me'' get_options w) = Inl m"
  shows "getStoredAccessToken (refreshUser srv w) = None \<and>
     getStoredRefreshToken (refreshUser srv w) = None \<and> \<not> isAuthenticated (refreshUser srv w)"
  using assms by (simp add: refreshUser_def fetchApi_rejected Let_def isAuthenticated_def)

definition auth_demo :: auth_world where
  "auth_demo = http_world.extend demo_world (auth_world.fields None True None [] False None [] [])"

lemma auth_demo_tokens [simp]:
  "getStoredRefreshToken auth_demo = Some ''r1''" "windowDefined auth_demo" "sent auth_demo = []"
  by (simp_all add: auth_demo_def http_world.defs auth_world.defs demo_world_def getStoredRefreshToken_def
      getItem_def key_defs)

lemma expiry_handling_terminates_witness:
  "handleSessionExpired 7 (\<lambda>_ _. Inl ''offline'') auth_demo = listener (\<lambda>_ _. Inl ''offline'') auth_demo"
  using expiry_handling_terminates [of 7] by simp

lemma network_failure_signs_out_witness:
  "getStoredRefreshToken (refreshUser (\<lambda>_ _. Inl ''Failed to fetch'') auth_demo) = None"
  using network_failure_signs_out [of "\<lambda>_ _. Inl ''Failed to fetch''" auth_demo "''Failed to fetch''"] by simp

lemma find_workspace_found: "find_workspace i xs = Some (Some x) \<Longrightarrow> x \<in> set xs \<and> get_prop (Some x) ''id'' = Some (Some (JStr i))"
  by (induction xs) (auto split: option.splits if_splits)

lemma find_workspace_total:
  "\<forall>x \<in> set xs. \<exists>i. get_prop (Some x) ''id'' = Some (Some (JStr i)) \<Longrightarrow> find_workspace i xs \<noteq> None"
  by (induction xs) (auto split: option.splits)

lemma take_first_simps:
  "get_prop (Some x) ''id'' = Some (Some (JStr i)) \<Longrightarrow>
     take_first x w = (True, storeWorkspaceId i (w\<lparr>currentWorkspace := Some x\<rparr>))"
  by (simp add: take_first_def)

lemma windowDefined_upd [simp]:
  "windowDefined (w\<lparr>currentWorkspace := c\<rparr>) = windowDefined w" "windowDefined (w\<lparr>workspaces := x\<rparr>) = windowDefined w"
  by simp_all

text \<open>After the choice the state, the storage and the list agree.\<close>

lemma choose_workspace_consistent:
  assumes "windowDefined w" and "xs \<noteq> []"
    and ids: "\<forall>x \<in> set xs. \<exists>i. i \<noteq> [] \<and> get_prop (Some x) ''id'' = Some (Some (JStr i))"
  shows "\<exists>v x i. choose_workspace (Some xs) w = (True, v) \<and> currentWorkspace v = Some x \<and> x \<in> set xs \<and>
     get_prop (Some x) ''id'' = Some (Some (JStr i)) \<and> getStoredWorkspaceId v = Some i \<and>
     workspaces v = workspaces w"
proof -
  obtain y ys where xs: "xs = y # ys" using assms(2) by (cases xs) auto
  obtain j where j: "j \<noteq> []" "get_prop (Some y) ''id'' = Some (Some (JStr j))" using ids xs by auto
  have first: "take_first y w = (True, storeWorkspaceId j (w\<lparr>currentWorkspace := Some y\<rparr>))"
    using j(2) by (rule take_first_simps)
  have ok: "getStoredWorkspaceId (storeWorkspaceId j (w\<lparr>currentWorkspace := Some y\<rparr>)) = Some j"
    using assms(1) j(1) by (simp add: getStoredWorkspaceId_store)
  show ?thesis
  proof (cases "getStoredWorkspaceId w")
    case None
    with first ok j xs show ?thesis by (auto simp: choose_workspace_def)
  next
    case (Some i)
    have "find_workspace i xs \<noteq> None" using ids by (intro find_workspace_total) blast
    then consider "find_workspace i xs = Some None" | x where "find_workspace i xs = Some (Some x)"
      by (cases "find_workspace i xs") auto
    then show ?thesis
    proof cases
      case 1
      with Some first ok j xs show ?thesis by (auto simp: choose_workspace_def)
    next
      case 2
      with Some find_workspace_found [OF 2] show ?thesis by (auto simp: choose_workspace_def)
    qed
  qed
qed

lemma refreshWorkspaces_answered:
  assumes "srv (sent w) (first_request ''/api/workspaces'' get_options
      (w\<lparr>workspacesLoading := True, workspacesError := None\<rparr>)) = Inr resp"
    and "status resp = 200" and "payload resp = Some body" and "data_of body = Some (Some (JArr xs))"
    and "choose_workspace (Some xs) (w\<lparr>workspacesLoading := True, workspacesError := None,
           sent := sent w @ [first_request ''/api/workspaces'' get_options
             (w\<lparr>workspacesLoading := True, workspacesError := None\<rparr>)], workspaces := xs\<rparr>) = (True, v)"
  shows "refreshWorkspaces srv w = v\<lparr>workspacesLoading := False\<rparr>"
proof -
  let ?w = "w\<lparr>workspacesLoading := True, workspacesError := None\<rparr>"
  have "srv (sent ?w) (first_request ''/api/workspaces'' get_options ?w) = Inr resp"
    using assms(1) by simp
  then have "fetchApi srv (listener srv) ''/api/workspaces'' get_options ?w =
      (finish resp, ?w\<lparr>sent := sent ?w @ [first_request ''/api/workspaces'' get_options ?w]\<rparr>)"
    by (rule fetchApi_answered) (simp add: assms(2))
  moreover have "finish resp = Inr body"
    using assms(2,3) by (simp add: finish_def ok_status_def)
  ultimately show ?thesis
    using assms(4,5) by (simp add: refreshWorkspaces_def Let_def array_of_def)
qed


definition data_response :: "json \<Rightarrow> response" where
  "data_response d = \<lparr>status = 200, resp_headers = (\<lambda>_. None),
     payload = Some (JObj [(''data'', d), (''error'', JNull)])\<rparr>"

lemma data_response_simps [simp]:
  "status (data_response d) = 200" "payload (data_response d) = Some (JObj [(''data'', d), (''error'', JNull)])"
  "data_of (JObj [(''data'', d), (''error'', JNull)]) = Some (Some d)"
  by (simp_all add: data_response_def data_of_def)


text \<open>A user who has lost the last workspace keeps the old one: an empty list leaves the selected
  workspace and the stored id as they were, so requests go on naming a workspace that
  the backend no longer lists.\<close>

theorem lost_workspace_is_kept:
  assumes "getStoredWorkspaceId w = Some i"
    and "srv (sent w) (first_request ''/api/workspaces'' get_options
      (w\<lparr>workspacesLoading := True, workspacesError := None\<rparr>)) = Inr (data_response (JArr []))"
  shows "workspaces (refreshWorkspaces srv w) = [] \<and>
     currentWorkspace (refreshWorkspaces srv w) = currentWorkspace w \<and>
     getStoredWorkspaceId (refreshWorkspaces srv w) = Some i"
proof -
  let ?w = "w\<lparr>workspacesLoading := True, workspacesError := None,
    sent := sent w @ [first_request ''/api/workspaces'' get_options
      (w\<lparr>workspacesLoading := True, workspacesError := None\<rparr>)], workspaces := []\<rparr>"
  have gw: "getStoredWorkspaceId (w\<lparr>sent := s\<rparr>) = getStoredWorkspaceId w" for s and w :: auth_world
    by simp
  have "choose_workspace (Some []) ?w = (True, ?w)"
    using assms(1) by (simp add: choose_workspace_def gw split: option.splits)
  with assms(2) have "refreshWorkspaces srv w = ?w\<lparr>workspacesLoading := False\<rparr>"
    by (intro refreshWorkspaces_answered) auto
  then show ?thesis using assms(1) by (simp add: gw)
qed

lemma lost_workspace_is_kept_witness:
  "getStoredWorkspaceId (refreshWorkspaces (\<lambda>_ _. Inr (data_response (JArr [])))
     (storeWorkspaceId ''w9'' auth_demo)) = Some ''w9''"
  using lost_workspace_is_kept [of "storeWorkspaceId ''w9'' auth_demo" "''w9''"
      "\<lambda>_ _. Inr (data_response (JArr []))"] by (simp add: getStoredWorkspaceId_store)

section \<open>Signing in\<close>

abbreviation login_options :: "string \<Rightarrow> string \<Rightarrow> options" where
  "login_options email password \<equiv>
     post_options True (JObj [(''email'', JStr email), (''password'', JStr password)])"

text \<open>A refused login changes nothing: for an answer that is no success the caller gets an error,
  the state and the storage are as before, and there was exactly one request, without a
  bearer token; in particular a refused password does not start a token refresh.\<close>

theorem refused_login_changes_nothing:
  assumes "srv (sent w) (first_request ''/api/auth/login'' (login_options email password) w) = Inr resp"
    and "\<not> ok_status resp"
  shows "\<exists>e. login srv email password w =
     (Inl e, w\<lparr>sent := sent w @ [first_request ''/api/auth/login'' (login_options email password) w]\<rparr>)"
proof -
  have "\<exists>e. finish resp = Inl e"
    using assms(2) by (auto simp: finish_def ok_status_def split: option.splits)
  moreover have "fetchApi srv (listener srv) ''/api/auth/login'' (login_options email password) w =
      (finish resp, w\<lparr>sent := sent w @ [first_request ''/api/auth/login'' (login_options email password) w]\<rparr>)"
    using assms(1) by (rule fetchApi_answered) (simp add: post_options_def)
  ultimately show ?thesis by (auto simp: login_def)
qed

lemma refused_login_changes_nothing_witness:
  "\<exists>e. login (\<lambda>_ _. Inr unauthorized) ''a@b.c'' ''pw'' auth_demo =
     (Inl e, auth_demo\<lparr>sent := [first_request ''/api/auth/login'' (login_options ''a@b.c'' ''pw'') auth_demo]\<rparr>)"
  using refused_login_changes_nothing [of "\<lambda>_ _. Inr unauthorized" auth_demo "''a@b.c''" "''pw''" unauthorized]
  by (simp add: unauthorized_def ok_status_def)

lemma jar_ok_upd [simp]: "jar_ok (w\<lparr>sent := s\<rparr>) = jar_ok w" "jar_ok (w\<lparr>user := u\<rparr>) = jar_ok w"
  by (simp_all add: jar_ok_def)

lemma cookie_user [simp]: "cookie (w\<lparr>user := u\<rparr>) n = cookie w n"
  by (simp add: cookie_def)

lemma jar_ok_storeTokens: "jar_ok w \<Longrightarrow> jar_ok (storeTokens a r w)"
  by (auto simp: storeTokens_def Let_def assign_cookie_def jar_ok_def setItem_def distinct_put_cookie)

lemma cookie_setSuperAdminHint:
  "jar_ok w \<Longrightarrow> cookie (setSuperAdminHint b w) n =
     (if n = ADMIN_HINT then (if b then Some ''1'' else None) else cookie w n)"
  by (simp add: setSuperAdminHint_def secure_jar.get_put secure_jar.get_del)

text \<open>A successful login of a user who must change the password first stores both tokens and
  the user, sets the two hint cookies to what the user is, reports the pending change, and loads
  nothing else: no request is sent that the backend would refuse to such a user.\<close>

theorem login_must_change_password:
  assumes "windowDefined w" and "jar_ok w" and "d = JObj [(''user'', u), (''accessToken'', JStr a),
      (''refreshToken'', JStr r), (''mustChangePassword'', JBool True)]"
    and "get_prop (Some u) ''isSuperAdmin'' = Some s"
    and "srv (sent w) (first_request ''/api/auth/login'' (login_options email password) w) =
      Inr (data_response d)"
  shows "\<exists>v. login srv email password w = (Inr (Some (JBool True)), v) \<and>
     getStoredAccessToken v = Some a \<and> getStoredRefreshToken v = Some r \<and> user v = Some u \<and>
     cookie v AUTH_HINT = Some ''1'' \<and> cookie v ADMIN_HINT = (if truthy s then Some ''1'' else None) \<and>
     sent v = sent w @ [first_request ''/api/auth/login'' (login_options email password) w]"
proof -
  let ?w1 = "w\<lparr>sent := sent w @ [first_request ''/api/auth/login'' (login_options email password) w]\<rparr>"
  let ?v = "setSuperAdminHint (truthy s) ((storeTokens a r ?w1)\<lparr>user := Some u\<rparr>)"
  have "fetchApi srv (listener srv) ''/api/auth/login'' (login_options email password) w =
      (finish (data_response d), ?w1)"
    using assms(5) by (rule fetchApi_answered) simp
  moreover have "finish (data_response d) = Inr (JObj [(''data'', d), (''error'', JNull)])"
    by (simp add: finish_def ok_status_def)
  ultimately have "login srv email password w = (Inr (Some (JBool True)), ?v)"
    using assms(3,4) by (simp add: login_def adopt_session_def Let_def)
  moreover have "jar_ok ((storeTokens a r ?w1)\<lparr>user := Some u\<rparr>)" "jar_ok ?w1"
    using assms(2) by (simp_all add: jar_ok_storeTokens)
  ultimately show ?thesis using assms(1)
    by (intro exI [of _ ?v]) (simp add: cookie_setSuperAdminHint cookie_storeTokens hint_defs)
qed

lemma login_must_change_password_witness:
  "\<exists>v. login (\<lambda>_ _. Inr (data_response (JObj [(''user'', JObj [(''isSuperAdmin'', JBool True)]),
        (''accessToken'', JStr ''a1''), (''refreshToken'', JStr ''r1''),
        (''mustChangePassword'', JBool True)]))) ''a@b.c'' ''pw'' auth_demo =
       (Inr (Some (JBool True)), v) \<and> cookie v ADMIN_HINT = Some ''1''"
proof -
  have "jar_ok auth_demo"
    by (simp add: auth_demo_def http_world.defs auth_world.defs demo_world_def jar_ok_def)
  then show ?thesis
    using login_must_change_password [of auth_demo _ "JObj [(''isSuperAdmin'', JBool True)]" "''a1''" "''r1''"
        "Some (JBool True)" "\<lambda>_ _. Inr (data_response (JObj [(''user'', JObj [(''isSuperAdmin'', JBool True)]),
        (''accessToken'', JStr ''a1''), (''refreshToken'', JStr ''r1''),
        (''mustChangePassword'', JBool True)]))" "''a@b.c''" "''pw''"] by auto
qed

text \<open>A registration that did not end in a session (the account waits for its email to be
  verified, or the tokens could not be issued) is reported by its code and leaves no token, no
  user and no cookie behind.\<close>

theorem register_without_session:
  assumes "opt_prop (Some d) ''code'' = Some (JStr code)"
    and "code \<in> {''registration_complete_login_required'', ''email_verification_required''}"
    and "srv (sent w) (first_request ''/api/auth/register'' (post_options True (JObj [(''email'', JStr email),
       (''password'', JStr password), (''firstName'', JStr f), (''lastName'', JStr l)])) w) =
      Inr (data_response d)"
  shows "\<exists>r. register srv email password f l w = (Inr (Some code), w\<lparr>sent := sent w @ [r]\<rparr>)"
proof -
  let ?o = "post_options True (JObj [(''email'', JStr email), (''password'', JStr password),
    (''firstName'', JStr f), (''lastName'', JStr l)])"
  have "fetchApi srv (listener srv) ''/api/auth/register'' ?o w =
      (finish (data_response d), w\<lparr>sent := sent w @ [first_request ''/api/auth/register'' ?o w]\<rparr>)"
    using assms(3) by (rule fetchApi_answered) simp
  moreover have "finish (data_response d) = Inr (JObj [(''data'', d), (''error'', JNull)])"
    by (simp add: finish_def ok_status_def)
  moreover have "truthy (Some d)" using assms(1) by (cases d) auto
  ultimately show ?thesis using assms(1,2) by (auto simp: register_def)
qed

lemma register_without_session_witness:
  "\<exists>r. register (\<lambda>_ _. Inr (data_response (JObj [(''code'', JStr ''email_verification_required'')])))
     ''a@b.c'' ''pw'' ''A'' ''B'' auth_demo =
     (Inr (Some ''email_verification_required''), auth_demo\<lparr>sent := [r]\<rparr>)"
  using register_without_session [of "JObj [(''code'', JStr ''email_verification_required'')]"
      "''email_verification_required''"
      "\<lambda>_ _. Inr (data_response (JObj [(''code'', JStr ''email_verification_required'')]))" auth_demo
      "''a@b.c''" "''pw''" "''A''" "''B''"] by simp

lemma logout_headers_witness:
  "map_of (build_headers get_options (logout (\<lambda>_ _. Inl ''offline'') auth_demo)) ''Authorization'' = None"
  using logout_headers [of get_options "\<lambda>_ _. Inl ''offline''" auth_demo] by (simp add: get_options_def)

end
