(* ===== verification/Login.thy ===== *)
theory Login
  imports Routes
begin

text \<open>
  The logic of the login form (\<open>features/auth/ui/login-form.tsx\<close>) and of the page that
  receives a single sign-on (\<open>app/(auth)/auth/sso/callback/page.tsx\<close>): the throttle for failed
  attempts with its copy in \<open>sessionStorage\<close>, the submit handler, and the redirect targets taken
  from the query. Times are milliseconds; the clock is an argument. A number read with \<open>parseInt\<close> may
  be \<open>NaN\<close>, the \<^term>\<open>None\<close> of a \<^typ>\<open>int option\<close>.
\<close>

section \<open>The throttle\<close>

definition MAX_FAILED_ATTEMPTS :: int where "MAX_FAILED_ATTEMPTS = 5"
definition LOCKOUT_DURATION_SECONDS :: int where "LOCKOUT_DURATION_SECONDS = 60"
definition SESSION_STORAGE_KEY :: string where "SESSION_STORAGE_KEY = ''vmx_login_attempts''"
definition SESSION_STORAGE_LOCKOUT_KEY :: string where
  "SESSION_STORAGE_LOCKOUT_KEY = ''vmx_login_lockout_until''"

lemmas throttle_consts = MAX_FAILED_ATTEMPTS_def LOCKOUT_DURATION_SECONDS_def
  SESSION_STORAGE_KEY_def SESSION_STORAGE_LOCKOUT_KEY_def

type_synonym session_storage = "string \<Rightarrow> string option"

record stored_attempts =
  sa_count :: "int option"
  sa_lockout :: "int option option"   \<comment> \<open>outer \<^term>\<open>None\<close>: \<open>null\<close>\<close>

text \<open>\<open>raw ? parseInt(raw, 10) : \<dots>\<close> treats the empty string like a missing item.\<close>

definition getStoredAttempts :: "session_storage \<Rightarrow> stored_attempts" where
  "getStoredAttempts ss =
     \<lparr>sa_count = (case ss SESSION_STORAGE_KEY of
        None \<Rightarrow> Some 0 | Some raw \<Rightarrow> if raw = [] then Some 0 else parseInt10 raw),
      sa_lockout = (case ss SESSION_STORAGE_LOCKOUT_KEY of
        None \<Rightarrow> None | Some raw \<Rightarrow> if raw = [] then None else Some (parseInt10 raw))\<rparr>"

definition show_number :: "int option \<Rightarrow> string" where
  "show_number n = (case n of None \<Rightarrow> ''NaN'' | Some i \<Rightarrow> show_int i)"

definition storeAttempts :: "int option \<Rightarrow> int option option \<Rightarrow> session_storage \<Rightarrow> session_storage" where
  "storeAttempts count until ss =
     (let ss1 = ss(SESSION_STORAGE_KEY \<mapsto> show_number count) in
      case until of
        Some u \<Rightarrow> ss1(SESSION_STORAGE_LOCKOUT_KEY \<mapsto> show_number u)
      | None \<Rightarrow> ss1(SESSION_STORAGE_LOCKOUT_KEY := None))"

definition clearAttempts :: "session_storage \<Rightarrow> session_storage" where
  "clearAttempts ss = ss(SESSION_STORAGE_KEY := None, SESSION_STORAGE_LOCKOUT_KEY := None)"

record throttle =
  failedAttempts :: "int option"
  lockoutUntil :: "int option option"
  countdown :: int
  storage :: session_storage

definition mount_form :: "session_storage \<Rightarrow> throttle" where
  "mount_form ss = \<lparr>failedAttempts = sa_count (getStoredAttempts ss),
     lockoutUntil = sa_lockout (getStoredAttempts ss), countdown = 0, storage = ss\<rparr>"

definition isLockedOut :: "throttle \<Rightarrow> bool" where
  "isLockedOut st \<longleftrightarrow> lockoutUntil st \<noteq> None \<and> countdown st > 0"

definition ceil_div :: "int \<Rightarrow> int \<Rightarrow> int" where
  "ceil_div a b = - ((- a) div b)"

text \<open>The effect of \<open>lockoutUntil\<close>, run when it changes and then every second; \<open>!lockoutUntil\<close> is
  true for \<open>null\<close>, \<open>NaN\<close> and zero.\<close>

definition lockout_tick :: "int \<Rightarrow> throttle \<Rightarrow> throttle" where
  "lockout_tick now st =
     (case lockoutUntil st of
        Some (Some u) \<Rightarrow>
          (if u = 0 then st
           else
             let remaining = max 0 (ceil_div (u - now) 1000);
                 st1 = st\<lparr>countdown := remaining\<rparr>
             in if remaining \<le> 0
                then st1\<lparr>lockoutUntil := None, failedAttempts := Some 0,
                         storage := storeAttempts (Some 0) None (storage st1)\<rparr>
                else st1)
      | _ \<Rightarrow> st)"

definition recordFailure :: "int \<Rightarrow> throttle \<Rightarrow> throttle" where
  "recordFailure now st =
     (let newCount = map_option (\<lambda>n. n + 1) (failedAttempts st);
          st1 = st\<lparr>failedAttempts := newCount\<rparr>
      in if (case newCount of None \<Rightarrow> False | Some n \<Rightarrow> MAX_FAILED_ATTEMPTS \<le> n) then
           (let until = Some (Some (now + LOCKOUT_DURATION_SECONDS * 1000))
            in st1\<lparr>lockoutUntil := until, storage := storeAttempts newCount until (storage st1)\<rparr>)
         else st1\<lparr>storage := storeAttempts newCount None (storage st1)\<rparr>)"

section \<open>Submitting\<close>

datatype submission =
    Blocked
  | FieldErrors
  | NeedVerification
  | ServerError string
  | SignedIn bool      \<comment> \<open>with a pending password change\<close>

text \<open>\<open>valid\<close>: the schema accepts the two fields; \<open>res\<close>: the outcome of \<open>login\<close>.\<close>

definition handleSubmit :: "int \<Rightarrow> bool \<Rightarrow> thrown + json option \<Rightarrow> throttle \<Rightarrow> submission \<times> throttle" where
  "handleSubmit now valid res st =
     (if isLockedOut st then (Blocked, st)
      else if \<not> valid then (FieldErrors, st)
      else case res of
          Inr mustChange \<Rightarrow>
            (SignedIn (truthy mustChange),
             st\<lparr>failedAttempts := Some 0, lockoutUntil := None, storage := clearAttempts (storage st)\<rparr>)
        | Inl err \<Rightarrow>
            (let rawMessage = (case err of ErrorObj m \<Rightarrow> m | _ \<Rightarrow> [])
             in if occurs ''email_verification_required'' rawMessage then (NeedVerification, st)
                else (ServerError (sanitizeErrorMessage err None), recordFailure now st)))"

section \<open>Redirect targets\<close>

definition safe_redirect :: "string option \<Rightarrow> string" where
  "safe_redirect raw =
     (let r = (case raw of Some x \<Rightarrow> x | None \<Rightarrow> ROUTES DASHBOARD)
      in if startsWith r ''/'' \<and> \<not> startsWith r ''//'' then r else ROUTES DASHBOARD)"

datatype navigation = Replace string | Assign string

text \<open>\<open>a || b\<close> on strings.\<close>

definition or_default :: "string option \<Rightarrow> string \<Rightarrow> string" where
  "or_default v d = (case v of None \<Rightarrow> d | Some x \<Rightarrow> if x = [] then d else x)"

text \<open>Without tokens: the end of a link flow, or an error forwarded to the page it belongs to.\<close>

definition sso_error :: "params \<Rightarrow> string \<Rightarrow> string \<Rightarrow> 'a http_world_scheme \<Rightarrow> navigation \<times> 'a http_world_scheme" where
  "sso_error searchParams redirect safePath w =
     (case usp_get searchParams ''error'' of
        None \<Rightarrow> (Replace (safePath @ ''?linked=true''), w)
      | Some e \<Rightarrow>
          (if e = [] then (Replace (safePath @ ''?linked=true''), w)
           else
             let errorParams = set_truthy ''message'' (usp_get searchParams ''message'') [(''error'', e)];
                 isLinkFlow = (redirect \<noteq> ROUTES DASHBOARD \<and> redirect \<noteq> ROUTES LOGIN \<and> redirect \<noteq> ''/'');
                 errorTarget = (if isLinkFlow then redirect else ROUTES LOGIN)
             in (Replace (errorTarget @ ''?'' @ usp_toString errorParams), w)))"

definition sso_callback :: "params \<Rightarrow> 'a http_world_scheme \<Rightarrow> navigation \<times> 'a http_world_scheme" where
  "sso_callback searchParams w =
     (let redirect = or_default (usp_get searchParams ''redirect'') (ROUTES DASHBOARD);
          safePath = (if startsWith redirect ''/'' \<and> \<not> startsWith redirect ''//'' then redirect
                      else ROUTES DASHBOARD)
      in case (usp_get searchParams ''access_token'', usp_get searchParams ''refresh_token'') of
           (Some a, Some r) \<Rightarrow>
             (if a \<noteq> [] \<and> r \<noteq> [] then (Assign safePath, storeTokens a r w)
              else sso_error searchParams redirect safePath w)
         | _ \<Rightarrow> sso_error searchParams redirect safePath w)"

text \<open>The message the login form shows for SSO parameters in its query; the outer \<^term>\<open>None\<close>: it throws.\<close>

definition SSO_ERROR_MESSAGES :: "(string \<times> string) list" where
  "SSO_ERROR_MESSAGES =
    [(''domain_not_allowed'', ''Your email domain is not allowed for this SSO provider.''),
     (''account_not_found'', ''No account found. Contact your administrator.''),
     (''identity_not_linked'', ''An account with this email exists. Link your SSO identity from account settings first.''),
     (''account_deactivated'', ''Your account has been deactivated. Contact your administrator.''),
     (''internal_error'', ''SSO authentication failed. Please try again.'')]"

definition sso_error_text :: "string \<Rightarrow> string" where
  "sso_error_text e = (case map_of SSO_ERROR_MESSAGES e of Some m \<Rightarrow> m | None \<Rightarrow> ''SSO authentication failed.'')"

definition ssoErrorMessage :: "params \<Rightarrow> string option option" where
  "ssoErrorMessage searchParams =
     (case usp_get searchParams ''error'' of
        None \<Rightarrow> Some None
      | Some e \<Rightarrow>
          (if e = [] then Some None
           else case usp_get searchParams ''message'' of
               Some m \<Rightarrow> (if m \<noteq> [] then map_option Some (decodeURIComponent m)
                         else Some (Some (sso_error_text e)))
             | None \<Rightarrow> Some (Some (sso_error_text e))))"

section \<open>Lockout\<close>

lemma ceil_div_le: "ceil_div a 1000 \<le> 0 \<longleftrightarrow> a \<le> 0"
  using pos_imp_zdiv_nonneg_iff [of 1000 "- a"] by (simp add: ceil_div_def)

lemma tick_pending:
  assumes "lockoutUntil st = Some (Some u)" and "now < u" and "u \<noteq> 0"
  shows "isLockedOut (lockout_tick now st)" "lockoutUntil (lockout_tick now st) = Some (Some u)"
    "failedAttempts (lockout_tick now st) = failedAttempts st" "storage (lockout_tick now st) = storage st"
proof -
  have "\<not> ceil_div (u - now) 1000 \<le> 0" using assms(2) by (simp add: ceil_div_le)
  then show "isLockedOut (lockout_tick now st)" "lockoutUntil (lockout_tick now st) = Some (Some u)"
    "failedAttempts (lockout_tick now st) = failedAttempts st" "storage (lockout_tick now st) = storage st"
    using assms by (simp_all add: lockout_tick_def isLockedOut_def Let_def)
qed

lemma tick_over:
  assumes "lockoutUntil st = Some (Some u)" and "u \<le> now" and "u \<noteq> 0"
  shows "\<not> isLockedOut (lockout_tick now st)" "failedAttempts (lockout_tick now st) = Some 0"
    "lockoutUntil (lockout_tick now st) = None"
proof -
  have "ceil_div (u - now) 1000 \<le> 0" using assms(2) by (simp add: ceil_div_le)
  then show "\<not> isLockedOut (lockout_tick now st)" "failedAttempts (lockout_tick now st) = Some 0"
    "lockoutUntil (lockout_tick now st) = None"
    using assms by (simp_all add: lockout_tick_def isLockedOut_def Let_def)
qed

text \<open>A failed submission and the effect that follows it.\<close>

definition fail_at :: "int \<Rightarrow> throttle \<Rightarrow> throttle" where
  "fail_at now st = lockout_tick now (recordFailure now st)"

text \<open>C18: five failed attempts lock the form for a minute: whatever the times of the failures, after
  the fifth one a submission within the next sixty seconds is blocked before \<open>login\<close> is called, and
  once the minute is over the effect clears the count and lets the form submit again.\<close>

theorem five_failures_lock:
  assumes "failedAttempts st = Some 0" and "lockoutUntil st = None" and "0 < t5"
    and "locked = fail_at t5 (fail_at t4 (fail_at t3 (fail_at t2 (fail_at t1 st))))"
  shows "(now < t5 + 60000 \<longrightarrow>
       handleSubmit now valid res (lockout_tick now locked) = (Blocked, lockout_tick now locked)) \<and>
     (t5 + 60000 \<le> now \<longrightarrow> \<not> isLockedOut (lockout_tick now locked) \<and>
       failedAttempts (lockout_tick now locked) = Some 0)"
proof -
  have step: "failedAttempts (fail_at t s) = Some (n + 1) \<and> lockoutUntil (fail_at t s) = None"
    if "failedAttempts s = Some n" "lockoutUntil s = None" "n < 4" for t s and n :: int
    using that by (simp add: fail_at_def recordFailure_def lockout_tick_def Let_def throttle_consts)
  define s1 where "s1 = fail_at t1 st"
  define s2 where "s2 = fail_at t2 s1"
  define s3 where "s3 = fail_at t3 s2"
  define s4 where "s4 = fail_at t4 s3"
  have "failedAttempts s1 = Some 1 \<and> lockoutUntil s1 = None"
    unfolding s1_def using step [of st 0 t1] assms(1,2) by simp
  then have "failedAttempts s2 = Some 2 \<and> lockoutUntil s2 = None"
    unfolding s2_def using step [of s1 1 t2] by simp
  then have "failedAttempts s3 = Some 3 \<and> lockoutUntil s3 = None"
    unfolding s3_def using step [of s2 2 t3] by simp
  then have s4: "failedAttempts s4 = Some 4 \<and> lockoutUntil s4 = None"
    unfolding s4_def using step [of s3 3 t4] by simp
  have locked: "locked = lockout_tick t5 (recordFailure t5 s4)"
    using assms(4) by (simp add: s1_def s2_def s3_def s4_def fail_at_def)
  have rf: "lockoutUntil (recordFailure t5 s4) = Some (Some (t5 + 60000))"
    using s4 by (simp add: recordFailure_def throttle_consts Let_def)
  have u: "lockoutUntil locked = Some (Some (t5 + 60000))"
    unfolding locked using rf by (rule tick_pending(2)) (use assms(3) in auto)
  show ?thesis
  proof (intro conjI impI)
    assume "now < t5 + 60000"
    then have "isLockedOut (lockout_tick now locked)"
      using u assms(3) by (intro tick_pending(1)) auto
    then show "handleSubmit now valid res (lockout_tick now locked) = (Blocked, lockout_tick now locked)"
      by (simp add: handleSubmit_def)
  next
    assume "t5 + 60000 \<le> now"
    then show "\<not> isLockedOut (lockout_tick now locked)" "failedAttempts (lockout_tick now locked) = Some 0"
      using tick_over [OF u] assms(3) by simp_all
  qed
qed

definition fresh_form :: throttle where
  "fresh_form = mount_form (\<lambda>_. None)"

lemma five_failures_lock_witness:
  "handleSubmit 50000 True (Inr None) (lockout_tick 50000
     (fail_at 5 (fail_at 4 (fail_at 3 (fail_at 2 (fail_at 1 fresh_form)))))) =
   (Blocked, lockout_tick 50000 (fail_at 5 (fail_at 4 (fail_at 3 (fail_at 2 (fail_at 1 fresh_form))))))"
  using five_failures_lock [of fresh_form 5 _ 4 3 2 1 50000 True "Inr None"]
  by (simp add: fresh_form_def mount_form_def getStoredAttempts_def)

section \<open>Reloading the page\<close>

inductive form_reachable :: "throttle \<Rightarrow> bool" where
  opened: "form_reachable (mount_form (\<lambda>_. None))"
| ticked: "form_reachable st \<Longrightarrow> 0 < now \<Longrightarrow> form_reachable (lockout_tick now st)"
| submitted: "form_reachable st \<Longrightarrow> 0 < now \<Longrightarrow> form_reachable (snd (handleSubmit now valid res st))"
| reloaded: "form_reachable st \<Longrightarrow> form_reachable (mount_form (storage st))"

definition in_step :: "throttle \<Rightarrow> bool" where
  "in_step st \<longleftrightarrow> (\<exists>n \<ge> 0. failedAttempts st = Some n \<and>
       (lockoutUntil st = None \<or> 5 \<le> n \<and> (\<exists>u > 0. lockoutUntil st = Some (Some u)))) \<and>
     getStoredAttempts (storage st) = \<lparr>sa_count = failedAttempts st, sa_lockout = lockoutUntil st\<rparr>"

lemma show_int_nonneg: "0 \<le> n \<Longrightarrow> show_int n = show_nat (nat n)"
  by (simp add: show_int_def)

lemma stored_back:
  assumes "0 \<le> n" and "until = None \<or> (\<exists>u > 0. until = Some (Some u))"
  shows "getStoredAttempts (storeAttempts (Some n) until ss) = \<lparr>sa_count = Some n, sa_lockout = until\<rparr>"
  using assms
  by (auto simp: getStoredAttempts_def storeAttempts_def show_number_def show_int_nonneg
      parseInt10_show_nat throttle_consts)

lemma cleared_back: "getStoredAttempts (clearAttempts ss) = \<lparr>sa_count = Some 0, sa_lockout = None\<rparr>"
  by (simp add: getStoredAttempts_def clearAttempts_def throttle_consts)

lemma in_step_tick: "in_step st \<Longrightarrow> in_step (lockout_tick now st)"
proof (cases "lockoutUntil st")
  case (Some v)
  assume st: "in_step st"
  with Some obtain u n where u: "lockoutUntil st = Some (Some u)" "0 < u" "failedAttempts st = Some n" "5 \<le> n"
    "getStoredAttempts (storage st) = \<lparr>sa_count = Some n, sa_lockout = Some (Some u)\<rparr>"
    by (auto simp: in_step_def)
  show ?thesis
  proof (cases "now < u")
    case True
    with u tick_pending [OF u(1) True] show ?thesis by (simp add: in_step_def)
  next
    case False
    then have "ceil_div (u - now) 1000 \<le> 0" by (simp add: ceil_div_le)
    with u show ?thesis by (simp add: in_step_def lockout_tick_def Let_def stored_back)
  qed
qed (simp add: lockout_tick_def)

lemma in_step_failure:
  assumes "in_step st" and "0 < now"
  shows "in_step (recordFailure now st)"
proof -
  obtain n where n: "0 \<le> n" "failedAttempts st = Some n" "lockoutUntil st = None \<or> 5 \<le> n"
    using assms(1) by (auto simp: in_step_def)
  show ?thesis
  proof (cases "5 \<le> n + 1")
    case True
    with n assms(2) show ?thesis
      by (simp add: in_step_def recordFailure_def Let_def throttle_consts stored_back)
  next
    case False
    with n have "lockoutUntil st = None" by auto
    with n False show ?thesis
      by (simp add: in_step_def recordFailure_def Let_def throttle_consts stored_back)
  qed
qed

lemma in_step_submit:
  assumes "in_step st" and "0 < now"
  shows "in_step (snd (handleSubmit now valid res st))"
proof (cases res)
  case (Inl e)
  with assms in_step_failure show ?thesis by (simp add: handleSubmit_def Let_def)
next
  case (Inr c)
  with assms(1) show ?thesis by (simp add: handleSubmit_def) (simp add: in_step_def cleared_back)
qed

lemma form_in_step: "form_reachable st \<Longrightarrow> in_step st"
proof (induction rule: form_reachable.induct)
  case opened
  then show ?case by (simp add: in_step_def mount_form_def getStoredAttempts_def)
next
  case (ticked st now)
  then show ?case by (simp add: in_step_tick)
next
  case (submitted st now valid res)
  then show ?case by (simp add: in_step_submit)
next
  case (reloaded st)
  then show ?case by (simp add: in_step_def mount_form_def)
qed

text \<open>Reloading the page does not reset the throttle: after any history of submissions, clock
  ticks and reloads, the form mounts with the same number of failures and the same end of
  the lockout as it had, and its first tick locks it again until that time.\<close>

theorem reload_keeps_throttle:
  assumes "form_reachable st"
  shows "failedAttempts (mount_form (storage st)) = failedAttempts st \<and>
     lockoutUntil (mount_form (storage st)) = lockoutUntil st \<and>
     (\<forall>u now. lockoutUntil st = Some (Some u) \<and> now < u \<longrightarrow>
        isLockedOut (lockout_tick now (mount_form (storage st))))"
proof -
  have st: "in_step st" using assms by (rule form_in_step)
  then have m: "failedAttempts (mount_form (storage st)) = failedAttempts st"
    "lockoutUntil (mount_form (storage st)) = lockoutUntil st"
    by (auto simp: in_step_def mount_form_def)
  have "isLockedOut (lockout_tick now (mount_form (storage st)))"
    if "lockoutUntil st = Some (Some u)" "now < u" for u now
  proof (rule tick_pending(1))
    show "lockoutUntil (mount_form (storage st)) = Some (Some u)" using m that by simp
    show "now < u" by fact
    show "u \<noteq> 0" using st that by (auto simp: in_step_def)
  qed
  with m show ?thesis by blast
qed

lemma reload_keeps_throttle_witness:
  "failedAttempts (mount_form (storage (snd (handleSubmit 7 True (Inl (ErrorObj ''no'')) (mount_form (\<lambda>_. None)))))) =
   failedAttempts (snd (handleSubmit 7 True (Inl (ErrorObj ''no'')) (mount_form (\<lambda>_. None))))"
  by (rule reload_keeps_throttle [THEN conjunct1]) (rule form_reachable.intros, rule form_reachable.intros, simp)

section \<open>The verification prompt\<close>

lemma verification_raw:
  "first_match ERROR_PATTERNS ''email_verification_required'' = None"
  "isSafeMessage ''email_verification_required''"
proof -
  show "first_match ERROR_PATTERNS ''email_verification_required'' = None"
    unfolding ERROR_PATTERNS_def first_match.simps fast_tests by code_simp
  show "isSafeMessage ''email_verification_required''" by code_simp
qed

text \<open>The form's prompt to verify the email address can never appear. The backend refuses such a
  login with the error \<open>email_verification_required\<close>; \<open>fetchApi\<close> capitalizes it on the way,
  the form looks for the text in lower case, shows the raw code as an error instead and
  counts the attempt as a failed one.\<close>

theorem verification_prompt_unreachable:
  assumes "get_prop (Some body) ''error'' = Some (Some (JStr ''email_verification_required''))"
    and "payload resp = Some body" and "\<not> ok_status resp" and "status resp \<noteq> 429"
    and "\<not> isLockedOut st" and "finish resp = Inl err"
  shows "handleSubmit now True (Inl err) st =
     (ServerError ''Email_verification_required'', recordFailure now st)"
proof -
  have cap: "capitalizeFirst ''email_verification_required'' = ''Email_verification_required''" by code_simp
  have s1: "sanitizeErrorMessage (StringVal ''email_verification_required'') None = ''Email_verification_required''"
    using verification_raw by (simp add: sanitizeErrorMessage_def cap)
  have s2: "sanitizeErrorMessage (ErrorObj ''Email_verification_required'') None = ''Email_verification_required''"
    using sanitize_capital [OF verification_raw, of None] by (simp add: cap)
  have "status resp \<noteq> 204" using assms(3) by (auto simp: ok_status_def)
  then have "err = ErrorObj ''Email_verification_required''"
    using assms(1-4,6) s1 by (simp add: finish_def raw_error_def)
  moreover have "\<not> occurs ''email_verification_required'' ''Email_verification_required''" by code_simp
  ultimately show ?thesis using assms(5) s2 by (simp add: handleSubmit_def)
qed

definition forbidden_response :: response where
  "forbidden_response = \<lparr>status = 403, resp_headers = (\<lambda>_. None),
     payload = Some (JObj [(''error'', JStr ''email_verification_required'')])\<rparr>"

lemma verification_prompt_unreachable_witness:
  "\<exists>err. finish forbidden_response = Inl err \<and>
     fst (handleSubmit 1 True (Inl err) fresh_form) = ServerError ''Email_verification_required''"
proof -
  obtain err where e: "finish forbidden_response = Inl err"
    by (auto simp: finish_def forbidden_response_def ok_status_def)
  have "handleSubmit 1 True (Inl err) fresh_form =
      (ServerError ''Email_verification_required'', recordFailure 1 fresh_form)"
    using e by (intro verification_prompt_unreachable)
      (simp_all add: forbidden_response_def ok_status_def fresh_form_def mount_form_def isLockedOut_def)
  with e show ?thesis by auto
qed

section \<open>Redirects off the site\<close>

text \<open>
  Whether a browser resolves a reference that begins with a slash to another host (URL
  standard, ``relative slash state''): tabs and line breaks are removed, and for an http page
  a backslash counts as a slash.
\<close>

definition leaves_site :: "string \<Rightarrow> bool" where
  "leaves_site url \<longleftrightarrow>
     (case filter (\<lambda>c. code_unit c \<notin> {9, 10, 13}) url of
        a # b # _ \<Rightarrow> a \<in> {CHR ''/'', CHR 0x5C} \<and> b \<in> {CHR ''/'', CHR 0x5C}
      | _ \<Rightarrow> False)"

definition plain_path :: "string \<Rightarrow> bool" where
  "plain_path url \<longleftrightarrow> list_all (\<lambda>c. code_unit c \<notin> {9, 10, 13, 92}) url"

lemma plain_path_filter: "plain_path url \<Longrightarrow> filter (\<lambda>c. code_unit c \<notin> {9, 10, 13}) url = url"
  by (auto simp: plain_path_def list_all_iff filter_id_conv)

text \<open>The check of the login form's redirect target stops absolute and protocol-relative
  addresses: what it lets through begins with one slash and, if it has neither backslash
  nor tab nor line break, stays on the site.\<close>

theorem safe_redirect_stays:
  "startsWith (safe_redirect raw) ''/'' \<and> \<not> startsWith (safe_redirect raw) ''//'' \<and>
   (plain_path (safe_redirect raw) \<longrightarrow> \<not> leaves_site (safe_redirect raw))"
proof -
  have p: "startsWith (safe_redirect raw) ''/''" "\<not> startsWith (safe_redirect raw) ''//''"
    by (simp_all add: safe_redirect_def Let_def)
  have "\<not> leaves_site (safe_redirect raw)" if pl: "plain_path (safe_redirect raw)"
  proof
    assume "leaves_site (safe_redirect raw)"
    then obtain a b t where s: "safe_redirect raw = a # b # t" "b \<in> {CHR ''/'', CHR 0x5C}"
      unfolding leaves_site_def plain_path_filter [OF pl] by (auto split: list.splits)
    with p have "b = CHR 0x5C" by auto
    with s(1) pl show False by (simp add: plain_path_def)
  qed
  with p show ?thesis by blast
qed

lemma safe_redirect_stays_witness: "\<not> leaves_site (safe_redirect (Some ''/alerts''))"
proof -
  have "plain_path (safe_redirect (Some ''/alerts''))" by code_simp
  then show ?thesis using safe_redirect_stays [of "Some ''/alerts''"] by blast
qed

definition evil_path :: string where
  "evil_path = CHR ''/'' # CHR 0x5C # ''evil.example''"

text \<open>The check is too weak for browsers: a target that begins with a slash and a backslash passes
  it unchanged and is resolved to another host, after a login as after a single sign-on. A
  single sign-on that fails forwards to any target at all, checked or not.\<close>

theorem redirect_check_bypassed:
  "safe_redirect (Some evil_path) = evil_path \<and> leaves_site evil_path \<and>
   (a \<noteq> [] \<and> r \<noteq> [] \<longrightarrow>
      fst (sso_callback [(''redirect'', evil_path), (''access_token'', a), (''refresh_token'', r)] w) =
        Assign evil_path) \<and>
   (\<exists>url. fst (sso_callback [(''redirect'', ''//evil.example''), (''error'', ''denied'')] w) = Replace url \<and>
      leaves_site url)"
proof -
  have "leaves_site evil_path" "safe_redirect (Some evil_path) = evil_path"
    by (simp_all add: evil_path_def leaves_site_def safe_redirect_def)
  moreover have "fst (sso_callback [(''redirect'', evil_path), (''access_token'', a), (''refresh_token'', r)] w) =
        Assign evil_path" if "a \<noteq> []" "r \<noteq> []"
    using that by (simp add: sso_callback_def or_default_def evil_path_def)
  moreover have "fst (sso_callback [(''redirect'', ''//evil.example''), (''error'', ''denied'')] w) =
      Replace (''//evil.example?'' @ usp_toString [(''error'', ''denied'')])"
    by (simp add: sso_callback_def sso_error_def or_default_def set_truthy_def)
  moreover have "leaves_site (''//evil.example?'' @ q)" for q
    by (simp add: leaves_site_def)
  ultimately show ?thesis by blast
qed

lemma redirect_check_bypassed_witness:
  "fst (sso_callback [(''redirect'', evil_path), (''access_token'', ''a''), (''refresh_token'', ''r'')] http_page) =
     Assign evil_path"
  using redirect_check_bypassed [of "''a''" "''r''" http_page] by simp

text \<open>The login page decodes the message of a failed sign-on twice. The query parser has decoded it
  already; a message with a percent sign makes the second decoding throw while the page
  renders, although the message arrives intact.\<close>

theorem sso_message_decoded_twice:
  "(m = [] \<or> ssoErrorMessage [(''error'', ''internal_error''), (''message'', encodeURIComponent m)] = Some (Some m)) \<and>
   ssoErrorMessage [(''error'', ''internal_error''), (''message'', ''quota 100% used'')] = None"
proof
  show "ssoErrorMessage [(''error'', ''internal_error''), (''message'', ''quota 100% used'')] = None"
    by (simp add: ssoErrorMessage_def decodeURIComponent_def hex_value_def)
  have "m = []" if "encodeURIComponent m = []"
  proof -
    have "decodeURIComponent [] = Some m" using decode_encodeURIComponent [of m] that by simp
    then show ?thesis by (simp add: decodeURIComponent_def)
  qed
  then show "m = [] \<or>
      ssoErrorMessage [(''error'', ''internal_error''), (''message'', encodeURIComponent m)] = Some (Some m)"
    by (auto simp: ssoErrorMessage_def)
qed

end
