(* ===== verification/Query_Cache.thy ===== *)
theory Query_Cache
  imports Api_Core Sanitizer
begin

text \<open>
  What the feature hooks use of the query library. The library is third-party code: its cache is
  an argument of the definitions, a record of operations, and the locale \<open>query_client\<close> states
  the documented behaviour they rely on. A hook's other calls into libraries are effects it
  emits, in order. The list-backed cache at the end meets the laws, so they can hold.
\<close>

section \<open>Query keys and effects\<close>

datatype key_part = KStr string | KNum int | KUndef | KObj "(string \<times> string) list"

type_synonym query_key = "key_part list"

datatype effect =
    Cancel query_key
  | Invalidate query_key
  | SetResponse query_key json
  | ToastSuccess string
  | ToastError string
  | Callback string

text \<open>A response body as the HTTP client types it.\<close>

record 'a api_response =
  res_data :: "'a option"
  res_error :: "string option"
  res_meta :: "(int \<times> int \<times> int) option"

section \<open>The cache\<close>

text \<open>
  \<open>getQueryData\<close>, \<open>getQueriesData\<close>, and \<open>setQueryData\<close> and \<open>setQueriesData\<close> with an updater; an
  updater that returns \<open>undefined\<close> (\<^term>\<open>None\<close>) changes nothing.
\<close>

record ('c, 'v) client_ops =
  getQueryData :: "query_key \<Rightarrow> 'c \<Rightarrow> 'v option"
  getQueriesData :: "query_key \<Rightarrow> 'c \<Rightarrow> (query_key \<times> 'v option) list"
  setQueryData :: "query_key \<Rightarrow> ('v option \<Rightarrow> 'v option) \<Rightarrow> 'c \<Rightarrow> 'c"
  setQueriesData :: "query_key \<Rightarrow> ('v option \<Rightarrow> 'v option) \<Rightarrow> 'c \<Rightarrow> 'c"

definition updated :: "('v option \<Rightarrow> 'v option) \<Rightarrow> 'v option \<Rightarrow> 'v option" where
  "updated f old = (case f old of None \<Rightarrow> old | Some v \<Rightarrow> Some v)"

lemma updated_simps [simp]: "updated (\<lambda>_. Some v) old = Some v" "updated (\<lambda>_. None) old = old"
  "updated (\<lambda>old. old) old = old"
  by (simp_all add: updated_def split: option.splits)

text \<open>Putting a snapshot back: \<open>for (const [queryKey, data] of previous) setQueryData(queryKey, data)\<close>.\<close>

definition restore ::
  "('c, 'v, 'z) client_ops_scheme \<Rightarrow> (query_key \<times> 'v option) list \<Rightarrow> 'c \<Rightarrow> 'c" where
  "restore qc snapshot c = fold (\<lambda>(k, d). setQueryData qc k (\<lambda>_. d)) snapshot c"

locale query_client =
  fixes qc :: "('c, 'v) client_ops"
    and cached :: "'c \<Rightarrow> query_key \<Rightarrow> bool"
    and matches :: "query_key \<Rightarrow> query_key \<Rightarrow> bool"
  assumes get_set: "getQueryData qc j (setQueryData qc k f c) =
      (if j = k then updated f (getQueryData qc k c) else getQueryData qc j c)"
    and get_set_all: "getQueryData qc j (setQueriesData qc fl f c) =
      (if cached c j \<and> matches fl j then updated f (getQueryData qc j c) else getQueryData qc j c)"
    and queries: "(k, d) \<in> set (getQueriesData qc fl c) \<longleftrightarrow>
      cached c k \<and> matches fl k \<and> d = getQueryData qc k c"
    and queries_distinct: "distinct (map fst (getQueriesData qc fl c))"
    and data_cached: "getQueryData qc k c = Some v \<Longrightarrow> cached c k"
    and matches_prefix: "matches fl (fl @ r)"
    and matches_shorter: "matches (fl @ r) k \<Longrightarrow> matches fl k"
    and matches_only: "matches fl k \<Longrightarrow> i < length fl \<Longrightarrow> i < length k \<Longrightarrow> \<forall>ps. fl ! i \<noteq> KObj ps \<Longrightarrow>
      k ! i = fl ! i"
begin

lemma restore_get:
  "distinct (map fst snapshot) \<Longrightarrow> getQueryData qc j (restore qc snapshot c) =
     (case map_of snapshot j of Some (Some v) \<Rightarrow> Some v | _ \<Rightarrow> getQueryData qc j c)"
proof (induction snapshot arbitrary: c)
  case Nil
  then show ?case by (simp add: restore_def)
next
  case (Cons kd snapshot)
  obtain k d where kd: "kd = (k, d)" by fastforce
  have "map_of snapshot k = None" using Cons.prems kd by (simp add: map_of_eq_None_iff)
  then show ?case
    using Cons kd by (auto simp: restore_def get_set updated_def split: option.splits)
qed

lemma snapshot_lookup:
  "map_of (getQueriesData qc fl c) j = (if cached c j \<and> matches fl j then Some (getQueryData qc j c) else None)"
proof (cases "cached c j \<and> matches fl j")
  case True
  then have "(j, getQueryData qc j c) \<in> set (getQueriesData qc fl c)" using queries by simp
  with True show ?thesis by (simp add: map_of_is_SomeI queries_distinct)
next
  case False
  then have "j \<notin> fst ` set (getQueriesData qc fl c)" using queries by fastforce
  then show ?thesis using False by (auto simp: map_of_eq_None_iff)
qed

text \<open>Putting a snapshot back gives every query it holds data of that data again.\<close>

lemma restore_queries:
  "getQueryData qc j (restore qc (getQueriesData qc fl c) c') =
     (if matches fl j \<and> getQueryData qc j c \<noteq> None then getQueryData qc j c else getQueryData qc j c')"
  using data_cached [of j c]
  by (cases "getQueryData qc j c") (auto simp: restore_get queries_distinct snapshot_lookup)

lemma set_all_exact: "getQueryData qc (fl @ r) (setQueriesData qc fl f c) =
    (if cached c (fl @ r) then updated f (getQueryData qc (fl @ r) c) else None)"
  using data_cached [of "fl @ r" c]
  by (cases "getQueryData qc (fl @ r) c") (auto simp: get_set_all matches_prefix)

text \<open>A literal \<open>undefined\<close> at the end of a filter is not a wildcard.\<close>

lemma undefined_no_wildcard:
  assumes "p \<noteq> KUndef"
  shows "\<not> matches (fl @ [KUndef]) (fl @ p # r)"
proof
  assume "matches (fl @ [KUndef]) (fl @ p # r)"
  then have "(fl @ p # r) ! length fl = (fl @ [KUndef]) ! length fl"
    by (rule matches_only) simp_all
  with assms show False by (simp add: nth_append)
qed

end

section \<open>A cache that meets the laws\<close>

fun part_match :: "key_part \<Rightarrow> key_part \<Rightarrow> bool" where
  "part_match (KObj fs) (KObj ps) = list_all (\<lambda>(k, v). map_of ps k = Some v) fs"
| "part_match f p = (f = p)"

fun partial_match :: "query_key \<Rightarrow> query_key \<Rightarrow> bool" where
  "partial_match [] k = True"
| "partial_match (f # fs) [] = (f = KUndef \<and> partial_match fs [])"
| "partial_match (f # fs) (p # ps) = ((f = p \<or> part_match f p) \<and> partial_match fs ps)"

type_synonym 'v list_cache = "(query_key \<times> 'v) list"

definition lc_set :: "query_key \<Rightarrow> ('v option \<Rightarrow> 'v option) \<Rightarrow> 'v list_cache \<Rightarrow> 'v list_cache" where
  "lc_set k f c = (case f (map_of c k) of None \<Rightarrow> c | Some v \<Rightarrow> AList.update k v c)"

definition list_client :: "('v list_cache, 'v) client_ops" where
  "list_client =
     \<lparr>getQueryData = (\<lambda>k c. map_of c k),
      getQueriesData = (\<lambda>fl c. map (\<lambda>k. (k, map_of c k)) (filter (partial_match fl) (remdups (map fst c)))),
      setQueryData = lc_set,
      setQueriesData = (\<lambda>fl f c. fold (\<lambda>k. lc_set k f) (filter (partial_match fl) (remdups (map fst c))) c)\<rparr>"

lemma lc_set_get: "map_of (lc_set k f c) j = (if j = k then updated f (map_of c k) else map_of c j)"
  by (auto simp: lc_set_def updated_def update_conv' split: option.splits)

lemma lc_set_all_get:
  "distinct ks \<Longrightarrow> map_of (fold (\<lambda>k. lc_set k f) ks c) j =
     (if j \<in> set ks then updated f (map_of c j) else map_of c j)"
  by (induction ks arbitrary: c) (auto simp: lc_set_get)

lemma partial_match_prefix: "partial_match fl (fl @ r)"
  by (induction fl) auto

lemma partial_match_shorter: "partial_match (fl @ r) k \<Longrightarrow> partial_match fl k"
  by (induction fl k rule: partial_match.induct) auto

lemma part_match_eq: "part_match f p \<Longrightarrow> \<forall>fs. f \<noteq> KObj fs \<Longrightarrow> p = f"
  by (cases "(f, p)" rule: part_match.cases) auto

lemma partial_match_nth:
  "partial_match fl k \<Longrightarrow> i < length fl \<Longrightarrow> i < length k \<Longrightarrow> \<forall>ps. fl ! i \<noteq> KObj ps \<Longrightarrow> k ! i = fl ! i"
proof (induction fl k arbitrary: i rule: partial_match.induct)
  case (3 f fs p ps)
  then show ?case by (cases i) (auto dest: part_match_eq)
qed auto

interpretation list_cache: query_client list_client "\<lambda>c k. k \<in> fst ` set c" partial_match
proof
  fix k d fl and c :: "'v list_cache"
  show "(k, d) \<in> set (getQueriesData list_client fl c) \<longleftrightarrow>
      k \<in> fst ` set c \<and> partial_match fl k \<and> d = getQueryData list_client k c"
    by (auto simp: list_client_def image_iff)
  show "distinct (map fst (getQueriesData list_client fl c))"
    by (simp add: list_client_def comp_def)
qed (auto simp: list_client_def lc_set_get lc_set_all_get partial_match_prefix partial_match_nth
    intro: rev_image_eqI dest: map_of_SomeD partial_match_shorter)

end
