(* ===== verification/Notifications.thy ===== *)
theory Notifications
  imports Query_Cache Api_Account Routes
begin

text \<open>
  The notification centre (\<open>features/notifications\<close>): the five mutations that update the query
  cache before the server has answered and put it back when the request fails, the page's filters
  and pagination, its selection mode, and the helpers a row is drawn with.
\<close>

section \<open>Notifications and their cached queries\<close>

record Notification =
  n_id :: string
  workspaceId :: string
  userId :: string
  channelId :: string
  severity :: string
  eventType :: string
  referenceId :: string
  referenceType :: string
  title :: string
  message :: string
  isRead :: bool
  sentAt :: string
  createdAt :: string

text \<open>
  The \<open>data\<close> of a cached response: the array of a list query, or the object with the unread count.
  A count is a JavaScript number, \<^term>\<open>None\<close> the value \<open>NaN\<close>.
\<close>

datatype notif_data = Notes "Notification list" | Count "int option"

type_synonym cached = "notif_data api_response"

definition key_params :: "NotificationListParams \<Rightarrow> (string \<times> string) list" where
  "key_params p =
     (case nl_page p of None \<Rightarrow> [] | Some n \<Rightarrow> [(''page'', show_int n)]) @
     (case nl_limit p of None \<Rightarrow> [] | Some n \<Rightarrow> [(''limit'', show_int n)]) @
     (if nl_unread p then [(''unread'', ''true'')] else [])"

text \<open>\<open>notificationKeys\<close>; a missing \<open>params\<close> argument stays in the key as \<open>undefined\<close>.\<close>

definition all_key :: query_key where
  "all_key = [KStr ''notifications'']"

definition unread_count_key :: query_key where
  "unread_count_key = all_key @ [KStr ''unread-count'']"

definition list_key :: "NotificationListParams option \<Rightarrow> query_key" where
  "list_key ps = all_key @ [KStr ''list'', (case ps of None \<Rightarrow> KUndef | Some p \<Rightarrow> KObj (key_params p))]"

definition useUnreadCount :: "query_key \<times> api_call" where
  "useUnreadCount = (unread_count_key, apiGetUnreadCount)"

definition no_list_params :: NotificationListParams where
  "no_list_params = \<lparr>nl_page = None, nl_limit = None, nl_unread = False\<rparr>"

definition useNotifications :: "NotificationListParams option \<Rightarrow> query_key \<times> api_call" where
  "useNotifications ps =
     (list_key ps, apiListNotifications (case ps of None \<Rightarrow> no_list_params | Some p \<Rightarrow> p))"

section \<open>The updaters\<close>

definition update_notes :: "(Notification list \<Rightarrow> Notification list) \<Rightarrow> cached option \<Rightarrow> cached option" where
  "update_notes f old =
     (case old of None \<Rightarrow> None
      | Some r \<Rightarrow> (case res_data r of Some (Notes ns) \<Rightarrow> Some (r\<lparr>res_data := Some (Notes (f ns))\<rparr>) | _ \<Rightarrow> old))"

text \<open>The count of an array is \<open>undefined\<close>, and arithmetic on it gives \<open>NaN\<close>.\<close>

definition update_count :: "(int option \<Rightarrow> int option) \<Rightarrow> cached option \<Rightarrow> cached option" where
  "update_count f old =
     (case old of None \<Rightarrow> None
      | Some r \<Rightarrow> (case res_data r of None \<Rightarrow> old
          | Some (Count n) \<Rightarrow> Some (r\<lparr>res_data := Some (Count (f n))\<rparr>)
          | Some (Notes _) \<Rightarrow> Some (r\<lparr>res_data := Some (Count (f None))\<rparr>)))"

definition minus_count :: "int \<Rightarrow> int option \<Rightarrow> int option" where
  "minus_count k n = map_option (\<lambda>m. max 0 (m - k)) n"

definition notes_of :: "cached option \<Rightarrow> Notification list" where
  "notes_of d = (case d of Some r \<Rightarrow> (case res_data r of Some (Notes ns) \<Rightarrow> ns | _ \<Rightarrow> []) | None \<Rightarrow> [])"

section \<open>The mutations\<close>

record notif_context =
  previousNotifications :: "(query_key \<times> cached option) list"
  previousUnreadCount :: "cached option"

type_synonym 'c mutated = "effect list \<times> 'c \<times> notif_context"

definition mark_read_mutate :: "('c, cached) client_ops \<Rightarrow> string \<Rightarrow> 'c \<Rightarrow> 'c mutated" where
  "mark_read_mutate qc i c =
     (let ctx = \<lparr>previousNotifications = getQueriesData qc all_key c,
                 previousUnreadCount = getQueryData qc unread_count_key c\<rparr>;
          c = setQueriesData qc (list_key None)
                (update_notes (map (\<lambda>n. if n_id n = i then n\<lparr>isRead := True\<rparr> else n))) c;
          c = setQueryData qc unread_count_key (update_count (minus_count 1)) c in
      ([Cancel all_key], c, ctx))"

definition mark_all_mutate :: "('c, cached) client_ops \<Rightarrow> 'c \<Rightarrow> 'c mutated" where
  "mark_all_mutate qc c =
     (let ctx = \<lparr>previousNotifications = getQueriesData qc all_key c,
                 previousUnreadCount = getQueryData qc unread_count_key c\<rparr>;
          c = setQueriesData qc (list_key None) (update_notes (map (\<lambda>n. n\<lparr>isRead := True\<rparr>))) c;
          c = setQueryData qc unread_count_key (update_count (\<lambda>_. Some 0)) c in
      ([Cancel all_key], c, ctx))"

text \<open>
  \<open>wasUnread\<close> and \<open>unreadRemoved\<close> are assigned from inside the updater, which runs once on each of
  the queries the filter matches.
\<close>

definition was_unread :: "string \<Rightarrow> Notification list \<Rightarrow> bool" where
  "was_unread i ns = (case List.find (\<lambda>n. n_id n = i) ns of Some n \<Rightarrow> \<not> isRead n | None \<Rightarrow> False)"

definition delete_mutate :: "('c, cached) client_ops \<Rightarrow> string \<Rightarrow> 'c \<Rightarrow> 'c mutated" where
  "delete_mutate qc i c =
     (let matching = getQueriesData qc (list_key None) c;
          ctx = \<lparr>previousNotifications = matching,
                 previousUnreadCount = getQueryData qc unread_count_key c\<rparr>;
          wasUnread = list_ex (\<lambda>(_, d). was_unread i (notes_of d)) matching;
          c = setQueriesData qc (list_key None) (update_notes (filter (\<lambda>n. n_id n \<noteq> i))) c;
          c = (if wasUnread then setQueryData qc unread_count_key (update_count (minus_count 1)) c else c) in
      ([Cancel all_key], c, ctx))"

definition delete_all_mutate :: "('c, cached) client_ops \<Rightarrow> 'c \<Rightarrow> 'c mutated" where
  "delete_all_mutate qc c =
     (let ctx = \<lparr>previousNotifications = getQueriesData qc (list_key None) c,
                 previousUnreadCount = getQueryData qc unread_count_key c\<rparr>;
          c = setQueriesData qc (list_key None) (update_notes (\<lambda>_. [])) c;
          c = setQueryData qc unread_count_key (update_count (\<lambda>_. Some 0)) c in
      ([Cancel all_key], c, ctx))"

definition unread_among :: "string list \<Rightarrow> Notification list \<Rightarrow> nat" where
  "unread_among ids ns = length (filter (\<lambda>n. n_id n \<in> set ids \<and> \<not> isRead n) ns)"

definition unread_removed :: "string list \<Rightarrow> (query_key \<times> cached option) list \<Rightarrow> nat" where
  "unread_removed ids matching = sum_list (map (\<lambda>(_, d). unread_among ids (notes_of d)) matching)"

definition delete_batch_mutate :: "('c, cached) client_ops \<Rightarrow> string list \<Rightarrow> 'c \<Rightarrow> 'c mutated" where
  "delete_batch_mutate qc ids c =
     (let matching = getQueriesData qc (list_key None) c;
          ctx = \<lparr>previousNotifications = matching,
                 previousUnreadCount = getQueryData qc unread_count_key c\<rparr>;
          unreadRemoved = unread_removed ids matching;
          c = setQueriesData qc (list_key None) (update_notes (filter (\<lambda>n. n_id n \<notin> set ids))) c;
          c = (if unreadRemoved > 0
               then setQueryData qc unread_count_key (update_count (minus_count (int unreadRemoved))) c else c) in
      ([Cancel all_key], c, ctx))"

text \<open>All five \<open>onError\<close> handlers put the same two things back, whatever \<open>onMutate\<close> gave them.\<close>

definition rollback :: "('c, cached) client_ops \<Rightarrow> notif_context option \<Rightarrow> 'c \<Rightarrow> 'c" where
  "rollback qc ctx c =
     (case ctx of None \<Rightarrow> c
      | Some x \<Rightarrow>
          (let c = restore qc (previousNotifications x) c in
           case previousUnreadCount x of None \<Rightarrow> c
           | Some d \<Rightarrow> setQueryData qc unread_count_key (\<lambda>_. Some d) c))"

record ('v, 'c) notif_hook =
  mutationFn :: "'v \<Rightarrow> api_call"
  onMutate :: "'v \<Rightarrow> 'c \<Rightarrow> 'c mutated"
  onError :: "thrown \<Rightarrow> notif_context option \<Rightarrow> 'c \<Rightarrow> effect list \<times> 'c"
  onSettled :: "effect list"

definition failed ::
  "('c, cached) client_ops \<Rightarrow> string \<Rightarrow> thrown \<Rightarrow> notif_context option \<Rightarrow> 'c \<Rightarrow> effect list \<times> 'c" where
  "failed qc text e ctx c = ([ToastError (sanitizeErrorMessage e (Some text))], rollback qc ctx c)"

definition useMarkNotificationRead :: "('c, cached) client_ops \<Rightarrow> (string, 'c) notif_hook" where
  "useMarkNotificationRead qc =
     \<lparr>mutationFn = apiMarkNotificationRead,
      onMutate = mark_read_mutate qc,
      onError = failed qc ''Failed to mark notification as read'',
      onSettled = [Invalidate all_key]\<rparr>"

definition useMarkAllNotificationsRead :: "('c, cached) client_ops \<Rightarrow> (unit, 'c) notif_hook" where
  "useMarkAllNotificationsRead qc =
     \<lparr>mutationFn = (\<lambda>_. apiMarkAllNotificationsRead),
      onMutate = (\<lambda>_. mark_all_mutate qc),
      onError = failed qc ''Failed to mark all notifications as read'',
      onSettled = [Invalidate all_key]\<rparr>"

definition useDeleteNotification :: "('c, cached) client_ops \<Rightarrow> (string, 'c) notif_hook" where
  "useDeleteNotification qc =
     \<lparr>mutationFn = apiDeleteNotification,
      onMutate = delete_mutate qc,
      onError = failed qc ''Failed to delete notification'',
      onSettled = [Invalidate all_key]\<rparr>"

definition useDeleteAllNotifications :: "('c, cached) client_ops \<Rightarrow> (unit, 'c) notif_hook" where
  "useDeleteAllNotifications qc =
     \<lparr>mutationFn = (\<lambda>_. apiDeleteAllNotifications),
      onMutate = (\<lambda>_. delete_all_mutate qc),
      onError = failed qc ''Failed to delete all notifications'',
      onSettled = [Invalidate all_key]\<rparr>"

definition useDeleteBatchNotifications :: "('c, cached) client_ops \<Rightarrow> (string list, 'c) notif_hook" where
  "useDeleteBatchNotifications qc =
     \<lparr>mutationFn = apiDeleteBatchNotifications,
      onMutate = delete_batch_mutate qc,
      onError = failed qc ''Failed to delete notifications'',
      onSettled = [Invalidate all_key]\<rparr>"

text \<open>One run of a mutation: the request is sent between the update and the handlers.\<close>

definition mutate :: "('v, 'c) notif_hook \<Rightarrow> 'v \<Rightarrow> (thrown + json) \<Rightarrow> 'c \<Rightarrow> effect list \<times> 'c" where
  "mutate h v answer c =
     (case onMutate h v c of (eff, c', ctx) \<Rightarrow>
       (case answer of
          Inr _ \<Rightarrow> (eff @ onSettled h, c')
        | Inl e \<Rightarrow> (case onError h e (Some ctx) c' of (eff', c'') \<Rightarrow> (eff @ eff' @ onSettled h, c''))))"

datatype notif_action =
    MarkRead string | MarkAllRead | DeleteOne string | DeleteAll | DeleteBatch "string list"

fun run_action ::
  "('c, cached) client_ops \<Rightarrow> notif_action \<Rightarrow> (thrown + json) \<Rightarrow> 'c \<Rightarrow> effect list \<times> 'c" where
  "run_action qc (MarkRead i) = mutate (useMarkNotificationRead qc) i"
| "run_action qc MarkAllRead = mutate (useMarkAllNotificationsRead qc) ()"
| "run_action qc (DeleteOne i) = mutate (useDeleteNotification qc) i"
| "run_action qc DeleteAll = mutate (useDeleteAllNotifications qc) ()"
| "run_action qc (DeleteBatch ids) = mutate (useDeleteBatchNotifications qc) ids"

lemmas notif_hook_defs [js_defs] =
  useMarkNotificationRead_def useMarkAllNotificationsRead_def useDeleteNotification_def
  useDeleteAllNotifications_def useDeleteBatchNotifications_def

lemmas notif_mutate_defs =
  mark_read_mutate_def mark_all_mutate_def delete_mutate_def delete_all_mutate_def delete_batch_mutate_def

section \<open>Lemmas\<close>

lemma update_notes_None [simp]: "update_notes f None = None" "update_count g None = None"
  by (simp_all add: update_notes_def update_count_def)

lemma updated_notes [simp]:
  "updated (update_notes f) old = update_notes f old" "updated (update_count g) old = update_count g old"
  by (auto simp: updated_def update_notes_def update_count_def
      split: option.splits notif_data.splits)

lemma update_None_iff [simp]: "update_notes f old = None \<longleftrightarrow> old = None" "update_count g old = None \<longleftrightarrow> old = None"
  by (auto simp: update_notes_def update_count_def split: option.splits notif_data.splits)

lemma notes_of_update [simp]: "f [] = [] \<Longrightarrow> notes_of (update_notes f d) = f (notes_of d)"
  by (auto simp: notes_of_def update_notes_def split: option.splits notif_data.splits)

lemma list_not_count [simp]: "list_key ps \<noteq> unread_count_key" "unread_count_key \<noteq> list_key ps"
  by (simp_all add: list_key_def unread_count_key_def all_key_def)

context query_client
begin

lemma rollback_exact:
  fixes c :: 'c
  assumes "\<And>k. getQueryData qc k c' \<noteq> getQueryData qc k c \<Longrightarrow>
      getQueryData qc k c \<noteq> None \<and> (matches fl k \<or> k = u)"
  shows "getQueryData qc j
     (case getQueryData qc u c of
        None \<Rightarrow> restore qc (getQueriesData qc fl c) c'
      | Some d \<Rightarrow> setQueryData qc u (\<lambda>_. Some d) (restore qc (getQueriesData qc fl c) c')) =
    getQueryData qc j c"
  using assms [of j]
  by (cases "getQueryData qc j c' = getQueryData qc j c") (auto simp: restore_queries get_set split: option.splits)

end

text \<open>What an action means for a list of notifications and for the unread count.\<close>

fun spec_notes :: "notif_action \<Rightarrow> Notification list \<Rightarrow> Notification list" where
  "spec_notes (MarkRead i) = map (\<lambda>n. if n_id n = i then n\<lparr>isRead := True\<rparr> else n)"
| "spec_notes MarkAllRead = map (\<lambda>n. n\<lparr>isRead := True\<rparr>)"
| "spec_notes (DeleteOne i) = filter (\<lambda>n. n_id n \<noteq> i)"
| "spec_notes DeleteAll = (\<lambda>_. [])"
| "spec_notes (DeleteBatch ids) = filter (\<lambda>n. n_id n \<notin> set ids)"

text \<open>The two writes of \<open>onMutate\<close>, the second one not always there.\<close>

definition optimistic :: "('c, cached) client_ops \<Rightarrow> notif_action \<Rightarrow> (int option \<Rightarrow> int option) option \<Rightarrow> 'c \<Rightarrow> 'c" where
  "optimistic qc a g c =
     (let c = setQueriesData qc (list_key None) (update_notes (spec_notes a)) c in
      case g of None \<Rightarrow> c | Some g \<Rightarrow> setQueryData qc unread_count_key (update_count g) c)"

lemma run_action_shape:
  obtains g fl failure where "fl = all_key \<or> fl = list_key None"
    "\<And>j. run_action qc a (Inr j) c = ([Cancel all_key, Invalidate all_key], optimistic qc a g c)"
    "\<And>e. run_action qc a (Inl e) c =
       ([Cancel all_key, ToastError (sanitizeErrorMessage e (Some failure)), Invalidate all_key],
        rollback qc (Some \<lparr>previousNotifications = getQueriesData qc fl c,
                          previousUnreadCount = getQueryData qc unread_count_key c\<rparr>) (optimistic qc a g c))"
proof (cases a)
  case (DeleteOne i)
  show thesis
    by (rule that [of "list_key None" "if list_ex (\<lambda>(_, d). was_unread i (notes_of d)) (getQueriesData qc (list_key None) c)
          then Some (minus_count 1) else None" "''Failed to delete notification''"])
      (simp_all add: DeleteOne notif_hook_defs mutate_def delete_mutate_def Let_def optimistic_def failed_def)
next
  case (DeleteBatch ids)
  show thesis
    by (rule that [of "list_key None" "if 0 < unread_removed ids (getQueriesData qc (list_key None) c)
          then Some (minus_count (int (unread_removed ids (getQueriesData qc (list_key None) c)))) else None"
          "''Failed to delete notifications''"])
      (simp_all add: DeleteBatch notif_hook_defs mutate_def delete_batch_mutate_def Let_def optimistic_def failed_def)
next
  case (MarkRead i)
  show thesis
    by (rule that [of all_key "Some (minus_count 1)" "''Failed to mark notification as read''"])
      (simp_all add: MarkRead notif_hook_defs mutate_def mark_read_mutate_def Let_def optimistic_def failed_def)
next
  case MarkAllRead
  show thesis
    by (rule that [of all_key "Some (\<lambda>_. Some 0)" "''Failed to mark all notifications as read''"])
      (simp_all add: MarkAllRead notif_hook_defs mutate_def mark_all_mutate_def Let_def optimistic_def failed_def)
next
  case DeleteAll
  show thesis
    by (rule that [of "list_key None" "Some (\<lambda>_. Some 0)" "''Failed to delete all notifications''"])
      (simp_all add: DeleteAll notif_hook_defs mutate_def delete_all_mutate_def Let_def optimistic_def failed_def)
qed

lemma optimistic_get:
  assumes "query_client qc cached matching"
  shows "getQueryData qc j (optimistic qc a g c) =
    (let d = (if matching (list_key None) j then update_notes (spec_notes a) (getQueryData qc j c)
              else getQueryData qc j c) in
     case g of Some g \<Rightarrow> if j = unread_count_key then update_count g d else d | None \<Rightarrow> d)"
  using query_client.data_cached [OF assms, of j c]
  by (cases "getQueryData qc j c")
    (auto simp: optimistic_def Let_def query_client.get_set [OF assms] query_client.get_set_all [OF assms]
      split: option.splits)

lemma matches_all_key:
  assumes "query_client qc cached matching"
  shows "matching all_key unread_count_key"
  using query_client.matches_prefix [OF assms, of all_key] by (simp add: unread_count_key_def)

lemma restored:
  assumes qc: "query_client qc cached matching"
    and fl: "fl = all_key \<or> fl = list_key None"
  shows "getQueryData qc j (rollback qc (Some \<lparr>previousNotifications = getQueriesData qc fl c,
      previousUnreadCount = getQueryData qc unread_count_key c\<rparr>) (optimistic qc a g c)) = getQueryData qc j c"
proof -
  have sub: "matching all_key k" if "matching (list_key None) k" for k
    using that query_client.matches_shorter [OF qc, of all_key] by (simp add: list_key_def)
  have "getQueryData qc k c \<noteq> None \<and> (matching fl k \<or> k = unread_count_key)"
    if "getQueryData qc k (optimistic qc a g c) \<noteq> getQueryData qc k c" for k
    using that fl by (cases "getQueryData qc k c") (auto simp: optimistic_get [OF qc] Let_def dest: sub split: option.splits if_splits)
  from query_client.rollback_exact [OF qc, of "optimistic qc a g c" c fl unread_count_key j, OF this]
  show ?thesis by (simp add: rollback_def Let_def)
qed

lemma list_key_missed:
  assumes "query_client qc cached matching"
  shows "\<not> matching (list_key None) (list_key (Some p))"
  using query_client.undefined_no_wildcard [OF assms, of "KObj (key_params p)" "all_key @ [KStr ''list'']" "[]"]
  by (simp add: list_key_def)

lemma count_key_missed:
  assumes "query_client qc cached matching"
  shows "\<not> matching (list_key ps) unread_count_key"
proof
  assume "matching (list_key ps) unread_count_key"
  then have "unread_count_key ! 1 = list_key ps ! 1"
    by (rule query_client.matches_only [OF assms]) (simp_all add: list_key_def unread_count_key_def all_key_def)
  then show False by (simp add: list_key_def unread_count_key_def all_key_def)
qed

lemma list_key_hit:
  assumes "query_client qc cached matching"
  shows "matching (list_key None) (list_key None)"
  using query_client.matches_prefix [OF assms, of "list_key None" "[]"] by simp

section \<open>Properties of the mutations\<close>

text \<open>C8: A mutation of the notification centre that fails leaves no trace: whatever its optimistic
  update wrote to the lists and to the unread count, after \<open>onError\<close> every query of the cache
  has the data it had before, and the user sees one error toast with a sanitized message. It holds
  for all five mutations and for any query cache that meets the library's laws.\<close>

theorem failed_mutation_restores_cache:
  assumes "query_client qc cached matching"
  shows "getQueryData qc k (snd (run_action qc a (Inl e) c)) = getQueryData qc k c \<and>
    (\<exists>failure. fst (run_action qc a (Inl e) c) =
       [Cancel all_key, ToastError (sanitizeErrorMessage e (Some failure)), Invalidate all_key])"
proof -
  obtain g fl failure where "fl = all_key \<or> fl = list_key None"
    "run_action qc a (Inl e) c =
       ([Cancel all_key, ToastError (sanitizeErrorMessage e (Some failure)), Invalidate all_key],
        rollback qc (Some \<lparr>previousNotifications = getQueriesData qc fl c,
                          previousUnreadCount = getQueryData qc unread_count_key c\<rparr>) (optimistic qc a g c))"
    using run_action_shape [of qc a c] by metis
  with restored [OF assms, of fl k c a g] show ?thesis by auto
qed

definition sample_note :: "string \<Rightarrow> bool \<Rightarrow> Notification" where
  "sample_note i r = \<lparr>n_id = i, workspaceId = ''w'', userId = ''u'', channelId = ''c'', severity = ''high'',
     eventType = ''diff.error'', referenceId = ''r'', referenceType = ''alert'', title = ''t'', message = ''m'',
     isRead = r, sentAt = '''', createdAt = ''''\<rparr>"

definition sample_page :: NotificationListParams where
  "sample_page = \<lparr>nl_page = None, nl_limit = Some 500, nl_unread = False\<rparr>"

definition sample_cache :: "cached list_cache" where
  "sample_cache =
     [(list_key None, \<lparr>res_data = Some (Notes [sample_note ''1'' False]), res_error = None, res_meta = None\<rparr>),
      (list_key (Some sample_page), \<lparr>res_data = Some (Notes [sample_note ''1'' False]), res_error = None, res_meta = None\<rparr>),
      (unread_count_key, \<lparr>res_data = Some (Count (Some 1)), res_error = None, res_meta = None\<rparr>)]"

lemma failed_mutation_restores_cache_witness:
  "getQueryData list_client (list_key None)
     (snd (run_action list_client (MarkRead ''1'') (Inl OtherVal) sample_cache)) =
   getQueryData list_client (list_key None) sample_cache"
  using failed_mutation_restores_cache [OF list_cache.query_client_axioms,
    of "list_key None" "MarkRead ''1''" OtherVal sample_cache] by simp

text \<open>The optimistic updates address the key \<open>notificationKeys.list()\<close>, whose last part is
  \<open>undefined\<close>. They do to a list query without parameters, and to the unread count, what the
  action means; but a list query that has parameters, as the queries of both the bell
  (\<open>limit: 20, unread: true\<close>) and the page (\<open>limit: 500\<close>) have, is never updated. So marking a
  row as read lowers the badge at once and leaves the row unread until the refetch.\<close>

theorem optimistic_updates_miss_pages:
  assumes "query_client qc cached matching"
  shows "getQueryData qc (list_key None) (snd (run_action qc a (Inr r) c)) =
      update_notes (spec_notes a) (getQueryData qc (list_key None) c) \<and>
    getQueryData qc (list_key (Some p)) (snd (run_action qc a (Inr r) c)) =
      getQueryData qc (list_key (Some p)) c \<and>
    getQueryData qc unread_count_key (snd (run_action qc (MarkRead i) (Inr r) c)) =
      update_count (minus_count 1) (getQueryData qc unread_count_key c)"
proof -
  obtain g where "snd (run_action qc a (Inr r) c) = optimistic qc a g c"
    using run_action_shape [of qc a c] by (metis snd_conv)
  moreover have "snd (run_action qc (MarkRead i) (Inr r) c) = optimistic qc (MarkRead i) (Some (minus_count 1)) c"
    by (simp add: notif_hook_defs mutate_def mark_read_mutate_def Let_def optimistic_def)
  ultimately show ?thesis
    using list_key_missed [OF assms] count_key_missed [OF assms] list_key_hit [OF assms]
    by (auto simp: optimistic_get [OF assms] Let_def split: option.splits)
qed

lemma optimistic_updates_miss_pages_witness:
  "notes_of (getQueryData list_client (list_key (Some sample_page))
     (snd (run_action list_client (MarkRead ''1'') (Inr JNull) sample_cache))) = [sample_note ''1'' False]"
  using optimistic_updates_miss_pages [OF list_cache.query_client_axioms,
    of "MarkRead ''1''" JNull sample_cache sample_page "''1''"]
  by (simp add: sample_cache_def list_client_def notes_of_def)

section \<open>Helpers of a row\<close>

datatype SeverityLevel = critical | high | medium | info

fun severity_name :: "SeverityLevel \<Rightarrow> string" where
  "severity_name critical = ''critical''"
| "severity_name high = ''high''"
| "severity_name medium = ''medium''"
| "severity_name info = ''info''"

definition VALID_SEVERITIES :: "SeverityLevel list" where
  "VALID_SEVERITIES = [critical, high, medium, info]"

definition classifySeverity :: "Notification \<Rightarrow> SeverityLevel" where
  "classifySeverity n =
     (let mapped = (if severity n = ''low'' then ''info'' else severity n) in
      case List.find (\<lambda>l. severity_name l = mapped) VALID_SEVERITIES of Some l \<Rightarrow> l | None \<Rightarrow> info)"

fun SEVERITY_STYLES :: "SeverityLevel \<Rightarrow> string" where
  "SEVERITY_STYLES critical = ''bg-red-500/10 text-red-700 dark:bg-red-500/20 dark:text-red-400 border-red-200 dark:border-red-800''"
| "SEVERITY_STYLES high = ''bg-orange-500/10 text-orange-700 dark:bg-orange-500/20 dark:text-orange-400 border-orange-200 dark:border-orange-800''"
| "SEVERITY_STYLES medium = ''bg-amber-500/10 text-amber-700 dark:bg-amber-500/20 dark:text-amber-400 border-amber-200 dark:border-amber-800''"
| "SEVERITY_STYLES info = ''bg-blue-500/10 text-blue-700 dark:bg-blue-500/20 dark:text-blue-400 border-blue-200 dark:border-blue-800''"

record EventTypeConfig =
  icon :: string
  bgClass :: string
  textClass :: string

definition EVENT_TYPE_MAP :: "(string \<times> EventTypeConfig) list" where
  "EVENT_TYPE_MAP =
     [(''discovery.packages_added'', \<lparr>icon = ''Package'',
         bgClass = ''bg-blue-500/10 dark:bg-blue-500/20'', textClass = ''text-blue-600 dark:text-blue-400''\<rparr>),
      (''alert.created.malicious'', \<lparr>icon = ''ShieldX'',
         bgClass = ''bg-red-500/10 dark:bg-red-500/20'', textClass = ''text-red-600 dark:text-red-400''\<rparr>),
      (''alert.created.suspicious'', \<lparr>icon = ''ShieldAlert'',
         bgClass = ''bg-orange-500/10 dark:bg-orange-500/20'', textClass = ''text-orange-600 dark:text-orange-400''\<rparr>),
      (''analysis.error'', \<lparr>icon = ''AlertTriangle'',
         bgClass = ''bg-amber-500/10 dark:bg-amber-500/20'', textClass = ''text-amber-600 dark:text-amber-400''\<rparr>),
      (''diff.error'', \<lparr>icon = ''Bug'',
         bgClass = ''bg-amber-500/10 dark:bg-amber-500/20'', textClass = ''text-amber-600 dark:text-amber-400''\<rparr>),
      (''packages.stale_removed'', \<lparr>icon = ''Trash2'',
         bgClass = ''bg-gray-500/10 dark:bg-gray-500/20'', textClass = ''text-gray-600 dark:text-gray-400''\<rparr>)]"

definition DEFAULT_EVENT_TYPE :: EventTypeConfig where
  "DEFAULT_EVENT_TYPE = \<lparr>icon = ''Search'', bgClass = ''bg-muted'', textClass = ''text-muted-foreground''\<rparr>"

definition getEventTypeConfig :: "string \<Rightarrow> EventTypeConfig" where
  "getEventTypeConfig t = (case map_of EVENT_TYPE_MAP t of Some c \<Rightarrow> c | None \<Rightarrow> DEFAULT_EVENT_TYPE)"

text \<open>
  The instants are milliseconds; \<^term>\<open>None\<close> is the \<open>NaN\<close> of a date that does not parse, for which
  every comparison is false. What \<open>toLocaleDateString\<close> prints depends on the host: an argument.
\<close>

definition formatTimeAgo :: "string \<Rightarrow> int \<Rightarrow> int option \<Rightarrow> string" where
  "formatTimeAgo locale_date now instant =
     (case instant of
        None \<Rightarrow> locale_date
      | Some at \<Rightarrow>
          (let diffSec = (now - at) div 1000; diffMin = diffSec div 60;
               diffHr = diffMin div 60; diffDay = diffHr div 24 in
           if diffSec < 60 then ''just now''
           else if diffMin < 60 then show_int diffMin @ ''m ago''
           else if diffHr < 24 then show_int diffHr @ ''h ago''
           else if diffDay < 30 then show_int diffDay @ ''d ago''
           else locale_date))"

definition EVENT_TYPE_LABELS :: "(string \<times> string) list" where
  "EVENT_TYPE_LABELS =
     [(''discovery.packages_added'', ''Package Discovery''),
      (''alert.created.malicious'', ''Malicious Alert''),
      (''alert.created.suspicious'', ''Suspicious Alert''),
      (''analysis.error'', ''Analysis Error''),
      (''diff.error'', ''Diff Error''),
      (''packages.stale_removed'', ''Package Removed'')]"

definition getNotificationLink :: "Notification \<Rightarrow> string" where
  "getNotificationLink n =
     ROUTES (let r = referenceId n in
       if referenceType n = ''alert'' then if r \<noteq> [] then ALERT_DETAIL r else ALERTS
       else if referenceType n = ''release'' then if r \<noteq> [] then RELEASE_DETAIL r else RELEASES
       else if referenceType n = ''package'' then if r \<noteq> [] then PACKAGE_DETAIL r else PACKAGES
       else DASHBOARD)"

section \<open>The page\<close>

record page_state =
  readFilter :: string
  severityFilter :: string
  eventTypeFilter :: string
  pageIndex :: nat
  pageSize :: nat

definition VALID_READ_FILTERS :: "string list" where
  "VALID_READ_FILTERS = [''unread'', ''read'', ''all'']"

definition VALID_SEVERITY_FILTERS :: "string list" where
  "VALID_SEVERITY_FILTERS = [''critical'', ''high'', ''medium'', ''info'']"

definition VALID_EVENT_TYPES :: "string list" where
  "VALID_EVENT_TYPES = map fst EVENT_TYPE_LABELS"

definition initial_filter :: "string list \<Rightarrow> string option \<Rightarrow> string" where
  "initial_filter valid v =
     (let x = (case v of Some s \<Rightarrow> s | None \<Rightarrow> []) in if x \<in> set valid then x else ''all'')"

definition mount_page :: "params \<Rightarrow> page_state" where
  "mount_page searchParams =
     \<lparr>readFilter = initial_filter VALID_READ_FILTERS (usp_get searchParams ''read''),
      severityFilter = initial_filter VALID_SEVERITY_FILTERS (usp_get searchParams ''severity''),
      eventTypeFilter = initial_filter VALID_EVENT_TYPES (usp_get searchParams ''eventType''),
      pageIndex = 0, pageSize = 20\<rparr>"

definition setReadFilterAndResetPage :: "string \<Rightarrow> page_state \<Rightarrow> page_state" where
  "setReadFilterAndResetPage v s = s\<lparr>readFilter := v, pageIndex := 0\<rparr>"

definition setSeverityFilterAndResetPage :: "string \<Rightarrow> page_state \<Rightarrow> page_state" where
  "setSeverityFilterAndResetPage v s = s\<lparr>severityFilter := v, pageIndex := 0\<rparr>"

definition setEventTypeFilterAndResetPage :: "string \<Rightarrow> page_state \<Rightarrow> page_state" where
  "setEventTypeFilterAndResetPage v s = s\<lparr>eventTypeFilter := v, pageIndex := 0\<rparr>"

definition clearAllFilters :: "page_state \<Rightarrow> page_state" where
  "clearAllFilters s =
     s\<lparr>readFilter := ''all'', severityFilter := ''all'', eventTypeFilter := ''all'', pageIndex := 0\<rparr>"

definition page_filters :: "page_state \<Rightarrow> params" where
  "page_filters s =
     [(''read'', readFilter s), (''severity'', severityFilter s), (''eventType'', eventTypeFilter s)]"

definition NOTIFICATIONS_FILTER_DEFAULTS :: "string \<Rightarrow> string option" where
  "NOTIFICATIONS_FILTER_DEFAULTS =
     map_of [(''read'', ''all''), (''severity'', ''all''), (''eventType'', ''all'')]"

definition filteredNotifications :: "page_state \<Rightarrow> Notification list \<Rightarrow> Notification list" where
  "filteredNotifications s ns =
     (let r = ns;
          r = (if readFilter s = ''unread'' then filter (\<lambda>n. \<not> isRead n) r else r);
          r = (if readFilter s = ''read'' then filter isRead r else r);
          r = (if severityFilter s \<noteq> ''all''
               then filter (\<lambda>n. severity_name (classifySeverity n) = severityFilter s) r else r);
          r = (if eventTypeFilter s \<noteq> ''all''
               then filter (\<lambda>n. eventType n = eventTypeFilter s) r else r) in r)"

text \<open>\<open>Math.max(1, Math.ceil(total / pageSize))\<close>.\<close>

definition pageCount :: "page_state \<Rightarrow> Notification list \<Rightarrow> nat" where
  "pageCount s ns =
     (let total = length (filteredNotifications s ns) in max 1 ((total + pageSize s - 1) div pageSize s))"

definition paginatedNotifications :: "page_state \<Rightarrow> Notification list \<Rightarrow> Notification list" where
  "paginatedNotifications s ns =
     (let start = pageIndex s * pageSize s in take (pageSize s) (drop start (filteredNotifications s ns)))"

definition hasActiveFilters :: "page_state \<Rightarrow> bool" where
  "hasActiveFilters s \<longleftrightarrow> readFilter s \<noteq> ''all'' \<or> severityFilter s \<noteq> ''all'' \<or> eventTypeFilter s \<noteq> ''all''"

definition capitalized :: "string \<Rightarrow> string" where
  "capitalized v = toUpperCase (take 1 v) @ drop 1 v"

definition activeFilters :: "page_state \<Rightarrow> (string \<times> string \<times> (page_state \<Rightarrow> page_state)) list" where
  "activeFilters s =
     (if readFilter s \<noteq> ''all''
      then [(''Status'', if readFilter s = ''unread'' then ''Unread'' else ''Read'', setReadFilterAndResetPage ''all'')]
      else []) @
     (if severityFilter s \<noteq> ''all''
      then [(''Severity'', capitalized (severityFilter s), setSeverityFilterAndResetPage ''all'')]
      else []) @
     (if eventTypeFilter s \<noteq> ''all''
      then [(''Type'', (case map_of EVENT_TYPE_LABELS (eventTypeFilter s) of Some l \<Rightarrow> l | None \<Rightarrow> eventTypeFilter s),
             setEventTypeFilterAndResetPage ''all'')]
      else [])"

text \<open>What the list view shows, and the buttons of its pagination, there only for several pages.\<close>

datatype list_view =
    ListSkeleton | ListFailed | NoNotifications | NoMatches | Rows "Notification list" bool

definition NotificationsListView :: "bool \<Rightarrow> bool \<Rightarrow> page_state \<Rightarrow> Notification list \<Rightarrow> list_view" where
  "NotificationsListView isLoading isError s ns =
     (if isLoading then ListSkeleton
      else if isError then ListFailed
      else if length ns = 0 then NoNotifications
      else if length (filteredNotifications s ns) = 0 \<and> hasActiveFilters s then NoMatches
      else Rows (paginatedNotifications s ns) (pageCount s ns > 1))"

definition previous_page :: "page_state \<Rightarrow> page_state" where
  "previous_page s = (if pageIndex s = 0 then s else s\<lparr>pageIndex := pageIndex s - 1\<rparr>)"

definition next_page :: "Notification list \<Rightarrow> page_state \<Rightarrow> page_state" where
  "next_page ns s = (if int (pageIndex s) \<ge> int (pageCount s ns) - 1 then s else s\<lparr>pageIndex := pageIndex s + 1\<rparr>)"

text \<open>Selection mode: a JavaScript \<open>Set\<close> keeps its elements in the order they were added.\<close>

definition set_add :: "string \<Rightarrow> string list \<Rightarrow> string list" where
  "set_add x xs = (if x \<in> set xs then xs else xs @ [x])"

definition handleToggleSelect :: "string \<Rightarrow> string list \<Rightarrow> string list" where
  "handleToggleSelect i prev = (if i \<in> set prev then removeAll i prev else set_add i prev)"

definition allPageSelected :: "string list \<Rightarrow> string list \<Rightarrow> bool" where
  "allPageSelected currentPageIds selectedIds \<longleftrightarrow>
     length currentPageIds > 0 \<and> list_all (\<lambda>i. i \<in> set selectedIds) currentPageIds"

definition handleSelectAll :: "string list \<Rightarrow> string list \<Rightarrow> string list" where
  "handleSelectAll currentPageIds selectedIds =
     (if allPageSelected currentPageIds selectedIds
      then fold removeAll currentPageIds selectedIds
      else fold set_add currentPageIds selectedIds)"

definition handleDeleteSelected :: "string list \<Rightarrow> notif_action option" where
  "handleDeleteSelected selectedIds = (if length selectedIds = 0 then None else Some (DeleteBatch selectedIds))"

section \<open>Properties of the page\<close>

lemma pages_concat:
  "0 < k \<Longrightarrow> concat (map (\<lambda>i. take k (drop (i * k) xs)) [0..<n]) = take (n * k) xs"
proof (induction n)
  case (Suc n)
  then show ?case by (simp add: take_add [symmetric] add.commute)
qed simp

lemma pages_enough: "0 < k \<Longrightarrow> length xs \<le> max 1 ((length xs + k - 1) div k) * k"
proof -
  assume k: "0 < k"
  have "(length xs + k - 1) div k * k + (length xs + k - 1) mod k = length xs + k - 1" by simp
  moreover have "(length xs + k - 1) mod k < k" using k by simp
  ultimately have "length xs \<le> (length xs + k - 1) div k * k" by linarith
  also have "\<dots> \<le> max 1 ((length xs + k - 1) div k) * k" by simp
  finally show ?thesis .
qed

text \<open>The pages of the notification list partition what passes the filters: with the pages
  of all valid indices laid end to end every filtered notification appears exactly once and in its
  order, so pagination neither loses nor repeats a notification.\<close>

theorem pages_partition:
  assumes "0 < pageSize s"
  shows "concat (map (\<lambda>i. paginatedNotifications (s\<lparr>pageIndex := i\<rparr>) ns) [0..<pageCount s ns]) =
    filteredNotifications s ns"
proof -
  have same: "filteredNotifications (s\<lparr>pageIndex := i\<rparr>) ns = filteredNotifications s ns" for i
    by (simp add: filteredNotifications_def)
  show ?thesis
    unfolding paginatedNotifications_def pageCount_def same Let_def
    using pages_enough [OF assms, of "filteredNotifications s ns"]
    by (simp add: pages_concat [OF assms])
qed

definition sample_state :: page_state where
  "sample_state = \<lparr>readFilter = ''all'', severityFilter = ''high'', eventTypeFilter = ''diff.error'',
     pageIndex = 1, pageSize = 20\<rparr>"

lemma pages_partition_witness:
  "concat (map (\<lambda>i. paginatedNotifications (sample_state\<lparr>pageIndex := i\<rparr>) [sample_note ''1'' True])
     [0..<pageCount sample_state [sample_note ''1'' True]]) = [sample_note ''1'' True]"
  using pages_partition [of sample_state "[sample_note ''1'' True]"]
  by (simp add: sample_state_def filteredNotifications_def sample_note_def classifySeverity_def VALID_SEVERITIES_def)

text \<open>Nothing brings the page index back when the list shrinks. When deletions leave one page
  of notifications while the second is open, the view shows no row at all, and as the
  pagination buttons are drawn for several pages only, none to go back with.\<close>

theorem page_left_blank:
  assumes "0 < pageIndex s" "pageCount s ns = 1" "0 < pageSize s" "ns \<noteq> []" "filteredNotifications s ns \<noteq> []"
  shows "NotificationsListView False False s ns = Rows [] False"
proof -
  have "length (filteredNotifications s ns) \<le> pageSize s"
    using pages_enough [OF assms(3), of "filteredNotifications s ns"] assms(2) by (simp add: pageCount_def Let_def)
  also have "\<dots> \<le> pageIndex s * pageSize s" using assms(1) by simp
  finally show ?thesis
    using assms by (simp add: NotificationsListView_def paginatedNotifications_def Let_def)
qed

definition twenty_one :: "Notification list" where
  "twenty_one = map (\<lambda>i. sample_note (show_nat i) True) [0..<21]"

lemma page_left_blank_witness:
  "NotificationsListView False False sample_state twenty_one = Rows [sample_note ''20'' True] True \<and>
   NotificationsListView False False sample_state (spec_notes (DeleteOne ''20'') twenty_one) = Rows [] False"
proof
  show "NotificationsListView False False sample_state twenty_one = Rows [sample_note ''20'' True] True"
    by code_simp
  show "NotificationsListView False False sample_state (spec_notes (DeleteOne ''20'') twenty_one) = Rows [] False"
    by (rule page_left_blank) code_simp+
qed

definition valid_filters :: "page_state \<Rightarrow> bool" where
  "valid_filters s \<longleftrightarrow> readFilter s \<in> set VALID_READ_FILTERS \<and>
     severityFilter s \<in> set (''all'' # VALID_SEVERITY_FILTERS) \<and>
     eventTypeFilter s \<in> set (''all'' # VALID_EVENT_TYPES)"

text \<open>The filters survive a reload. For any filters the page offers, mounting it on the URL
  that \<open>useFilterParams\<close> writes selects the same filters again, on the first page.\<close>

theorem notification_filters_survive_reload:
  assumes "valid_filters s" and "CHR ''?'' \<notin> set pathname"
  shows "\<exists>url ps. useFilterParams False pathname (page_filters s) NOTIFICATIONS_FILTER_DEFAULTS = (False, Some url) \<and>
     read_url url = (pathname, Some ps) \<and>
     mount_page ps = s\<lparr>pageIndex := 0, pageSize := 20\<rparr>"
proof -
  let ?ps = "filter_params (page_filters s) NOTIFICATIONS_FILTER_DEFAULTS"
  have "distinct (map fst (page_filters s))" by (simp add: page_filters_def)
  from usp_get_filter_params [OF this, of NOTIFICATIONS_FILTER_DEFAULTS]
  have get: "usp_get ?ps k = (case map_of (page_filters s) k of None \<Rightarrow> None
      | Some v \<Rightarrow> if v \<noteq> [] \<and> v \<noteq> (case NOTIFICATIONS_FILTER_DEFAULTS k of Some d \<Rightarrow> d | None \<Rightarrow> []) then Some v else None)" for k .
  have ps: "usp_get ?ps ''read'' = (if readFilter s \<in> {[], ''all''} then None else Some (readFilter s))"
    "usp_get ?ps ''severity'' = (if severityFilter s \<in> {[], ''all''} then None else Some (severityFilter s))"
    "usp_get ?ps ''eventType'' = (if eventTypeFilter s \<in> {[], ''all''} then None else Some (eventTypeFilter s))"
    unfolding get by (simp_all add: page_filters_def NOTIFICATIONS_FILTER_DEFAULTS_def)
  have ne: "[] \<notin> set VALID_READ_FILTERS" "[] \<notin> set VALID_SEVERITY_FILTERS" "[] \<notin> set VALID_EVENT_TYPES"
    by code_simp+
  have initial: "initial_filter valid (if v \<in> {[], ''all''} then None else Some v) = v"
    if "v = ''all'' \<or> v \<in> set valid" "[] \<notin> set valid" for v valid
    using that by (auto simp: initial_filter_def)
  have valid: "readFilter s = ''all'' \<or> readFilter s \<in> set VALID_READ_FILTERS"
    "severityFilter s = ''all'' \<or> severityFilter s \<in> set VALID_SEVERITY_FILTERS"
    "eventTypeFilter s = ''all'' \<or> eventTypeFilter s \<in> set VALID_EVENT_TYPES"
    using assms(1) by (auto simp: valid_filters_def)
  have "mount_page ?ps = s\<lparr>pageIndex := 0, pageSize := 20\<rparr>"
    unfolding mount_page_def ps initial [OF valid(1) ne(1)] initial [OF valid(2) ne(2)] initial [OF valid(3) ne(3)]
    by simp
  then show ?thesis using assms(2) by (simp add: useFilterParams_def read_with_query)
qed

lemma notification_filters_survive_reload_witness:
  "\<exists>url ps. useFilterParams False ''/notifications'' (page_filters sample_state) NOTIFICATIONS_FILTER_DEFAULTS =
       (False, Some url) \<and> read_url url = (''/notifications'', Some ps) \<and>
     mount_page ps = sample_state\<lparr>pageIndex := 0, pageSize := 20\<rparr>"
proof -
  have "valid_filters sample_state" by code_simp
  then show ?thesis by (rule notification_filters_survive_reload) simp
qed

lemma selection_sets: "set (fold set_add xs ys) = set xs \<union> set ys" "set (fold removeAll xs ys) = set ys - set xs"
  by (induction xs arbitrary: ys) (auto simp: set_add_def)

text \<open>The header checkbox of the selection mode selects exactly the rows of the page in addition
  to what is selected, or, when they all are, deselects exactly them; and a delete of the
  selection names each selected notification once.\<close>

theorem select_all_exact:
  "set (handleSelectAll page sel) =
     (if page \<noteq> [] \<and> set page \<subseteq> set sel then set sel - set page else set sel \<union> set page)"
  by (auto simp: handleSelectAll_def allPageSelected_def selection_sets list_all_iff)

end
