(* ===== verification/Feature_Hooks.thy ===== *)
theory Feature_Hooks
  imports Query_Cache Api_Account Api_Monitor Roles
begin

text \<open>
  The query and mutation hooks of the features (\<open>features/*/hooks\<close>) that keep no state of their
  own: for each query its key, its request and when it is enabled, for each mutation its request
  and the effects of its outcome on the query cache and on the toasts. The notification centre
  and the alerts, whose mutations update the cache before the answer, have their own theories.
  The refetch intervals, stale times and placeholders a hook passes to the library are left out.
\<close>

section \<open>Mutations and queries\<close>

text \<open>
  \<open>m_success\<close> gets the response body and the variables, and gives the effects up to its end
  or, with \<^term>\<open>False\<close>, up to the point where it throws a \<open>TypeError\<close>.
\<close>

record 'v mutation =
  m_call :: "'v \<Rightarrow> api_call"
  m_success :: "json \<Rightarrow> 'v \<Rightarrow> effect list \<times> bool"
  m_error :: "thrown \<Rightarrow> effect list"

text \<open>
  The outcome of a mutation: \<open>onError\<close> handles a failed request, and also what \<open>onSuccess\<close>
  throws; \<open>te\<close> is the \<open>TypeError\<close>, whose text is the engine's.
\<close>

definition settle :: "thrown \<Rightarrow> 'v mutation \<Rightarrow> 'v \<Rightarrow> (thrown + json) \<Rightarrow> effect list" where
  "settle te h v answer =
     (case answer of
        Inl e \<Rightarrow> m_error h e
      | Inr r \<Rightarrow> (case m_success h r v of (eff, ok) \<Rightarrow> if ok then eff else eff @ m_error h te))"

definition toast_failure :: "string \<Rightarrow> thrown \<Rightarrow> effect list" where
  "toast_failure failure e = [ToastError (sanitizeErrorMessage e (Some failure))]"

definition no_toast :: "thrown \<Rightarrow> effect list" where
  "no_toast e = []"

record query =
  q_key :: query_key
  q_call :: api_call
  q_enabled :: bool

text \<open>Parameter objects in a key: the properties that are not \<open>undefined\<close>.\<close>

definition obj_str :: "string \<Rightarrow> string option \<Rightarrow> (string \<times> string) list" where
  "obj_str k v = (case v of None \<Rightarrow> [] | Some x \<Rightarrow> [(k, x)])"

definition obj_int :: "string \<Rightarrow> int option \<Rightarrow> (string \<times> string) list" where
  "obj_int k v = (case v of None \<Rightarrow> [] | Some x \<Rightarrow> [(k, show_int x)])"

definition obj_true :: "string \<Rightarrow> bool \<Rightarrow> (string \<times> string) list" where
  "obj_true k v = (if v then [(k, ''true'')] else [])"

definition key_obj :: "('p \<Rightarrow> (string \<times> string) list) \<Rightarrow> 'p option \<Rightarrow> key_part" where
  "key_obj f p = (case p of None \<Rightarrow> KUndef | Some x \<Rightarrow> KObj (f x))"

definition key_int :: "int option \<Rightarrow> key_part" where
  "key_int n = (case n of None \<Rightarrow> KUndef | Some x \<Rightarrow> KNum x)"

definition given :: "'p \<Rightarrow> 'p option \<Rightarrow> 'p" where
  "given dflt p = (case p of None \<Rightarrow> dflt | Some x \<Rightarrow> x)"

text \<open>\<open>res.meta?.total ?? 0\<close>.\<close>

definition meta_total :: "json \<Rightarrow> json" where
  "meta_total res =
     (case opt_prop (opt_prop (Some res) ''meta'') ''total'' of
        None \<Rightarrow> JNum 0 | Some v \<Rightarrow> if v = JNull then JNum 0 else v)"

text \<open>\<open>n > 0\<close> for a property the types declare as a number.\<close>

definition positive :: "json option \<Rightarrow> bool" where
  "positive v = (case v of Some (JNum n) \<Rightarrow> 0 < n | _ \<Rightarrow> False)"


section \<open>What a mutation refreshes\<close>

text \<open>Whether the effects mark a cached query for a refetch, by the key matching of the library.\<close>

definition refetched :: "(query_key \<Rightarrow> query_key \<Rightarrow> bool) \<Rightarrow> effect list \<Rightarrow> query_key \<Rightarrow> bool" where
  "refetched matching effs k =
     list_ex (\<lambda>e. case e of Invalidate fl \<Rightarrow> matching fl k | _ \<Rightarrow> False) effs"

lemma refetched_simps [simp]:
  "refetched matching [] k = False"
  "refetched matching (Invalidate fl # effs) k = (matching fl k \<or> refetched matching effs k)"
  "refetched matching (ToastSuccess t # effs) k = refetched matching effs k"
  "refetched matching (ToastError t # effs) k = refetched matching effs k"
  "refetched matching (SetResponse j r # effs) k = refetched matching effs k"
  by (simp_all add: refetched_def)

lemma refetched_append [simp]:
  "refetched matching (xs @ ys) k = (refetched matching xs k \<or> refetched matching ys k)"
  by (simp add: refetched_def)

lemma settle_failed [simp]: "settle te h v (Inl e) = m_error h e"
  by (simp add: settle_def)

text \<open>A failure shows at most one error toast and touches no query.\<close>

definition quiet :: "effect list \<Rightarrow> bool" where
  "quiet effs \<longleftrightarrow> effs = [] \<or> (\<exists>t. effs = [ToastError t])"

lemma quiet_failures [simp]: "quiet (toast_failure f e)" "quiet (no_toast e)"
  by (simp_all add: quiet_def toast_failure_def no_toast_def)

text \<open>Keys that differ in a literal part do not match.\<close>

lemma literal_mismatch:
  assumes "query_client qc cached matching" "i < length fl" "i < length k"
    "\<forall>ps. fl ! i \<noteq> KObj ps" "fl ! i \<noteq> k ! i"
  shows "\<not> matching fl k"
  using query_client.matches_only [OF assms(1), of fl k i] assms by auto

lemma own_key:
  assumes "query_client qc cached matching"
  shows "matching fl fl" "matching fl (fl @ r)"
  using query_client.matches_prefix [OF assms, of fl "[]"] query_client.matches_prefix [OF assms, of fl r] by simp_all

end
