(* ===== verification/Package_Hooks.thy ===== *)
theory Package_Hooks
  imports Feature_Hooks
begin

text \<open>
  The queries and mutations of \<open>features/packages\<close>: what each mutation refreshes of the cached
  package queries.
\<close>

section \<open>Packages: \<open>use-packages.ts\<close>\<close>

definition package_obj :: "PackageListParams \<Rightarrow> (string \<times> string) list" where
  "package_obj p =
     obj_str ''ecosystem'' (pl_ecosystem p) @
     obj_str ''search'' (pl_search p) @
     obj_str ''status'' (pl_status p) @
     obj_str ''source'' (pl_source p) @
     obj_int ''page'' (pl_page p) @
     obj_int ''limit'' (pl_limit p) @
     obj_str ''sortBy'' (pl_sortBy p) @
     obj_str ''sortDir'' (pl_sortDir p)"

definition no_package_params :: "PackageListParams" where
  "no_package_params =
     \<lparr>pl_ecosystem = None, pl_search = None, pl_status = None, pl_source = None, pl_page = None, pl_limit = None, pl_sortBy = None, pl_sortDir = None\<rparr>"

definition suggestion_obj :: "SuggestionParams \<Rightarrow> (string \<times> string) list" where
  "suggestion_obj p =
     obj_int ''page'' (sg_page p) @
     obj_int ''limit'' (sg_limit p) @
     obj_str ''search'' (sg_search p) @
     obj_str ''ecosystem'' (sg_ecosystem p) @
     obj_str ''sortBy'' (sg_sortBy p) @
     obj_str ''sortDir'' (sg_sortDir p)"

definition no_suggestion_params :: "SuggestionParams" where
  "no_suggestion_params =
     \<lparr>sg_page = None, sg_limit = None, sg_search = None, sg_ecosystem = None, sg_sortBy = None, sg_sortDir = None\<rparr>"

definition stale_obj :: "StaleParams \<Rightarrow> (string \<times> string) list" where
  "stale_obj p =
     obj_int ''months'' (sp_months p) @
     obj_str ''ecosystem'' (sp_ecosystem p) @
     obj_str ''search'' (sp_search p) @
     obj_int ''page'' (sp_page p) @
     obj_int ''limit'' (sp_limit p) @
     obj_str ''sortBy'' (sp_sortBy p) @
     obj_str ''sortDir'' (sp_sortDir p)"

definition no_stale_params :: "StaleParams" where
  "no_stale_params =
     \<lparr>sp_months = None, sp_ecosystem = None, sp_search = None, sp_page = None, sp_limit = None, sp_sortBy = None, sp_sortDir = None\<rparr>"

definition release_obj :: "RecentReleaseParams \<Rightarrow> (string \<times> string) list" where
  "release_obj p =
     obj_int ''page'' (rr_page p) @
     obj_int ''limit'' (rr_limit p) @
     obj_str ''sortBy'' (rr_sortBy p) @
     obj_str ''sortDir'' (rr_sortDir p) @
     obj_str ''search'' (rr_search p) @
     obj_str ''ecosystem'' (rr_ecosystem p) @
     obj_str ''status'' (rr_status p) @
     obj_str ''classification'' (rr_classification p) @
     obj_true ''latestPerPackage'' (rr_latestPerPackage p)"

definition no_release_params :: "RecentReleaseParams" where
  "no_release_params =
     \<lparr>rr_page = None, rr_limit = None, rr_sortBy = None, rr_sortDir = None, rr_search = None, rr_ecosystem = None, rr_status = None, rr_classification = None, rr_latestPerPackage = False\<rparr>"

definition package_all :: "query_key" where
  "package_all =
     [KStr ''packages'']"

definition package_lists :: "query_key" where
  "package_lists =
     package_all @ [KStr ''list'']"

definition package_list :: "PackageListParams option \<Rightarrow> query_key" where
  "package_list p =
     package_lists @ [key_obj package_obj p]"

definition package_details :: "query_key" where
  "package_details =
     package_all @ [KStr ''detail'']"

definition package_detail :: "string \<Rightarrow> query_key" where
  "package_detail i =
     package_details @ [KStr i]"

definition package_releases :: "string \<Rightarrow> int option \<Rightarrow> int option \<Rightarrow> query_key" where
  "package_releases i page limit =
     package_all @ [KStr ''releases'', KStr i, key_int page, key_int limit]"

definition package_history :: "string \<Rightarrow> query_key" where
  "package_history i =
     package_all @ [KStr ''analysis-history'', KStr i]"

definition package_suggestions :: "SuggestionParams option \<Rightarrow> query_key" where
  "package_suggestions p =
     package_all @ [KStr ''suggestions'', key_obj suggestion_obj p]"

definition package_stale :: "StaleParams option \<Rightarrow> query_key" where
  "package_stale p =
     package_all @ [KStr ''stale'', key_obj stale_obj p]"

definition package_suggestion_count :: "query_key" where
  "package_suggestion_count =
     package_all @ [KStr ''suggestion-count'']"

definition usePackages :: "PackageListParams option \<Rightarrow> query" where
  "usePackages p =
     \<lparr>q_key = package_list p, q_call = getPackages (given no_package_params p), q_enabled = True\<rparr>"

definition usePackage :: "string \<Rightarrow> query" where
  "usePackage i =
     \<lparr>q_key = package_detail i, q_call = getPackage i, q_enabled = i \<noteq> []\<rparr>"

definition usePackageReleases :: "string \<Rightarrow> int option \<Rightarrow> int option \<Rightarrow> query" where
  "usePackageReleases i page limit =
     \<lparr>q_key = package_releases i (Some (given 1 page)) (Some (given 50 limit)), q_call = getPackageReleases i (Some (given 1 page)) (Some (given 50 limit)), q_enabled = i \<noteq> []\<rparr>"

definition useCreatePackage :: "(string \<times> string) mutation" where
  "useCreatePackage =
     \<lparr>m_call = (\<lambda>(name, ecosystem). createPackage name ecosystem),
      m_success = (\<lambda>r v. ([Invalidate package_lists, ToastSuccess ''Package added''], True)),
      m_error = toast_failure ''Failed to add package''\<rparr>"

definition useDeletePackage :: "(string) mutation" where
  "useDeletePackage =
     \<lparr>m_call = deletePackage,
      m_success = (\<lambda>r v. ([Invalidate package_lists, ToastSuccess ''Package removed from monitoring''], True)),
      m_error = toast_failure ''Failed to remove package''\<rparr>"

definition useBlockPackage :: "(string \<times> string option) mutation" where
  "useBlockPackage =
     \<lparr>m_call = (\<lambda>(i, reason). blockPackage i reason),
      m_success = (\<lambda>r v. ([Invalidate package_lists, ToastSuccess ''Package blocked''], True)),
      m_error = toast_failure ''Failed to block package''\<rparr>"

definition useUnblockPackage :: "(string) mutation" where
  "useUnblockPackage =
     \<lparr>m_call = unblockPackage,
      m_success = (\<lambda>r v. ([Invalidate package_lists, ToastSuccess ''Package unblocked''], True)),
      m_error = toast_failure ''Failed to unblock package''\<rparr>"

definition useDiscoverPackages :: "(string option) mutation" where
  "useDiscoverPackages =
     \<lparr>m_call = discoverPackages,
      m_success = (\<lambda>r v. ([Invalidate package_lists, ToastSuccess ''Discovery started''], True)),
      m_error = toast_failure ''Failed to trigger discovery''\<rparr>"

text \<open>\<open>const { imported, skipped } = result.data\<close> throws when there is no \<open>data\<close>.\<close>

definition imported_toast :: "json option \<Rightarrow> string" where
  "imported_toast d =
     ''Imported '' @ js_string_opt (opt_prop d ''imported'') @ '' package(s)'' @
     (if positive (opt_prop d ''skipped'') then '', '' @ js_string_opt (opt_prop d ''skipped'') @ '' skipped'' else [])"

definition useBulkImportPackages :: "(string \<times> string) mutation" where
  "useBulkImportPackages =
     \<lparr>m_call = (\<lambda>(fmt, content). bulkImportPackages fmt content),
      m_success = (\<lambda>r v.
        (let d = opt_prop (Some r) ''data'' in
         if nullish d then ([Invalidate package_lists], False)
         else ([Invalidate package_lists, ToastSuccess (imported_toast d)], True))),
      m_error = toast_failure ''Failed to import packages''\<rparr>"

definition useAnalysisHistory :: "string \<Rightarrow> query" where
  "useAnalysisHistory i =
     \<lparr>q_key = package_history i, q_call = getAnalysisHistory i, q_enabled = i \<noteq> []\<rparr>"

definition usePackageSuggestions :: "SuggestionParams option \<Rightarrow> query" where
  "usePackageSuggestions p =
     \<lparr>q_key = package_suggestions p, q_call = getPackageSuggestions (given no_suggestion_params p), q_enabled = True\<rparr>"

definition useApprovePackage :: "(string) mutation" where
  "useApprovePackage =
     \<lparr>m_call = approvePackage,
      m_success = (\<lambda>r v. ([Invalidate package_all, ToastSuccess ''Package approved and added to monitoring''], True)),
      m_error = toast_failure ''Failed to approve package''\<rparr>"

definition useRejectPackage :: "(string) mutation" where
  "useRejectPackage =
     \<lparr>m_call = rejectPackage,
      m_success = (\<lambda>r v. ([Invalidate package_all, ToastSuccess ''Suggestion rejected''], True)),
      m_error = toast_failure ''Failed to reject suggestion''\<rparr>"

definition useBulkApprovePackages :: "(bulk_approve) mutation" where
  "useBulkApprovePackages =
     \<lparr>m_call = bulkApprovePackages,
      m_success = (\<lambda>r v.
        (let d = opt_prop (Some r) ''data'' in
         if nullish d then ([Invalidate package_all], False)
         else ([Invalidate package_all,
               ToastSuccess (''Approved '' @ js_string_opt (opt_prop d ''approved'') @ '' package(s)'')], True))),
      m_error = toast_failure ''Failed to bulk approve packages''\<rparr>"

definition useStalePackages :: "StaleParams option \<Rightarrow> query" where
  "useStalePackages p =
     \<lparr>q_key = package_stale p, q_call = getStalePackages (given no_stale_params p), q_enabled = True\<rparr>"

definition useSuggestionCount :: "query" where
  "useSuggestionCount =
     \<lparr>q_key = package_suggestion_count, q_call = getPackageSuggestions (no_suggestion_params\<lparr>sg_limit := Some 1\<rparr>), q_enabled = True\<rparr>"

record PipelineStatus =
  ps_pending :: int
  ps_diffing :: int
  ps_analyzing :: int

definition hasActiveJobs :: "PipelineStatus option \<Rightarrow> bool" where
  "hasActiveJobs d =
     (case d of None \<Rightarrow> False | Some s \<Rightarrow> ps_pending s > 0 \<or> ps_diffing s > 0 \<or> ps_analyzing s > 0)"

text \<open>The refetch interval in milliseconds; \<^term>\<open>None\<close> is \<open>false\<close>, no polling.\<close>

definition pipeline_refetch :: "PipelineStatus option \<Rightarrow> nat option" where
  "pipeline_refetch d =
     (case d of None \<Rightarrow> Some 10000
      | Some s \<Rightarrow> (let hasActive = ps_pending s > 0 \<or> ps_diffing s > 0 \<or> ps_analyzing s > 0 in
                  if hasActive then Some 10000 else None))"

definition usePipelineStatus :: "query" where
  "usePipelineStatus =
     \<lparr>q_key = [KStr ''pipeline-status''], q_call = getPipelineStatus, q_enabled = True\<rparr>"

section \<open>The mutations of this file\<close>

text \<open>What a user can set off: the request, and what its outcome does.\<close>

inductive package_action :: "thrown \<Rightarrow> api_call \<Rightarrow> ((thrown + json) \<Rightarrow> effect list) \<Rightarrow> bool" where
  "package_action te (m_call useCreatePackage v) (settle te useCreatePackage v)"
| "package_action te (m_call useDeletePackage v) (settle te useDeletePackage v)"
| "package_action te (m_call useBlockPackage v) (settle te useBlockPackage v)"
| "package_action te (m_call useUnblockPackage v) (settle te useUnblockPackage v)"
| "package_action te (m_call useDiscoverPackages v) (settle te useDiscoverPackages v)"
| "package_action te (m_call useBulkImportPackages v) (settle te useBulkImportPackages v)"
| "package_action te (m_call useApprovePackage v) (settle te useApprovePackage v)"
| "package_action te (m_call useRejectPackage v) (settle te useRejectPackage v)"
| "package_action te (m_call useBulkApprovePackages v) (settle te useBulkApprovePackages v)"

lemmas package_action_defs =
  useCreatePackage_def
  useDeletePackage_def
  useBlockPackage_def
  useUnblockPackage_def
  useDiscoverPackages_def
  useBulkImportPackages_def
  useApprovePackage_def
  useRejectPackage_def
  useBulkApprovePackages_def

lemmas package_key_defs =
  package_all_def package_lists_def package_list_def package_details_def package_detail_def
  package_releases_def package_history_def package_suggestions_def package_stale_def package_suggestion_count_def

lemma package_action_call: "package_action te c run \<Longrightarrow> monitor_api c"
  by (induction rule: package_action.induct)
    (auto simp: package_action_defs split: prod.splits intro: monitor_api.intros)

lemma package_action_method: "package_action te c run \<Longrightarrow> opt_method (call_opts c) \<noteq> None"
  by (induction rule: package_action.induct)
    (simp_all add: package_action_defs monitor_api_calls split: prod.split)

lemma package_action_quiet: "package_action te c run \<Longrightarrow> quiet (run (Inl e))"
  by (induction rule: package_action.induct) (simp_all add: package_action_defs)

section \<open>Properties\<close>

text \<open>Deciding on a suggestion refreshes everything that shows packages: whatever the answer's
  body (even one without the \<open>data\<close> a bulk approval reads, where the handler throws), after a
  successful approval or rejection every cached query under the \<open>packages\<close> key is refetched.\<close>

theorem suggestions_refresh_packages:
  assumes "query_client qc cached matching"
  shows "refetched matching (settle te useApprovePackage i (Inr r)) (package_all @ k) \<and>
    refetched matching (settle te useRejectPackage i (Inr r)) (package_all @ k) \<and>
    refetched matching (settle te useBulkApprovePackages b (Inr r)) (package_all @ k)"
  using own_key [OF assms]
  by (simp add: settle_def useApprovePackage_def useRejectPackage_def useBulkApprovePackages_def Let_def)

lemma suggestions_refresh_packages_witness:
  "refetched partial_match (settle OtherVal useBulkApprovePackages ApproveAll (Inr JNull)) (package_detail ''p'')"
  using suggestions_refresh_packages [OF list_cache.query_client_axioms,
    of OtherVal "''i''" JNull "[KStr ''detail'', KStr ''p'']" ApproveAll]
  by (simp add: package_detail_def package_details_def)

text \<open>The writes to the monitored list refresh the package lists and nothing else: after a package
  was removed, blocked or unblocked the open detail page, the stale packages and the suggestions keep
  showing the cached answer, with the package and its old state in it.\<close>

theorem package_writes_refresh_lists_only:
  assumes "query_client qc cached matching"
    and "effs \<in> {settle te useDeletePackage i (Inr r), settle te useBlockPackage (i, reason) (Inr r),
                settle te useUnblockPackage i (Inr r)}"
  shows "refetched matching effs (package_list p) \<and> \<not> refetched matching effs (package_detail i) \<and>
    \<not> refetched matching effs (package_stale s) \<and> \<not> refetched matching effs (package_suggestions g)"
proof -
  have list: "matching package_lists (package_list p)"
    unfolding package_list_def by (rule own_key(2) [OF assms(1)])
  have keys: "\<not> matching package_lists (package_detail i)"
    "\<not> matching package_lists (package_stale s)" "\<not> matching package_lists (package_suggestions g)"
    using literal_mismatch [OF assms(1), of 1 package_lists]
    by (simp_all add: package_key_defs)
  have "effs = [Invalidate package_lists, ToastSuccess ''Package removed from monitoring''] \<or>
    effs = [Invalidate package_lists, ToastSuccess ''Package blocked''] \<or>
    effs = [Invalidate package_lists, ToastSuccess ''Package unblocked'']"
    using assms(2) by (auto simp: settle_def useDeletePackage_def useBlockPackage_def useUnblockPackage_def)
  with list keys show ?thesis by (auto simp only: refetched_simps simp_thms)
qed

lemma package_writes_refresh_lists_only_witness:
  "\<not> refetched partial_match (settle OtherVal useBlockPackage (''p'', None) (Inr JNull)) (package_detail ''p'')"
  using package_writes_refresh_lists_only [OF list_cache.query_client_axioms,
    of "settle OtherVal useBlockPackage (''p'', None) (Inr JNull)" OtherVal "''p''" JNull None None None None] by simp

end
