(* ===== verification/Workspace_Hooks.thy ===== *)
theory Workspace_Hooks
  imports Feature_Hooks
begin

text \<open>
  The queries and mutations of workspaces, members and invitations (\<open>features/admin\<close>) and of
  notification channels and rules (\<open>features/notifications\<close>).
\<close>

section \<open>Workspaces: \<open>use-workspaces.ts\<close> and the invitations\<close>

definition workspace_obj :: "WorkspaceListParams \<Rightarrow> (string \<times> string) list" where
  "workspace_obj p =
     obj_str ''search'' (wl_search p) @
     obj_int ''page'' (wl_page p) @
     obj_int ''limit'' (wl_limit p)"

definition no_workspace_params :: "WorkspaceListParams" where
  "no_workspace_params =
     \<lparr>wl_search = None, wl_page = None, wl_limit = None\<rparr>"

definition audit_obj :: "AuditLogParams \<Rightarrow> (string \<times> string) list" where
  "audit_obj p =
     obj_str ''action'' (al_action p) @
     obj_str ''resource'' (al_resource p) @
     obj_str ''from_date'' (al_from_date p) @
     obj_str ''to_date'' (al_to_date p) @
     obj_int ''page'' (al_page p) @
     obj_int ''limit'' (al_limit p) @
     obj_str ''sort_by'' (al_sort_by p) @
     obj_str ''sort_dir'' (al_sort_dir p)"

definition no_audit_params :: "AuditLogParams" where
  "no_audit_params =
     \<lparr>al_action = None, al_resource = None, al_from_date = None, al_to_date = None, al_page = None, al_limit = None, al_sort_by = None, al_sort_dir = None\<rparr>"

definition workspace_all :: "query_key" where
  "workspace_all =
     [KStr ''workspaces'']"

definition workspace_lists_base :: "query_key" where
  "workspace_lists_base =
     workspace_all @ [KStr ''list'']"

definition workspace_lists :: "WorkspaceListParams option \<Rightarrow> query_key" where
  "workspace_lists p =
     workspace_lists_base @ [key_obj workspace_obj p]"

definition workspace_detail :: "string \<Rightarrow> query_key" where
  "workspace_detail i =
     workspace_all @ [KStr ''detail'', KStr i]"

definition workspace_members :: "string \<Rightarrow> query_key" where
  "workspace_members i =
     workspace_all @ [KStr ''members'', KStr i]"

definition workspace_invitations :: "string \<Rightarrow> query_key" where
  "workspace_invitations i =
     workspace_all @ [KStr ''invitations'', KStr i]"

definition workspace_roles :: "string \<Rightarrow> query_key" where
  "workspace_roles i =
     workspace_all @ [KStr ''roles'', KStr i]"

definition workspace_audit_logs :: "string \<Rightarrow> AuditLogParams option \<Rightarrow> query_key" where
  "workspace_audit_logs i p =
     workspace_all @ [KStr ''audit-logs'', KStr i, key_obj audit_obj p]"

definition useWorkspaces :: "WorkspaceListParams option \<Rightarrow> query" where
  "useWorkspaces p =
     \<lparr>q_key = workspace_lists p, q_call = apiGetWorkspaces (given no_workspace_params p), q_enabled = True\<rparr>"

definition useWorkspace :: "string \<Rightarrow> query" where
  "useWorkspace i =
     \<lparr>q_key = workspace_detail i, q_call = apiGetWorkspace i, q_enabled = i \<noteq> []\<rparr>"

definition useUpdateWorkspace :: "(string \<times> string option \<times> string option) mutation" where
  "useUpdateWorkspace =
     \<lparr>m_call = (\<lambda>(i, name, description). apiUpdateWorkspace i name description),
      m_success = (\<lambda>r v. ([Invalidate (workspace_detail (fst v)), Invalidate workspace_lists_base, ToastSuccess ''Workspace updated''], True)),
      m_error = toast_failure ''Failed to update workspace''\<rparr>"

definition useDeleteWorkspace :: "(string) mutation" where
  "useDeleteWorkspace =
     \<lparr>m_call = apiDeleteWorkspace,
      m_success = (\<lambda>r v. ([Invalidate workspace_lists_base, ToastSuccess ''Workspace deleted''], True)),
      m_error = toast_failure ''Failed to delete workspace''\<rparr>"

definition useWorkspaceMembers :: "string \<Rightarrow> query" where
  "useWorkspaceMembers i =
     \<lparr>q_key = workspace_members i, q_call = apiGetWorkspaceMembers i, q_enabled = i \<noteq> []\<rparr>"

definition useWorkspaceRoles :: "string \<Rightarrow> query" where
  "useWorkspaceRoles i =
     \<lparr>q_key = workspace_roles i, q_call = apiGetWorkspaceRoles i, q_enabled = i \<noteq> []\<rparr>"

definition useInviteMember :: "(string \<times> string \<times> string) mutation" where
  "useInviteMember =
     \<lparr>m_call = (\<lambda>(ws, email, roleId). apiInviteMember ws email roleId),
      m_success = (\<lambda>r v. ([Invalidate (workspace_members (fst v)), Invalidate (workspace_invitations (fst v)), ToastSuccess ''Invitation sent''], True)),
      m_error = toast_failure ''Failed to send invitation''\<rparr>"

definition usePendingInvitations :: "bool \<Rightarrow> string \<Rightarrow> query" where
  "usePendingInvitations registrationEnabled i =
     \<lparr>q_key = workspace_invitations i, q_call = apiGetPendingInvitations i, q_enabled = i \<noteq> [] \<and> registrationEnabled\<rparr>"

definition useRevokeInvitation :: "(string \<times> string) mutation" where
  "useRevokeInvitation =
     \<lparr>m_call = (\<lambda>(ws, invitationId). apiRevokeInvitation ws invitationId),
      m_success = (\<lambda>r v. ([Invalidate (workspace_invitations (fst v)), ToastSuccess ''Invitation revoked''], True)),
      m_error = toast_failure ''Failed to revoke invitation''\<rparr>"

definition useResendInvitation :: "(string \<times> string) mutation" where
  "useResendInvitation =
     \<lparr>m_call = (\<lambda>(ws, invitationId). apiResendInvitation ws invitationId),
      m_success = (\<lambda>r v. ([Invalidate (workspace_invitations (fst v)), ToastSuccess ''Invitation resent''], True)),
      m_error = toast_failure ''Failed to resend invitation''\<rparr>"

definition useRemoveMember :: "(string \<times> string) mutation" where
  "useRemoveMember =
     \<lparr>m_call = (\<lambda>(ws, user). apiRemoveMember ws user),
      m_success = (\<lambda>r v. ([Invalidate (workspace_members (fst v)), ToastSuccess ''Member removed''], True)),
      m_error = toast_failure ''Failed to remove member''\<rparr>"

definition useUpdateMemberRole :: "(string \<times> string \<times> string) mutation" where
  "useUpdateMemberRole =
     \<lparr>m_call = (\<lambda>(ws, user, roleId). apiUpdateMemberRole ws user roleId),
      m_success = (\<lambda>r v. ([Invalidate (workspace_members (fst v)), ToastSuccess ''Member role updated''], True)),
      m_error = toast_failure ''Failed to update role''\<rparr>"

definition useAuditLogs :: "string \<Rightarrow> AuditLogParams option \<Rightarrow> query" where
  "useAuditLogs i p =
     \<lparr>q_key = workspace_audit_logs i p, q_call = apiGetAuditLogs i (given no_audit_params p), q_enabled = i \<noteq> []\<rparr>"

definition added_toast :: "json \<Rightarrow> AddMemberRequest \<Rightarrow> string" where
  "added_toast result data =
     (if truthy (opt_prop (opt_prop (Some result) ''data'') ''userCreated'') then
        (if truthy_str (am_password data)
         then ''User added. They'' @ [CHR 0x27] @ ''ll need to change their password on first login.''
         else ''User added. They'' @ [CHR 0x27] @ ''ll receive an email to set their password.'')
      else ''User added to workspace.'')"

definition useAddMember :: "(string \<times> AddMemberRequest) mutation" where
  "useAddMember =
     \<lparr>m_call = (\<lambda>(ws, data). apiAddMember ws data),
      m_success = (\<lambda>r v. ([Invalidate (workspace_members (fst v)), ToastSuccess (added_toast r (snd v))], True)),
      m_error = toast_failure ''Failed to add member''\<rparr>"

definition my_invitations_key :: query_key where
  "my_invitations_key = [KStr ''my-invitations'']"

definition useMyInvitations :: "bool \<Rightarrow> query" where
  "useMyInvitations registrationEnabled =
     \<lparr>q_key = my_invitations_key, q_call = apiGetMyInvitations, q_enabled = registrationEnabled\<rparr>"

definition useAcceptInvitationById :: "(string) mutation" where
  "useAcceptInvitationById =
     \<lparr>m_call = apiAcceptInvitationById,
      m_success = (\<lambda>r v. ([Invalidate my_invitations_key, ToastSuccess ''Invitation accepted''], True)),
      m_error = toast_failure ''Failed to accept invitation''\<rparr>"

definition useDeclineInvitationById :: "(string) mutation" where
  "useDeclineInvitationById =
     \<lparr>m_call = apiDeclineInvitationById,
      m_success = (\<lambda>r v. ([Invalidate my_invitations_key, ToastSuccess ''Invitation declined''], True)),
      m_error = toast_failure ''Failed to decline invitation''\<rparr>"

definition invitation_by_token :: "string \<Rightarrow> query_key" where
  "invitation_by_token token =
     [KStr ''invitation'', KStr token]"

definition useInvitationByToken :: "bool \<Rightarrow> string \<Rightarrow> query" where
  "useInvitationByToken registrationEnabled token =
     \<lparr>q_key = invitation_by_token token, q_call = apiGetInvitationByToken token, q_enabled = token \<noteq> [] \<and> registrationEnabled\<rparr>"

definition useAcceptInvitation :: "(string \<times> string) mutation" where
  "useAcceptInvitation =
     \<lparr>m_call = (\<lambda>(ws, token). apiAcceptInvitation ws token),
      m_success = (\<lambda>r v. ([], True)),
      m_error = no_toast\<rparr>"

definition useDeclineInvitationByToken :: "(string \<times> string) mutation" where
  "useDeclineInvitationByToken =
     \<lparr>m_call = (\<lambda>(ws, token). apiDeclineInvitationByToken ws token),
      m_success = (\<lambda>r v. ([], True)),
      m_error = no_toast\<rparr>"

definition workspace_role_key :: "string \<Rightarrow> query_key" where
  "workspace_role_key i =
     [KStr ''workspace-role'', KStr ''current'', KStr i]"

section \<open>Notification channels and rules: \<open>use-channels.ts\<close>\<close>

definition channel_list :: "string \<Rightarrow> query_key" where
  "channel_list ws =
     [KStr ''channels'', KStr ''list'', KStr ws]"

definition rule_list :: "string \<Rightarrow> query_key" where
  "rule_list ws =
     [KStr ''rules'', KStr ''list'', KStr ws]"

definition useChannels :: "string option \<Rightarrow> query" where
  "useChannels ws =
     \<lparr>q_key = channel_list (given [] ws), q_call = apiListChannels (given [] ws), q_enabled = truthy_str ws\<rparr>"

definition useCreateChannel :: "string \<Rightarrow> (string \<times> string \<times> string) mutation" where
  "useCreateChannel ws =
     \<lparr>m_call = (\<lambda>(name, ty, config). apiCreateChannel ws name ty config),
      m_success = (\<lambda>r v. ([Invalidate (channel_list ws), ToastSuccess ''Channel created''], True)),
      m_error = toast_failure ''Failed to create channel''\<rparr>"

definition useUpdateChannel :: "string \<Rightarrow> (string \<times> string \<times> string \<times> bool) mutation" where
  "useUpdateChannel ws =
     \<lparr>m_call = (\<lambda>(i, name, config, isActive). apiUpdateChannel ws i name config isActive),
      m_success = (\<lambda>r v. ([Invalidate (channel_list ws), ToastSuccess ''Channel updated''], True)),
      m_error = toast_failure ''Failed to update channel''\<rparr>"

definition useDeleteChannel :: "string \<Rightarrow> (string) mutation" where
  "useDeleteChannel ws =
     \<lparr>m_call = apiDeleteChannel ws,
      m_success = (\<lambda>r v. ([Invalidate (channel_list ws), ToastSuccess ''Channel deleted''], True)),
      m_error = toast_failure ''Failed to delete channel''\<rparr>"

definition useRules :: "string option \<Rightarrow> query" where
  "useRules ws =
     \<lparr>q_key = rule_list (given [] ws), q_call = apiListRules (given [] ws), q_enabled = truthy_str ws\<rparr>"

definition useCreateRule :: "string \<Rightarrow> (string \<times> string) mutation" where
  "useCreateRule ws =
     \<lparr>m_call = (\<lambda>(channel, severity). apiCreateRule ws channel severity),
      m_success = (\<lambda>r v. ([Invalidate (rule_list ws), ToastSuccess ''Rule created''], True)),
      m_error = toast_failure ''Failed to create rule''\<rparr>"

definition useDeleteRule :: "string \<Rightarrow> (string) mutation" where
  "useDeleteRule ws =
     \<lparr>m_call = apiDeleteRule ws,
      m_success = (\<lambda>r v. ([Invalidate (rule_list ws), ToastSuccess ''Rule deleted''], True)),
      m_error = toast_failure ''Failed to delete rule''\<rparr>"

definition useTestChannel :: "string \<Rightarrow> (string) mutation" where
  "useTestChannel ws =
     \<lparr>m_call = testNotificationChannel ws,
      m_success = (\<lambda>r v. ([ToastSuccess ''Test notification sent''], True)),
      m_error = toast_failure ''Failed to send test notification''\<rparr>"

section \<open>The mutations of this file\<close>

text \<open>What a user can set off: the request, and what its outcome does.\<close>

inductive workspace_action :: "thrown \<Rightarrow> api_call \<Rightarrow> ((thrown + json) \<Rightarrow> effect list) \<Rightarrow> bool" where
  "workspace_action te (m_call useUpdateWorkspace v) (settle te useUpdateWorkspace v)"
| "workspace_action te (m_call useDeleteWorkspace v) (settle te useDeleteWorkspace v)"
| "workspace_action te (m_call useInviteMember v) (settle te useInviteMember v)"
| "workspace_action te (m_call useRevokeInvitation v) (settle te useRevokeInvitation v)"
| "workspace_action te (m_call useResendInvitation v) (settle te useResendInvitation v)"
| "workspace_action te (m_call useRemoveMember v) (settle te useRemoveMember v)"
| "workspace_action te (m_call useUpdateMemberRole v) (settle te useUpdateMemberRole v)"
| "workspace_action te (m_call useAddMember v) (settle te useAddMember v)"
| "workspace_action te (m_call useAcceptInvitationById v) (settle te useAcceptInvitationById v)"
| "workspace_action te (m_call useDeclineInvitationById v) (settle te useDeclineInvitationById v)"
| "workspace_action te (m_call useAcceptInvitation v) (settle te useAcceptInvitation v)"
| "workspace_action te (m_call useDeclineInvitationByToken v) (settle te useDeclineInvitationByToken v)"
| "workspace_action te (m_call (useCreateChannel ws) v) (settle te (useCreateChannel ws) v)"
| "workspace_action te (m_call (useUpdateChannel ws) v) (settle te (useUpdateChannel ws) v)"
| "workspace_action te (m_call (useDeleteChannel ws) v) (settle te (useDeleteChannel ws) v)"
| "workspace_action te (m_call (useCreateRule ws) v) (settle te (useCreateRule ws) v)"
| "workspace_action te (m_call (useDeleteRule ws) v) (settle te (useDeleteRule ws) v)"
| "workspace_action te (m_call (useTestChannel ws) v) (settle te (useTestChannel ws) v)"

lemmas workspace_action_defs =
  useUpdateWorkspace_def
  useDeleteWorkspace_def
  useInviteMember_def
  useRevokeInvitation_def
  useResendInvitation_def
  useRemoveMember_def
  useUpdateMemberRole_def
  useAddMember_def
  useAcceptInvitationById_def
  useDeclineInvitationById_def
  useAcceptInvitation_def
  useDeclineInvitationByToken_def
  useCreateChannel_def
  useUpdateChannel_def
  useDeleteChannel_def
  useCreateRule_def
  useDeleteRule_def
  useTestChannel_def

lemma workspace_action_call: "workspace_action te c run \<Longrightarrow> account_api c"
  by (induction rule: workspace_action.induct)
    (auto simp: workspace_action_defs split: prod.splits intro: account_api.intros)

lemma workspace_action_method: "workspace_action te c run \<Longrightarrow> opt_method (call_opts c) \<noteq> None"
  by (induction rule: workspace_action.induct)
    (simp_all add: workspace_action_defs account_api_calls split: prod.split)

lemma workspace_action_quiet: "workspace_action te c run \<Longrightarrow> quiet (run (Inl e))"
  by (induction rule: workspace_action.induct) (simp_all add: workspace_action_defs)

section \<open>Properties\<close>

text \<open>Changing a member's role refreshes the list of members but not the query every role gate
  reads: a user who changes their own role keeps seeing the controls of the old one until the
  cached role expires.\<close>

theorem role_change_keeps_gates:
  assumes "query_client qc cached matching"
  shows "refetched matching (settle te useUpdateMemberRole (ws, user, role) (Inr r)) (workspace_members ws) \<and>
    \<not> refetched matching (settle te useUpdateMemberRole (ws, user, role) (Inr r)) (workspace_role_key j)"
proof -
  have "settle te useUpdateMemberRole (ws, user, role) (Inr r) =
      [Invalidate (workspace_members ws), ToastSuccess ''Member role updated'']"
    by (simp add: settle_def useUpdateMemberRole_def)
  moreover have "\<not> matching (workspace_members ws) (workspace_role_key j)"
    using literal_mismatch [OF assms, of 0 "workspace_members ws" "workspace_role_key j"]
    by (simp add: workspace_members_def workspace_all_def workspace_role_key_def)
  ultimately show ?thesis using own_key(1) [OF assms] by simp
qed

lemma role_change_keeps_gates_witness:
  "\<not> refetched partial_match (settle OtherVal useUpdateMemberRole (''w'', ''u'', ''r'') (Inr JNull)) (workspace_role_key ''w'')"
  using role_change_keeps_gates [OF list_cache.query_client_axioms, of OtherVal "''w''" "''u''" "''r''" JNull "''w''"] by simp

end
