(* ===== verification/Platform_Hooks.thy ===== *)
theory Platform_Hooks
  imports Package_Hooks
begin

text \<open>
  The queries and mutations of releases, dashboard, settings and job queue, of the account, and of
  platform administration and single sign-on.
\<close>

section \<open>Releases, dashboard, settings and queue\<close>

definition release_list :: "RecentReleaseParams option \<Rightarrow> query_key" where
  "release_list p =
     [KStr ''releases'', KStr ''list'', key_obj release_obj p]"

definition release_detail :: "string \<Rightarrow> query_key" where
  "release_detail i =
     [KStr ''releases'', KStr ''detail'', KStr i]"

definition release_hashes :: "string \<Rightarrow> query_key" where
  "release_hashes i =
     [KStr ''releases'', KStr ''hashes'', KStr i]"

definition useRecentReleases :: "RecentReleaseParams option \<Rightarrow> query" where
  "useRecentReleases p =
     \<lparr>q_key = release_list p, q_call = getRecentReleases (given no_release_params p), q_enabled = True\<rparr>"

definition useRelease :: "string \<Rightarrow> query" where
  "useRelease i =
     \<lparr>q_key = release_detail i, q_call = getRelease i, q_enabled = i \<noteq> []\<rparr>"

definition useReleaseHashes :: "string \<Rightarrow> query" where
  "useReleaseHashes i =
     \<lparr>q_key = release_hashes i, q_call = getReleaseHashes i, q_enabled = i \<noteq> []\<rparr>"

definition useReanalyzeRelease :: "string \<Rightarrow> (unit) mutation" where
  "useReanalyzeRelease i =
     \<lparr>m_call = (\<lambda>_. reanalyzeRelease i),
      m_success = (\<lambda>r v. ([Invalidate (release_detail i), ToastSuccess ''Re-analysis queued''], True)),
      m_error = toast_failure ''Failed to queue re-analysis''\<rparr>"

definition dashboard_all :: "query_key" where
  "dashboard_all =
     [KStr ''dashboard'']"

definition dashboard_stats :: "query_key" where
  "dashboard_stats =
     dashboard_all @ [KStr ''stats'']"

definition dashboard_charts :: "(string option \<times> string option) option \<Rightarrow> query_key" where
  "dashboard_charts p =
     dashboard_all @ [KStr ''charts'', key_obj (\<lambda>(from, until). obj_str ''from'' from @ obj_str ''to'' until) p]"

definition dashboard_recent :: "RecentReleaseParams option \<Rightarrow> query_key" where
  "dashboard_recent p =
     dashboard_all @ [KStr ''recent-releases'', key_obj release_obj p]"

definition dashboard_stale :: "int option \<Rightarrow> query_key" where
  "dashboard_stale months =
     dashboard_all @ [KStr ''stale-packages'', key_int months]"

definition useDashboardStats :: "query" where
  "useDashboardStats =
     \<lparr>q_key = dashboard_stats, q_call = getDashboardStats, q_enabled = True\<rparr>"

definition useChartData :: "(string option \<times> string option) option \<Rightarrow> query" where
  "useChartData p =
     \<lparr>q_key = dashboard_charts p, q_call = (case given (None, None) p of (from, until) \<Rightarrow> getChartData from until), q_enabled = True\<rparr>"

definition useDashboardReleases :: "RecentReleaseParams option \<Rightarrow> query" where
  "useDashboardReleases p =
     \<lparr>q_key = dashboard_recent p, q_call = getRecentReleases (given no_release_params p), q_enabled = True\<rparr>"

definition useDashboardStalePackages :: "int option \<Rightarrow> query" where
  "useDashboardStalePackages months =
     \<lparr>q_key = dashboard_stale (Some (given 6 months)), q_call = getStalePackages (no_stale_params\<lparr>sp_months := Some (given 6 months)\<rparr>), q_enabled = True\<rparr>"

definition useDashboardSettings :: "query" where
  "useDashboardSettings =
     \<lparr>q_key = [KStr ''settings''], q_call = getSettings, q_enabled = True\<rparr>"

definition usePendingSuggestionsCount :: "query" where
  "usePendingSuggestionsCount =
     \<lparr>q_key = [KStr ''dashboard'', KStr ''pending-suggestions-count''], q_call = getPackageSuggestions (no_suggestion_params\<lparr>sg_limit := Some 1\<rparr>), q_enabled = True\<rparr>"

definition useShellDashboardStats :: "query" where
  "useShellDashboardStats =
     \<lparr>q_key = [KStr ''shell'', KStr ''stats''], q_call = getDashboardStats, q_enabled = True\<rparr>"

definition settings_all :: "query_key" where
  "settings_all =
     [KStr ''settings'']"

definition settings_package_summary :: "query_key" where
  "settings_package_summary =
     settings_all @ [KStr ''package-summary'']"

definition useSettings :: "query" where
  "useSettings =
     \<lparr>q_key = settings_all, q_call = getSettings, q_enabled = True\<rparr>"

definition useUpdateSettings :: "((string \<times> string) list) mutation" where
  "useUpdateSettings =
     \<lparr>m_call = updateSettings,
      m_success = (\<lambda>r v. ([SetResponse settings_all r, ToastSuccess ''Settings saved''], True)),
      m_error = toast_failure ''Failed to save settings''\<rparr>"

definition useReanalyzeAll :: "(unit) mutation" where
  "useReanalyzeAll =
     \<lparr>m_call = (\<lambda>_. reanalyzeAll),
      m_success = (\<lambda>r v. ([], True)),
      m_error = no_toast\<rparr>"

definition useDiscoverNow :: "(string option) mutation" where
  "useDiscoverNow =
     \<lparr>m_call = discoverPackages,
      m_success = (\<lambda>r v. ([Invalidate [KStr ''packages''], Invalidate settings_package_summary, ToastSuccess ''Discovery started''], True)),
      m_error = toast_failure ''Failed to trigger discovery''\<rparr>"

definition package_count_summary :: "json \<Rightarrow> json \<Rightarrow> json \<times> json" where
  "package_count_summary activeRes suggestionsRes = (meta_total activeRes, meta_total suggestionsRes)"

definition usePackageCountSummary :: "query_key \<times> api_call list" where
  "usePackageCountSummary =
     (settings_package_summary,
      [getPackages (no_package_params\<lparr>pl_status := Some ''active'', pl_limit := Some 1\<rparr>),
       getPackageSuggestions (no_suggestion_params\<lparr>sg_limit := Some 1\<rparr>)])"

definition queue_all :: "query_key" where
  "queue_all =
     [KStr ''queue'']"

definition queue_stats :: "query_key" where
  "queue_stats =
     queue_all @ [KStr ''stats'']"

definition queue_jobs :: "QueueJobsParams \<Rightarrow> query_key" where
  "queue_jobs p =
     queue_all @ [KStr ''jobs'', KObj ([(''type'', queue_type_name (qp_type p)), (''status'', queue_status_name (qp_status p))] @
        obj_int ''page'' (qp_page p) @ obj_int ''limit'' (qp_limit p))]"

definition useQueueStats :: "query" where
  "useQueueStats =
     \<lparr>q_key = queue_stats, q_call = getQueueStats, q_enabled = True\<rparr>"

definition useQueueJobs :: "QueueJobsParams \<Rightarrow> query" where
  "useQueueJobs p =
     \<lparr>q_key = queue_jobs p, q_call = getQueueJobs p, q_enabled = True\<rparr>"

definition useRetryDeadJobs :: "(string option) mutation" where
  "useRetryDeadJobs =
     \<lparr>m_call = retryDeadJobs,
      m_success = (\<lambda>r v. ([Invalidate queue_all], True)),
      m_error = no_toast\<rparr>"

definition useRetryDeadJob :: "(string) mutation" where
  "useRetryDeadJob =
     \<lparr>m_call = retryDeadJob,
      m_success = (\<lambda>r v. ([Invalidate queue_all], True)),
      m_error = no_toast\<rparr>"

section \<open>The account\<close>

definition api_key_list :: "query_key" where
  "api_key_list =
     [KStr ''api-keys'', KStr ''list'']"

definition useApiKeys :: "query" where
  "useApiKeys =
     \<lparr>q_key = api_key_list, q_call = apiGetApiKeys, q_enabled = True\<rparr>"

definition useCreateApiKey :: "(CreateApiKeyRequest) mutation" where
  "useCreateApiKey =
     \<lparr>m_call = apiCreateApiKey,
      m_success = (\<lambda>r v. ([Invalidate api_key_list], True)),
      m_error = toast_failure ''Failed to create API key''\<rparr>"

definition useDeleteApiKey :: "(string) mutation" where
  "useDeleteApiKey =
     \<lparr>m_call = apiDeleteApiKey,
      m_success = (\<lambda>r v. ([Invalidate api_key_list, ToastSuccess ''API key deleted''], True)),
      m_error = toast_failure ''Failed to delete API key''\<rparr>"

definition session_list :: "query_key" where
  "session_list =
     [KStr ''sessions'', KStr ''list'']"

definition useRevokeSession :: "effect list option \<Rightarrow> (string) mutation" where
  "useRevokeSession onRevoked =
     \<lparr>m_call = apiRevokeSession,
      m_success = (\<lambda>r v.
        (Invalidate session_list #
         (case onRevoked of Some eff \<Rightarrow> eff | None \<Rightarrow> [ToastSuccess ''Session revoked'']), True)),
      m_error = toast_failure ''Failed to revoke session''\<rparr>"

definition useUpdateProfile :: "(string \<times> string) mutation" where
  "useUpdateProfile =
     \<lparr>m_call = (\<lambda>(firstName, lastName). apiUpdateProfile firstName lastName),
      m_success = (\<lambda>r v. ([ToastSuccess ''Profile updated''], True)),
      m_error = toast_failure ''Failed to update profile''\<rparr>"

definition useChangePassword :: "(string \<times> string) mutation" where
  "useChangePassword =
     \<lparr>m_call = (\<lambda>(currentPassword, newPassword). apiChangePassword currentPassword newPassword),
      m_success = (\<lambda>r v. ([ToastSuccess ''Password changed successfully''], True)),
      m_error = toast_failure ''Failed to change password''\<rparr>"

definition useSendVerification :: "(unit) mutation" where
  "useSendVerification =
     \<lparr>m_call = (\<lambda>_. apiSendVerificationEmail),
      m_success = (\<lambda>r v. ([ToastSuccess ''Verification email sent. Check your inbox.''], True)),
      m_error = toast_failure ''Failed to send verification email''\<rparr>"

section \<open>Platform administration and single sign-on\<close>

definition platform_user_obj :: "PlatformUserParams \<Rightarrow> (string \<times> string) list" where
  "platform_user_obj p =
     obj_int ''page'' (pu_page p) @
     obj_int ''pageSize'' (pu_pageSize p) @
     obj_str ''search'' (pu_search p) @
     obj_str ''sortBy'' (pu_sortBy p) @
     obj_str ''sortDir'' (pu_sortDir p) @
     obj_str ''status'' (pu_status p) @
     obj_str ''role'' (pu_role p)"

definition platform_audit_obj :: "PlatformAuditLogParams \<Rightarrow> (string \<times> string) list" where
  "platform_audit_obj p =
     obj_int ''page'' (pa_page p) @
     obj_int ''limit'' (pa_limit p) @
     obj_str ''action'' (pa_action p) @
     obj_str ''resource'' (pa_resource p) @
     obj_str ''user_email'' (pa_user_email p) @
     obj_str ''workspace_name'' (pa_workspace_name p) @
     obj_str ''from_date'' (pa_from_date p) @
     obj_str ''to_date'' (pa_to_date p) @
     obj_str ''sort_by'' (pa_sort_by p) @
     obj_str ''sort_dir'' (pa_sort_dir p)"

definition platform_all :: "query_key" where
  "platform_all =
     [KStr ''platform-admin'']"

definition platform_auth_settings :: "query_key" where
  "platform_auth_settings =
     platform_all @ [KStr ''auth-settings'']"

definition platform_users :: "PlatformUserParams option \<Rightarrow> query_key" where
  "platform_users p =
     platform_all @ [KStr ''users'', key_obj platform_user_obj p]"

definition platform_user :: "string \<Rightarrow> query_key" where
  "platform_user i =
     platform_all @ [KStr ''user'', KStr i]"

definition platform_audit_logs :: "PlatformAuditLogParams option \<Rightarrow> query_key" where
  "platform_audit_logs p =
     platform_all @ [KStr ''audit-logs'', key_obj platform_audit_obj p]"

definition usePlatformUsers :: "PlatformUserParams \<Rightarrow> query" where
  "usePlatformUsers p =
     \<lparr>q_key = platform_users (Some p), q_call = apiGetPlatformUsers p, q_enabled = True\<rparr>"

definition usePlatformUser :: "string \<Rightarrow> query" where
  "usePlatformUser i =
     \<lparr>q_key = platform_user i, q_call = apiGetPlatformUser i, q_enabled = i \<noteq> []\<rparr>"

text \<open>\<open>error.message || "Failed to update user"\<close>: the text of the error, not passed through the sanitizer.\<close>

definition raw_failure :: "string \<Rightarrow> thrown \<Rightarrow> effect list" where
  "raw_failure failure e = [ToastError (case e of ErrorObj m \<Rightarrow> if m = [] then failure else m | _ \<Rightarrow> failure)]"

definition useUpdatePlatformUser :: "((string \<times> UpdatePlatformUserRequest) \<times> string \<times> string option) mutation" where
  "useUpdatePlatformUser =
     \<lparr>m_call = (\<lambda>((i, req), confirmPassword, _). apiUpdatePlatformUser i req confirmPassword),
      m_success = (\<lambda>r v. ([Invalidate platform_all, ToastSuccess (case snd (snd v) of None \<Rightarrow> ''User updated'' | Some m \<Rightarrow> if m = [] then ''User updated'' else m)], True)),
      m_error = raw_failure ''Failed to update user''\<rparr>"

definition usePlatformAuditLogs :: "PlatformAuditLogParams \<Rightarrow> query" where
  "usePlatformAuditLogs p =
     \<lparr>q_key = platform_audit_logs (Some p), q_call = apiGetPlatformAuditLogs p, q_enabled = True\<rparr>"

definition fixed_failure :: "string \<Rightarrow> thrown \<Rightarrow> effect list" where
  "fixed_failure failure e = [ToastError failure]"

definition useAuthSettings :: "query" where
  "useAuthSettings =
     \<lparr>q_key = platform_auth_settings, q_call = apiGetAuthSettings, q_enabled = True\<rparr>"

definition useUpdateAuthSettings :: "(bool option) mutation" where
  "useUpdateAuthSettings =
     \<lparr>m_call = apiUpdateAuthSettings,
      m_success = (\<lambda>r v. ([Invalidate platform_auth_settings, ToastSuccess ''Auth settings updated''], True)),
      m_error = fixed_failure ''Failed to update auth settings''\<rparr>"

definition sso_providers :: "query_key" where
  "sso_providers =
     [KStr ''sso'', KStr ''providers'']"

definition sso_configs :: "query_key" where
  "sso_configs =
     [KStr ''sso'', KStr ''configs'']"

definition sso_identities :: "query_key" where
  "sso_identities =
     [KStr ''sso'', KStr ''identities'']"

definition sso_config :: "string \<Rightarrow> query_key" where
  "sso_config i =
     [KStr ''sso'', KStr ''config'', KStr i]"

definition usePlatformSSOConfigs :: "query" where
  "usePlatformSSOConfigs =
     \<lparr>q_key = sso_configs, q_call = apiGetPlatformSSOConfigs, q_enabled = True\<rparr>"

definition usePlatformSSOConfig :: "string \<Rightarrow> query" where
  "usePlatformSSOConfig i =
     \<lparr>q_key = sso_config i, q_call = apiGetPlatformSSOConfig i, q_enabled = i \<noteq> []\<rparr>"

definition useCreatePlatformSSOConfig :: "(CreateSSOConfigRequest) mutation" where
  "useCreatePlatformSSOConfig =
     \<lparr>m_call = apiCreatePlatformSSOConfig,
      m_success = (\<lambda>r v. ([Invalidate sso_configs, Invalidate sso_providers, ToastSuccess ''SSO configuration created''], True)),
      m_error = fixed_failure ''Failed to create SSO configuration''\<rparr>"

definition useUpdatePlatformSSOConfig :: "(string \<times> UpdateSSOConfigRequest) mutation" where
  "useUpdatePlatformSSOConfig =
     \<lparr>m_call = (\<lambda>(i, req). apiUpdatePlatformSSOConfig i req),
      m_success = (\<lambda>r v. ([Invalidate sso_configs, Invalidate sso_providers, Invalidate (sso_config (fst v)), ToastSuccess ''SSO configuration updated''], True)),
      m_error = fixed_failure ''Failed to update SSO configuration''\<rparr>"

definition useDeletePlatformSSOConfig :: "(string) mutation" where
  "useDeletePlatformSSOConfig =
     \<lparr>m_call = apiDeletePlatformSSOConfig,
      m_success = (\<lambda>r v. ([Invalidate sso_configs, Invalidate sso_providers, Invalidate sso_identities, ToastSuccess ''SSO configuration deleted''], True)),
      m_error = fixed_failure ''Failed to delete SSO configuration''\<rparr>"

definition test_toast :: "json \<Rightarrow> effect" where
  "test_toast response =
     (let d = opt_prop (Some response) ''data''; m = opt_prop d ''message'' in
      if truthy (opt_prop d ''success'')
      then ToastSuccess (if truthy m then js_string_opt m else ''SSO connectivity test passed'')
      else ToastError (if truthy m then js_string_opt m else ''SSO connectivity test failed''))"

definition useTestPlatformSSOConfig :: "(string) mutation" where
  "useTestPlatformSSOConfig =
     \<lparr>m_call = apiTestPlatformSSOConfig,
      m_success = (\<lambda>r v. ([test_toast r], True)),
      m_error = fixed_failure ''Failed to test SSO configuration''\<rparr>"

definition useImportSAMLMetadata :: "(string) mutation" where
  "useImportSAMLMetadata =
     \<lparr>m_call = apiImportSAMLMetadata,
      m_success = (\<lambda>r v. ([ToastSuccess ''SAML metadata imported successfully''], True)),
      m_error = fixed_failure ''Failed to import SAML metadata from URL''\<rparr>"

definition useSAMLSPCertificate :: "query" where
  "useSAMLSPCertificate =
     \<lparr>q_key = [KStr ''sso'', KStr ''saml'', KStr ''sp-certificate''], q_call = apiGetSAMLSPCertificate, q_enabled = True\<rparr>"

definition useLinkedIdentities :: "query" where
  "useLinkedIdentities =
     \<lparr>q_key = sso_identities, q_call = apiGetLinkedIdentities, q_enabled = True\<rparr>"

definition useUnlinkIdentity :: "(string) mutation" where
  "useUnlinkIdentity =
     \<lparr>m_call = apiUnlinkIdentity,
      m_success = (\<lambda>r v. ([Invalidate sso_identities], True)),
      m_error = no_toast\<rparr>"

definition useSSOProviders :: "query" where
  "useSSOProviders =
     \<lparr>q_key = sso_providers, q_call = apiGetSSOProviders, q_enabled = True\<rparr>"

section \<open>The mutations of this file\<close>

text \<open>What a user can set off: the request, and what its outcome does.\<close>

inductive platform_action :: "thrown \<Rightarrow> api_call \<Rightarrow> ((thrown + json) \<Rightarrow> effect list) \<Rightarrow> bool" where
  "platform_action te (m_call (useReanalyzeRelease i) v) (settle te (useReanalyzeRelease i) v)"
| "platform_action te (m_call useUpdateSettings v) (settle te useUpdateSettings v)"
| "platform_action te (m_call useReanalyzeAll v) (settle te useReanalyzeAll v)"
| "platform_action te (m_call useDiscoverNow v) (settle te useDiscoverNow v)"
| "platform_action te (m_call useRetryDeadJobs v) (settle te useRetryDeadJobs v)"
| "platform_action te (m_call useRetryDeadJob v) (settle te useRetryDeadJob v)"
| "platform_action te (m_call useCreateApiKey v) (settle te useCreateApiKey v)"
| "platform_action te (m_call useDeleteApiKey v) (settle te useDeleteApiKey v)"
| "platform_action te (m_call (useRevokeSession onRevoked) v) (settle te (useRevokeSession onRevoked) v)"
| "platform_action te (m_call useUpdateProfile v) (settle te useUpdateProfile v)"
| "platform_action te (m_call useChangePassword v) (settle te useChangePassword v)"
| "platform_action te (m_call useSendVerification v) (settle te useSendVerification v)"
| "platform_action te (m_call useUpdatePlatformUser v) (settle te useUpdatePlatformUser v)"
| "platform_action te (m_call useUpdateAuthSettings v) (settle te useUpdateAuthSettings v)"
| "platform_action te (m_call useCreatePlatformSSOConfig v) (settle te useCreatePlatformSSOConfig v)"
| "platform_action te (m_call useUpdatePlatformSSOConfig v) (settle te useUpdatePlatformSSOConfig v)"
| "platform_action te (m_call useDeletePlatformSSOConfig v) (settle te useDeletePlatformSSOConfig v)"
| "platform_action te (m_call useTestPlatformSSOConfig v) (settle te useTestPlatformSSOConfig v)"
| "platform_action te (m_call useImportSAMLMetadata v) (settle te useImportSAMLMetadata v)"
| "platform_action te (m_call useUnlinkIdentity v) (settle te useUnlinkIdentity v)"

lemmas platform_action_defs =
  useReanalyzeRelease_def
  useUpdateSettings_def
  useReanalyzeAll_def
  useDiscoverNow_def
  useRetryDeadJobs_def
  useRetryDeadJob_def
  useCreateApiKey_def
  useDeleteApiKey_def
  useRevokeSession_def
  useUpdateProfile_def
  useChangePassword_def
  useSendVerification_def
  useUpdatePlatformUser_def
  useUpdateAuthSettings_def
  useCreatePlatformSSOConfig_def
  useUpdatePlatformSSOConfig_def
  useDeletePlatformSSOConfig_def
  useTestPlatformSSOConfig_def
  useImportSAMLMetadata_def
  useUnlinkIdentity_def

lemma platform_action_call: "platform_action te c run \<Longrightarrow> monitor_api c \<or> account_api c"
  by (induction rule: platform_action.induct)
    (auto simp: platform_action_defs split: prod.splits intro: monitor_api.intros account_api.intros)

lemma platform_action_method: "platform_action te c run \<Longrightarrow> opt_method (call_opts c) \<noteq> None"
  by (induction rule: platform_action.induct)
    (simp_all add: platform_action_defs monitor_api_calls account_api_calls split: prod.split)

lemma platform_action_quiet: "platform_action te c run \<Longrightarrow> quiet (run (Inl e))"
  by (induction rule: platform_action.induct)
    (simp_all add: platform_action_defs raw_failure_def fixed_failure_def quiet_def toast_failure_def no_toast_def)

end
