(* ===== verification/Alerts.thy ===== *)
theory Alerts
  imports Feature_Hooks
begin

text \<open>
  Alerts (\<open>domains/alerts\<close>, \<open>features/alerts\<close>): the optimistic status change, the notes of an
  alert with the state machine of their timeline, and the view models the notes are drawn from.
\<close>

section \<open>Alerts and their queries\<close>

record Alert =
  a_id :: string
  a_workspaceId :: string
  a_analysisId :: "string option"
  a_packageId :: string
  a_releaseId :: "string option"
  a_severity :: string
  a_status :: string
  a_message :: string
  a_packageName :: "string option"
  a_packageEcosystem :: "string option"
  a_createdAt :: string
  a_updatedAt :: string

record AlertNote =
  an_id :: string
  an_workspaceId :: string
  an_alertId :: string
  an_userId :: string
  an_userEmail :: string
  an_content :: string
  an_createdAt :: string
  an_updatedAt :: string

definition alert_all :: query_key where
  "alert_all = [KStr ''alerts'']"

definition alert_lists :: query_key where
  "alert_lists = alert_all @ [KStr ''list'']"

definition alert_obj :: "AlertListParams \<Rightarrow> (string \<times> string) list" where
  "alert_obj p =
     obj_str ''severity'' (ap_severity p) @ obj_str ''status'' (ap_status p) @ obj_str ''search'' (ap_search p) @
     obj_int ''page'' (ap_page p) @ obj_int ''limit'' (ap_limit p) @
     obj_str ''sortBy'' (ap_sortBy p) @ obj_str ''sortDir'' (ap_sortDir p)"

definition alert_list :: "AlertListParams option \<Rightarrow> query_key" where
  "alert_list p = alert_lists @ [key_obj alert_obj p]"

definition alert_detail :: "string \<Rightarrow> query_key" where
  "alert_detail i = alert_all @ [KStr ''detail'', KStr i]"

definition alert_notes :: "string \<Rightarrow> query_key" where
  "alert_notes i = alert_all @ [KStr ''notes'', KStr i]"

definition no_alert_params :: AlertListParams where
  "no_alert_params = \<lparr>ap_severity = None, ap_status = None, ap_search = None, ap_page = None,
     ap_limit = None, ap_sortBy = None, ap_sortDir = None\<rparr>"

definition useAlert :: "string \<Rightarrow> query" where
  "useAlert i = \<lparr>q_key = alert_detail i, q_call = getAlert i, q_enabled = i \<noteq> []\<rparr>"

definition useAlerts :: "AlertListParams option \<Rightarrow> query" where
  "useAlerts p =
     \<lparr>q_key = alert_list p, q_call = getAlerts (given no_alert_params p), q_enabled = True\<rparr>"

section \<open>Changing the status of an alert\<close>

text \<open>A list query holds its array; an answer with a null \<open>data\<close> makes the updater throw.\<close>

type_synonym alert_cached = "Alert list api_response"

definition has_data :: "query_key \<times> alert_cached option \<Rightarrow> bool" where
  "has_data e = (case snd e of None \<Rightarrow> True | Some r \<Rightarrow> res_data r \<noteq> None)"

definition set_status :: "string \<Rightarrow> string \<Rightarrow> Alert list \<Rightarrow> Alert list" where
  "set_status i st = map (\<lambda>a. if a_id a = i then a\<lparr>a_status := st\<rparr> else a)"

definition update_alerts :: "string \<Rightarrow> string \<Rightarrow> alert_cached option \<Rightarrow> alert_cached option" where
  "update_alerts i st old =
     (case old of None \<Rightarrow> None | Some r \<Rightarrow> Some (r\<lparr>res_data := map_option (set_status i st) (res_data r)\<rparr>))"

text \<open>
  \<open>onMutate\<close>: the updated cache and the snapshot, or, when the updater threw, the cache with the
  lists before the offending one updated. \<open>setQueriesData\<close> calls \<open>setQueryData\<close> for one matching
  query after the other.
\<close>

definition alert_mutate ::
  "('c, alert_cached) client_ops \<Rightarrow> string \<Rightarrow> string \<Rightarrow> 'c \<Rightarrow> 'c + 'c \<times> (query_key \<times> alert_cached option) list" where
  "alert_mutate qc i st c =
     (let previousQueries = getQueriesData qc alert_lists c in
      if list_all has_data previousQueries
      then Inr (setQueriesData qc alert_lists (update_alerts i st) c, previousQueries)
      else Inl (fold (\<lambda>(k, _). setQueryData qc k (update_alerts i st)) (takeWhile has_data previousQueries) c))"

text \<open>
  One run of \<open>useUpdateAlert\<close>, with the request it sends, if any, the effects and the cache. What
  \<open>onMutate\<close> throws (\<open>te\<close>) ends the run before the request, in \<open>onError\<close> without a context.
\<close>

definition useUpdateAlert ::
  "('c, alert_cached) client_ops \<Rightarrow> thrown \<Rightarrow> string \<Rightarrow> string \<Rightarrow> (thrown + json) \<Rightarrow> 'c \<Rightarrow>
   api_call option \<times> effect list \<times> 'c" where
  "useUpdateAlert qc te i st answer c =
     (case alert_mutate qc i st c of
        Inl c' \<Rightarrow> (None, [Cancel alert_lists, ToastError (sanitizeErrorMessage te (Some ''Failed to update alert status'')),
                         Invalidate alert_lists], c')
      | Inr (c', previousQueries) \<Rightarrow>
          (Some (updateAlertStatus i st),
           (case answer of
              Inr _ \<Rightarrow> ([Cancel alert_lists, ToastSuccess (''Alert '' @ st), Invalidate alert_lists], c')
            | Inl e \<Rightarrow> ([Cancel alert_lists,
                        ToastError (sanitizeErrorMessage e (Some ''Failed to update alert status'')),
                        Invalidate alert_lists], restore qc previousQueries c'))))"

section \<open>The mutations of the notes\<close>

definition useAlertNotes :: "string \<Rightarrow> query" where
  "useAlertNotes i = \<lparr>q_key = alert_notes i, q_call = getAlertNotes i, q_enabled = i \<noteq> []\<rparr>"

definition useCreateAlertNote :: "string \<Rightarrow> string mutation" where
  "useCreateAlertNote i =
     \<lparr>m_call = createAlertNote i,
      m_success = (\<lambda>r v. ([Invalidate (alert_notes i), ToastSuccess ''Note added''], True)),
      m_error = toast_failure ''Failed to add note''\<rparr>"

definition useUpdateAlertNote :: "string \<Rightarrow> (string \<times> string) mutation" where
  "useUpdateAlertNote i =
     \<lparr>m_call = (\<lambda>(noteId, content). updateAlertNote i noteId content),
      m_success = (\<lambda>r v. ([Invalidate (alert_notes i), ToastSuccess ''Note updated''], True)),
      m_error = toast_failure ''Failed to update note''\<rparr>"

definition useDeleteAlertNote :: "string \<Rightarrow> string mutation" where
  "useDeleteAlertNote i =
     \<lparr>m_call = deleteAlertNote i,
      m_success = (\<lambda>r v. ([Invalidate (alert_notes i), ToastSuccess ''Note deleted''], True)),
      m_error = toast_failure ''Failed to delete note''\<rparr>"

section \<open>View models\<close>

fun split_when :: "(char \<Rightarrow> bool) \<Rightarrow> string \<Rightarrow> string list" where
  "split_when P [] = [[]]"
| "split_when P (c # s) =
     (if P c then [] # split_when P s
      else (case split_when P s of [] \<Rightarrow> [[c]] | w # ws \<Rightarrow> (c # w) # ws))"

definition getInitials :: "string \<Rightarrow> string" where
  "getInitials email =
     (if email = [] then ''?''
      else
        (let name = hd (split_char (CHR ''@'') email);
             parts = filter (\<lambda>p. p \<noteq> []) (split_when (\<lambda>c. c \<in> set ''._-'') name) in
         case parts of
           p # q # _ \<Rightarrow> toUpperCase [hd p, hd q]
         | _ \<Rightarrow> toUpperCase (take 2 name)))"

text \<open>Instants in milliseconds, \<^term>\<open>None\<close> the \<open>NaN\<close> of an unreadable date; the host prints dates.\<close>

definition formatRelativeTime :: "string \<Rightarrow> int \<Rightarrow> int option \<Rightarrow> string" where
  "formatRelativeTime locale_date now instant =
     (case instant of
        None \<Rightarrow> locale_date
      | Some at \<Rightarrow>
          (let diffMs = now - at; minutes = diffMs div 60000; hours = minutes div 60; days = hours div 24 in
           if diffMs < 0 then ''just now''
           else if minutes < 1 then ''just now''
           else if minutes < 60 then show_int minutes @ ''m ago''
           else if hours < 24 then show_int hours @ ''h ago''
           else if days < 7 then show_int days @ ''d ago''
           else locale_date))"

record AlertNoteViewModel =
  vm_id :: string
  vm_alertId :: string
  vm_userId :: string
  vm_userEmail :: string
  vm_userInitials :: string
  vm_content :: string
  vm_createdAt :: string
  vm_updatedAt :: string
  vm_relativeTime :: string
  vm_isEdited :: bool

text \<open>The host's \<open>Date\<close>: how it reads a timestamp and how it prints the date of one.\<close>

record dates =
  getTime :: "string \<Rightarrow> int option"
  toLocaleDateString :: "string \<Rightarrow> string"
  Date_now :: int

definition toAlertNoteViewModel :: "dates \<Rightarrow> AlertNote \<Rightarrow> AlertNoteViewModel" where
  "toAlertNoteViewModel d n =
     \<lparr>vm_id = an_id n, vm_alertId = an_alertId n, vm_userId = an_userId n, vm_userEmail = an_userEmail n,
      vm_userInitials = getInitials (an_userEmail n), vm_content = an_content n,
      vm_createdAt = an_createdAt n, vm_updatedAt = an_updatedAt n,
      vm_relativeTime = formatRelativeTime (toLocaleDateString d (an_createdAt n)) (Date_now d) (getTime d (an_createdAt n)),
      vm_isEdited = (case (getTime d (an_updatedAt n), getTime d (an_createdAt n)) of
          (Some u, Some c) \<Rightarrow> u - c > 1000 | _ \<Rightarrow> False)\<rparr>"

definition toAlertNoteViewModels :: "dates \<Rightarrow> AlertNote list \<Rightarrow> AlertNoteViewModel list" where
  "toAlertNoteViewModels d = map (toAlertNoteViewModel d)"

section \<open>The timeline of notes\<close>

text \<open>The message of the schema's first issue, if it has one; a length counts UTF-16 code units.\<close>

definition alertNoteSchema :: "string \<Rightarrow> string option" where
  "alertNoteSchema content =
     (if length content < 1 then Some ''Note content is required''
      else if length content > 5000 then Some ''Note too long'' else None)"

record timeline =
  noteContent :: string
  noteError :: string
  editingNoteId :: "string option"
  editContent :: string
  editError :: string
  deletingNote :: "AlertNoteViewModel option"

definition mount_timeline :: timeline where
  "mount_timeline = \<lparr>noteContent = [], noteError = [], editingNoteId = None, editContent = [],
     editError = [], deletingNote = None\<rparr>"

text \<open>
  The handlers up to their \<open>await\<close>, with the request they start; the rest of each runs when a
  request has succeeded (a refused one rejects and the rest never runs).
\<close>

definition handleAddNote :: "string \<Rightarrow> timeline \<Rightarrow> timeline \<times> api_call option" where
  "handleAddNote alert s =
     (let content = trim (noteContent s) in
      case alertNoteSchema content of
        Some msg \<Rightarrow> (s\<lparr>noteError := msg\<rparr>, None)
      | None \<Rightarrow> (s\<lparr>noteError := []\<rparr>, Some (m_call (useCreateAlertNote alert) content)))"

definition note_added :: "timeline \<Rightarrow> timeline" where
  "note_added s = s\<lparr>noteContent := []\<rparr>"

definition handleStartEdit :: "AlertNoteViewModel \<Rightarrow> timeline \<Rightarrow> timeline" where
  "handleStartEdit n s = s\<lparr>editingNoteId := Some (vm_id n), editContent := vm_content n\<rparr>"

definition handleCancelEdit :: "timeline \<Rightarrow> timeline" where
  "handleCancelEdit s = s\<lparr>editingNoteId := None, editContent := []\<rparr>"

definition handleSaveEdit :: "string \<Rightarrow> timeline \<Rightarrow> timeline \<times> api_call option" where
  "handleSaveEdit alert s =
     (case editingNoteId s of
        None \<Rightarrow> (s, None)
      | Some noteId \<Rightarrow>
          (let trimmed = trim (editContent s) in
           case alertNoteSchema trimmed of
             Some msg \<Rightarrow> (s\<lparr>editError := msg\<rparr>, None)
           | None \<Rightarrow> (s\<lparr>editError := []\<rparr>, Some (m_call (useUpdateAlertNote alert) (noteId, trimmed)))))"

definition edit_saved :: "timeline \<Rightarrow> timeline" where
  "edit_saved s = s\<lparr>editingNoteId := None, editContent := []\<rparr>"

definition handleConfirmDelete :: "string \<Rightarrow> timeline \<Rightarrow> timeline \<times> api_call option" where
  "handleConfirmDelete alert s =
     (case deletingNote s of None \<Rightarrow> (s, None)
      | Some n \<Rightarrow> (s, Some (m_call (useDeleteAlertNote alert) (vm_id n))))"

definition note_deleted :: "timeline \<Rightarrow> timeline" where
  "note_deleted s = s\<lparr>deletingNote := None\<rparr>"

text \<open>What the timeline hands to the item of a note.\<close>

definition shown_edit :: "timeline \<Rightarrow> AlertNoteViewModel \<Rightarrow> (string \<times> string) option" where
  "shown_edit s n = (if editingNoteId s = Some (vm_id n) then Some (editContent s, editError s) else None)"

definition canSave :: "string \<Rightarrow> AlertNoteViewModel \<Rightarrow> bool \<Rightarrow> bool" where
  "canSave content n isSaving \<longleftrightarrow>
     length (trim content) > 0 \<and> trim content \<noteq> vm_content n \<and> \<not> isSaving"

section \<open>Properties\<close>

lemma update_alerts_None_iff [simp]: "update_alerts i st old = None \<longleftrightarrow> old = None"
  by (simp add: update_alerts_def split: option.splits)

lemma updated_alerts [simp]: "updated (update_alerts i st) old = update_alerts i st old"
  by (auto simp: updated_def update_alerts_def split: option.splits)

lemma list_not_detail:
  assumes "query_client qc cached matching"
  shows "\<not> matching alert_lists (alert_detail i)" "\<not> matching alert_lists (alert_notes i)"
  using literal_mismatch [OF assms, of 1 alert_lists]
  by (simp_all add: alert_lists_def alert_all_def alert_detail_def alert_notes_def)

lemma update_run_failed:
  assumes "list_all has_data (getQueriesData qc alert_lists c)"
  shows "snd (snd (useUpdateAlert qc te i st (Inl e) c)) =
    restore qc (getQueriesData qc alert_lists c) (setQueriesData qc alert_lists (update_alerts i st) c)"
  using assms by (simp add: useUpdateAlert_def alert_mutate_def Let_def)

text \<open>A status change the backend refuses is undone exactly: after the rollback every cached
  query has the data it had, whatever lists were open and whatever the filters of each.\<close>

theorem refused_status_change_restores:
  assumes qc: "query_client qc cached matching" and "list_all has_data (getQueriesData qc alert_lists c)"
  shows "getQueryData qc k (snd (snd (useUpdateAlert qc te i st (Inl e) c))) = getQueryData qc k c"
  using query_client.data_cached [OF qc, of k c]
  by (cases "getQueryData qc k c") (auto simp: update_run_failed [OF assms(2)] query_client.restore_queries [OF qc]
      query_client.get_set_all [OF qc])

definition sample_alert :: Alert where
  "sample_alert = \<lparr>a_id = ''a1'', a_workspaceId = ''w'', a_analysisId = None, a_packageId = ''p'', a_releaseId = None,
     a_severity = ''high'', a_status = ''new'', a_message = ''m'', a_packageName = None, a_packageEcosystem = None,
     a_createdAt = '''', a_updatedAt = ''''\<rparr>"

definition alert_cache :: "alert_cached list_cache" where
  "alert_cache =
     [(alert_list None, \<lparr>res_data = Some [sample_alert], res_error = None, res_meta = None\<rparr>),
      (alert_detail ''a1'', \<lparr>res_data = Some [sample_alert], res_error = None, res_meta = None\<rparr>)]"

lemma alert_cache_has_data: "list_all has_data (getQueriesData list_client alert_lists alert_cache)"
  by (simp add: list_client_def alert_cache_def has_data_def list_all_iff)

lemma refused_status_change_restores_witness:
  "getQueryData list_client (alert_list None)
     (snd (snd (useUpdateAlert list_client OtherVal ''a1'' ''resolved'' (Inl OtherVal) alert_cache))) =
   getQueryData list_client (alert_list None) alert_cache"
  by (rule refused_status_change_restores [OF list_cache.query_client_axioms alert_cache_has_data])

text \<open>A status change reaches the alert lists only. Whatever the answer, the cached detail of the
  alert is neither updated nor marked for a refetch, so the detail page, which offers the
  change, keeps showing the old status with its buttons after the success toast.\<close>

theorem status_change_misses_detail:
  assumes qc: "query_client qc cached matching" and "list_all has_data (getQueriesData qc alert_lists c)"
  shows "getQueryData qc (alert_detail i) (snd (snd (useUpdateAlert qc te i st answer c))) =
      getQueryData qc (alert_detail i) c \<and>
    \<not> refetched matching (fst (snd (useUpdateAlert qc te i st answer c))) (alert_detail i) \<and>
    fst (useUpdateAlert qc te i st answer c) = Some (updateAlertStatus i st)"
  using assms(2) list_not_detail [OF qc, of i]
  by (auto simp: useUpdateAlert_def alert_mutate_def Let_def query_client.restore_queries [OF qc]
      query_client.get_set_all [OF qc] refetched_def split: sum.splits)

lemma status_change_misses_detail_witness:
  "getQueryData list_client (alert_detail ''a1'')
     (snd (snd (useUpdateAlert list_client OtherVal ''a1'' ''resolved'' (Inr JNull) alert_cache))) =
   Some \<lparr>res_data = Some [sample_alert], res_error = None, res_meta = None\<rparr>"
  using status_change_misses_detail [OF list_cache.query_client_axioms alert_cache_has_data,
    of "''a1''" OtherVal "''resolved''" "Inr JNull"]
  by (simp add: list_client_def alert_cache_def alert_list_def alert_detail_def alert_lists_def alert_all_def)

text \<open>A note goes out exactly when its trimmed text has between one and 5000 characters, and
  it goes out trimmed; otherwise nothing is sent and the form shows why. Both the new note and an
  edit are held to it.\<close>

theorem notes_sent_valid:
  "snd (handleAddNote alert s) =
      (if length (trim (noteContent s)) \<in> {1..5000} then Some (createAlertNote alert (trim (noteContent s))) else None) \<and>
   (noteError (fst (handleAddNote alert s)) = [] \<longleftrightarrow> snd (handleAddNote alert s) \<noteq> None) \<and>
   snd (handleSaveEdit alert s) =
      (case editingNoteId s of None \<Rightarrow> None
       | Some i \<Rightarrow> if length (trim (editContent s)) \<in> {1..5000}
                  then Some (updateAlertNote alert i (trim (editContent s))) else None)"
  by (auto simp: handleAddNote_def handleSaveEdit_def alertNoteSchema_def Let_def useCreateAlertNote_def
      useUpdateAlertNote_def Suc_le_eq split: option.split)

text \<open>The timeline mixes up its notes. The error of a refused edit stays when the edit is
  cancelled and is shown under the next note that is edited; text typed while a note is being
  sent is erased when the answer arrives; and an edit of another note begun meanwhile is closed
  with its text lost.\<close>

theorem timeline_loses_text:
  assumes "editingNoteId s = Some i" and "alertNoteSchema (trim (editContent s)) = Some msg"
  shows "shown_edit (handleStartEdit n (handleCancelEdit (fst (handleSaveEdit alert s)))) n = Some (vm_content n, msg) \<and>
    noteContent (note_added (fst (handleAddNote alert s')\<lparr>noteContent := typed\<rparr>)) = [] \<and>
    shown_edit (edit_saved ((handleStartEdit n (fst (handleSaveEdit alert s'')))\<lparr>editContent := typed\<rparr>)) n = None"
  using assms by (simp add: shown_edit_def handleStartEdit_def handleCancelEdit_def handleSaveEdit_def
      note_added_def edit_saved_def Let_def)

definition sample_view :: AlertNoteViewModel where
  "sample_view = \<lparr>vm_id = ''n2'', vm_alertId = ''a1'', vm_userId = ''u'', vm_userEmail = ''u@x.org'', vm_userInitials = ''U'',
     vm_content = ''fine'', vm_createdAt = '''', vm_updatedAt = '''', vm_relativeTime = '''', vm_isEdited = False\<rparr>"

lemma timeline_loses_text_witness:
  "shown_edit (handleStartEdit sample_view (handleCancelEdit
     (fst (handleSaveEdit ''a1'' (mount_timeline\<lparr>editingNoteId := Some ''n1'', editContent := '' ''\<rparr>))))) sample_view =
   Some (''fine'', ''Note content is required'')"
proof -
  have "alertNoteSchema (trim (editContent (mount_timeline\<lparr>editingNoteId := Some ''n1'', editContent := '' ''\<rparr>))) =
      Some ''Note content is required''" by code_simp
  from timeline_loses_text [OF _ this, where n = sample_view and alert = "''a1''" and i = "''n1''"]
  show ?thesis by (simp add: sample_view_def)
qed

end
