(* ===== verification/Validation.thy ===== *)
theory Validation
  imports Regex "HOL-Library.AList"
begin

text \<open>
  The form schemas of \<open>src/frontend/src/domains\<close>. A schema is read as the list of issues it
  reports, path and message, in the order of its fields and checks: the validation library runs
  every check of a field and collects what fails, as it documents. Which strings the library's own
  formats (email, URL) accept is an argument of the schemas that use them.
\<close>

section \<open>Issues\<close>

type_synonym issues = "(string \<times> string) list"

definition checks :: "string \<Rightarrow> (bool \<times> string) list \<Rightarrow> issues" where
  "checks field cs = map (\<lambda>(_, msg). (field, msg)) (filter (\<lambda>(ok, _). \<not> ok) cs)"

lemma checks_simps [simp]:
  "checks field [] = []"
  "checks field ((ok, msg) # cs) = (if ok then checks field cs else (field, msg) # checks field cs)"
  by (simp_all add: checks_def)

text \<open>The first message of each field.\<close>

definition parseFieldErrors :: "issues \<Rightarrow> (string \<times> string) list" where
  "parseFieldErrors iss =
     fold (\<lambda>(key, msg) fields.
       if (case map_of fields key of None \<Rightarrow> True | Some m \<Rightarrow> m = []) then AList.update key msg fields else fields) iss []"

section \<open>Patterns\<close>

definition digits_rx :: rx where "digits_rx = plus digit"

definition duration_rx :: rx where
  "duration_rx = Seq (plus digit) (Cls (\<lambda>c. c \<in> set ''smhd''))"

definition not_space_at :: rx where
  "not_space_at = Cls (\<lambda>c. \<not> is_space c \<and> c \<noteq> CHR ''@'')"

definition emailRegex :: pattern where
  "emailRegex = whole (seqs [plus not_space_at, ch (CHR ''@''), plus not_space_at, ch (CHR ''.''), plus not_space_at])"

definition slug_char :: "char \<Rightarrow> bool" where
  "slug_char c \<longleftrightarrow> is_lower c \<or> is_digit c"

definition slug_rx :: rx where
  "slug_rx = Seq (plus (Cls slug_char)) (Star (Seq (ch (CHR ''-'')) (plus (Cls slug_char))))"

definition all_digits :: "string \<Rightarrow> bool" where
  "all_digits s \<longleftrightarrow> test (whole digits_rx) s"

definition is_duration :: "string \<Rightarrow> bool" where
  "is_duration s \<longleftrightarrow> test (whole duration_rx) s"

text \<open>
  \<open>lo <= Number(s) && Number(s) <= hi\<close>. The number of a string of digits is its value, up to a
  rounding far above the bounds used; for a string the digit pattern rejects, \<open>loose\<close> says
  whether what \<open>Number\<close> makes of it lies between the bounds.
\<close>

definition number_between :: "(string \<Rightarrow> bool) \<Rightarrow> nat \<Rightarrow> nat \<Rightarrow> string \<Rightarrow> bool" where
  "number_between loose lo hi s \<longleftrightarrow> (if all_digits s then lo \<le> read_nat s \<and> read_nat s \<le> hi else loose s)"

definition email_list :: "string \<Rightarrow> string list" where
  "email_list s = filter (\<lambda>e. e \<noteq> []) (map trim (split_char (CHR '','') s))"

section \<open>Settings: \<open>domains/settings/validations\<close>\<close>

text \<open>\<open>undefined\<close> and the empty string pass every check of an optional field.\<close>

definition optional_ok :: "(string \<Rightarrow> bool) \<Rightarrow> string option \<Rightarrow> bool" where
  "optional_ok P v = (case v of None \<Rightarrow> True | Some s \<Rightarrow> s = [] \<or> P s)"

definition numericString :: "string \<Rightarrow> string option \<Rightarrow> bool \<times> string" where
  "numericString label v = (optional_ok all_digits v, label @ '' must be a number'')"

definition durationString :: "string \<Rightarrow> string option \<Rightarrow> bool \<times> string" where
  "durationString label v =
     (optional_ok is_duration v, label @ '' must be a duration (e.g., 30m, 1h, 24h)'')"

definition optionalCommaSeparatedEmails :: "string option \<Rightarrow> bool \<times> string" where
  "optionalCommaSeparatedEmails v =
     (optional_ok (\<lambda>s. list_all (test emailRegex) (email_list s)) v, ''All entries must be valid email addresses'')"

definition optional_enum :: "string list \<Rightarrow> string \<Rightarrow> string option \<Rightarrow> bool \<times> string" where
  "optional_enum vs msg v = (case v of None \<Rightarrow> True | Some s \<Rightarrow> s \<in> set vs, msg)"

record settings_input =
  monitoring_interval :: "string option"
  discovery_scan_depth :: "string option"
  discovery_interval :: "string option"
  discovery_auto_approve :: "string option"
  stale_auto_remove_months :: "string option"
  package_count_warning_threshold :: "string option"
  email_digest_enabled :: "string option"
  email_digest_frequency :: "string option"
  email_digest_recipients :: "string option"

text \<open>The text of an enum's issue is the library's: \<open>enum_msg\<close>.\<close>

definition settingsSchema :: "(string \<Rightarrow> bool) \<Rightarrow> string \<Rightarrow> settings_input \<Rightarrow> issues" where
  "settingsSchema loose enum_msg s =
     checks ''monitoring_interval'' [durationString ''Monitoring interval'' (monitoring_interval s)] @
     checks ''discovery_scan_depth''
       [numericString ''Discovery scan depth'' (discovery_scan_depth s),
        (optional_ok (number_between loose 0 1000) (discovery_scan_depth s), ''Must be at most 1,000'')] @
     checks ''discovery_interval'' [durationString ''Discovery interval'' (discovery_interval s)] @
     checks ''discovery_auto_approve'' [optional_enum [''true'', ''false''] enum_msg (discovery_auto_approve s)] @
     checks ''stale_auto_remove_months'' [numericString ''Stale auto-remove months'' (stale_auto_remove_months s)] @
     checks ''package_count_warning_threshold''
       [numericString ''Package count warning threshold'' (package_count_warning_threshold s)] @
     checks ''email_digest_enabled'' [optional_enum [''true'', ''false''] enum_msg (email_digest_enabled s)] @
     checks ''email_digest_frequency'' [optional_enum [''daily'', ''weekly''] enum_msg (email_digest_frequency s)] @
     checks ''email_digest_recipients'' [optionalCommaSeparatedEmails (email_digest_recipients s)]"

record onboarding_settings =
  os_discovery_scan_depth :: string
  os_monitoring_interval :: string
  os_discovery_interval :: string

definition onboardingSettingsSchema :: "(string \<Rightarrow> bool) \<Rightarrow> onboarding_settings \<Rightarrow> issues" where
  "onboardingSettingsSchema loose s =
     checks ''discovery_scan_depth''
       [(1 \<le> length (os_discovery_scan_depth s), ''Discovery scan depth is required''),
        (all_digits (os_discovery_scan_depth s), ''Must be a number''),
        (number_between loose 1 1000 (os_discovery_scan_depth s), ''Must be between 1 and 1,000'')] @
     checks ''monitoring_interval''
       [(1 \<le> length (os_monitoring_interval s), ''Monitoring interval is required''),
        (is_duration (os_monitoring_interval s), ''Must be a duration (e.g., 30m, 1h, 6h)'')] @
     checks ''discovery_interval''
       [(1 \<le> length (os_discovery_interval s), ''Discovery interval is required''),
        (is_duration (os_discovery_interval s), ''Must be a duration (e.g., 12h, 24h, 7d)'')]"

section \<open>Workspaces: \<open>domains/admin/validations\<close>\<close>

definition invitationSchema :: "(string \<Rightarrow> bool) \<Rightarrow> string \<Rightarrow> string \<Rightarrow> issues" where
  "invitationSchema is_email email roleId =
     checks ''email'' [(is_email email, ''Please enter a valid email address'')] @
     checks ''roleId'' [(1 \<le> length roleId, ''Please select a role'')]"

definition workspace_name_checks :: "string \<Rightarrow> issues" where
  "workspace_name_checks name =
     checks ''name''
       [(2 \<le> length name, ''Workspace name must be at least 2 characters''),
        (length name \<le> 100, ''Workspace name must be at most 100 characters'')]"

definition description_checks :: "string option \<Rightarrow> issues" where
  "description_checks d =
     checks ''description''
       [(case d of None \<Rightarrow> True | Some s \<Rightarrow> length s \<le> 500, ''Description must be at most 500 characters'')]"

definition workspaceSchema :: "string \<Rightarrow> string \<Rightarrow> string option \<Rightarrow> issues" where
  "workspaceSchema name slug description =
     workspace_name_checks name @
     checks ''slug''
       [(2 \<le> length slug, ''Slug must be at least 2 characters''),
        (length slug \<le> 50, ''Slug must be at most 50 characters''),
        (test (whole slug_rx) slug, ''Slug must be lowercase letters, numbers, and hyphens'')] @
     description_checks description"

definition workspaceUpdateSchema :: "string \<Rightarrow> string option \<Rightarrow> issues" where
  "workspaceUpdateSchema name description = workspace_name_checks name @ description_checks description"

section \<open>Packages: \<open>domains/packages/validations\<close>\<close>

definition ecosystem_ok :: "string \<Rightarrow> bool" where
  "ecosystem_ok e \<longleftrightarrow> e \<in> {''python'', ''npm'', ''go''}"

text \<open>The issues, and the name of the parsed value: the trim runs after the length check.\<close>

definition packageSchema :: "string \<Rightarrow> string \<Rightarrow> issues \<times> string" where
  "packageSchema name ecosystem =
     (checks ''name'' [(1 \<le> length name, ''Package name is required'')] @
      checks ''ecosystem'' [(ecosystem_ok ecosystem, ''Select an ecosystem'')], trim name)"

definition bulkImportEntrySchema :: "string \<Rightarrow> string \<Rightarrow> issues" where
  "bulkImportEntrySchema name ecosystem =
     checks ''name'' [(1 \<le> length name, ''Package name is required'')] @
     checks ''ecosystem'' [(ecosystem_ok ecosystem, ''Invalid ecosystem'')]"

section \<open>Channels: \<open>domains/notifications/validations\<close>\<close>

definition commaSeparatedEmails :: "string \<Rightarrow> (bool \<times> string) list" where
  "commaSeparatedEmails v =
     [(1 \<le> length v, ''At least one recipient email is required''),
      (list_all (test emailRegex) (email_list v), ''All entries must be valid email addresses'')]"

definition emailConfigSchema :: "(string \<Rightarrow> bool) \<Rightarrow> string \<Rightarrow> string \<Rightarrow> string \<Rightarrow> string \<Rightarrow> issues" where
  "emailConfigSchema is_email host port from recipients =
     checks ''host'' [(1 \<le> length host, ''SMTP host is required'')] @
     checks ''port'' [(1 \<le> length port, ''SMTP port is required''), (all_digits port, ''Port must be a number'')] @
     checks ''from'' [(is_email from, ''Must be a valid email address'')] @
     checks ''to'' (commaSeparatedEmails recipients)"

definition slackConfigSchema :: "(string \<Rightarrow> bool) \<Rightarrow> string \<Rightarrow> issues" where
  "slackConfigSchema is_url webhookUrl =
     checks ''webhookUrl''
       [(is_url webhookUrl, ''Must be a valid URL''),
        (startsWith webhookUrl ''https://hooks.slack.com/'', ''Must start with https://hooks.slack.com/'')]"

definition webhookConfigSchema :: "(string \<Rightarrow> bool) \<Rightarrow> string \<Rightarrow> issues" where
  "webhookConfigSchema is_url url =
     checks ''url''
       [(is_url url, ''Must be a valid URL''),
        (startsWith url ''http://'' \<or> startsWith url ''https://'', ''Must start with http:// or https://'')]"

definition channelSchema :: "string \<Rightarrow> string \<Rightarrow> issues" where
  "channelSchema name ty =
     checks ''name'' [(1 \<le> length name, ''Channel name is required'')] @
     checks ''type'' [(ty \<in> {''email'', ''slack'', ''webhook''}, ''Select a channel type'')]"

definition notificationRuleSchema :: "string \<Rightarrow> string \<Rightarrow> issues" where
  "notificationRuleSchema channelId severity =
     checks ''channelId'' [(1 \<le> length channelId, ''Channel is required'')] @
     checks ''severity'' [(severity \<in> {''critical'', ''high'', ''medium'', ''low''}, ''Select a severity level'')]"

section \<open>Authentication: \<open>domains/auth\<close>\<close>

definition PASSWORD_MIN :: nat where "PASSWORD_MIN = 8"
definition PASSWORD_MAX :: nat where "PASSWORD_MAX = 72"

definition passwordChecked :: "string \<Rightarrow> (bool \<times> string) list" where
  "passwordChecked p =
     [(PASSWORD_MIN \<le> length p, ''Password must be at least '' @ show_nat PASSWORD_MIN @ '' characters''),
      (length p \<le> PASSWORD_MAX, ''Password must be at most '' @ show_nat PASSWORD_MAX @ '' characters'')]"

definition loginSchema :: "(string \<Rightarrow> bool) \<Rightarrow> string \<Rightarrow> string \<Rightarrow> issues" where
  "loginSchema is_email email password =
     checks ''email'' [(is_email email, ''Please enter a valid email address'')] @
     checks ''password'' [(1 \<le> length password, ''Password is required'')]"

definition registerSchema ::
  "(string \<Rightarrow> bool) \<Rightarrow> string \<Rightarrow> string \<Rightarrow> string \<Rightarrow> string \<Rightarrow> string \<Rightarrow> issues" where
  "registerSchema is_email firstName lastName email password confirmPassword =
     checks ''firstName'' [(1 \<le> length firstName, ''First name is required'')] @
     checks ''lastName'' [(1 \<le> length lastName, ''Last name is required'')] @
     checks ''email'' [(is_email email, ''Please enter a valid email address'')] @
     checks ''password'' (passwordChecked password) @
     checks ''confirmPassword'' [(1 \<le> length confirmPassword, ''Please confirm your password'')] @
     checks ''confirmPassword'' [(password = confirmPassword, ''Passwords do not match'')]"

definition profileSchema :: "string \<Rightarrow> string \<Rightarrow> issues" where
  "profileSchema firstName lastName =
     checks ''firstName'' [(1 \<le> length firstName, ''First name is required'')] @
     checks ''lastName'' [(1 \<le> length lastName, ''Last name is required'')]"

definition passwordResetSchema :: "(string \<Rightarrow> bool) \<Rightarrow> string \<Rightarrow> issues" where
  "passwordResetSchema is_email email = checks ''email'' [(is_email email, ''Please enter a valid email address'')]"

definition passwordChangeSchema :: "string \<Rightarrow> string \<Rightarrow> string \<Rightarrow> issues" where
  "passwordChangeSchema currentPassword newPassword confirmPassword =
     checks ''currentPassword'' [(1 \<le> length currentPassword, ''Current password is required'')] @
     checks ''newPassword'' (passwordChecked newPassword) @
     checks ''confirmPassword'' [(1 \<le> length confirmPassword, ''Please confirm your new password'')] @
     checks ''confirmPassword'' [(newPassword = confirmPassword, ''Passwords do not match'')]"

definition newPasswordSchema :: "string \<Rightarrow> string \<Rightarrow> issues" where
  "newPasswordSchema password confirmPassword =
     checks ''password'' (passwordChecked password) @
     checks ''confirmPassword'' [(1 \<le> length confirmPassword, ''Please confirm your password'')] @
     checks ''confirmPassword'' [(password = confirmPassword, ''Passwords do not match'')]"

record PasswordStrengthResult =
  label :: string
  color :: string
  width :: string

definition strength_score :: "string \<Rightarrow> nat" where
  "strength_score p =
     (if length p \<ge> 8 then 1 else 0) + (if length p \<ge> 12 then 1 else 0) +
     (if list_ex is_upper p then 1 else 0) + (if list_ex is_digit p then 1 else 0) +
     (if list_ex (\<lambda>c. \<not> (is_upper c \<or> is_lower c \<or> is_digit c)) p then 1 else 0)"

definition getPasswordStrength :: "string \<Rightarrow> PasswordStrengthResult option" where
  "getPasswordStrength p =
     (if p = [] then None
      else (let score = strength_score p in
        if score \<le> 1 then Some \<lparr>label = ''Weak'', color = ''bg-red-500'', width = ''w-1/4''\<rparr>
        else if score \<le> 3 then Some \<lparr>label = ''Medium'', color = ''bg-yellow-500'', width = ''w-2/4''\<rparr>
        else Some \<lparr>label = ''Strong'', color = ''bg-green-500'', width = ''w-full''\<rparr>))"

section \<open>Properties\<close>

text \<open>Whatever settings the onboarding wizard accepts, the settings page accepts as well: its
  schema is the weaker one, so a workspace is never created with settings its own form rejects.\<close>

theorem onboarding_settings_accepted:
  assumes "onboardingSettingsSchema loose s = []"
  shows "settingsSchema loose enum_msg
     \<lparr>monitoring_interval = Some (os_monitoring_interval s), discovery_scan_depth = Some (os_discovery_scan_depth s),
      discovery_interval = Some (os_discovery_interval s), discovery_auto_approve = None,
      stale_auto_remove_months = None, package_count_warning_threshold = None, email_digest_enabled = None,
      email_digest_frequency = None, email_digest_recipients = None\<rparr> = []"
  using assms
  by (auto simp: onboardingSettingsSchema_def settingsSchema_def durationString_def numericString_def
      optional_ok_def optional_enum_def optionalCommaSeparatedEmails_def number_between_def split: if_splits)

definition default_settings :: onboarding_settings where
  "default_settings = \<lparr>os_discovery_scan_depth = ''100'', os_monitoring_interval = ''1h'', os_discovery_interval = ''24h''\<rparr>"

lemma default_settings_ok: "onboardingSettingsSchema loose default_settings = []"
proof -
  have "all_digits ''100''" "is_duration ''1h''" "is_duration ''24h''" by code_simp+
  then show ?thesis
    by (simp add: onboardingSettingsSchema_def default_settings_def number_between_def read_nat_def digit_value_def)
qed

lemma onboarding_settings_accepted_witness:
  "settingsSchema (\<lambda>_. False) ''enum''
     \<lparr>monitoring_interval = Some ''1h'', discovery_scan_depth = Some ''100'',
      discovery_interval = Some ''24h'', discovery_auto_approve = None,
      stale_auto_remove_months = None, package_count_warning_threshold = None, email_digest_enabled = None,
      email_digest_frequency = None, email_digest_recipients = None\<rparr> = []"
  using onboarding_settings_accepted [OF default_settings_ok, of "\<lambda>_. False" "''enum''"]
  by (simp add: default_settings_def)

lemma checks_empty_iff: "checks f cs = [] \<longleftrightarrow> (\<forall>(ok, m) \<in> set cs. ok)"
  by (auto simp: checks_def filter_empty_conv)



lemma trim_blank: "\<forall>c \<in> set s. is_space c \<Longrightarrow> trim s = []"
  unfolding trim_def dropWhile_eq_Nil_conv [THEN iffD2] by simp

lemma split_char_subset: "w \<in> set (split_char c s) \<Longrightarrow> set w \<subseteq> set s"
proof (induction s arbitrary: w)
  case (Cons x s)
  obtain v vs where "split_char c s = v # vs" by (cases "split_char c s") simp_all
  with Cons show ?case by (cases "x = c") fastforce+
qed simp

text \<open>An email channel can be saved that mails nobody. The recipients are split at commas and empty
  entries dropped before the addresses are checked, so a text of commas and blanks passes the
  schema with no recipient at all, although the field demands at least one.\<close>

theorem email_channel_without_recipients:
  assumes "recipients \<noteq> []" and "set recipients \<subseteq> {CHR '','', CHR '' ''}"
  shows "email_list recipients = [] \<and>
    emailConfigSchema is_email host port from recipients =
      filter (\<lambda>i. fst i \<noteq> ''to'') (emailConfigSchema is_email host port from recipients)"
proof -
  have "trim w = []" if "w \<in> set (split_char (CHR '','') recipients)" for w
  proof -
    have "set w \<subseteq> {CHR '' ''}" using split_char_subset [OF that] split_char_parts [OF that] assms(2) by auto
    then have "\<forall>c \<in> set w. is_space c" by (auto simp: is_space_def)
    then show ?thesis by (rule trim_blank)
  qed
  then have none: "email_list recipients = []" by (auto simp: email_list_def filter_empty_conv)
  then show ?thesis using assms(1)
    by (auto simp: emailConfigSchema_def commaSeparatedEmails_def Suc_le_eq)
qed

lemma email_channel_without_recipients_witness:
  "emailConfigSchema (\<lambda>_. True) ''smtp'' ''25'' ''a@b.c'' '', ,'' = []"
proof -
  have "all_digits ''25''" by code_simp
  with email_channel_without_recipients [of "'', ,''" "\<lambda>_. True" "''smtp''" "''25''" "''a@b.c''"]
  show ?thesis by (simp add: emailConfigSchema_def commaSeparatedEmails_def)
qed

text \<open>The package schema checks the length before it trims: a name of blanks passes, and the
  name of the parsed value is empty.\<close>

theorem blank_package_name_passes:
  assumes "name \<noteq> []" and "\<forall>c \<in> set name. is_space c" and "ecosystem_ok ecosystem"
  shows "packageSchema name ecosystem = ([], [])"
  using assms by (simp add: packageSchema_def Suc_le_eq trim_blank)

lemma blank_package_name_passes_witness: "packageSchema '' '' ''npm'' = ([], [])"
  by (rule blank_package_name_passes) (simp_all add: is_space_def ecosystem_ok_def)

end
