(* ===== verification/Onboarding.thy ===== *)
theory Onboarding
  imports Validation Feature_Hooks Routes
begin

text \<open>
  The onboarding wizard (\<open>features/onboarding\<close>): the suggested slug, the six steps as a state machine
  whose events are the callbacks each step's form is given, the sequence of requests at its
  end, and the check that decides whether it is shown.
\<close>

section \<open>The suggested slug\<close>

text \<open>\<open>s.replace(/P+/g, "-")\<close> for a class \<open>P\<close>.\<close>

fun dash_runs :: "(char \<Rightarrow> bool) \<Rightarrow> string \<Rightarrow> string" where
  "dash_runs P [] = []"
| "dash_runs P [c] = (if P c then ''-'' else [c])"
| "dash_runs P (c # d # s) =
     (if P c then (if P d then dash_runs P (d # s) else CHR ''-'' # dash_runs P (d # s))
      else c # dash_runs P (d # s))"

text \<open>\<open>s.replace(/^-|-$/g, "")\<close>.\<close>

definition drop_first_dash :: "string \<Rightarrow> string" where
  "drop_first_dash s = (case s of c # t \<Rightarrow> if c = CHR ''-'' then t else s | [] \<Rightarrow> [])"

definition drop_edge_dashes :: "string \<Rightarrow> string" where
  "drop_edge_dashes s = rev (drop_first_dash (rev (drop_first_dash s)))"

definition toSlug :: "string \<Rightarrow> string" where
  "toSlug name =
     (let s = toLowerCase name;
          s = filter (\<lambda>c. is_lower c \<or> is_digit c \<or> is_space c \<or> c = CHR ''-'') s;
          s = dash_runs is_space s;
          s = dash_runs (\<lambda>c. c = CHR ''-'') s in
      drop_edge_dashes s)"

section \<open>The wizard\<close>

record WorkspaceFormData =
  wf_name :: string
  wf_slug :: string
  wf_description :: string

record AddedPackage =
  ap_id :: string
  ap_name :: string
  ap_ecosystem :: string

record DiscoveryPreference =
  dp_enabled :: bool
  dp_ecosystem :: "string option"

record onboarding =
  currentStep :: nat
  workspaceForm :: WorkspaceFormData
  slugManuallyEdited :: bool
  settingsErrors :: "(string \<times> string) list"
  settingsSkipped :: bool
  settingsForm :: onboarding_settings
  addedPackages :: "AddedPackage list"
  localIdCounter :: nat
  discoveryPreference :: DiscoveryPreference
  isSubmitting :: bool

definition TOTAL_STEPS :: nat where "TOTAL_STEPS = 6"

definition mount_onboarding :: onboarding where
  "mount_onboarding =
     \<lparr>currentStep = 1, workspaceForm = \<lparr>wf_name = [], wf_slug = [], wf_description = []\<rparr>,
      slugManuallyEdited = False, settingsErrors = [], settingsSkipped = False,
      settingsForm = \<lparr>os_discovery_scan_depth = ''100'', os_monitoring_interval = ''1h'', os_discovery_interval = ''24h''\<rparr>,
      addedPackages = [], localIdCounter = 0,
      discoveryPreference = \<lparr>dp_enabled = False, dp_ecosystem = None\<rparr>, isSubmitting = False\<rparr>"

datatype workspace_field = FieldName | FieldSlug | FieldDescription

definition updateWorkspaceField :: "workspace_field \<Rightarrow> string \<Rightarrow> onboarding \<Rightarrow> onboarding" where
  "updateWorkspaceField field value s =
     (let prev = workspaceForm s in
      case field of
        FieldName \<Rightarrow> s\<lparr>workspaceForm := (if \<not> slugManuallyEdited s then prev\<lparr>wf_name := value, wf_slug := toSlug value\<rparr>
                                        else prev\<lparr>wf_name := value\<rparr>)\<rparr>
      | FieldSlug \<Rightarrow> s\<lparr>workspaceForm := prev\<lparr>wf_slug := value\<rparr>, slugManuallyEdited := True\<rparr>
      | FieldDescription \<Rightarrow> s\<lparr>workspaceForm := prev\<lparr>wf_description := value\<rparr>\<rparr>)"

datatype settings_field = FieldDepth | FieldMonitoring | FieldDiscovery

definition updateSettingsField :: "settings_field \<Rightarrow> string \<Rightarrow> onboarding \<Rightarrow> onboarding" where
  "updateSettingsField field value s =
     s\<lparr>settingsForm := (case field of
         FieldDepth \<Rightarrow> (settingsForm s)\<lparr>os_discovery_scan_depth := value\<rparr>
       | FieldMonitoring \<Rightarrow> (settingsForm s)\<lparr>os_monitoring_interval := value\<rparr>
       | FieldDiscovery \<Rightarrow> (settingsForm s)\<lparr>os_discovery_interval := value\<rparr>)\<rparr>"

definition goNext :: "onboarding \<Rightarrow> onboarding" where
  "goNext s = s\<lparr>currentStep := min (currentStep s + 1) TOTAL_STEPS\<rparr>"

definition goBack :: "onboarding \<Rightarrow> onboarding" where
  "goBack s = s\<lparr>currentStep := max (currentStep s - 1) 1\<rparr>"

text \<open>The submit handler of the second step, which validates before it calls \<open>handleCreateWorkspace\<close>.\<close>

definition handleCreateWorkspace :: "onboarding \<Rightarrow> onboarding" where
  "handleCreateWorkspace s = goNext s"

definition submit_workspace :: "onboarding \<Rightarrow> onboarding \<times> (string \<times> string) list" where
  "submit_workspace s =
     (let f = workspaceForm s; iss = workspaceSchema (wf_name f) (wf_slug f) (Some (wf_description f)) in
      if iss \<noteq> [] then (s, parseFieldErrors iss) else (handleCreateWorkspace s, []))"

text \<open>Here the last message of a field wins.\<close>

definition handleSaveSettings :: "(string \<Rightarrow> bool) \<Rightarrow> onboarding \<Rightarrow> onboarding" where
  "handleSaveSettings loose s =
     (let iss = onboardingSettingsSchema loose (settingsForm s) in
      if iss \<noteq> [] then s\<lparr>settingsErrors := fold (\<lambda>(key, msg). AList.update key msg) iss []\<rparr>
      else goNext (s\<lparr>settingsErrors := [], settingsSkipped := False\<rparr>))"

definition handleSkipSettings :: "onboarding \<Rightarrow> onboarding" where
  "handleSkipSettings s = s\<lparr>settingsSkipped := True, currentStep := 4\<rparr>"

definition handleAddPackage :: "nat \<Rightarrow> string \<Rightarrow> string \<Rightarrow> onboarding \<Rightarrow> onboarding \<times> effect list" where
  "handleAddPackage now name ecosystem s =
     (if list_ex (\<lambda>p. ap_name p = name \<and> ap_ecosystem p = ecosystem) (addedPackages s)
      then (s, [ToastError ''This package has already been added''])
      else (s\<lparr>localIdCounter := localIdCounter s + 1,
              addedPackages := addedPackages s @
                [\<lparr>ap_id = ''local-'' @ show_nat now @ ''-'' @ show_nat (localIdCounter s + 1),
                  ap_name = name, ap_ecosystem = ecosystem\<rparr>]\<rparr>, []))"

text \<open>The submit handler of the fourth step: the schema's first message, or the trimmed name is added.\<close>

definition handleAdd :: "nat \<Rightarrow> string \<Rightarrow> string \<Rightarrow> onboarding \<Rightarrow> onboarding \<times> string option" where
  "handleAdd now name ecosystem s =
     (case fst (packageSchema name ecosystem) of
        (_, msg) # _ \<Rightarrow> (s, Some msg)
      | [] \<Rightarrow> (fst (handleAddPackage now (trim name) ecosystem s), None))"

definition handleRemovePackage :: "string \<Rightarrow> onboarding \<Rightarrow> onboarding" where
  "handleRemovePackage i s = s\<lparr>addedPackages := filter (\<lambda>p. ap_id p \<noteq> i) (addedPackages s)\<rparr>"

definition handleSkipPackages :: "onboarding \<Rightarrow> onboarding" where
  "handleSkipPackages s = s\<lparr>currentStep := 5\<rparr>"

definition handleTriggerDiscovery :: "string option \<Rightarrow> onboarding \<Rightarrow> onboarding" where
  "handleTriggerDiscovery ecosystem s = s\<lparr>discoveryPreference := \<lparr>dp_enabled = True, dp_ecosystem = ecosystem\<rparr>\<rparr>"

text \<open>What the form of the current step can call.\<close>

inductive wizard_step :: "(string \<Rightarrow> bool) \<Rightarrow> onboarding \<Rightarrow> onboarding \<Rightarrow> bool" for loose where
  welcome_next: "currentStep s = 1 \<Longrightarrow> wizard_step loose s (goNext s)"
| workspace_field: "currentStep s = 2 \<Longrightarrow> wizard_step loose s (updateWorkspaceField f v s)"
| workspace_submit: "currentStep s = 2 \<Longrightarrow> wizard_step loose s (fst (submit_workspace s))"
| settings_field: "currentStep s = 3 \<Longrightarrow> wizard_step loose s (updateSettingsField g v s)"
| settings_submit: "currentStep s = 3 \<Longrightarrow> wizard_step loose s (handleSaveSettings loose s)"
| settings_skip: "currentStep s = 3 \<Longrightarrow> wizard_step loose s (handleSkipSettings s)"
| package_add: "currentStep s = 4 \<Longrightarrow> wizard_step loose s (fst (handleAdd now n e s))"
| package_remove: "currentStep s = 4 \<Longrightarrow> wizard_step loose s (handleRemovePackage i s)"
| package_next: "currentStep s = 4 \<Longrightarrow> wizard_step loose s (goNext s)"
| package_skip: "currentStep s = 4 \<Longrightarrow> wizard_step loose s (handleSkipPackages s)"
| discovery: "currentStep s = 5 \<Longrightarrow> wizard_step loose s (handleTriggerDiscovery ec s)"
| discovery_next: "currentStep s = 5 \<Longrightarrow> wizard_step loose s (goNext s)"
| one_back: "2 \<le> currentStep s \<Longrightarrow> wizard_step loose s (goBack s)"

inductive wizard_reach :: "(string \<Rightarrow> bool) \<Rightarrow> onboarding \<Rightarrow> bool" for loose where
  start: "wizard_reach loose mount_onboarding"
| step: "wizard_reach loose s \<Longrightarrow> wizard_step loose s s' \<Longrightarrow> wizard_reach loose s'"

section \<open>Completing it\<close>

datatype wizard_effect =
    SetCurrentWorkspace json
  | RefreshWorkspaces
  | Effect effect
  | Push string

record run_log =
  requests :: "api_call list"
  effs :: "wizard_effect list"

text \<open>
  The backend answers the n-th request of the run. \<open>te\<close> is what reading \<open>data\<close> of an answer without
  a body object throws, \<open>shown\<close> the string conversion of a thrown value that is no \<open>Error\<close>.
\<close>

definition ask :: "(nat \<Rightarrow> api_call \<Rightarrow> thrown + json) \<Rightarrow> api_call \<Rightarrow> run_log \<Rightarrow> (thrown + json) \<times> run_log" where
  "ask srv c l = (srv (length (requests l)) c, l\<lparr>requests := requests l @ [c]\<rparr>)"

definition tell :: "wizard_effect list \<Rightarrow> run_log \<Rightarrow> run_log" where
  "tell es l = l\<lparr>effs := effs l @ es\<rparr>"

definition settings_body :: "onboarding_settings \<Rightarrow> (string \<times> string) list" where
  "settings_body f =
     [(''discovery_scan_depth'', os_discovery_scan_depth f), (''monitoring_interval'', os_monitoring_interval f),
      (''discovery_interval'', os_discovery_interval f)]"

fun add_packages ::
  "(nat \<Rightarrow> api_call \<Rightarrow> thrown + json) \<Rightarrow> AddedPackage list \<Rightarrow> run_log \<Rightarrow> string list \<times> run_log" where
  "add_packages srv [] l = ([], l)"
| "add_packages srv (p # ps) l =
     (case ask srv (createPackage (ap_name p) (ap_ecosystem p)) l of
        (answer, l) \<Rightarrow>
          (case add_packages srv ps l of
             (es, l) \<Rightarrow>
               ((case answer of
                   Inr _ \<Rightarrow> es
                 | Inl (ErrorObj m) \<Rightarrow> (ap_name p @ '': '' @ m) # es
                 | Inl _ \<Rightarrow> (ap_name p @ '': Failed to add '' @ ap_name p) # es), l)))"

definition discover ::
  "(nat \<Rightarrow> api_call \<Rightarrow> thrown + json) \<Rightarrow> DiscoveryPreference \<Rightarrow> run_log \<Rightarrow> thrown option \<times> run_log" where
  "discover srv d l =
     (if dp_enabled d
      then (case ask srv (discoverPackages (dp_ecosystem d)) l of
              (Inl e, l) \<Rightarrow> (Some e, l) | (Inr _, l) \<Rightarrow> (None, l))
      else (None, l))"

definition finish_up :: "run_log \<Rightarrow> run_log" where
  "finish_up = tell [Effect (Invalidate [KStr ''onboarding'', KStr ''check'']), Effect (Invalidate [KStr ''packages'']),
                     Effect (Invalidate [KStr ''settings'']), Push (ROUTES DASHBOARD)]"

text \<open>The body of the \<open>try\<close>: what it throws, if it does, and what was done until then.\<close>

definition complete_try ::
  "thrown \<Rightarrow> (nat \<Rightarrow> api_call \<Rightarrow> thrown + json) \<Rightarrow> onboarding \<Rightarrow> run_log \<Rightarrow> thrown option \<times> run_log" where
  "complete_try te srv s l =
     (let f = workspaceForm s in
      case ask srv (apiCreateWorkspace (wf_name f) (wf_slug f)
                      (if wf_description f = [] then None else Some (wf_description f))) l of
        (Inl e, l) \<Rightarrow> (Some e, l)
      | (Inr r, l) \<Rightarrow>
          (case get_prop (Some r) ''data'' of
             None \<Rightarrow> (Some te, l)
           | Some d \<Rightarrow>
               if \<not> truthy d then (Some (ErrorObj ''Failed to create workspace - no data returned''), l)
               else
                 (case (let l = tell [SetCurrentWorkspace (the d), RefreshWorkspaces] l in
                        if settingsSkipped s then (Inr JNull, l) else ask srv (updateSettings (settings_body (settingsForm s))) l) of
                    (Inl e, l) \<Rightarrow> (Some e, l)
                  | (Inr _, l) \<Rightarrow>
                      (case add_packages srv (addedPackages s) l of
                         (es, l) \<Rightarrow>
                           (let l = (if es = [] then l
                                     else tell [Effect (ToastError (''Some packages could not be added:'' @ [CHR 0x0A] @
                                                  join_with [CHR 0x0A] es))] l) in
                            case discover srv (discoveryPreference s) l of
                              (Some e, l) \<Rightarrow> (Some e, l)
                            | (None, l) \<Rightarrow> (None, finish_up l))))))"

definition as_error :: "string \<Rightarrow> thrown \<Rightarrow> thrown" where
  "as_error shown e = (case e of ErrorObj m \<Rightarrow> ErrorObj m | StringVal m \<Rightarrow> ErrorObj m | OtherVal \<Rightarrow> ErrorObj shown)"

definition handleComplete ::
  "thrown \<Rightarrow> string \<Rightarrow> (nat \<Rightarrow> api_call \<Rightarrow> thrown + json) \<Rightarrow> onboarding \<Rightarrow> onboarding \<times> run_log" where
  "handleComplete te shown srv s =
     (s\<lparr>isSubmitting := False\<rparr>,
      (case complete_try te srv s \<lparr>requests = [], effs = []\<rparr> of
         (None, l) \<Rightarrow> l
       | (Some e, l) \<Rightarrow>
           tell [Effect (ToastError (sanitizeErrorMessage (as_error shown e) (Some ''Failed to complete onboarding'')))] l))"

section \<open>Whether it is shown: \<open>useOnboardingCheck\<close>\<close>

record onboarding_check =
  oc_isAuthenticated :: bool
  oc_isLoading :: bool
  oc_workspaces :: nat
  oc_workspacesLoading :: bool
  oc_mustChangePassword :: bool
  oc_registrationEnabled :: bool
  oc_invitations :: nat
  oc_invitationsLoading :: bool

definition check_enabled :: "onboarding_check \<Rightarrow> bool" where
  "check_enabled c \<longleftrightarrow> oc_registrationEnabled c \<and> oc_isAuthenticated c \<and> \<not> oc_isLoading c \<and>
     \<not> oc_workspacesLoading c \<and> oc_workspaces c = 0"

definition isChecking :: "onboarding_check \<Rightarrow> bool" where
  "isChecking c \<longleftrightarrow> oc_isLoading c \<or> oc_workspacesLoading c \<or>
     (oc_isAuthenticated c \<and> oc_workspaces c = 0 \<and> oc_invitationsLoading c)"

definition shouldShowOnboarding :: "onboarding_check \<Rightarrow> bool" where
  "shouldShowOnboarding c \<longleftrightarrow> oc_isAuthenticated c \<and> \<not> oc_isLoading c \<and> \<not> oc_workspacesLoading c \<and>
     \<not> oc_invitationsLoading c \<and> \<not> oc_mustChangePassword c \<and> oc_workspaces c = 0 \<and> oc_invitations c = 0"

section \<open>The slug\<close>

definition no_double_dash :: "string \<Rightarrow> bool" where
  "no_double_dash s \<longleftrightarrow> successively (\<lambda>a b. \<not> (a = CHR ''-'' \<and> b = CHR ''-'')) s"

definition slug_shape :: "string \<Rightarrow> bool" where
  "slug_shape s \<longleftrightarrow> (\<forall>c \<in> set s. slug_char c \<or> c = CHR ''-'') \<and> no_double_dash s \<and>
     (s \<noteq> [] \<longrightarrow> hd s \<noteq> CHR ''-'' \<and> last s \<noteq> CHR ''-'')"

lemma dash_not_slug_char [simp]: "\<not> slug_char (CHR ''-'')" "\<not> is_space (CHR ''-'')" "\<not> is_upper (CHR ''-'')"
  by (simp_all add: slug_char_def is_space_def)

lemma set_dash_runs: "set (dash_runs P s) \<subseteq> {c \<in> set s. \<not> P c} \<union> {CHR ''-''}"
  by (induction P s rule: dash_runs.induct) auto

lemma dash_runs_absent: "\<forall>c \<in> set s. \<not> P c \<Longrightarrow> dash_runs P s = s"
  by (induction P s rule: dash_runs.induct) auto

lemma hd_dash_runs: "s \<noteq> [] \<Longrightarrow> dash_runs P s \<noteq> [] \<and> hd (dash_runs P s) = (if P (hd s) then CHR ''-'' else hd s)"
  by (induction P s rule: dash_runs.induct) auto

lemma dash_runs_no_double: "P = (\<lambda>c. c = CHR ''-'') \<Longrightarrow> no_double_dash (dash_runs P s)"
proof (induction P s rule: dash_runs.induct)
  case (3 P c d s)
  then show ?case using hd_dash_runs [of "d # s" P]
    by (auto simp: no_double_dash_def successively_Cons)
qed (auto simp: no_double_dash_def)

lemma dash_runs_id: "no_double_dash s \<Longrightarrow> dash_runs (\<lambda>c. c = CHR ''-'') s = s"
  by (induction "\<lambda>c. c = CHR ''-''" s rule: dash_runs.induct) (auto simp: no_double_dash_def)

lemma no_double_dash_rev: "no_double_dash (rev s) = no_double_dash s"
  unfolding no_double_dash_def successively_rev
  by (rule arg_cong [where f = "\<lambda>P. successively P s"]) auto

lemma no_double_dash_tl: "no_double_dash (c # s) \<Longrightarrow> no_double_dash s"
  by (cases s) (auto simp: no_double_dash_def)

lemma drop_first_dash_props:
  assumes "no_double_dash s"
  shows "no_double_dash (drop_first_dash s)" "set (drop_first_dash s) \<subseteq> set s"
    "drop_first_dash s \<noteq> [] \<Longrightarrow> hd (drop_first_dash s) \<noteq> CHR ''-''"
    "drop_first_dash s \<noteq> [] \<Longrightarrow> last (drop_first_dash s) = last s"
proof -
  show "no_double_dash (drop_first_dash s)" "set (drop_first_dash s) \<subseteq> set s"
    "drop_first_dash s \<noteq> [] \<Longrightarrow> last (drop_first_dash s) = last s"
    using assms by (cases s; auto simp: drop_first_dash_def dest: no_double_dash_tl)+
  show "drop_first_dash s \<noteq> [] \<Longrightarrow> hd (drop_first_dash s) \<noteq> CHR ''-''"
    using assms by (cases s; cases "tl s") (auto simp: drop_first_dash_def no_double_dash_def split: if_splits)
qed

lemma drop_first_dash_id: "s = [] \<or> hd s \<noteq> CHR ''-'' \<Longrightarrow> drop_first_dash s = s"
  by (cases s) (auto simp: drop_first_dash_def)

lemma drop_edge_dashes_props:
  assumes "no_double_dash s"
  shows "no_double_dash (drop_edge_dashes s)" "set (drop_edge_dashes s) \<subseteq> set s"
    "drop_edge_dashes s \<noteq> [] \<Longrightarrow> hd (drop_edge_dashes s) \<noteq> CHR ''-''"
    "drop_edge_dashes s \<noteq> [] \<Longrightarrow> last (drop_edge_dashes s) \<noteq> CHR ''-''"
proof -
  let ?t = "drop_first_dash s" and ?u = "drop_first_dash (rev (drop_first_dash s))"
  note t = drop_first_dash_props [OF assms]
  have "no_double_dash (rev ?t)" using t(1) by (simp add: no_double_dash_rev)
  note u = drop_first_dash_props [OF this]
  show "no_double_dash (drop_edge_dashes s)" "set (drop_edge_dashes s) \<subseteq> set s"
    using t u by (auto simp: drop_edge_dashes_def no_double_dash_rev)
  show "drop_edge_dashes s \<noteq> [] \<Longrightarrow> last (drop_edge_dashes s) \<noteq> CHR ''-''"
    using u(3) by (simp add: drop_edge_dashes_def last_rev)
  assume ne: "drop_edge_dashes s \<noteq> []"
  then have "?u \<noteq> []" by (simp add: drop_edge_dashes_def)
  with u(4) have "last ?u = hd ?t" by (simp add: last_rev)
  moreover have "?t \<noteq> []" using \<open>?u \<noteq> []\<close> by (auto simp: drop_first_dash_def split: list.splits if_splits)
  ultimately show "hd (drop_edge_dashes s) \<noteq> CHR ''-''"
    using t(3) \<open>?u \<noteq> []\<close> by (simp add: drop_edge_dashes_def hd_rev)
qed

lemma slug_shape_toSlug: "slug_shape (toSlug name)"
proof -
  let ?a = "filter (\<lambda>c. is_lower c \<or> is_digit c \<or> is_space c \<or> c = CHR ''-'') (toLowerCase name)"
  let ?c = "dash_runs (\<lambda>c. c = CHR ''-'') (dash_runs is_space ?a)"
  have "\<forall>c \<in> set ?c. slug_char c \<or> c = CHR ''-''"
    using set_dash_runs [of "\<lambda>c. c = CHR ''-''" "dash_runs is_space ?a"] set_dash_runs [of is_space ?a]
    by (auto simp: slug_char_def)
  moreover have "no_double_dash ?c" by (rule dash_runs_no_double) simp
  ultimately show ?thesis
    using drop_edge_dashes_props [of ?c] unfolding slug_shape_def toSlug_def Let_def by blast
qed

lemma lower_slug_char: "slug_char c \<or> c = CHR ''-'' \<Longrightarrow> to_lower c = c"
  by (auto simp: to_lower_def slug_char_def is_upper_def is_lower_def is_digit_def)

lemma toSlug_fixed: "slug_shape s \<Longrightarrow> toSlug s = s"
proof -
  assume s: "slug_shape s"
  then have chars: "\<forall>c \<in> set s. slug_char c \<or> c = CHR ''-''" and nd: "no_double_dash s"
    by (auto simp: slug_shape_def)
  have low: "toLowerCase s = s" using chars by (auto simp: toLowerCase_def lower_slug_char intro!: map_idI)
  have "\<not> is_space c" if "c \<in> set s" for c
    using chars that by (auto simp: slug_char_def is_space_def is_lower_def is_digit_def)
  then have sp: "dash_runs is_space s = s" by (simp add: dash_runs_absent)
  have fil: "filter (\<lambda>c. is_lower c \<or> is_digit c \<or> is_space c \<or> c = CHR ''-'') s = s"
    using chars by (auto simp: slug_char_def filter_id_conv)
  have edge: "drop_edge_dashes s = s"
    using s by (auto simp: slug_shape_def drop_edge_dashes_def drop_first_dash_id hd_rev)
  show ?thesis by (simp add: toSlug_def low fil sp dash_runs_id [OF nd] edge Let_def)
qed

lemma slug_shape_matches:
  "slug_shape s \<Longrightarrow> s \<noteq> [] \<Longrightarrow> \<exists>u v. s = u @ v \<and> matches (plus (Cls slug_char)) u \<and>
     matches (Star (Seq (ch (CHR ''-'')) (plus (Cls slug_char)))) v"
proof (induction s rule: length_induct)
  case (1 s)
  let ?u = "takeWhile slug_char s" and ?r = "dropWhile slug_char s"
  have hd: "slug_char (hd s)" using "1.prems" by (auto simp: slug_shape_def dest: hd_in_set)
  then have u: "matches (plus (Cls slug_char)) ?u" using "1.prems"(2)
    by (cases s) (auto simp: matches_plus_Cls dest: set_takeWhileD)
  show ?case
  proof (cases ?r)
    case Nil
    then have "s = ?u @ []" by (metis takeWhile_dropWhile_id)
    with u show ?thesis by (metis m_star0)
  next
    case (Cons c t)
    have s: "s = ?u @ c # t" using Cons by (metis takeWhile_dropWhile_id)
    have "\<not> slug_char c" using Cons hd_dropWhile [of slug_char s] by simp
    moreover obtain w where w: "s = w @ c # t" using s by blast
    ultimately have c: "c = CHR ''-''" using "1.prems"(1) by (auto simp: slug_shape_def)
    have "last s \<noteq> c" using "1.prems" c by (simp add: slug_shape_def)
    then have t: "t \<noteq> []" using w by auto
    have nd: "no_double_dash (c # t)"
      using "1.prems"(1) w by (simp add: slug_shape_def no_double_dash_def successively_append_iff)
    have "\<forall>c \<in> set t. slug_char c \<or> c = CHR ''-''"
      using "1.prems"(1) w by (simp add: slug_shape_def)
    moreover have "hd t \<noteq> CHR ''-''" using nd c t by (cases t) (simp_all add: no_double_dash_def)
    moreover have "last t \<noteq> CHR ''-''"
      using "1.prems" t w by (simp add: slug_shape_def)
    ultimately have "slug_shape t" using no_double_dash_tl [OF nd] by (simp add: slug_shape_def)
    moreover have "length t < length s" using w by simp
    ultimately obtain u' v' where t': "t = u' @ v'" "matches (plus (Cls slug_char)) u'"
      "matches (Star (Seq (ch (CHR ''-'')) (plus (Cls slug_char)))) v'"
      using "1.IH" t by blast
    have "matches (Seq (ch (CHR ''-'')) (plus (Cls slug_char))) ([c] @ u')"
      using c t'(2) by (intro m_seq) simp_all
    then have "matches (Star (Seq (ch (CHR ''-'')) (plus (Cls slug_char)))) (([c] @ u') @ v')"
      using t'(3) by (rule m_star)
    moreover have "s = ?u @ ([c] @ u') @ v'" using s t'(1) by simp
    ultimately show ?thesis using u by blast
  qed
qed

text \<open>The suggested slug is one the form accepts: whatever the name, \<open>toSlug\<close> gives a text the
  slug pattern matches, so that the only possible objection is its length, and suggesting a slug
  for a slug changes nothing.\<close>

theorem suggested_slug_valid:
  "toSlug (toSlug name) = toSlug name \<and>
   (filter (\<lambda>i. fst i = ''slug'') (workspaceSchema n (toSlug name) d) = [] \<longleftrightarrow> length (toSlug name) \<in> {2..50})"
proof
  show "toSlug (toSlug name) = toSlug name" by (rule toSlug_fixed [OF slug_shape_toSlug])
  have "test (whole slug_rx) (toSlug name)" if "toSlug name \<noteq> []"
    using slug_shape_matches [OF slug_shape_toSlug that]
    by (auto simp: test_whole slug_rx_def intro: m_seq)
  then show "filter (\<lambda>i. fst i = ''slug'') (workspaceSchema n (toSlug name) d) = [] \<longleftrightarrow> length (toSlug name) \<in> {2..50}"
    by (cases "toSlug name = []")
      (auto simp: workspaceSchema_def workspace_name_checks_def description_checks_def split: option.split)
qed

section \<open>The state machine\<close>

definition valid_workspace :: "onboarding \<Rightarrow> bool" where
  "valid_workspace s \<longleftrightarrow>
     workspaceSchema (wf_name (workspaceForm s)) (wf_slug (workspaceForm s)) (Some (wf_description (workspaceForm s))) = []"

definition package_ids :: "onboarding \<Rightarrow> bool" where
  "package_ids s \<longleftrightarrow> distinct (map ap_id (addedPackages s)) \<and>
     distinct (map (\<lambda>p. (ap_name p, ap_ecosystem p)) (addedPackages s)) \<and>
     (\<forall>p \<in> set (addedPackages s). \<exists>now n. ap_id p = ''local-'' @ show_nat now @ ''-'' @ show_nat n \<and> n \<le> localIdCounter s)"

definition wizard_inv :: "(string \<Rightarrow> bool) \<Rightarrow> onboarding \<Rightarrow> bool" where
  "wizard_inv loose s \<longleftrightarrow>
     currentStep s \<in> {1..6} \<and>
     (3 \<le> currentStep s \<longrightarrow> valid_workspace s) \<and>
     (4 \<le> currentStep s \<longrightarrow> settingsSkipped s \<or> onboardingSettingsSchema loose (settingsForm s) = []) \<and>
     (\<not> slugManuallyEdited s \<longrightarrow> wf_slug (workspaceForm s) = toSlug (wf_name (workspaceForm s))) \<and>
     package_ids s"

lemma local_id_inj:
  assumes "''local-'' @ show_nat a @ ''-'' @ show_nat m = ''local-'' @ show_nat b @ ''-'' @ show_nat n"
  shows "m = n"
proof -
  have "split_char (CHR ''-'') (show_nat a @ CHR ''-'' # show_nat m) = [show_nat a, show_nat m]" for a m
  proof -
    have "CHR ''-'' \<notin> set (show_nat k)" for k using show_nat_digits [of "CHR ''-''" k] by (auto simp: is_digit_def)
    then show ?thesis by (simp add: split_char_append split_char_absent)
  qed
  with assms show ?thesis by (metis append_Cons append_Nil list.inject same_append_eq show_nat_inj)
qed

lemma package_ids_add:
  assumes inv: "package_ids s"
  shows "package_ids (fst (handleAddPackage now n e s))"
proof (cases "list_ex (\<lambda>p. ap_name p = n \<and> ap_ecosystem p = e) (addedPackages s)")
  case True
  then show ?thesis using inv by (simp add: handleAddPackage_def)
next
  case False
  let ?i = "''local-'' @ show_nat now @ ''-'' @ show_nat (localIdCounter s + 1)"
  let ?s = "fst (handleAddPackage now n e s)"
  have s': "addedPackages ?s = addedPackages s @ [\<lparr>ap_id = ?i, ap_name = n, ap_ecosystem = e\<rparr>]"
    "localIdCounter ?s = localIdCounter s + 1"
    using False by (simp_all add: handleAddPackage_def)
  have "?i \<noteq> ap_id p" if p: "p \<in> set (addedPackages s)" for p
  proof
    assume "?i = ap_id p"
    moreover obtain t m where "ap_id p = ''local-'' @ show_nat t @ ''-'' @ show_nat m" "m \<le> localIdCounter s"
      using inv p unfolding package_ids_def by blast
    ultimately show False using local_id_inj [of now "localIdCounter s + 1" t m] by simp
  qed
  then have "?i \<notin> ap_id ` set (addedPackages s)" by blast
  moreover have "(n, e) \<notin> (\<lambda>p. (ap_name p, ap_ecosystem p)) ` set (addedPackages s)"
    using False by (auto simp: list_ex_iff)
  moreover have "\<exists>t m. ap_id p = ''local-'' @ show_nat t @ ''-'' @ show_nat m \<and> m \<le> localIdCounter s + 1"
    if "p \<in> set (addedPackages ?s)" for p
  proof (cases "p \<in> set (addedPackages s)")
    case True
    then show ?thesis using inv unfolding package_ids_def by (meson le_SucI Suc_eq_plus1 trans_le_add1)
  next
    case False
    then have "ap_id p = ?i" using that s'(1) by simp
    then show ?thesis by blast
  qed
  ultimately show ?thesis
    using inv unfolding package_ids_def s' by simp
qed

lemma package_ids_frame:
  "addedPackages s' = addedPackages s \<Longrightarrow> localIdCounter s' = localIdCounter s \<Longrightarrow> package_ids s' = package_ids s"
  by (simp add: package_ids_def)

lemma package_ids_filter: "package_ids s \<Longrightarrow> package_ids (s\<lparr>addedPackages := filter P (addedPackages s)\<rparr>)"
  by (auto simp: package_ids_def distinct_map_filter)

lemma empty_name_slug [simp]: "toSlug [] = []"
  by (simp add: toSlug_def toLowerCase_def drop_edge_dashes_def drop_first_dash_def)

lemma wizard_inv_mount: "wizard_inv loose mount_onboarding"
  by (simp add: wizard_inv_def mount_onboarding_def package_ids_def)

lemma wizard_inv_step: "wizard_step loose s s' \<Longrightarrow> wizard_inv loose s \<Longrightarrow> wizard_inv loose s'"
proof (induction rule: wizard_step.induct)
  case (workspace_field s f v)
  then show ?case
    by (cases f) (auto simp: wizard_inv_def updateWorkspaceField_def Let_def package_ids_def)
next
  case (workspace_submit s)
  then show ?case
    by (auto simp: wizard_inv_def submit_workspace_def handleCreateWorkspace_def goNext_def TOTAL_STEPS_def
        valid_workspace_def Let_def package_ids_def)
next
  case (settings_field s g v)
  then show ?case
    by (auto simp: wizard_inv_def updateSettingsField_def package_ids_def valid_workspace_def)
next
  case (settings_submit s)
  then show ?case
    by (auto simp: wizard_inv_def handleSaveSettings_def goNext_def TOTAL_STEPS_def package_ids_def
        valid_workspace_def Let_def)
next
  case (package_add s now n e)
  have "currentStep (fst (handleAdd now n e s)) = currentStep s \<and> workspaceForm (fst (handleAdd now n e s)) = workspaceForm s \<and>
      settingsSkipped (fst (handleAdd now n e s)) = settingsSkipped s \<and> settingsForm (fst (handleAdd now n e s)) = settingsForm s \<and>
      slugManuallyEdited (fst (handleAdd now n e s)) = slugManuallyEdited s"
    by (simp add: handleAdd_def handleAddPackage_def split: list.split)
  moreover have "package_ids (fst (handleAdd now n e s))"
    using package_add(2) package_ids_add by (simp add: wizard_inv_def handleAdd_def split: list.split)
  ultimately show ?case using package_add by (simp add: wizard_inv_def valid_workspace_def)
next
  case (package_remove s i)
  then show ?case
    by (simp add: wizard_inv_def handleRemovePackage_def package_ids_filter valid_workspace_def)
qed (auto simp: wizard_inv_def goNext_def goBack_def handleSkipSettings_def handleSkipPackages_def
    handleTriggerDiscovery_def TOTAL_STEPS_def package_ids_def valid_workspace_def)

lemma wizard_inv_reach: "wizard_reach loose s \<Longrightarrow> wizard_inv loose s"
  by (induction rule: wizard_reach.induct) (auto intro: wizard_inv_mount wizard_inv_step)

text \<open>C9: However a user walks through the wizard, forwards, backwards and with steps skipped, at the
  last step its data can be submitted: the step stays between one and six, the workspace form is
  valid from the third step on, the settings are valid or skipped from the fourth on, no
  package is listed twice and no two entries share the local id they are removed by.\<close>

theorem wizard_invariant:
  assumes "wizard_reach loose s"
  shows "currentStep s \<in> {1..6} \<and>
    (3 \<le> currentStep s \<longrightarrow>
       workspaceSchema (wf_name (workspaceForm s)) (wf_slug (workspaceForm s)) (Some (wf_description (workspaceForm s))) = []) \<and>
    (4 \<le> currentStep s \<longrightarrow> settingsSkipped s \<or> onboardingSettingsSchema loose (settingsForm s) = []) \<and>
    distinct (map (\<lambda>p. (ap_name p, ap_ecosystem p)) (addedPackages s)) \<and>
    distinct (map ap_id (addedPackages s))"
  using wizard_inv_reach [OF assms] by (simp add: wizard_inv_def valid_workspace_def package_ids_def)

lemma wizard_invariant_witness: "currentStep (goBack (goNext mount_onboarding)) \<in> {1..6}"
proof -
  have "wizard_reach (\<lambda>_. False) (goNext mount_onboarding)"
    by (rule wizard_reach.step [OF wizard_reach.start]) (rule welcome_next, simp add: mount_onboarding_def)
  then have "wizard_reach (\<lambda>_. False) (goBack (goNext mount_onboarding))"
    by (rule wizard_reach.step) (rule one_back, simp add: goNext_def mount_onboarding_def TOTAL_STEPS_def)
  from wizard_invariant [OF this] show ?thesis by simp
qed

section \<open>The end of the wizard\<close>

definition create_call :: "onboarding \<Rightarrow> api_call" where
  "create_call s = apiCreateWorkspace (wf_name (workspaceForm s)) (wf_slug (workspaceForm s))
     (if wf_description (workspaceForm s) = [] then None else Some (wf_description (workspaceForm s)))"

definition package_calls :: "onboarding \<Rightarrow> api_call list" where
  "package_calls s = map (\<lambda>p. createPackage (ap_name p) (ap_ecosystem p)) (addedPackages s)"

definition created :: "thrown + json \<Rightarrow> bool" where
  "created a \<longleftrightarrow> (case a of Inl _ \<Rightarrow> False | Inr r \<Rightarrow> truthy (opt_prop (Some r) ''data''))"

lemma created_get: "created a \<Longrightarrow> \<exists>r d. a = Inr r \<and> get_prop (Some r) ''data'' = Some (Some d) \<and> truthy (Some d)"
proof -
  assume a: "created a"
  then obtain r where r: "a = Inr r" "truthy (opt_prop (Some r) ''data'')" by (auto simp: created_def split: sum.splits)
  then obtain kvs where "r = JObj kvs" by (cases r) auto
  with r show ?thesis by (cases "map_of kvs ''data''") auto
qed

lemma add_packages_requests:
  "add_packages srv ps l = (es, l') \<Longrightarrow>
     requests l' = requests l @ map (\<lambda>p. createPackage (ap_name p) (ap_ecosystem p)) ps \<and> effs l' = effs l"
proof (induction ps arbitrary: l es)
  case (Cons p ps)
  from Cons.prems obtain es' where
    "add_packages srv ps (l\<lparr>requests := requests l @ [createPackage (ap_name p) (ap_ecosystem p)]\<rparr>) = (es', l')"
    by (auto simp: ask_def split: prod.splits)
  from Cons.IH [OF this] show ?case by simp
qed simp

lemma discover_requests:
  assumes "\<forall>n. isl (srv n (discoverPackages (dp_ecosystem d))) = False"
  obtains l' where "discover srv d l = (None, l')"
    "requests l' = requests l @ (if dp_enabled d then [discoverPackages (dp_ecosystem d)] else [])"
proof -
  obtain r where "srv (length (requests l)) (discoverPackages (dp_ecosystem d)) = Inr r"
    using assms [rule_format, of "length (requests l)"]
    by (cases "srv (length (requests l)) (discoverPackages (dp_ecosystem d))") auto
  then show thesis
    using that [of "if dp_enabled d then l\<lparr>requests := requests l @ [discoverPackages (dp_ecosystem d)]\<rparr> else l"]
    by (simp add: discover_def ask_def split: if_splits)
qed

lemma tell_simps [simp]: "requests (tell es l) = requests l" "effs (tell es l) = effs l @ es"
  by (simp_all add: tell_def)


definition yes_server :: "nat \<Rightarrow> api_call \<Rightarrow> thrown + json" where
  "yes_server n c = Inr (JObj [(''data'', JObj [(''id'', JStr ''w1'')])])"

definition chosen :: onboarding where
  "chosen = mount_onboarding\<lparr>settingsSkipped := True,
     addedPackages := [\<lparr>ap_id = ''local-0-1'', ap_name = ''lodash'', ap_ecosystem = ''npm''\<rparr>]\<rparr>"


text \<open>A refused settings request abandons the rest of the wizard. The workspace exists by then and the
  packages and the discovery that were chosen are never requested; the user gets an error and no
  redirect. Since the account now has a workspace the wizard is not shown again, so what was
  entered is lost.\<close>

theorem onboarding_settings_failure_drops_rest:
  assumes "created (srv 0 (create_call s))" and "\<not> settingsSkipped s"
    and "srv 1 (updateSettings (settings_body (settingsForm s))) = Inl e"
  shows "requests (snd (handleComplete te shown srv s)) = [create_call s, updateSettings (settings_body (settingsForm s))] \<and>
    (\<exists>d. effs (snd (handleComplete te shown srv s)) = [SetCurrentWorkspace d, RefreshWorkspaces,
       Effect (ToastError (sanitizeErrorMessage (as_error shown e) (Some ''Failed to complete onboarding'')))]) \<and>
    (0 < oc_workspaces c \<longrightarrow> \<not> shouldShowOnboarding c)"
proof -
  obtain r d where r: "srv 0 (create_call s) = Inr r" "get_prop (Some r) ''data'' = Some (Some d)" "truthy (Some d)"
    using created_get [OF assms(1)] by blast
  have "complete_try te srv s \<lparr>requests = [], effs = []\<rparr> =
      (Some e, \<lparr>requests = [create_call s, updateSettings (settings_body (settingsForm s))],
                effs = [SetCurrentWorkspace d, RefreshWorkspaces]\<rparr>)"
    using assms(2,3) r
    by (simp add: complete_try_def ask_def create_call_def [symmetric] tell_def Let_def)
  then show ?thesis by (simp add: handleComplete_def shouldShowOnboarding_def)
qed

definition no_settings_server :: "nat \<Rightarrow> api_call \<Rightarrow> thrown + json" where
  "no_settings_server n c = (if n = 1 then Inl (ErrorObj ''boom'') else yes_server n c)"

lemma onboarding_settings_failure_drops_rest_witness:
  "requests (snd (handleComplete OtherVal ''x'' no_settings_server (chosen\<lparr>settingsSkipped := False\<rparr>))) =
     [create_call chosen, updateSettings (settings_body (settingsForm chosen))]"
  using onboarding_settings_failure_drops_rest [of no_settings_server "chosen\<lparr>settingsSkipped := False\<rparr>" "ErrorObj ''boom''" OtherVal "''x''"]
  by (simp add: created_def no_settings_server_def yes_server_def create_call_def)

text \<open>The wizard is never shown while the checks behind it are still running.\<close>

lemma not_shown_while_checking: "isChecking c \<Longrightarrow> \<not> shouldShowOnboarding c"
  by (auto simp: isChecking_def shouldShowOnboarding_def)

end
