(* ===== verification/Json_Text.thy ===== *)
theory Json_Text
  imports Json "HOL-Library.AList"
begin

text \<open>
  JSON as text: \<open>JSON.parse\<close>, \<open>JSON.stringify\<close> and the order in which JavaScript keeps the
  properties of an object. The parser is the grammar of RFC 8259 by recursive descent; a
  recursive call is guarded by the length of what is left, which always shrinks, so that it ends
  without a bound on the depth. An escape above code unit 255 has no character here and reads as
  a question mark.
\<close>

section \<open>Own properties\<close>

text \<open>The array indices among the keys come first, in ascending order; the others as they were added.\<close>

definition array_index :: "string \<Rightarrow> bool" where
  "array_index k \<longleftrightarrow> k \<noteq> [] \<and> list_all is_digit k \<and> show_nat (read_nat k) = k \<and> read_nat k < 4294967295"

definition own_order :: "(string \<times> 'a) list \<Rightarrow> (string \<times> 'a) list" where
  "own_order kvs = sort_key (\<lambda>kv. read_nat (fst kv)) (filter (\<lambda>kv. array_index (fst kv)) kvs) @
     filter (\<lambda>kv. \<not> array_index (fst kv)) kvs"

text \<open>Defining properties one after the other: a repeated key keeps its place and takes the later value.\<close>

definition put_all :: "(string \<times> 'a) list \<Rightarrow> (string \<times> 'a) list \<Rightarrow> (string \<times> 'a) list" where
  "put_all base kvs = own_order (fold (\<lambda>(k, v). AList.update k v) kvs base)"

text \<open>What \<open>...v\<close> copies into an object literal.\<close>

definition spread :: "json option \<Rightarrow> (string \<times> json) list" where
  "spread v = (case v of
       Some (JObj kvs) \<Rightarrow> kvs
     | Some (JArr xs) \<Rightarrow> zip (map show_nat [0..<length xs]) xs
     | Some (JStr s) \<Rightarrow> zip (map show_nat [0..<length s]) (map (\<lambda>c. JStr [c]) s)
     | _ \<Rightarrow> [])"

lemma own_order_plain:
  assumes "\<forall>k \<in> fst ` set kvs. \<not> array_index k"
  shows "own_order kvs = kvs"
proof -
  have "filter (\<lambda>kv. array_index (fst kv)) kvs = []" "filter (\<lambda>kv. \<not> array_index (fst kv)) kvs = kvs"
    using assms by (auto simp: filter_empty_conv filter_id_conv)
  then show ?thesis by (simp add: own_order_def)
qed

lemma set_own_order [simp]: "set (own_order kvs) = set kvs"
  by (auto simp: own_order_def)

lemma distinct_own_order: "distinct (map fst kvs) \<Longrightarrow> distinct (map fst (own_order kvs))"
  by (auto simp: own_order_def distinct_map inj_on_def)

lemma map_of_own_order:
  assumes "distinct (map fst kvs)"
  shows "map_of (own_order kvs) = map_of kvs"
  using assms distinct_own_order [OF assms] by (intro map_of_inject_set [THEN iffD2]) auto

lemma distinct_fold_update:
  "distinct (map fst base) \<Longrightarrow> distinct (map fst (fold (\<lambda>(k, v). AList.update k v) kvs base))"
  by (induction kvs arbitrary: base) (auto simp: distinct_update)

lemma map_of_fold_put:
  "map_of (fold (\<lambda>(k, v). AList.update k v) kvs base) = map_of base ++ map_of (rev kvs)"
proof (induction kvs arbitrary: base)
  case (Cons kv kvs)
  show ?case
  proof
    fix k
    show "map_of (fold (\<lambda>(k, v). AList.update k v) (kv # kvs) base) k = (map_of base ++ map_of (rev (kv # kvs))) k"
      using Cons.IH by (cases kv) (auto simp: update_conv' map_add_def split: option.splits)
  qed
qed simp

lemma map_of_put_all:
  assumes "distinct (map fst base)"
  shows "map_of (put_all base kvs) = map_of base ++ map_of (rev kvs)"
  unfolding put_all_def using assms
  by (simp add: map_of_own_order distinct_fold_update map_of_fold_put)

lemma put_all_fresh:
  assumes "distinct (map fst base @ map fst kvs)"
  shows "fold (\<lambda>(k, v). AList.update k v) kvs base = base @ kvs"
  using assms
proof (induction kvs arbitrary: base)
  case (Cons kv kvs)
  obtain k v where kv: "kv = (k, v)" by force
  have "AList.update k v base = base @ [(k, v)]"
    using Cons.prems unfolding kv by (induction base) auto
  with Cons.IH [of "base @ [(k, v)]"] Cons.prems kv show ?case by simp
qed simp

section \<open>Reading\<close>

definition json_ws :: "char \<Rightarrow> bool" where
  "json_ws c \<longleftrightarrow> c = CHR '' '' \<or> c = CHR 0x09 \<or> c = CHR 0x0A \<or> c = CHR 0x0D"

definition skip_ws :: "string \<Rightarrow> string" where
  "skip_ws = dropWhile json_ws"

definition hex_value :: "char \<Rightarrow> nat option" where
  "hex_value c =
     (if is_digit c then Some (digit_value c)
      else if 97 \<le> code_unit c \<and> code_unit c \<le> 102 then Some (code_unit c - 87)
      else if 65 \<le> code_unit c \<and> code_unit c \<le> 70 then Some (code_unit c - 55) else None)"

definition escape_unit :: "nat \<Rightarrow> char" where
  "escape_unit n = (if n < 256 then char_of n else CHR ''?'')"

definition simple_escape :: "char \<Rightarrow> char option" where
  "simple_escape c = map_of
     [(CHR 0x22, CHR 0x22), (CHR 0x5C, CHR 0x5C), (CHR ''/'', CHR ''/''), (CHR ''b'', CHR 0x08),
      (CHR ''f'', CHR 0x0C), (CHR ''n'', CHR 0x0A), (CHR ''r'', CHR 0x0D), (CHR ''t'', CHR 0x09)] c"

text \<open>After the opening quote: the string and what follows its closing quote.\<close>

fun scan_string :: "string \<Rightarrow> (string \<times> string) option" where
  "scan_string [] = None"
| "scan_string (c # s) =
     (if c = CHR 0x22 then Some ([], s)
      else if c = CHR 0x5C then
        (case s of
           [] \<Rightarrow> None
         | e # t \<Rightarrow>
             (if e = CHR ''u'' then
                (case t of
                   a # b # x # y # u \<Rightarrow>
                     (case (hex_value a, hex_value b, hex_value x, hex_value y) of
                        (Some i, Some j, Some k, Some l) \<Rightarrow>
                          map_option (\<lambda>(w, r). (escape_unit (4096 * i + 256 * j + 16 * k + l) # w, r)) (scan_string u)
                      | _ \<Rightarrow> None)
                 | _ \<Rightarrow> None)
              else
                (case simple_escape e of
                   None \<Rightarrow> None
                 | Some d \<Rightarrow> map_option (\<lambda>(w, r). (d # w, r)) (scan_string t))))
      else if code_unit c < 32 then None
      else map_option (\<lambda>(w, r). (c # w, r)) (scan_string s))"

text \<open>Digits after a sign or a mark; none is an error.\<close>

definition some_digits :: "string \<Rightarrow> (string \<times> string) option" where
  "some_digits s = (let d = takeWhile is_digit s in if d = [] then None else Some (d, dropWhile is_digit s))"

definition scan_fraction :: "string \<Rightarrow> (string \<times> string) option" where
  "scan_fraction s =
     (case s of
        [] \<Rightarrow> Some ([], [])
      | c # t \<Rightarrow> if c = CHR ''.'' then map_option (\<lambda>(d, r). (c # d, r)) (some_digits t) else Some ([], s))"

definition scan_exponent :: "string \<Rightarrow> (string \<times> string) option" where
  "scan_exponent s =
     (case s of
        [] \<Rightarrow> Some ([], [])
      | c # t \<Rightarrow>
          if c = CHR ''e'' \<or> c = CHR ''E'' then
            (case t of
               [] \<Rightarrow> None
             | g # u \<Rightarrow>
                 if g = CHR ''+'' \<or> g = CHR ''-''
                 then map_option (\<lambda>(d, r). (c # g # d, r)) (some_digits u)
                 else map_option (\<lambda>(d, r). (c # d, r)) (some_digits t))
          else Some ([], s))"

definition signed_value :: "bool \<Rightarrow> string \<Rightarrow> int" where
  "signed_value neg d = (if neg then - int (read_nat d) else int (read_nat d))"

definition scan_number :: "string \<Rightarrow> (json \<times> string) option" where
  "scan_number s =
     (let neg = (s \<noteq> [] \<and> hd s = CHR ''-''); t = (if neg then tl s else s) in
      case some_digits t of
        None \<Rightarrow> None
      | Some (d, r) \<Rightarrow>
          (if hd d = CHR ''0'' \<and> length d > 1 then None
           else
             (case scan_fraction r of
                None \<Rightarrow> None
              | Some (f, r) \<Rightarrow>
                  (case scan_exponent r of
                     None \<Rightarrow> None
                   | Some (e, r) \<Rightarrow>
                       Some (if f = [] \<and> e = [] then JNum (signed_value neg d)
                             else JFlt ((if neg then ''-'' else []) @ d @ f @ e), r)))))"

definition scan_word :: "string \<Rightarrow> (json \<times> string) option" where
  "scan_word s =
     (if startsWith s ''null'' then Some (JNull, drop 4 s)
      else if startsWith s ''true'' then Some (JBool True, drop 4 s)
      else if startsWith s ''false'' then Some (JBool False, drop 5 s)
      else scan_number s)"

lemma skip_ws_length: "length (skip_ws s) \<le> length s"
  by (simp add: skip_ws_def length_dropWhile_le)

lemma skip_ws_Cons_length: "skip_ws s = c # t \<Longrightarrow> length t < length s"
  using skip_ws_length [of s] by simp

function (sequential) parse_value :: "string \<Rightarrow> (json \<times> string) option"
  and parse_elements :: "string \<Rightarrow> (json list \<times> string) option"
  and parse_members :: "string \<Rightarrow> ((string \<times> json) list \<times> string) option" where
  "parse_value s =
     (case skip_ws s of
        [] \<Rightarrow> None
      | c # t \<Rightarrow>
          if c = CHR 0x22 then map_option (\<lambda>(w, r). (JStr w, r)) (scan_string t)
          else if c = CHR ''['' then
            (case skip_ws t of
               [] \<Rightarrow> None
             | d # u \<Rightarrow> if d = CHR '']'' then Some (JArr [], u)
                       else map_option (\<lambda>(xs, r). (JArr xs, r)) (parse_elements t))
          else if c = CHR ''{'' then
            (case skip_ws t of
               [] \<Rightarrow> None
             | d # u \<Rightarrow> if d = CHR ''}'' then Some (JObj [], u)
                       else map_option (\<lambda>(kvs, r). (JObj (put_all [] kvs), r)) (parse_members t))
          else scan_word (c # t))"
| "parse_elements s =
     (case parse_value s of
        None \<Rightarrow> None
      | Some (v, r) \<Rightarrow>
          (case skip_ws r of
             [] \<Rightarrow> None
           | c # u \<Rightarrow>
               if c = CHR '']'' then Some ([v], u)
               else if c = CHR '','' \<and> length u < length s
                 then map_option (\<lambda>(vs, r). (v # vs, r)) (parse_elements u)
               else None))"
| "parse_members s =
     (case skip_ws s of
        [] \<Rightarrow> None
      | q # t \<Rightarrow>
          if q \<noteq> CHR 0x22 then None
          else
            (case scan_string t of
               None \<Rightarrow> None
             | Some (k, r) \<Rightarrow>
                 (case skip_ws r of
                    [] \<Rightarrow> None
                  | m # u \<Rightarrow>
                      if m = CHR '':'' \<and> length u < length s then
                        (case parse_value u of
                           None \<Rightarrow> None
                         | Some (v, r) \<Rightarrow>
                             (case skip_ws r of
                                [] \<Rightarrow> None
                              | c # u \<Rightarrow>
                                  if c = CHR ''}'' then Some ([(k, v)], u)
                                  else if c = CHR '','' \<and> length u < length s
                                    then map_option (\<lambda>(kvs, r). ((k, v) # kvs, r)) (parse_members u)
                                  else None))
                      else None)))"
  by pat_completeness auto
termination
  by (relation "measure (\<lambda>x. case x of Inl s \<Rightarrow> 2 * length s
        | Inr y \<Rightarrow> (case y of Inl s \<Rightarrow> 2 * length s + 1 | Inr s \<Rightarrow> 2 * length s))")
    (auto dest!: skip_ws_Cons_length)

declare parse_value.simps [simp del] parse_elements.simps [simp del] parse_members.simps [simp del]

text \<open>\<open>JSON.parse\<close>; \<^term>\<open>None\<close> when it throws.\<close>

definition json_parse :: "string \<Rightarrow> json option" where
  "json_parse s =
     (case parse_value s of
        None \<Rightarrow> None
      | Some (v, r) \<Rightarrow> if skip_ws r = [] then Some v else None)"

section \<open>Writing\<close>

definition hex_digit :: "nat \<Rightarrow> char" where
  "hex_digit n = (if n < 10 then char_of (48 + n) else char_of (87 + n))"

definition escape_char :: "char \<Rightarrow> string" where
  "escape_char c =
     (if c = CHR 0x22 \<or> c = CHR 0x5C then [CHR 0x5C, c]
      else if c = CHR 0x08 then [CHR 0x5C, CHR ''b'']
      else if c = CHR 0x0C then [CHR 0x5C, CHR ''f'']
      else if c = CHR 0x0A then [CHR 0x5C, CHR ''n'']
      else if c = CHR 0x0D then [CHR 0x5C, CHR ''r'']
      else if c = CHR 0x09 then [CHR 0x5C, CHR ''t'']
      else if code_unit c < 32 then
        [CHR 0x5C, CHR ''u'', CHR ''0'', CHR ''0'', hex_digit (code_unit c div 16), hex_digit (code_unit c mod 16)]
      else [c])"

definition quote_json :: "string \<Rightarrow> string" where
  "quote_json s = [CHR 0x22] @ concat (map escape_char s) @ [CHR 0x22]"

function stringify :: "json \<Rightarrow> string" where
  "stringify JNull = ''null''"
| "stringify (JBool b) = (if b then ''true'' else ''false'')"
| "stringify (JNum n) = show_int n"
| "stringify (JFlt l) = l"
| "stringify (JStr s) = quote_json s"
| "stringify (JArr xs) = ''['' @ join_with '','' (map stringify xs) @ '']''"
| "stringify (JObj kvs) =
     ''{'' @ join_with '','' (map (\<lambda>kv. quote_json (fst kv) @ '':'' @ stringify (snd kv)) kvs) @ ''}''"
  by pat_completeness auto
termination
  by (relation "measure size")
    (auto simp: less_Suc_eq_le intro: size_list_estimation' order_trans [OF _ size_list_estimation'])

section \<open>Reading back what was written\<close>

lemma unit_hex_digit [simp]: "n < 16 \<Longrightarrow> hex_value (hex_digit n) = Some n"
proof -
  assume "n < 16"
  then have "n \<in> set [0..<16]" by simp
  then show ?thesis by (auto simp: hex_value_def hex_digit_def is_digit_def digit_value_def upt_rec)
qed

lemma char_units: "code_unit (CHR 0x22) = 34" "code_unit (CHR 0x5C) = 92" "code_unit (CHR ''u'') = 117"
  by simp_all

lemma scan_escaped:
  "scan_string (escape_char c @ t) = map_option (\<lambda>(w, r). (c # w, r)) (scan_string t)"
proof (cases "c \<in> {CHR 0x22, CHR 0x5C, CHR 0x08, CHR 0x0C, CHR 0x0A, CHR 0x0D, CHR 0x09}")
  case True
  then show ?thesis by (auto simp: escape_char_def simple_escape_def)
next
  case False
  show ?thesis
  proof (cases "code_unit c < 32")
    case True
    then have "code_unit c div 16 < 16" "escape_unit (16 * (code_unit c div 16) + code_unit c mod 16) = c"
      by (auto simp: escape_unit_def)
    moreover have "hex_value (CHR ''0'') = Some 0" by (simp add: hex_value_def digit_value_def)
    ultimately show ?thesis using True False by (simp add: escape_char_def)
  next
    case wide: False
    with False show ?thesis by (simp add: escape_char_def)
  qed
qed

lemma scan_quoted: "scan_string (concat (map escape_char s) @ CHR 0x22 # r) = Some (s, r)"
  by (induction s) (simp_all add: scan_escaped)

definition stops :: "string \<Rightarrow> bool" where
  "stops r \<longleftrightarrow> r = [] \<or> hd r = CHR '','' \<or> hd r = CHR '']'' \<or> hd r = CHR ''}''"

lemma stops_simps [simp]:
  "stops []" "stops (CHR '','' # r)" "stops (CHR '']'' # r)" "stops (CHR ''}'' # r)"
  by (simp_all add: stops_def)

lemma stops_skip: "stops r \<Longrightarrow> skip_ws r = r"
  by (cases r) (auto simp: stops_def skip_ws_def json_ws_def)

lemma stops_digit: "stops r \<Longrightarrow> takeWhile is_digit r = [] \<and> dropWhile is_digit r = r"
  by (cases r) (auto simp: stops_def)

lemma some_digits_show: "stops r \<Longrightarrow> some_digits (show_nat n @ r) = Some (show_nat n, r)"
  using show_nat_digits [of _ n] stops_digit [of r]
  by (simp add: some_digits_def takeWhile_append2 dropWhile_append2)

lemma show_nat_lead: "hd (show_nat n) = CHR ''0'' \<Longrightarrow> length (show_nat n) = 1"
proof (induction n rule: show_nat.induct)
  case (1 n)
  show ?case
  proof (cases "n < 10")
    case False
    have "hd (show_nat n) = hd (show_nat (n div 10))"
      using False by (subst show_nat.simps) simp
    then have zero: "hd (show_nat (n div 10)) = CHR ''0''" using "1.prems" by simp
    with "1.IH" False have "length (show_nat (n div 10)) = 1" by simp
    then have "read_nat (show_nat (n div 10)) = digit_value (hd (show_nat (n div 10)))"
      by (cases "show_nat (n div 10)") (auto simp: read_nat_def)
    with zero have "n div 10 = 0" by (simp add: digit_value_def)
    with False show ?thesis by simp
  qed (simp add: show_nat.simps [of n])
qed

lemma fraction_stops: "stops r \<Longrightarrow> scan_fraction r = Some ([], r) \<and> scan_exponent r = Some ([], r)"
  by (cases r) (auto simp: scan_fraction_def scan_exponent_def stops_def)

lemma scan_number_show:
  assumes "stops r"
  shows "scan_number (show_int i @ r) = Some (JNum i, r)"
proof -
  have lead: "\<not> (hd (show_nat n) = CHR ''0'' \<and> length (show_nat n) > 1)" for n
    using show_nat_lead [of n] by auto
  have hd: "is_digit (hd (show_nat n))" for n
    using show_nat_digits [of "hd (show_nat n)" n] by simp
  have nat: "hd (show_nat n @ r) \<noteq> CHR ''-''" for n
    using hd [of n] by (auto simp: hd_append)
  show ?thesis
  proof (cases "i < 0")
    case True
    with assms lead [of "nat (- i)"] show ?thesis
      by (simp add: scan_number_def show_int_def some_digits_show fraction_stops signed_value_def)
  next
    case False
    with assms lead [of "nat i"] nat [of "nat i"] show ?thesis
      by (simp add: scan_number_def show_int_def some_digits_show fraction_stops signed_value_def)
  qed
qed

lemma hd_show_int: "is_digit (hd (show_int i)) \<or> hd (show_int i) = CHR ''-''"
  using show_int_chars [of "hd (show_int i)" i] by simp

lemma scan_word_show: "stops r \<Longrightarrow> scan_word (show_int i @ r) = Some (JNum i, r)"
proof -
  assume r: "stops r"
  obtain c s where c: "show_int i = c # s" "is_digit c \<or> c = CHR ''-''"
    using hd_show_int [of i] by (cases "show_int i") auto
  then have "c \<noteq> CHR ''n''" "c \<noteq> CHR ''t''" "c \<noteq> CHR ''f''" by auto
  then show ?thesis using scan_number_show [OF r, of i] c(1) by (simp add: scan_word_def)
qed

text \<open>
  A value as \<open>JSON.parse\<close> produces it from integers: every object has its properties once and in
  their own order.
\<close>

function json_ok :: "json \<Rightarrow> bool" where
  "json_ok JNull = True"
| "json_ok (JBool b) = True"
| "json_ok (JNum n) = True"
| "json_ok (JFlt l) = False"
| "json_ok (JStr s) = True"
| "json_ok (JArr xs) = list_all json_ok xs"
| "json_ok (JObj kvs) = (distinct (map fst kvs) \<and> own_order kvs = kvs \<and> list_all (\<lambda>kv. json_ok (snd kv)) kvs)"
  by pat_completeness auto
termination
  by (relation "measure size")
    (auto simp: less_Suc_eq_le intro: size_list_estimation' order_trans [OF _ size_list_estimation'])

lemma skip_ws_plain [simp]: "\<not> json_ws c \<Longrightarrow> skip_ws (c # s) = c # s"
  by (simp add: skip_ws_def)

lemma json_ws_simps [simp]:
  "\<not> json_ws (CHR 0x22)" "\<not> json_ws (CHR ''['')" "\<not> json_ws (CHR '']'')" "\<not> json_ws (CHR ''{'')"
  "\<not> json_ws (CHR ''}'')" "\<not> json_ws (CHR '','')" "\<not> json_ws (CHR '':'')"
  "\<not> json_ws (CHR ''n'')" "\<not> json_ws (CHR ''t'')" "\<not> json_ws (CHR ''f'')"
  by (simp_all add: json_ws_def)


lemma stringify_head:
  assumes "json_ok j"
  obtains c s where "stringify j = c # s" "\<not> json_ws c" "c \<noteq> CHR '']''" "c \<noteq> CHR ''}''"
proof -
  have digits: "\<not> json_ws d" if "is_digit d \<or> d = CHR ''-''" for d
    using that by (auto simp: json_ws_def)
  have "\<exists>c s. stringify j = c # s \<and> \<not> json_ws c \<and> c \<noteq> CHR '']'' \<and> c \<noteq> CHR ''}''"
  proof (cases j)
    case (JNum n)
    obtain d t where d: "show_int n = d # t" "is_digit d \<or> d = CHR ''-''"
      using hd_show_int [of n] by (cases "show_int n") auto
    then have "d \<noteq> CHR '']''" "d \<noteq> CHR ''}''" by auto
    with JNum d digits show ?thesis by simp
  qed (use assms in \<open>auto simp: quote_json_def\<close>)
  with that show thesis by blast
qed

lemma parse_string_value: "parse_value (quote_json s @ r) = Some (JStr s, r)"
  by (simp add: parse_value.simps quote_json_def scan_quoted)

lemma parse_word_value:
  assumes "s = c # t" "\<not> json_ws c" "c \<noteq> CHR 0x22" "c \<noteq> CHR ''[''" "c \<noteq> CHR ''{''"
  shows "parse_value s = scan_word s"
  using assms by (simp add: parse_value.simps)

lemma parse_elements_written:
  assumes "\<And>x r. x \<in> set xs \<Longrightarrow> stops r \<Longrightarrow> parse_value (stringify x @ r) = Some (x, r)" and "xs \<noteq> []"
  shows "parse_elements (join_with '','' (map stringify xs) @ CHR '']'' # r) = Some (xs, r)"
  using assms
proof (induction xs rule: induct_list012)
  case (3 x y zs)
  let ?rest = "join_with '','' (map stringify (y # zs)) @ CHR '']'' # r"
  have "parse_value (stringify x @ CHR '','' # ?rest) = Some (x, CHR '','' # ?rest)"
    using "3.prems"(1) by simp
  moreover have "parse_elements ?rest = Some (y # zs, r)"
    using "3.IH"(2) "3.prems"(1) by simp
  ultimately show ?case
    by (simp add: parse_elements.simps [of "stringify x @ _"])
qed (simp_all add: parse_elements.simps)

lemma parse_members_written:
  assumes "\<And>kv r. kv \<in> set kvs \<Longrightarrow> stops r \<Longrightarrow> parse_value (stringify (snd kv) @ r) = Some (snd kv, r)"
    and "kvs \<noteq> []"
  shows "parse_members (join_with '','' (map (\<lambda>kv. quote_json (fst kv) @ '':'' @ stringify (snd kv)) kvs)
      @ CHR ''}'' # r) = Some (kvs, r)"
  using assms
proof (induction kvs rule: induct_list012)
  case (2 kv)
  then show ?case by (cases kv) (simp add: parse_members.simps quote_json_def scan_quoted)
next
  case (3 kv kw kws)
  let ?rest = "join_with '','' (map (\<lambda>kv. quote_json (fst kv) @ '':'' @ stringify (snd kv)) (kw # kws)) @ CHR ''}'' # r"
  have "parse_value (stringify (snd kv) @ CHR '','' # ?rest) = Some (snd kv, CHR '','' # ?rest)"
    using "3.prems"(1) by simp
  moreover have "parse_members ?rest = Some (kw # kws, r)"
    using "3.IH"(2) "3.prems"(1) by simp
  ultimately show ?case
    by (cases kv) (simp add: parse_members.simps [of "CHR 0x22 # _"] quote_json_def scan_quoted)
qed simp

lemma parse_written: "json_ok j \<Longrightarrow> stops r \<Longrightarrow> parse_value (stringify j @ r) = Some (j, r)"
proof (induction j arbitrary: r rule: stringify.induct)
  case 1
  then show ?case by (simp add: parse_word_value [OF refl] scan_word_def)
next
  case (2 b)
  then show ?case by (cases b) (simp_all add: parse_word_value [OF refl] scan_word_def)
next
  case (3 n)
  obtain c s where c: "show_int n = c # s" "is_digit c \<or> c = CHR ''-''"
    using hd_show_int [of n] by (cases "show_int n") auto
  then have "\<not> json_ws c" "c \<noteq> CHR 0x22" "c \<noteq> CHR ''[''" "c \<noteq> CHR ''{''"
    by (auto simp: json_ws_def)
  then have "parse_value (show_int n @ r) = scan_word (show_int n @ r)"
    using c(1) by (intro parse_word_value) auto
  with scan_word_show "3.prems" show ?case by simp
next
  case (5 s)
  then show ?case by (simp add: parse_string_value)
next
  case (6 xs)
  show ?case
  proof (cases xs)
    case (Cons x ys)
    have "parse_elements (join_with '','' (map stringify xs) @ CHR '']'' # r) = Some (xs, r)"
      using "6.IH" "6.prems"(1) Cons by (intro parse_elements_written) (auto simp: list_all_iff)
    moreover have "json_ok x" using "6.prems"(1) Cons by simp
    then obtain c s where "stringify x = c # s" "\<not> json_ws c" "c \<noteq> CHR '']''"
      by (rule stringify_head) auto
    then have "\<exists>s. join_with '','' (map stringify xs) = c # s"
      using Cons by (cases ys) auto
    ultimately show ?thesis
      using \<open>\<not> json_ws c\<close> \<open>c \<noteq> CHR '']''\<close> by (auto simp: parse_value.simps)
  qed (simp add: parse_value.simps)
next
  case (7 kvs)
  show ?case
  proof (cases kvs)
    case (Cons kv kws)
    let ?text = "join_with '','' (map (\<lambda>kv. quote_json (fst kv) @ '':'' @ stringify (snd kv)) kvs)"
    have vals: "parse_value (stringify (snd kv) @ r') = Some (snd kv, r')" if "kv \<in> set kvs" "stops r'" for kv r'
      using "7.IH" [OF that(1) _ that(2)] "7.prems"(1) that(1) by (simp add: list_all_iff)
    have "parse_members (?text @ CHR ''}'' # r) = Some (kvs, r)"
      using vals Cons by (intro parse_members_written) simp_all
    moreover have "\<exists>s. ?text = CHR 0x22 # s"
      using Cons by (cases kws) (auto simp: quote_json_def)
    moreover have "put_all [] kvs = kvs"
      using "7.prems"(1) put_all_fresh [of "[]" kvs] by (simp add: put_all_def)
    ultimately show ?thesis by (auto simp: parse_value.simps)
  qed (simp add: parse_value.simps)
qed simp

theorem parse_stringify: "json_ok j \<Longrightarrow> json_parse (stringify j) = Some j"
  using parse_written [of j "[]"] by (simp add: json_parse_def skip_ws_def)

section \<open>Objects built by spreading\<close>

lemma distinct_put_all: "distinct (map fst base) \<Longrightarrow> distinct (map fst (put_all base kvs))"
  by (simp add: put_all_def distinct_own_order distinct_fold_update)

lemma own_order_idem: "own_order (own_order kvs) = own_order kvs"
  by (simp add: own_order_def filter_sort comp_def sort_key_id_if_sorted)

lemma set_fold_update: "set (fold (\<lambda>(k, v). AList.update k v) kvs base) \<subseteq> set base \<union> set kvs"
proof (induction kvs arbitrary: base)
  case (Cons kv kvs)
  have "set (AList.update (fst kv) (snd kv) base) \<subseteq> insert kv (set base)"
    by (induction base) auto
  with Cons.IH [of "AList.update (fst kv) (snd kv) base"] show ?case by (cases kv) auto
qed simp

lemma json_ok_put_all:
  assumes "\<forall>kv \<in> set kvs. json_ok (snd kv)"
  shows "json_ok (JObj (put_all [] kvs))"
proof -
  have "set (put_all [] kvs) \<subseteq> set kvs" using set_fold_update [of kvs "[]"] by (simp add: put_all_def)
  with assms show ?thesis
    by (auto simp: distinct_put_all list_all_iff) (simp add: put_all_def own_order_idem)
qed

lemma json_ok_spread: "json_ok j \<Longrightarrow> \<forall>kv \<in> set (spread (Some j)). json_ok (snd kv)"
  by (cases j) (auto simp: spread_def list_all_iff dest!: set_zip_rightD)

end
