(* ===== verification/Package_Import.thy ===== *)
theory Package_Import
  imports Complex_Main Validation Json_Text Api_Monitor Roles
begin

text \<open>
  The bulk import of packages (\<open>features/packages/ui/package-import-view.tsx\<close>): the three parsers
  and the guess of the format, the preview with its selection, and the import itself.
\<close>

section \<open>Parsers\<close>

datatype ImportFormat = Requirements_txt | Package_json | Go_mod | List_format

definition format_name :: "ImportFormat \<Rightarrow> string" where
  "format_name f = (case f of Requirements_txt \<Rightarrow> ''requirements_txt'' | Package_json \<Rightarrow> ''package_json''
     | Go_mod \<Rightarrow> ''go_mod'' | List_format \<Rightarrow> ''list'')"

text \<open>A parsed package: its name and its ecosystem.\<close>

type_synonym found = "string \<times> string"

abbreviation newline :: char where "newline \<equiv> CHR 0x0A"

definition requirement_stop :: "char \<Rightarrow> bool" where
  "requirement_stop c \<longleftrightarrow> c \<in> set ''=<>~![;@''"

definition parseRequirementsTxt :: "string \<Rightarrow> found list" where
  "parseRequirementsTxt text =
     (let trimmed = map trim (split_char newline text);
          kept = filter (\<lambda>l. l \<noteq> [] \<and> \<not> startsWith l ''#'' \<and> \<not> startsWith l ''-'') trimmed;
          named = map (\<lambda>l. (trim (takeWhile (\<lambda>c. \<not> requirement_stop c) l), ''python'')) kept in
      filter (\<lambda>p. length (fst p) > 0) named)"

definition parsePackageJson :: "string \<Rightarrow> found list" where
  "parsePackageJson text =
     (case json_parse text of
        None \<Rightarrow> []
      | Some pkg \<Rightarrow>
          (case (get_prop (Some pkg) ''dependencies'', get_prop (Some pkg) ''devDependencies'') of
             (Some a, Some b) \<Rightarrow> map (\<lambda>kv. (fst kv, ''npm'')) (put_all [] (spread a @ spread b))
           | _ \<Rightarrow> []))"

text \<open>
  \<open>/require\s*\(([\s\S]*?)\)/g\<close>: at a position, the text up to the next closing parenthesis and
  what follows it. The blanks cannot match less than all of them, since a parenthesis is none.
\<close>

definition require_here :: "string \<Rightarrow> (string \<times> string) option" where
  "require_here s =
     (if startsWith s ''require'' then
        (case dropWhile is_space (drop 7 s) of
           c # u \<Rightarrow> if c = CHR ''('' \<and> CHR '')'' \<in> set u
                    then Some (takeWhile (\<lambda>d. d \<noteq> CHR '')'') u, tl (dropWhile (\<lambda>d. d \<noteq> CHR '')'') u))
                    else None
         | [] \<Rightarrow> None)
      else None)"

text \<open>The loop over \<open>exec\<close>: each search starts after the last match.\<close>

function require_blocks :: "string \<Rightarrow> string list" where
  "require_blocks [] = []"
| "require_blocks (c # s) =
     (case require_here (c # s) of
        Some (b, r) \<Rightarrow> b # (if length r \<le> length s then require_blocks r else [])
      | None \<Rightarrow> require_blocks s)"
  by pat_completeness auto
termination by (relation "measure length") auto

definition first_word :: "string \<Rightarrow> string" where
  "first_word s = takeWhile (\<lambda>c. \<not> is_space c) s"

definition go_entry :: "string \<Rightarrow> found list" where
  "go_entry modulePath = (if CHR ''/'' \<in> set modulePath then [(modulePath, ''go'')] else [])"

definition block_line :: "string \<Rightarrow> found list" where
  "block_line line =
     (let trimmed = trim line in
      if trimmed = [] \<or> startsWith trimmed ''//'' then [] else go_entry (first_word trimmed))"

definition single_line :: "string \<Rightarrow> found list" where
  "single_line line =
     (let trimmed = trim line in
      if startsWith trimmed ''require '' \<and> \<not> startsWith trimmed ''require (''
      then go_entry (first_word (trim (drop 8 trimmed))) else [])"

definition parseGoMod :: "string \<Rightarrow> found list" where
  "parseGoMod text =
     concat (map (\<lambda>block. concat (map block_line (split_char newline block))) (require_blocks text)) @
     concat (map single_line (split_char newline text))"

definition endsWith :: "string \<Rightarrow> string \<Rightarrow> bool" where
  "endsWith s p \<longleftrightarrow> startsWith (rev s) (rev p)"

definition detectFormat :: "string \<Rightarrow> string option \<Rightarrow> ImportFormat" where
  "detectFormat text fileName =
     (let named = (\<lambda>P. case fileName of None \<Rightarrow> False | Some n \<Rightarrow> P n) in
      if named (\<lambda>n. n = ''go.mod'') \<or> named (\<lambda>n. endsWith n ''.mod'') then Go_mod
      else if named (\<lambda>n. endsWith n ''.json'') \<or> named (\<lambda>n. n = ''package.json'') then Package_json
      else if startsWith (trim text) ''{'' then Package_json
      else if startsWith (trim text) ''module '' then Go_mod
      else Requirements_txt)"

section \<open>The view\<close>

datatype entry_status = New_entry | Exists_entry | Error_entry

record ParsedEntry =
  pe_name :: string
  pe_ecosystem :: string
  pe_status :: entry_status
  pe_error :: "string option"
  pe_selected :: bool

text \<open>\<open>importResult\<close> is the answer's data, the outer \<^term>\<open>None\<close> standing for \<open>null\<close>.\<close>

record import_view =
  textInput :: string
  detectedFormat :: ImportFormat
  rawEntries :: "ParsedEntry list"
  parseError :: string
  importResult :: "json option option"
  dragActive :: bool
  importProgress :: "rat option"

definition mount_import :: import_view where
  "mount_import = \<lparr>textInput = [], detectedFormat = Requirements_txt, rawEntries = [], parseError = [],
     importResult = None, dragActive = False, importProgress = None\<rparr>"

text \<open>
  The packages known already are a set of names with ecosystems; the code compares
  \<open>`${name}:${ecosystem}`\<close>, which tells two packages apart since no ecosystem has a colon.
\<close>

definition existingNames :: "found list option \<Rightarrow> string set" where
  "existingNames pkgs = set (map (\<lambda>(n, e). n @ '':'' @ e) (case pkgs of None \<Rightarrow> [] | Some ps \<Rightarrow> ps))"

definition known :: "string set \<Rightarrow> found \<Rightarrow> bool" where
  "known existing p \<longleftrightarrow> fst p @ '':'' @ snd p \<in> existing"

definition show_entries :: "string set \<Rightarrow> import_view \<Rightarrow> ParsedEntry list" where
  "show_entries existing v =
     map (\<lambda>e. e\<lparr>pe_status := (if known existing (pe_name e, pe_ecosystem e) then Exists_entry else New_entry)\<rparr>)
       (rawEntries v)"

definition buildEntry :: "string set \<Rightarrow> found \<Rightarrow> ParsedEntry" where
  "buildEntry existing p =
     (case bulkImportEntrySchema (fst p) (snd p) of
        (_, msg) # _ \<Rightarrow> \<lparr>pe_name = fst p, pe_ecosystem = snd p, pe_status = Error_entry, pe_error = Some msg, pe_selected = False\<rparr>
      | [] \<Rightarrow> \<lparr>pe_name = fst p, pe_ecosystem = snd p,
               pe_status = (if known existing p then Exists_entry else New_entry), pe_error = None,
               pe_selected = (\<not> known existing p)\<rparr>)"

definition parse_as :: "ImportFormat \<Rightarrow> string \<Rightarrow> found list" where
  "parse_as format text = (case format of
       Package_json \<Rightarrow> parsePackageJson text
     | Go_mod \<Rightarrow> parseGoMod text
     | _ \<Rightarrow> parseRequirementsTxt text)"

definition parse_failed :: "ImportFormat \<Rightarrow> string" where
  "parse_failed format = (case format of
       Package_json \<Rightarrow> ''Could not parse any packages from this JSON. Ensure it has a \"dependencies\" or \"devDependencies\" field.''
     | Go_mod \<Rightarrow> ''Could not parse any packages from this go.mod file. Ensure it has a require block.''
     | _ \<Rightarrow> ''Could not parse any packages. Use requirements.txt format (one package per line), package.json, or go.mod file.'')"

definition parseContent :: "string set \<Rightarrow> string \<Rightarrow> string option \<Rightarrow> import_view \<Rightarrow> import_view" where
  "parseContent existing text fileName v =
     (let v = v\<lparr>parseError := [], importResult := None\<rparr> in
      if trim text = [] then v\<lparr>parseError := ''No content to parse.''\<rparr>
      else
        (let format = detectFormat text fileName; v = v\<lparr>detectedFormat := format\<rparr>; packages = parse_as format text in
         if length packages = 0 then v\<lparr>parseError := parse_failed format\<rparr>
         else v\<lparr>rawEntries := map (buildEntry existing) packages\<rparr>))"

definition processFile :: "string set \<Rightarrow> string \<Rightarrow> string \<Rightarrow> import_view \<Rightarrow> import_view" where
  "processFile existing content name v = parseContent existing content (Some name) (v\<lparr>textInput := content\<rparr>)"

definition handleFileUpload :: "string set \<Rightarrow> (string \<times> string) option \<Rightarrow> import_view \<Rightarrow> import_view" where
  "handleFileUpload existing file v =
     (case file of None \<Rightarrow> v | Some (content, name) \<Rightarrow> processFile existing content name v)"

definition handleDragEnter :: "import_view \<Rightarrow> import_view" where
  "handleDragEnter v = v\<lparr>dragActive := True\<rparr>"

text \<open>\<open>inside\<close>: the pointer is still over a part of the drop zone.\<close>

definition handleDragLeave :: "bool \<Rightarrow> import_view \<Rightarrow> import_view" where
  "handleDragLeave inside v = (if inside then v else v\<lparr>dragActive := False\<rparr>)"

definition handleDrop :: "string set \<Rightarrow> (string \<times> string) option \<Rightarrow> import_view \<Rightarrow> import_view" where
  "handleDrop existing file v =
     (let v = v\<lparr>dragActive := False\<rparr> in
      case file of None \<Rightarrow> v | Some (content, name) \<Rightarrow> processFile existing content name v)"

definition handleTextParse :: "string set \<Rightarrow> import_view \<Rightarrow> import_view" where
  "handleTextParse existing v = parseContent existing (textInput v) None v"

definition handlePaste :: "string set \<Rightarrow> nat \<Rightarrow> nat \<Rightarrow> string \<Rightarrow> import_view \<Rightarrow> import_view" where
  "handlePaste existing selectionStart selectionEnd pasted v =
     (let combined = take selectionStart (textInput v) @ pasted @ drop selectionEnd (textInput v) in
      parseContent existing combined None (v\<lparr>textInput := combined\<rparr>))"

definition allSelected :: "string set \<Rightarrow> import_view \<Rightarrow> bool" where
  "allSelected existing v \<longleftrightarrow> length (show_entries existing v) > 0 \<and> list_all pe_selected (show_entries existing v)"

definition newCount :: "string set \<Rightarrow> import_view \<Rightarrow> nat" where
  "newCount existing v = length (filter (\<lambda>e. pe_status e = New_entry) (show_entries existing v))"

definition existsCount :: "string set \<Rightarrow> import_view \<Rightarrow> nat" where
  "existsCount existing v = length (filter (\<lambda>e. pe_status e = Exists_entry) (show_entries existing v))"

definition someSelected :: "string set \<Rightarrow> import_view \<Rightarrow> bool" where
  "someSelected existing v \<longleftrightarrow> list_ex pe_selected (show_entries existing v) \<and> \<not> allSelected existing v"

definition toggleSelectAll :: "string set \<Rightarrow> import_view \<Rightarrow> import_view" where
  "toggleSelectAll existing v =
     (let nextVal = (\<not> allSelected existing v) in
      v\<lparr>rawEntries := map (\<lambda>e. e\<lparr>pe_selected := nextVal\<rparr>) (rawEntries v)\<rparr>)"

definition toggleEntry :: "nat \<Rightarrow> import_view \<Rightarrow> import_view" where
  "toggleEntry index v =
     v\<lparr>rawEntries := map (\<lambda>(i, e). if i = index then e\<lparr>pe_selected := (\<not> pe_selected e)\<rparr> else e)
         (enumerate 0 (rawEntries v))\<rparr>"

definition cancel_import :: "import_view \<Rightarrow> import_view" where
  "cancel_import v = v\<lparr>rawEntries := [], textInput := []\<rparr>"

section \<open>The import\<close>

definition selectedCount :: "string set \<Rightarrow> import_view \<Rightarrow> nat" where
  "selectedCount existing v = length (filter pe_selected (show_entries existing v))"

text \<open>
  \<open>handleImport\<close> up to its request, one tick of the simulated progress with a random number from
  the unit interval, and what follows the answer.
\<close>

definition handleImport :: "string set \<Rightarrow> import_view \<Rightarrow> api_call option \<times> import_view" where
  "handleImport existing v =
     (if selectedCount existing v = 0 then (None, v)
      else (Some (bulkImportPackages (format_name (detectedFormat v)) (textInput v)), v\<lparr>importProgress := Some 0\<rparr>))"

definition progress_tick :: "rat \<Rightarrow> import_view \<Rightarrow> import_view" where
  "progress_tick random v =
     v\<lparr>importProgress := (case importProgress v of
         None \<Rightarrow> None
       | Some prev \<Rightarrow> if prev \<ge> 90 then Some prev else Some (prev + random * 15))\<rparr>"

definition import_answered :: "thrown + json \<Rightarrow> import_view \<Rightarrow> import_view" where
  "import_answered answer v =
     (case answer of
        Inl _ \<Rightarrow> v\<lparr>importProgress := None\<rparr>
      | Inr result \<Rightarrow>
          (case get_prop (Some result) ''data'' of
             None \<Rightarrow> v\<lparr>importProgress := None\<rparr>
           | Some d \<Rightarrow> v\<lparr>importProgress := Some 100, importResult := (if d = Some JNull then None else Some d),
                         rawEntries := [], textInput := []\<rparr>))"

text \<open>A second later.\<close>

definition progress_cleared :: "import_view \<Rightarrow> import_view" where
  "progress_cleared v = v\<lparr>importProgress := None\<rparr>"

definition canImport :: "WorkspaceRole option \<Rightarrow> bool" where
  "canImport role = hasMinimumRole role member"

section \<open>What the parsers find\<close>

lemma trim_id:
  assumes "s \<noteq> [] \<Longrightarrow> \<not> is_space (hd s) \<and> \<not> is_space (last s)"
  shows "trim s = s"
proof (cases "s = []")
  case False
  then have "dropWhile is_space s = s" "dropWhile is_space (rev s) = rev s"
    using assms by (auto simp: dropWhile_eq_self_iff hd_rev)
  then show ?thesis by (simp add: trim_def)
qed (simp add: trim_def)

lemma trim_start:
  assumes "s \<noteq> []" and "\<forall>c \<in> set s. \<not> is_space c"
  obtains t' where "trim (s @ t) = s @ t'" "\<forall>c \<in> set t'. c \<in> set t" "t' = [] \<or> hd t' = hd t"
proof -
  have s: "dropWhile is_space (s @ t) = s @ t" using assms by (cases s) auto
  have r: "dropWhile is_space (rev s) = rev s"
    using assms by (auto simp: dropWhile_eq_self_iff hd_rev)
  have "trim (s @ t) = s @ rev (dropWhile is_space (rev t))"
    unfolding trim_def s rev_append using r by (auto simp: dropWhile_append)
  moreover have "\<forall>c \<in> set (rev (dropWhile is_space (rev t))). c \<in> set t"
    using set_dropWhileD by fastforce
  moreover have "rev (dropWhile is_space (rev t)) = [] \<or> hd (rev (dropWhile is_space (rev t))) = hd t"
  proof (cases "dropWhile is_space (rev t) = []")
    case False
    have "rev t = takeWhile is_space (rev t) @ dropWhile is_space (rev t)" by simp
    then have "t = rev (dropWhile is_space (rev t)) @ rev (takeWhile is_space (rev t))"
      by (metis rev_append rev_rev_ident)
    then have "hd t = hd (rev (dropWhile is_space (rev t)))"
      using False by (metis hd_append2 rev_is_Nil_conv)
    then show ?thesis by simp
  qed simp
  ultimately show thesis by (rule that)
qed

lemma trim_start_ex:
  "s \<noteq> [] \<Longrightarrow> \<forall>c \<in> set s. \<not> is_space c \<Longrightarrow> \<exists>t'. trim (s @ t) = s @ t' \<and> (t' = [] \<or> hd t' = hd t)"
  using trim_start by metis

text \<open>A line of \<open>requirements.txt\<close>: a name, then nothing or a mark that ends it.\<close>

definition requirement_line :: "string \<times> string \<Rightarrow> bool" where
  "requirement_line = (\<lambda>(n, spec). n \<noteq> [] \<and> hd n \<noteq> CHR ''#'' \<and> hd n \<noteq> CHR ''-'' \<and>
     (\<forall>c \<in> set n. \<not> is_space c \<and> \<not> requirement_stop c) \<and>
     (spec = [] \<or> requirement_stop (hd spec)) \<and> newline \<notin> set spec)"

lemma newline_space [simp]: "is_space newline"
  by simp

lemma requirement_kept:
  assumes "requirement_line (n, spec)"
  shows "trim (n @ spec) \<noteq> []" "\<not> startsWith (trim (n @ spec)) ''#''" "\<not> startsWith (trim (n @ spec)) ''-''"
    "takeWhile (\<lambda>c. \<not> requirement_stop c) (trim (n @ spec)) = n" "trim n = n"
proof -
  have n: "n \<noteq> []" "\<forall>c \<in> set n. \<not> is_space c" "\<forall>c \<in> set n. \<not> requirement_stop c"
    "hd n \<noteq> CHR ''#''" "hd n \<noteq> CHR ''-''" "spec = [] \<or> requirement_stop (hd spec)"
    using assms by (auto simp: requirement_line_def)
  obtain t where t: "trim (n @ spec) = n @ t" "\<forall>c \<in> set t. c \<in> set spec" "t = [] \<or> hd t = hd spec"
    using trim_start [OF n(1,2)] by metis
  obtain c m where c: "n = c # m" using n(1) by (cases n) auto
  with t n show "trim (n @ spec) \<noteq> []" "\<not> startsWith (trim (n @ spec)) ''#''"
    "\<not> startsWith (trim (n @ spec)) ''-''" by auto
  show "takeWhile (\<lambda>c. \<not> requirement_stop c) (trim (n @ spec)) = n"
    using t n by (cases t) (auto simp: takeWhile_append)
  show "trim n = n" using n by (intro trim_id) auto
qed

text \<open>Every line of a requirements file that names a package is found, in its order, whatever
  version, extras, marker or address follows the name.\<close>

theorem requirements_found:
  assumes "list_all requirement_line ps" and "ps \<noteq> []"
  shows "parseRequirementsTxt (join_with [newline] (map (\<lambda>(n, spec). n @ spec) ps)) =
    map (\<lambda>(n, _). (n, ''python'')) ps"
proof -
  let ?lines = "map (\<lambda>(n, spec). n @ spec) ps"
  have "\<forall>l \<in> set ?lines. newline \<notin> set l"
    using assms(1) by (fastforce simp: list_all_iff requirement_line_def)
  then have split: "split_char newline (join_with [newline] ?lines) = ?lines"
    using assms(2) by (intro split_join) auto
  have kept: "filter (\<lambda>l. l \<noteq> [] \<and> \<not> startsWith l ''#'' \<and> \<not> startsWith l ''-'') (map trim ?lines) = map trim ?lines"
    using assms(1) by (auto simp: filter_id_conv list_all_iff requirement_kept)
  have named: "map (\<lambda>l. (trim (takeWhile (\<lambda>c. \<not> requirement_stop c) l), ''python'')) (map trim ?lines) =
      map (\<lambda>(n, _). (n, ''python'')) ps"
    using assms(1) by (auto simp: list_all_iff requirement_kept)
  have "filter (\<lambda>p. length (fst p) > 0) (map (\<lambda>(n, _). (n, ''python'')) ps) = map (\<lambda>(n, _). (n, ''python'')) ps"
    using assms(1) by (auto simp: filter_id_conv list_all_iff requirement_line_def)
  then show ?thesis
    unfolding parseRequirementsTxt_def Let_def split kept named .
qed

lemma requirements_found_witness:
  "parseRequirementsTxt (join_with [newline] [''requests>=2.28'', ''flask'']) =
     [(''requests'', ''python''), (''flask'', ''python'')]"
  using requirements_found [of "[(''requests'', ''>=2.28''), (''flask'', [])]"]
  by (simp add: requirement_line_def requirement_stop_def)

text \<open>A \<open>package.json\<close> written by \<open>JSON.stringify\<close> yields its dependencies and then its development
  dependencies, whatever else it holds.\<close>

theorem package_json_found:
  assumes "json_ok (JObj pkg)"
    and "map_of pkg ''dependencies'' = Some (JObj ds)" and "map_of pkg ''devDependencies'' = Some (JObj es)"
    and "distinct (map fst (ds @ es))" and "\<forall>k \<in> fst ` set (ds @ es). \<not> array_index k"
  shows "parsePackageJson (stringify (JObj pkg)) = map (\<lambda>kv. (fst kv, ''npm'')) (ds @ es)"
proof -
  have "put_all [] (ds @ es) = ds @ es"
    using put_all_fresh [of "[]" "ds @ es"] own_order_plain [OF assms(5)] assms(4) by (simp add: put_all_def)
  then show ?thesis
    using assms(2,3)
    by (simp add: parsePackageJson_def parse_stringify [OF assms(1)] spread_def del: stringify.simps)
qed


lemma split_char_append_both: "split_char c (s @ c # t) = split_char c s @ split_char c t"
proof (induction s)
  case (Cons x s)
  then show ?case by (cases "split_char c s") auto
qed simp

lemma require_needs_r: "CHR ''r'' \<notin> set s \<Longrightarrow> require_blocks (s @ t) = require_blocks t"
  by (induction s) (auto simp: require_here_def)

definition mod_line :: "string \<times> string \<Rightarrow> string" where
  "mod_line = (\<lambda>(p, v). CHR 0x09 # p @ CHR '' '' # v)"

definition go_mod_text :: "string \<Rightarrow> (string \<times> string) list \<Rightarrow> string" where
  "go_mod_text pre ms = pre @ newline # join_with [newline] (''require ('' # map mod_line ms @ ['')'']) "

definition good_module :: "string \<times> string \<Rightarrow> bool" where
  "good_module = (\<lambda>(p, v). CHR ''/'' \<in> set p \<and> \<not> startsWith p ''//'' \<and>
     (\<forall>c \<in> set p. \<not> is_space c \<and> c \<noteq> CHR '')'') \<and> newline \<notin> set v \<and> CHR '')'' \<notin> set v)"

lemma good_moduleD:
  assumes "good_module (p, v)"
  shows "\<forall>c \<in> set p. \<not> is_space c" "CHR ''/'' \<in> set p" "\<not> startsWith p ''//''"
  using assms unfolding good_module_def by blast+

lemma require_here_block: "CHR '')'' \<notin> set b \<Longrightarrow> require_here (''require ('' @ b @ '')'') = Some (b, [])"
proof -
  assume "CHR '')'' \<notin> set b"
  then have "\<forall>d \<in> set b. d \<noteq> CHR '')''" by auto
  then show ?thesis by (simp add: require_here_def takeWhile_append2 dropWhile_append2)
qed

lemma join_block:
  "join_with [newline] (a # xs @ [b]) = a @ join_with [newline] ([] # xs @ [[]]) @ b"
proof (induction xs arbitrary: a b)
  case (Cons x xs)
  have "join_with [newline] (x # xs @ [b]) = x @ join_with [newline] ([] # xs @ [[]]) @ b"
    "join_with [newline] (x # xs @ [[]]) = x @ join_with [newline] ([] # xs @ [[]]) @ []"
    by (rule Cons.IH)+
  then show ?case by (simp del: append_assoc add: append_assoc [symmetric])
qed simp

lemma first_word_append: "\<forall>c \<in> set p. \<not> is_space c \<Longrightarrow> t = [] \<or> is_space (hd t) \<Longrightarrow> first_word (p @ t) = p"
  by (cases t) (auto simp: first_word_def takeWhile_append)

lemma trim_drop_space: "is_space c \<Longrightarrow> trim (c # s) = trim s"
  by (simp add: trim_def)

lemma mod_line_trimmed:
  assumes "good_module (p, v)"
  obtains t where "trim (mod_line (p, v)) = p @ t" "t = [] \<or> is_space (hd t)" "p \<noteq> []"
proof -
  have p: "p \<noteq> []" "\<forall>c \<in> set p. \<not> is_space c"
    using good_moduleD(1,2) [OF assms] by (cases p; simp)+
  obtain t where t: "trim (p @ CHR '' '' # v) = p @ t" "t = [] \<or> hd t = CHR '' ''"
    using trim_start_ex [OF p, of "CHR '' '' # v"] unfolding list.sel by blast
  have "trim (mod_line (p, v)) = p @ t" using t(1) by (simp add: mod_line_def trim_drop_space)
  moreover have "t = [] \<or> is_space (hd t)" using t(2) by auto
  ultimately show thesis using p(1) by (rule that)
qed

lemma mod_line_found: "good_module (p, v) \<Longrightarrow> block_line (mod_line (p, v)) = [(p, ''go'')]"
proof -
  assume g: "good_module (p, v)"
  obtain t where t: "trim (mod_line (p, v)) = p @ t" "t = [] \<or> is_space (hd t)" "p \<noteq> []"
    using mod_line_trimmed [OF g] .
  have p: "\<forall>c \<in> set p. \<not> is_space c" "CHR ''/'' \<in> set p" "\<not> startsWith p ''//''"
    by (rule good_moduleD [OF g])+
  have "\<not> startsWith (p @ t) ''//''"
  proof
    assume st: "startsWith (p @ t) ''//''"
    then obtain a q where q: "p = a # q" "a = CHR ''/''" using t(3) by (cases p) auto
    show False
    proof (cases q)
      case Nil
      with st q t(2) show False by (cases t) auto
    next
      case (Cons b q')
      with st q p(3) show False by simp
    qed
  qed
  with t p first_word_append [OF p(1) t(2)] show ?thesis
    by (simp add: block_line_def go_entry_def)
qed

lemma mod_line_not_single: "good_module (p, v) \<Longrightarrow> single_line (mod_line (p, v)) = []"
proof -
  assume g: "good_module (p, v)"
  obtain t where t: "trim (mod_line (p, v)) = p @ t" "t = [] \<or> is_space (hd t)" "p \<noteq> []"
    using mod_line_trimmed [OF g] .
  have p: "\<forall>c \<in> set p. \<not> is_space c" "CHR ''/'' \<in> set p" by (rule good_moduleD [OF g])+
  have "\<not> startsWith (p @ t) ''require ''"
  proof
    assume "startsWith (p @ t) ''require ''"
    then obtain r where r: "p @ t = ''require '' @ r" by (auto simp: startsWith_iff)
    have "first_word (p @ t) = p" by (rule first_word_append [OF p(1) t(2)])
    then have "p = ''require''" unfolding r by (simp add: first_word_def)
    with p(2) show False by simp
  qed
  with t show ?thesis by (simp add: single_line_def)
qed

lemma single_line_needs_r: "CHR ''r'' \<notin> set l \<Longrightarrow> single_line l = []"
proof -
  assume r: "CHR ''r'' \<notin> set l"
  have "set (trim l) \<subseteq> set l" by (auto simp: trim_def dest!: set_dropWhileD)
  with r have "\<not> startsWith (trim l) ''require ''" by (cases "trim l") auto
  then show ?thesis by (simp add: single_line_def Let_def)
qed

lemma split_char_chars: "x \<in> set (split_char c s) \<Longrightarrow> set x \<subseteq> set s"
  by (rule split_char_subset)

text \<open>A \<open>go.mod\<close> file with a block of requirements yields exactly their module paths, in order, and
  the scan for single-line requirements adds none of them a second time.\<close>

theorem go_modules_found:
  assumes "list_all good_module ms" and "CHR ''r'' \<notin> set pre"
  shows "parseGoMod (go_mod_text pre ms) = map (\<lambda>(p, _). (p, ''go'')) ms"
proof -
  let ?lines = "map mod_line ms" and ?block = "join_with [newline] ([] # map mod_line ms @ [[]])"
  let ?text = "join_with [newline] (''require ('' # ?lines @ ['')''])"
  have good: "\<And>p v. (p, v) \<in> set ms \<Longrightarrow> good_module (p, v)" using assms(1) by (auto simp: list_all_iff)
  have nl: "\<forall>l \<in> set ?lines. newline \<notin> set l" and par: "\<forall>l \<in> set ?lines. CHR '')'' \<notin> set l"
    using good by (fastforce simp: mod_line_def good_module_def)+
  have whole: "?text = ''require ('' @ ?block @ '')''" by (rule join_block)
  have "\<forall>xs. (\<forall>l \<in> set xs. CHR '')'' \<notin> set l) \<longrightarrow> CHR '')'' \<notin> set (join_with [newline] xs)"
  proof
    fix xs :: "string list"
    show "(\<forall>l \<in> set xs. CHR '')'' \<notin> set l) \<longrightarrow> CHR '')'' \<notin> set (join_with [newline] xs)"
      by (induction xs rule: induct_list012) auto
  qed
  then have "CHR '')'' \<notin> set ?block" using par by auto
  then have "require_here (''require ('' @ ?block @ '')'') = Some (?block, [])"
    by (rule require_here_block)
  then have blocks: "require_blocks (go_mod_text pre ms) = [?block]"
    unfolding go_mod_text_def whole using require_needs_r [of "pre @ [newline]"] assms(2) by simp
  have "split_char newline ?block = [] # ?lines @ [[]]" using nl by (intro split_join) auto
  moreover have "concat (map block_line ?lines) = map (\<lambda>(p, _). (p, ''go'')) ms"
    using good by (induction ms) (auto simp: mod_line_found)
  moreover have "block_line [] = []" by (simp add: block_line_def trim_def)
  ultimately have found: "concat (map block_line (split_char newline ?block)) = map (\<lambda>(p, _). (p, ''go'')) ms"
    by simp
  have "split_char newline ?text = ''require ('' # ?lines @ ['')'']" using nl by (intro split_join) auto
  then have split: "split_char newline (go_mod_text pre ms) =
      split_char newline pre @ ''require ('' # ?lines @ ['')'']"
    by (simp add: go_mod_text_def split_char_append_both)
  have "concat (map single_line (split_char newline pre)) = []"
    using assms(2) split_char_chars by (fastforce intro: single_line_needs_r)
  moreover have "concat (map single_line ?lines) = []" using good by (auto simp: mod_line_not_single)
  moreover have "single_line ''require ('' = []" "single_line '')'' = []"
    by (simp_all add: single_line_def trim_def)
  ultimately have "concat (map single_line (split_char newline (go_mod_text pre ms))) = []"
    unfolding split by simp
  then show ?thesis unfolding parseGoMod_def blocks using found by simp
qed


lemma go_modules_found_witness:
  "parseGoMod (go_mod_text (''module demo'' @ [newline]) [(''example.com/x'', ''v1.2.0''), (''example.com/y'', ''v0.1.0'')]) =
     [(''example.com/x'', ''go''), (''example.com/y'', ''go'')]"
  using go_modules_found [of "[(''example.com/x'', ''v1.2.0''), (''example.com/y'', ''v0.1.0'')]" "''module demo'' @ [newline]"]
  by (simp add: good_module_def)

text \<open>The comment of one requirement can hide all that follow it: the block ends at the first closing
  parenthesis, in a comment too.\<close>

lemma comment_ends_block:
  "parseGoMod (''require ('' @ [newline] @ ''a.b/x v1 // was (y)'' @ [newline] @ ''a.b/z v2'' @ [newline] @ '')'') =
     [(''a.b/x'', ''go'')]"
  by code_simp

section \<open>Selection and import\<close>

text \<open>What the checkboxes of the preview can do.\<close>

inductive reselect :: "string set \<Rightarrow> import_view \<Rightarrow> import_view \<Rightarrow> bool" for existing where
  nothing: "reselect existing v v"
| one_entry: "reselect existing v w \<Longrightarrow> reselect existing v (toggleEntry i w)"
| all_entries: "reselect existing v w \<Longrightarrow> reselect existing v (toggleSelectAll existing w)"

lemma toggle_names: "map pe_name (rawEntries (toggleEntry i v)) = map pe_name (rawEntries v)"
proof -
  have "map pe_name (rawEntries (toggleEntry i v)) = map pe_name (map snd (enumerate 0 (rawEntries v)))"
    unfolding toggleEntry_def by (simp only: import_view.simps map_map comp_def) (auto intro!: map_cong)
  then show ?thesis by simp
qed

lemma reselect_keeps:
  "reselect existing v w \<Longrightarrow> textInput w = textInput v \<and> detectedFormat w = detectedFormat v \<and>
     map pe_name (rawEntries w) = map pe_name (rawEntries v)"
  by (induction rule: reselect.induct) (simp_all add: toggle_names, simp_all add: toggleEntry_def toggleSelectAll_def comp_def)

text \<open>Deselecting a package does not keep it from being imported: whatever the boxes are set to, as long
  as one of them is, the request is the same, with the whole text that was entered.\<close>

theorem import_ignores_selection:
  assumes "reselect existing v w" and "selectedCount existing w \<noteq> 0"
  shows "fst (handleImport existing w) = Some (bulkImportPackages (format_name (detectedFormat v)) (textInput v)) \<and>
    map pe_name (show_entries existing w) = map pe_name (show_entries existing v)"
  using assms reselect_keeps [OF assms(1)] by (simp add: handleImport_def show_entries_def comp_def)

definition demo_import :: import_view where
  "demo_import = handleTextParse {} (mount_import\<lparr>textInput := ''left'' @ [newline] @ ''right''\<rparr>)"

lemma import_ignores_selection_witness:
  "map pe_selected (show_entries {} (toggleEntry 1 demo_import)) = [True, False] \<and>
   fst (handleImport {} (toggleEntry 1 demo_import)) =
     Some (bulkImportPackages ''requirements_txt'' (''left'' @ [newline] @ ''right''))"
proof -
  have step: "reselect {} demo_import (toggleEntry 1 demo_import)" by (rule one_entry [OF reselect.nothing])
  have sel: "map pe_selected (show_entries {} (toggleEntry 1 demo_import)) = [True, False]"
    "selectedCount {} (toggleEntry 1 demo_import) \<noteq> 0"
    "format_name (detectedFormat demo_import) = ''requirements_txt''"
    "textInput demo_import = ''left'' @ [newline] @ ''right''"
    by code_simp+
  show ?thesis using import_ignores_selection [OF step sel(2)] sel by simp
qed

text \<open>An entry the schema refuses is not shown as one: the status is computed afresh for the preview, and
  the boxes can select it.\<close>

lemma error_entries_hidden: "Error_entry \<notin> pe_status ` set (show_entries existing v)"
  by (auto simp: show_entries_def split: if_splits)

text \<open>Every line of the preview counts as new or as known, so the summary accounts for all of them, and a
  file that has just been read has selected exactly the new ones the schema accepts.\<close>

lemma counts_cover: "newCount existing v + existsCount existing v = length (rawEntries v)"
proof -
  have "filter (\<lambda>e. \<not> pe_status e = New_entry) (show_entries existing v) =
      filter (\<lambda>e. pe_status e = Exists_entry) (show_entries existing v)"
    by (rule filter_cong) (auto simp: show_entries_def split: if_splits)
  then show ?thesis
    using sum_length_filter_compl [of "\<lambda>e. pe_status e = New_entry" "show_entries existing v"]
    by (simp add: newCount_def existsCount_def show_entries_def)
qed

text \<open>The simulated progress stays below 105 percent however long the answer takes, and it can pass 100.\<close>

theorem progress_bounded:
  assumes "\<forall>r \<in> set rs. 0 \<le> r \<and> r < 1" and "importProgress v = Some p" and "0 \<le> p" and "p < 105"
  shows "\<exists>q. importProgress (fold progress_tick rs v) = Some q \<and> p \<le> q \<and> q < 105"
  using assms
proof (induction rs arbitrary: v p)
  case (Cons r rs)
  show ?case
  proof (cases "p \<ge> 90")
    case True
    with Cons show ?thesis by (auto simp: progress_tick_def)
  next
    case False
    have "importProgress (progress_tick r v) = Some (p + r * 15)"
      using False Cons.prems(2) by (simp add: progress_tick_def)
    with Cons.IH [of "progress_tick r v" "p + r * 15"] Cons.prems(1,3) False
    show ?thesis by fastforce
  qed
qed auto

lemma progress_bounded_witness:
  "\<exists>q. importProgress (fold progress_tick [9/10, 9/10, 9/10, 9/10, 9/10, 9/10, 8/10, 9/10]
      (snd (handleImport {} demo_import))) = Some q \<and> 0 \<le> q \<and> q < 105"
proof -
  have "selectedCount {} demo_import \<noteq> 0" by code_simp
  then have "importProgress (snd (handleImport {} demo_import)) = Some 0" by (simp add: handleImport_def)
  then show ?thesis by (intro progress_bounded) auto
qed

lemma progress_beyond_full:
  "importProgress (progress_tick (9/10) (mount_import\<lparr>importProgress := Some 89\<rparr>)) = Some (205/2)"
  by (simp add: progress_tick_def)

text \<open>After an import that was answered the form is empty, so what it sent cannot be sent twice.\<close>

theorem import_done:
  assumes "get_prop (Some r) ''data'' \<noteq> None"
  shows "fst (handleImport existing (import_answered (Inr r) v)) = None \<and> textInput (import_answered (Inr r) v) = []"
  using assms by (auto simp: import_answered_def handleImport_def selectedCount_def show_entries_def)

end
