(* ===== verification/Channels_View.thy ===== *)
theory Channels_View
  imports Validation Json_Text Workspace_Hooks Roles
begin

text \<open>
  The page of notification channels and routing rules
  (\<open>features/notifications/ui/channels-view.tsx\<close>). A channel's configuration is a JSON text that
  the fields edit one property at a time; the schema of the channel's type decides whether
  it can be saved. Which strings are addresses and URLs, and the text of the library's own type
  issues, are arguments.
\<close>

section \<open>Validating a configuration\<close>

datatype NotificationChannelType = email | slack | webhook

definition channel_type_name :: "NotificationChannelType \<Rightarrow> string" where
  "channel_type_name t = (case t of email \<Rightarrow> ''email'' | slack \<Rightarrow> ''slack'' | webhook \<Rightarrow> ''webhook'')"

record formats =
  is_email :: "string \<Rightarrow> bool"
  is_url :: "string \<Rightarrow> bool"
  type_message :: string

text \<open>A required string, and one that may be left out; a value of another type is one issue.\<close>

definition need :: "formats \<Rightarrow> string \<Rightarrow> json option \<Rightarrow> (string \<Rightarrow> issues) \<Rightarrow> issues" where
  "need fm key v f = (case v of Some (JStr s) \<Rightarrow> filter (\<lambda>i. fst i = key) (f s) | _ \<Rightarrow> [(key, type_message fm)])"

definition allow :: "formats \<Rightarrow> string \<Rightarrow> json option \<Rightarrow> issues" where
  "allow fm key v = (case v of None \<Rightarrow> [] | Some (JStr s) \<Rightarrow> [] | _ \<Rightarrow> [(key, type_message fm)])"

text \<open>
  \<open>getConfigSchema(type).safeParse(parsed)\<close>: the issues with their paths, the path of a value that is
  no object being empty. The checks of each field are the ones of the schemas in
  \<open>domains/notifications/validations\<close>.
\<close>

definition config_issues :: "formats \<Rightarrow> NotificationChannelType \<Rightarrow> json \<Rightarrow> (string option \<times> string) list" where
  "config_issues fm t j =
     (case j of
        JObj kvs \<Rightarrow> map (\<lambda>(k, m). (Some k, m))
          (case t of
             email \<Rightarrow>
               need fm ''host'' (map_of kvs ''host'') (\<lambda>s. emailConfigSchema (is_email fm) s [] [] []) @
               need fm ''port'' (map_of kvs ''port'') (\<lambda>s. emailConfigSchema (is_email fm) [] s [] []) @
               allow fm ''username'' (map_of kvs ''username'') @ allow fm ''password'' (map_of kvs ''password'') @
               need fm ''from'' (map_of kvs ''from'') (\<lambda>s. emailConfigSchema (is_email fm) [] [] s []) @
               need fm ''to'' (map_of kvs ''to'') (\<lambda>s. emailConfigSchema (is_email fm) [] [] [] s)
           | slack \<Rightarrow> need fm ''webhookUrl'' (map_of kvs ''webhookUrl'') (slackConfigSchema (is_url fm))
           | webhook \<Rightarrow>
               need fm ''url'' (map_of kvs ''url'') (webhookConfigSchema (is_url fm)) @
               allow fm ''secret'' (map_of kvs ''secret''))
      | _ \<Rightarrow> [(None, type_message fm)])"

definition parse_config :: "string \<Rightarrow> json option" where
  "parse_config config = (if config = [] then Some (JObj []) else json_parse config)"

definition isConfigValid :: "formats \<Rightarrow> NotificationChannelType option \<Rightarrow> string \<Rightarrow> bool" where
  "isConfigValid fm ty config =
     (case ty of
        None \<Rightarrow> False
      | Some t \<Rightarrow> (case parse_config config of None \<Rightarrow> False | Some j \<Rightarrow> config_issues fm t j = []))"

definition validateConfigFields :: "formats \<Rightarrow> NotificationChannelType option \<Rightarrow> string \<Rightarrow> (string \<times> string) list" where
  "validateConfigFields fm ty config =
     (case ty of
        None \<Rightarrow> []
      | Some t \<Rightarrow>
          (case parse_config config of
             None \<Rightarrow> []
           | Some j \<Rightarrow> parseFieldErrors (concat (map (\<lambda>(k, m). case k of None \<Rightarrow> [] | Some k \<Rightarrow> [(k, m)]) (config_issues fm t j)))))"

section \<open>The fields of a configuration: \<open>ChannelConfigFields\<close>\<close>

text \<open>What the fields read: a text that is no JSON counts as no configuration.\<close>

definition parsed_fields :: "string \<Rightarrow> json" where
  "parsed_fields config =
     (if config = [] then JObj [] else case json_parse config of None \<Rightarrow> JObj [] | Some j \<Rightarrow> j)"

definition field_value :: "string \<Rightarrow> string \<Rightarrow> json option" where
  "field_value config key = opt_prop (Some (parsed_fields config)) key"

definition updateField :: "string \<Rightarrow> string \<Rightarrow> string \<Rightarrow> string" where
  "updateField config key value =
     stringify (JObj (put_all [] (spread (Some (parsed_fields config)) @ [(key, JStr value)])))"

definition errorFor :: "formats \<Rightarrow> NotificationChannelType \<Rightarrow> string \<Rightarrow> string \<Rightarrow> string option" where
  "errorFor fm t config name =
     (case map_of (validateConfigFields fm (Some t) config) name of
        None \<Rightarrow> None
      | Some msg \<Rightarrow> if msg = [] \<or> \<not> truthy (field_value config name) then None else Some msg)"

text \<open>The inputs of each type, and whether an error is shown below them.\<close>

definition channel_fields :: "NotificationChannelType \<Rightarrow> (string \<times> bool) list" where
  "channel_fields t = (case t of
       email \<Rightarrow> [(''host'', True), (''port'', True), (''username'', False), (''password'', False), (''from'', True), (''to'', True)]
     | slack \<Rightarrow> [(''webhookUrl'', True)]
     | webhook \<Rightarrow> [(''url'', True), (''secret'', False)])"

definition input_value :: "string \<Rightarrow> string \<Rightarrow> json option" where
  "input_value config key = (if nullish (field_value config key) then Some (JStr []) else field_value config key)"

section \<open>Channels: \<open>ChannelsSection\<close>\<close>

record NotificationChannel =
  ch_id :: string
  ch_workspaceId :: string
  ch_name :: string
  ch_type :: NotificationChannelType
  ch_config :: string
  ch_active :: bool
  ch_createdAt :: string
  ch_updatedAt :: string

record channels_form =
  createOpen :: bool
  channelName :: string
  channelType :: "NotificationChannelType option"
  channelConfig :: string
  editChannel :: "NotificationChannel option"
  editName :: string
  editConfig :: string
  channelFieldErrors :: "(string \<times> string) list"
  channelFormSubmitted :: bool

definition mount_channels :: channels_form where
  "mount_channels = \<lparr>createOpen = False, channelName = [], channelType = None, channelConfig = [],
     editChannel = None, editName = [], editConfig = [], channelFieldErrors = [], channelFormSubmitted = False\<rparr>"

definition type_text :: "NotificationChannelType option \<Rightarrow> string" where
  "type_text ty = (case ty of None \<Rightarrow> [] | Some t \<Rightarrow> channel_type_name t)"

definition validateChannel :: "string \<Rightarrow> channels_form \<Rightarrow> channels_form" where
  "validateChannel name f =
     (if \<not> channelFormSubmitted f then f
      else f\<lparr>channelFieldErrors := parseFieldErrors (channelSchema name (type_text (channelType f)))\<rparr>)"

definition set_create_open :: "bool \<Rightarrow> channels_form \<Rightarrow> channels_form" where
  "set_create_open open f = f\<lparr>createOpen := open\<rparr>"

definition change_name :: "string \<Rightarrow> channels_form \<Rightarrow> channels_form" where
  "change_name value f = validateChannel value (f\<lparr>channelName := value\<rparr>)"

definition select_type :: "NotificationChannelType \<Rightarrow> channels_form \<Rightarrow> channels_form" where
  "select_type t f = f\<lparr>channelType := Some t\<rparr>"

definition change_field :: "string \<Rightarrow> string \<Rightarrow> channels_form \<Rightarrow> channels_form" where
  "change_field key value f = f\<lparr>channelConfig := updateField (channelConfig f) key value\<rparr>"

text \<open>The request \<open>handleCreate\<close> starts, if any; what follows when it succeeds.\<close>

definition handleCreate :: "formats \<Rightarrow> string \<Rightarrow> channels_form \<Rightarrow> api_call option \<times> channels_form" where
  "handleCreate fm ws f =
     (let f = f\<lparr>channelFormSubmitted := True, channelFieldErrors := []\<rparr>;
          iss = channelSchema (channelName f) (type_text (channelType f)) in
      if iss \<noteq> [] then (None, f\<lparr>channelFieldErrors := parseFieldErrors iss\<rparr>)
      else if \<not> isConfigValid fm (channelType f) (channelConfig f) then (None, f)
      else (Some (m_call (useCreateChannel ws) (channelName f, type_text (channelType f), channelConfig f)), f))"

definition channel_created :: "channels_form \<Rightarrow> channels_form" where
  "channel_created f = f\<lparr>createOpen := False, channelFormSubmitted := False, channelName := [], channelType := None,
     channelConfig := []\<rparr>"

definition create_disabled :: "formats \<Rightarrow> bool \<Rightarrow> channels_form \<Rightarrow> bool" where
  "create_disabled fm isPending f \<longleftrightarrow> channelName f = [] \<or> channelType f = None \<or>
     \<not> isConfigValid fm (channelType f) (channelConfig f) \<or> isPending"

definition handleToggle :: "string \<Rightarrow> NotificationChannel \<Rightarrow> bool \<Rightarrow> api_call" where
  "handleToggle ws channel checked = m_call (useUpdateChannel ws) (ch_id channel, ch_name channel, ch_config channel, checked)"

definition handleEditOpen :: "NotificationChannel \<Rightarrow> channels_form \<Rightarrow> channels_form" where
  "handleEditOpen channel f = f\<lparr>editChannel := Some channel, editName := ch_name channel, editConfig := ch_config channel\<rparr>"

definition edit_field :: "string \<Rightarrow> string \<Rightarrow> channels_form \<Rightarrow> channels_form" where
  "edit_field key value f = f\<lparr>editConfig := updateField (editConfig f) key value\<rparr>"

definition change_edit_name :: "string \<Rightarrow> channels_form \<Rightarrow> channels_form" where
  "change_edit_name value f = f\<lparr>editName := value\<rparr>"

definition handleEditSave :: "formats \<Rightarrow> string \<Rightarrow> channels_form \<Rightarrow> api_call option" where
  "handleEditSave fm ws f =
     (case editChannel f of
        None \<Rightarrow> None
      | Some c \<Rightarrow>
          if editName f = [] \<or> \<not> isConfigValid fm (Some (ch_type c)) (editConfig f) then None
          else Some (m_call (useUpdateChannel ws) (ch_id c, editName f, editConfig f, ch_active c)))"

definition channel_saved :: "channels_form \<Rightarrow> channels_form" where
  "channel_saved f = f\<lparr>editChannel := None, editName := [], editConfig := []\<rparr>"

definition close_edit :: "channels_form \<Rightarrow> channels_form" where
  "close_edit f = f\<lparr>editChannel := None\<rparr>"

section \<open>Rules: \<open>RulesSection\<close>\<close>

record rules_form =
  ruleCreateOpen :: bool
  ruleChannel :: "string option"
  ruleSeverity :: string
  ruleFieldErrors :: "(string \<times> string) list"
  ruleFormSubmitted :: bool

definition mount_rules :: rules_form where
  "mount_rules = \<lparr>ruleCreateOpen = False, ruleChannel = None, ruleSeverity = [], ruleFieldErrors = [], ruleFormSubmitted = False\<rparr>"

definition channel_text :: "string option \<Rightarrow> string" where
  "channel_text c = (case c of None \<Rightarrow> [] | Some i \<Rightarrow> i)"

definition validateRule :: "string \<Rightarrow> string \<Rightarrow> rules_form \<Rightarrow> rules_form" where
  "validateRule channelId severity f =
     (if \<not> ruleFormSubmitted f then f
      else f\<lparr>ruleFieldErrors := parseFieldErrors (notificationRuleSchema channelId severity)\<rparr>)"

definition select_severity :: "string \<Rightarrow> rules_form \<Rightarrow> rules_form" where
  "select_severity v f =
     (if v = [] then f else validateRule (channel_text (ruleChannel f)) v (f\<lparr>ruleSeverity := v\<rparr>))"

definition select_channel :: "string \<Rightarrow> rules_form \<Rightarrow> rules_form" where
  "select_channel v f = (if v = [] then f else f\<lparr>ruleChannel := Some v\<rparr>)"

definition handleCreateRule :: "string \<Rightarrow> rules_form \<Rightarrow> api_call option \<times> rules_form" where
  "handleCreateRule ws f =
     (let f = f\<lparr>ruleFormSubmitted := True, ruleFieldErrors := []\<rparr>;
          iss = notificationRuleSchema (channel_text (ruleChannel f)) (ruleSeverity f) in
      if iss \<noteq> [] then (None, f\<lparr>ruleFieldErrors := parseFieldErrors iss\<rparr>)
      else (Some (m_call (useCreateRule ws) (channel_text (ruleChannel f), ruleSeverity f)), f))"

definition rule_created :: "rules_form \<Rightarrow> rules_form" where
  "rule_created f = f\<lparr>ruleCreateOpen := False, ruleFormSubmitted := False, ruleChannel := None, ruleSeverity := []\<rparr>"

definition getChannelName :: "NotificationChannel list \<Rightarrow> string \<Rightarrow> string" where
  "getChannelName channels channelId =
     (case find (\<lambda>c. ch_id c = channelId) channels of Some c \<Rightarrow> ch_name c | None \<Rightarrow> ''Channel #'' @ channelId)"

definition getChannelType :: "NotificationChannel list \<Rightarrow> string \<Rightarrow> NotificationChannelType" where
  "getChannelType channels channelId =
     (case find (\<lambda>c. ch_id c = channelId) channels of Some c \<Rightarrow> ch_type c | None \<Rightarrow> email)"

section \<open>The page: \<open>ChannelsView\<close>\<close>

datatype channels_page = NoPermission | NoWorkspace | Sections string

definition channels_view :: "WorkspaceRole option \<Rightarrow> string option \<Rightarrow> channels_page" where
  "channels_view role workspaceId =
     (if \<not> hasMinimumRole role admin then NoPermission
      else case workspaceId of None \<Rightarrow> NoWorkspace | Some i \<Rightarrow> if i = [] then NoWorkspace else Sections i)"

section \<open>Editing a configuration\<close>

definition text_config :: "string \<Rightarrow> bool" where
  "text_config c \<longleftrightarrow> c = [] \<or> (\<exists>kvs. json_ok (JObj kvs) \<and> c = stringify (JObj kvs))"

lemma stringify_not_empty: "json_ok j \<Longrightarrow> stringify j \<noteq> []"
  by (metis list.distinct(1) stringify_head)

lemma text_config_fields:
  assumes "text_config c"
  obtains kvs where "json_ok (JObj kvs)" "parsed_fields c = JObj kvs" "parse_config c = Some (JObj kvs)"
proof (cases "c = []")
  case True
  have "json_ok (JObj [])" "parsed_fields c = JObj []" "parse_config c = Some (JObj [])"
    using True by (simp_all add: own_order_def parsed_fields_def parse_config_def)
  then show thesis by (rule that)
next
  case False
  with assms obtain kvs where kvs: "json_ok (JObj kvs)" "c = stringify (JObj kvs)"
    by (auto simp: text_config_def)
  have "parsed_fields c = JObj kvs" "parse_config c = Some (JObj kvs)"
    using False parse_stringify [OF kvs(1)] unfolding parsed_fields_def parse_config_def kvs(2)
    by (simp_all del: stringify.simps)
  with kvs(1) show thesis by (rule that)
qed

lemma map_of_rev_fields: "distinct (map fst kvs) \<Longrightarrow> map_of (rev kvs) = map_of kvs"
  by (intro map_of_inject_set [THEN iffD2]) (simp_all add: rev_map [symmetric])

lemma field_edit:
  assumes "text_config c"
  shows "text_config (updateField c key value) \<and>
    field_value (updateField c key value) k = (if k = key then Some (JStr value) else field_value c k)"
proof -
  obtain kvs where kvs: "json_ok (JObj kvs)" "parsed_fields c = JObj kvs"
    using assms by (rule text_config_fields)
  let ?new = "put_all [] (kvs @ [(key, JStr value)])"
  have ok: "json_ok (JObj ?new)"
    using kvs(1) by (intro json_ok_put_all) (auto simp: list_all_iff)
  have c: "updateField c key value = stringify (JObj ?new)"
    by (simp add: updateField_def kvs(2) spread_def del: stringify.simps)
  have "parsed_fields (updateField c key value) = JObj ?new"
    using parse_stringify [OF ok] stringify_not_empty [OF ok] unfolding c parsed_fields_def
    by (simp del: stringify.simps)
  moreover have "map_of ?new k = (if k = key then Some (JStr value) else map_of kvs k)"
    using kvs(1) by (simp add: map_of_put_all map_of_rev_fields)
  moreover have "text_config (updateField c key value)" unfolding c text_config_def using ok by blast
  ultimately show ?thesis by (simp add: field_value_def kvs(2))
qed

lemma field_edit_config: "text_config c \<Longrightarrow> text_config (updateField c key value)"
  using field_edit by blast

text \<open>A field of a channel's configuration reads back what was typed into it, every other field keeps
  its value, and the text stays an object in JSON, so the next edit starts from it.\<close>

theorem field_edit_roundtrip:
  assumes "text_config c"
  shows "text_config (updateField c key value) \<and>
    field_value (updateField c key value) k = (if k = key then Some (JStr value) else field_value c k)"
  using assms by (rule field_edit)

lemma field_edit_roundtrip_witness:
  "field_value (updateField (updateField [] ''host'' ''mail'') ''port'' ''25'') ''host'' = Some (JStr ''mail'')"
proof -
  have empty: "text_config []" by (simp add: text_config_def)
  have one: "text_config (updateField [] ''host'' ''mail'')"
    "field_value (updateField [] ''host'' ''mail'') ''host'' = Some (JStr ''mail'')"
    using field_edit_roundtrip [OF empty, of "''host''" "''mail''" "''host''"] by simp_all
  show ?thesis using field_edit_roundtrip [OF one(1), of "''port''" "''25''" "''host''"] one(2) by simp
qed

text \<open>What the create dialog can do.\<close>

inductive create_reach :: "formats \<Rightarrow> string \<Rightarrow> channels_form \<Rightarrow> bool" for fm ws where
  mounted: "create_reach fm ws mount_channels"
| opened: "create_reach fm ws f \<Longrightarrow> create_reach fm ws (set_create_open b f)"
| named: "create_reach fm ws f \<Longrightarrow> create_reach fm ws (change_name v f)"
| typed: "create_reach fm ws f \<Longrightarrow> create_reach fm ws (select_type t f)"
| filled: "create_reach fm ws f \<Longrightarrow> create_reach fm ws (change_field k v f)"
| submitted: "create_reach fm ws f \<Longrightarrow> create_reach fm ws (snd (handleCreate fm ws f))"
| created: "create_reach fm ws f \<Longrightarrow> create_reach fm ws (channel_created f)"
| editing: "create_reach fm ws f \<Longrightarrow> create_reach fm ws (handleEditOpen c f)"
| edited: "create_reach fm ws f \<Longrightarrow> create_reach fm ws (edit_field k v f)"
| renamed: "create_reach fm ws f \<Longrightarrow> create_reach fm ws (change_edit_name v f)"
| saved: "create_reach fm ws f \<Longrightarrow> create_reach fm ws (channel_saved f)"
| closed: "create_reach fm ws f \<Longrightarrow> create_reach fm ws (close_edit f)"

lemma create_reach_config: "create_reach fm ws f \<Longrightarrow> text_config (channelConfig f)"
proof (induction rule: create_reach.induct)
  case (filled f k v)
  then show ?case using field_edit_config by (simp add: change_field_def)
qed (auto simp: mount_channels_def text_config_def set_create_open_def change_name_def validateChannel_def
    select_type_def handleCreate_def channel_created_def handleEditOpen_def edit_field_def change_edit_name_def
    channel_saved_def close_edit_def Let_def)

text \<open>C23: A channel is only ever created with a name, with one of the three types, and with a configuration
  that is a JSON object its type's schema accepts, whatever the user did in the dialog before.\<close>

theorem created_channel_valid:
  assumes "create_reach fm ws f" and "fst (handleCreate fm ws f) = Some call"
  shows "\<exists>t kvs. channelType f = Some t \<and> channelName f \<noteq> [] \<and> json_parse (stringify (JObj kvs)) = Some (JObj kvs) \<and>
    parse_config (channelConfig f) = Some (JObj kvs) \<and> config_issues fm t (JObj kvs) = [] \<and>
    call = apiCreateChannel ws (channelName f) (channel_type_name t) (channelConfig f)"
proof -
  obtain kvs where kvs: "json_ok (JObj kvs)" "parse_config (channelConfig f) = Some (JObj kvs)"
    using create_reach_config [OF assms(1)] by (rule text_config_fields)
  have v: "channelSchema (channelName f) (type_text (channelType f)) = []"
    "isConfigValid fm (channelType f) (channelConfig f)"
    "call = apiCreateChannel ws (channelName f) (type_text (channelType f)) (channelConfig f)"
    using assms(2) by (auto simp: handleCreate_def useCreateChannel_def Let_def split: if_splits)
  then obtain t where t: "channelType f = Some t" by (auto simp: isConfigValid_def split: option.splits)
  with v kvs show ?thesis
    by (auto simp: type_text_def isConfigValid_def channelSchema_def parse_stringify simp del: stringify.simps
        split: if_splits)
qed

definition demo_formats :: formats where
  "demo_formats = \<lparr>is_email = (\<lambda>s. CHR ''@'' \<in> set s), is_url = (\<lambda>s. startsWith s ''http''), type_message = ''expected string''\<rparr>"

definition demo_form :: channels_form where
  "demo_form = change_field ''webhookUrl'' ''https://hooks.slack.com/x''
     (select_type slack (change_name ''Team'' (set_create_open True mount_channels)))"

lemma demo_form_valid: "channelName demo_form = ''Team''" "channelType demo_form = Some slack"
  "isConfigValid demo_formats (channelType demo_form) (channelConfig demo_form)"
  by code_simp+

lemma created_channel_valid_witness:
  "\<exists>kvs. parse_config (channelConfig demo_form) = Some (JObj kvs) \<and> config_issues demo_formats slack (JObj kvs) = []"
proof -
  have reach: "create_reach demo_formats ''w'' demo_form"
    unfolding demo_form_def by (intro create_reach.intros)
  have "channelSchema (channelName demo_form) (type_text (channelType demo_form)) = []"
    by (simp add: demo_form_valid channelSchema_def type_text_def channel_type_name_def)
  then have "fst (handleCreate demo_formats ''w'' demo_form) =
      Some (m_call (useCreateChannel ''w'') (''Team'', type_text (Some slack), channelConfig demo_form))"
    using demo_form_valid(3) by (simp add: handleCreate_def Let_def demo_form_valid(1,2))
  from created_channel_valid [OF reach this] show ?thesis using demo_form_valid(2) by auto
qed

text \<open>Choosing another type keeps the fields of the first one: a password typed for an email channel is
  stored in the configuration of the Slack channel that is created in its place.\<close>

theorem other_type_keeps_secrets:
  assumes "text_config (channelConfig f)" and "field_value (channelConfig f) ''password'' = Some (JStr p)"
    and "channelName f \<noteq> []" and "is_url fm u" and "startsWith u ''https://hooks.slack.com/''"
    and "g = change_field ''webhookUrl'' u (select_type slack f)"
  shows "fst (handleCreate fm ws g) = Some (apiCreateChannel ws (channelName f) ''slack'' (channelConfig g)) \<and>
    field_value (channelConfig g) ''password'' = Some (JStr p)"
proof -
  have c: "channelConfig g = updateField (channelConfig f) ''webhookUrl'' u" "channelType g = Some slack"
    "channelName g = channelName f"
    by (simp_all add: assms(6) change_field_def select_type_def)
  have config: "text_config (channelConfig g)" unfolding c by (rule field_edit_config [OF assms(1)])
  then obtain kvs where kvs: "parsed_fields (channelConfig g) = JObj kvs" "parse_config (channelConfig g) = Some (JObj kvs)"
    by (rule text_config_fields)
  have "field_value (channelConfig g) ''webhookUrl'' = Some (JStr u)"
    unfolding c using field_edit [OF assms(1)] by simp
  then have "map_of kvs ''webhookUrl'' = Some (JStr u)" by (simp add: field_value_def kvs(1))
  then have "isConfigValid fm (Some slack) (channelConfig g)"
    using assms(4,5) by (simp add: isConfigValid_def kvs(2) config_issues_def need_def slackConfigSchema_def)
  moreover have "channelSchema (channelName g) (type_text (channelType g)) = []"
    using assms(3) by (cases "channelName f") (simp_all add: c channelSchema_def type_text_def channel_type_name_def)
  ultimately have "fst (handleCreate fm ws g) = Some (apiCreateChannel ws (channelName f) ''slack'' (channelConfig g))"
    by (simp add: handleCreate_def Let_def c(2,3) useCreateChannel_def type_text_def channel_type_name_def)
  moreover have "field_value (channelConfig g) ''password'' = Some (JStr p)"
    unfolding c using field_edit [OF assms(1)] assms(2) by simp
  ultimately show ?thesis by simp
qed

definition mail_form :: channels_form where
  "mail_form = change_field ''password'' ''hunter2'' (select_type email (change_name ''Team'' mount_channels))"

lemma other_type_keeps_secrets_witness:
  "\<exists>g. fst (handleCreate demo_formats ''w'' g) = Some (apiCreateChannel ''w'' ''Team'' ''slack'' (channelConfig g)) \<and>
     field_value (channelConfig g) ''password'' = Some (JStr ''hunter2'')"
proof -
  have "create_reach demo_formats ''w'' mail_form" unfolding mail_form_def by (intro create_reach.intros)
  then have config: "text_config (channelConfig mail_form)" by (rule create_reach_config)
  have "channelName mail_form = ''Team''" "channelConfig mail_form = updateField [] ''password'' ''hunter2''"
    by (simp_all add: mail_form_def change_field_def select_type_def change_name_def validateChannel_def mount_channels_def)
  then have "field_value (channelConfig mail_form) ''password'' = Some (JStr ''hunter2'')" "channelName mail_form = ''Team''"
    using field_edit [of "[]" "''password''" "''hunter2''" "''password''"] by (simp_all add: text_config_def)
  from other_type_keeps_secrets [OF config this(1) _ _ _ refl, of demo_formats "''https://hooks.slack.com/x''" "''w''"] this(2)
  show ?thesis by (auto simp: demo_formats_def)
qed

lemma fold_errors_nonempty:
  "parseFieldErrors iss = [] \<longleftrightarrow> iss = []"
proof
  have grow: "fold (\<lambda>(key, msg) fields.
      if (case map_of fields key of None \<Rightarrow> True | Some m \<Rightarrow> m = []) then AList.update key msg fields else fields) xs base \<noteq> []"
    if "base \<noteq> []" for xs base :: "(string \<times> string) list"
    using that
  proof (induction xs arbitrary: base)
    case (Cons x xs)
    obtain b bs where "base = b # bs" using Cons.prems by (cases base) auto
    then have "AList.update (fst x) (snd x) base \<noteq> []" by (cases b) auto
    with Cons show ?case by (cases x) auto
  qed simp
  assume empty: "parseFieldErrors iss = []"
  show "iss = []"
  proof (cases iss)
    case (Cons i js)
    then show ?thesis using empty grow [of "[i]" js] by (cases i) (simp add: parseFieldErrors_def)
  qed
qed (simp add: parseFieldErrors_def)

text \<open>For every configuration the fields can produce the two validators of the page agree: the save
  button is enabled for it exactly when there is no field to report an error for.\<close>

theorem validators_agree:
  assumes "text_config c"
  shows "isConfigValid fm (Some t) c \<longleftrightarrow> validateConfigFields fm (Some t) c = []"
proof -
  obtain kvs where kvs: "parse_config c = Some (JObj kvs)" using assms by (rule text_config_fields)
  define xs where "xs = (case t of
      email \<Rightarrow>
        need fm ''host'' (map_of kvs ''host'') (\<lambda>s. emailConfigSchema (is_email fm) s [] [] []) @
        need fm ''port'' (map_of kvs ''port'') (\<lambda>s. emailConfigSchema (is_email fm) [] s [] []) @
        allow fm ''username'' (map_of kvs ''username'') @ allow fm ''password'' (map_of kvs ''password'') @
        need fm ''from'' (map_of kvs ''from'') (\<lambda>s. emailConfigSchema (is_email fm) [] [] s []) @
        need fm ''to'' (map_of kvs ''to'') (\<lambda>s. emailConfigSchema (is_email fm) [] [] [] s)
    | slack \<Rightarrow> need fm ''webhookUrl'' (map_of kvs ''webhookUrl'') (slackConfigSchema (is_url fm))
    | webhook \<Rightarrow>
        need fm ''url'' (map_of kvs ''url'') (webhookConfigSchema (is_url fm)) @
        allow fm ''secret'' (map_of kvs ''secret''))"
  have iss: "config_issues fm t (JObj kvs) = map (\<lambda>(k, m). (Some k, m)) xs"
    by (simp add: config_issues_def xs_def)
  have "concat (map (\<lambda>(k, m). case k of None \<Rightarrow> [] | Some k \<Rightarrow> [(k, m)]) (map (\<lambda>(k, m). (Some k, m)) xs)) = xs"
    by (induction xs) auto
  with kvs iss show ?thesis
    by (simp add: isConfigValid_def validateConfigFields_def fold_errors_nonempty)
qed

lemma validators_agree_witness:
  "validateConfigFields demo_formats (Some slack) (channelConfig demo_form) = []"
proof -
  have "create_reach demo_formats ''w'' demo_form" unfolding demo_form_def by (intro create_reach.intros)
  then have "text_config (channelConfig demo_form)" by (rule create_reach_config)
  from validators_agree [OF this, of demo_formats slack] show ?thesis using demo_form_valid(2,3) by simp
qed

text \<open>A text that is no object is refused without a reason: no field has an error to show.\<close>

lemma array_config_refused_silently:
  "\<not> isConfigValid demo_formats (Some slack) ''[]'' \<and> validateConfigFields demo_formats (Some slack) ''[]'' = []"
  by code_simp

text \<open>Switching a channel on or off sends back the name and the configuration it has.\<close>

lemma toggle_keeps: "handleToggle ws c b = apiUpdateChannel ws (ch_id c) (ch_name c) (ch_config c) b"
  by (simp add: handleToggle_def useUpdateChannel_def)

text \<open>A rule is created only for a channel and one of the four severities.\<close>

theorem created_rule_valid:
  assumes "fst (handleCreateRule ws f) = Some call"
  shows "\<exists>c. ruleChannel f = Some c \<and> c \<noteq> [] \<and> ruleSeverity f \<in> {''critical'', ''high'', ''medium'', ''low''} \<and>
    call = apiCreateRule ws c (ruleSeverity f)"
proof -
  have v: "notificationRuleSchema (channel_text (ruleChannel f)) (ruleSeverity f) = []"
    "call = apiCreateRule ws (channel_text (ruleChannel f)) (ruleSeverity f)"
    using assms by (auto simp: handleCreateRule_def useCreateRule_def Let_def split: if_splits)
  then have "channel_text (ruleChannel f) \<noteq> []" "ruleSeverity f \<in> {''critical'', ''high'', ''medium'', ''low''}"
    by (auto simp: notificationRuleSchema_def split: if_splits)
  with v(2) show ?thesis by (auto simp: channel_text_def split: option.splits)
qed

text \<open>Every issue a schema can report belongs to an input of the form, and an input that shows no
  errors is one whose field may be left out.\<close>

lemma issues_have_inputs:
  assumes "(Some k, m) \<in> set (config_issues fm t (JObj kvs))"
  shows "\<exists>b. (k, b) \<in> set (channel_fields t) \<and> (b \<or> map_of kvs k \<noteq> None)"
proof -
  have need: "fst i = key" if "i \<in> set (need fm key v f)" for i key v f
    using that by (cases v rule: truthy.cases) (auto simp: need_def)
  have allow: "fst i = key \<and> v \<noteq> None" if "i \<in> set (allow fm key v)" for i key v
    using that by (cases v rule: truthy.cases) (auto simp: allow_def)
  show ?thesis
    using assms by (cases t) (auto simp: config_issues_def channel_fields_def dest!: need allow)
qed

end
