(* ===== verification/Slugs.thy ===== *)
theory Slugs
  imports Onboarding
begin

text \<open>
  The suggested slug of a workspace is computed in three places: by the onboarding wizard
  (\<open>toSlug\<close>), by the first setup (\<open>features/setup/ui/setup-wizard.tsx\<close>) and by the workspace list
  (\<open>features/admin/ui/workspaces-list-view.tsx\<close>). This theory compares them.
\<close>

definition setup_slug :: "string \<Rightarrow> string" where
  "setup_slug name =
     (let s = trim (toLowerCase name);
          s = filter (\<lambda>c. is_lower c \<or> is_digit c \<or> is_space c \<or> c = CHR ''-'') s;
          s = dash_runs is_space s;
          s = dash_runs (\<lambda>c. c = CHR ''-'') s in
      drop_edge_dashes s)"

text \<open>\<open>value.toLowerCase().replace(/[^a-z0-9]+/g, "-").replace(/^-|-$/g, "")\<close>.\<close>

definition generateSlug :: "string \<Rightarrow> string" where
  "generateSlug value = drop_edge_dashes (dash_runs (\<lambda>c. \<not> slug_char c) (toLowerCase value))"

section \<open>Runs\<close>

definition strip :: "(char \<Rightarrow> bool) \<Rightarrow> string \<Rightarrow> string" where
  "strip P s = rev (dropWhile P (rev (dropWhile P s)))"

lemma trim_strip: "trim s = strip is_space s"
  by (simp add: trim_def strip_def)

lemma dash_runs_Cons: "dash_runs P (c # s) = (if P c then CHR ''-'' # dash_runs P (dropWhile P s) else c # dash_runs P s)"
proof (induction s arbitrary: c)
  case (Cons d s)
  then show ?case by simp
qed simp

lemma dash_runs_snoc:
  "dash_runs P (s @ [c]) = (if P c then (if s \<noteq> [] \<and> P (last s) then dash_runs P s else dash_runs P s @ ''-'')
     else dash_runs P s @ [c])"
  by (induction P s rule: dash_runs.induct) auto

lemma dash_runs_rev: "rev (dash_runs P s) = dash_runs P (rev s)"
proof (induction P s rule: dash_runs.induct)
  case (3 P c d s)
  then show ?case using dash_runs_snoc [of P "rev s @ [d]" c] by (cases "P c"; cases "P d") simp_all
qed simp_all

lemma drop_first_dash_runs: "P (CHR ''-'') \<Longrightarrow> drop_first_dash (dash_runs P s) = dash_runs P (dropWhile P s)"
  by (cases s) (auto simp: dash_runs_Cons drop_first_dash_def)

lemma edges_of_runs: "P (CHR ''-'') \<Longrightarrow> drop_edge_dashes (dash_runs P s) = dash_runs P (strip P s)"
  by (simp add: drop_edge_dashes_def drop_first_dash_runs dash_runs_rev strip_def)

lemma dash_runs_twice:
  assumes "\<not> S (CHR ''-'')"
  shows "dash_runs (\<lambda>c. c = CHR ''-'') (dash_runs S s) = dash_runs (\<lambda>c. S c \<or> c = CHR ''-'') s"
proof (induction S s rule: dash_runs.induct)
  case (3 S c d s)
  have "hd (dash_runs S (d # s)) = (if S d then CHR ''-'' else d)" "dash_runs S (d # s) \<noteq> []"
    using hd_dash_runs [of "d # s" S] by auto
  then obtain t where t: "dash_runs S (d # s) = (if S d then CHR ''-'' else d) # t"
    by (cases "dash_runs S (d # s)") auto
  show ?case using "3" t by (cases "S c"; cases "S d") auto
qed auto

lemma dash_runs_cong: "(\<And>c. c \<in> set s \<Longrightarrow> P c = Q c) \<Longrightarrow> dash_runs P s = dash_runs Q s"
  by (induction P s rule: dash_runs.induct) auto

lemma dropWhile_all: "\<forall>c \<in> set s. P c \<Longrightarrow> dropWhile P s = []"
  by simp

lemma strip_append: "\<forall>c \<in> set t. P c \<Longrightarrow> strip P (s @ t) = strip P s"
proof (cases "\<forall>c \<in> set s. P c")
  case False
  assume t: "\<forall>c \<in> set t. P c"
  from False have "dropWhile P (s @ t) = dropWhile P s @ t" by (auto simp: dropWhile_append)
  moreover have "dropWhile P (rev t @ z) = dropWhile P z" for z
    using t by (intro dropWhile_append2) auto
  ultimately show ?thesis by (simp add: strip_def)
next
  case True
  assume t: "\<forall>c \<in> set t. P c"
  with True have "\<forall>c \<in> set (s @ t). P c" by auto
  then have "dropWhile P (s @ t) = []" "dropWhile P s = []" unfolding dropWhile_eq_Nil_conv by auto
  then show ?thesis unfolding strip_def by (simp only: rev.simps dropWhile.simps)
qed

lemma dropWhile_filter_dropWhile:
  assumes "\<And>c. S c \<Longrightarrow> P c"
  shows "dropWhile P (filter ok (dropWhile S s)) = dropWhile P (filter ok s)"
  using assms by (induction s) auto

lemma strip_filter_strip:
  assumes "\<And>c. S c \<Longrightarrow> P c"
  shows "strip P (filter ok (strip S s)) = strip P (filter ok s)"
proof -
  define t where "t = dropWhile S s"
  have "t = rev (dropWhile S (rev t)) @ rev (takeWhile S (rev t))"
    by (metis rev_append rev_rev_ident takeWhile_dropWhile_id)
  then have t: "t = strip S s @ rev (takeWhile S (rev t))" by (simp add: t_def strip_def)
  have "\<forall>c \<in> set (filter ok (rev (takeWhile S (rev t)))). P c"
    using assms by (auto dest: set_takeWhileD)
  then have "strip P (filter ok t) = strip P (filter ok (strip S s))"
    by (subst t) (simp add: strip_append)
  moreover have "strip P (filter ok t) = strip P (filter ok s)"
    unfolding t_def strip_def using dropWhile_filter_dropWhile [of S P ok s] assms by simp
  ultimately show ?thesis by simp
qed

lemma strip_cong: "(\<And>c. c \<in> set s \<Longrightarrow> P c = Q c) \<Longrightarrow> strip P s = strip Q s"
proof -
  assume "\<And>c. c \<in> set s \<Longrightarrow> P c = Q c"
  moreover then have "dropWhile P s = dropWhile Q s" by (intro dropWhile_cong) auto
  moreover have "dropWhile P (rev (dropWhile Q s)) = dropWhile Q (rev (dropWhile Q s))"
    using calculation(1) by (intro dropWhile_cong) (auto dest: set_dropWhileD)
  ultimately show ?thesis by (simp add: strip_def)
qed

lemma set_strip: "set (strip P s) \<subseteq> set s"
  by (auto simp: strip_def dest!: set_dropWhileD)

section \<open>The three slugs\<close>

definition slug_ok :: "char \<Rightarrow> bool" where
  "slug_ok c \<longleftrightarrow> is_lower c \<or> is_digit c \<or> is_space c \<or> c = CHR ''-''"

definition slug_gap :: "char \<Rightarrow> bool" where
  "slug_gap c \<longleftrightarrow> is_space c \<or> c = CHR ''-''"

lemma slug_from:
  "drop_edge_dashes (dash_runs (\<lambda>c. c = CHR ''-'') (dash_runs is_space s)) = dash_runs slug_gap (strip slug_gap s)"
proof -
  have "dash_runs (\<lambda>c. c = CHR ''-'') (dash_runs is_space s) = dash_runs slug_gap s"
    using dash_runs_twice [of is_space s] by (simp add: slug_gap_def [abs_def])
  then show ?thesis by (simp add: edges_of_runs slug_gap_def)
qed

lemma toSlug_runs: "toSlug name = dash_runs slug_gap (strip slug_gap (filter slug_ok (toLowerCase name)))"
  unfolding toSlug_def Let_def slug_from by (simp add: slug_ok_def [abs_def])

lemma setup_slug_runs: "setup_slug name = dash_runs slug_gap (strip slug_gap (filter slug_ok (trim (toLowerCase name))))"
  unfolding setup_slug_def Let_def slug_from by (simp add: slug_ok_def [abs_def])

lemma generateSlug_runs:
  "generateSlug value = dash_runs (\<lambda>c. \<not> slug_char c) (strip (\<lambda>c. \<not> slug_char c) (toLowerCase value))"
  by (simp add: generateSlug_def edges_of_runs)

lemma slug_gap_iff: "slug_ok c \<Longrightarrow> slug_gap c \<longleftrightarrow> \<not> slug_char c"
  by (auto simp: slug_ok_def slug_gap_def slug_char_def is_space_def is_lower_def is_digit_def Let_def)

lemma generateSlug_plain:
  assumes "\<forall>c \<in> set (toLowerCase name). slug_ok c"
  shows "generateSlug name = toSlug name"
proof -
  have "filter slug_ok (toLowerCase name) = toLowerCase name" using assms by (auto simp: filter_id_conv)
  moreover have "strip (\<lambda>c. \<not> slug_char c) (toLowerCase name) = strip slug_gap (toLowerCase name)"
    using assms by (intro strip_cong) (simp add: slug_gap_iff)
  moreover have "dash_runs (\<lambda>c. \<not> slug_char c) (strip slug_gap (toLowerCase name)) =
      dash_runs slug_gap (strip slug_gap (toLowerCase name))"
    using assms set_strip by (intro dash_runs_cong) (auto simp: slug_gap_iff subset_iff)
  ultimately show ?thesis by (simp add: toSlug_runs generateSlug_runs)
qed


lemma dash_runs_blank: "dash_runs (\<lambda>c. \<not> slug_char c) (map (\<lambda>c. if slug_char c then c else CHR '' '') s) =
    dash_runs (\<lambda>c. \<not> slug_char c) s"
proof -
  have blank: "\<not> slug_char (CHR '' '')" by (simp add: slug_char_def)
  show ?thesis
    by (induction "\<lambda>c. \<not> slug_char c" s rule: dash_runs.induct) (simp_all add: blank)
qed

lemma slug_shape_generateSlug: "slug_shape (generateSlug name)"
proof -
  define plain where "plain = map (\<lambda>c. if slug_char c then c else CHR '' '') (toLowerCase name)"
  have "to_lower (if slug_char c then c else CHR '' '') = (if slug_char c then c else CHR '' '')" for c
    by (simp add: lower_slug_char)
  then have lower: "toLowerCase plain = plain" by (simp add: plain_def toLowerCase_def)
  have ok: "\<forall>c \<in> set (toLowerCase plain). slug_ok c"
    unfolding lower by (auto simp: plain_def slug_ok_def slug_char_def)
  have "generateSlug name = generateSlug plain"
    unfolding generateSlug_def lower by (simp add: plain_def dash_runs_blank)
  also have "\<dots> = toSlug plain" by (rule generateSlug_plain [OF ok])
  finally show ?thesis using slug_shape_toSlug by simp
qed

text \<open>The first setup and the onboarding wizard suggest the same slug for every name. The workspace list
  suggests a slug of the same shape, and the same one for a name of letters, digits, blanks and
  dashes.\<close>

theorem slugs_agree:
  "setup_slug name = toSlug name \<and> slug_shape (generateSlug name) \<and>
   (list_all slug_ok (toLowerCase name) \<longrightarrow> generateSlug name = toSlug name)"
proof (intro conjI impI)
  show "setup_slug name = toSlug name"
    using strip_filter_strip [of is_space slug_gap slug_ok "toLowerCase name"]
    by (simp add: setup_slug_runs toSlug_runs trim_strip slug_gap_def)
qed (simp_all add: slug_shape_generateSlug generateSlug_plain list_all_iff)

lemma slugs_agree_witness: "generateSlug ''My Team 7'' = ''my-team-7'' \<and> setup_slug ''My Team 7'' = ''my-team-7''"
proof -
  have "list_all slug_ok (toLowerCase ''My Team 7'')" by (simp add: toLowerCase_def slug_ok_def)
  moreover have "toSlug ''My Team 7'' = ''my-team-7''" by code_simp
  ultimately show ?thesis using slugs_agree [of "''My Team 7''"] by simp
qed

text \<open>Any other character splits a word in the list's slug and joins its halves in the other two.\<close>

lemma slugs_differ: "generateSlug ''v1.2'' = ''v1-2'' \<and> toSlug ''v1.2'' = ''v12''"
  by code_simp

end
