(* ===== verification/Account_Forms.thy ===== *)
theory Account_Forms
  imports Slugs Auth Workspace_Hooks
begin

text \<open>
  The forms around an account: registration, the forgotten, the reset and the changed password
  (\<open>features/auth/ui\<close>, \<open>features/change-password\<close>), the verification of an address, an invitation
  (\<open>features/admin/ui/invite-accept-view.tsx\<close>) and the first setup (\<open>features/setup\<close>), with the
  public configuration they read. A submit handler gives the request it makes, what it shows and
  the page it goes to; the request's outcome is an argument, or comes from the
  authentication context.
\<close>

section \<open>Public configuration\<close>

definition normalizeEcosystem :: "string \<Rightarrow> string" where
  "normalizeEcosystem raw = (if raw = ''pypi'' then ''python'' else raw)"

record PublicConfig =
  pc_loading :: bool
  pc_known :: bool          \<comment> \<open>\<open>config\<close> is not \<open>null\<close>\<close>
  registrationEnabled :: bool
  setupRequired :: bool
  hasEmailDomainRestriction :: bool
  ssoEnabled :: bool
  enabledEcosystems :: "string list"

text \<open>\<open>query.data?.data?.k ?? false\<close>; the properties are booleans, as their type says.\<close>

definition config_flag :: "json option \<Rightarrow> string \<Rightarrow> bool" where
  "config_flag d k = (let v = opt_prop d k in if nullish v then False else truthy v)"

definition string_array :: "json option \<Rightarrow> string list" where
  "string_array v = (case v of Some (JArr xs) \<Rightarrow> map js_string xs | _ \<Rightarrow> [])"

definition usePublicConfigQuery :: "bool \<Rightarrow> json option \<Rightarrow> PublicConfig" where
  "usePublicConfigQuery loading response =
     (let d = opt_prop response ''data'' in
      \<lparr>pc_loading = loading, pc_known = (\<not> nullish d),
       registrationEnabled = config_flag d ''registrationEnabled'', setupRequired = config_flag d ''setupRequired'',
       hasEmailDomainRestriction = config_flag d ''hasEmailDomainRestriction'', ssoEnabled = config_flag d ''ssoEnabled'',
       enabledEcosystems = map normalizeEcosystem (string_array (opt_prop d ''enabledEcosystems''))\<rparr>)"

section \<open>What the forms share\<close>

record form_state =
  fs_errors :: "(string \<times> string) list"
  fs_submitted :: bool
  fs_server_error :: string
  fs_loading :: bool

datatype form_effect =
    Do effect
  | Go string
  | Go_instead string
  | Remember string string   \<comment> \<open>in \<open>sessionStorage\<close>\<close>

definition start_submit :: "'a form_state_scheme \<Rightarrow> 'a form_state_scheme" where
  "start_submit f = f\<lparr>fs_submitted := True, fs_errors := [], fs_server_error := []\<rparr>"

text \<open>\<open>validate\<close>: silent until the form was submitted once.\<close>

definition revalidate :: "issues \<Rightarrow> 'a form_state_scheme \<Rightarrow> 'a form_state_scheme" where
  "revalidate iss f = (if \<not> fs_submitted f then f else f\<lparr>fs_errors := parseFieldErrors iss\<rparr>)"

definition raw_message :: "string \<Rightarrow> thrown \<Rightarrow> string" where
  "raw_message dflt e = (case e of ErrorObj m \<Rightarrow> m | _ \<Rightarrow> dflt)"

section \<open>Registration: \<open>register-form.tsx\<close>\<close>

record register_form = form_state +
  rf_firstName :: string
  rf_lastName :: string
  rf_email :: string
  rf_password :: string
  rf_confirmPassword :: string
  registrationSuccess :: bool

text \<open>The effect when the configuration arrives.\<close>

definition register_redirect :: "PublicConfig \<Rightarrow> form_effect list" where
  "register_redirect c =
     (if pc_loading c then []
      else if setupRequired c then [Go_instead (ROUTES SETUP)]
      else if \<not> registrationEnabled c then [Go_instead (ROUTES LOGIN)] else [])"

definition register_issues :: "(string \<Rightarrow> bool) \<Rightarrow> register_form \<Rightarrow> issues" where
  "register_issues is_email f =
     registerSchema is_email (rf_firstName f) (rf_lastName f) (rf_email f) (rf_password f) (rf_confirmPassword f)"

definition login_required_codes :: "string list" where
  "login_required_codes = [''registration_complete_login_required'', ''email_verification_required'']"

definition register_submit ::
  "(string \<Rightarrow> bool) \<Rightarrow> server \<Rightarrow> register_form \<Rightarrow> auth_world \<Rightarrow> form_effect list \<times> register_form \<times> auth_world" where
  "register_submit is_email srv f w =
     (let f = start_submit f in
      if register_issues is_email f \<noteq> []
      then ([], f\<lparr>fs_errors := parseFieldErrors (register_issues is_email f), fs_loading := False\<rparr>, w)
      else
        (case register srv (rf_email f) (rf_password f) (rf_firstName f) (rf_lastName f) w of
           (Inl e, w) \<Rightarrow> ([], f\<lparr>fs_server_error := raw_message ''Registration failed'' e, fs_loading := False\<rparr>, w)
         | (Inr code, w) \<Rightarrow>
             (if (case code of None \<Rightarrow> False | Some c \<Rightarrow> c \<in> set login_required_codes)
              then ([Remember ''vmx_just_registered'' ''true''],
                    f\<lparr>fs_submitted := False, registrationSuccess := True, fs_loading := False\<rparr>, w)
              else ([Go (ROUTES WORKSPACES @ ''?create=true'')], f\<lparr>fs_loading := False\<rparr>, w))))"

section \<open>Forgotten password: \<open>forgot-password-form.tsx\<close>\<close>

record forgot_form = form_state +
  ff_email :: string
  ff_submitted :: bool

definition forgot_submit ::
  "(string \<Rightarrow> bool) \<Rightarrow> (api_call \<Rightarrow> thrown + json) \<Rightarrow> forgot_form \<Rightarrow> api_call option \<times> forgot_form" where
  "forgot_submit is_email answer f =
     (let f = start_submit f; iss = passwordResetSchema is_email (ff_email f); call = apiForgotPassword (ff_email f) in
      if iss \<noteq> [] then (None, f\<lparr>fs_errors := parseFieldErrors iss, fs_loading := False\<rparr>)
      else
        (Some call,
         (case answer call of
            Inr _ \<Rightarrow> f\<lparr>fs_submitted := False, ff_submitted := True, fs_loading := False\<rparr>
          | Inl e \<Rightarrow> f\<lparr>fs_server_error := sanitizeErrorMessage e (Some ''Failed to send reset email''), fs_loading := False\<rparr>)))"

definition send_another :: "forgot_form \<Rightarrow> forgot_form" where
  "send_another f = f\<lparr>ff_submitted := False, fs_submitted := False, ff_email := []\<rparr>"

section \<open>Reset password: \<open>reset-password-form.tsx\<close>\<close>

record reset_form = form_state +
  sf_token :: "string option"
  sf_password :: string
  sf_confirmPassword :: string
  tokenInvalid :: bool

definition mount_reset :: "params \<Rightarrow> reset_form" where
  "mount_reset query =
     \<lparr>fs_errors = [], fs_submitted = False, fs_server_error = [], fs_loading = False, sf_token = usp_get query ''token'',
      sf_password = [], sf_confirmPassword = [], tokenInvalid = (\<not> truthy_str (usp_get query ''token''))\<rparr>"

definition reset_link_rx :: pattern where
  "reset_link_rx = find_rx (Alt (lit_i ''reset link'') (Alt (lit_i ''expired'') (then_later ''invalid'' ''token'')))"

definition reset_submit :: "(api_call \<Rightarrow> thrown + json) \<Rightarrow> reset_form \<Rightarrow> api_call option \<times> form_effect list \<times> reset_form" where
  "reset_submit answer f =
     (let f = start_submit f; iss = newPasswordSchema (sf_password f) (sf_confirmPassword f);
          call = apiResetPassword (case sf_token f of None \<Rightarrow> ''null'' | Some t \<Rightarrow> t) (sf_password f) in
      if iss \<noteq> [] then (None, [], f\<lparr>fs_errors := parseFieldErrors iss, fs_loading := False\<rparr>)
      else
        (Some call,
         (case answer call of
            Inr _ \<Rightarrow> ([Do (ToastSuccess ''Password reset successfully. You can now sign in.''), Go (ROUTES LOGIN)],
                     f\<lparr>fs_loading := False\<rparr>)
          | Inl e \<Rightarrow>
              (let message = raw_message ''Failed to reset password. The link may have expired.'' e in
               ([], if test reset_link_rx message then f\<lparr>tokenInvalid := True, fs_loading := False\<rparr>
                    else f\<lparr>fs_server_error := message, fs_loading := False\<rparr>)))))"

section \<open>Changed password: \<open>change-password-form.tsx\<close>\<close>

record change_form = form_state +
  cf_current :: string
  cf_new :: string
  cf_confirm :: string

definition change_guard :: "session \<Rightarrow> form_effect list" where
  "change_guard s =
     (if \<not> s_loading s \<and> s_authenticated s \<and> \<not> s_must_change s then [Go_instead (ROUTES DASHBOARD)] else []) @
     (if \<not> s_loading s \<and> \<not> s_authenticated s then [Go_instead (ROUTES LOGIN)] else [])"

definition change_issues :: "change_form \<Rightarrow> issues" where
  "change_issues f = passwordChangeSchema (cf_current f) (cf_new f) (cf_confirm f)"

text \<open>The user and the workspaces are loaded again in either order.\<close>

definition change_submit ::
  "bool \<Rightarrow> server \<Rightarrow> change_form \<Rightarrow> auth_world \<Rightarrow> form_effect list \<times> change_form \<times> auth_world" where
  "change_submit userFirst srv f w =
     (let f = start_submit f in
      if cf_current f = cf_new f
      then ([], f\<lparr>fs_errors := [(''newPassword'', ''New password must be different from your current password'')]\<rparr>, w)
      else if change_issues f \<noteq> [] then ([], f\<lparr>fs_errors := parseFieldErrors (change_issues f)\<rparr>, w)
      else
        (case run_call srv (listener srv) (apiChangePassword (cf_current f) (cf_new f)) w of
           (Inl e, w) \<Rightarrow>
             ([], f\<lparr>fs_server_error := sanitizeErrorMessage e (Some ''Failed to change password''), fs_loading := False\<rparr>, w)
         | (Inr _, w) \<Rightarrow>
             ([Go (ROUTES DASHBOARD)],
              f\<lparr>fs_submitted := False, cf_current := [], cf_new := [], cf_confirm := [], fs_loading := False\<rparr>,
              if userFirst then refreshWorkspaces srv (refreshUser srv w) else refreshUser srv (refreshWorkspaces srv w))))"

section \<open>Verifying an address: \<open>verify-email-view.tsx\<close>\<close>

datatype VerifyState = Loading | Success | Error_state | No_token

text \<open>
  Each run of the effect has a \<open>cancelled\<close> flag of its own: \<open>liveRun\<close> is the run that has not
  been cancelled, if any, and a run is identified by its number.
\<close>

record verify_view =
  vv_state :: VerifyState
  vv_error :: string
  liveRun :: "nat option"
  runCount :: nat

definition mount_verify :: "string option \<Rightarrow> verify_view" where
  "mount_verify token = \<lparr>vv_state = (if truthy_str token then Loading else No_token), vv_error = [], liveRun = None, runCount = 0\<rparr>"

definition verify_effect :: "string option \<Rightarrow> verify_view \<Rightarrow> api_call option \<times> verify_view" where
  "verify_effect token v =
     (case token of
        None \<Rightarrow> (None, v)
      | Some t \<Rightarrow>
          if t = [] then (None, v)
          else (Some (apiVerifyEmail t), v\<lparr>liveRun := Some (runCount v), runCount := runCount v + 1\<rparr>))"

definition verify_cleanup :: "verify_view \<Rightarrow> verify_view" where
  "verify_cleanup v = v\<lparr>liveRun := None\<rparr>"

definition verify_answered :: "nat \<Rightarrow> (thrown + json) \<Rightarrow> verify_view \<Rightarrow> verify_view" where
  "verify_answered run answer v =
     (if liveRun v \<noteq> Some run then v
      else
        (case answer of
           Inr _ \<Rightarrow> v\<lparr>vv_state := Success\<rparr>
         | Inl e \<Rightarrow> v\<lparr>vv_state := Error_state,
                     vv_error := raw_message ''Failed to verify email. The link may be invalid or expired.'' e\<rparr>))"

section \<open>An invitation: \<open>invite-accept-view.tsx\<close>\<close>

record Invitation =
  inv_workspaceId :: string
  inv_accepted :: bool
  inv_expired :: bool

datatype invite_page = Waiting | Unavailable | Not_found | Already_accepted | Expired_page | Sign_in_first | Decide

text \<open>\<open>invitation\<close>: the outcome of its query, \<^term>\<open>None\<close> for an error or no data.\<close>

definition invite_page :: "bool \<Rightarrow> PublicConfig \<Rightarrow> bool \<Rightarrow> Invitation option \<Rightarrow> bool \<Rightarrow> invite_page" where
  "invite_page authLoading c invitationLoading invitation signedIn =
     (if authLoading \<or> invitationLoading \<or> pc_loading c then Waiting
      else if \<not> pc_loading c \<and> \<not> registrationEnabled c then Unavailable
      else case invitation of
          None \<Rightarrow> Not_found
        | Some i \<Rightarrow>
            if inv_accepted i then Already_accepted
            else if inv_expired i then Expired_page
            else if \<not> signedIn then Sign_in_first else Decide)"

definition handleAccept ::
  "Invitation option \<Rightarrow> string \<Rightarrow> (api_call \<Rightarrow> thrown + json) \<Rightarrow> api_call option \<times> form_effect list \<times> bool" where
  "handleAccept invitation token answer =
     (case invitation of
        None \<Rightarrow> (None, [], False)
      | Some i \<Rightarrow>
          (let call = m_call useAcceptInvitation (inv_workspaceId i, token) in
           (Some call,
            (case answer call of
               Inr _ \<Rightarrow> ([Do (ToastSuccess ''Invitation accepted! Redirecting to dashboard...''), Go (ROUTES DASHBOARD)], True)
             | Inl e \<Rightarrow> ([Do (ToastError (raw_message ''Failed to accept invitation'' e))], False)))))"

definition handleDecline ::
  "Invitation option \<Rightarrow> string \<Rightarrow> (api_call \<Rightarrow> thrown + json) \<Rightarrow> api_call option \<times> form_effect list" where
  "handleDecline invitation token answer =
     (case invitation of
        None \<Rightarrow> (None, [])
      | Some i \<Rightarrow>
          (let call = m_call useDeclineInvitationByToken (inv_workspaceId i, token) in
           (Some call,
            (case answer call of
               Inr _ \<Rightarrow> [Do (ToastSuccess ''Invitation declined.''), Go (ROUTES WORKSPACES)]
             | Inl e \<Rightarrow> [Do (ToastError (raw_message ''Failed to decline invitation'' e))]))))"

definition invite_login :: "string \<Rightarrow> string" where
  "invite_login token = ROUTES LOGIN @ ''?redirect='' @ ROUTES INVITE @ ''/'' @ token"

definition invite_register :: "string \<Rightarrow> string" where
  "invite_register token = ROUTES REGISTER @ ''?redirect='' @ ROUTES INVITE @ ''/'' @ token"

section \<open>The first setup: \<open>setup-wizard.tsx\<close>, \<open>use-setup.ts\<close>\<close>

record setup_form = form_state +
  wf_request :: SetupRequest
  wf_confirm :: string
  wf_slug_edited :: bool

definition setup_issues :: "(string \<Rightarrow> bool) \<Rightarrow> SetupRequest \<Rightarrow> string \<Rightarrow> issues" where
  "setup_issues is_email r confirm =
     checks ''firstName'' [(1 \<le> length (su_firstName r), ''First name is required'')] @
     checks ''lastName'' [(1 \<le> length (su_lastName r), ''Last name is required'')] @
     checks ''email'' [(is_email (su_email r), ''Please enter a valid email address'')] @
     checks ''password'' [(8 \<le> length (su_password r), ''Password must be at least 8 characters''),
       (length (su_password r) \<le> 72, ''Password must be at most 72 characters'')] @
     checks ''confirmPassword'' [(1 \<le> length confirm, ''Please confirm your password'')] @
     checks ''workspaceName'' [(2 \<le> length (su_workspaceName r), ''Workspace name must be at least 2 characters''),
       (length (su_workspaceName r) \<le> 100, ''Workspace name must be at most 100 characters'')] @
     checks ''workspaceSlug'' [(2 \<le> length (su_workspaceSlug r), ''Slug must be at least 2 characters''),
       (length (su_workspaceSlug r) \<le> 50, ''Slug must be at most 50 characters''),
       (test (whole slug_rx) (su_workspaceSlug r), ''Slug must be lowercase letters, numbers, and hyphens'')] @
     checks ''confirmPassword'' [(su_password r = confirm, ''Passwords do not match'')]"

definition setup_redirect :: "PublicConfig \<Rightarrow> form_effect list" where
  "setup_redirect c = (if \<not> pc_loading c \<and> pc_known c \<and> \<not> setupRequired c then [Go_instead (ROUTES LOGIN)] else [])"

definition handleWorkspaceNameChange :: "(string \<Rightarrow> bool) \<Rightarrow> string \<Rightarrow> setup_form \<Rightarrow> setup_form" where
  "handleWorkspaceNameChange is_email value f =
     (let newSlug = (if wf_slug_edited f then su_workspaceSlug (wf_request f) else setup_slug value);
          r = (wf_request f)\<lparr>su_workspaceName := value, su_workspaceSlug := newSlug\<rparr> in
      revalidate (setup_issues is_email r (wf_confirm f)) (f\<lparr>wf_request := r\<rparr>))"

definition handleSlugChange :: "(string \<Rightarrow> bool) \<Rightarrow> string \<Rightarrow> setup_form \<Rightarrow> setup_form" where
  "handleSlugChange is_email value f =
     (let r = (wf_request f)\<lparr>su_workspaceSlug := value\<rparr> in
      revalidate (setup_issues is_email r (wf_confirm f)) (f\<lparr>wf_slug_edited := True, wf_request := r\<rparr>))"

text \<open>\<open>initialize\<close>: the response's data, \<open>te\<close> being the \<open>TypeError\<close> of a response without a body.\<close>

definition initialize :: "thrown \<Rightarrow> (thrown + json) \<Rightarrow> thrown + json option" where
  "initialize te answer =
     (case answer of
        Inl e \<Rightarrow> Inl e
      | Inr r \<Rightarrow> (case get_prop (Some r) ''data'' of None \<Rightarrow> Inl te | Some d \<Rightarrow> Inr d))"

definition setup_submit ::
  "thrown \<Rightarrow> (string \<Rightarrow> bool) \<Rightarrow> (api_call \<Rightarrow> thrown + json) \<Rightarrow> setup_form \<Rightarrow> api_call option \<times> form_effect list \<times> setup_form" where
  "setup_submit te is_email answer f =
     (let f = start_submit f; iss = setup_issues is_email (wf_request f) (wf_confirm f);
          call = apiInitializeSetup (wf_request f) in
      if iss \<noteq> [] then (None, [], f\<lparr>fs_errors := parseFieldErrors iss\<rparr>)
      else
        (Some call,
         (case initialize te (answer call) of
            Inl e \<Rightarrow> ([], f\<lparr>fs_server_error := sanitizeErrorMessage e (Some ''Setup failed'')\<rparr>)
          | Inr d \<Rightarrow>
              if truthy d
              then ([Remember ''vmx_just_setup'' ''true'', Do (Invalidate [KStr ''public-config'']), Go (ROUTES LOGIN)],
                    f\<lparr>fs_submitted := False, wf_request := (wf_request f)\<lparr>su_password := []\<rparr>, wf_confirm := []\<rparr>)
              else ([], f))))"

section \<open>What the forms send\<close>

lemma passwordChecked_iff: "checks field (passwordChecked p) = [] \<longleftrightarrow> length p \<in> {8..72}"
  by (auto simp: passwordChecked_def PASSWORD_MIN_def PASSWORD_MAX_def Suc_le_eq)

lemma setup_issues_iff:
  "setup_issues is_email r confirm = [] \<longleftrightarrow>
     su_firstName r \<noteq> [] \<and> su_lastName r \<noteq> [] \<and> is_email (su_email r) \<and> length (su_password r) \<in> {8..72} \<and>
     su_password r = confirm \<and> length (su_workspaceName r) \<in> {2..100} \<and> length (su_workspaceSlug r) \<in> {2..50} \<and>
     test (whole slug_rx) (su_workspaceSlug r)"
  by (auto simp: setup_issues_def Suc_le_eq)

text \<open>No form asks the backend for a password outside the bounds, for one that was not typed twice, or,
  where a password is changed, for the old one again: such a form sends nothing at all.\<close>

theorem password_forms_guarded:
  "(fst (reset_submit answer f) = Some call \<longrightarrow>
      length (sf_password f) \<in> {8..72} \<and> sf_password f = sf_confirmPassword f) \<and>
   (fst (setup_submit te is_email answer g) = Some call \<longrightarrow>
      length (su_password (wf_request g)) \<in> {8..72} \<and> su_password (wf_request g) = wf_confirm g) \<and>
   (snd (snd (change_submit first srv h w)) \<noteq> w \<longrightarrow>
      length (cf_new h) \<in> {8..72} \<and> cf_new h = cf_confirm h \<and> cf_new h \<noteq> cf_current h) \<and>
   (snd (snd (register_submit is_email srv r w)) \<noteq> w \<longrightarrow>
      length (rf_password r) \<in> {8..72} \<and> rf_password r = rf_confirmPassword r)"
proof (intro conjI impI)
  assume "fst (reset_submit answer f) = Some call"
  then have "newPasswordSchema (sf_password f) (sf_confirmPassword f) = []"
    by (auto simp: reset_submit_def start_submit_def Let_def split: if_splits)
  then show "length (sf_password f) \<in> {8..72}" "sf_password f = sf_confirmPassword f"
    by (auto simp: newPasswordSchema_def passwordChecked_iff split: if_splits)
next
  assume "fst (setup_submit te is_email answer g) = Some call"
  then have "setup_issues is_email (wf_request g) (wf_confirm g) = []"
    by (auto simp: setup_submit_def start_submit_def Let_def split: if_splits)
  then show "length (su_password (wf_request g)) \<in> {8..72}" "su_password (wf_request g) = wf_confirm g"
    by (auto simp: setup_issues_iff)
next
  assume "snd (snd (change_submit first srv h w)) \<noteq> w"
  then have "change_issues h = [] \<and> cf_new h \<noteq> cf_current h"
    by (auto simp: change_submit_def start_submit_def change_issues_def Let_def split: if_splits)
  then show "length (cf_new h) \<in> {8..72}" "cf_new h = cf_confirm h" "cf_new h \<noteq> cf_current h"
    by (auto simp: change_issues_def passwordChangeSchema_def passwordChecked_iff split: if_splits)
next
  assume "snd (snd (register_submit is_email srv r w)) \<noteq> w"
  then have "register_issues is_email r = []"
    by (auto simp: register_submit_def start_submit_def register_issues_def Let_def split: if_splits)
  then show "length (rf_password r) \<in> {8..72}" "rf_password r = rf_confirmPassword r"
    by (auto simp: register_issues_def registerSchema_def passwordChecked_iff split: if_splits)
qed

definition demo_reset :: reset_form where
  "demo_reset = (mount_reset [(''token'', ''t'')])\<lparr>sf_password := ''Enigma-1941'', sf_confirmPassword := ''Enigma-1941''\<rparr>"

lemma demo_reset_sends: "fst (reset_submit (\<lambda>_. Inr JNull) demo_reset) = Some (apiResetPassword ''t'' ''Enigma-1941'')"
  by code_simp

lemma password_forms_guarded_witness:
  "length (sf_password demo_reset) \<in> {8..72} \<and> sf_password demo_reset = sf_confirmPassword demo_reset"
  using password_forms_guarded [of "\<lambda>_. Inr JNull" demo_reset "apiResetPassword ''t'' ''Enigma-1941''"] demo_reset_sends
  by blast

section \<open>The reset link\<close>

lemma reset_messages:
  "filter (test reset_link_rx) (map snd ERROR_PATTERNS) =
     [''Your session has expired. Please sign in again.'',
      ''This reset link is invalid or has expired. Please request a new one.'',
      ''Your session has expired. Please sign in again.'']"
  by code_simp

lemma first_match_message: "first_match ps raw = Some m \<Longrightarrow> m \<in> snd ` set ps"
  by (induction ps raw rule: first_match.induct) (auto split: if_splits)

text \<open>A refused reset shows the page for a dead link exactly when the backend's error is one the sanitizer
  reads as a dead link or as an expired session; every other error it knows is shown above the
  form, which keeps what was typed.\<close>

theorem reset_refused:
  assumes "newPasswordSchema (sf_password f) (sf_confirmPassword f) = []" and "\<not> tokenInvalid f"
    and "\<And>c. answer c = Inl (ErrorObj (sanitizeErrorMessage e fallback))"
    and "first_match ERROR_PATTERNS (extractRawMessage e) = Some m"
    and "g = snd (snd (reset_submit answer f))"
  shows "(tokenInvalid g \<longleftrightarrow> m \<in> {''Your session has expired. Please sign in again.'',
      ''This reset link is invalid or has expired. Please request a new one.''}) \<and>
    (\<not> tokenInvalid g \<longrightarrow> fs_server_error g = m) \<and> sf_password g = sf_password f \<and> \<not> fs_loading g"
proof -
  have "sanitizeErrorMessage e fallback = m" using assms(4) by (simp add: sanitizeErrorMessage_def)
  then have g: "g = (if test reset_link_rx m then (start_submit f)\<lparr>tokenInvalid := True, fs_loading := False\<rparr>
      else (start_submit f)\<lparr>fs_server_error := m, fs_loading := False\<rparr>)"
    using assms(1,3,5) by (simp add: reset_submit_def start_submit_def raw_message_def Let_def)
  have "m \<in> set (map snd ERROR_PATTERNS)" using first_match_message [OF assms(4)] by simp
  then have "test reset_link_rx m \<longleftrightarrow> m \<in> set (filter (test reset_link_rx) (map snd ERROR_PATTERNS))" by simp
  then have "test reset_link_rx m \<longleftrightarrow> m \<in> {''Your session has expired. Please sign in again.'',
      ''This reset link is invalid or has expired. Please request a new one.''}"
    unfolding reset_messages by auto
  with assms(2) show ?thesis unfolding g by (auto simp: start_submit_def)
qed

lemma reset_refused_witness:
  "tokenInvalid (snd (snd (reset_submit (\<lambda>_. Inl (ErrorObj (sanitizeErrorMessage
      (ErrorObj ''invalid or expired reset token'') None))) demo_reset)))"
proof -
  have "newPasswordSchema (sf_password demo_reset) (sf_confirmPassword demo_reset) = []" "\<not> tokenInvalid demo_reset"
    "first_match ERROR_PATTERNS (extractRawMessage (ErrorObj ''invalid or expired reset token'')) =
       Some ''This reset link is invalid or has expired. Please request a new one.''"
    by code_simp+
  from reset_refused [OF this(1,2) refl this(3) refl] show ?thesis by simp
qed

section \<open>The setup form\<close>

definition mount_setup :: setup_form where
  "mount_setup = \<lparr>fs_errors = [], fs_submitted = False, fs_server_error = [], fs_loading = False,
     wf_request = \<lparr>su_email = [], su_password = [], su_firstName = [], su_lastName = [], su_workspaceName = [],
       su_workspaceSlug = []\<rparr>, wf_confirm = [], wf_slug_edited = False\<rparr>"

text \<open>The inputs other than the workspace's.\<close>

definition edit_account :: "(string \<Rightarrow> bool) \<Rightarrow> SetupRequest \<Rightarrow> string \<Rightarrow> setup_form \<Rightarrow> setup_form" where
  "edit_account is_email r confirm f =
     (let r = r\<lparr>su_workspaceName := su_workspaceName (wf_request f), su_workspaceSlug := su_workspaceSlug (wf_request f)\<rparr> in
      revalidate (setup_issues is_email r confirm) (f\<lparr>wf_request := r, wf_confirm := confirm\<rparr>))"

inductive setup_reach :: "thrown \<Rightarrow> (string \<Rightarrow> bool) \<Rightarrow> setup_form \<Rightarrow> bool" for te is_email where
  mounted: "setup_reach te is_email mount_setup"
| account: "setup_reach te is_email f \<Longrightarrow> setup_reach te is_email (edit_account is_email r c f)"
| named: "setup_reach te is_email f \<Longrightarrow> setup_reach te is_email (handleWorkspaceNameChange is_email v f)"
| slugged: "setup_reach te is_email f \<Longrightarrow> setup_reach te is_email (handleSlugChange is_email v f)"
| submitted: "setup_reach te is_email f \<Longrightarrow> setup_reach te is_email (snd (snd (setup_submit te is_email answer f)))"

lemmas setup_defs = mount_setup_def edit_account_def handleWorkspaceNameChange_def handleSlugChange_def
  setup_submit_def start_submit_def revalidate_def Let_def

lemma setup_slug_follows: "setup_reach te is_email f \<Longrightarrow>
    \<not> wf_slug_edited f \<Longrightarrow> su_workspaceSlug (wf_request f) = setup_slug (su_workspaceName (wf_request f))"
proof (induction rule: setup_reach.induct)
  case mounted
  show ?case by (simp add: mount_setup_def setup_slug_def toLowerCase_def trim_def drop_edge_dashes_def drop_first_dash_def)
qed (auto simp: setup_defs split: sum.splits option.splits if_splits)

lemma setup_silent: "setup_reach te is_email f \<Longrightarrow> fs_submitted f \<or> fs_errors f = []"
  by (induction rule: setup_reach.induct) (auto simp: setup_defs split: sum.splits option.splits if_splits)

text \<open>Whatever is typed into the setup form, it shows no error before it was submitted once, and until the
  slug is edited by hand it is the one suggested for the workspace's name. A request it makes
  carries a slug of the allowed shape.\<close>

theorem setup_form_invariant:
  assumes "setup_reach te is_email f"
  shows "(fs_submitted f \<or> fs_errors f = []) \<and>
    (wf_slug_edited f \<or> su_workspaceSlug (wf_request f) = setup_slug (su_workspaceName (wf_request f))) \<and>
    (fst (setup_submit te is_email answer f) = Some call \<longrightarrow>
      call = apiInitializeSetup (wf_request f) \<and> matches slug_rx (su_workspaceSlug (wf_request f)))"
proof (intro conjI impI)
  assume "fst (setup_submit te is_email answer f) = Some call"
  then show "call = apiInitializeSetup (wf_request f)" "matches slug_rx (su_workspaceSlug (wf_request f))"
    by (auto simp: setup_submit_def start_submit_def setup_issues_iff test_whole Let_def split: if_splits)
qed (use setup_silent [OF assms] setup_slug_follows [OF assms] in auto)

lemma setup_form_invariant_witness:
  "su_workspaceSlug (wf_request (handleWorkspaceNameChange (\<lambda>_. True) ''My Team'' mount_setup)) = ''my-team''"
proof -
  let ?f = "handleWorkspaceNameChange (\<lambda>_. True) ''My Team'' mount_setup"
  have "setup_reach OtherVal (\<lambda>_. True) ?f" by (intro setup_reach.intros)
  moreover have "\<not> wf_slug_edited ?f" "su_workspaceName (wf_request ?f) = ''My Team''" by (simp_all add: setup_defs)
  moreover have "setup_slug ''My Team'' = ''my-team''" by code_simp
  ultimately show ?thesis using setup_form_invariant [of OtherVal "\<lambda>_. True" ?f] by simp
qed

text \<open>An answer without data leaves the form as it was after submitting: nothing tells the user that the
  setup has not gone on.\<close>

lemma setup_without_data:
  assumes "setup_issues is_email (wf_request f) (wf_confirm f) = []" and "\<And>c. answer c = Inr (JObj [(''data'', JNull)])"
  shows "snd (setup_submit te is_email answer f) = ([], start_submit f)"
  using assms by (simp add: setup_submit_def start_submit_def initialize_def Let_def)

section \<open>The verification view\<close>

inductive verify_reach :: "verify_view \<Rightarrow> bool" where
  mounted: "verify_reach (mount_verify token)"
| effect: "verify_reach v \<Longrightarrow> verify_reach (snd (verify_effect token v))"
| cleanup: "verify_reach v \<Longrightarrow> verify_reach (verify_cleanup v)"
| answered: "verify_reach v \<Longrightarrow> verify_reach (verify_answered run answer v)"

lemma live_run_latest: "verify_reach v \<Longrightarrow> liveRun v = Some r \<Longrightarrow> r + 1 = runCount v"
  by (induction arbitrary: r rule: verify_reach.induct)
    (auto simp: mount_verify_def verify_effect_def verify_cleanup_def verify_answered_def
      split: option.splits if_splits sum.splits)

text \<open>Only the answer to the latest request can change the verification page: one that arrives after the
  page was left or asked again is ignored.\<close>

theorem stale_verification_ignored:
  assumes "verify_reach v" and "run + 1 \<noteq> runCount v"
  shows "verify_answered run answer v = v"
  using live_run_latest [OF assms(1), of run] assms(2) by (auto simp: verify_answered_def)

lemma stale_verification_ignored_witness:
  "vv_state (verify_answered 0 (Inl OtherVal) (snd (verify_effect (Some ''t'') (verify_cleanup
      (snd (verify_effect (Some ''t'') (mount_verify (Some ''t''))))))))  = Loading"
proof -
  let ?v = "snd (verify_effect (Some ''t'') (verify_cleanup (snd (verify_effect (Some ''t'') (mount_verify (Some ''t''))))))"
  have "verify_reach ?v" by (intro verify_reach.intros)
  moreover have "runCount ?v = 2" "vv_state ?v = Loading" by code_simp+
  ultimately show ?thesis using stale_verification_ignored [of ?v 0 "Inl OtherVal"] by simp
qed

section \<open>The invitation\<close>

text \<open>The page asks for a decision only from a signed-in user, on an invitation that is still open.\<close>

lemma invite_decide:
  "invite_page authLoading c invitationLoading invitation signedIn = Decide \<longleftrightarrow>
     \<not> authLoading \<and> \<not> invitationLoading \<and> \<not> pc_loading c \<and> registrationEnabled c \<and> signedIn \<and>
     (\<exists>i. invitation = Some i \<and> \<not> inv_accepted i \<and> \<not> inv_expired i)"
  by (auto simp: invite_page_def split: option.splits)

text \<open>Creating an account leads every visitor to the same page. The link to the registration form carries
  the invitation, but no outcome of the form goes back to it.\<close>

lemma registration_forgets_invitation:
  "Go target \<in> set (fst (register_submit is_email srv f w)) \<Longrightarrow> target = ''/workspaces?create=true''"
  by (auto simp: register_submit_def Let_def split: prod.splits sum.splits option.splits if_splits)

end
