(* ===== verification/Single_Call.thy ===== *)
theory Single_Call
  imports Refresh_Flight
begin

text \<open>
  The two models of \<open>fetchApi\<close> agree: \<open>fetchApi\<close> of theory \<open>Http\<close>, which runs a call to completion,
  describes what the handlers of theory \<open>Refresh_Flight\<close> do when no other call interferes. The
  concurrent machine keeps the promise of a refresh in \<open>promiseVar\<close>, the sequential one in
  the world; the two worlds are compared up to that variable.
\<close>

definition answer_of :: "server \<Rightarrow> flight \<Rightarrow> string + response" where
  "answer_of srv s = srv (butlast (sent (page s))) (last (sent (page s)))"

definition refresh_alone :: "server \<Rightarrow> nat \<Rightarrow> flight \<Rightarrow> flight" where
  "refresh_alone srv p s = (if promises s ! p = None then on_refresh_answer p (answer_of srv s) s else s)"

definition retry_alone :: "server \<Rightarrow> nat \<Rightarrow> flight \<Rightarrow> flight" where
  "retry_alone srv i s = (if calls s i = Retrying then on_retry_answer i (answer_of srv s) s else s)"

text \<open>One call from its start to its result, every request answered by the server at once.\<close>

definition run_alone :: "server \<Rightarrow> jobs \<Rightarrow> nat \<Rightarrow> flight \<Rightarrow> flight" where
  "run_alone srv jobs i s =
     (let s1 = begin_call jobs i s; s2 = on_answer jobs i (answer_of srv s1) s1 in
      case calls s2 i of
        Awaiting p hs resp \<Rightarrow> retry_alone srv i (resume jobs i (refresh_alone srv p s2))
      | _ \<Rightarrow> s2)"

definition forget_promise :: "http_world \<Rightarrow> http_world" where
  "forget_promise w = w\<lparr>refreshPromise := None\<rparr>"

section \<open>The variable is not read\<close>

lemma session_promise:
  "clearTokens (w\<lparr>refreshPromise := p\<rparr>) = (clearTokens w)\<lparr>refreshPromise := p\<rparr>"
  "clearWorkspaceId (w\<lparr>refreshPromise := p\<rparr>) = (clearWorkspaceId w)\<lparr>refreshPromise := p\<rparr>"
  by (simp_all add: session_defs http_simps assign_cookie_def removeItem_def Let_def)

lemma forget_promise_upd [simp]: "forget_promise (w\<lparr>refreshPromise := p\<rparr>) = forget_promise w"
  by (simp add: forget_promise_def)

lemma forget_promise_ended:
  "forget_promise (clearWorkspaceId (clearTokens (w\<lparr>refreshPromise := p\<rparr>))) =
     forget_promise (clearWorkspaceId (clearTokens w))"
  by (simp add: session_promise)

lemma request_promise [simp]:
  "build_request endpoint opts hs (w\<lparr>refreshPromise := p\<rparr>) = build_request endpoint opts hs w"
  "getStoredAccessToken (w\<lparr>refreshPromise := p\<rparr>) = getStoredAccessToken w"
  by (simp_all add: build_request_def)

section \<open>The run\<close>

definition agrees :: "nat \<Rightarrow> flight \<Rightarrow> (thrown + json) \<times> http_world \<Rightarrow> bool" where
  "agrees i s rw \<longleftrightarrow> calls s i = Settled (fst rw) \<and> forget_promise (page s) = forget_promise (snd rw)"

text \<open>The waiting part: from the refresh to the result.\<close>

lemma wait_agrees:
  assumes "\<not> isRefreshing (page s)" and "jobs i = (endpoint, opts)" and "start_refresh s = (p, s')"
    and "calls s'' = (calls s')(i := Awaiting p hs resp)" and "page s'' = page s'" and "promises s'' = promises s'"
  shows "agrees i (retry_alone srv i (resume jobs i (refresh_alone srv p s'')))
    (case attemptTokenRefresh srv (page s) of (refreshed, w2) \<Rightarrow>
       if refreshed then
         (let hs' = set_header ''Authorization'' (bearer (getStoredAccessToken w2)) hs;
              (ans', w3) = net_fetch srv (build_request endpoint opts hs' w2) w2
          in case ans' of Inl m \<Rightarrow> (Inl (ErrorObj m), w3) | Inr resp' \<Rightarrow> (finish resp', w3))
       else (finish resp, clearWorkspaceId (clearTokens w2)))"
proof (cases "\<exists>t. getStoredRefreshToken (page s) = Some t \<and> t \<noteq> []")
  case False
  then have "attemptTokenRefresh srv (page s) = (False, (page s)\<lparr>isRefreshing := False, refreshPromise := Some False\<rparr>)"
    using assms(1) by (auto simp: attemptTokenRefresh_def Let_def split: option.splits)
  moreover have "page s' = (page s)\<lparr>isRefreshing := False\<rparr>" "promises s' ! p = Some False"
    using False assms(1,3) by (auto simp: start_refresh_def fresh_refresh_def Let_def split: option.splits)
  ultimately show ?thesis
    using assms by (simp add: refresh_alone_def resume_def retry_alone_def agrees_def forget_promise_ended)
next
  case True
  then obtain t where t: "getStoredRefreshToken (page s) = Some t" "t \<noteq> []" by blast
  define w1 where "w1 = (page s)\<lparr>isRefreshing := True\<rparr>"
  have t1: "getStoredRefreshToken w1 = Some t" using t(1) by (simp add: w1_def)
  obtain b w2 where ans: "refresh_answer (srv (sent w1) (refresh_request t w1)) (w1\<lparr>sent := sent w1 @ [refresh_request t w1]\<rparr>) = (b, w2)"
    by fastforce
  have seq: "attemptTokenRefresh srv (page s) = (b, w2\<lparr>isRefreshing := False, refreshPromise := None\<rparr>)"
    using assms(1) t(2) t1 ans by (simp add: attemptTokenRefresh_def w1_def [symmetric] Let_def split_beta)
  have s': "page s' = w1\<lparr>sent := sent w1 @ [refresh_request t w1]\<rparr>" "promises s' ! p = None" "p < length (promises s')"
    using assms(1,3) t(2) t1 by (auto simp: start_refresh_def fresh_refresh_def w1_def [symmetric] Let_def split: option.splits)
  then have ref: "refresh_alone srv p s'' = s''\<lparr>page := w2\<lparr>isRefreshing := False\<rparr>,
      promises := (promises s'')[p := Some b], promiseVar := None\<rparr>"
    using assms(5,6) ans by (simp add: refresh_alone_def on_refresh_answer_def answer_of_def)
  show ?thesis
  proof (cases b)
    case True
    then show ?thesis
      using assms(2,4,6) s'(3) seq ref
      by (simp add: resume_def retry_alone_def on_retry_answer_def answer_of_def agrees_def forget_promise_def net_fetch_def Let_def
          del: forget_promise_upd split: sum.split)
  next
    case False
    then show ?thesis
      using assms(2,4,6) s'(3) seq ref
      by (simp add: resume_def retry_alone_def agrees_def forget_promise_ended)
  qed
qed


section \<open>The whole call\<close>

lemma first_step:
  assumes "jobs i = (endpoint, opts)"
  shows "begin_call jobs i s = set_call i (InFlight (build_headers opts (page s)))
    (s\<lparr>page := (page s)\<lparr>sent := sent (page s) @ [first_request endpoint opts (page s)]\<rparr>\<rparr>)"
  using assms by (simp add: begin_call_def first_request_def Let_def)

lemma run_agrees:
  assumes "\<not> isRefreshing (page s)" and "jobs i = (endpoint, opts)"
  shows "agrees i (run_alone srv jobs i s) (fetchApi srv id endpoint opts (page s))"
proof -
  define w1 where "w1 = (page s)\<lparr>sent := sent (page s) @ [first_request endpoint opts (page s)]\<rparr>"
  define s1 where "s1 = begin_call jobs i s"
  have s1: "page s1 = w1" "calls s1 i = InFlight (build_headers opts (page s))" "\<not> isRefreshing (page s1)"
    using assms by (simp_all add: s1_def first_step w1_def)
  have ans: "answer_of srv s1 = srv (sent (page s)) (first_request endpoint opts (page s))"
    by (simp add: answer_of_def s1 w1_def)
  show ?thesis
  proof (cases "\<exists>resp. answer_of srv s1 = Inr resp \<and> status resp = 401 \<and> \<not> skipAuth opts")
    case False
    then show ?thesis
      using assms(2) s1 ans
      by (auto simp: run_alone_def s1_def [symmetric] on_answer_def fetchApi_def first_request_def w1_def agrees_def
          net_fetch_def Let_def split: sum.splits)
  next
    case True
    then obtain resp where resp: "answer_of srv s1 = Inr resp" "status resp = 401" "\<not> skipAuth opts" by blast
    obtain p s' where p: "start_refresh s1 = (p, s')" by fastforce
    define s2 where "s2 = on_answer jobs i (answer_of srv s1) s1"
    have s2: "s2 = set_call i (Awaiting p (build_headers opts (page s)) resp) s'"
      using resp s1 p assms(2) by (simp add: s2_def on_answer_def)
    have "run_alone srv jobs i s = retry_alone srv i (resume jobs i (refresh_alone srv p s2))"
      using s2 by (simp add: run_alone_def s1_def [symmetric] s2_def [symmetric] Let_def)
    moreover have "fetchApi srv id endpoint opts (page s) =
      (case attemptTokenRefresh srv w1 of (refreshed, w2) \<Rightarrow>
         if refreshed then
           (let hs' = set_header ''Authorization'' (bearer (getStoredAccessToken w2)) (build_headers opts (page s));
                (ans', w3) = net_fetch srv (build_request endpoint opts hs' w2) w2
            in case ans' of Inl m \<Rightarrow> (Inl (ErrorObj m), w3) | Inr resp' \<Rightarrow> (finish resp', w3))
         else (finish resp, clearWorkspaceId (clearTokens w2)))"
      using resp ans by (simp add: fetchApi_def first_request_def w1_def Let_def split_beta net_fetch_def)
    ultimately show ?thesis
      using wait_agrees [where jobs = jobs and i = i, OF s1(3) assms(2) p, of s2 "build_headers opts (page s)" resp srv] s1(1)
      by (simp add: s2)
  qed
qed

text \<open>Every part of the run is a step of the machine, so the run is one of its executions.\<close>

lemma run_alone_steps:
  assumes "reachable jobs s" and "calls s i = Fresh"
  shows "reachable jobs (run_alone srv jobs i s)"
proof -
  define s1 where "s1 = begin_call jobs i s"
  define s2 where "s2 = on_answer jobs i (answer_of srv s1) s1"
  have call1: "\<exists>hs. calls s1 i = InFlight hs"
    by (simp add: s1_def begin_call_def split_beta Let_def)
  have r1: "reachable jobs s1"
    unfolding s1_def using assms by (intro reachable.next_step [OF assms(1)] fstep.start)
  then have r2: "reachable jobs s2"
    unfolding s2_def using call1 by (auto intro: reachable.next_step fstep.answer)
  show ?thesis
  proof (cases "\<exists>p hs resp. calls s2 i = Awaiting p hs resp")
    case False
    then show ?thesis
      using r2 by (auto simp: run_alone_def s1_def [symmetric] s2_def [symmetric] Let_def split: call.splits)
  next
    case True
    then obtain p hs resp where aw: "calls s2 i = Awaiting p hs resp" by blast
    define s3 where "s3 = refresh_alone srv p s2"
    have p: "p < length (promises s2)"
      using reachable_inv [OF r2] aw by (auto simp: waits_ok_def)
    have "reachable jobs s3"
      using r2 p by (auto simp: s3_def refresh_alone_def intro: reachable.next_step [OF r2] fstep.refreshed)
    moreover have "promises s3 ! p \<noteq> None"
      using p by (simp add: s3_def refresh_alone_def on_refresh_answer_def split_beta)
    moreover have "calls s3 i = Awaiting p hs resp"
      using aw by (simp add: s3_def refresh_alone_def on_refresh_answer_def split_beta)
    ultimately have "reachable jobs (resume jobs i s3)"
      by (auto intro: reachable.next_step fstep.resumed)
    then have "reachable jobs (retry_alone srv i (resume jobs i s3))"
      by (auto simp: retry_alone_def intro: reachable.next_step fstep.retried)
    then show ?thesis
      using aw by (simp add: run_alone_def s1_def [symmetric] s2_def [symmetric] s3_def Let_def)
  qed
qed

text \<open>C21: A call that no other call disturbs is one of the executions of the concurrent machine, and there
  it has the result, leaves the storage and has sent the requests that the sequential
  description of \<open>fetchApi\<close> says.\<close>

theorem undisturbed_call_is_fetchApi:
  assumes "reachable jobs s" and "calls s i = Fresh" and "\<not> isRefreshing (page s)" and "jobs i = (endpoint, opts)"
  shows "reachable jobs (run_alone srv jobs i s) \<and>
    calls (run_alone srv jobs i s) i = Settled (fst (fetchApi srv id endpoint opts (page s))) \<and>
    (page (run_alone srv jobs i s))\<lparr>refreshPromise := None\<rparr> =
      (snd (fetchApi srv id endpoint opts (page s)))\<lparr>refreshPromise := None\<rparr>"
  using run_alone_steps [OF assms(1,2)] run_agrees [where s = s and jobs = jobs and i = i, OF assms(3,4), of srv]
  by (simp add: agrees_def forget_promise_def)

lemma undisturbed_call_is_fetchApi_witness:
  "calls (run_alone (\<lambda>_ _. Inl ''offline'') demo_jobs 0 (boot demo_world)) 0 = Settled (Inl (ErrorObj ''offline''))"
proof -
  obtain endpoint opts where job: "demo_jobs 0 = (endpoint, opts)" by fastforce
  have "\<not> isRefreshing (page (boot demo_world))" by (simp add: boot_def)
  from undisturbed_call_is_fetchApi [where jobs = demo_jobs and i = 0 and s = "boot demo_world",
      OF reachable.init _ this job, of "\<lambda>_ _. Inl ''offline''"] show ?thesis
    by (simp add: boot_def fetchApi_def Let_def net_fetch_def)
qed

end
