(* ===== verification/Calendar.thy ===== *)
theory Calendar
  imports Prelude
begin

text \<open>
  The part of JavaScript's \<open>Date\<close> that the audit log pages use: a date is an instant in
  milliseconds since 1970, its calendar day is read in the time zone of the browser, and the ISO
  form of an instant is read back in UTC. Days are numbered from 1970-01-01; the conversion between
  a day number and a year, month and day is that of the proleptic Gregorian calendar, counted in
  periods of 400 years that begin on the first of March.
\<close>

definition days_from_civil :: "int \<Rightarrow> int \<Rightarrow> int \<Rightarrow> int" where
  "days_from_civil y m d =
     (let y = (if m \<le> 2 then y - 1 else y); era = y div 400; yoe = y mod 400;
          mp = (if m > 2 then m - 3 else m + 9); doy = (153 * mp + 2) div 5 + d - 1;
          doe = 365 * yoe + yoe div 4 - yoe div 100 + doy in
      era * 146097 + doe - 719468)"

text \<open>Year of the era and day of that year: centuries, then periods of four years, then years.\<close>

definition split_era :: "int \<Rightarrow> int \<times> int" where
  "split_era doe =
     (let c = min 3 (doe div 36524); r = doe - 36524 * c; k = min 3 (r mod 1461 div 365) in
      (100 * c + 4 * (r div 1461) + k, r mod 1461 - 365 * k))"

definition civil_from_days :: "int \<Rightarrow> int \<times> int \<times> int" where
  "civil_from_days n =
     (case split_era ((n + 719468) mod 146097) of (yoe, doy) \<Rightarrow>
        (let y = yoe + (n + 719468) div 146097 * 400; mp = (5 * doy + 2) div 153;
             d = doy - (153 * mp + 2) div 5 + 1; m = (if mp < 10 then mp + 3 else mp - 9) in
         (if m \<le> 2 then y + 1 else y, m, d)))"

lemma split_era:
  assumes "split_era doe = (yoe, doy)" and "0 \<le> doe" and "doe < 146097"
  shows "0 \<le> yoe" and "yoe < 400" and "0 \<le> doy" and "doy \<le> 365"
    and "doe = 365 * yoe + yoe div 4 - yoe div 100 + doy"
proof -
  define c where "c = min 3 (doe div 36524)"
  define r where "r = doe - 36524 * c"
  define q where "q = r div 1461"
  define r' where "r' = r mod 1461"
  define k where "k = min 3 (r' div 365)"
  have eq: "yoe = 100 * c + 4 * q + k" "doy = r' - 365 * k"
    using assms(1) unfolding split_era_def Let_def c_def r_def q_def r'_def k_def by simp_all
  have c: "0 \<le> c" "c \<le> 3" using assms(2) by (auto simp: c_def)
  have r: "0 \<le> r" "r \<le> 36524" using assms(2,3) by (auto simp: r_def c_def min_def)
  have q: "0 \<le> q" "q \<le> 24" "r = 1461 * q + r'" "0 \<le> r'" "r' \<le> 1460"
    using r by (auto simp: q_def r'_def)
  have k: "0 \<le> k" "k \<le> 3" using q(4) by (auto simp: k_def)
  show "0 \<le> doy" "doy \<le> 365" using q(4,5) unfolding eq by (auto simp: k_def min_def)
  show "0 \<le> yoe" "yoe < 400" using c q(1,2) k unfolding eq by linarith+
  have "yoe div 100 = c" "yoe div 4 = 25 * c + q" using q(1,2) k unfolding eq by auto
  then show "doe = 365 * yoe + yoe div 4 - yoe div 100 + doy"
    using q(3) unfolding eq by (simp add: r_def)
qed

text \<open>The month and the day of the month, from the day of the year.\<close>

lemma month_index:
  fixes doy :: int
  assumes "0 \<le> doy" and "doy \<le> 365"
  shows "0 \<le> (5 * doy + 2) div 153" and "(5 * doy + 2) div 153 \<le> 11"
  using assms by auto

lemma days_civil: "(case civil_from_days n of (y, m, d) \<Rightarrow> days_from_civil y m d) = n"
proof -
  define era where "era = (n + 719468) div 146097"
  define doe where "doe = (n + 719468) mod 146097"
  obtain yoe doy where s: "split_era doe = (yoe, doy)" by fastforce
  have doe: "0 \<le> doe" "doe < 146097" "n = era * 146097 + doe - 719468" by (simp_all add: doe_def era_def)
  note parts = split_era [OF s doe(1,2)]
  define mp where "mp = (5 * doy + 2) div 153"
  define m where "m = (if mp < 10 then mp + 3 else mp - 9)"
  have mp: "0 \<le> mp" "mp \<le> 11" using month_index [OF parts(3,4)] by (simp_all add: mp_def)
  then have m: "(if m > 2 then m - 3 else m + 9) = mp" by (auto simp: m_def)
  have y: "(yoe + era * 400) div 400 = era" "(yoe + era * 400) mod 400 = yoe" using parts(1,2) by auto
  have civil: "civil_from_days n = (if m \<le> 2 then yoe + era * 400 + 1 else yoe + era * 400, m, doy - (153 * mp + 2) div 5 + 1)"
    unfolding civil_from_days_def Let_def era_def [symmetric] doe_def [symmetric] s prod.case mp_def [symmetric]
      m_def [symmetric] ..
  have "(if m \<le> 2 then (if m \<le> 2 then yoe + era * 400 + 1 else yoe + era * 400) - 1
      else (if m \<le> 2 then yoe + era * 400 + 1 else yoe + era * 400)) = yoe + era * 400" by simp
  then have "days_from_civil (if m \<le> 2 then yoe + era * 400 + 1 else yoe + era * 400) m (doy - (153 * mp + 2) div 5 + 1) =
      era * 146097 + (365 * yoe + yoe div 4 - yoe div 100 + doy) - 719468"
    unfolding days_from_civil_def Let_def m by (simp only: y)
  then show ?thesis unfolding civil prod.case using parts(5) doe(3) by simp
qed

lemma day_of_month:
  fixes doy :: int
  assumes "q = (5 * doy + 2) div 153" and "p = (153 * q + 2) div 5"
  shows "1 \<le> doy - p + 1" and "doy - p + 1 \<le> 31"
proof -
  have "153 * q \<le> 5 * doy + 2" "5 * doy + 2 < 153 * q + 153" unfolding assms(1) by simp_all
  moreover have "5 * p \<le> 153 * q + 2" "153 * q + 2 < 5 * p + 5" unfolding assms(2) by simp_all
  ultimately show "1 \<le> doy - p + 1" "doy - p + 1 \<le> 31" by linarith+
qed

lemma civil_range:
  assumes "civil_from_days n = (y, m, d)"
  shows "1 \<le> m" and "m \<le> 12" and "1 \<le> d" and "d \<le> 31"
proof -
  obtain yoe doy where s: "split_era ((n + 719468) mod 146097) = (yoe, doy)" by fastforce
  note parts = split_era [OF s]
  have mp: "0 \<le> (5 * doy + 2) div 153" "(5 * doy + 2) div 153 \<le> 11"
    using month_index parts(3,4) by simp_all
  have eq: "m = (if (5 * doy + 2) div 153 < 10 then (5 * doy + 2) div 153 + 3 else (5 * doy + 2) div 153 - 9)"
    "d = doy - (153 * ((5 * doy + 2) div 153) + 2) div 5 + 1"
    using assms unfolding civil_from_days_def s prod.case Let_def by simp_all
  show "1 \<le> m" "m \<le> 12" using mp unfolding eq(1) by auto
  show "1 \<le> d" "d \<le> 31" using day_of_month [OF refl refl, of doy] unfolding eq(2) by simp_all
qed

section \<open>ISO text\<close>

definition pad2 :: "int \<Rightarrow> string" where
  "pad2 n = (let s = show_int n in if length s < 2 then CHR ''0'' # s else s)"

definition day_text :: "int \<Rightarrow> string" where
  "day_text n = (case civil_from_days n of (y, m, d) \<Rightarrow> show_int y @ ''-'' @ pad2 m @ ''-'' @ pad2 d)"

definition slice :: "nat \<Rightarrow> nat \<Rightarrow> string \<Rightarrow> string" where
  "slice i n s = take n (drop i s)"

definition day_ms :: int where
  "day_ms = 86400000"

text \<open>
  \<open>new Date(s).getTime()\<close> for the form \<open>YYYY-MM-DDThh:mm:ssZ\<close> of a day that exists;
  \<open>other\<close> is what the browser makes of any other text.
\<close>

definition iso_instant :: "(string \<Rightarrow> int option) \<Rightarrow> string \<Rightarrow> int option" where
  "iso_instant other s =
     (let y = int (read_nat (slice 0 4 s)); m = int (read_nat (slice 5 2 s)); d = int (read_nat (slice 8 2 s));
          hh = int (read_nat (slice 11 2 s)); mm = int (read_nat (slice 14 2 s)); ss = int (read_nat (slice 17 2 s)) in
      if length s = 20 \<and>
         list_all is_digit (slice 0 4 s @ slice 5 2 s @ slice 8 2 s @ slice 11 2 s @ slice 14 2 s @ slice 17 2 s) \<and>
         [s ! 4, s ! 7, s ! 10, s ! 13, s ! 16, s ! 19] = ''--T::Z'' \<and>
         civil_from_days (days_from_civil y m d) = (y, m, d) \<and> hh < 24 \<and> mm < 60 \<and> ss < 60
      then Some (days_from_civil y m d * day_ms + (hh * 3600 + mm * 60 + ss) * 1000)
      else other s)"

lemma show_nat_2: "10 \<le> n \<Longrightarrow> n < 100 \<Longrightarrow> length (show_nat n) = 2"
  by (simp add: show_nat.simps [of n] show_nat.simps [of "n div 10"])

lemma show_nat_4:
  assumes "1000 \<le> n" and "n < 10000"
  shows "length (show_nat n) = 4"
proof -
  have "n div 10 div 10 = n div 100" by (simp add: div_mult2_eq [symmetric])
  then have "length (show_nat (n div 10 div 10)) = 2" using assms by (simp add: show_nat_2)
  then show ?thesis using assms by (simp add: show_nat.simps [of n] show_nat.simps [of "n div 10"])
qed

lemma pad2:
  assumes "0 \<le> n" and "n < 100"
  shows "length (pad2 n) = 2" and "read_nat (pad2 n) = nat n" and "list_all is_digit (pad2 n)"
proof -
  have digits: "list_all is_digit (show_nat k)" for k using show_nat_digits by (auto simp: list_all_iff)
  have zero: "read_nat (CHR ''0'' # s) = read_nat s" for s by (simp add: read_nat_def digit_value_def)
  show "length (pad2 n) = 2"
  proof (cases "n < 10")
    case True
    then have "length (show_nat (nat n)) = 1" using assms by (simp add: show_nat.simps [of "nat n"])
    then show ?thesis using assms by (simp add: pad2_def show_int_def Let_def)
  next
    case False
    then have "length (show_nat (nat n)) = 2" using assms by (intro show_nat_2) auto
    then show ?thesis using assms by (simp add: pad2_def show_int_def Let_def)
  qed
  show "read_nat (pad2 n) = nat n" using assms by (simp add: pad2_def show_int_def zero Let_def)
  have "is_digit (CHR ''0'')" by (simp add: is_digit_def)
  then show "list_all is_digit (pad2 n)" using assms digits by (simp add: pad2_def show_int_def Let_def)
qed

lemma slice_at: "length a = i \<Longrightarrow> length b = n \<Longrightarrow> slice i n (a @ b @ c) = b"
  by (simp add: slice_def)

text \<open>The ISO text of a day of the years 1000 to 9999 is read back as the same day.\<close>

lemma iso_day:
  assumes "civil_from_days n = (y, m, d)" and "1000 \<le> y" and "y < 10000"
    and "length hh = 2" and "length mm = 2" and "length ss = 2"
    and "list_all is_digit (hh @ mm @ ss)" and "read_nat hh < 24" and "read_nat mm < 60" and "read_nat ss < 60"
  shows "iso_instant other (day_text n @ ''T'' @ hh @ '':'' @ mm @ '':'' @ ss @ ''Z'') =
    Some (n * day_ms + (int (read_nat hh) * 3600 + int (read_nat mm) * 60 + int (read_nat ss)) * 1000)"
proof -
  let ?y = "show_nat (nat y)"
  let ?s = "?y @ ''-'' @ pad2 m @ ''-'' @ pad2 d @ ''T'' @ hh @ '':'' @ mm @ '':'' @ ss @ ''Z''"
  note range = civil_range [OF assms(1)]
  have y: "length ?y = 4" "list_all is_digit ?y"
    using assms(2,3) show_nat_4 [of "nat y"] show_nat_digits by (auto simp: list_all_iff)
  have m: "length (pad2 m) = 2" "read_nat (pad2 m) = nat m" "list_all is_digit (pad2 m)" using pad2 [of m] range by simp_all
  have d: "length (pad2 d) = 2" "read_nat (pad2 d) = nat d" "list_all is_digit (pad2 d)" using pad2 [of d] range by simp_all
  have text_eq: "day_text n @ ''T'' @ hh @ '':'' @ mm @ '':'' @ ss @ ''Z'' = ?s"
    using assms(1,2) by (simp add: day_text_def show_int_def)
  have parts: "slice 0 4 ?s = ?y" "slice 5 2 ?s = pad2 m" "slice 8 2 ?s = pad2 d" "slice 11 2 ?s = hh"
    "slice 14 2 ?s = mm" "slice 17 2 ?s = ss"
    using y m d assms(4-6) by (simp_all add: slice_def)
  have seps: "[?s ! 4, ?s ! 7, ?s ! 10, ?s ! 13, ?s ! 16, ?s ! 19] = ''--T::Z''" "length ?s = 20"
    using y m d assms(4-6) by (simp_all add: nth_append)
  have "days_from_civil y m d = n" using days_civil [of n] assms(1) by simp
  then show ?thesis
    unfolding text_eq iso_instant_def Let_def parts
    using seps y m d range assms by (simp del: append.simps)
qed

end
