(* ===== verification/Paged_List.thy ===== *)
theory Paged_List
  imports Url
begin

text \<open>
  What the paged tables of the application have in common (\<open>packages-list-view.tsx\<close>,
  \<open>releases-list-view.tsx\<close>, \<open>alerts-list-view.tsx\<close>, \<open>stale-packages-view.tsx\<close>,
  \<open>package-suggestions-view.tsx\<close>, \<open>audit-log-view.tsx\<close> and the two platform tables): a search
  text and its debounced copy, a page, the query of the address bar, which holds the filters and
  the sorting, and the two effects that run after a change: the page is set back to the first
  one, and the filters are written to the address bar.
\<close>

section \<open>State\<close>

record list_state =
  ls_search :: string
  ls_debounced :: string
  ls_pageIndex :: nat
  ls_pageSize :: nat
  ls_query :: params      \<comment> \<open>\<open>searchParams\<close>\<close>

definition sorting :: "'a list_state_scheme \<Rightarrow> sorting_state" where
  "sorting s = sorting_of (ls_query s)"

text \<open>\<open>sort?.id\<close> and \<open>sort ? (sort.desc ? "desc" : "asc") : undefined\<close>.\<close>

definition sort_by :: "'a list_state_scheme \<Rightarrow> string option" where
  "sort_by s = (case sorting s of [] \<Rightarrow> None | e # _ \<Rightarrow> Some (sort_id e))"

definition sort_dir :: "'a list_state_scheme \<Rightarrow> string option" where
  "sort_dir s = (case sorting s of [] \<Rightarrow> None | e # _ \<Rightarrow> Some (if sort_desc e then ''desc'' else ''asc''))"

text \<open>\<open>v || undefined\<close>.\<close>

definition or_undefined :: "string \<Rightarrow> string option" where
  "or_undefined v = (if v = [] then None else Some v)"

definition page_param :: "'a list_state_scheme \<Rightarrow> int option" where
  "page_param s = Some (int (ls_pageIndex s) + 1)"

definition limit_param :: "'a list_state_scheme \<Rightarrow> int option" where
  "limit_param s = Some (int (ls_pageSize s))"

text \<open>\<open>Math.max(1, Math.ceil(total / pageSize))\<close>.\<close>

definition page_count :: "nat \<Rightarrow> nat \<Rightarrow> nat" where
  "page_count n len = max 1 ((n + len - 1) div len)"

text \<open>\<open>VALID.includes(x ?? "") ? x : ""\<close>.\<close>

definition from_url :: "string list \<Rightarrow> params \<Rightarrow> string \<Rightarrow> string" where
  "from_url valid ps key =
     (let v = (case usp_get ps key of None \<Rightarrow> [] | Some v \<Rightarrow> v) in if v \<in> set valid then v else [])"

text \<open>\<open>setFilter(v === "all" ? "" : (v ?? ""))\<close>.\<close>

definition pick :: "string option \<Rightarrow> string" where
  "pick v = (case v of None \<Rightarrow> [] | Some x \<Rightarrow> if x = ''all'' then [] else x)"

definition capitalized :: "string \<Rightarrow> string" where
  "capitalized v = toUpperCase (take 1 v) @ drop 1 v"

section \<open>Events every table handles\<close>

definition set_search :: "string \<Rightarrow> 'a list_state_scheme \<Rightarrow> 'a list_state_scheme" where
  "set_search v s = s\<lparr>ls_search := v\<rparr>"

text \<open>The timer of \<open>useDebouncedValue\<close>.\<close>

definition debounce :: "'a list_state_scheme \<Rightarrow> 'a list_state_scheme" where
  "debounce s = s\<lparr>ls_debounced := ls_search s\<rparr>"

definition set_pagination :: "nat \<Rightarrow> nat \<Rightarrow> 'a list_state_scheme \<Rightarrow> 'a list_state_scheme" where
  "set_pagination index len s = s\<lparr>ls_pageIndex := index, ls_pageSize := len\<rparr>"

definition set_sorting :: "updater \<Rightarrow> 'a list_state_scheme \<Rightarrow> 'a list_state_scheme" where
  "set_sorting upd s = s\<lparr>ls_query := sort_params upd (ls_query s)\<rparr>"

definition first_page :: "'a list_state_scheme \<Rightarrow> 'a list_state_scheme" where
  "first_page s = s\<lparr>ls_pageIndex := 0\<rparr>"

text \<open>
  The effects after the render of \<open>s\<close> that followed the render of \<open>prev\<close>. The sorting is a new
  array whenever the query of the address bar changes, so a new query resets the page as well.
\<close>

definition run_effects ::
  "('a list_state_scheme \<Rightarrow> 'w) \<Rightarrow> ('a list_state_scheme \<Rightarrow> params) \<Rightarrow> (string \<Rightarrow> string option) \<Rightarrow>
   'a list_state_scheme \<Rightarrow> 'a list_state_scheme \<Rightarrow> 'a list_state_scheme" where
  "run_effects watch written defaults prev s =
     (let s1 = (if watch s \<noteq> watch prev \<or> ls_query s \<noteq> ls_query prev then first_page s else s) in
      if written s = written prev then s1
      else first_page (s1\<lparr>ls_query := filter_params (written s) defaults\<rparr>))"

text \<open>The runs of a table: \<open>change\<close> relates the states before and after one of its handlers.\<close>

inductive list_run ::
  "(params \<Rightarrow> 'a list_state_scheme) \<Rightarrow> ('a list_state_scheme \<Rightarrow> 'w) \<Rightarrow> ('a list_state_scheme \<Rightarrow> params) \<Rightarrow>
   (string \<Rightarrow> string option) \<Rightarrow> ('a list_state_scheme \<Rightarrow> 'a list_state_scheme \<Rightarrow> bool) \<Rightarrow>
   'a list_state_scheme \<Rightarrow> bool"
  for mount watch written defaults change where
  mounted: "list_run mount watch written defaults change (mount ps)"
| changed: "list_run mount watch written defaults change s \<Longrightarrow> change s s' \<Longrightarrow>
    list_run mount watch written defaults change (run_effects watch written defaults s s')"

section \<open>The contract of a table\<close>

text \<open>
  What a table has to keep so that the address bar describes it: \<open>kept\<close> is what a reload should
  restore, \<open>ok\<close> says that the filters have values the table reads back.
\<close>

locale url_table =
  fixes mount :: "params \<Rightarrow> 'a list_state_scheme"
    and watch :: "'a list_state_scheme \<Rightarrow> 'w"
    and written :: "'a list_state_scheme \<Rightarrow> params"
    and defaults :: "string \<Rightarrow> string option"
    and change :: "'a list_state_scheme \<Rightarrow> 'a list_state_scheme \<Rightarrow> bool"
    and kept :: "'a list_state_scheme \<Rightarrow> 'k"
    and ok :: "'a list_state_scheme \<Rightarrow> bool"
  assumes mount_query: "ls_query (mount ps) = ps"
    and mount_ok: "ok (mount ps)"
    and mount_sort: "kept (mount (sort_params upd ps)) = kept (mount ps)"
    and change_ok: "change s s' \<Longrightarrow> ok s \<Longrightarrow> ok s'"
    and change_query: "change s s' \<Longrightarrow> ls_query s' = ls_query s \<or> (\<exists>upd. ls_query s' = sort_params upd (ls_query s))"
    and kept_written: "written s = written s' \<Longrightarrow> kept s = kept s'"
    and ok_frame: "ok (s\<lparr>ls_query := q\<rparr>) = ok s" "ok (s\<lparr>ls_pageIndex := i\<rparr>) = ok s"
    and kept_frame: "kept (s\<lparr>ls_query := q\<rparr>) = kept s" "kept (s\<lparr>ls_pageIndex := i\<rparr>) = kept s"
    and written_read: "ok s \<Longrightarrow> kept (mount (filter_params (written s) defaults)) = kept s"
begin

lemma effects_ok: "ok s' \<Longrightarrow> ok (run_effects watch written defaults s s')"
  by (simp add: run_effects_def first_page_def ok_frame Let_def)

lemma effects_kept: "kept (run_effects watch written defaults s s') = kept s'"
  by (simp add: run_effects_def first_page_def kept_frame Let_def)

lemma run_ok: "list_run mount watch written defaults change s \<Longrightarrow> ok s"
  by (induction rule: list_run.induct) (auto intro: mount_ok effects_ok change_ok)

lemma reload_keeps: "list_run mount watch written defaults change s \<Longrightarrow> kept (mount (ls_query s)) = kept s"
proof (induction rule: list_run.induct)
  case (mounted ps)
  then show ?case by (simp add: mount_query)
next
  case (changed s s')
  have ok: "ok s'" using run_ok [OF changed.hyps(1)] changed.hyps(2) change_ok by blast
  show ?case
  proof (cases "written s' = written s")
    case True
    then have "ls_query (run_effects watch written defaults s s') = ls_query s'"
      by (simp add: run_effects_def first_page_def Let_def)
    moreover have "kept (mount (ls_query s')) = kept (mount (ls_query s))"
      using change_query [OF changed.hyps(2)] mount_sort by auto
    ultimately show ?thesis using changed.IH kept_written [OF True] by (simp add: effects_kept)
  next
    case False
    then have "ls_query (run_effects watch written defaults s s') = filter_params (written s') defaults"
      by (simp add: run_effects_def first_page_def Let_def)
    then show ?thesis using written_read [OF ok] by (simp add: effects_kept)
  qed
qed

end

section \<open>The page\<close>

text \<open>A change leaves the page alone, together with everything the request depends on, or leads to
  the first page.\<close>

lemma page_after_change:
  assumes "ls_pageIndex (run_effects watch written defaults s s') \<noteq> 0"
  shows "watch s' = watch s" and "ls_query s' = ls_query s" and "run_effects watch written defaults s s' = s'"
  using assms by (auto simp: run_effects_def first_page_def Let_def split: if_splits)

text \<open>A filter that is written to the address bar takes the sorting with it.\<close>

lemma filter_resets_sorting:
  assumes "written s' \<noteq> written s" and "distinct (map fst (written s'))" and "''sort'' \<notin> fst ` set (written s')"
  shows "sorting (run_effects watch written defaults s s') = []"
proof -
  have "map_of (written s') ''sort'' = None" using assms(3) by (simp add: map_of_eq_None_iff)
  then show ?thesis
    using assms(1,2) by (simp add: sorting_def run_effects_def first_page_def sorting_of_def usp_get_filter_params Let_def)
qed

text \<open>Every entry is on exactly one of the pages the table counts.\<close>

lemma page_count_covers:
  assumes "0 < len" and "k < n"
  shows "k div len < page_count n len"
proof -
  have le: "len * (k div len) \<le> k" by simp
  have "(k div len + 1) * len = len * (k div len) + len" by (simp add: algebra_simps)
  also have "\<dots> \<le> n + len - 1" using assms le by linarith
  finally have "(k div len + 1) * len \<le> n + len - 1" .
  then have "k div len + 1 \<le> (n + len - 1) div len"
    using assms(1) by (simp add: less_eq_div_iff_mult_less_eq)
  then show ?thesis by (simp add: page_count_def)
qed

lemma page_count_tight:
  assumes "0 < len" and "i < page_count n len"
  shows "i = 0 \<or> i * len < n"
proof (cases "i = 0")
  case False
  then have "i < (n + len - 1) div len" using assms(2) by (simp add: page_count_def)
  then have "(i + 1) * len \<le> n + len - 1"
    using assms(1) by (simp add: less_eq_div_iff_mult_less_eq Suc_le_eq [symmetric])
  then have "i * len + len \<le> len + n - 1" by (simp add: algebra_simps)
  then show ?thesis using assms(1) by linarith
qed simp

section \<open>Reading filters back\<close>

lemma from_url_ok: "from_url valid ps key = [] \<or> from_url valid ps key \<in> set valid"
  by (simp add: from_url_def Let_def)

lemma from_url_written:
  assumes "distinct (map fst filters)" and "map_of filters key = Some v" and "v = [] \<or> v \<in> set valid" and "defaults key \<in> {None, Some []}"
  shows "from_url valid (filter_params filters defaults) key = v"
  using assms by (auto simp: from_url_def usp_get_filter_params)

lemma from_url_sort:
  "key \<noteq> ''sort'' \<Longrightarrow> key \<noteq> ''order'' \<Longrightarrow> from_url valid (sort_params upd ps) key = from_url valid ps key"
  by (simp add: from_url_def sort_params_other)

end
