(* ===== verification/List_Views.thy ===== *)
theory List_Views
  imports Paged_List Validation Package_Hooks Platform_Hooks
begin

text \<open>
  The tables of packages (\<open>features/packages/ui/packages-list-view.tsx\<close>), of releases
  (\<open>features/releases/ui/releases-list-view.tsx\<close>), of alerts (\<open>features/alerts/ui/alerts-list-view.tsx\<close>), of
  stale packages and of suggested packages (\<open>stale-packages-view.tsx\<close>, \<open>package-suggestions-view.tsx\<close>),
  as instances of \<open>Paged_List\<close>: the filters read from the address bar, the request of the current
  page, the chips of the active filters, and the row actions with their dialogs. \<open>enabled\<close> is the
  list of ecosystems of the public configuration, which is empty until that is loaded.
\<close>

definition formatEcosystem :: "string \<Rightarrow> string" where
  "formatEcosystem e =
     (if e = ''python'' then ''Python'' else if e = ''npm'' then ''NPM'' else if e = ''go'' then ''Go'' else e)"

definition formatSource :: "string \<Rightarrow> string" where
  "formatSource s =
     (if s = ''manual'' then ''Manual'' else if s = ''discovered'' then ''Discovered''
      else if s = ''imported'' then ''Imported'' else s)"

type_synonym 's chip = "string \<times> string \<times> ('s \<Rightarrow> 's)"

text \<open>\<open>...(v ? [{ label, value, onRemove }] : [])\<close>.\<close>

definition chip_for :: "string \<Rightarrow> string \<Rightarrow> string \<Rightarrow> ('s \<Rightarrow> 's) \<Rightarrow> 's chip list" where
  "chip_for v lbl shown remove = (if v = [] then [] else [(lbl, shown, remove)])"

definition search_chip :: "'a list_state_scheme \<Rightarrow> 'a list_state_scheme chip list" where
  "search_chip s = chip_for (ls_search s) ''Search'' (ls_search s) (set_search [])"

definition no_defaults :: "string \<Rightarrow> string option" where
  "no_defaults = (\<lambda>_. None)"

section \<open>Packages\<close>

definition VALID_STATUSES :: "string list" where
  "VALID_STATUSES = [''active'', ''suggested'', ''blocked'', ''removed'']"

definition VALID_SOURCES :: "string list" where
  "VALID_SOURCES = [''manual'', ''discovered'', ''imported'']"

definition PACKAGES_FILTER_DEFAULTS :: "string \<Rightarrow> string option" where
  "PACKAGES_FILTER_DEFAULTS = map_of [(''status'', [])]"

record packages_view = list_state +
  pv_ecosystem :: string
  pv_status :: string
  pv_source :: string
  pv_dialogOpen :: bool
  pv_newName :: string
  pv_newEcosystem :: string
  pv_createErrors :: "(string \<times> string) list"
  pv_createSubmitted :: bool
  removeTarget :: "(string \<times> string) option"
  blockTarget :: "(string \<times> string) option"
  blockReason :: string
  unblockTarget :: "(string \<times> string) option"

definition mount_packages :: "string list \<Rightarrow> params \<Rightarrow> packages_view" where
  "mount_packages enabled ps =
     \<lparr>ls_search = [], ls_debounced = [], ls_pageIndex = 0, ls_pageSize = 20, ls_query = ps,
      pv_ecosystem = from_url enabled ps ''ecosystem'', pv_status = from_url VALID_STATUSES ps ''status'',
      pv_source = from_url VALID_SOURCES ps ''source'', pv_dialogOpen = False, pv_newName = [],
      pv_newEcosystem = ''python'', pv_createErrors = [], pv_createSubmitted = False, removeTarget = None,
      blockTarget = None, blockReason = [], unblockTarget = None\<rparr>"

definition packages_filters :: "packages_view \<Rightarrow> params" where
  "packages_filters s = [(''ecosystem'', pv_ecosystem s), (''status'', pv_status s), (''source'', pv_source s)]"

definition packages_watch :: "packages_view \<Rightarrow> string list" where
  "packages_watch s = [pv_ecosystem s, pv_status s, pv_source s, ls_debounced s]"

definition packages_request :: "packages_view \<Rightarrow> PackageListParams" where
  "packages_request s =
     \<lparr>pl_ecosystem = or_undefined (pv_ecosystem s), pl_search = or_undefined (ls_debounced s),
      pl_status = or_undefined (pv_status s), pl_source = or_undefined (pv_source s), pl_page = page_param s,
      pl_limit = limit_param s, pl_sortBy = sort_by s, pl_sortDir = sort_dir s\<rparr>"

definition packages_filtered :: "packages_view \<Rightarrow> bool" where
  "packages_filtered s \<longleftrightarrow> ls_search s \<noteq> [] \<or> pv_ecosystem s \<noteq> [] \<or> pv_source s \<noteq> [] \<or> pv_status s \<noteq> []"

definition clear_packages :: "packages_view \<Rightarrow> packages_view" where
  "clear_packages s =
     set_sorting (Value []) (s\<lparr>ls_search := [], pv_ecosystem := [], pv_status := [], pv_source := []\<rparr>)"

definition packages_chips :: "packages_view \<Rightarrow> packages_view chip list" where
  "packages_chips s =
     chip_for (pv_ecosystem s) ''Ecosystem'' (formatEcosystem (pv_ecosystem s)) (\<lambda>s. s\<lparr>pv_ecosystem := []\<rparr>) @
     chip_for (pv_status s) ''Status'' (capitalized (pv_status s)) (\<lambda>s. s\<lparr>pv_status := []\<rparr>) @
     chip_for (pv_source s) ''Source'' (formatSource (pv_source s)) (\<lambda>s. s\<lparr>pv_source := []\<rparr>) @
     search_chip s"

subsection \<open>Adding a package\<close>

definition revalidate_create :: "string \<Rightarrow> string \<Rightarrow> packages_view \<Rightarrow> packages_view" where
  "revalidate_create name ecosystem s =
     (if \<not> pv_createSubmitted s then s else s\<lparr>pv_createErrors := parseFieldErrors (fst (packageSchema name ecosystem))\<rparr>)"

definition change_new_name :: "string \<Rightarrow> packages_view \<Rightarrow> packages_view" where
  "change_new_name v s = revalidate_create v (pv_newEcosystem s) (s\<lparr>pv_newName := v\<rparr>)"

definition change_new_ecosystem :: "string \<Rightarrow> packages_view \<Rightarrow> packages_view" where
  "change_new_ecosystem v s =
     (if v = [] then s else revalidate_create (pv_newName s) v (s\<lparr>pv_newEcosystem := v\<rparr>))"

text \<open>The outcome of the request is an argument; a refused one is reported by the hook alone.\<close>

definition create_package :: "(api_call \<Rightarrow> thrown + json) \<Rightarrow> packages_view \<Rightarrow> api_call option \<times> packages_view" where
  "create_package answer s =
     (let s = s\<lparr>pv_createSubmitted := True, pv_createErrors := []\<rparr>;
          (iss, name) = packageSchema (pv_newName s) (pv_newEcosystem s);
          call = m_call useCreatePackage (name, pv_newEcosystem s) in
      if iss \<noteq> [] then (None, s\<lparr>pv_createErrors := parseFieldErrors iss\<rparr>)
      else (Some call,
            (case answer call of
               Inl _ \<Rightarrow> s
             | Inr _ \<Rightarrow> s\<lparr>pv_dialogOpen := False, pv_createSubmitted := False, pv_newName := []\<rparr>)))"

subsection \<open>Row actions\<close>

definition handleRemove :: "string \<Rightarrow> string \<Rightarrow> packages_view \<Rightarrow> packages_view" where
  "handleRemove i name s = s\<lparr>removeTarget := Some (i, name)\<rparr>"

definition confirmRemove :: "packages_view \<Rightarrow> api_call option \<times> packages_view" where
  "confirmRemove s =
     (case removeTarget s of None \<Rightarrow> (None, s) | Some (i, _) \<Rightarrow> (Some (m_call useDeletePackage i), s\<lparr>removeTarget := None\<rparr>))"

definition handleBlock :: "string \<Rightarrow> string \<Rightarrow> packages_view \<Rightarrow> packages_view" where
  "handleBlock i name s = s\<lparr>blockTarget := Some (i, name), blockReason := []\<rparr>"

definition confirmBlock :: "packages_view \<Rightarrow> api_call option \<times> packages_view" where
  "confirmBlock s =
     (case blockTarget s of
        None \<Rightarrow> (None, s)
      | Some (i, _) \<Rightarrow>
          (Some (m_call useBlockPackage (i, or_undefined (blockReason s))), s\<lparr>blockTarget := None, blockReason := []\<rparr>))"

definition cancel_block :: "packages_view \<Rightarrow> packages_view" where
  "cancel_block s = s\<lparr>blockTarget := None, blockReason := []\<rparr>"

definition handleUnblock :: "string \<Rightarrow> string \<Rightarrow> packages_view \<Rightarrow> packages_view" where
  "handleUnblock i name s = s\<lparr>unblockTarget := Some (i, name)\<rparr>"

definition confirmUnblock :: "packages_view \<Rightarrow> api_call option \<times> packages_view" where
  "confirmUnblock s =
     (case unblockTarget s of
        None \<Rightarrow> (None, s) | Some (i, _) \<Rightarrow> (Some (m_call useUnblockPackage i), s\<lparr>unblockTarget := None\<rparr>))"

text \<open>The buttons of a row, as the column renders them.\<close>

datatype row_action = Block_row | Remove_row | Unblock_row

definition package_actions :: "WorkspaceRole option \<Rightarrow> string \<Rightarrow> row_action list" where
  "package_actions role st =
     (if \<not> hasMinimumRole role member then []
      else if st = ''blocked'' then [Unblock_row]
      else Block_row # (if hasMinimumRole role admin then [Remove_row] else []))"

text \<open>The handlers of the page, each where the page offers it.\<close>

inductive packages_change :: "string list \<Rightarrow> WorkspaceRole option \<Rightarrow> packages_view \<Rightarrow> packages_view \<Rightarrow> bool"
  for enabled role where
  ecosystem: "v \<in> insert ''all'' (set enabled) \<Longrightarrow> packages_change enabled role s (s\<lparr>pv_ecosystem := pick (Some v)\<rparr>)"
| status: "v \<in> {''all'', ''active'', ''suggested'', ''blocked''} \<Longrightarrow>
    packages_change enabled role s (s\<lparr>pv_status := pick (Some v)\<rparr>)"
| source: "v \<in> {''all'', ''manual'', ''discovered'', ''imported''} \<Longrightarrow>
    packages_change enabled role s (s\<lparr>pv_source := pick (Some v)\<rparr>)"
| typed: "packages_change enabled role s (set_search v s)"
| debounced: "packages_change enabled role s (debounce s)"
| paged: "packages_change enabled role s (set_pagination i n s)"
| sorted: "packages_change enabled role s (set_sorting upd s)"
| cleared: "packages_change enabled role s (clear_packages s)"
| chip: "(l, v, remove) \<in> set (packages_chips s) \<Longrightarrow> packages_change enabled role s (remove s)"
| dialog: "hasMinimumRole role member \<Longrightarrow> packages_change enabled role s (s\<lparr>pv_dialogOpen := b\<rparr>)"
| new_name: "packages_change enabled role s (change_new_name v s)"
| new_ecosystem: "packages_change enabled role s (change_new_ecosystem v s)"
| created: "packages_change enabled role s (snd (create_package answer s))"
| remove_row: "Remove_row \<in> set (package_actions role st) \<Longrightarrow> packages_change enabled role s (handleRemove i name s)"
| removed: "packages_change enabled role s (snd (confirmRemove s))"
| remove_cancelled: "packages_change enabled role s (s\<lparr>removeTarget := None\<rparr>)"
| block_row: "Block_row \<in> set (package_actions role st) \<Longrightarrow> packages_change enabled role s (handleBlock i name s)"
| reason: "packages_change enabled role s (s\<lparr>blockReason := v\<rparr>)"
| blocked: "packages_change enabled role s (snd (confirmBlock s))"
| block_cancelled: "packages_change enabled role s (cancel_block s)"
| unblock_row: "Unblock_row \<in> set (package_actions role st) \<Longrightarrow> packages_change enabled role s (handleUnblock i name s)"
| unblocked: "packages_change enabled role s (snd (confirmUnblock s))"
| unblock_cancelled: "packages_change enabled role s (s\<lparr>unblockTarget := None\<rparr>)"

definition packages_page :: "string list \<Rightarrow> WorkspaceRole option \<Rightarrow> packages_view \<Rightarrow> bool" where
  "packages_page enabled role =
     list_run (mount_packages enabled) packages_watch packages_filters PACKAGES_FILTER_DEFAULTS
       (packages_change enabled role)"

subsection \<open>The address bar describes the page\<close>

definition packages_kept :: "packages_view \<Rightarrow> string \<times> string \<times> string" where
  "packages_kept s = (pv_ecosystem s, pv_status s, pv_source s)"

definition packages_ok :: "string list \<Rightarrow> packages_view \<Rightarrow> bool" where
  "packages_ok enabled s \<longleftrightarrow>
     (pv_ecosystem s = [] \<or> pv_ecosystem s \<in> set enabled) \<and> (pv_status s = [] \<or> pv_status s \<in> set VALID_STATUSES) \<and>
     (pv_source s = [] \<or> pv_source s \<in> set VALID_SOURCES)"

lemmas list_ops = set_search_def debounce_def set_pagination_def set_sorting_def first_page_def

lemmas packages_ops = clear_packages_def change_new_name_def change_new_ecosystem_def revalidate_create_def
  handleRemove_def confirmRemove_def handleBlock_def confirmBlock_def cancel_block_def
  handleUnblock_def confirmUnblock_def list_ops

lemma chip_for_set [simp]: "(l, v, f) \<in> set (chip_for x lbl shown remove) \<longleftrightarrow> x \<noteq> [] \<and> l = lbl \<and> v = shown \<and> f = remove"
  by (auto simp: chip_for_def)

lemma pick_simps [simp]: "pick None = []" "pick (Some v) = (if v = ''all'' then [] else v)"
  by (simp_all add: pick_def)

lemma packages_ok_kept: "packages_kept s' = packages_kept s \<Longrightarrow> packages_ok enabled s' = packages_ok enabled s"
  by (simp add: packages_ok_def packages_kept_def)

lemma create_package_frame [simp]:
  "ls_query (snd (create_package answer s)) = ls_query s" "packages_kept (snd (create_package answer s)) = packages_kept s"
  "removeTarget (snd (create_package answer s)) = removeTarget s" "blockTarget (snd (create_package answer s)) = blockTarget s"
  "unblockTarget (snd (create_package answer s)) = unblockTarget s"
  by (auto simp: create_package_def packages_kept_def Let_def split_beta split: sum.split)

lemma packages_change_query:
  "packages_change enabled role s s' \<Longrightarrow> ls_query s' = ls_query s \<or> (\<exists>upd. ls_query s' = sort_params upd (ls_query s))"
  by (induction rule: packages_change.induct)
    (auto simp: packages_ops packages_chips_def search_chip_def create_package_frame split: option.split)

lemma packages_change_ok: "packages_change enabled role s s' \<Longrightarrow> packages_ok enabled s \<Longrightarrow> packages_ok enabled s'"
proof (induction rule: packages_change.induct)
  case (created s answer)
  then show ?case using packages_ok_kept [of "snd (create_package answer s)" s] by simp
next
  case (ecosystem v s)
  then show ?case by (auto simp: packages_ok_def)
next
  case (status v s)
  then show ?case by (auto simp: packages_ok_def VALID_STATUSES_def)
next
  case (source v s)
  then show ?case by (auto simp: packages_ok_def VALID_SOURCES_def)
next
  case (chip l v remove s)
  then show ?case by (auto simp: packages_ok_def packages_chips_def search_chip_def set_search_def)
qed (simp_all add: packages_ok_def packages_ops split: option.split)

interpretation packages: url_table "mount_packages enabled" packages_watch packages_filters PACKAGES_FILTER_DEFAULTS
  "packages_change enabled role" packages_kept "packages_ok enabled" for enabled role
proof (unfold_locales, goal_cases)
  case (4 s s')
  then show ?case by (rule packages_change_ok)
next
  case (5 s s')
  then show ?case by (rule packages_change_query)
next
  case (11 s)
  then show ?case
    by (simp add: packages_kept_def mount_packages_def packages_ok_def packages_filters_def PACKAGES_FILTER_DEFAULTS_def
        from_url_written)
qed (auto simp: mount_packages_def packages_ok_def packages_kept_def packages_filters_def from_url_sort from_url_ok)

text \<open>Reloading the packages page, at any moment of its use, restores the three filters and the sorting,
  provided the configuration is loaded with the same ecosystems when the page mounts.\<close>

theorem packages_reload:
  assumes "packages_page enabled role s"
  shows "pv_ecosystem (mount_packages enabled (ls_query s)) = pv_ecosystem s \<and>
    pv_status (mount_packages enabled (ls_query s)) = pv_status s \<and>
    pv_source (mount_packages enabled (ls_query s)) = pv_source s \<and>
    sorting (mount_packages enabled (ls_query s)) = sorting s"
  using packages.reload_keeps [OF assms [unfolded packages_page_def]]
  by (simp add: packages_kept_def sorting_def mount_packages_def)

lemma packages_reload_witness:
  "pv_ecosystem (mount_packages [''npm''] (ls_query (run_effects packages_watch packages_filters PACKAGES_FILTER_DEFAULTS
     (mount_packages [''npm''] []) ((mount_packages [''npm''] [])\<lparr>pv_ecosystem := pick (Some ''npm'')\<rparr>)))) = ''npm''"
proof -
  let ?s = "mount_packages [''npm''] []"
  let ?t = "run_effects packages_watch packages_filters PACKAGES_FILTER_DEFAULTS ?s (?s\<lparr>pv_ecosystem := pick (Some ''npm'')\<rparr>)"
  have "packages_page [''npm''] None ?t"
    unfolding packages_page_def by (intro list_run.changed list_run.mounted packages_change.ecosystem) simp
  from packages_reload [OF this] show ?thesis
    by (simp add: run_effects_def first_page_def Let_def)
qed

text \<open>Until the configuration is loaded the list of ecosystems is empty, so a page that mounts earlier
  drops the ecosystem of the address bar for good: nothing reads it a second time.\<close>

lemma early_mount_drops_ecosystem: "pv_ecosystem (mount_packages [] ps) = []"
  by (simp add: mount_packages_def from_url_def)

subsection \<open>What a role can do\<close>

lemma packages_dialogs_guarded:
  assumes "packages_page enabled role s"
  shows "(removeTarget s \<noteq> None \<longrightarrow> hasMinimumRole role admin) \<and>
    (blockTarget s \<noteq> None \<or> unblockTarget s \<noteq> None \<longrightarrow> hasMinimumRole role member)"
  using assms unfolding packages_page_def
proof (induction rule: list_run.induct)
  case (mounted ps)
  then show ?case by (simp add: mount_packages_def)
next
  case (changed s s')
  have frame: "removeTarget (run_effects w f d a b) = removeTarget b" "blockTarget (run_effects w f d a b) = blockTarget b"
    "unblockTarget (run_effects w f d a b) = unblockTarget b" for w :: "packages_view \<Rightarrow> string list" and f d a b
    by (simp_all add: run_effects_def first_page_def Let_def)
  from changed(2,3) show ?case unfolding frame
    by (induction rule: packages_change.induct)
      (auto simp: packages_ops packages_chips_def search_chip_def package_actions_def split: option.splits if_splits)
qed

text \<open>Whatever a user does on the packages page, it asks the backend to remove a package only for an admin
  or an owner, and to block or unblock one only for someone who may write; and the request
  names the package whose dialog is open.\<close>

theorem package_rows_guarded:
  assumes "packages_page enabled role s"
  shows "(fst (confirmRemove s) = Some c \<longrightarrow>
      hasMinimumRole role admin \<and> (\<exists>i name. removeTarget s = Some (i, name) \<and> c = deletePackage i)) \<and>
    (fst (confirmBlock s) = Some c \<longrightarrow>
      hasMinimumRole role member \<and> (\<exists>i name. blockTarget s = Some (i, name) \<and> c = blockPackage i (or_undefined (blockReason s)))) \<and>
    (fst (confirmUnblock s) = Some c \<longrightarrow>
      hasMinimumRole role member \<and> (\<exists>i name. unblockTarget s = Some (i, name) \<and> c = unblockPackage i))"
  using packages_dialogs_guarded [OF assms]
  by (auto simp: confirmRemove_def confirmBlock_def confirmUnblock_def useDeletePackage_def useBlockPackage_def
      useUnblockPackage_def split: option.splits)

lemma package_rows_guarded_witness: "hasMinimumRole (Some owner) admin"
proof -
  let ?s = "mount_packages [] []"
  let ?t = "run_effects packages_watch packages_filters PACKAGES_FILTER_DEFAULTS ?s (handleRemove ''p1'' ''left-pad'' ?s)"
  have "Remove_row \<in> set (package_actions (Some owner) ''active'')" by code_simp
  then have "packages_page [] (Some owner) ?t"
    unfolding packages_page_def by (intro list_run.changed list_run.mounted packages_change.remove_row)
  moreover have "fst (confirmRemove ?t) = Some (deletePackage ''p1'')"
    by (simp add: run_effects_def packages_watch_def packages_filters_def handleRemove_def confirmRemove_def
        useDeletePackage_def Let_def)
  ultimately show ?thesis using package_rows_guarded by blast
qed

section \<open>Releases\<close>

definition VALID_RELEASE_STATUSES :: "string list" where
  "VALID_RELEASE_STATUSES = [''in_progress'', ''completed'', ''error'']"

definition CLASSIFICATIONS :: "string list" where
  "CLASSIFICATIONS = [''malicious'', ''suspicious'', ''benign'', ''baseline'']"

record releases_view = list_state +
  rv_ecosystem :: string
  rv_status :: string
  rv_classification :: string

definition mount_releases :: "string list \<Rightarrow> params \<Rightarrow> releases_view" where
  "mount_releases enabled ps =
     \<lparr>ls_search = [], ls_debounced = [], ls_pageIndex = 0, ls_pageSize = 20, ls_query = ps,
      rv_ecosystem = from_url enabled ps ''ecosystem'', rv_status = from_url VALID_RELEASE_STATUSES ps ''status'',
      rv_classification = from_url CLASSIFICATIONS ps ''classification''\<rparr>"

definition releases_filters :: "releases_view \<Rightarrow> params" where
  "releases_filters s =
     [(''ecosystem'', rv_ecosystem s), (''status'', rv_status s), (''classification'', rv_classification s)]"

definition releases_watch :: "releases_view \<Rightarrow> string list" where
  "releases_watch s = [ls_debounced s, rv_ecosystem s, rv_status s, rv_classification s]"

definition releases_request :: "releases_view \<Rightarrow> RecentReleaseParams" where
  "releases_request s =
     \<lparr>rr_page = page_param s, rr_limit = limit_param s, rr_sortBy = sort_by s, rr_sortDir = sort_dir s,
      rr_search = or_undefined (ls_debounced s), rr_ecosystem = or_undefined (rv_ecosystem s),
      rr_status = or_undefined (rv_status s), rr_classification = or_undefined (rv_classification s),
      rr_latestPerPackage = False\<rparr>"

definition releases_filtered :: "releases_view \<Rightarrow> bool" where
  "releases_filtered s \<longleftrightarrow> ls_search s \<noteq> [] \<or> rv_ecosystem s \<noteq> [] \<or> rv_status s \<noteq> [] \<or> rv_classification s \<noteq> []"

definition clear_releases :: "releases_view \<Rightarrow> releases_view" where
  "clear_releases s =
     set_sorting (Value []) (s\<lparr>ls_search := [], rv_ecosystem := [], rv_status := [], rv_classification := []\<rparr>)"

definition releases_chips :: "releases_view \<Rightarrow> releases_view chip list" where
  "releases_chips s =
     chip_for (rv_ecosystem s) ''Ecosystem'' (formatEcosystem (rv_ecosystem s)) (\<lambda>s. s\<lparr>rv_ecosystem := []\<rparr>) @
     chip_for (rv_status s) ''Analysis Status''
       (if rv_status s = ''in_progress'' then ''In Progress'' else capitalized (rv_status s)) (\<lambda>s. s\<lparr>rv_status := []\<rparr>) @
     chip_for (rv_classification s) ''Classification'' (capitalized (rv_classification s))
       (\<lambda>s. s\<lparr>rv_classification := []\<rparr>) @
     search_chip s"

inductive releases_change :: "string list \<Rightarrow> releases_view \<Rightarrow> releases_view \<Rightarrow> bool" for enabled where
  ecosystem: "v \<in> insert ''all'' (set enabled) \<Longrightarrow> releases_change enabled s (s\<lparr>rv_ecosystem := pick (Some v)\<rparr>)"
| status: "v \<in> insert ''all'' (set VALID_RELEASE_STATUSES) \<Longrightarrow> releases_change enabled s (s\<lparr>rv_status := pick (Some v)\<rparr>)"
| classification: "v \<in> insert ''all'' (set CLASSIFICATIONS) \<Longrightarrow>
    releases_change enabled s (s\<lparr>rv_classification := pick (Some v)\<rparr>)"
| typed: "releases_change enabled s (set_search v s)"
| debounced: "releases_change enabled s (debounce s)"
| paged: "releases_change enabled s (set_pagination i n s)"
| sorted: "releases_change enabled s (set_sorting upd s)"
| cleared: "releases_change enabled s (clear_releases s)"
| chip: "(l, v, remove) \<in> set (releases_chips s) \<Longrightarrow> releases_change enabled s (remove s)"

definition releases_page :: "string list \<Rightarrow> releases_view \<Rightarrow> bool" where
  "releases_page enabled =
     list_run (mount_releases enabled) releases_watch releases_filters no_defaults (releases_change enabled)"

definition releases_kept :: "releases_view \<Rightarrow> string \<times> string \<times> string" where
  "releases_kept s = (rv_ecosystem s, rv_status s, rv_classification s)"

definition releases_ok :: "string list \<Rightarrow> releases_view \<Rightarrow> bool" where
  "releases_ok enabled s \<longleftrightarrow>
     (rv_ecosystem s = [] \<or> rv_ecosystem s \<in> set enabled) \<and>
     (rv_status s = [] \<or> rv_status s \<in> set VALID_RELEASE_STATUSES) \<and>
     (rv_classification s = [] \<or> rv_classification s \<in> set CLASSIFICATIONS)"

lemma releases_change_ok: "releases_change enabled s s' \<Longrightarrow> releases_ok enabled s \<Longrightarrow> releases_ok enabled s'"
  by (induction rule: releases_change.induct)
    (auto simp: releases_ok_def clear_releases_def list_ops releases_chips_def search_chip_def)

lemma releases_change_query:
  "releases_change enabled s s' \<Longrightarrow> ls_query s' = ls_query s \<or> (\<exists>upd. ls_query s' = sort_params upd (ls_query s))"
  by (induction rule: releases_change.induct) (auto simp: clear_releases_def list_ops releases_chips_def search_chip_def)

interpretation releases: url_table "mount_releases enabled" releases_watch releases_filters no_defaults
  "releases_change enabled" releases_kept "releases_ok enabled" for enabled
proof (unfold_locales, goal_cases)
  case (4 s s')
  then show ?case by (rule releases_change_ok)
next
  case (5 s s')
  then show ?case by (rule releases_change_query)
next
  case (11 s)
  then show ?case
    by (simp add: releases_kept_def mount_releases_def releases_ok_def releases_filters_def no_defaults_def from_url_written)
qed (auto simp: mount_releases_def releases_ok_def releases_kept_def releases_filters_def from_url_sort from_url_ok)

section \<open>Alerts\<close>

definition ALERT_SEVERITIES :: "string list" where
  "ALERT_SEVERITIES = [''low'', ''medium'', ''high'', ''critical'']"

definition ALERT_STATUSES :: "string list" where
  "ALERT_STATUSES = [''new'', ''acknowledged'', ''resolved'']"

record alerts_view = list_state +
  av_severity :: string
  av_status :: string

definition mount_alerts :: "params \<Rightarrow> alerts_view" where
  "mount_alerts ps =
     \<lparr>ls_search = [], ls_debounced = [], ls_pageIndex = 0, ls_pageSize = 20, ls_query = ps,
      av_severity = from_url ALERT_SEVERITIES ps ''severity'', av_status = from_url ALERT_STATUSES ps ''status''\<rparr>"

definition alerts_filters :: "alerts_view \<Rightarrow> params" where
  "alerts_filters s = [(''severity'', av_severity s), (''status'', av_status s)]"

definition alerts_watch :: "alerts_view \<Rightarrow> string list" where
  "alerts_watch s = [av_severity s, av_status s, ls_debounced s]"

definition alerts_request :: "alerts_view \<Rightarrow> AlertListParams" where
  "alerts_request s =
     \<lparr>ap_severity = or_undefined (av_severity s), ap_status = or_undefined (av_status s),
      ap_search = or_undefined (ls_debounced s), ap_page = page_param s, ap_limit = limit_param s,
      ap_sortBy = sort_by s, ap_sortDir = sort_dir s\<rparr>"

definition alerts_filtered :: "alerts_view \<Rightarrow> bool" where
  "alerts_filtered s \<longleftrightarrow> ls_search s \<noteq> [] \<or> av_severity s \<noteq> [] \<or> av_status s \<noteq> []"

definition clear_alerts :: "alerts_view \<Rightarrow> alerts_view" where
  "clear_alerts s = set_sorting (Value []) (s\<lparr>ls_search := [], av_severity := [], av_status := []\<rparr>)"

definition alerts_chips :: "alerts_view \<Rightarrow> alerts_view chip list" where
  "alerts_chips s =
     chip_for (av_severity s) ''Severity'' (capitalized (av_severity s)) (\<lambda>s. s\<lparr>av_severity := []\<rparr>) @
     chip_for (av_status s) ''Status'' (capitalized (av_status s)) (\<lambda>s. s\<lparr>av_status := []\<rparr>) @
     search_chip s"

text \<open>The status buttons of a row: the statuses they set.\<close>

definition alert_buttons :: "WorkspaceRole option \<Rightarrow> string \<Rightarrow> string list" where
  "alert_buttons role st =
     (if hasMinimumRole role member \<and> st = ''new'' then [''acknowledged''] else []) @
     (if hasMinimumRole role member \<and> st \<noteq> ''resolved'' then [''resolved''] else [])"

inductive alerts_change :: "alerts_view \<Rightarrow> alerts_view \<Rightarrow> bool" where
  severity: "v \<in> insert ''all'' (set ALERT_SEVERITIES) \<Longrightarrow> alerts_change s (s\<lparr>av_severity := pick (Some v)\<rparr>)"
| status: "v \<in> insert ''all'' (set ALERT_STATUSES) \<Longrightarrow> alerts_change s (s\<lparr>av_status := pick (Some v)\<rparr>)"
| typed: "alerts_change s (set_search v s)"
| debounced: "alerts_change s (debounce s)"
| paged: "alerts_change s (set_pagination i n s)"
| sorted: "alerts_change s (set_sorting upd s)"
| cleared: "alerts_change s (clear_alerts s)"
| chip: "(l, v, remove) \<in> set (alerts_chips s) \<Longrightarrow> alerts_change s (remove s)"

definition alerts_page :: "alerts_view \<Rightarrow> bool" where
  "alerts_page = list_run mount_alerts alerts_watch alerts_filters no_defaults alerts_change"

definition alerts_kept :: "alerts_view \<Rightarrow> string \<times> string" where
  "alerts_kept s = (av_severity s, av_status s)"

definition alerts_ok :: "alerts_view \<Rightarrow> bool" where
  "alerts_ok s \<longleftrightarrow>
     (av_severity s = [] \<or> av_severity s \<in> set ALERT_SEVERITIES) \<and> (av_status s = [] \<or> av_status s \<in> set ALERT_STATUSES)"

lemma alerts_change_ok: "alerts_change s s' \<Longrightarrow> alerts_ok s \<Longrightarrow> alerts_ok s'"
  by (induction rule: alerts_change.induct)
    (auto simp: alerts_ok_def clear_alerts_def list_ops alerts_chips_def search_chip_def)

lemma alerts_change_query:
  "alerts_change s s' \<Longrightarrow> ls_query s' = ls_query s \<or> (\<exists>upd. ls_query s' = sort_params upd (ls_query s))"
  by (induction rule: alerts_change.induct) (auto simp: clear_alerts_def list_ops alerts_chips_def search_chip_def)

interpretation alerts: url_table mount_alerts alerts_watch alerts_filters no_defaults alerts_change alerts_kept alerts_ok
proof (unfold_locales, goal_cases)
  case (4 s s')
  then show ?case by (rule alerts_change_ok)
next
  case (5 s s')
  then show ?case by (rule alerts_change_query)
next
  case (11 s)
  then show ?case
    by (simp add: alerts_kept_def mount_alerts_def alerts_ok_def alerts_filters_def no_defaults_def from_url_written)
qed (auto simp: mount_alerts_def alerts_ok_def alerts_kept_def alerts_filters_def from_url_sort from_url_ok)

section \<open>Stale packages\<close>

definition THRESHOLD_OPTIONS :: "int list" where
  "THRESHOLD_OPTIONS = [1, 3, 6, 12, 18, 24]"

definition DEFAULT_MONTHS :: int where
  "DEFAULT_MONTHS = 6"

definition STALE_FILTER_DEFAULTS :: "string \<Rightarrow> string option" where
  "STALE_FILTER_DEFAULTS = map_of [(''months'', show_int DEFAULT_MONTHS)]"

record stale_view = list_state +
  sv_months :: int
  sv_ecosystem :: string

definition months_from :: "params \<Rightarrow> int" where
  "months_from ps =
     (case parseInt10 (case usp_get ps ''months'' of None \<Rightarrow> [] | Some v \<Rightarrow> v) of
        None \<Rightarrow> DEFAULT_MONTHS
      | Some m \<Rightarrow> if m \<in> set THRESHOLD_OPTIONS then m else DEFAULT_MONTHS)"

definition mount_stale :: "string list \<Rightarrow> params \<Rightarrow> stale_view" where
  "mount_stale enabled ps =
     (let initialSearch = (case usp_get ps ''search'' of None \<Rightarrow> [] | Some v \<Rightarrow> v) in
      \<lparr>ls_search = initialSearch, ls_debounced = initialSearch, ls_pageIndex = 0, ls_pageSize = 20, ls_query = ps,
       sv_months = months_from ps, sv_ecosystem = from_url enabled ps ''ecosystem''\<rparr>)"

definition stale_filters :: "stale_view \<Rightarrow> params" where
  "stale_filters s =
     [(''ecosystem'', sv_ecosystem s), (''months'', show_int (sv_months s)), (''search'', ls_search s)]"

definition stale_watch :: "stale_view \<Rightarrow> string \<times> string \<times> int" where
  "stale_watch s = (sv_ecosystem s, ls_debounced s, sv_months s)"

definition stale_request :: "stale_view \<Rightarrow> StaleParams" where
  "stale_request s =
     \<lparr>sp_months = Some (sv_months s), sp_ecosystem = or_undefined (sv_ecosystem s),
      sp_search = or_undefined (ls_debounced s), sp_page = page_param s, sp_limit = limit_param s,
      sp_sortBy = sort_by s, sp_sortDir = sort_dir s\<rparr>"

definition stale_filtered :: "stale_view \<Rightarrow> bool" where
  "stale_filtered s \<longleftrightarrow> ls_search s \<noteq> [] \<or> sv_ecosystem s \<noteq> [] \<or> sv_months s \<noteq> DEFAULT_MONTHS"

definition clear_stale :: "stale_view \<Rightarrow> stale_view" where
  "clear_stale s = set_sorting (Value []) (s\<lparr>ls_search := [], sv_ecosystem := [], sv_months := DEFAULT_MONTHS\<rparr>)"

definition stale_chips :: "stale_view \<Rightarrow> stale_view chip list" where
  "stale_chips s =
     chip_for (sv_ecosystem s) ''Ecosystem'' (formatEcosystem (sv_ecosystem s)) (\<lambda>s. s\<lparr>sv_ecosystem := []\<rparr>) @
     (if sv_months s \<noteq> DEFAULT_MONTHS
      then [(''Threshold'', show_int (sv_months s) @ '' month'' @ (if sv_months s \<noteq> 1 then ''s'' else []),
             (\<lambda>s. s\<lparr>sv_months := DEFAULT_MONTHS\<rparr>))] else []) @
     search_chip s"

inductive stale_change :: "string list \<Rightarrow> stale_view \<Rightarrow> stale_view \<Rightarrow> bool" for enabled where
  ecosystem: "v \<in> insert ''all'' (set enabled) \<Longrightarrow> stale_change enabled s (s\<lparr>sv_ecosystem := pick (Some v)\<rparr>)"
| months: "m \<in> set THRESHOLD_OPTIONS \<Longrightarrow> stale_change enabled s (s\<lparr>sv_months := m\<rparr>)"
| typed: "stale_change enabled s (set_search v s)"
| debounced: "stale_change enabled s (debounce s)"
| paged: "stale_change enabled s (set_pagination i n s)"
| sorted: "stale_change enabled s (set_sorting upd s)"
| cleared: "stale_change enabled s (clear_stale s)"
| chip: "(l, v, remove) \<in> set (stale_chips s) \<Longrightarrow> stale_change enabled s (remove s)"

definition stale_page :: "string list \<Rightarrow> stale_view \<Rightarrow> bool" where
  "stale_page enabled =
     list_run (mount_stale enabled) stale_watch stale_filters STALE_FILTER_DEFAULTS (stale_change enabled)"

definition stale_kept :: "stale_view \<Rightarrow> int \<times> string \<times> string" where
  "stale_kept s = (sv_months s, sv_ecosystem s, ls_search s)"

definition stale_ok :: "string list \<Rightarrow> stale_view \<Rightarrow> bool" where
  "stale_ok enabled s \<longleftrightarrow>
     (sv_ecosystem s = [] \<or> sv_ecosystem s \<in> set enabled) \<and> sv_months s \<in> set THRESHOLD_OPTIONS"

lemma default_months: "DEFAULT_MONTHS \<in> set THRESHOLD_OPTIONS"
  by (simp add: DEFAULT_MONTHS_def THRESHOLD_OPTIONS_def)

lemma months_ok: "months_from ps \<in> set THRESHOLD_OPTIONS"
  using default_months by (auto simp: months_from_def split: option.split)

lemma months_sort: "months_from (sort_params upd ps) = months_from ps"
  by (simp add: months_from_def sort_params_other)

lemma show_nat_no_minus: "show_nat k \<noteq> CHR ''-'' # t"
proof
  assume "show_nat k = CHR ''-'' # t"
  then have "is_digit (CHR ''-'')" using show_nat_digits [of "CHR ''-''" k] by simp
  then show False by (simp add: is_digit_def)
qed

lemma show_int_inj:
  assumes "show_int m = show_int n"
  shows "m = n"
proof (cases "m < 0"; cases "n < 0")
  assume "m < 0" "n < 0"
  then show ?thesis using assms show_nat_inj [of "nat (- m)" "nat (- n)"] by (simp add: show_int_def)
next
  assume "\<not> m < 0" "\<not> n < 0"
  then show ?thesis using assms show_nat_inj [of "nat m" "nat n"] by (simp add: show_int_def)
next
  assume "m < 0" "\<not> n < 0"
  then have "show_nat (nat n) = CHR ''-'' # show_nat (nat (- m))" using assms by (simp add: show_int_def)
  then have False using show_nat_no_minus by blast
  then show ?thesis ..
next
  assume "\<not> m < 0" "n < 0"
  then have False using assms show_nat_no_minus [of "nat m"] by (simp add: show_int_def)
  then show ?thesis ..
qed

lemma show_int_inj_options:
  "m \<in> set THRESHOLD_OPTIONS \<Longrightarrow> parseInt10 (show_int m) = Some m \<and> (show_int m = show_int DEFAULT_MONTHS \<longleftrightarrow> m = DEFAULT_MONTHS)"
proof -
  assume "m \<in> set THRESHOLD_OPTIONS"
  then have "0 \<le> m" by (auto simp: THRESHOLD_OPTIONS_def)
  then have parse: "parseInt10 (show_int m) = Some m" using parseInt10_show_nat [of "nat m"] by (simp add: show_int_def)
  moreover have "parseInt10 (show_int DEFAULT_MONTHS) = Some DEFAULT_MONTHS"
    using parseInt10_show_nat [of 6] by (simp add: show_int_def DEFAULT_MONTHS_def)
  ultimately show ?thesis by (metis option.inject)
qed

lemma stale_change_ok: "stale_change enabled s s' \<Longrightarrow> stale_ok enabled s \<Longrightarrow> stale_ok enabled s'"
  by (induction rule: stale_change.induct)
    (auto simp: stale_ok_def default_months clear_stale_def list_ops stale_chips_def search_chip_def split: if_splits)

lemma stale_change_query:
  "stale_change enabled s s' \<Longrightarrow> ls_query s' = ls_query s \<or> (\<exists>upd. ls_query s' = sort_params upd (ls_query s))"
  by (induction rule: stale_change.induct)
    (auto simp: clear_stale_def list_ops stale_chips_def search_chip_def split: if_splits)

lemma stale_filters_map:
  "map_of (stale_filters s) ''ecosystem'' = Some (sv_ecosystem s)" "map_of (stale_filters s) ''search'' = Some (ls_search s)"
  by (simp_all add: stale_filters_def)

lemma stale_written:
  assumes "stale_ok enabled s"
  shows "stale_kept (mount_stale enabled (filter_params (stale_filters s) STALE_FILTER_DEFAULTS)) = stale_kept s"
proof -
  have d: "distinct (map fst (stale_filters s))" by (simp add: stale_filters_def)
  have m: "sv_months s \<in> set THRESHOLD_OPTIONS" using assms by (simp add: stale_ok_def)
  have "parseInt10 [] = None" by (simp add: parseInt10_def Let_def)
  moreover have "usp_get (filter_params (stale_filters s) STALE_FILTER_DEFAULTS) ''months'' =
      (if sv_months s = DEFAULT_MONTHS then None else Some (show_int (sv_months s)))"
    unfolding usp_get_filter_params [OF d] using show_int_inj_options [OF m]
    by (simp add: stale_filters_def STALE_FILTER_DEFAULTS_def)
  ultimately have "months_from (filter_params (stale_filters s) STALE_FILTER_DEFAULTS) = sv_months s"
    using show_int_inj_options [OF m] m by (simp add: months_from_def)
  then show ?thesis
    using assms
    by (simp add: stale_kept_def mount_stale_def stale_ok_def usp_get_filter_params [OF d] from_url_written [OF d] Let_def
        stale_filters_map STALE_FILTER_DEFAULTS_def)
qed

interpretation stale: url_table "mount_stale enabled" stale_watch stale_filters STALE_FILTER_DEFAULTS
  "stale_change enabled" stale_kept "stale_ok enabled" for enabled
proof (unfold_locales, goal_cases)
  case (4 s s')
  then show ?case by (rule stale_change_ok)
next
  case (5 s s')
  then show ?case by (rule stale_change_query)
next
  case (6 s s')
  then show ?case by (auto simp: stale_kept_def stale_filters_def dest: show_int_inj)
next
  case (11 s)
  then show ?case by (rule stale_written)
qed (auto simp: mount_stale_def stale_ok_def stale_kept_def stale_filters_def from_url_sort from_url_ok months_ok months_sort
    sort_params_other Let_def)

section \<open>Suggested packages\<close>

datatype bulk_choice = Bulk_all | Bulk_ecosystem string

record suggestions_view = list_state +
  gv_bulkAction :: "bulk_choice option"
  gv_ecosystem :: string

definition mount_suggestions :: "string list \<Rightarrow> params \<Rightarrow> suggestions_view" where
  "mount_suggestions enabled ps =
     \<lparr>ls_search = [], ls_debounced = [], ls_pageIndex = 0, ls_pageSize = 20, ls_query = ps, gv_bulkAction = None,
      gv_ecosystem = from_url enabled ps ''ecosystem''\<rparr>"

definition suggestions_filters :: "suggestions_view \<Rightarrow> params" where
  "suggestions_filters s = [(''ecosystem'', gv_ecosystem s)]"

definition suggestions_watch :: "suggestions_view \<Rightarrow> string list" where
  "suggestions_watch s = [ls_debounced s, gv_ecosystem s]"

definition suggestions_request :: "suggestions_view \<Rightarrow> SuggestionParams" where
  "suggestions_request s =
     \<lparr>sg_page = page_param s, sg_limit = limit_param s, sg_search = or_undefined (ls_debounced s),
      sg_ecosystem = or_undefined (gv_ecosystem s), sg_sortBy = sort_by s, sg_sortDir = sort_dir s\<rparr>"

definition suggestions_filtered :: "suggestions_view \<Rightarrow> bool" where
  "suggestions_filtered s \<longleftrightarrow> ls_search s \<noteq> [] \<or> gv_ecosystem s \<noteq> []"

text \<open>Unlike the other tables, the sorting stays.\<close>

definition clear_suggestions :: "suggestions_view \<Rightarrow> suggestions_view" where
  "clear_suggestions s = s\<lparr>ls_search := [], gv_ecosystem := []\<rparr>"

definition confirmBulkApprove :: "suggestions_view \<Rightarrow> api_call option \<times> suggestions_view" where
  "confirmBulkApprove s =
     (case gv_bulkAction s of
        None \<Rightarrow> (None, s)
      | Some Bulk_all \<Rightarrow> (Some (m_call useBulkApprovePackages ApproveAll), s\<lparr>gv_bulkAction := None\<rparr>)
      | Some (Bulk_ecosystem e) \<Rightarrow>
          (Some (m_call useBulkApprovePackages (EcosystemOnly e)), s\<lparr>gv_bulkAction := None\<rparr>))"

definition bulkActionLabel :: "suggestions_view \<Rightarrow> string" where
  "bulkActionLabel s =
     (case gv_bulkAction s of
        None \<Rightarrow> []
      | Some Bulk_all \<Rightarrow> ''all pending suggestions''
      | Some (Bulk_ecosystem e) \<Rightarrow> if e = [] then [] else ''all '' @ formatEcosystem e @ '' suggestions'')"

inductive suggestions_change :: "string list \<Rightarrow> WorkspaceRole option \<Rightarrow> suggestions_view \<Rightarrow> suggestions_view \<Rightarrow> bool"
  for enabled role where
  ecosystem: "v \<in> insert ''all'' (set enabled) \<Longrightarrow>
    suggestions_change enabled role s (s\<lparr>gv_ecosystem := pick (Some v)\<rparr>)"
| typed: "suggestions_change enabled role s (set_search v s)"
| debounced: "suggestions_change enabled role s (debounce s)"
| paged: "suggestions_change enabled role s (set_pagination i n s)"
| sorted: "suggestions_change enabled role s (set_sorting upd s)"
| cleared: "suggestions_change enabled role s (clear_suggestions s)"
| bulk: "hasMinimumRole role member \<Longrightarrow> b \<in> insert Bulk_all (Bulk_ecosystem ` set enabled) \<Longrightarrow>
    suggestions_change enabled role s (s\<lparr>gv_bulkAction := Some b\<rparr>)"
| bulk_cancelled: "suggestions_change enabled role s (s\<lparr>gv_bulkAction := None\<rparr>)"
| bulk_confirmed: "suggestions_change enabled role s (snd (confirmBulkApprove s))"

definition suggestions_page :: "string list \<Rightarrow> WorkspaceRole option \<Rightarrow> suggestions_view \<Rightarrow> bool" where
  "suggestions_page enabled role =
     list_run (mount_suggestions enabled) suggestions_watch suggestions_filters no_defaults (suggestions_change enabled role)"

definition suggestions_ok :: "string list \<Rightarrow> suggestions_view \<Rightarrow> bool" where
  "suggestions_ok enabled s \<longleftrightarrow> gv_ecosystem s = [] \<or> gv_ecosystem s \<in> set enabled"

lemma suggestions_change_ok: "suggestions_change enabled role s s' \<Longrightarrow> suggestions_ok enabled s \<Longrightarrow> suggestions_ok enabled s'"
  by (induction rule: suggestions_change.induct)
    (auto simp: suggestions_ok_def clear_suggestions_def confirmBulkApprove_def list_ops split: option.split bulk_choice.split)

lemma suggestions_change_query:
  "suggestions_change enabled role s s' \<Longrightarrow>
     ls_query s' = ls_query s \<or> (\<exists>upd. ls_query s' = sort_params upd (ls_query s))"
  by (induction rule: suggestions_change.induct)
    (auto simp: clear_suggestions_def confirmBulkApprove_def list_ops split: option.split bulk_choice.split)

interpretation suggestions: url_table "mount_suggestions enabled" suggestions_watch suggestions_filters no_defaults
  "suggestions_change enabled role" gv_ecosystem "suggestions_ok enabled" for enabled role
proof (unfold_locales, goal_cases)
  case (4 s s')
  then show ?case by (rule suggestions_change_ok)
next
  case (5 s s')
  then show ?case by (rule suggestions_change_query)
next
  case (11 s)
  then show ?case
    by (simp add: mount_suggestions_def suggestions_ok_def suggestions_filters_def no_defaults_def from_url_written)
qed (auto simp: mount_suggestions_def suggestions_ok_def suggestions_filters_def from_url_sort from_url_ok)

section \<open>All tables\<close>


definition filtered_stale :: stale_view where
  "filtered_stale =
     run_effects stale_watch stale_filters STALE_FILTER_DEFAULTS (mount_stale [] [])
       ((mount_stale [] [])\<lparr>sv_months := 12\<rparr>)"

lemma filtered_stale_page: "stale_page [] filtered_stale"
  unfolding stale_page_def filtered_stale_def
  by (intro list_run.changed list_run.mounted stale_change.months) (simp add: THRESHOLD_OPTIONS_def)


definition label_if :: "string \<Rightarrow> string \<Rightarrow> string list" where
  "label_if v l = (if v = [] then [] else [l])"

lemma chip_labels:
  "map fst (chip_for v lbl shown remove) = label_if v lbl" "label_if [] lbl = []"
  "list_all P (chip_for v lbl shown remove) = (v \<noteq> [] \<longrightarrow> P (lbl, shown, remove))"
  "removeAll l (label_if v lbl) = (if l = lbl then [] else label_if v lbl)"
  by (simp_all add: chip_for_def label_if_def)

text \<open>The chips above a table are shown exactly when a filter is set, removing one removes that chip and
  no other, and clearing all filters leaves none.\<close>

theorem chips_match_filters:
  "(packages_filtered s \<longleftrightarrow> packages_chips s \<noteq> []) \<and> \<not> packages_filtered (clear_packages s) \<and>
   list_all (\<lambda>(l, v, remove). map fst (packages_chips (remove s)) = removeAll l (map fst (packages_chips s)))
     (packages_chips s) \<and>
   (releases_filtered r \<longleftrightarrow> releases_chips r \<noteq> []) \<and> \<not> releases_filtered (clear_releases r) \<and>
   list_all (\<lambda>(l, v, remove). map fst (releases_chips (remove r)) = removeAll l (map fst (releases_chips r)))
     (releases_chips r) \<and>
   (alerts_filtered a \<longleftrightarrow> alerts_chips a \<noteq> []) \<and> \<not> alerts_filtered (clear_alerts a) \<and>
   list_all (\<lambda>(l, v, remove). map fst (alerts_chips (remove a)) = removeAll l (map fst (alerts_chips a)))
     (alerts_chips a) \<and>
   (stale_filtered t \<longleftrightarrow> stale_chips t \<noteq> []) \<and> \<not> stale_filtered (clear_stale t) \<and>
   list_all (\<lambda>(l, v, remove). map fst (stale_chips (remove t)) = removeAll l (map fst (stale_chips t)))
     (stale_chips t)"
proof (intro conjI)
  show "packages_filtered s \<longleftrightarrow> packages_chips s \<noteq> []" "\<not> packages_filtered (clear_packages s)"
    by (auto simp: packages_filtered_def packages_chips_def search_chip_def chip_for_def clear_packages_def set_sorting_def)
  show "list_all (\<lambda>(l, v, remove). map fst (packages_chips (remove s)) = removeAll l (map fst (packages_chips s)))
      (packages_chips s)"
    by (simp add: packages_chips_def search_chip_def chip_labels set_search_def)
  show "releases_filtered r \<longleftrightarrow> releases_chips r \<noteq> []" "\<not> releases_filtered (clear_releases r)"
    by (auto simp: releases_filtered_def releases_chips_def search_chip_def chip_for_def clear_releases_def set_sorting_def)
  show "list_all (\<lambda>(l, v, remove). map fst (releases_chips (remove r)) = removeAll l (map fst (releases_chips r)))
      (releases_chips r)"
    by (simp add: releases_chips_def search_chip_def chip_labels set_search_def)
  show "alerts_filtered a \<longleftrightarrow> alerts_chips a \<noteq> []" "\<not> alerts_filtered (clear_alerts a)"
    by (auto simp: alerts_filtered_def alerts_chips_def search_chip_def chip_for_def clear_alerts_def set_sorting_def)
  show "list_all (\<lambda>(l, v, remove). map fst (alerts_chips (remove a)) = removeAll l (map fst (alerts_chips a)))
      (alerts_chips a)"
    by (simp add: alerts_chips_def search_chip_def chip_labels set_search_def)
  show "stale_filtered t \<longleftrightarrow> stale_chips t \<noteq> []" "\<not> stale_filtered (clear_stale t)"
    by (auto simp: stale_filtered_def stale_chips_def search_chip_def chip_for_def clear_stale_def set_sorting_def)
  show "list_all (\<lambda>(l, v, remove). map fst (stale_chips (remove t)) = removeAll l (map fst (stale_chips t)))
      (stale_chips t)"
    by (simp add: stale_chips_def search_chip_def chip_labels set_search_def)
qed

end
