(* ===== verification/Admin_Tables.thy ===== *)
theory Admin_Tables
  imports List_Views Calendar Workspace_Hooks
begin

text \<open>
  The audit log of a workspace (\<open>features/admin/ui/audit-log-view.tsx\<close>), the audit log of the
  platform (\<open>features/platform-audit-logs/ui/platform-audit-logs-list.tsx\<close>) and the table of platform
  users (\<open>features/platform-users/ui/platform-users-list.tsx\<close>). A \<open>Date\<close> is an instant in milliseconds;
  \<open>zone t\<close> is what the browser's time zone adds to the instant \<open>t\<close>, and \<open>other\<close> reads the dates that
  are not in ISO form. The audit logs have no search text: those fields of the table state stay empty.
\<close>

section \<open>Days\<close>

definition local_day :: "(int \<Rightarrow> int) \<Rightarrow> int \<Rightarrow> int" where
  "local_day zone t = (t + zone t) div day_ms"

definition formatStartOfDay :: "(int \<Rightarrow> int) \<Rightarrow> int \<Rightarrow> string" where
  "formatStartOfDay zone t = day_text (local_day zone t) @ ''T00:00:00Z''"

definition formatEndOfDay :: "(int \<Rightarrow> int) \<Rightarrow> int \<Rightarrow> string" where
  "formatEndOfDay zone t = day_text (local_day zone t) @ ''T23:59:59Z''"

definition parseValidDate :: "(string \<Rightarrow> int option) \<Rightarrow> string option \<Rightarrow> int option" where
  "parseValidDate other v = (case v of None \<Rightarrow> None | Some s \<Rightarrow> if s = [] then None else iso_instant other s)"

definition date_text :: "(int \<Rightarrow> string) \<Rightarrow> int option \<Rightarrow> string" where
  "date_text fmt d = (case d of None \<Rightarrow> [] | Some t \<Rightarrow> fmt t)"

section \<open>The audit log of a workspace\<close>

record audit_view = list_state +
  uv_action :: string
  uv_resource :: string
  uv_debouncedAction :: string
  uv_debouncedResource :: string
  uv_from :: "int option"
  uv_to :: "int option"
  uv_fromOpen :: bool
  uv_toOpen :: bool

definition url_text :: "params \<Rightarrow> string \<Rightarrow> string" where
  "url_text ps key = (case usp_get ps key of None \<Rightarrow> [] | Some v \<Rightarrow> v)"

definition mount_audit :: "(string \<Rightarrow> int option) \<Rightarrow> params \<Rightarrow> audit_view" where
  "mount_audit other ps =
     \<lparr>ls_search = [], ls_debounced = [], ls_pageIndex = 0, ls_pageSize = 20, ls_query = ps,
      uv_action = url_text ps ''action'', uv_resource = url_text ps ''resource'',
      uv_debouncedAction = url_text ps ''action'', uv_debouncedResource = url_text ps ''resource'',
      uv_from = parseValidDate other (usp_get ps ''from''), uv_to = parseValidDate other (usp_get ps ''to''),
      uv_fromOpen = False, uv_toOpen = False\<rparr>"

definition audit_filters :: "(int \<Rightarrow> int) \<Rightarrow> audit_view \<Rightarrow> params" where
  "audit_filters zone s =
     [(''action'', uv_debouncedAction s), (''resource'', uv_debouncedResource s),
      (''from'', date_text (formatStartOfDay zone) (uv_from s)), (''to'', date_text (formatEndOfDay zone) (uv_to s))]"

definition audit_request :: "(int \<Rightarrow> int) \<Rightarrow> audit_view \<Rightarrow> AuditLogParams" where
  "audit_request zone s =
     \<lparr>al_action = or_undefined (uv_debouncedAction s), al_resource = or_undefined (uv_debouncedResource s),
      al_from_date = map_option (formatStartOfDay zone) (uv_from s),
      al_to_date = map_option (formatEndOfDay zone) (uv_to s), al_page = page_param s, al_limit = limit_param s,
      al_sort_by = sort_by s, al_sort_dir = sort_dir s\<rparr>"

definition handleFromSelect :: "int option \<Rightarrow> audit_view \<Rightarrow> audit_view" where
  "handleFromSelect date s = s\<lparr>uv_from := date, uv_fromOpen := False\<rparr>"

definition handleToSelect :: "int option \<Rightarrow> audit_view \<Rightarrow> audit_view" where
  "handleToSelect date s = s\<lparr>uv_to := date, uv_toOpen := False\<rparr>"

text \<open>The days the two calendars offer: \<open>date\<close> is the local midnight of the day.\<close>

definition from_disabled :: "int \<Rightarrow> audit_view \<Rightarrow> int \<Rightarrow> bool" where
  "from_disabled now s date = (case uv_to s of None \<Rightarrow> now < date | Some t \<Rightarrow> t < date)"

definition to_disabled :: "int \<Rightarrow> audit_view \<Rightarrow> int \<Rightarrow> bool" where
  "to_disabled now s date = (case uv_from s of None \<Rightarrow> now < date | Some t \<Rightarrow> date < t \<or> now < date)"

definition audit_filtered :: "audit_view \<Rightarrow> bool" where
  "audit_filtered s \<longleftrightarrow> uv_action s \<noteq> [] \<or> uv_resource s \<noteq> [] \<or> uv_from s \<noteq> None \<or> uv_to s \<noteq> None"

definition clear_audit :: "audit_view \<Rightarrow> audit_view" where
  "clear_audit s =
     set_sorting (Value []) (s\<lparr>uv_action := [], uv_resource := [], uv_from := None, uv_to := None\<rparr>)"

text \<open>\<open>shown\<close> is \<open>toLocaleDateString\<close>. The chip of the first day removes both days.\<close>

definition audit_chips :: "(int \<Rightarrow> string) \<Rightarrow> audit_view \<Rightarrow> audit_view chip list" where
  "audit_chips shown s =
     chip_for (uv_action s) ''Action'' (uv_action s) (\<lambda>s. s\<lparr>uv_action := []\<rparr>) @
     chip_for (uv_resource s) ''Resource'' (uv_resource s) (\<lambda>s. s\<lparr>uv_resource := []\<rparr>) @
     (case uv_from s of None \<Rightarrow> [] | Some t \<Rightarrow> [(''From'', shown t, (\<lambda>s. s\<lparr>uv_from := None, uv_to := None\<rparr>))]) @
     (case uv_to s of None \<Rightarrow> [] | Some t \<Rightarrow> [(''To'', shown t, (\<lambda>s. s\<lparr>uv_to := None\<rparr>))])"

section \<open>The audit log of the platform\<close>

record platform_audit_view = list_state +
  xv_action :: string
  xv_resource :: string
  xv_userId :: string
  xv_workspaceId :: string
  xv_debouncedAction :: string
  xv_debouncedResource :: string
  xv_debouncedUserId :: string
  xv_debouncedWorkspaceId :: string
  xv_from :: "int option"
  xv_to :: "int option"

text \<open>Nothing but the sorting is read from the address bar.\<close>

definition mount_platform_audit :: "params \<Rightarrow> platform_audit_view" where
  "mount_platform_audit ps =
     \<lparr>ls_search = [], ls_debounced = [], ls_pageIndex = 0, ls_pageSize = 20, ls_query = ps, xv_action = [],
      xv_resource = [], xv_userId = [], xv_workspaceId = [], xv_debouncedAction = [], xv_debouncedResource = [],
      xv_debouncedUserId = [], xv_debouncedWorkspaceId = [], xv_from = None, xv_to = None\<rparr>"

definition platform_audit_filters :: "(int \<Rightarrow> int) \<Rightarrow> platform_audit_view \<Rightarrow> params" where
  "platform_audit_filters zone s =
     [(''action'', xv_debouncedAction s), (''resource'', xv_debouncedResource s),
      (''user_email'', xv_debouncedUserId s), (''workspace_name'', xv_debouncedWorkspaceId s),
      (''from'', date_text (formatStartOfDay zone) (xv_from s)), (''to'', date_text (formatEndOfDay zone) (xv_to s))]"

definition platform_audit_request :: "(int \<Rightarrow> int) \<Rightarrow> platform_audit_view \<Rightarrow> PlatformAuditLogParams" where
  "platform_audit_request zone s =
     \<lparr>pa_page = page_param s, pa_limit = limit_param s, pa_action = or_undefined (xv_debouncedAction s),
      pa_resource = or_undefined (xv_debouncedResource s), pa_user_email = or_undefined (xv_debouncedUserId s),
      pa_workspace_name = or_undefined (xv_debouncedWorkspaceId s),
      pa_from_date = map_option (formatStartOfDay zone) (xv_from s),
      pa_to_date = map_option (formatEndOfDay zone) (xv_to s), pa_sort_by = sort_by s, pa_sort_dir = sort_dir s\<rparr>"

definition platform_audit_filtered :: "platform_audit_view \<Rightarrow> bool" where
  "platform_audit_filtered s \<longleftrightarrow>
     xv_action s \<noteq> [] \<or> xv_resource s \<noteq> [] \<or> xv_userId s \<noteq> [] \<or> xv_workspaceId s \<noteq> [] \<or> xv_from s \<noteq> None \<or> xv_to s \<noteq> None"

definition clear_platform_audit :: "platform_audit_view \<Rightarrow> platform_audit_view" where
  "clear_platform_audit s =
     set_sorting (Value [])
       (s\<lparr>xv_action := [], xv_resource := [], xv_userId := [], xv_workspaceId := [], xv_from := None, xv_to := None\<rparr>)"

definition platform_audit_chips :: "(int \<Rightarrow> string) \<Rightarrow> platform_audit_view \<Rightarrow> platform_audit_view chip list" where
  "platform_audit_chips shown s =
     chip_for (xv_action s) ''Action'' (xv_action s) (\<lambda>s. s\<lparr>xv_action := []\<rparr>) @
     chip_for (xv_resource s) ''Resource'' (xv_resource s) (\<lambda>s. s\<lparr>xv_resource := []\<rparr>) @
     chip_for (xv_userId s) ''User'' (xv_userId s) (\<lambda>s. s\<lparr>xv_userId := []\<rparr>) @
     chip_for (xv_workspaceId s) ''Workspace'' (xv_workspaceId s) (\<lambda>s. s\<lparr>xv_workspaceId := []\<rparr>) @
     (case xv_from s of None \<Rightarrow> [] | Some t \<Rightarrow> [(''From'', shown t, (\<lambda>s. s\<lparr>xv_from := None, xv_to := None\<rparr>))]) @
     (case xv_to s of None \<Rightarrow> [] | Some t \<Rightarrow> [(''To'', shown t, (\<lambda>s. s\<lparr>xv_to := None\<rparr>))])"

text \<open>\<open>{ ...userColumnVisibility, ...responsiveVisibility }\<close>: the window's width has the last word.\<close>

definition audit_columns :: "(string \<times> bool) list \<Rightarrow> (string \<times> bool) list \<Rightarrow> string \<Rightarrow> bool option" where
  "audit_columns chosen responsive = map_of chosen ++ map_of responsive"

section \<open>Platform users\<close>

datatype prompt_action = ToggleAdmin | ToggleActive

record prompt =
  pr_userId :: string
  pr_action :: prompt_action
  pr_currentValue :: bool

record users_view = list_state +
  xu_status :: string
  xu_role :: string
  passwordPrompt :: "prompt option"
  confirmPassword :: string

definition authMethodLabel :: "string \<Rightarrow> string" where
  "authMethodLabel m =
     (if m = ''password'' then ''Password'' else if m = ''google'' then ''Google'' else if m = ''github'' then ''GitHub''
      else if m = ''saml'' then ''SAML'' else m)"

definition mount_users :: "params \<Rightarrow> users_view" where
  "mount_users ps =
     \<lparr>ls_search = [], ls_debounced = [], ls_pageIndex = 0, ls_pageSize = 20, ls_query = ps, xu_status = [], xu_role = [],
      passwordPrompt = None, confirmPassword = []\<rparr>"

definition users_filters :: "users_view \<Rightarrow> params" where
  "users_filters s = [(''status'', xu_status s), (''role'', xu_role s)]"

definition users_watch :: "users_view \<Rightarrow> string list" where
  "users_watch s = [xu_status s, xu_role s, ls_debounced s]"

definition users_request :: "users_view \<Rightarrow> PlatformUserParams" where
  "users_request s =
     \<lparr>pu_page = page_param s, pu_pageSize = limit_param s, pu_search = or_undefined (ls_debounced s),
      pu_sortBy = sort_by s, pu_sortDir = sort_dir s, pu_status = or_undefined (xu_status s),
      pu_role = or_undefined (xu_role s)\<rparr>"

definition users_filtered :: "users_view \<Rightarrow> bool" where
  "users_filtered s \<longleftrightarrow> ls_search s \<noteq> [] \<or> xu_status s \<noteq> [] \<or> xu_role s \<noteq> []"

definition clear_users :: "users_view \<Rightarrow> users_view" where
  "clear_users s = set_sorting (Value []) (s\<lparr>ls_search := [], xu_status := [], xu_role := []\<rparr>)"

definition users_chips :: "users_view \<Rightarrow> users_view chip list" where
  "users_chips s =
     chip_for (xu_status s) ''Status'' (if xu_status s = ''active'' then ''Active'' else ''Inactive'') (\<lambda>s. s\<lparr>xu_status := []\<rparr>) @
     chip_for (xu_role s) ''Role'' (if xu_role s = ''super_admin'' then ''Super Admin'' else ''User'') (\<lambda>s. s\<lparr>xu_role := []\<rparr>) @
     search_chip s"

definition empty_update :: UpdatePlatformUserRequest where
  "empty_update = \<lparr>uu_firstName = None, uu_lastName = None, uu_isSuperAdmin = None, uu_isActive = None\<rparr>"

definition prompt_update :: "prompt \<Rightarrow> UpdatePlatformUserRequest \<times> string" where
  "prompt_update p =
     (case pr_action p of
        ToggleAdmin \<Rightarrow> (empty_update\<lparr>uu_isSuperAdmin := Some (\<not> pr_currentValue p)\<rparr>,
          if pr_currentValue p then ''User demoted from super admin'' else ''User promoted to super admin'')
      | ToggleActive \<Rightarrow> (empty_update\<lparr>uu_isActive := Some (\<not> pr_currentValue p)\<rparr>,
          if pr_currentValue p then ''User deactivated'' else ''User reactivated''))"

text \<open>The request of the confirmation dialog; it stays open until the request succeeds.\<close>

definition handleConfirmAction :: "users_view \<Rightarrow> api_call option" where
  "handleConfirmAction s =
     (case passwordPrompt s of
        None \<Rightarrow> None
      | Some p \<Rightarrow>
          (if confirmPassword s = [] then None
           else (let (req, msg) = prompt_update p in
                 Some (m_call useUpdatePlatformUser ((pr_userId p, req), confirmPassword s, Some msg)))))"

definition close_prompt :: "users_view \<Rightarrow> users_view" where
  "close_prompt s = s\<lparr>passwordPrompt := None, confirmPassword := []\<rparr>"

definition promptDescription :: "users_view \<Rightarrow> string" where
  "promptDescription s =
     (case passwordPrompt s of
        None \<Rightarrow> []
      | Some p \<Rightarrow>
          (case pr_action p of
             ToggleAdmin \<Rightarrow>
               (if pr_currentValue p then ''Enter your password to remove super admin privileges.''
                else ''Enter your password to grant super admin privileges.'')
           | ToggleActive \<Rightarrow>
               (if pr_currentValue p
                then ''Enter your password to deactivate this user. All their sessions will be revoked.''
                else ''Enter your password to reactivate this user.'')))"

text \<open>The menu of a row: absent in the row of the signed-in user.\<close>

definition user_menu :: "string option \<Rightarrow> string \<Rightarrow> bool \<Rightarrow> bool \<Rightarrow> prompt list" where
  "user_menu self i isSuperAdmin isActive =
     (if self = Some i then []
      else [\<lparr>pr_userId = i, pr_action = ToggleAdmin, pr_currentValue = isSuperAdmin\<rparr>,
            \<lparr>pr_userId = i, pr_action = ToggleActive, pr_currentValue = isActive\<rparr>])"

inductive users_change :: "string option \<Rightarrow> users_view \<Rightarrow> users_view \<Rightarrow> bool" for self where
  status: "v \<in> {''all'', ''active'', ''inactive''} \<Longrightarrow> users_change self s (s\<lparr>xu_status := pick (Some v)\<rparr>)"
| role: "v \<in> {''all'', ''super_admin'', ''user''} \<Longrightarrow> users_change self s (s\<lparr>xu_role := pick (Some v)\<rparr>)"
| typed: "users_change self s (set_search v s)"
| debounced: "users_change self s (debounce s)"
| paged: "users_change self s (set_pagination i n s)"
| sorted: "users_change self s (set_sorting upd s)"
| cleared: "users_change self s (clear_users s)"
| chip: "(l, v, remove) \<in> set (users_chips s) \<Longrightarrow> users_change self s (remove s)"
| opened: "p \<in> set (user_menu self i a b) \<Longrightarrow> passwordPrompt s = None \<Longrightarrow>
    users_change self s (s\<lparr>passwordPrompt := Some p\<rparr>)"
| password: "passwordPrompt s \<noteq> None \<Longrightarrow> users_change self s (s\<lparr>confirmPassword := v\<rparr>)"
| closed: "users_change self s (close_prompt s)"

definition users_page :: "string option \<Rightarrow> users_view \<Rightarrow> bool" where
  "users_page self = list_run mount_users users_watch users_filters no_defaults (users_change self)"

section \<open>The days of the audit log\<close>

lemma parse_day_text:
  assumes "civil_from_days n = (y, m, d)" and "1000 \<le> y" and "y < 10000"
  shows "parseValidDate other (Some (day_text n @ ''T00:00:00Z'')) = Some (n * day_ms)"
    and "parseValidDate other (Some (day_text n @ ''T23:59:59Z'')) = Some (n * day_ms + 86399000)"
proof -
  have digits: "is_digit (CHR ''0'')" "is_digit (CHR ''2'')" "is_digit (CHR ''3'')" "is_digit (CHR ''5'')" "is_digit (CHR ''9'')"
    by (simp_all add: is_digit_def)
  have read: "read_nat ''00'' = 0" "read_nat ''23'' = 23" "read_nat ''59'' = 59" by code_simp+
  show "parseValidDate other (Some (day_text n @ ''T00:00:00Z'')) = Some (n * day_ms)"
    using iso_day [OF assms, of "''00''" "''00''" "''00''" other] by (simp add: parseValidDate_def read digits)
  show "parseValidDate other (Some (day_text n @ ''T23:59:59Z'')) = Some (n * day_ms + 86399000)"
    using iso_day [OF assms, of "''23''" "''59''" "''59''" other] by (simp add: parseValidDate_def read digits)
qed

lemma shifted_day: "(n * day_ms + k) div day_ms = n + k div day_ms"
  by (simp add: day_ms_def)

text \<open>The two days of the audit log's address bar are read back as days of Greenwich, not of the browser:
  after a reload the first day has moved by the days the zone is behind or ahead of midnight
  there, and the last day likewise from a second before midnight. Both days survive only where
  the zone adds less than a second.\<close>

theorem audit_days_after_reload:
  fixes zone :: "int \<Rightarrow> int"
  assumes "uv_from s = Some t" and "uv_to s = Some u"
    and "civil_from_days (local_day zone t) = (y, m, d)" and "1000 \<le> y" and "y < 10000"
    and "civil_from_days (local_day zone u) = (y', m', d')" and "1000 \<le> y'" and "y' < 10000"
  shows "\<exists>t' u'. uv_from (mount_audit other (filter_params (audit_filters zone s) no_defaults)) = Some t' \<and>
    uv_to (mount_audit other (filter_params (audit_filters zone s) no_defaults)) = Some u' \<and>
    local_day zone t' = local_day zone t + zone t' div day_ms \<and>
    local_day zone u' = local_day zone u + (86399000 + zone u') div day_ms"
proof -
  have d: "distinct (map fst (audit_filters zone s))" by (simp add: audit_filters_def)
  have ne: "formatStartOfDay zone t \<noteq> []" "formatEndOfDay zone u \<noteq> []"
    by (simp_all add: formatStartOfDay_def formatEndOfDay_def)
  have "usp_get (filter_params (audit_filters zone s) no_defaults) ''from'' = Some (formatStartOfDay zone t)"
    "usp_get (filter_params (audit_filters zone s) no_defaults) ''to'' = Some (formatEndOfDay zone u)"
    unfolding usp_get_filter_params [OF d] using ne assms(1,2) by (simp_all add: audit_filters_def no_defaults_def date_text_def)
  then have "uv_from (mount_audit other (filter_params (audit_filters zone s) no_defaults)) = Some (local_day zone t * day_ms)"
    "uv_to (mount_audit other (filter_params (audit_filters zone s) no_defaults)) = Some (local_day zone u * day_ms + 86399000)"
    using parse_day_text [OF assms(3-5)] parse_day_text [OF assms(6-8)]
    by (simp_all add: mount_audit_def formatStartOfDay_def formatEndOfDay_def)
  then show ?thesis
    by (simp add: local_day_def [of zone "_ * day_ms"] local_day_def [of zone "_ * day_ms + _"] shifted_day add.assoc)
qed

text \<open>Five hours west of Greenwich, the first of March becomes the last of February.\<close>

definition new_york :: "int \<Rightarrow> int" where
  "new_york t = - 5 * 3600000"

definition march_view :: audit_view where
  "march_view = (mount_audit (\<lambda>_. None) [])\<lparr>uv_from := Some 1740805200000, uv_to := Some 1740805200000\<rparr>"

lemma audit_days_after_reload_witness:
  "civil_from_days (local_day new_york 1740805200000) = (2025, 3, 1) \<and>
   (\<exists>t. uv_from (mount_audit (\<lambda>_. None) (filter_params (audit_filters new_york march_view) no_defaults)) = Some t \<and>
     civil_from_days (local_day new_york t) = (2025, 2, 28))"
proof -
  have day: "civil_from_days (local_day new_york 1740805200000) = (2025, 3, 1)"
    "local_day new_york 1740805200000 + - 1 = 20147" "civil_from_days 20147 = (2025, 2, 28)" by code_simp+
  have view: "uv_from march_view = Some 1740805200000" "uv_to march_view = Some 1740805200000"
    by (simp_all add: march_view_def)
  have "new_york t div day_ms = -1" for t by (simp add: new_york_def day_ms_def)
  with audit_days_after_reload [OF view day(1) _ _ day(1), of "\<lambda>_. None"] show ?thesis
    using day by auto
qed

section \<open>The password dialog\<close>

lemma users_frame:
  "passwordPrompt (run_effects w f d a b) = passwordPrompt b" "confirmPassword (run_effects w f d a b) = confirmPassword b"
  for w :: "users_view \<Rightarrow> string list"
  by (simp_all add: run_effects_def first_page_def Let_def)

lemma users_prompt_inv:
  assumes "users_page self s"
  shows "(passwordPrompt s = None \<longrightarrow> confirmPassword s = []) \<and>
    (\<forall>p. passwordPrompt s = Some p \<longrightarrow> self \<noteq> Some (pr_userId p))"
  using assms unfolding users_page_def
proof (induction rule: list_run.induct)
  case (mounted ps)
  then show ?case by (simp add: mount_users_def)
next
  case (changed s s')
  from changed(2,3) show ?case unfolding users_frame
    by (induction rule: users_change.induct)
      (auto simp: list_ops clear_users_def users_chips_def search_chip_def close_prompt_def user_menu_def split: if_splits)
qed

text \<open>C28: The table of platform users changes another user's rights only with a password typed into the dialog
  of that user: never those of the signed-in user, never without a password, and exactly the
  right the dialog names, turned into its opposite. A typed password does not outlive its
  dialog.\<close>

theorem user_rights_confirmed:
  assumes "users_page self s"
  shows "(handleConfirmAction s = Some c \<longrightarrow>
      (\<exists>p. passwordPrompt s = Some p \<and> self \<noteq> Some (pr_userId p) \<and> confirmPassword s \<noteq> [] \<and>
         c = apiUpdatePlatformUser (pr_userId p) (fst (prompt_update p)) (confirmPassword s) \<and>
         (uu_isSuperAdmin (fst (prompt_update p)), uu_isActive (fst (prompt_update p))) =
           (if pr_action p = ToggleAdmin then (Some (\<not> pr_currentValue p), None) else (None, Some (\<not> pr_currentValue p))))) \<and>
    (passwordPrompt s = None \<longrightarrow> confirmPassword s = [])"
  using users_prompt_inv [OF assms]
  by (auto simp: handleConfirmAction_def useUpdatePlatformUser_def prompt_update_def empty_update_def
      split: option.splits if_splits prompt_action.splits)

lemma user_rights_confirmed_witness:
  "\<exists>s. users_page (Some ''me'') s \<and> handleConfirmAction s =
     Some (apiUpdatePlatformUser ''u1'' (empty_update\<lparr>uu_isActive := Some False\<rparr>) ''secret'')"
proof -
  let ?p = "\<lparr>pr_userId = ''u1'', pr_action = ToggleActive, pr_currentValue = True\<rparr>"
  let ?e = "run_effects users_watch users_filters no_defaults"
  define a where "a = ?e (mount_users []) ((mount_users [])\<lparr>passwordPrompt := Some ?p\<rparr>)"
  define s where "s = ?e a (a\<lparr>confirmPassword := ''secret''\<rparr>)"
  have "?p \<in> set (user_menu (Some ''me'') ''u1'' False True)" by (simp add: user_menu_def)
  then have "users_page (Some ''me'') a" unfolding a_def users_page_def
    by (intro list_run.changed list_run.mounted users_change.opened) (simp_all add: mount_users_def)
  then have page: "users_page (Some ''me'') s" unfolding s_def users_page_def
    by (intro list_run.changed users_change.password) (simp_all add: a_def users_frame)
  have "handleConfirmAction s = Some (apiUpdatePlatformUser ''u1'' (empty_update\<lparr>uu_isActive := Some False\<rparr>) ''secret'')"
    by (simp add: s_def a_def handleConfirmAction_def users_frame prompt_update_def useUpdatePlatformUser_def)
  with page user_rights_confirmed [OF page] show ?thesis by blast
qed

text \<open>The filters of the two platform tables are written to the address bar, but no table reads them: a
  reload loses them all.\<close>

lemma platform_filters_forgotten:
  "xu_status (mount_users ps) = [] \<and> xu_role (mount_users ps) = [] \<and> \<not> platform_audit_filtered (mount_platform_audit ps)"
  by (simp add: mount_users_def mount_platform_audit_def platform_audit_filtered_def)

text \<open>Taking back the first day in its calendar leaves the last day in force, with its control disabled;
  removing the chip of the first day takes both back.\<close>

lemma deselected_start_keeps_end:
  "uv_from (handleFromSelect None s) = None \<and> uv_to (handleFromSelect None s) = uv_to s"
  by (simp add: handleFromSelect_def)

end
