(* ===== verification/Shell.thy ===== *)
theory Shell
  imports Routes Roles
begin

text \<open>
  The frame around every page (\<open>features/shell/ui\<close>): the entries of the sidebar
  (\<open>app-sidebar.tsx\<close>) with the one that is highlighted, the command palette
  (\<open>command-palette.tsx\<close>) as a state machine over its keys, and the breadcrumbs of the header
  (\<open>site-header.tsx\<close>). The icons of the entries are left out.
\<close>

section \<open>The sidebar\<close>

record nav_item =
  ni_title :: string
  ni_href :: route
  ni_minRole :: "WorkspaceRole option"
  ni_superAdminOnly :: bool      \<comment> \<open>not read: the whole group is left out\<close>

definition nav_entry :: "string \<Rightarrow> route \<Rightarrow> nav_item" where
  "nav_entry t r = \<lparr>ni_title = t, ni_href = r, ni_minRole = None, ni_superAdminOnly = False\<rparr>"

definition navItems :: "nav_item list" where
  "navItems =
     [nav_entry ''Dashboard'' DASHBOARD, nav_entry ''Packages'' PACKAGES, nav_entry ''Releases'' RELEASES,
      nav_entry ''Alerts'' ALERTS, nav_entry ''Notifications'' NOTIFICATIONS, nav_entry ''Workspaces'' WORKSPACES]"

definition managementItems :: "nav_item list" where
  "managementItems =
     [(nav_entry ''Settings'' SETTINGS)\<lparr>ni_minRole := Some admin\<rparr>,
      (nav_entry ''Channels'' SETTINGS_NOTIFICATIONS)\<lparr>ni_minRole := Some admin\<rparr>,
      (nav_entry ''Queue Monitor'' SETTINGS_QUEUE)\<lparr>ni_minRole := Some admin\<rparr>,
      nav_entry ''API Keys'' SETTINGS_API_KEYS]"

definition platformAdminItems :: "nav_item list" where
  "platformAdminItems = map (\<lambda>i. i\<lparr>ni_superAdminOnly := True\<rparr>)
     [nav_entry ''Security'' ADMIN_SECURITY, nav_entry ''Users'' ADMIN_USERS, nav_entry ''Audit Logs'' ADMIN_AUDIT_LOGS]"

text \<open>\<open>!item.minRole || hasMinimumRole(role, item.minRole)\<close>.\<close>

definition role_allows :: "WorkspaceRole option \<Rightarrow> WorkspaceRole option \<Rightarrow> bool" where
  "role_allows role minRole = (case minRole of None \<Rightarrow> True | Some m \<Rightarrow> hasMinimumRole role m)"

definition nav_active :: "string \<Rightarrow> nav_item \<Rightarrow> bool" where
  "nav_active pathname item =
     (if ROUTES (ni_href item) = ''/'' then pathname = ''/'' else startsWith pathname (ROUTES (ni_href item)))"

definition management_active :: "string \<Rightarrow> nav_item \<Rightarrow> bool" where
  "management_active pathname item =
     (if ROUTES (ni_href item) = ROUTES SETTINGS then pathname = ROUTES SETTINGS
      else pathname = ROUTES (ni_href item) \<or> startsWith pathname (ROUTES (ni_href item) @ ''/''))"

definition platform_active :: "string \<Rightarrow> nav_item \<Rightarrow> bool" where
  "platform_active pathname item \<longleftrightarrow>
     pathname = ROUTES (ni_href item) \<or> startsWith pathname (ROUTES (ni_href item) @ ''/'')"

text \<open>The entries with their highlight, group after group; \<open>isSuperAdmin\<close> is that of the user, if any.\<close>

definition sidebar :: "WorkspaceRole option \<Rightarrow> bool \<Rightarrow> string \<Rightarrow> (nav_item \<times> bool) list" where
  "sidebar role isSuperAdmin pathname =
     map (\<lambda>i. (i, nav_active pathname i)) navItems @
     map (\<lambda>i. (i, management_active pathname i)) (filter (\<lambda>i. role_allows role (ni_minRole i)) managementItems) @
     (if isSuperAdmin then map (\<lambda>i. (i, platform_active pathname i)) platformAdminItems else [])"

definition account_menu :: "route list" where
  "account_menu = [ACCOUNT, SETTINGS_SESSIONS]"

definition sidebar_links :: "WorkspaceRole option \<Rightarrow> bool \<Rightarrow> route list" where
  "sidebar_links role isSuperAdmin = map (\<lambda>(i, _). ni_href i) (sidebar role isSuperAdmin []) @ account_menu"

text \<open>The badge of the alerts entry, and the query behind it.\<close>

definition alert_badge :: "nat option \<Rightarrow> nat option" where
  "alert_badge activeAlerts = (let n = (case activeAlerts of None \<Rightarrow> 0 | Some n \<Rightarrow> n) in if 0 < n then Some n else None)"

definition stats_enabled :: "bool \<Rightarrow> 'w option \<Rightarrow> bool" where
  "stats_enabled isAuthenticated currentWorkspace \<longleftrightarrow> isAuthenticated \<and> currentWorkspace \<noteq> None"

text \<open>The effect that closes the sheet of a small screen.\<close>

definition close_sheet :: "bool \<Rightarrow> string \<Rightarrow> string \<Rightarrow> bool \<Rightarrow> bool" where
  "close_sheet isMobile prevPathname pathname openMobile =
     (if isMobile \<and> prevPathname \<noteq> pathname then False else openMobile)"

definition avatar_initial :: "string \<Rightarrow> string \<Rightarrow> string" where
  "avatar_initial firstName emailAddress = toUpperCase (take 1 (if firstName = [] then emailAddress else firstName))"

section \<open>The command palette\<close>

record command_item =
  ci_id :: string
  ci_label :: string
  ci_href :: route
  ci_group :: string
  ci_keywords :: "string list"
  ci_minRole :: "WorkspaceRole option"
  ci_superAdminOnly :: bool

definition command :: "string \<Rightarrow> string \<Rightarrow> string \<Rightarrow> route \<Rightarrow> string list \<Rightarrow> command_item" where
  "command g i l r ks =
     \<lparr>ci_id = i, ci_label = l, ci_href = r, ci_group = g, ci_keywords = ks, ci_minRole = None, ci_superAdminOnly = False\<rparr>"

definition navigation_commands :: "command_item list" where
  "navigation_commands =
     [command ''Navigation'' ''dashboard'' ''Dashboard'' DASHBOARD [''home'', ''overview'', ''stats''],
      command ''Navigation'' ''packages'' ''Packages'' PACKAGES [''python'', ''npm'', ''go'', ''golang'', ''dependencies''],
      command ''Navigation'' ''releases'' ''Releases'' RELEASES [''versions'', ''updates''],
      command ''Navigation'' ''alerts'' ''Alerts'' ALERTS [''notifications'', ''warnings'', ''threats''],
      command ''Navigation'' ''notifications'' ''Notifications'' NOTIFICATIONS [''inbox'', ''messages'', ''updates''],
      command ''Navigation'' ''workspaces'' ''Workspaces'' WORKSPACES [''teams'']]"

definition management_commands :: "command_item list" where
  "management_commands =
     [(command ''Management'' ''settings'' ''Settings'' SETTINGS [''preferences'', ''configuration''])\<lparr>ci_minRole := Some admin\<rparr>,
      (command ''Management'' ''channels'' ''Channels'' SETTINGS_NOTIFICATIONS [''notifications'', ''webhooks'', ''slack''])
        \<lparr>ci_minRole := Some admin\<rparr>,
      (command ''Management'' ''queue'' ''Queue Monitor'' SETTINGS_QUEUE [''jobs'', ''workers'', ''processing''])
        \<lparr>ci_minRole := Some admin\<rparr>,
      command ''Management'' ''api-keys'' ''API Keys'' SETTINGS_API_KEYS [''tokens'', ''authentication'']]"

definition admin_commands :: "command_item list" where
  "admin_commands = map (\<lambda>i. i\<lparr>ci_superAdminOnly := True\<rparr>)
     [command ''Admin'' ''security'' ''Security'' ADMIN_SECURITY [''sso'', ''saml'', ''authentication'', ''login''],
      command ''Admin'' ''users'' ''Users'' ADMIN_USERS [''platform'', ''admin'', ''accounts''],
      command ''Admin'' ''audit-logs'' ''Audit Logs'' ADMIN_AUDIT_LOGS [''audit'', ''logs'', ''activity'', ''history'']]"

definition account_commands :: "command_item list" where
  "account_commands =
     [command ''Account'' ''account'' ''Account'' ACCOUNT [''profile'', ''email'', ''password''],
      command ''Account'' ''sessions'' ''Sessions'' SETTINGS_SESSIONS [''active'', ''devices'']]"

definition commandItems :: "command_item list" where
  "commandItems = navigation_commands @ management_commands @ admin_commands @ account_commands"

text \<open>Who looks at the palette.\<close>

record palette_user =
  pu_signedIn :: bool
  pu_workspaceRole :: "WorkspaceRole option"
  pu_superAdmin :: bool

definition permitted :: "palette_user \<Rightarrow> command_item \<Rightarrow> bool" where
  "permitted u item = (if ci_superAdminOnly item then pu_superAdmin u else role_allows (pu_workspaceRole u) (ci_minRole item))"

definition permittedItems :: "palette_user \<Rightarrow> command_item list" where
  "permittedItems u = filter (permitted u) commandItems"

fun has_text :: "string \<Rightarrow> string \<Rightarrow> bool" where
  "has_text s t \<longleftrightarrow> startsWith s t \<or> (case s of [] \<Rightarrow> False | _ # r \<Rightarrow> has_text r t)"

definition matches_query :: "string \<Rightarrow> command_item \<Rightarrow> bool" where
  "matches_query query item =
     (let q = toLowerCase query in
      has_text (toLowerCase (ci_label item)) q \<or> has_text (toLowerCase (ci_group item)) q \<or>
      list_ex (\<lambda>kw. has_text kw q) (ci_keywords item))"

definition filteredItems :: "palette_user \<Rightarrow> string \<Rightarrow> command_item list" where
  "filteredItems u query =
     (if trim query = [] then permittedItems u else filter (matches_query query) (permittedItems u))"

text \<open>\<open>groups\<close> and \<open>groupMap\<close> share their arrays: a group is found again and grows in place.\<close>

fun add_to_group :: "string \<Rightarrow> 'a \<Rightarrow> (string \<times> 'a list) list \<Rightarrow> (string \<times> 'a list) list" where
  "add_to_group g x [] = [(g, [x])]"
| "add_to_group g x ((h, ys) # gs) = (if h = g then (h, ys @ [x]) # gs else (h, ys) # add_to_group g x gs)"

definition groupedItems :: "command_item list \<Rightarrow> (string \<times> (command_item \<times> nat) list) list" where
  "groupedItems items =
     fold (\<lambda>(item, idx) groups. add_to_group (ci_group item) (item, idx) groups) (zip items [0..<length items]) []"

subsection \<open>State and events\<close>

record palette =
  pt_open :: bool
  pt_query :: string
  selectedIndex :: int

definition mount_palette :: palette where
  "mount_palette = \<lparr>pt_open = False, pt_query = [], selectedIndex = 0\<rparr>"

definition handleOpenChange :: "bool \<Rightarrow> palette \<Rightarrow> palette" where
  "handleOpenChange isOpen s =
     (if isOpen then s\<lparr>pt_open := True, pt_query := [], selectedIndex := 0\<rparr> else s\<lparr>pt_open := False\<rparr>)"

text \<open>The listener of the whole document; it is there only while a user is signed in.\<close>

definition global_key :: "palette_user \<Rightarrow> bool \<Rightarrow> string \<Rightarrow> palette \<Rightarrow> palette" where
  "global_key u metaOrCtrl key s =
     (if pu_signedIn u \<and> metaOrCtrl \<and> key = ''k'' then handleOpenChange (\<not> pt_open s) s else s)"

definition change_query :: "string \<Rightarrow> palette \<Rightarrow> palette" where
  "change_query v s = s\<lparr>pt_query := v, selectedIndex := 0\<rparr>"

definition hover :: "nat \<Rightarrow> palette \<Rightarrow> palette" where
  "hover i s = s\<lparr>selectedIndex := int i\<rparr>"

definition navigateTo :: "command_item \<Rightarrow> palette \<Rightarrow> string option \<times> palette" where
  "navigateTo item s = (Some (ROUTES (ci_href item)), s\<lparr>pt_open := False\<rparr>)"

text \<open>\<open>filteredItems[selectedIndex]\<close>, \<open>undefined\<close> outside the list.\<close>

definition selected :: "palette_user \<Rightarrow> palette \<Rightarrow> command_item option" where
  "selected u s =
     (let items = filteredItems u (pt_query s) in
      if 0 \<le> selectedIndex s \<and> selectedIndex s < int (length items) then Some (items ! nat (selectedIndex s)) else None)"

definition handleKeyDown :: "palette_user \<Rightarrow> string \<Rightarrow> palette \<Rightarrow> string option \<times> palette" where
  "handleKeyDown u key s =
     (let n = int (length (filteredItems u (pt_query s))); i = selectedIndex s in
      if key = ''ArrowDown'' then (None, s\<lparr>selectedIndex := (if i < n - 1 then i + 1 else 0)\<rparr>)
      else if key = ''ArrowUp'' then (None, s\<lparr>selectedIndex := (if i > 0 then i - 1 else n - 1)\<rparr>)
      else if key = ''Enter'' then (case selected u s of None \<Rightarrow> (None, s) | Some item \<Rightarrow> navigateTo item s)
      else if key = ''Home'' then (None, s\<lparr>selectedIndex := 0\<rparr>)
      else if key = ''End'' then (None, s\<lparr>selectedIndex := n - 1\<rparr>)
      else (None, s))"

inductive palette_step :: "palette_user \<Rightarrow> palette \<Rightarrow> string option \<Rightarrow> palette \<Rightarrow> bool" for u where
  shortcut: "palette_step u s None (global_key u m key s)"
| opened: "pu_signedIn u \<Longrightarrow> palette_step u s None (handleOpenChange b s)"
| typed: "pu_signedIn u \<Longrightarrow> pt_open s \<Longrightarrow> palette_step u s None (change_query v s)"
| hovered: "pu_signedIn u \<Longrightarrow> pt_open s \<Longrightarrow> i < length (filteredItems u (pt_query s)) \<Longrightarrow> palette_step u s None (hover i s)"
| clicked: "pu_signedIn u \<Longrightarrow> pt_open s \<Longrightarrow> item \<in> set (filteredItems u (pt_query s)) \<Longrightarrow>
    palette_step u s (fst (navigateTo item s)) (snd (navigateTo item s))"
| pressed: "pu_signedIn u \<Longrightarrow> pt_open s \<Longrightarrow>
    palette_step u s (fst (handleKeyDown u key s)) (snd (handleKeyDown u key s))"

inductive palette_run :: "palette_user \<Rightarrow> palette \<Rightarrow> bool" for u where
  start: "palette_run u mount_palette"
| step: "palette_run u s \<Longrightarrow> palette_step u s out s' \<Longrightarrow> palette_run u s'"

section \<open>The breadcrumbs\<close>

definition pageTitles :: "string \<Rightarrow> string option" where
  "pageTitles = map_of (map (\<lambda>(r, t). (ROUTES r, t))
     [(DASHBOARD, ''Dashboard''), (PACKAGES, ''Packages''), (ALERTS, ''Alerts''), (RELEASES, ''Releases''),
      (SETTINGS, ''Settings''), (WORKSPACES, ''Workspaces''), (ACCOUNT, ''Account''), (ADMIN, ''Admin''),
      (ADMIN_USERS, ''Users''), (ADMIN_AUDIT_LOGS, ''Audit Logs''), (ADMIN_SECURITY, ''Security''),
      (SETTINGS_API_KEYS, ''API Keys''), (SETTINGS_SESSIONS, ''Sessions''), (SETTINGS_NOTIFICATIONS, ''Channels''),
      (SETTINGS_QUEUE, ''Queue Monitor'')])"

text \<open>\<open>/\b\w/g\<close>: a word character whose left neighbour, \<open>prev\<close>, is none.\<close>

fun upper_starts :: "bool \<Rightarrow> string \<Rightarrow> string" where
  "upper_starts prev [] = []"
| "upper_starts prev (c # s) = (if is_word c \<and> \<not> prev then to_upper c else c) # upper_starts (is_word c) s"

text \<open>\<open>decodeURIComponent\<close> throws on a malformed escape, which is \<open>None\<close>; so is a character that the
  model's 8-bit alphabet does not have.\<close>

fun escapes_ok :: "string \<Rightarrow> bool" where
  "escapes_ok [] \<longleftrightarrow> True"
| "escapes_ok (c # s) \<longleftrightarrow>
     (if c = CHR ''%'' then
        (case s of x # y # t \<Rightarrow> hex_value x \<noteq> None \<and> hex_value y \<noteq> None \<and> escapes_ok t | _ \<Rightarrow> False)
      else escapes_ok s)"

definition decodeURIComponent :: "string \<Rightarrow> string option" where
  "decodeURIComponent s = (if escapes_ok s then percent_decode s else None)"

definition humanizeSegment :: "string \<Rightarrow> string option" where
  "humanizeSegment segment =
     map_option (\<lambda>s. upper_starts False (map (\<lambda>c. if c = CHR ''-'' then CHR '' '' else c) s)) (decodeURIComponent segment)"

definition isIdSegment :: "string \<Rightarrow> bool" where
  "isIdSegment segment \<longleftrightarrow>
     (segment \<noteq> [] \<and> list_all is_digit segment) \<or>
     (8 \<le> length segment \<and> list_all (\<lambda>c. is_digit c \<or> to_lower c \<in> set ''abcdef'' \<or> c = CHR ''-'') segment)"

definition path_segments :: "string \<Rightarrow> string list" where
  "path_segments pathname = filter (\<lambda>s. s \<noteq> []) (split_char (CHR ''/'') pathname)"

definition crumb_label :: "string \<Rightarrow> string \<Rightarrow> (string \<times> string) list \<Rightarrow> string option" where
  "crumb_label href segment crumbs =
     (case pageTitles href of
        Some t \<Rightarrow> Some t
      | None \<Rightarrow>
          (if isIdSegment segment then Some (trim ((if crumbs = [] then [] else fst (last crumbs)) @ '' Detail''))
           else if segment = ''audit'' then Some ''Audit Log''
           else humanizeSegment segment))"

text \<open>The loop over the segments: \<open>href\<close> is the path so far, \<open>crumbs\<close> what was pushed.\<close>

fun push_crumbs :: "string \<Rightarrow> string list \<Rightarrow> (string \<times> string) list \<Rightarrow> (string \<times> string) list option" where
  "push_crumbs href [] crumbs = Some crumbs"
| "push_crumbs href (seg # segs) crumbs =
     (let href = href @ ''/'' @ seg in
      case crumb_label href seg crumbs of
        None \<Rightarrow> None
      | Some lbl \<Rightarrow> push_crumbs href segs (crumbs @ [(lbl, href)]))"

definition breadcrumbs :: "string \<Rightarrow> (string \<times> string) list option" where
  "breadcrumbs pathname =
     (let segments = path_segments pathname in
      if segments = [] then Some [(''Dashboard'', ''/'')] else push_crumbs [] segments [])"

section \<open>One entry of the sidebar at most\<close>

lemma exclusive_filter:
  "sorted_wrt (\<lambda>x y. \<not> (P x \<and> P y)) xs \<Longrightarrow> length (filter P xs) \<le> 1"
  by (induction xs) (auto simp: filter_empty_conv)

text \<open>No link is the beginning of another one, apart from the dashboard's and that of the settings.\<close>

definition apart :: "string \<Rightarrow> string \<Rightarrow> bool" where
  "apart a b \<longleftrightarrow> \<not> startsWith a b \<and> \<not> startsWith b a"

lemma startsWith_both: "startsWith s a \<Longrightarrow> startsWith s b \<Longrightarrow> startsWith a b \<or> startsWith b a"
  by (auto simp: startsWith_iff append_eq_append_conv2)

lemma apart_exclusive: "apart a b \<Longrightarrow> startsWith s a \<Longrightarrow> \<not> startsWith s b"
  using startsWith_both by (auto simp: apart_def)

text \<open>What an active entry says of the path.\<close>

definition entry_active :: "string \<Rightarrow> string \<Rightarrow> bool" where
  "entry_active pathname href =
     (if href = ''/'' \<or> href = ''/settings'' then pathname = href else startsWith pathname href)"

definition sidebar_hrefs :: "bool \<Rightarrow> bool \<Rightarrow> string list" where
  "sidebar_hrefs isAdmin isSuperAdmin = map ROUTES
     ([DASHBOARD, PACKAGES, RELEASES, ALERTS, NOTIFICATIONS, WORKSPACES] @
      (if isAdmin then [SETTINGS, SETTINGS_NOTIFICATIONS, SETTINGS_QUEUE] else []) @ [SETTINGS_API_KEYS] @
      (if isSuperAdmin then [ADMIN_SECURITY, ADMIN_USERS, ADMIN_AUDIT_LOGS] else []))"

definition exclusive_hrefs :: "string \<Rightarrow> string \<Rightarrow> bool" where
  "exclusive_hrefs a b =
     (if a \<in> {''/'', ''/settings''} then (if b \<in> {''/'', ''/settings''} then a \<noteq> b else \<not> startsWith a b)
      else if b \<in> {''/'', ''/settings''} then \<not> startsWith b a else apart a b)"

lemma exclusive_hrefs: "exclusive_hrefs a b \<Longrightarrow> entry_active p a \<Longrightarrow> \<not> entry_active p b"
  using apart_exclusive [of a b p] by (auto simp: exclusive_hrefs_def entry_active_def split: if_splits)

lemma sidebar_hrefs_exclusive: "sorted_wrt exclusive_hrefs (sidebar_hrefs a b)"
proof -
  have "sorted_wrt exclusive_hrefs (sidebar_hrefs True True)" "sorted_wrt exclusive_hrefs (sidebar_hrefs True False)"
    "sorted_wrt exclusive_hrefs (sidebar_hrefs False True)" "sorted_wrt exclusive_hrefs (sidebar_hrefs False False)"
    by code_simp+
  then show ?thesis by (cases a; cases b) simp_all
qed

lemmas sidebar_items = navItems_def managementItems_def platformAdminItems_def nav_entry_def role_allows_def

lemma sidebar_hrefs:
  "map (\<lambda>(i, _). ROUTES (ni_href i)) (sidebar role isSuperAdmin p) = sidebar_hrefs (hasMinimumRole role admin) isSuperAdmin"
  by (simp add: sidebar_def sidebar_hrefs_def sidebar_items)

lemma active_entry:
  "(i, True) \<in> set (sidebar role isSuperAdmin p) \<Longrightarrow> entry_active p (ROUTES (ni_href i))"
  by (auto simp: sidebar_def sidebar_items nav_active_def management_active_def platform_active_def entry_active_def
      startsWith_iff split: if_splits)

text \<open>At most one entry of the sidebar is highlighted, whatever the path and the user, and a page the
  sidebar leads to has its own entry highlighted.\<close>

theorem sidebar_one_active:
  "length (filter snd (sidebar role isSuperAdmin pathname)) \<le> 1 \<and>
   list_all (\<lambda>(i, _). (i, True) \<in> set (sidebar role isSuperAdmin (ROUTES (ni_href i)))) (sidebar role isSuperAdmin pathname)"
proof
  let ?S = "sidebar role isSuperAdmin pathname"
  have "sorted_wrt exclusive_hrefs (map (\<lambda>(i, _). ROUTES (ni_href i)) ?S)"
    unfolding sidebar_hrefs by (rule sidebar_hrefs_exclusive)
  then have "sorted_wrt (\<lambda>x y. exclusive_hrefs (ROUTES (ni_href (fst x))) (ROUTES (ni_href (fst y)))) ?S"
    by (simp add: sorted_wrt_map case_prod_unfold)
  then have "sorted_wrt (\<lambda>x y. \<not> (snd x \<and> snd y)) ?S"
  proof (rule sorted_wrt_mono_rel [rotated])
    fix x y assume x: "x \<in> set ?S" and y: "y \<in> set ?S"
      and apart: "exclusive_hrefs (ROUTES (ni_href (fst x))) (ROUTES (ni_href (fst y)))"
    show "\<not> (snd x \<and> snd y)"
    proof
      assume both: "snd x \<and> snd y"
      then have "entry_active pathname (ROUTES (ni_href (fst x)))" "entry_active pathname (ROUTES (ni_href (fst y)))"
        using x y active_entry [of "fst x" role isSuperAdmin pathname] active_entry [of "fst y" role isSuperAdmin pathname]
        by (cases x; cases y; simp)+
      then show False using exclusive_hrefs [OF apart] by blast
    qed
  qed
  then show "length (filter snd ?S) \<le> 1" by (rule exclusive_filter)
  show "list_all (\<lambda>(i, _). (i, True) \<in> set (sidebar role isSuperAdmin (ROUTES (ni_href i)))) ?S"
    by (simp add: sidebar_def sidebar_items nav_active_def management_active_def platform_active_def)
qed

section \<open>The menus and the guards\<close>

lemma permitted_hrefs:
  "map ci_href (permittedItems u) = sidebar_links (pu_workspaceRole u) (pu_superAdmin u)"
  by (simp add: permittedItems_def commandItems_def navigation_commands_def management_commands_def admin_commands_def
      account_commands_def command_def permitted_def sidebar_links_def account_menu_def sidebar_def sidebar_items)

lemma sidebar_links_eq:
  "sidebar_links role isSuperAdmin =
     [DASHBOARD, PACKAGES, RELEASES, ALERTS, NOTIFICATIONS, WORKSPACES] @
     (if hasMinimumRole role admin then [SETTINGS, SETTINGS_NOTIFICATIONS, SETTINGS_QUEUE] else []) @ [SETTINGS_API_KEYS] @
     (if isSuperAdmin then [ADMIN_SECURITY, ADMIN_USERS, ADMIN_AUDIT_LOGS] else []) @ [ACCOUNT, SETTINGS_SESSIONS]"
  by (simp add: sidebar_links_def account_menu_def sidebar_def sidebar_items)

lemma command_classes:
  "list_all (\<lambda>item. \<not> isPublicPath (ROUTES (ci_href item)) \<and> \<not> isAuthPagePath (ROUTES (ci_href item)) \<and>
     isSuperAdminPath (ROUTES (ci_href item)) = ci_superAdminOnly item) commandItems"
  by code_simp

lemma permitted_class:
  assumes "item \<in> set (permittedItems u)"
  shows "\<not> isPublicPath (ROUTES (ci_href item))" and "\<not> isAuthPagePath (ROUTES (ci_href item))"
    and "isSuperAdminPath (ROUTES (ci_href item)) = ci_superAdminOnly item" and "ci_superAdminOnly item \<Longrightarrow> pu_superAdmin u"
  using assms command_classes by (auto simp: permittedItems_def permitted_def list_all_iff)

text \<open>The palette offers the pages the sidebar links, in the sidebar's order, and both offer only pages that
  the proxy and the super-admin guard let the user see; without super-admin rights neither leads
  to a page of the platform administration.\<close>

theorem menus_agree_with_guards:
  assumes "find_cookie AUTH_COOKIE cookies \<noteq> None"
    and "pu_superAdmin u \<longleftrightarrow> find_cookie SUPER_ADMIN_COOKIE cookies = Some ''1''"
  shows "map ci_href (permittedItems u) = sidebar_links (pu_workspaceRole u) (pu_superAdmin u) \<and>
    list_all (\<lambda>item. proxy cookies (ROUTES (ci_href item)) q = Next \<and>
      (isSuperAdminPath (ROUTES (ci_href item)) = ci_superAdminOnly item)) (permittedItems u)"
proof
  show "map ci_href (permittedItems u) = sidebar_links (pu_workspaceRole u) (pu_superAdmin u)"
    by (rule permitted_hrefs)
  have "proxy cookies (ROUTES (ci_href item)) q = Next" if "item \<in> set (permittedItems u)" for item
    using permitted_class [OF that] assms by (auto simp: proxy_def Let_def)
  then show "list_all (\<lambda>item. proxy cookies (ROUTES (ci_href item)) q = Next \<and>
      (isSuperAdminPath (ROUTES (ci_href item)) = ci_superAdminOnly item)) (permittedItems u)"
    using permitted_class(3) by (auto simp: list_all_iff)
qed

definition plain_user :: palette_user where
  "plain_user = \<lparr>pu_signedIn = True, pu_workspaceRole = Some viewer, pu_superAdmin = False\<rparr>"

lemma menus_agree_with_guards_witness:
  "proxy [\<lparr>ck_name = AUTH_COOKIE, ck_value = ''1'', ck_secure = False\<rparr>] ''/settings/api-keys'' [] = Next \<and>
   map ci_href (permittedItems plain_user) =
     [DASHBOARD, PACKAGES, RELEASES, ALERTS, NOTIFICATIONS, WORKSPACES, SETTINGS_API_KEYS, ACCOUNT, SETTINGS_SESSIONS]"
proof -
  let ?c = "[\<lparr>ck_name = AUTH_COOKIE, ck_value = ''1'', ck_secure = False\<rparr>]"
  have "find_cookie AUTH_COOKIE ?c \<noteq> None"
    "pu_superAdmin plain_user \<longleftrightarrow> find_cookie SUPER_ADMIN_COOKIE ?c = Some ''1''"
    by (simp_all add: find_cookie_def AUTH_COOKIE_def SUPER_ADMIN_COOKIE_def plain_user_def)
  note all = menus_agree_with_guards [OF this, of "[]"]
  then have hrefs: "map ci_href (permittedItems plain_user) =
     [DASHBOARD, PACKAGES, RELEASES, ALERTS, NOTIFICATIONS, WORKSPACES, SETTINGS_API_KEYS, ACCOUNT, SETTINGS_SESSIONS]"
    by (simp add: sidebar_links_eq hasMinimumRole_def plain_user_def)
  then have "SETTINGS_API_KEYS \<in> set (map ci_href (permittedItems plain_user))" by simp
  then obtain item where "item \<in> set (permittedItems plain_user)" "ci_href item = SETTINGS_API_KEYS" by auto
  with all have "proxy ?c (ROUTES SETTINGS_API_KEYS) [] = Next" by (auto simp: list_all_iff)
  with hrefs show ?thesis by simp
qed

section \<open>The highlighted command\<close>

definition index_ok :: "int \<Rightarrow> int \<Rightarrow> bool" where
  "index_ok n i \<longleftrightarrow> - 1 \<le> i \<and> (0 < n \<longrightarrow> 0 \<le> i \<and> i < n)"

lemma key_index:
  assumes "index_ok (int (length (filteredItems u (pt_query s)))) (selectedIndex s)"
  shows "index_ok (int (length (filteredItems u (pt_query s)))) (selectedIndex (snd (handleKeyDown u key s)))"
    and "pt_query (snd (handleKeyDown u key s)) = pt_query s"
proof -
  have stay: "selectedIndex (snd (case selected u s of None \<Rightarrow> (None, s) | Some item \<Rightarrow> navigateTo item s)) = selectedIndex s"
    "pt_query (snd (case selected u s of None \<Rightarrow> (None, s) | Some item \<Rightarrow> navigateTo item s)) = pt_query s"
    by (simp_all add: navigateTo_def split: option.split)
  show "pt_query (snd (handleKeyDown u key s)) = pt_query s" by (simp add: handleKeyDown_def Let_def stay)
  consider "key = ''ArrowDown''" | "key = ''ArrowUp''" | "key = ''Enter''" | "key = ''Home''" | "key = ''End''"
    | "key \<notin> {''ArrowDown'', ''ArrowUp'', ''Enter'', ''Home'', ''End''}" by blast
  then show "index_ok (int (length (filteredItems u (pt_query s)))) (selectedIndex (snd (handleKeyDown u key s)))"
    using assms by cases (simp_all add: handleKeyDown_def Let_def stay, auto simp: index_ok_def)
qed

lemma palette_index:
  assumes "palette_run u s"
  shows "index_ok (int (length (filteredItems u (pt_query s)))) (selectedIndex s)"
  using assms
proof (induction rule: palette_run.induct)
  case start
  then show ?case by (simp add: mount_palette_def index_ok_def)
next
  case (step s out s')
  have zero: "index_ok n 0" for n by (simp add: index_ok_def)
  from step(2,3) show ?case
  proof (induction rule: palette_step.induct)
    case (pressed s key)
    then show ?case using key_index by simp
  next
    case (hovered s i)
    then show ?case by (simp add: hover_def index_ok_def)
  qed (simp_all add: global_key_def handleOpenChange_def change_query_def navigateTo_def zero)
qed

lemma filtered_subset: "set (filteredItems u q) \<subseteq> set (permittedItems u)"
  by (auto simp: filteredItems_def)

text \<open>As long as any command matches, exactly one row of the palette is highlighted and the enter key opens
  the page of that row, which is one the user may open; without a match the key does nothing.\<close>

theorem enter_opens_highlighted:
  assumes "palette_run u s"
  shows "if filteredItems u (pt_query s) = [] then handleKeyDown u ''Enter'' s = (None, s)
    else (let item = filteredItems u (pt_query s) ! nat (selectedIndex s) in
      item \<in> set (filteredItems u (pt_query s)) \<and> permitted u item \<and>
      handleKeyDown u ''Enter'' s = (Some (ROUTES (ci_href item)), s\<lparr>pt_open := False\<rparr>))"
proof (cases "filteredItems u (pt_query s) = []")
  case False
  then have i: "0 \<le> selectedIndex s" "selectedIndex s < int (length (filteredItems u (pt_query s)))"
    using palette_index [OF assms] by (simp_all add: index_ok_def)
  then have "filteredItems u (pt_query s) ! nat (selectedIndex s) \<in> set (filteredItems u (pt_query s))"
    by (simp add: nat_less_iff)
  moreover from this have "permitted u (filteredItems u (pt_query s) ! nat (selectedIndex s))"
    using filtered_subset by (auto simp: permittedItems_def)
  ultimately show ?thesis using False i by (simp add: handleKeyDown_def selected_def navigateTo_def Let_def)
next
  case True
  then have "selected u s = None" by (simp add: selected_def Let_def)
  then show ?thesis using True by (simp add: handleKeyDown_def Let_def)
qed

lemma enter_opens_highlighted_witness:
  "\<exists>s. palette_run plain_user s \<and> filteredItems plain_user (pt_query s) \<noteq> [] \<and>
     fst (handleKeyDown plain_user ''Enter'' s) = Some ''/settings/api-keys''"
proof -
  define s where "s = change_query ''api'' (handleOpenChange True mount_palette)"
  have "palette_run plain_user (handleOpenChange True mount_palette)"
    by (rule palette_run.step [OF palette_run.start palette_step.opened]) (simp add: plain_user_def)
  then have run: "palette_run plain_user s" unfolding s_def
    by (rule palette_run.step [OF _ palette_step.typed]) (simp_all add: plain_user_def handleOpenChange_def)
  have found: "map ci_href (filteredItems plain_user ''api'') = [SETTINGS_API_KEYS]" by code_simp
  then have one: "filteredItems plain_user ''api'' \<noteq> []" "ci_href (filteredItems plain_user ''api'' ! 0) = SETTINGS_API_KEYS"
    by (cases "filteredItems plain_user ''api''"; simp)+
  have s: "pt_query s = ''api''" "selectedIndex s = 0" by (simp_all add: s_def change_query_def)
  with enter_opens_highlighted [OF run] one
  have "fst (handleKeyDown plain_user ''Enter'' s) = Some ''/settings/api-keys''" by (simp add: Let_def)
  with run s one show ?thesis by (metis (no_types))
qed

section \<open>The rows in their groups\<close>

lemma add_to_group_new: "g \<notin> fst ` set gs \<Longrightarrow> add_to_group g x gs = gs @ [(g, [x])]"
  by (induction gs) auto

lemma add_to_group_last: "g \<notin> fst ` set gs \<Longrightarrow> add_to_group g x (gs @ [(g, ys)]) = gs @ [(g, ys @ [x])]"
  by (induction gs) auto

abbreviation put_row :: "command_item \<times> nat \<Rightarrow> (string \<times> (command_item \<times> nat) list) list \<Rightarrow> (string \<times> (command_item \<times> nat) list) list" where
  "put_row \<equiv> \<lambda>(item, idx) groups. add_to_group (ci_group item) (item, idx) groups"

lemma fold_group:
  assumes "list_all (\<lambda>(item, idx). ci_group item = g) xs" and "g \<notin> fst ` set gs"
  shows "fold put_row xs gs = gs @ (if xs = [] then [] else [(g, xs)])"
  using assms(1)
proof (induction xs rule: rev_induct)
  case (snoc x xs)
  then show ?case using assms(2) by (cases x) (auto simp: add_to_group_new add_to_group_last)
qed simp

lemma fold_groups:
  assumes "distinct gs" and "set gs \<inter> fst ` set acc = {}"
    and "list_all2 (\<lambda>g xs. list_all (\<lambda>(item, idx). ci_group item = g) xs) gs xss"
  shows "fold put_row (concat xss) acc = acc @ filter (\<lambda>(g, xs). xs \<noteq> []) (zip gs xss)"
  using assms(3,1,2)
proof (induction gs xss arbitrary: acc rule: list_all2_induct)
  case (Cons g gs xs xss)
  then have "fold put_row xs acc = acc @ (if xs = [] then [] else [(g, xs)])" by (intro fold_group) auto
  then show ?case using Cons by auto
qed simp

lemma group_order:
  "\<exists>a b c d. filteredItems u q = a @ b @ c @ d \<and> list_all (\<lambda>i. ci_group i = ''Navigation'') a \<and>
     list_all (\<lambda>i. ci_group i = ''Management'') b \<and> list_all (\<lambda>i. ci_group i = ''Admin'') c \<and>
     list_all (\<lambda>i. ci_group i = ''Account'') d"
proof -
  define P where "P = (\<lambda>i. permitted u i \<and> (trim q = [] \<or> matches_query q i))"
  have "filteredItems u q = filter P commandItems"
    by (auto simp: filteredItems_def permittedItems_def P_def conj_commute intro: filter_cong)
  then have "filteredItems u q = filter P navigation_commands @ filter P management_commands @
      filter P admin_commands @ filter P account_commands" by (simp add: commandItems_def)
  moreover have "list_all (\<lambda>i. ci_group i = ''Navigation'') (filter P navigation_commands)"
    "list_all (\<lambda>i. ci_group i = ''Management'') (filter P management_commands)"
    "list_all (\<lambda>i. ci_group i = ''Admin'') (filter P admin_commands)"
    "list_all (\<lambda>i. ci_group i = ''Account'') (filter P account_commands)"
    by (auto simp: list_all_iff navigation_commands_def management_commands_def admin_commands_def account_commands_def command_def)
  ultimately show ?thesis by blast
qed

definition numbered :: "nat \<Rightarrow> 'a list \<Rightarrow> ('a \<times> nat) list" where
  "numbered n xs = zip xs [n..<n + length xs]"

lemma numbered_append: "numbered n (a @ b) = numbered n a @ numbered (n + length a) b"
proof -
  have "[n..<n + length (a @ b)] = [n..<n + length a] @ [n + length a..<n + length a + length b]"
    using upt_add_eq_append [of n "n + length a" "length b"] by (simp add: add.assoc)
  then show ?thesis by (simp add: numbered_def)
qed

lemma numbered_items: "list_all (\<lambda>i. P i) xs \<Longrightarrow> list_all (\<lambda>(i, n). P i) (numbered k xs)"
  by (auto simp: numbered_def list_all_iff dest: set_zip_leftD)

text \<open>The rows on the screen, group after group, are the matching commands in their order, numbered from
  zero without a gap: the arrow keys go through them from top to bottom.\<close>

theorem rows_in_order:
  "concat (map snd (groupedItems (filteredItems u q))) = zip (filteredItems u q) [0..<length (filteredItems u q)] \<and>
   list_all (\<lambda>(g, rows). rows \<noteq> [] \<and> list_all (\<lambda>(item, i). ci_group item = g) rows) (groupedItems (filteredItems u q))"
proof -
  obtain a b c d where split: "filteredItems u q = a @ b @ c @ d" and groups: "list_all (\<lambda>i. ci_group i = ''Navigation'') a"
    "list_all (\<lambda>i. ci_group i = ''Management'') b" "list_all (\<lambda>i. ci_group i = ''Admin'') c" "list_all (\<lambda>i. ci_group i = ''Account'') d"
    using group_order [of u q] by (elim exE conjE) (rule that)
  define za where "za = numbered 0 a"
  define zb where "zb = numbered (length a) b"
  define zc where "zc = numbered (length a + length b) c"
  define zd where "zd = numbered (length a + length b + length c) d"
  have "numbered 0 (filteredItems u q) = concat [za, zb, zc, zd]"
    by (simp add: split numbered_append za_def zb_def zc_def zd_def)
  then have rows: "zip (filteredItems u q) [0..<length (filteredItems u q)] = concat [za, zb, zc, zd]"
    by (simp only: numbered_def add_0)
  let ?gs = "[''Navigation'', ''Management'', ''Admin'', ''Account'']"
  have all: "list_all2 (\<lambda>g xs. list_all (\<lambda>(item, idx). ci_group item = g) xs) ?gs [za, zb, zc, zd]"
    using groups [THEN numbered_items] by (simp add: za_def zb_def zc_def zd_def)
  then have eq: "groupedItems (filteredItems u q) = filter (\<lambda>(g, xs). xs \<noteq> []) (zip ?gs [za, zb, zc, zd])"
    unfolding groupedItems_def rows by (subst fold_groups [of ?gs]) simp_all
  show ?thesis unfolding rows eq using all by simp
qed

section \<open>The trail of the breadcrumbs\<close>

definition crumb_ok :: "string \<times> string \<Rightarrow> bool" where
  "crumb_ok crumb = (case pageTitles (snd crumb) of None \<Rightarrow> True | Some t \<Rightarrow> fst crumb = t)"

lemma push_crumbs_trail:
  assumes "push_crumbs href segs crumbs = Some cs" and "list_all crumb_ok crumbs"
  shows "map snd cs = map snd crumbs @ map (\<lambda>i. href @ concat (map (\<lambda>s. ''/'' @ s) (take (Suc i) segs))) [0..<length segs] \<and>
    list_all crumb_ok cs"
  using assms
proof (induction href segs crumbs rule: push_crumbs.induct)
  case (2 href seg segs crumbs)
  let ?h = "href @ ''/'' @ seg"
  from 2(2) obtain lbl where lbl: "crumb_label ?h seg crumbs = Some lbl"
    and rest: "push_crumbs ?h segs (crumbs @ [(lbl, ?h)]) = Some cs"
    by (auto simp: Let_def split: option.splits)
  have "crumb_ok (lbl, ?h)" using lbl by (auto simp: crumb_ok_def crumb_label_def split: option.splits)
  then have "list_all crumb_ok (crumbs @ [(lbl, ?h)])" using 2(3) by simp
  from 2(1) [OF refl lbl rest this] show ?case
    by (simp add: upt_rec [of 0 "Suc (length segs)"] map_Suc_upt [symmetric] o_def del: upt_Suc map_Suc_upt)
qed simp

lemma concat_join: "xs \<noteq> [] \<Longrightarrow> concat (map (\<lambda>s. ''/'' @ s) xs) = ''/'' @ join_with ''/'' xs"
  by (induction xs rule: join_with.induct [of _ "''/''"]) simp_all

text \<open>The breadcrumbs of a page are its ancestors: the i-th one links the first i segments of the path, the
  last one the page itself, and every one that has a title of its own carries that title.\<close>

theorem breadcrumbs_are_ancestors:
  assumes "breadcrumbs pathname = Some cs" and "path_segments pathname \<noteq> []"
  shows "map snd cs = map (\<lambda>i. ''/'' @ join_with ''/'' (take (Suc i) (path_segments pathname))) [0..<length (path_segments pathname)] \<and>
    list_all (\<lambda>(lbl, href). case pageTitles href of None \<Rightarrow> True | Some t \<Rightarrow> lbl = t) cs"
proof -
  let ?s = "path_segments pathname"
  have "push_crumbs [] ?s [] = Some cs" using assms by (simp add: breadcrumbs_def Let_def)
  from push_crumbs_trail [OF this] have
    "map snd cs = map (\<lambda>i. concat (map (\<lambda>s. ''/'' @ s) (take (Suc i) ?s))) [0..<length ?s]" and ok: "list_all crumb_ok cs"
    by simp_all
  moreover have "concat (map (\<lambda>s. ''/'' @ s) (take (Suc i) ?s)) = ''/'' @ join_with ''/'' (take (Suc i) ?s)" for i
    using assms(2) by (intro concat_join) simp
  ultimately have "map snd cs = map (\<lambda>i. ''/'' @ join_with ''/'' (take (Suc i) ?s)) [0..<length ?s]" by simp
  with ok show ?thesis by (simp add: crumb_ok_def [abs_def] case_prod_unfold)
qed

lemma breadcrumbs_are_ancestors_witness:
  "breadcrumbs ''/settings/api-keys/'' = Some [(''Settings'', ''/settings''), (''API Keys'', ''/settings/api-keys'')] \<and>
   map snd [(''Settings'', ''/settings''), (''API Keys'', ''/settings/api-keys'')] =
     map (\<lambda>i. ''/'' @ join_with ''/'' (take (Suc i) (path_segments ''/settings/api-keys/''))) [0..<2]"
proof -
  have c: "breadcrumbs ''/settings/api-keys/'' = Some [(''Settings'', ''/settings''), (''API Keys'', ''/settings/api-keys'')]"
    "path_segments ''/settings/api-keys/'' = [''settings'', ''api-keys'']" by code_simp+
  then have "path_segments ''/settings/api-keys/'' \<noteq> []" by simp
  from breadcrumbs_are_ancestors [OF c(1) this] c show ?thesis by (simp add: numeral_2_eq_2)
qed

text \<open>A malformed escape in an unknown segment is an exception while the header is drawn.\<close>

lemma breadcrumbs_malformed: "breadcrumbs ''/packages/%'' = None \<and> breadcrumbs ''/packages/a%20b'' = Some
    [(''Packages'', ''/packages''), (''A B'', ''/packages/a%20b'')]"
  by code_simp

end
