(* ===== verification/Account_Views.thy ===== *)
theory Account_Views
  imports Account_Forms Platform_Hooks Shell
begin

text \<open>
  The pages of one's own account: the confirmation dialog they share (\<open>ui/feedback/confirm-dialog.tsx\<close>),
  the API keys (\<open>features/account/ui/api-keys-view.tsx\<close>), the sessions (\<open>sessions-view.tsx\<close>) and the
  profile and password sections (\<open>account-view.tsx\<close>). The state of a form's handlers is a record; a
  handler that sends a request is split at the request, and the rest of it takes the answer.
\<close>

section \<open>The confirmation dialog\<close>

record confirm_dialog =
  cd_open :: bool
  cd_pending :: bool
  cd_input :: string

definition closed_dialog :: confirm_dialog where
  "closed_dialog = \<lparr>cd_open = False, cd_pending = False, cd_input = []\<rparr>"

definition confirmMatches :: "string option \<Rightarrow> confirm_dialog \<Rightarrow> bool" where
  "confirmMatches confirmText d =
     (case confirmText of None \<Rightarrow> True | Some t \<Rightarrow> t = [] \<or> cd_input d = t)"

definition set_dialog_open :: "bool \<Rightarrow> confirm_dialog \<Rightarrow> confirm_dialog" where
  "set_dialog_open b d = (if b then d\<lparr>cd_open := True\<rparr> else d\<lparr>cd_open := False, cd_input := []\<rparr>)"

definition type_confirmation :: "string \<Rightarrow> confirm_dialog \<Rightarrow> confirm_dialog" where
  "type_confirmation v d = d\<lparr>cd_input := v\<rparr>"

text \<open>The button, and \<open>handleConfirm\<close> up to the action and after it.\<close>

definition confirm_enabled :: "string option \<Rightarrow> confirm_dialog \<Rightarrow> bool" where
  "confirm_enabled confirmText d \<longleftrightarrow> cd_open d \<and> \<not> (cd_pending d \<or> \<not> confirmMatches confirmText d)"

definition begin_confirm :: "confirm_dialog \<Rightarrow> confirm_dialog" where
  "begin_confirm d = d\<lparr>cd_pending := True\<rparr>"

definition end_confirm :: "bool \<Rightarrow> confirm_dialog \<Rightarrow> confirm_dialog" where
  "end_confirm succeeded d = (if succeeded then set_dialog_open False d else d)\<lparr>cd_pending := False\<rparr>"

text \<open>The events of a dialog; \<open>Confirmed\<close> runs the action.\<close>

datatype dialog_event = DialogOpened | DialogClosed | DialogTyped string | DialogConfirmed | DialogSettled bool

inductive dialog_step :: "string option \<Rightarrow> confirm_dialog \<Rightarrow> dialog_event \<Rightarrow> confirm_dialog \<Rightarrow> bool" for t where
  opens: "\<not> cd_open d \<Longrightarrow> dialog_step t d DialogOpened (set_dialog_open True d)"
| closes: "cd_open d \<Longrightarrow> dialog_step t d DialogClosed (set_dialog_open False d)"
| types: "cd_open d \<Longrightarrow> t \<noteq> None \<Longrightarrow> dialog_step t d (DialogTyped v) (type_confirmation v d)"
| confirms: "confirm_enabled t d \<Longrightarrow> dialog_step t d DialogConfirmed (begin_confirm d)"
| settles: "cd_pending d \<Longrightarrow> dialog_step t d (DialogSettled ok) (end_confirm ok d)"

inductive dialog_run :: "string option \<Rightarrow> dialog_event list \<Rightarrow> confirm_dialog \<Rightarrow> bool" for t where
  start: "dialog_run t [] closed_dialog"
| step: "dialog_run t es d \<Longrightarrow> dialog_step t d e d' \<Longrightarrow> dialog_run t (e # es) d'"

section \<open>API keys\<close>

definition API_KEY_ROLE_HIERARCHY :: "WorkspaceRole list" where
  "API_KEY_ROLE_HIERARCHY = [owner, admin, member, viewer]"

text \<open>The role is one of the four by its type, and any text is an expiration: neither raises an issue.\<close>

definition apiKeySchema :: "string \<Rightarrow> issues" where
  "apiKeySchema name =
     checks ''name'' [(1 \<le> length name, ''Key name is required''), (length name \<le> 100, ''Key name too long'')]"

definition ROLE_OPTIONS :: "(WorkspaceRole \<times> string \<times> string) list" where
  "ROLE_OPTIONS =
     [(admin, ''Admin'', ''Administrative access (cannot delete workspace)''),
      (member, ''Member'', ''Can read and write data''), (viewer, ''Viewer'', ''Read-only access'')]"

definition ELEVATED_ROLES :: "WorkspaceRole list" where
  "ELEVATED_ROLES = [admin]"

definition can_create_key :: "WorkspaceRole option \<Rightarrow> bool" where
  "can_create_key currentRole = hasMinimumRole currentRole member"

definition availableRoles :: "WorkspaceRole option \<Rightarrow> WorkspaceRole list" where
  "availableRoles currentRole = map fst
     (case currentRole of
        Some r \<Rightarrow> filter (\<lambda>(v, _). indexOf API_KEY_ROLE_HIERARCHY r \<le> indexOf API_KEY_ROLE_HIERARCHY v) ROLE_OPTIONS
      | None \<Rightarrow> filter (\<lambda>(v, _). v = viewer) ROLE_OPTIONS)"

text \<open>
  A \<open>Date\<close> by its local reading: day, hour and minute. \<open>clock\<close> is what \<open>Date\<close> makes of a local reading; it
  differs from its argument only where the clocks were put forward.
\<close>

type_synonym reading = "int \<times> nat \<times> nat"

record keys_view =
  kv_createOpen :: bool
  kv_name :: string
  kv_role :: WorkspaceRole
  kv_expiresAt :: "reading option"
  kv_hour :: nat
  kv_minute :: nat
  kv_createError :: string
  kv_errors :: "(string \<times> string) list"
  kv_submitted :: bool
  kv_pendingRole :: "WorkspaceRole option"
  kv_showKey :: bool
  kv_newKey :: string
  kv_deleteTarget :: "string option"

definition mount_keys :: keys_view where
  "mount_keys =
     \<lparr>kv_createOpen = False, kv_name = [], kv_role = viewer, kv_expiresAt = None, kv_hour = 23, kv_minute = 55,
      kv_createError = [], kv_errors = [], kv_submitted = False, kv_pendingRole = None, kv_showKey = False,
      kv_newKey = [], kv_deleteTarget = None\<rparr>"

definition change_key_name :: "string \<Rightarrow> keys_view \<Rightarrow> keys_view" where
  "change_key_name v s =
     (let s = s\<lparr>kv_name := v\<rparr> in if kv_submitted s then s\<lparr>kv_errors := parseFieldErrors (apiKeySchema v)\<rparr> else s)"

definition handleRoleSelect :: "WorkspaceRole \<Rightarrow> keys_view \<Rightarrow> keys_view" where
  "handleRoleSelect role s = (if role \<in> set ELEVATED_ROLES then s\<lparr>kv_pendingRole := Some role\<rparr> else s\<lparr>kv_role := role\<rparr>)"

definition handleConfirmElevatedRole :: "keys_view \<Rightarrow> keys_view" where
  "handleConfirmElevatedRole s =
     (case kv_pendingRole s of None \<Rightarrow> s | Some r \<Rightarrow> s\<lparr>kv_role := r, kv_pendingRole := None\<rparr>)"

definition handleCancelElevatedRole :: "keys_view \<Rightarrow> keys_view" where
  "handleCancelElevatedRole s = s\<lparr>kv_pendingRole := None\<rparr>"

subsection \<open>The expiration\<close>

definition select_date :: "(reading \<Rightarrow> reading) \<Rightarrow> int option \<Rightarrow> keys_view \<Rightarrow> keys_view" where
  "select_date clock date s =
     (case date of
        None \<Rightarrow> s
      | Some day \<Rightarrow>
          (let (h, m) = (case kv_expiresAt s of Some (_, h, m) \<Rightarrow> (h, m) | None \<Rightarrow> (kv_hour s, kv_minute s)) in
           s\<lparr>kv_expiresAt := Some (clock (day, h, m)), kv_hour := h, kv_minute := m\<rparr>))"

definition date_disabled :: "int \<Rightarrow> int \<Rightarrow> bool" where
  "date_disabled today date \<longleftrightarrow> date < today"

definition select_hour :: "(reading \<Rightarrow> reading) \<Rightarrow> nat \<Rightarrow> keys_view \<Rightarrow> keys_view" where
  "select_hour clock h s =
     s\<lparr>kv_hour := h, kv_expiresAt := map_option (\<lambda>(day, _, m). clock (day, h, m)) (kv_expiresAt s)\<rparr>"

definition select_minute :: "(reading \<Rightarrow> reading) \<Rightarrow> nat \<Rightarrow> keys_view \<Rightarrow> keys_view" where
  "select_minute clock m s =
     s\<lparr>kv_minute := m, kv_expiresAt := map_option (\<lambda>(day, h, _). clock (day, h, m)) (kv_expiresAt s)\<rparr>"

definition hour_options :: "nat list" where
  "hour_options = [0..<24]"

definition minute_options :: "nat list" where
  "minute_options = map (\<lambda>i. i * 5) [0..<12]"

subsection \<open>Creating a key\<close>

text \<open>\<open>toISO\<close> is \<open>toISOString\<close> of a reading.\<close>

definition key_request :: "(reading \<Rightarrow> string) \<Rightarrow> keys_view \<Rightarrow> CreateApiKeyRequest" where
  "key_request toISO s =
     \<lparr>ck_name = kv_name s, ck_role = Some (role_name (kv_role s)), ck_expiresAt = map_option toISO (kv_expiresAt s)\<rparr>"

definition submit_key :: "(reading \<Rightarrow> string) \<Rightarrow> keys_view \<Rightarrow> api_call option \<times> keys_view" where
  "submit_key toISO s =
     (let s = s\<lparr>kv_submitted := True, kv_createError := [], kv_errors := []\<rparr>; iss = apiKeySchema (kv_name s) in
      if iss \<noteq> [] then (None, s\<lparr>kv_errors := parseFieldErrors iss\<rparr>)
      else (Some (m_call useCreateApiKey (key_request toISO s)), s))"

definition key_created :: "string \<Rightarrow> keys_view \<Rightarrow> keys_view" where
  "key_created key s =
     s\<lparr>kv_newKey := key, kv_createOpen := False, kv_showKey := True, kv_submitted := False, kv_name := [],
       kv_role := viewer, kv_expiresAt := None, kv_hour := 23, kv_minute := 55\<rparr>"

definition key_refused :: "thrown \<Rightarrow> keys_view \<Rightarrow> keys_view" where
  "key_refused e s = s\<lparr>kv_createError := raw_message ''Failed to create API key'' e\<rparr>"

definition confirm_delete_key :: "keys_view \<Rightarrow> api_call option" where
  "confirm_delete_key s = map_option (m_call useDeleteApiKey) (kv_deleteTarget s)"

text \<open>The events of the page; each comes with the role the user has when it happens.\<close>

datatype key_event =
    Dialog bool
  | TypeName string
  | PickRole WorkspaceRole
  | ConfirmElevated
  | CancelElevated
  | PickDate "int option"
  | PickHour nat
  | PickMinute nat
  | SubmitKey
  | KeyCreated string
  | KeyRefused thrown
  | CloseKey

fun key_step :: "(reading \<Rightarrow> reading) \<Rightarrow> (reading \<Rightarrow> string) \<Rightarrow> key_event \<Rightarrow> keys_view \<Rightarrow> keys_view" where
  "key_step clock toISO (Dialog b) s = s\<lparr>kv_createOpen := b\<rparr>"
| "key_step clock toISO (TypeName v) s = change_key_name v s"
| "key_step clock toISO (PickRole r) s = handleRoleSelect r s"
| "key_step clock toISO ConfirmElevated s = handleConfirmElevatedRole s"
| "key_step clock toISO CancelElevated s = handleCancelElevatedRole s"
| "key_step clock toISO (PickDate d) s = select_date clock d s"
| "key_step clock toISO (PickHour h) s = select_hour clock h s"
| "key_step clock toISO (PickMinute m) s = select_minute clock m s"
| "key_step clock toISO SubmitKey s = snd (submit_key toISO s)"
| "key_step clock toISO (KeyCreated k) s = key_created k s"
| "key_step clock toISO (KeyRefused e) s = key_refused e s"
| "key_step clock toISO CloseKey s = s\<lparr>kv_showKey := False\<rparr>"

definition keys_after :: "(reading \<Rightarrow> reading) \<Rightarrow> (reading \<Rightarrow> string) \<Rightarrow> (WorkspaceRole option \<times> key_event) list \<Rightarrow> keys_view" where
  "keys_after clock toISO es = foldl (\<lambda>s (_, e). key_step clock toISO e s) mount_keys es"

definition offered_event :: "WorkspaceRole option \<times> key_event \<Rightarrow> bool" where
  "offered_event re =
     (case snd re of
        PickRole r \<Rightarrow> r \<in> set (availableRoles (fst re))
      | PickHour h \<Rightarrow> h \<in> set hour_options
      | PickMinute m \<Rightarrow> m \<in> set minute_options
      | _ \<Rightarrow> True)"

section \<open>A confirmed action was confirmed\<close>

lemma dialog_inv:
  assumes "dialog_run t es d"
  shows "(\<not> cd_open d \<longrightarrow> cd_input d = []) \<and>
    (cd_input d \<noteq> [] \<longrightarrow>
      (\<exists>pre post. es = pre @ DialogTyped (cd_input d) # post \<and> set pre \<subseteq> {DialogConfirmed, DialogSettled False})) \<and>
    count_list es DialogConfirmed = count_list es (DialogSettled True) + count_list es (DialogSettled False) + (if cd_pending d then 1 else 0)"
  using assms
proof (induction rule: dialog_run.induct)
  case start
  then show ?case by (simp add: closed_dialog_def)
next
  case (step es d e d')
  have keep: "\<exists>pre post. e # es = pre @ DialogTyped (cd_input d) # post \<and> set pre \<subseteq> {DialogConfirmed, DialogSettled False}"
    if "e \<in> {DialogConfirmed, DialogSettled False}" "cd_input d \<noteq> []"
  proof -
    from step.IH that(2) obtain pre post where "es = pre @ DialogTyped (cd_input d) # post" "set pre \<subseteq> {DialogConfirmed, DialogSettled False}"
      by blast
    then have "e # es = (e # pre) @ DialogTyped (cd_input d) # post" "set (e # pre) \<subseteq> {DialogConfirmed, DialogSettled False}"
      using that(1) by simp_all
    then show ?thesis by blast
  qed
  from step(2) show ?case
  proof cases
    case opens
    with step.IH show ?thesis by (simp add: set_dialog_open_def)
  next
    case closes
    with step.IH show ?thesis by (simp add: set_dialog_open_def)
  next
    case (types v)
    then have "e # es = [] @ DialogTyped (cd_input d') # es" by (simp add: type_confirmation_def)
    then have "\<exists>pre post. e # es = pre @ DialogTyped (cd_input d') # post \<and> set pre \<subseteq> {DialogConfirmed, DialogSettled False}"
      by (intro exI [of _ "[]"] exI [of _ es]) simp
    moreover have "cd_open d'" using types by (simp add: type_confirmation_def)
    moreover have "count_list (e # es) DialogConfirmed =
        count_list (e # es) (DialogSettled True) + count_list (e # es) (DialogSettled False) + (if cd_pending d' then 1 else 0)"
      using types step.IH by (simp add: type_confirmation_def)
    ultimately show ?thesis by blast
  next
    case confirms
    then have "cd_open d" "\<not> cd_pending d" by (simp_all add: confirm_enabled_def)
    with confirms keep step.IH show ?thesis by (simp add: begin_confirm_def)
  next
    case (settles ok)
    with keep step.IH show ?thesis by (cases ok) (simp_all add: end_confirm_def set_dialog_open_def)
  qed
qed

text \<open>An action that asks for a text runs only after exactly that text was typed, in the same opening of the
  dialog and with nothing typed since; and no action starts while the one before is running.\<close>

theorem action_needs_text:
  assumes "dialog_run (Some t) (DialogConfirmed # es) d" and "t \<noteq> []"
  shows "(\<exists>pre post. es = pre @ DialogTyped t # post \<and> set pre \<subseteq> {DialogConfirmed, DialogSettled False}) \<and>
    count_list es DialogConfirmed = count_list es (DialogSettled True) + count_list es (DialogSettled False)"
proof -
  from assms(1) obtain d0 where run: "dialog_run (Some t) es d0" and "dialog_step (Some t) d0 DialogConfirmed d"
    by (auto elim: dialog_run.cases)
  then have "confirm_enabled (Some t) d0" by (auto elim: dialog_step.cases)
  then have "cd_input d0 = t" "\<not> cd_pending d0" using assms(2) by (simp_all add: confirm_enabled_def confirmMatches_def)
  with dialog_inv [OF run] assms(2) show ?thesis by auto
qed

lemma action_needs_text_witness:
  "\<exists>d. dialog_run (Some ''prod'') [DialogConfirmed, DialogTyped ''prod'', DialogOpened] d \<and>
     (\<exists>pre post. [DialogTyped ''prod'', DialogOpened] = pre @ DialogTyped ''prod'' # post \<and>
        set pre \<subseteq> {DialogConfirmed, DialogSettled False})"
proof -
  define d1 where "d1 = set_dialog_open True closed_dialog"
  define d2 where "d2 = type_confirmation ''prod'' d1"
  define d where "d = begin_confirm d2"
  have "dialog_run (Some ''prod'') [DialogOpened] d1"
    unfolding d1_def by (rule dialog_run.step [OF dialog_run.start dialog_step.opens]) (simp add: closed_dialog_def)
  then have "dialog_run (Some ''prod'') [DialogTyped ''prod'', DialogOpened] d2"
    unfolding d2_def by (rule dialog_run.step [OF _ dialog_step.types]) (simp_all add: d1_def set_dialog_open_def)
  then have "dialog_run (Some ''prod'') [DialogConfirmed, DialogTyped ''prod'', DialogOpened] d"
    unfolding d_def
    by (rule dialog_run.step [OF _ dialog_step.confirms])
      (simp add: d2_def d1_def set_dialog_open_def closed_dialog_def type_confirmation_def confirm_enabled_def confirmMatches_def)
  moreover from action_needs_text [OF this]
  have "\<exists>pre post. [DialogTyped ''prod'', DialogOpened] = pre @ DialogTyped ''prod'' # post \<and>
      set pre \<subseteq> {DialogConfirmed, DialogSettled False}" by simp
  ultimately show ?thesis by (intro exI [of _ d]) (rule conjI)
qed

section \<open>The role of a key\<close>

lemma hierarchy_order: "indexOf API_KEY_ROLE_HIERARCHY r = 3 - getRoleLevel r"
  by (cases r) (simp_all add: API_KEY_ROLE_HIERARCHY_def)

text \<open>The two hierarchies of the code agree: a role is offered if it is not above the user's own.\<close>

lemma available_iff:
  "r \<in> set (availableRoles current) \<longleftrightarrow> r \<noteq> owner \<and> (r = viewer \<or> (\<exists>c. current = Some c \<and> r \<le> c))"
  by (cases r) (auto simp: availableRoles_def ROLE_OPTIONS_def hierarchy_order less_eq_WorkspaceRole_def split: option.splits,
    (case_tac x2; simp)+)

definition role_backed :: "(WorkspaceRole option \<times> key_event) list \<Rightarrow> WorkspaceRole \<Rightarrow> bool" where
  "role_backed es r \<longleftrightarrow> r \<noteq> owner \<and> (r = viewer \<or> (\<exists>c. Some c \<in> fst ` set es \<and> r \<le> c))"

lemma role_backed_more: "role_backed es r \<Longrightarrow> role_backed (es @ [e]) r"
  by (auto simp: role_backed_def)

lemma key_step_frame:
  "kv_role (change_key_name v s) = kv_role s" "kv_pendingRole (change_key_name v s) = kv_pendingRole s"
  "kv_role (select_date clock d s) = kv_role s" "kv_pendingRole (select_date clock d s) = kv_pendingRole s"
  "kv_role (select_hour clock h s) = kv_role s" "kv_pendingRole (select_hour clock h s) = kv_pendingRole s"
  "kv_role (select_minute clock h s) = kv_role s" "kv_pendingRole (select_minute clock h s) = kv_pendingRole s"
  "kv_role (snd (submit_key toISO s)) = kv_role s" "kv_pendingRole (snd (submit_key toISO s)) = kv_pendingRole s"
  by (simp_all add: change_key_name_def select_date_def select_hour_def select_minute_def submit_key_def Let_def
      split: option.split)

lemma keys_roles:
  assumes "list_all offered_event es"
  shows "role_backed es (kv_role (keys_after clock toISO es)) \<and>
    (\<forall>r. kv_pendingRole (keys_after clock toISO es) = Some r \<longrightarrow> role_backed es r) \<and>
    (kv_role (keys_after clock toISO es) = admin \<longrightarrow> ConfirmElevated \<in> snd ` set es)"
  using assms
proof (induction es rule: rev_induct)
  case Nil
  then show ?case by (simp add: keys_after_def mount_keys_def role_backed_def)
next
  case (snoc re es)
  obtain c e where re: "re = (c, e)" by (cases re)
  let ?s = "keys_after clock toISO es"
  have step: "keys_after clock toISO (es @ [re]) = key_step clock toISO e ?s" by (simp add: keys_after_def re)
  from snoc have IH: "role_backed es (kv_role ?s)" "\<And>r. kv_pendingRole ?s = Some r \<Longrightarrow> role_backed es r"
    "kv_role ?s = admin \<Longrightarrow> ConfirmElevated \<in> snd ` set es" and offered: "offered_event (c, e)"
    by (auto simp: re)
  note more = role_backed_more [OF IH(1), of re] role_backed_more [OF IH(2), of _ re]
  show ?case
  proof (cases e)
    case (PickRole r)
    then have "role_backed (es @ [re]) r" using offered by (auto simp: offered_event_def available_iff role_backed_def re)
    with more IH show ?thesis
      unfolding step by (auto simp: PickRole handleRoleSelect_def ELEVATED_ROLES_def)
  next
    case ConfirmElevated
    with more IH show ?thesis unfolding step by (auto simp: ConfirmElevated handleConfirmElevatedRole_def re split: option.splits)
  next
    case (KeyCreated k)
    with more IH show ?thesis unfolding step by (auto simp: key_created_def role_backed_def)
  qed (use more IH in \<open>unfold step, auto simp: key_step_frame handleCancelElevatedRole_def key_refused_def\<close>)
qed



text \<open>The selects show the hour and the minute of the expiration, unless the clocks were put forward over it.\<close>

lemma expiration_shown:
  "kv_expiresAt (keys_after (\<lambda>x. x) toISO es) = Some (day, h, m) \<Longrightarrow>
   h = kv_hour (keys_after (\<lambda>x. x) toISO es) \<and> m = kv_minute (keys_after (\<lambda>x. x) toISO es)"
proof (induction es arbitrary: day h m rule: rev_induct)
  case Nil
  then show ?case by (simp add: keys_after_def mount_keys_def)
next
  case (snoc re es)
  obtain c e where re: "re = (c, e)" by (cases re)
  let ?s = "keys_after (\<lambda>x. x) toISO es"
  have step: "keys_after (\<lambda>x. x) toISO (es @ [re]) = key_step (\<lambda>x. x) toISO e ?s" by (simp add: keys_after_def re)
  show ?case using snoc unfolding step
    by (cases e) (auto simp: change_key_name_def handleRoleSelect_def handleConfirmElevatedRole_def handleCancelElevatedRole_def
        select_date_def select_hour_def select_minute_def submit_key_def key_created_def key_refused_def Let_def
        split: option.splits if_splits)
qed

section \<open>Sessions\<close>

definition parseUserAgent :: "string \<Rightarrow> string" where
  "parseUserAgent ua =
     (if has_text ua ''Chrome'' \<and> \<not> has_text ua ''Edg'' then ''Chrome''
      else if has_text ua ''Edg'' then ''Edge''
      else if has_text ua ''Firefox'' then ''Firefox''
      else if has_text ua ''Safari'' \<and> \<not> has_text ua ''Chrome'' then ''Safari''
      else if has_text ua ''curl'' then ''curl''
      else if 60 < length ua then take 60 ua @ ''...''
      else if ua = [] then ''Unknown'' else ua)"

definition formatAuthProvider :: "string \<Rightarrow> string" where
  "formatAuthProvider provider =
     (if provider = ''local'' then ''Password'' else if provider = ''saml'' then ''SAML''
      else if provider = ''google'' then ''Google'' else if provider = ''github'' then ''GitHub''
      else if provider = [] then ''Password'' else provider)"

record session_row =
  sr_id :: string
  sr_isCurrent :: bool

text \<open>The target of the dialog, set by the button of a row that is not the current session's.\<close>

definition pick_session :: "bool \<Rightarrow> session_row \<Rightarrow> string option \<Rightarrow> string option" where
  "pick_session isPending r revokeTarget =
     (if sr_isCurrent r then revokeTarget else if isPending then revokeTarget else Some (sr_id r))"

definition confirm_revoke :: "string option \<Rightarrow> api_call option" where
  "confirm_revoke revokeTarget = map_option (m_call (useRevokeSession None)) revokeTarget"

inductive sessions_page :: "session_row list \<Rightarrow> string option \<Rightarrow> bool" for rows where
  start: "sessions_page rows None"
| pick: "sessions_page rows t \<Longrightarrow> r \<in> set rows \<Longrightarrow> sessions_page rows (pick_session p r t)"
| close: "sessions_page rows t \<Longrightarrow> sessions_page rows None"

lemma own_session_kept:
  assumes "sessions_page rows t" and "confirm_revoke t = Some call"
  shows "\<exists>r \<in> set rows. \<not> sr_isCurrent r \<and> call = apiRevokeSession (sr_id r)"
proof -
  have "\<exists>r \<in> set rows. \<not> sr_isCurrent r \<and> sr_id r = i" if "t = Some i" for i
    using assms(1) that by (induction arbitrary: i rule: sessions_page.induct) (auto simp: pick_session_def split: if_splits)
  with assms(2) show ?thesis by (auto simp: confirm_revoke_def useRevokeSession_def)
qed

section \<open>Profile and password\<close>

record profile_section =
  ps_firstName :: string
  ps_lastName :: string
  ps_errors :: "(string \<times> string) list"
  ps_prevUserId :: "string option"

definition mount_profile :: profile_section where
  "mount_profile = \<lparr>ps_firstName = [], ps_lastName = [], ps_errors = [], ps_prevUserId = None\<rparr>"

text \<open>During each render: another user's names replace what is in the fields.\<close>

definition sync_profile :: "(string \<times> string \<times> string) option \<Rightarrow> profile_section \<Rightarrow> profile_section" where
  "sync_profile usr s =
     (case usr of
        None \<Rightarrow> s
      | Some (i, fn, ln) \<Rightarrow>
          (if ps_prevUserId s \<noteq> Some i then s\<lparr>ps_prevUserId := Some i, ps_firstName := fn, ps_lastName := ln\<rparr> else s))"

text \<open>A refused request leaves no message in the form; the hook reports it.\<close>

definition save_profile :: "server \<Rightarrow> profile_section \<Rightarrow> auth_world \<Rightarrow> profile_section \<times> auth_world" where
  "save_profile srv s w =
     (let s = s\<lparr>ps_errors := []\<rparr>; iss = profileSchema (ps_firstName s) (ps_lastName s) in
      if iss \<noteq> [] then (s\<lparr>ps_errors := parseFieldErrors iss\<rparr>, w)
      else
        (case run_call srv (listener srv) (m_call useUpdateProfile (ps_firstName s, ps_lastName s)) w of
           (Inl _, w) \<Rightarrow> (s, w)
         | (Inr _, w) \<Rightarrow> (s, refreshUser srv w)))"

record password_section =
  pw_current :: string
  pw_new :: string
  pw_confirm :: string
  pw_errors :: "(string \<times> string) list"
  pw_submitted :: bool

definition password_issues :: "password_section \<Rightarrow> issues" where
  "password_issues s = passwordChangeSchema (pw_current s) (pw_new s) (pw_confirm s)"

definition validate_password :: "password_section \<Rightarrow> password_section" where
  "validate_password s = (if \<not> pw_submitted s then s else s\<lparr>pw_errors := parseFieldErrors (password_issues s)\<rparr>)"

definition submit_password :: "server \<Rightarrow> password_section \<Rightarrow> auth_world \<Rightarrow> password_section \<times> auth_world" where
  "submit_password srv s w =
     (let s = s\<lparr>pw_submitted := True, pw_errors := []\<rparr> in
      if password_issues s \<noteq> [] then (s\<lparr>pw_errors := parseFieldErrors (password_issues s)\<rparr>, w)
      else
        (case run_call srv (listener srv) (m_call useChangePassword (pw_current s, pw_new s)) w of
           (Inl _, w) \<Rightarrow> (s, w)
         | (Inr _, w) \<Rightarrow> (s\<lparr>pw_current := [], pw_new := [], pw_confirm := [], pw_submitted := False\<rparr>, w)))"

text \<open>What the summary cards count.\<close>

definition key_counts :: "bool list \<Rightarrow> nat \<times> nat option" where
  "key_counts active =
     (let n = length (filter id active) in (n, if n < length active then Some (length active) else None))"

text \<open>The names in the fields survive a new answer for the same user: only another user replaces them.\<close>

lemma profile_edits_kept:
  "ps_prevUserId s = Some i \<Longrightarrow> sync_profile (Some (i, fn, ln)) s = s \<and> sync_profile None s = s"
  by (simp add: sync_profile_def)

text \<open>This section, unlike the page of an enforced change, accepts the current password as the new one.\<close>

lemma same_password_accepted:
  "password_issues \<lparr>pw_current = ''secret-1'', pw_new = ''secret-1'', pw_confirm = ''secret-1'', pw_errors = [], pw_submitted = True\<rparr> = []"
  by code_simp

end
