(* ===== verification/Workspace_Views.thy ===== *)
theory Workspace_Views
  imports Account_Views Slugs Workspace_Hooks Paged_List
begin

text \<open>
  The pages of workspaces (\<open>features/admin/ui\<close>): the list with its dialog (\<open>workspaces-list-view.tsx\<close>),
  one workspace with its permissions, settings and deletion (\<open>workspace-detail-view.tsx\<close>), its
  members and invitations (\<open>members-section.tsx\<close>, \<open>add-member-dialog.tsx\<close>, \<open>invite-member-dialog.tsx\<close>),
  the invitations of a user (\<open>my-invitations-view.tsx\<close>) and the selector of the sidebar
  (\<open>workspace-selector.tsx\<close>). \<open>te\<close> is the \<open>TypeError\<close> of reading a member of a missing answer.
\<close>

section \<open>The list: \<open>workspaces-list-view.tsx\<close>\<close>

record workspaces_view =
  wv_search :: string
  wv_debounced :: string
  wv_table :: bool
  wv_page :: nat
  wv_dialogByUser :: bool
  wv_name :: string
  wv_slug :: string
  wv_description :: string
  wv_error :: string
  wv_errors :: "(string \<times> string) list"
  wv_submitted :: bool

definition VIEW_MODE_KEY :: string where
  "VIEW_MODE_KEY = ''veilence-workspaces-view-mode''"

definition getStoredViewMode :: "'a http_world_scheme \<Rightarrow> bool" where
  "getStoredViewMode w = (windowDefined w \<and> getItem w VIEW_MODE_KEY = Some ''table'')"

definition handleViewModeChange ::
  "bool \<Rightarrow> workspaces_view \<Rightarrow> 'a http_world_scheme \<Rightarrow> workspaces_view \<times> 'a http_world_scheme" where
  "handleViewModeChange table s w =
     (s\<lparr>wv_table := table\<rparr>, setItem VIEW_MODE_KEY (if table then ''table'' else ''grid'') w)"

definition mount_workspaces :: "params \<Rightarrow> 'a http_world_scheme \<Rightarrow> workspaces_view" where
  "mount_workspaces ps w =
     \<lparr>wv_search = [], wv_debounced = [], wv_table = getStoredViewMode w, wv_page = 1,
      wv_dialogByUser = (usp_get ps ''create'' = Some ''true''), wv_name = [], wv_slug = [], wv_description = [],
      wv_error = [], wv_errors = [], wv_submitted = False\<rparr>"

text \<open>\<open>?create=true\<close> keeps the dialog open until the effect has replaced the address.\<close>

definition create_dialog_open :: "params \<Rightarrow> workspaces_view \<Rightarrow> bool" where
  "create_dialog_open ps s \<longleftrightarrow> wv_dialogByUser s \<or> usp_get ps ''create'' = Some ''true''"

definition workspaces_request :: "workspaces_view \<Rightarrow> WorkspaceListParams" where
  "workspaces_request s =
     \<lparr>wl_search = or_undefined (wv_debounced s), wl_page = Some (int (wv_page s)), wl_limit = Some 20\<rparr>"

definition search_workspaces :: "string \<Rightarrow> workspaces_view \<Rightarrow> workspaces_view" where
  "search_workspaces v s = s\<lparr>wv_search := v, wv_page := 1\<rparr>"

definition previous_ws_page :: "workspaces_view \<Rightarrow> workspaces_view" where
  "previous_ws_page s = s\<lparr>wv_page := max 1 (wv_page s - 1)\<rparr>"

definition next_ws_page :: "nat \<Rightarrow> workspaces_view \<Rightarrow> workspaces_view" where
  "next_ws_page totalPages s = (if totalPages \<le> wv_page s then s else s\<lparr>wv_page := wv_page s + 1\<rparr>)"

definition workspace_pages :: "(nat \<times> nat) option \<Rightarrow> nat" where
  "workspace_pages meta = (case meta of None \<Rightarrow> 1 | Some (n, limit) \<Rightarrow> (n + limit - 1) div limit)"

datatype workspaces_body = NoWorkspaces | NoMatch | GridView | TableView

definition workspaces_body :: "workspaces_view \<Rightarrow> nat \<Rightarrow> workspaces_body \<times> bool" where
  "workspaces_body s shown =
     (let isSearching = 0 < length (wv_debounced s); hasWorkspaces = (0 < shown \<or> isSearching) in
      (if \<not> hasWorkspaces then NoWorkspaces
       else if \<not> 0 < shown \<and> isSearching then NoMatch
       else if \<not> wv_table s then GridView else TableView, hasWorkspaces))"

definition pager_shown :: "nat \<Rightarrow> nat \<Rightarrow> bool" where
  "pager_shown shown totalPages \<longleftrightarrow> 0 < shown \<and> 1 < totalPages"

subsection \<open>Creating a workspace\<close>

definition create_issues :: "workspaces_view \<Rightarrow> issues" where
  "create_issues s = workspaceSchema (wv_name s) (wv_slug s) (Some (wv_description s))"

definition revalidate_workspace :: "workspaces_view \<Rightarrow> workspaces_view" where
  "revalidate_workspace s = (if \<not> wv_submitted s then s else s\<lparr>wv_errors := parseFieldErrors (create_issues s)\<rparr>)"

definition handleNameChange :: "string \<Rightarrow> workspaces_view \<Rightarrow> workspaces_view" where
  "handleNameChange v s = revalidate_workspace (s\<lparr>wv_name := v, wv_slug := generateSlug v\<rparr>)"

definition change_slug :: "string \<Rightarrow> workspaces_view \<Rightarrow> workspaces_view" where
  "change_slug v s = revalidate_workspace (s\<lparr>wv_slug := v\<rparr>)"

definition change_description :: "string \<Rightarrow> workspaces_view \<Rightarrow> workspaces_view" where
  "change_description v s = revalidate_workspace (s\<lparr>wv_description := v\<rparr>)"

definition workspace_failed :: "thrown \<Rightarrow> workspaces_view \<Rightarrow> workspaces_view" where
  "workspace_failed e s = s\<lparr>wv_error := raw_message ''Failed to create workspace'' e\<rparr>"

text \<open>The page pushed, the form and the session after \<open>handleCreate\<close>.\<close>

definition create_workspace ::
  "thrown \<Rightarrow> server \<Rightarrow> workspaces_view \<Rightarrow> auth_world \<Rightarrow> string option \<times> workspaces_view \<times> auth_world" where
  "create_workspace te srv s w =
     (let s = s\<lparr>wv_submitted := True, wv_error := [], wv_errors := []\<rparr> in
      if create_issues s \<noteq> [] then (None, s\<lparr>wv_errors := parseFieldErrors (create_issues s)\<rparr>, w)
      else
        (case run_call srv (listener srv) (apiCreateWorkspace (wv_name s) (wv_slug s) (Some (wv_description s))) w of
           (Inl e, w) \<Rightarrow> (None, workspace_failed e s, w)
         | (Inr r, w) \<Rightarrow>
             (case get_prop (Some r) ''data'' of
                None \<Rightarrow> (None, workspace_failed te s, w)
              | Some d \<Rightarrow>
                  (case get_prop d ''id'' of
                     None \<Rightarrow> (None, workspace_failed te s, w\<lparr>currentWorkspace := d\<rparr>)
                   | Some i \<Rightarrow>
                       (Some (ROUTES (WORKSPACE_DETAIL (js_string_opt i))),
                        s\<lparr>wv_dialogByUser := False, wv_submitted := False, wv_name := [], wv_slug := [], wv_description := []\<rparr>,
                        refreshWorkspaces srv (setCurrentWorkspace (the d) w))))))"

section \<open>One workspace: \<open>workspace-detail-view.tsx\<close>\<close>

record workspace_info =
  wi_id :: string
  wi_name :: string
  wi_slug :: string
  wi_ownerId :: string
  wi_description :: "string option"

record role_info =
  ro_id :: string
  ro_name :: string
  ro_permissions :: "(string \<times> string) list"   \<comment> \<open>resource and action; absent permissions are none\<close>

record member_info =
  me_userId :: string
  me_roleId :: string
  me_role :: "role_info option"
  me_firstName :: "string option"
  me_lastName :: "string option"
  me_email :: "string option"

text \<open>What the page computes from the queries and the signed-in user, \<open>uid\<close>.\<close>

record access =
  canInvite :: bool
  canRemove :: bool
  canUpdateRole :: bool
  canManageMembers :: bool
  canUpdateWorkspace :: bool
  canViewAuditLog :: bool

definition hasPermission :: "member_info list \<Rightarrow> string option \<Rightarrow> string \<Rightarrow> string \<Rightarrow> bool" where
  "hasPermission members uid resource action =
     (case find (\<lambda>m. Some (me_userId m) = uid) members of
        None \<Rightarrow> False
      | Some m \<Rightarrow>
          (case me_role m of
             None \<Rightarrow> False
           | Some r \<Rightarrow> list_ex (\<lambda>p. p = (resource, action)) (ro_permissions r)))"

definition isWorkspaceOwner :: "workspace_info option \<Rightarrow> string option \<Rightarrow> bool" where
  "isWorkspaceOwner workspace uid \<longleftrightarrow> map_option wi_ownerId workspace = uid"

definition access_of ::
  "workspace_info option \<Rightarrow> member_info list \<Rightarrow> string option \<Rightarrow> WorkspaceRole option \<Rightarrow> access" where
  "access_of workspace members uid currentRole =
     (let own = isWorkspaceOwner workspace uid; adm = hasMinimumRole currentRole admin in
      \<lparr>canInvite = (own \<or> hasPermission members uid ''members'' ''invite''),
       canRemove = (own \<or> hasPermission members uid ''members'' ''remove''),
       canUpdateRole = (own \<or> hasPermission members uid ''members'' ''update_role''),
       canManageMembers = (adm \<or> own), canUpdateWorkspace = own, canViewAuditLog = (adm \<or> own)\<rparr>)"

datatype detail_page = InvalidId | DetailLoading | NotFound | DetailPage workspace_info

definition detail_page :: "string option \<Rightarrow> bool \<Rightarrow> workspace_info option \<Rightarrow> detail_page" where
  "detail_page workspaceId isPending workspace =
     (if \<not> truthy_str workspaceId then InvalidId
      else if isPending then DetailLoading
      else case workspace of None \<Rightarrow> NotFound | Some ws \<Rightarrow> DetailPage ws)"

record detail_form =
  df_name :: string
  df_description :: string
  df_prevWorkspaceId :: "string option"
  df_errors :: "(string \<times> string) list"
  df_submitted :: bool
  df_dialog :: confirm_dialog

definition mount_detail :: detail_form where
  "mount_detail =
     \<lparr>df_name = [], df_description = [], df_prevWorkspaceId = None, df_errors = [], df_submitted = False, df_dialog = closed_dialog\<rparr>"

definition sync_detail :: "workspace_info option \<Rightarrow> detail_form \<Rightarrow> detail_form" where
  "sync_detail workspace f =
     (case workspace of
        None \<Rightarrow> f
      | Some ws \<Rightarrow>
          (if df_prevWorkspaceId f \<noteq> Some (wi_id ws)
           then f\<lparr>df_prevWorkspaceId := Some (wi_id ws), df_name := wi_name ws,
                  df_description := (case wi_description ws of None \<Rightarrow> [] | Some d \<Rightarrow> d)\<rparr>
           else f))"

definition validateEdit :: "detail_form \<Rightarrow> detail_form" where
  "validateEdit f =
     (if \<not> df_submitted f then f
      else f\<lparr>df_errors := parseFieldErrors (workspaceUpdateSchema (df_name f) (Some (df_description f)))\<rparr>)"

text \<open>The request of the save button; when it succeeds the workspaces are loaded again.\<close>

definition save_detail :: "string \<Rightarrow> detail_form \<Rightarrow> api_call option \<times> detail_form" where
  "save_detail i f =
     (let f = f\<lparr>df_submitted := True, df_errors := []\<rparr>; iss = workspaceUpdateSchema (df_name f) (Some (df_description f)) in
      if iss \<noteq> [] then (None, f\<lparr>df_errors := parseFieldErrors iss\<rparr>)
      else (Some (m_call useUpdateWorkspace (i, Some (df_name f), Some (df_description f))), f))"

text \<open>The deletion: the button is in the settings tab and its dialog asks for the name.\<close>

definition delete_enabled :: "detail_page \<Rightarrow> access \<Rightarrow> detail_form \<Rightarrow> bool" where
  "delete_enabled page a f =
     (case page of
        DetailPage ws \<Rightarrow> canUpdateWorkspace a \<and> confirm_enabled (Some (wi_name ws)) (df_dialog f)
      | _ \<Rightarrow> False)"

definition handleDelete :: "server \<Rightarrow> string \<Rightarrow> auth_world \<Rightarrow> (thrown + string) \<times> auth_world" where
  "handleDelete srv i w =
     (case run_call srv (listener srv) (m_call useDeleteWorkspace i) w of
        (Inl e, w) \<Rightarrow> (Inl e, w)
      | (Inr _, w) \<Rightarrow> (Inr (ROUTES WORKSPACES), refreshWorkspaces srv w))"

section \<open>Members: \<open>members-section.tsx\<close>\<close>

definition capitalize :: "string \<Rightarrow> string" where
  "capitalize s = toUpperCase (take 1 s) @ drop 1 s"

definition assignable :: "role_info list \<Rightarrow> role_info list" where
  "assignable roles = filter (\<lambda>r. toLowerCase (ro_name r) \<noteq> ''owner'') roles"

text \<open>The cell of the role: a badge, or a select, which may be disabled.\<close>

datatype role_cell = RoleBadge string | RoleSelect "string" "(string \<times> string) list" bool

definition role_cell :: "workspace_info \<Rightarrow> access \<Rightarrow> role_info list \<Rightarrow> string option \<Rightarrow> member_info \<Rightarrow> role_cell" where
  "role_cell workspace a roles uid m =
     (if me_userId m = wi_ownerId workspace \<or> \<not> canUpdateRole a
      then RoleBadge
        (case me_role m of
           Some r \<Rightarrow> if ro_name r \<noteq> [] then capitalize (ro_name r)
                     else if me_userId m = wi_ownerId workspace then ''Owner'' else ''No role''
         | None \<Rightarrow> if me_userId m = wi_ownerId workspace then ''Owner'' else ''No role'')
      else RoleSelect (me_roleId m) (map (\<lambda>r. (ro_id r, capitalize (ro_name r))) (assignable roles)) (Some (me_userId m) = uid))"

definition remove_shown :: "access \<Rightarrow> string option \<Rightarrow> member_info \<Rightarrow> bool" where
  "remove_shown a uid m \<longleftrightarrow> Some (me_userId m) \<noteq> uid \<and> canRemove a"

record removal =
  rm_userId :: string
  rm_name :: string
  rm_details :: "(string \<times> string) list"

definition given_names :: "member_info \<Rightarrow> string list" where
  "given_names m = filter (\<lambda>s. s \<noteq> [])
     (map (\<lambda>n. case n of None \<Rightarrow> [] | Some s \<Rightarrow> s) [me_firstName m, me_lastName m])"

definition confirmRemoveMember :: "workspace_info \<Rightarrow> member_info \<Rightarrow> removal" where
  "confirmRemoveMember workspace m =
     (let name = (if join_with '' '' (given_names m) = [] then ''this member'' else join_with '' '' (given_names m)) in
      \<lparr>rm_userId = me_userId m, rm_name = name,
       rm_details = [(''Member'', name)] @
         (case me_email m of None \<Rightarrow> [] | Some e \<Rightarrow> if e = [] then [] else [(''Email'', e)]) @
         [(''Workspace'', wi_name workspace)]\<rparr>)"

definition handleRemoveMember :: "string \<Rightarrow> removal option \<Rightarrow> api_call option" where
  "handleRemoveMember workspaceId target = map_option (\<lambda>t. m_call useRemoveMember (workspaceId, rm_userId t)) target"

definition handleUpdateRole :: "string \<Rightarrow> string \<Rightarrow> string \<Rightarrow> api_call" where
  "handleUpdateRole workspaceId userId roleId = m_call useUpdateMemberRole (workspaceId, userId, roleId)"

text \<open>The actions a row of the members' table offers.\<close>

definition member_actions :: "string \<Rightarrow> workspace_info \<Rightarrow> access \<Rightarrow> role_info list \<Rightarrow> string option \<Rightarrow> member_info \<Rightarrow> api_call list" where
  "member_actions i workspace a roles uid m =
     (case role_cell workspace a roles uid m of
        RoleBadge _ \<Rightarrow> []
      | RoleSelect _ opts disabled \<Rightarrow> if disabled then [] else map (\<lambda>(r, _). handleUpdateRole i (me_userId m) r) opts) @
     (if remove_shown a uid m then [m_call useRemoveMember (i, rm_userId (confirmRemoveMember workspace m))] else [])"

record invitation_info =
  iv_id :: string
  iv_roleId :: string
  iv_status :: string

definition invitation_role :: "role_info list \<Rightarrow> invitation_info \<Rightarrow> string" where
  "invitation_role roles iv =
     (case find (\<lambda>r. ro_id r = iv_roleId iv) roles of Some r \<Rightarrow> capitalize (ro_name r) | None \<Rightarrow> ''Unknown'')"

text \<open>\<open>(workspaceId, invitationId)\<close>: resend, then revoke.\<close>

definition invitation_actions :: "string \<Rightarrow> bool \<Rightarrow> access \<Rightarrow> invitation_info \<Rightarrow> api_call list" where
  "invitation_actions i registration a iv =
     (if registration \<and> canManageMembers a \<and> canInvite a \<and> iv_status iv = ''pending''
      then [m_call useResendInvitation (i, iv_id iv), m_call useRevokeInvitation (i, iv_id iv)] else [])"

section \<open>Adding a member: \<open>add-member-dialog.tsx\<close>\<close>

record add_member_form =
  ad_open :: bool
  ad_email :: string
  ad_firstName :: string
  ad_lastName :: string
  ad_roleId :: "string option"
  ad_setPassword :: bool
  ad_password :: string
  ad_error :: string
  ad_errors :: "(string \<times> string) list"

definition mount_add_member :: add_member_form where
  "mount_add_member =
     \<lparr>ad_open = False, ad_email = [], ad_firstName = [], ad_lastName = [], ad_roleId = None, ad_setPassword = False,
      ad_password = [], ad_error = [], ad_errors = []\<rparr>"

text \<open>\<open>errs\<close>; a later assignment to the same member replaces the earlier one.\<close>

definition add_member_errors :: "add_member_form \<Rightarrow> (string \<times> string) list" where
  "add_member_errors f =
     (if trim (ad_email f) = [] then [(''email'', ''Email is required'')] else []) @
     (if trim (ad_firstName f) = [] then [(''firstName'', ''First name is required'')] else []) @
     (if trim (ad_lastName f) = [] then [(''lastName'', ''Last name is required'')] else []) @
     (if \<not> truthy_str (ad_roleId f) then [(''roleId'', ''Please select a role'')] else []) @
     (if ad_setPassword f \<and> 72 < length (ad_password f) then [(''password'', ''Password must be at most 72 characters'')]
      else if ad_setPassword f \<and> length (ad_password f) < 8 then [(''password'', ''Password must be at least 8 characters'')]
      else [])"

definition add_member_request :: "add_member_form \<Rightarrow> AddMemberRequest" where
  "add_member_request f =
     \<lparr>am_email = ad_email f, am_firstName = ad_firstName f, am_lastName = ad_lastName f, am_roleId = the (ad_roleId f),
      am_password = (if ad_setPassword f \<and> ad_password f \<noteq> [] then Some (ad_password f) else None)\<rparr>"

definition add_member_disabled :: "bool \<Rightarrow> add_member_form \<Rightarrow> bool" where
  "add_member_disabled isPending f \<longleftrightarrow> isPending \<or> \<not> truthy_str (ad_roleId f)"

definition submit_add_member :: "string \<Rightarrow> add_member_form \<Rightarrow> api_call option \<times> add_member_form" where
  "submit_add_member workspaceId f =
     (let f = f\<lparr>ad_error := [], ad_errors := []\<rparr> in
      if add_member_errors f \<noteq> [] then (None, f\<lparr>ad_errors := add_member_errors f\<rparr>)
      else (Some (m_call useAddMember (workspaceId, add_member_request f)), f))"

definition member_added :: "add_member_form \<Rightarrow> add_member_form" where
  "member_added f =
     f\<lparr>ad_open := False, ad_email := [], ad_firstName := [], ad_lastName := [], ad_roleId := None, ad_setPassword := False,
       ad_password := []\<rparr>"

definition member_refused :: "thrown \<Rightarrow> add_member_form \<Rightarrow> add_member_form" where
  "member_refused e f = f\<lparr>ad_error := sanitizeErrorMessage e (Some ''Failed to add member'')\<rparr>"

definition set_add_open :: "bool \<Rightarrow> add_member_form \<Rightarrow> add_member_form" where
  "set_add_open b f = (if b then f\<lparr>ad_open := True\<rparr> else f\<lparr>ad_open := False, ad_password := []\<rparr>)"

definition check_set_password :: "bool \<Rightarrow> add_member_form \<Rightarrow> add_member_form" where
  "check_set_password b f = (if b then f\<lparr>ad_setPassword := True\<rparr> else f\<lparr>ad_setPassword := False, ad_password := []\<rparr>)"

definition select_role :: "string \<Rightarrow> add_member_form \<Rightarrow> add_member_form" where
  "select_role v f = f\<lparr>ad_roleId := or_undefined v\<rparr>"

inductive add_member_step :: "role_info list \<Rightarrow> add_member_form \<Rightarrow> add_member_form \<Rightarrow> bool" for roles where
  dialog: "add_member_step roles f (set_add_open b f)"
| typed: "add_member_step roles f (f\<lparr>ad_email := e, ad_firstName := n, ad_lastName := l\<rparr>)"
| picked: "r \<in> set (assignable roles) \<Longrightarrow> add_member_step roles f (select_role (ro_id r) f)"
| checked: "add_member_step roles f (check_set_password b f)"
| password: "ad_setPassword f \<Longrightarrow> add_member_step roles f (f\<lparr>ad_password := p\<rparr>)"
| submitted: "add_member_step roles f (snd (submit_add_member i f))"
| added: "add_member_step roles f (member_added f)"
| refused: "add_member_step roles f (member_refused e f)"

inductive add_member_run :: "role_info list \<Rightarrow> add_member_form \<Rightarrow> bool" for roles where
  start: "add_member_run roles mount_add_member"
| step: "add_member_run roles f \<Longrightarrow> add_member_step roles f f' \<Longrightarrow> add_member_run roles f'"

section \<open>Inviting a member: \<open>invite-member-dialog.tsx\<close>\<close>

record invite_form =
  vf_open :: bool
  vf_email :: string
  vf_roleId :: "string option"
  vf_error :: string
  vf_errors :: "(string \<times> string) list"
  vf_submitted :: bool

text \<open>\<open>missing\<close> is what the validation library says of a missing role.\<close>

definition invite_issues :: "(string \<Rightarrow> bool) \<Rightarrow> string \<Rightarrow> invite_form \<Rightarrow> issues" where
  "invite_issues is_email missing f =
     (case vf_roleId f of
        Some r \<Rightarrow> invitationSchema is_email (vf_email f) r
      | None \<Rightarrow> checks ''email'' [(is_email (vf_email f), ''Please enter a valid email address'')] @ [(''roleId'', missing)])"

definition change_invite :: "(string \<Rightarrow> bool) \<Rightarrow> string \<Rightarrow> string \<Rightarrow> string \<Rightarrow> invite_form \<Rightarrow> invite_form" where
  "change_invite is_email missing newEmail newRole f =
     (let f = f\<lparr>vf_email := newEmail, vf_roleId := or_undefined newRole\<rparr> in
      if \<not> vf_submitted f then f else f\<lparr>vf_errors := parseFieldErrors (invite_issues is_email missing f)\<rparr>)"

definition submit_invite :: "(string \<Rightarrow> bool) \<Rightarrow> string \<Rightarrow> string \<Rightarrow> invite_form \<Rightarrow> api_call option \<times> invite_form" where
  "submit_invite is_email missing workspaceId f =
     (let f = f\<lparr>vf_submitted := True, vf_error := [], vf_errors := []\<rparr>; iss = invite_issues is_email missing f in
      if iss \<noteq> [] then (None, f\<lparr>vf_errors := parseFieldErrors iss\<rparr>)
      else (case vf_roleId f of
              None \<Rightarrow> (None, f)
            | Some r \<Rightarrow> if r = [] then (None, f) else (Some (m_call useInviteMember (workspaceId, vf_email f, r)), f)))"

definition invite_sent :: "invite_form \<Rightarrow> invite_form" where
  "invite_sent f = f\<lparr>vf_open := False, vf_submitted := False, vf_email := [], vf_roleId := None\<rparr>"

definition invite_refused :: "thrown \<Rightarrow> invite_form \<Rightarrow> invite_form" where
  "invite_refused e f = f\<lparr>vf_error := sanitizeErrorMessage e (Some ''Failed to send invitation'')\<rparr>"

section \<open>One's own invitations: \<open>my-invitations-view.tsx\<close>\<close>

definition pendingInvitations :: "invitation_info list \<Rightarrow> invitation_info list" where
  "pendingInvitations invs = filter (\<lambda>i. iv_status i = ''pending'') invs"

datatype mine_page = MineUnavailable | MineLoading | MineEmpty | MineTable "invitation_info list"

definition mine_page :: "bool \<Rightarrow> bool \<Rightarrow> invitation_info list \<Rightarrow> mine_page" where
  "mine_page registration isPending invs =
     (if \<not> registration then MineUnavailable
      else if isPending then MineLoading
      else if pendingInvitations invs = [] then MineEmpty else MineTable (pendingInvitations invs))"

text \<open>The two buttons of a row, \<open>isExpired\<close> by the clock of the browser.\<close>

definition accept_disabled :: "bool \<Rightarrow> bool \<Rightarrow> bool \<Rightarrow> bool" where
  "accept_disabled isAccepting isDeclining isExpired \<longleftrightarrow> isAccepting \<or> isDeclining \<or> isExpired"

definition decline_disabled :: "bool \<Rightarrow> bool \<Rightarrow> bool" where
  "decline_disabled isAccepting isDeclining \<longleftrightarrow> isAccepting \<or> isDeclining"

definition accept_mine :: "server \<Rightarrow> invitation_info \<Rightarrow> auth_world \<Rightarrow> string option \<times> auth_world" where
  "accept_mine srv iv w =
     (case run_call srv (listener srv) (m_call useAcceptInvitationById (iv_id iv)) w of
        (Inl _, w) \<Rightarrow> (None, w)
      | (Inr _, w) \<Rightarrow> (Some (ROUTES WORKSPACES), refreshWorkspaces srv w))"

section \<open>The selector: \<open>workspace-selector.tsx\<close>\<close>

definition SEARCH_THRESHOLD :: nat where
  "SEARCH_THRESHOLD = 5"

definition filteredWorkspaces :: "string \<Rightarrow> workspace_info list \<Rightarrow> workspace_info list" where
  "filteredWorkspaces search ws =
     (if search = [] then ws
      else filter (\<lambda>w. has_text (toLowerCase (wi_name w)) (toLowerCase search) \<or>
                       has_text (toLowerCase (wi_slug w)) (toLowerCase search)) ws)"

definition noWorkspacesIdle :: "bool \<Rightarrow> string option \<Rightarrow> workspace_info list \<Rightarrow> bool" where
  "noWorkspacesIdle loading err ws \<longleftrightarrow> \<not> loading \<and> \<not> truthy_str err \<and> \<not> 0 < length ws"

definition selector_rows :: "bool \<Rightarrow> string option \<Rightarrow> string \<Rightarrow> workspace_info list \<Rightarrow> workspace_info list" where
  "selector_rows loading err search ws = (if \<not> loading \<and> \<not> truthy_str err then filteredWorkspaces search ws else [])"

definition selector_search :: "bool \<Rightarrow> string \<Rightarrow> workspace_info list \<Rightarrow> string option" where
  "selector_search isOpen search ws = (if isOpen \<and> SEARCH_THRESHOLD < length ws then Some search else None)"

definition selector_open_change :: "bool \<Rightarrow> string \<Rightarrow> string" where
  "selector_open_change isOpen search = (if \<not> isOpen then [] else search)"

section \<open>What a row of members offers\<close>

text \<open>A row of the members' table offers only what the user has the right to do: another role, never that of
  the owner and never for the owner or oneself, and the removal of somebody else.\<close>

theorem member_rows_guarded:
  "list_all (\<lambda>c.
     (canUpdateRole a \<and> Some (me_userId m) \<noteq> uid \<and> me_userId m \<noteq> wi_ownerId ws \<and>
        list_ex (\<lambda>r. c = apiUpdateMemberRole i (me_userId m) (ro_id r) \<and> toLowerCase (ro_name r) \<noteq> ''owner'') roles) \<or>
     (canRemove a \<and> Some (me_userId m) \<noteq> uid \<and> c = apiRemoveMember i (me_userId m)))
   (member_actions i ws a roles uid m)"
  by (auto simp: member_actions_def role_cell_def remove_shown_def assignable_def handleUpdateRole_def useUpdateMemberRole_def
      useRemoveMember_def confirmRemoveMember_def list_all_iff list_ex_iff Let_def)

text \<open>The owner's row keeps its role, but its removal is offered to every other user with that right.\<close>

lemma owner_removal_offered:
  "canRemove a \<Longrightarrow> uid \<noteq> Some (wi_ownerId ws) \<Longrightarrow> me_userId m = wi_ownerId ws \<Longrightarrow>
   member_actions i ws a roles uid m = [apiRemoveMember i (wi_ownerId ws)]"
  by (auto simp: member_actions_def role_cell_def remove_shown_def useRemoveMember_def confirmRemoveMember_def Let_def)

text \<open>The audit log and the invitations are opened by the role in the workspace that is selected, which need not
  be the one on the page.\<close>

lemma access_uses_selected_workspace:
  "hasMinimumRole currentRole admin \<Longrightarrow> canViewAuditLog (access_of ws members uid currentRole)"
  by (simp add: access_of_def Let_def)

section \<open>The member who is added\<close>

lemma add_member_inv:
  assumes "add_member_run roles f"
  shows "(\<not> ad_setPassword f \<longrightarrow> ad_password f = []) \<and>
    (\<forall>i. ad_roleId f = Some i \<longrightarrow> i \<noteq> [] \<and> (\<exists>r \<in> set (assignable roles). ro_id r = i))"
  using assms
proof (induction rule: add_member_run.induct)
  case start
  then show ?case by (simp add: mount_add_member_def)
next
  case (step f f')
  from step(2,3) show ?case
    by (induction rule: add_member_step.induct)
      (auto simp: set_add_open_def select_role_def or_undefined_def check_set_password_def submit_add_member_def
        member_added_def member_refused_def Let_def split: if_splits)
qed

text \<open>A member is added only with an address, both names and a role of the workspace that is not the owner's;
  an initial password is sent exactly if the box is ticked, and then it has 8 to 72 characters.\<close>

theorem added_member_valid:
  assumes "add_member_run roles f" and "fst (submit_add_member i f) = Some c"
  shows "\<exists>v. c = apiAddMember i v \<and> trim (am_email v) \<noteq> [] \<and> trim (am_firstName v) \<noteq> [] \<and> trim (am_lastName v) \<noteq> [] \<and>
    list_ex (\<lambda>r. ro_id r = am_roleId v \<and> toLowerCase (ro_name r) \<noteq> ''owner'') roles \<and>
    (case am_password v of None \<Rightarrow> \<not> ad_setPassword f | Some p \<Rightarrow> ad_setPassword f \<and> length p \<in> {8..72})"
proof -
  have none: "add_member_errors f = []" and c: "c = apiAddMember i (add_member_request f)"
    using assms(2) by (auto simp: submit_add_member_def useAddMember_def add_member_errors_def add_member_request_def Let_def
        split: if_splits)
  then obtain r where r: "ad_roleId f = Some (ro_id r)" "r \<in> set (assignable roles)"
    using add_member_inv [OF assms(1)] by (cases "ad_roleId f") (auto simp: add_member_errors_def split: if_splits)
  have "length (ad_password f) \<in> {8..72}" if "ad_setPassword f"
    using none that by (auto simp: add_member_errors_def split: if_splits)
  then have "case am_password (add_member_request f) of None \<Rightarrow> \<not> ad_setPassword f
      | Some p \<Rightarrow> ad_setPassword f \<and> length p \<in> {8..72}"
    by (auto simp: add_member_request_def)
  with c none r show ?thesis
    by (intro exI [of _ "add_member_request f"])
      (auto simp: add_member_errors_def add_member_request_def assignable_def list_ex_iff split: if_splits)
qed

definition demo_roles :: "role_info list" where
  "demo_roles = [\<lparr>ro_id = ''r0'', ro_name = ''Owner'', ro_permissions = []\<rparr>, \<lparr>ro_id = ''r1'', ro_name = ''member'', ro_permissions = []\<rparr>]"

lemma added_member_valid_witness:
  "\<exists>f c v. add_member_run demo_roles f \<and> fst (submit_add_member ''w1'' f) = Some c \<and> c = apiAddMember ''w1'' v \<and>
     list_ex (\<lambda>r. ro_id r = am_roleId v \<and> toLowerCase (ro_name r) \<noteq> ''owner'') demo_roles"
proof -
  define f1 where "f1 = mount_add_member\<lparr>ad_email := ''a@b.c'', ad_firstName := ''A'', ad_lastName := ''B''\<rparr>"
  define f where "f = select_role ''r1'' f1"
  have "add_member_run demo_roles f1"
    unfolding f1_def by (rule add_member_run.step [OF add_member_run.start add_member_step.typed])
  moreover have "demo_roles ! 1 \<in> set (assignable demo_roles)" "ro_id (demo_roles ! 1) = ''r1''"
    by (simp_all add: demo_roles_def assignable_def toLowerCase_def)
  ultimately have run: "add_member_run demo_roles f"
    unfolding f_def using add_member_run.step [OF _ add_member_step.picked, of demo_roles f1 "demo_roles ! 1"] by simp
  have sent: "fst (submit_add_member ''w1'' f) = Some (m_call useAddMember (''w1'', add_member_request f))"
    by (simp add: submit_add_member_def add_member_errors_def f_def f1_def select_role_def or_undefined_def mount_add_member_def
        add_member_request_def trim_def is_space_def Let_def)
  from added_member_valid [OF run sent] run sent show ?thesis by blast
qed

section \<open>A new workspace is the selected one\<close>

lemma chosen_again:
  assumes "getStoredWorkspaceId w = Some i" and "find_workspace i xs = Some (Some x)"
  shows "choose_workspace (Some xs) w = (True, w\<lparr>currentWorkspace := Some x\<rparr>)"
  using assms by (simp add: choose_workspace_def)

text \<open>A workspace that was created with a valid form is the selected one afterwards: its page is opened, its id
  is the one every later request names, the form is empty and closed, and the cached answers of
  the workspace before are dropped.\<close>

theorem created_workspace_selected:
  assumes "windowDefined w" and "create_issues s = []"
    and "srv (sent w) (first_request ''/api/workspaces''
           (call_opts (apiCreateWorkspace (wv_name s) (wv_slug s) (Some (wv_description s)))) w) = Inr (data_response d)"
    and "get_prop (Some d) ''id'' = Some (Some (JStr i))" and "i \<noteq> []"
    and "\<And>h (v :: auth_world). srv h (first_request ''/api/workspaces'' get_options v) = Inr (data_response (JArr xs))"
    and "find_workspace i xs = Some (Some x)"
  shows "\<exists>s' w'. create_workspace te srv s w = (Some (''/workspaces/'' @ i), s', w') \<and>
    wv_name s' = [] \<and> wv_slug s' = [] \<and> \<not> wv_dialogByUser s' \<and> currentWorkspace w' = Some x \<and>
    getStoredWorkspaceId w' = Some i \<and> workspaces w' = xs \<and> cacheLog w' = cacheLog w @ [InvalidateAll]"
proof -
  let ?c = "apiCreateWorkspace (wv_name s) (wv_slug s) (Some (wv_description s))"
  define w1 where "w1 = w\<lparr>sent := sent w @ [first_request ''/api/workspaces'' (call_opts ?c) w]\<rparr>"
  define w2 where "w2 = setCurrentWorkspace d w1"
  have ep: "endpoint ?c = ''/api/workspaces''" by (simp add: apiCreateWorkspace_def api_send_def)
  have "run_call srv (listener srv) ?c w = (finish (data_response d), w1)"
    unfolding run_call_def ep w1_def using assms(3) by (rule fetchApi_answered) simp
  moreover have "finish (data_response d) = Inr (JObj [(''data'', d), (''error'', JNull)])"
    by (simp add: finish_def ok_status_def)
  ultimately have created: "run_call srv (listener srv) ?c w = (Inr (JObj [(''data'', d), (''error'', JNull)]), w1)" by simp
  have id: "opt_prop (Some d) ''id'' = Some (JStr i)" using assms(4) by (cases d) simp_all
  have log: "cacheLog (storeWorkspaceId i v) = cacheLog v" for v :: auth_world
    by (rule more_fields(5)) simp
  have w2: "getStoredWorkspaceId w2 = Some i" "cacheLog w2 = cacheLog w @ [InvalidateAll]" "windowDefined w2"
    using assms(1,5) by (simp_all add: w2_def setCurrentWorkspace_def id w1_def log getStoredWorkspaceId_store js_string_opt_def Let_def)
  let ?v = "w2\<lparr>workspacesLoading := True, workspacesError := None, sent := sent w2 @ [first_request ''/api/workspaces'' get_options
      (w2\<lparr>workspacesLoading := True, workspacesError := None\<rparr>)], workspaces := xs\<rparr>"
  have "choose_workspace (Some xs) ?v = (True, ?v\<lparr>currentWorkspace := Some x\<rparr>)"
    using assms(7) w2(1) by (intro chosen_again) simp_all
  then have refreshed: "refreshWorkspaces srv w2 = ?v\<lparr>currentWorkspace := Some x\<rparr>\<lparr>workspacesLoading := False\<rparr>"
    by (intro refreshWorkspaces_answered [where resp = "data_response (JArr xs)" and
        body = "JObj [(''data'', JArr xs), (''error'', JNull)]" and xs = xs] assms(6)) simp_all
  have data: "get_prop (Some (JObj [(''data'', d), (''error'', JNull)])) ''data'' = Some (Some d)" by simp
  show ?thesis
    using w2 assms(2,4) by (simp add: create_workspace_def create_issues_def created data refreshed w2_def [symmetric] js_string_opt_def Let_def)
qed


definition new_form :: workspaces_view where
  "new_form = handleNameChange ''Team One'' (mount_workspaces [] demo_world)"

definition demo_list_server :: server where
  "demo_list_server h r = Inr (data_response (if req_method r = ''POST'' then JObj [(''id'', JStr ''w2'')]
     else JArr [JObj [(''id'', JStr ''w1'')], JObj [(''id'', JStr ''w2'')]]))"

lemma created_workspace_selected_witness:
  "\<exists>s' w'. create_workspace OtherVal demo_list_server new_form auth_demo = (Some ''/workspaces/w2'', s', w') \<and>
     getStoredWorkspaceId w' = Some ''w2''"
proof -
  let ?l = "[JObj [(''id'', JStr ''w1'')], JObj [(''id'', JStr ''w2'')]]"
  have valid: "create_issues new_form = []" by code_simp
  have post: "demo_list_server (sent auth_demo) (first_request ''/api/workspaces''
      (call_opts (apiCreateWorkspace (wv_name new_form) (wv_slug new_form) (Some (wv_description new_form)))) auth_demo) =
      Inr (data_response (JObj [(''id'', JStr ''w2'')]))"
    by (simp add: demo_list_server_def first_request_def build_request_def apiCreateWorkspace_def api_send_def method_of_def)
  have list: "demo_list_server h (first_request ''/api/workspaces'' get_options v) = Inr (data_response (JArr ?l))" for h and v :: auth_world
    by (simp add: demo_list_server_def first_request_def build_request_def get_options_def method_of_def)
  have "\<exists>s' w'. create_workspace OtherVal demo_list_server new_form auth_demo = (Some (''/workspaces/'' @ ''w2''), s', w') \<and>
    wv_name s' = [] \<and> wv_slug s' = [] \<and> \<not> wv_dialogByUser s' \<and> currentWorkspace w' = Some (JObj [(''id'', JStr ''w2'')]) \<and>
    getStoredWorkspaceId w' = Some ''w2'' \<and> workspaces w' = ?l \<and> cacheLog w' = cacheLog auth_demo @ [InvalidateAll]"
    using valid post by (intro created_workspace_selected [where d = "JObj [(''id'', JStr ''w2'')]"]) (simp_all add: list)
  then show ?thesis by auto
qed

end
