(* ===== verification/Settings_Views.thy ===== *)
theory Settings_Views
  imports Complex_Main Validation Platform_Hooks Json_Text Paged_List Account_Forms
begin

text \<open>
  The settings of a workspace (\<open>features/settings/ui/settings-view.tsx\<close>) and the queue monitor
  (\<open>queue-view.tsx\<close>, \<open>queue-stats-card.tsx\<close>, \<open>queue-jobs-browser.tsx\<close>, \<open>queue-job-detail-dialog.tsx\<close>).
  Settings are an association list in the order of the object's members; \<open>loose\<close> and \<open>enum_msg\<close> are
  the library's, as in \<open>Validation\<close>.
\<close>

section \<open>Settings\<close>

type_synonym settings = "(string \<times> string) list"

record settings_view =
  sv_local :: settings
  sv_prevKey :: "string option"
  sv_errors :: "(string \<times> string) list"
  sv_submitted :: bool

definition mount_settings :: settings_view where
  "mount_settings = \<lparr>sv_local = [], sv_prevKey = None, sv_errors = [], sv_submitted = False\<rparr>"

definition settings_key :: "settings \<Rightarrow> string" where
  "settings_key data = stringify (JObj (map (\<lambda>(k, v). (k, JStr v)) data))"

definition sync_settings :: "settings option \<Rightarrow> settings_view \<Rightarrow> settings_view" where
  "sync_settings data s =
     (case data of
        None \<Rightarrow> s
      | Some d \<Rightarrow>
          (if sv_prevKey s \<noteq> Some (settings_key d) then s\<lparr>sv_prevKey := Some (settings_key d), sv_local := d\<rparr> else s))"

definition isDirty :: "settings option \<Rightarrow> settings_view \<Rightarrow> bool" where
  "isDirty serverSettings s =
     (case serverSettings of
        None \<Rightarrow> False
      | Some d \<Rightarrow> list_ex (\<lambda>(key, _). map_of (sv_local s) key \<noteq> map_of d key) (sv_local s))"

definition settings_input :: "settings \<Rightarrow> settings_input" where
  "settings_input d =
     \<lparr>monitoring_interval = map_of d ''monitoring_interval'', discovery_scan_depth = map_of d ''discovery_scan_depth'',
      discovery_interval = map_of d ''discovery_interval'', discovery_auto_approve = map_of d ''discovery_auto_approve'',
      stale_auto_remove_months = map_of d ''stale_auto_remove_months'',
      package_count_warning_threshold = map_of d ''package_count_warning_threshold'',
      email_digest_enabled = map_of d ''email_digest_enabled'', email_digest_frequency = map_of d ''email_digest_frequency'',
      email_digest_recipients = map_of d ''email_digest_recipients''\<rparr>"

definition settings_issues :: "(string \<Rightarrow> bool) \<Rightarrow> string \<Rightarrow> settings \<Rightarrow> issues" where
  "settings_issues loose enum_msg d = settingsSchema loose enum_msg (settings_input d)"

text \<open>\<open>{ ...localSettings, [key]: value }\<close>.\<close>

definition updateSetting :: "(string \<Rightarrow> bool) \<Rightarrow> string \<Rightarrow> string \<Rightarrow> string \<Rightarrow> settings_view \<Rightarrow> settings_view" where
  "updateSetting loose enum_msg key value s =
     (let updated = AList.update key value (sv_local s); s = s\<lparr>sv_local := updated\<rparr> in
      if \<not> sv_submitted s then s else s\<lparr>sv_errors := parseFieldErrors (settings_issues loose enum_msg updated)\<rparr>)"

definition save_settings :: "(string \<Rightarrow> bool) \<Rightarrow> string \<Rightarrow> settings_view \<Rightarrow> api_call option \<times> settings_view" where
  "save_settings loose enum_msg s =
     (let s = s\<lparr>sv_submitted := True, sv_errors := []\<rparr>; iss = settings_issues loose enum_msg (sv_local s) in
      if iss \<noteq> [] then (None, s\<lparr>sv_errors := parseFieldErrors iss\<rparr>)
      else (Some (m_call useUpdateSettings (sv_local s)), s))"

definition save_disabled :: "bool \<Rightarrow> settings option \<Rightarrow> settings_view \<Rightarrow> bool" where
  "save_disabled isPending serverSettings s \<longleftrightarrow> isPending \<or> \<not> isDirty serverSettings s"

definition can_edit_settings :: "WorkspaceRole option \<Rightarrow> bool" where
  "can_edit_settings currentRole = hasMinimumRole currentRole admin"

section \<open>The queue monitor\<close>

record queue_counts =
  qs_pending :: nat
  qs_processing :: nat
  qs_completed :: nat
  qs_dead :: nat

definition queue_total :: "queue_counts \<Rightarrow> nat" where
  "queue_total q = qs_pending q + qs_processing q + qs_completed q + qs_dead q"

text \<open>The segments of the bar with their widths in percent.\<close>

definition bar_segments :: "queue_counts \<Rightarrow> (string \<times> rat) list" where
  "bar_segments q =
     (let width = (\<lambda>n. of_nat n / of_nat (queue_total q) * 100) in
      if 0 < queue_total q then
        filter (\<lambda>(c, w). 0 < w)
          [(''completed'', width (qs_completed q)), (''processing'', width (qs_processing q)),
           (''pending'', width (qs_pending q)), (''dead'', width (qs_dead q))]
      else [])"

definition can_operate :: "WorkspaceRole option \<Rightarrow> bool" where
  "can_operate currentRole = hasMinimumRole currentRole admin"

definition shown_count :: "string \<Rightarrow> json \<Rightarrow> string option" where
  "shown_count fld r = map_option (\<lambda>d. js_string_opt d) (Option.bind (get_prop (Some r) ''data'') (\<lambda>d. get_prop d fld))"

text \<open>The message after the two actions; \<open>te\<close> is the \<open>TypeError\<close> of an answer without data.\<close>

definition reanalyze_message :: "thrown \<Rightarrow> thrown + json \<Rightarrow> string" where
  "reanalyze_message te answer =
     (case answer of
        Inl e \<Rightarrow> raw_message ''Failed to trigger re-analysis'' e
      | Inr r \<Rightarrow>
          (case shown_count ''queued'' r of
             None \<Rightarrow> raw_message ''Failed to trigger re-analysis'' te
           | Some n \<Rightarrow> ''Queued '' @ n @ '' job(s)''))"

definition retry_message :: "thrown \<Rightarrow> string \<Rightarrow> thrown + json \<Rightarrow> string" where
  "retry_message te ty answer =
     (case answer of
        Inl e \<Rightarrow> raw_message ''Failed to retry dead jobs'' e
      | Inr r \<Rightarrow>
          (case shown_count ''count'' r of
             None \<Rightarrow> raw_message ''Failed to retry dead jobs'' te
           | Some n \<Rightarrow> ''Retried '' @ n @ '' dead '' @ ty @ '' job(s)''))"

definition retry_button :: "WorkspaceRole option \<Rightarrow> queue_counts option \<Rightarrow> string option" where
  "retry_button currentRole analyze =
     (case analyze of
        None \<Rightarrow> None
      | Some q \<Rightarrow>
          (if can_operate currentRole \<and> 0 < qs_dead q
           then Some (''Retry '' @ show_nat (qs_dead q) @ '' Dead Job'' @ (if qs_dead q \<noteq> 1 then ''s'' else []))
           else None))"

subsection \<open>The browser of jobs\<close>

record queue_browser = list_state +
  qb_type :: QueueJobType
  qb_status :: QueueJobStatus
  qb_selected :: "string option"

definition url_queue_type :: "params \<Rightarrow> QueueJobType" where
  "url_queue_type ps = (if usp_get ps ''type'' = Some ''analyze'' then q_analyze else q_diff)"

definition url_queue_status :: "params \<Rightarrow> QueueJobStatus" where
  "url_queue_status ps =
     (if usp_get ps ''status'' = Some ''processing'' then q_processing
      else if usp_get ps ''status'' = Some ''dead'' then q_dead else q_pending)"

definition mount_queue :: "params \<Rightarrow> queue_browser" where
  "mount_queue ps =
     \<lparr>ls_search = [], ls_debounced = [], ls_pageIndex = 0, ls_pageSize = 20, ls_query = ps,
      qb_type = url_queue_type ps, qb_status = url_queue_status ps, qb_selected = None\<rparr>"

definition QUEUE_FILTER_DEFAULTS :: "string \<Rightarrow> string option" where
  "QUEUE_FILTER_DEFAULTS = map_of [(''type'', ''diff''), (''status'', ''pending'')]"

definition queue_filters :: "queue_browser \<Rightarrow> params" where
  "queue_filters s = [(''type'', queue_type_name (qb_type s)), (''status'', queue_status_name (qb_status s))]"

definition queue_request :: "queue_browser \<Rightarrow> QueueJobsParams" where
  "queue_request s = \<lparr>qp_type = qb_type s, qp_status = qb_status s, qp_page = page_param s, qp_limit = limit_param s\<rparr>"

definition queue_set_filter :: "QueueJobType \<Rightarrow> QueueJobStatus \<Rightarrow> queue_browser \<Rightarrow> queue_browser" where
  "queue_set_filter ty st s = s\<lparr>qb_type := ty, qb_status := st, ls_pageIndex := 0\<rparr>"

definition handleTabChange :: "QueueJobStatus option \<Rightarrow> queue_browser \<Rightarrow> queue_browser" where
  "handleTabChange v s = (case v of None \<Rightarrow> s | Some st \<Rightarrow> s\<lparr>qb_status := st, ls_pageIndex := 0\<rparr>)"

definition handleTypeChange :: "QueueJobType option \<Rightarrow> queue_browser \<Rightarrow> queue_browser" where
  "handleTypeChange v s = (case v of None \<Rightarrow> s | Some ty \<Rightarrow> s\<lparr>qb_type := ty, ls_pageIndex := 0\<rparr>)"

definition queue_effect :: "queue_browser \<Rightarrow> queue_browser \<Rightarrow> queue_browser" where
  "queue_effect prev s =
     (if queue_filters s = queue_filters prev then s
      else s\<lparr>ls_query := filter_params (queue_filters s) QUEUE_FILTER_DEFAULTS\<rparr>)"

text \<open>\<open>Math.ceil(total / pageSize)\<close>: no page at all for an empty queue.\<close>

definition queue_pages :: "nat \<Rightarrow> nat \<Rightarrow> nat" where
  "queue_pages n len = (n + len - 1) div len"

definition handleRetryAll :: "thrown \<Rightarrow> queue_browser \<Rightarrow> (api_call \<Rightarrow> thrown + json) \<Rightarrow> api_call \<times> effect" where
  "handleRetryAll te s answer =
     (let call = m_call useRetryDeadJobs (Some (queue_type_name (qb_type s))) in
      (call,
       case answer call of
         Inl e \<Rightarrow> ToastError (raw_message ''Failed to retry'' e)
       | Inr r \<Rightarrow>
           (case shown_count ''count'' r of
              None \<Rightarrow> ToastError (raw_message ''Failed to retry'' te)
            | Some n \<Rightarrow> ToastSuccess (''Retried '' @ n @ '' dead job(s)''))))"

definition handleRetrySingle :: "string \<Rightarrow> (api_call \<Rightarrow> thrown + json) \<Rightarrow> api_call \<times> effect" where
  "handleRetrySingle jobId answer =
     (let call = m_call useRetryDeadJob jobId in
      (call,
       case answer call of
         Inl e \<Rightarrow> ToastError (raw_message ''Failed to retry job'' e)
       | Inr _ \<Rightarrow> ToastSuccess (''Job #'' @ jobId @ '' queued for retry'')))"

definition retry_all_disabled :: "bool \<Rightarrow> nat \<Rightarrow> bool" where
  "retry_all_disabled isPending deadCount \<longleftrightarrow> isPending \<or> deadCount = 0"

definition STUCK_THRESHOLD_SECONDS :: int where
  "STUCK_THRESHOLD_SECONDS = 600"

definition formatDuration :: "int \<Rightarrow> string" where
  "formatDuration seconds =
     (if seconds < 60 then show_int seconds @ ''s''
      else if seconds < 3600 then show_int (seconds div 60) @ ''m '' @ show_int (seconds mod 60) @ ''s''
      else show_int (seconds div 3600) @ ''h '' @ show_int (seconds mod 3600 div 60) @ ''m'')"

definition job_duration :: "int \<Rightarrow> int \<Rightarrow> int" where
  "job_duration nowSeconds updatedAt = max 0 (nowSeconds - updatedAt)"

definition isPossiblyStuck :: "int \<Rightarrow> int \<Rightarrow> bool" where
  "isPossiblyStuck nowSeconds updatedAt \<longleftrightarrow> STUCK_THRESHOLD_SECONDS < job_duration nowSeconds updatedAt"

definition isRetryingJob :: "string \<Rightarrow> string option \<Rightarrow> bool" where
  "isRetryingJob jobStatus lastError \<longleftrightarrow> jobStatus = ''pending'' \<and> truthy_str lastError"

definition formatVersion :: "string \<Rightarrow> string" where
  "formatVersion version = (if startsWith version ''v'' then version else ''v'' @ version)"

inductive queue_change :: "queue_browser \<Rightarrow> queue_browser \<Rightarrow> bool" where
  card: "queue_change s (queue_set_filter ty st s)"
| tab: "queue_change s (handleTabChange st s)"
| queue: "queue_change s (handleTypeChange ty s)"
| page: "queue_change s (set_pagination i n s)"
| row: "queue_change s (s\<lparr>qb_selected := j\<rparr>)"

inductive queue_run :: "queue_browser \<Rightarrow> bool" where
  start: "queue_run (mount_queue ps)"
| step: "queue_run s \<Longrightarrow> queue_change s s' \<Longrightarrow> queue_run (queue_effect s s')"

section \<open>Unsaved settings\<close>

lemma map_of_edits:
  "map_of (sv_local (fold (\<lambda>(k, v). updateSetting loose enum_msg k v) edits s)) = map_of (sv_local s) ++ map_of (rev edits)"
  by (induction edits arbitrary: s)
    (auto simp: updateSetting_def update_conv' Let_def map_add_def fun_eq_iff split: option.splits)

text \<open>The save button is enabled exactly if some setting differs from the server's, however the form was edited
  since the server's settings arrived; typing a value back disables it again.\<close>

theorem save_enabled_iff_changed:
  "save_disabled False (Some d) (fold (\<lambda>(k, v). updateSetting loose enum_msg k v) edits (sync_settings (Some d) mount_settings)) \<longleftrightarrow>
   map_of d ++ map_of (rev edits) = map_of d"
proof -
  let ?s = "fold (\<lambda>(k, v). updateSetting loose enum_msg k v) edits (sync_settings (Some d) mount_settings)"
  have local: "map_of (sv_local ?s) = map_of d ++ map_of (rev edits)"
    by (simp add: map_of_edits sync_settings_def mount_settings_def)
  have "isDirty (Some d) ?s \<longleftrightarrow> (\<exists>k \<in> dom (map_of (sv_local ?s)). map_of (sv_local ?s) k \<noteq> map_of d k)"
    by (force simp: isDirty_def list_ex_iff dom_map_of_conv_image_fst)
  also have "\<dots> \<longleftrightarrow> map_of d ++ map_of (rev edits) \<noteq> map_of d"
    unfolding local by (auto simp: fun_eq_iff dom_def map_add_def split: option.splits)
  finally show ?thesis by (simp add: save_disabled_def)
qed

text \<open>Loading the same settings again keeps what was typed; loading others discards it.\<close>

lemma edits_kept: "sv_prevKey s = Some (settings_key d) \<Longrightarrow> sync_settings (Some d) s = s"
  by (simp add: sync_settings_def)

lemma edits_discarded: "sv_prevKey s \<noteq> Some (settings_key d) \<Longrightarrow> sv_local (sync_settings (Some d) s) = d"
  by (simp add: sync_settings_def)

text \<open>What is saved passes the schema and is the whole form; when the server answers with it, nothing is left to save.\<close>

lemma saved_settings:
  assumes "fst (save_settings loose enum_msg s) = Some c" and "map_of d = map_of (sv_local s)"
  shows "c = updateSettings (sv_local s) \<and> settings_issues loose enum_msg (sv_local s) = [] \<and>
    \<not> isDirty (Some d) (sync_settings (Some d) (snd (save_settings loose enum_msg s)))"
  using assms by (auto simp: save_settings_def useUpdateSettings_def isDirty_def sync_settings_def list_ex_iff Let_def split: if_splits)

section \<open>The bar of a queue\<close>

lemma filter_widths: "sum_list (map snd (filter (\<lambda>(c :: string, w :: rat). 0 < w) xs)) = sum_list (map snd xs)"
  if "list_all (\<lambda>(c, w). 0 \<le> w) xs"
  using that by (induction xs) auto

text \<open>The segments of a queue's bar fill it exactly.\<close>

theorem bar_filled:
  "sum_list (map snd (bar_segments q)) = (if 0 < queue_total q then 100 else 0) \<and>
   list_all (\<lambda>(c, w). 0 < w \<and> w \<le> 100) (bar_segments q)"
proof (cases "0 < queue_total q")
  case True
  let ?t = "of_nat (queue_total q) :: rat"
  let ?xs = "[(''completed'', of_nat (qs_completed q) / ?t * 100), (''processing'', of_nat (qs_processing q) / ?t * 100),
    (''pending'', of_nat (qs_pending q) / ?t * 100), (''dead'', of_nat (qs_dead q) / ?t * 100)]"
  have eq: "bar_segments q = filter (\<lambda>(c, w). 0 < w) ?xs" using True by (simp add: bar_segments_def Let_def)
  have pos: "0 < ?t" using True by simp
  have "sum_list (map snd (bar_segments q)) = sum_list (map snd ?xs)"
    unfolding eq by (rule filter_widths) (use pos in simp)
  also have "\<dots> = (of_nat (qs_completed q) + of_nat (qs_processing q) + of_nat (qs_pending q) + of_nat (qs_dead q)) / ?t * 100"
    by (simp add: add_divide_distrib algebra_simps)
  also have "of_nat (qs_completed q) + of_nat (qs_processing q) + of_nat (qs_pending q) + of_nat (qs_dead q) = ?t"
    by (simp add: queue_total_def)
  finally have "sum_list (map snd (bar_segments q)) = 100" using pos by simp
  moreover have "of_nat n / ?t * 100 \<le> 100" if "n \<le> queue_total q" for n
    using that pos by (simp add: divide_le_eq)
  then have "list_all (\<lambda>(c, w). 0 < w \<and> w \<le> 100) (bar_segments q)"
    unfolding eq by (simp add: list_all_iff queue_total_def)
  ultimately show ?thesis using True by simp
qed (simp add: bar_segments_def)

section \<open>The queue's filters and the address bar\<close>

lemma queue_read_back:
  "url_queue_type (filter_params (queue_filters s) QUEUE_FILTER_DEFAULTS) = qb_type s"
  "url_queue_status (filter_params (queue_filters s) QUEUE_FILTER_DEFAULTS) = qb_status s"
proof -
  have d: "distinct (map fst (queue_filters s))" by (simp add: queue_filters_def)
  show "url_queue_type (filter_params (queue_filters s) QUEUE_FILTER_DEFAULTS) = qb_type s"
    unfolding url_queue_type_def usp_get_filter_params [OF d]
    by (cases "qb_type s") (simp_all add: queue_filters_def QUEUE_FILTER_DEFAULTS_def)
  show "url_queue_status (filter_params (queue_filters s) QUEUE_FILTER_DEFAULTS) = qb_status s"
    unfolding url_queue_status_def usp_get_filter_params [OF d]
    by (cases "qb_status s") (simp_all add: queue_filters_def QUEUE_FILTER_DEFAULTS_def)
qed

lemma queue_filters_same: "queue_filters s = queue_filters s' \<longleftrightarrow> qb_type s = qb_type s' \<and> qb_status s = qb_status s'"
  by (cases "qb_type s"; cases "qb_type s'"; cases "qb_status s"; cases "qb_status s'") (simp_all add: queue_filters_def)

lemma queue_change_query: "queue_change s s' \<Longrightarrow> ls_query s' = ls_query s"
  by (induction rule: queue_change.induct)
    (simp_all add: queue_set_filter_def handleTabChange_def handleTypeChange_def set_pagination_def split: option.splits)

lemma queue_change_page: "queue_change s s' \<Longrightarrow> queue_filters s' \<noteq> queue_filters s \<Longrightarrow> ls_pageIndex s' = 0"
  by (induction rule: queue_change.induct)
    (auto simp: queue_set_filter_def handleTabChange_def handleTypeChange_def set_pagination_def queue_filters_same split: option.splits)

text \<open>The queue and the status on the screen are those a reload shows, and a change of either starts at the
  first page and asks for exactly that queue and status.\<close>

theorem queue_filters_survive_reload:
  assumes "queue_run s"
  shows "qb_type (mount_queue (ls_query s)) = qb_type s \<and> qb_status (mount_queue (ls_query s)) = qb_status s \<and>
    qp_type (queue_request s) = qb_type s \<and> qp_status (queue_request s) = qb_status s"
proof -
  have "qb_type (mount_queue (ls_query s)) = qb_type s \<and> qb_status (mount_queue (ls_query s)) = qb_status s"
    using assms
  proof (induction rule: queue_run.induct)
    case (start ps)
    then show ?case by (simp add: mount_queue_def)
  next
    case (step s s')
    then show ?case
      using queue_change_query [OF step.hyps(2)] queue_filters_same [of s' s]
      by (simp add: queue_effect_def mount_queue_def queue_read_back)
  qed
  then show ?thesis by (simp add: queue_request_def)
qed

lemma queue_filters_survive_reload_witness:
  "\<exists>s. queue_run s \<and> qb_type s = q_analyze \<and> qb_status s = q_dead \<and>
     ls_query s = [(''type'', ''analyze''), (''status'', ''dead'')] \<and> qb_status (mount_queue (ls_query s)) = q_dead"
proof -
  define s where "s = queue_effect (mount_queue []) (queue_set_filter q_analyze q_dead (mount_queue []))"
  have run: "queue_run s" unfolding s_def by (rule queue_run.step [OF queue_run.start queue_change.card])
  have "qb_type s = q_analyze" "qb_status s = q_dead" "ls_query s = [(''type'', ''analyze''), (''status'', ''dead'')]"
    by (simp_all add: s_def queue_effect_def queue_set_filter_def mount_queue_def url_queue_type_def url_queue_status_def
        queue_filters_def filter_params_def QUEUE_FILTER_DEFAULTS_def usp_get_def Let_def)
  with queue_filters_survive_reload [OF run] run show ?thesis by auto
qed

section \<open>Durations\<close>

text \<open>A duration is never negative, even when the server's clock is ahead, and such a job is not called stuck.\<close>

lemma duration_bounds:
  "0 \<le> job_duration now updatedAt" "now \<le> updatedAt \<Longrightarrow> \<not> isPossiblyStuck now updatedAt"
  by (simp_all add: job_duration_def isPossiblyStuck_def STUCK_THRESHOLD_SECONDS_def)

end
