(* ===== verification/Local_Storage.thy ===== *)
theory Local_Storage
  imports Browser Json_Text
begin

text \<open>
  The hook that keeps a value in localStorage (\<open>core/hooks/use-local-storage.ts\<close>): what a component
  starts with, what a write does, and how the tabs of a browser follow each other through the
  storage event. A value is a JSON value; the value of the hook's type parameter is not checked
  by the code either.
\<close>

section \<open>The hook\<close>

text \<open>\<open>item !== null ? JSON.parse(item) : defaultValue\<close>, and the default where parsing throws.\<close>

definition read_stored :: "json \<Rightarrow> string option \<Rightarrow> json" where
  "read_stored d item =
     (case item of
        None \<Rightarrow> d
      | Some t \<Rightarrow> (case json_parse t of None \<Rightarrow> d | Some v \<Rightarrow> v))"

definition initial_value :: "string \<Rightarrow> json \<Rightarrow> 'a http_world_scheme \<Rightarrow> json" where
  "initial_value key d w = (if \<not> windowDefined w then d else read_stored d (getItem w key))"

text \<open>The setter, given a function of the value before; \<open>full\<close> says that the storage refuses the write.\<close>

definition setValue ::
  "bool \<Rightarrow> string \<Rightarrow> (json \<Rightarrow> json) \<Rightarrow> json \<Rightarrow> 'a http_world_scheme \<Rightarrow> json \<times> 'a http_world_scheme" where
  "setValue full key f prev w =
     (let nextValue = f prev in (nextValue, if full then w else setItem key (stringify nextValue) w))"

text \<open>The handler of a storage event with its \<open>key\<close> (null when the whole storage was cleared) and \<open>newValue\<close>.\<close>

definition on_storage :: "string \<Rightarrow> json \<Rightarrow> string option \<times> string option \<Rightarrow> json \<Rightarrow> json" where
  "on_storage key d e prev = (if fst e \<noteq> Some key then prev else read_stored d (snd e))"

lemma stored_value_read_back:
  assumes "windowDefined w" and "json_ok (f prev)"
  shows "initial_value key d (snd (setValue False key f prev w)) = fst (setValue False key f prev w)"
  using assms by (simp add: initial_value_def setValue_def read_stored_def parse_stringify http_simps Let_def)

section \<open>Several tabs\<close>

text \<open>
  Every tab has its value and the storage events that have not reached it yet. A browser sends an
  event to every tab but the writer's, and only when the stored text changes.
\<close>

type_synonym tab = "json \<times> (string option \<times> string option) list"

record tabs =
  shared :: http_world
  views :: "tab list"

definition broadcast :: "nat \<Rightarrow> string option \<times> string option \<Rightarrow> tab list \<Rightarrow> tab list" where
  "broadcast i e ts = map (\<lambda>j. if j = i then ts ! j else (fst (ts ! j), snd (ts ! j) @ [e])) [0..<length ts]"

definition tab_writes :: "string \<Rightarrow> nat \<Rightarrow> (json \<Rightarrow> json) \<Rightarrow> tabs \<Rightarrow> tabs" where
  "tab_writes key i f s =
     (case setValue False key f (fst (views s ! i)) (shared s) of
        (v, w) \<Rightarrow>
          \<lparr>shared = w,
           views = (let ts = (views s)[i := (v, snd (views s ! i))] in
             if getItem w key = getItem (shared s) key then ts
             else broadcast i (Some key, getItem w key) ts)\<rparr>)"

definition tab_receives :: "string \<Rightarrow> json \<Rightarrow> nat \<Rightarrow> tabs \<Rightarrow> tabs" where
  "tab_receives key d i s =
     (case views s ! i of
        (v, []) \<Rightarrow> s
      | (v, e # es) \<Rightarrow> s\<lparr>views := (views s)[i := (on_storage key d e v, es)]\<rparr>)"

definition tab_opens :: "string \<Rightarrow> json \<Rightarrow> tabs \<Rightarrow> tabs" where
  "tab_opens key d s = s\<lparr>views := views s @ [(initial_value key d (shared s), [])]\<rparr>"

text \<open>Runs in which a tab writes only when no event is on its way to it.\<close>

inductive tabs_run :: "string \<Rightarrow> json \<Rightarrow> tabs \<Rightarrow> bool" for key d where
  start: "windowDefined w \<Longrightarrow> tabs_run key d \<lparr>shared = w, views = []\<rparr>"
| opens: "tabs_run key d s \<Longrightarrow> tabs_run key d (tab_opens key d s)"
| writes: "tabs_run key d s \<Longrightarrow> i < length (views s) \<Longrightarrow> snd (views s ! i) = [] \<Longrightarrow>
    json_ok (f (fst (views s ! i))) \<Longrightarrow> tabs_run key d (tab_writes key i f s)"
| receives: "tabs_run key d s \<Longrightarrow> i < length (views s) \<Longrightarrow> tabs_run key d (tab_receives key d i s)"

text \<open>What a tab will show once everything on its way has arrived.\<close>

definition settled :: "string \<Rightarrow> json \<Rightarrow> tab \<Rightarrow> json" where
  "settled key d t = fold (on_storage key d) (snd t) (fst t)"

lemma settled_snoc: "settled key d (v, es @ [(Some key, item)]) = read_stored d item"
  by (simp add: settled_def on_storage_def)

lemma set_broadcast:
  "t \<in> set (broadcast i e ts) \<Longrightarrow> i < length ts \<Longrightarrow> t = ts ! i \<or> (\<exists>v es. t = (v, es @ [e]))"
  by (auto simp: broadcast_def)

lemma tabs_settle:
  assumes "tabs_run key d s"
  shows "windowDefined (shared s) \<and> (\<forall>t \<in> set (views s). settled key d t = read_stored d (getItem (shared s) key))"
  using assms
proof (induction rule: tabs_run.induct)
  case (opens s)
  then show ?case by (simp add: tab_opens_def settled_def initial_value_def)
next
  case (writes s i f)
  define v where "v = f (fst (views s ! i))"
  define w where "w = setItem key (stringify v) (shared s)"
  define ts where "ts = (views s)[i := (v, [])]"
  have w: "getItem w key = Some (stringify v)" "windowDefined w"
    using writes.IH by (simp_all add: w_def http_simps)
  have at: "ts ! i = (v, [])" "i < length ts" using writes.hyps by (simp_all add: ts_def)
  have new: "read_stored d (getItem w key) = v" using writes.hyps(4) w(1) by (simp add: read_stored_def parse_stringify v_def)
  have eq: "tab_writes key i f s = \<lparr>shared = w, views =
      (if getItem w key = getItem (shared s) key then ts else broadcast i (Some key, getItem w key) ts)\<rparr>"
    using writes.hyps(3) by (simp add: tab_writes_def setValue_def v_def w_def ts_def Let_def)
  have own: "settled key d (v, []) = read_stored d (getItem w key)" by (simp add: settled_def new)
  show ?case
  proof (cases "getItem w key = getItem (shared s) key")
    case True
    then have "\<forall>t \<in> set ts. settled key d t = read_stored d (getItem w key)"
      using writes.IH own by (auto simp: ts_def dest!: subsetD [OF set_update_subset_insert])
    then show ?thesis using True w(2) by (simp add: eq)
  next
    case False
    have "settled key d t = read_stored d (getItem w key)" if "t \<in> set (broadcast i (Some key, getItem w key) ts)" for t
      using set_broadcast [OF that at(2)] own by (auto simp: at(1) settled_snoc)
    then show ?thesis using False w(2) by (simp add: eq)
  qed
next
  case (receives s i)
  obtain v es where t: "views s ! i = (v, es)" by fastforce
  then have "settled key d (v, es) = read_stored d (getItem (shared s) key)" using receives nth_mem by metis
  then show ?case using receives.IH t
    by (cases es) (auto simp: tab_receives_def settled_def dest!: subsetD [OF set_update_subset_insert])
qed simp

text \<open>As long as a tab writes only after it has received what the others wrote, every tab without an
  event on its way shows what is stored, so that all of them show the same.\<close>

theorem tabs_agree:
  assumes "tabs_run key d s" and "i < length (views s)" and "snd (views s ! i) = []"
  shows "fst (views s ! i) = read_stored d (getItem (shared s) key)"
proof -
  have "settled key d (views s ! i) = read_stored d (getItem (shared s) key)"
    using tabs_settle [OF assms(1)] nth_mem [OF assms(2)] by blast
  then show ?thesis using assms(3) by (simp add: settled_def)
qed

definition storage_demo :: http_world where
  "storage_demo = \<lparr>ls = Map.empty, jar = [], protocol = ''https:'', secureOrigin = True, windowDefined = True,
     env_api_url = None, isRefreshing = False, refreshPromise = None, sent = []\<rparr>"

definition two_tabs :: tabs where
  "two_tabs = tab_opens ''k'' (JBool True) (tab_opens ''k'' (JBool True) \<lparr>shared = storage_demo, views = []\<rparr>)"

lemma two_tabs_run: "tabs_run ''k'' (JBool True) two_tabs"
  unfolding two_tabs_def by (intro tabs_run.opens tabs_run.start) (simp add: storage_demo_def)

lemma two_tabs_views: "views two_tabs = [(JBool True, []), (JBool True, [])]" "getItem (shared two_tabs) ''k'' = None"
  by (simp_all add: two_tabs_def tab_opens_def initial_value_def read_stored_def storage_demo_def getItem_def)

lemma parse_bool: "json_parse (stringify (JBool b)) = Some (JBool b)"
  by (rule parse_stringify) simp

lemma tabs_agree_witness:
  "fst (views (tab_receives ''k'' (JBool True) 1 (tab_writes ''k'' 0 (\<lambda>_. JBool False) two_tabs)) ! 1) = JBool False"
proof -
  let ?s = "tab_writes ''k'' 0 (\<lambda>_. JBool False) two_tabs"
  let ?t = "stringify (JBool False)"
  have s: "views ?s = [(JBool False, []), (JBool True, [(Some ''k'', Some ?t)])]" "getItem (shared ?s) ''k'' = Some ?t"
    by (simp_all add: tab_writes_def setValue_def two_tabs_views broadcast_def http_simps Let_def)
  have "tabs_run ''k'' (JBool True) ?s"
    by (rule tabs_run.writes) (simp_all add: two_tabs_run two_tabs_views)
  then have run: "tabs_run ''k'' (JBool True) (tab_receives ''k'' (JBool True) 1 ?s)"
    by (rule tabs_run.receives) (simp add: s)
  have parts: "1 < length (views (tab_receives ''k'' (JBool True) 1 ?s))"
    "snd (views (tab_receives ''k'' (JBool True) 1 ?s) ! 1) = []"
    "getItem (shared (tab_receives ''k'' (JBool True) 1 ?s)) ''k'' = Some ?t"
    by (simp_all add: tab_receives_def s)
  show ?thesis using tabs_agree [OF run parts(1,2)] unfolding parts(3) by (simp add: read_stored_def parse_bool del: stringify.simps)
qed

text \<open>Two tabs that write at the same time: the one that wrote last is overtaken by the event of the
  other and shows a value that is not the stored one, with nothing left to correct it.\<close>

theorem crossing_writes_disagree:
  "\<exists>s. views s = [(JNum 60, []), (JNum 30, [])] \<and> getItem (shared s) ''k'' = Some (stringify (JNum 60)) \<and>
    s = tab_receives ''k'' (JBool True) 1 (tab_receives ''k'' (JBool True) 0
      (tab_writes ''k'' 1 (\<lambda>_. JNum 60) (tab_writes ''k'' 0 (\<lambda>_. JNum 30) two_tabs)))"
proof -
  have num: "json_parse (stringify (JNum n)) = Some (JNum n)" for n by (rule parse_stringify) simp
  have "json_parse (stringify (JNum 60)) \<noteq> json_parse (stringify (JNum 30))" by (simp only: num) simp
  then have ne: "stringify (JNum 60) \<noteq> stringify (JNum 30)" by metis
  show ?thesis
    by (simp add: tab_writes_def tab_receives_def setValue_def two_tabs_views broadcast_def on_storage_def read_stored_def
        num ne http_simps Let_def del: stringify.simps)
qed

end
