(* ===== verification/Dashboard.thy ===== *)
theory Dashboard
  imports Local_Storage Calendar List_Views Routes Workspace_Hooks
begin

text \<open>
  The dashboard (\<open>features/dashboard/ui\<close>): the time range of its charts
  (\<open>dashboard-charts.tsx\<close>), the cards that lead into the tables, what it loads and how often
  (\<open>dashboard-view.tsx\<close>) and the card of pending suggestions. Instants are milliseconds since
  1970; \<open>zone t\<close> is the offset of the browser's local time at an instant, \<open>of_local\<close> the instant
  a local time stands for.
\<close>

section \<open>Days as text\<close>

definition pad_zeros :: "nat \<Rightarrow> string \<Rightarrow> string" where
  "pad_zeros n s = replicate (n - length s) (CHR ''0'') @ s"

text \<open>The date part of \<open>toISOString\<close>: four digits of the year, or a sign and six of them.\<close>

definition iso_year :: "int \<Rightarrow> string" where
  "iso_year y =
     (if 0 \<le> y \<and> y \<le> 9999 then pad_zeros 4 (show_int y)
      else (if y < 0 then CHR ''-'' else CHR ''+'') # pad_zeros 6 (show_int \<bar>y\<bar>))"

definition iso_date :: "int \<Rightarrow> string" where
  "iso_date n = (case civil_from_days n of (y, m, d) \<Rightarrow> iso_year y @ ''-'' @ pad2 m @ ''-'' @ pad2 d)"

definition formatDate :: "int \<Rightarrow> string" where
  "formatDate t = iso_date (t div day_ms)"

text \<open>A day from a year, a month counted from zero that may lie outside the year, and a day of the month.\<close>

definition make_day :: "int \<Rightarrow> int \<Rightarrow> int \<Rightarrow> int" where
  "make_day y m d = days_from_civil (y + m div 12) (m mod 12 + 1) d"

text \<open>\<open>d.setMonth(d.getMonth() - k)\<close> and \<open>d.setFullYear(d.getFullYear() - k)\<close>, in local time.\<close>

definition months_back :: "(int \<Rightarrow> int) \<Rightarrow> (int \<Rightarrow> int) \<Rightarrow> int \<Rightarrow> int \<Rightarrow> int" where
  "months_back zone of_local k t =
     (let l = t + zone t in
      case civil_from_days (l div day_ms) of
        (y, m, d) \<Rightarrow> of_local (make_day y (m - 1 - k) d * day_ms + l mod day_ms))"

definition years_back :: "(int \<Rightarrow> int) \<Rightarrow> (int \<Rightarrow> int) \<Rightarrow> int \<Rightarrow> int \<Rightarrow> int" where
  "years_back zone of_local k t =
     (let l = t + zone t in
      case civil_from_days (l div day_ms) of
        (y, m, d) \<Rightarrow> of_local (make_day (y - k) (m - 1) d * day_ms + l mod day_ms))"

section \<open>The time range of the charts\<close>

definition presetLabels :: "string \<Rightarrow> string option" where
  "presetLabels = map_of
     [(''24h'', ''Last 24 Hours''), (''7d'', ''Last 7 Days''), (''14d'', ''Last 14 Days''), (''30d'', ''Last 30 Days''),
      (''90d'', ''Last 90 Days''), (''6m'', ''Last 6 Months''), (''1y'', ''Last Year''), (''custom'', ''Custom Range'')]"

type_synonym chart_range = "string option \<times> string option"

text \<open>\<open>t0\<close> and \<open>t1\<close> are the two readings of the clock, the first for the end of the range.\<close>

definition getPresetRange :: "(int \<Rightarrow> int) \<Rightarrow> (int \<Rightarrow> int) \<Rightarrow> int \<Rightarrow> int \<Rightarrow> string \<Rightarrow> string \<times> string" where
  "getPresetRange zone of_local t0 t1 preset =
     (let until = formatDate t0; back = (\<lambda>n. formatDate (t1 - n * 86400000)) in
      if preset = ''24h'' then (formatDate (t1 - 86400000), until)
      else if preset = ''7d'' then (back 7, until)
      else if preset = ''14d'' then (back 14, until)
      else if preset = ''30d'' then (back 30, until)
      else if preset = ''90d'' then (back 90, until)
      else if preset = ''6m'' then (formatDate (months_back zone of_local 6 t1), until)
      else if preset = ''1y'' then (formatDate (years_back zone of_local 1 t1), until)
      else (back 30, until))"

record charts =
  ch_preset :: string
  ch_from :: "int option"
  ch_to :: "int option"
  ch_fromOpen :: bool
  ch_toOpen :: bool
  ch_range :: chart_range     \<comment> \<open>\<open>chartRange\<close> of the dashboard\<close>

definition mount_charts :: charts where
  "mount_charts = \<lparr>ch_preset = ''30d'', ch_from = None, ch_to = None, ch_fromOpen = False, ch_toOpen = False,
     ch_range = (None, None)\<rparr>"

definition isCustom :: "charts \<Rightarrow> bool" where
  "isCustom s \<longleftrightarrow> ch_preset s = ''custom''"

definition handlePresetChange :: "(int \<Rightarrow> int) \<Rightarrow> (int \<Rightarrow> int) \<Rightarrow> int \<Rightarrow> int \<Rightarrow> string \<Rightarrow> charts \<Rightarrow> charts" where
  "handlePresetChange zone of_local t0 t1 v s =
     (let s = s\<lparr>ch_preset := v\<rparr> in
      if v = ''custom'' then s
      else s\<lparr>ch_from := None, ch_to := None,
             ch_range := map_prod Some Some (getPresetRange zone of_local t0 t1 v)\<rparr>)"

definition chart_from_select :: "int option \<Rightarrow> charts \<Rightarrow> charts" where
  "chart_from_select d s =
     (let s = s\<lparr>ch_from := d, ch_fromOpen := False\<rparr> in
      if d \<noteq> None \<or> ch_to s \<noteq> None then s\<lparr>ch_range := (map_option formatDate d, map_option formatDate (ch_to s))\<rparr> else s)"

definition chart_to_select :: "int option \<Rightarrow> charts \<Rightarrow> charts" where
  "chart_to_select d s =
     (let s = s\<lparr>ch_to := d, ch_toOpen := False\<rparr> in
      if ch_from s \<noteq> None \<or> d \<noteq> None then s\<lparr>ch_range := (map_option formatDate (ch_from s), map_option formatDate d)\<rparr> else s)"

definition chart_reset :: "charts \<Rightarrow> charts" where
  "chart_reset s = s\<lparr>ch_preset := ''30d'', ch_from := None, ch_to := None, ch_range := (None, None)\<rparr>"

text \<open>The days the two calendars refuse.\<close>

definition chart_from_disabled :: "int \<Rightarrow> charts \<Rightarrow> int \<Rightarrow> bool" where
  "chart_from_disabled now s date = (case ch_to s of Some t \<Rightarrow> date > t | None \<Rightarrow> date > now)"

definition chart_to_disabled :: "int \<Rightarrow> charts \<Rightarrow> int \<Rightarrow> bool" where
  "chart_to_disabled now s date =
     (case ch_from s of Some f \<Rightarrow> date < f \<or> date > now | None \<Rightarrow> date > now)"

definition activityTitle :: "charts \<Rightarrow> string" where
  "activityTitle s =
     (let shown = (\<lambda>v. case v of Some x \<Rightarrow> x | None \<Rightarrow> ''...'') in
      if isCustom s \<and> (fst (ch_range s) \<noteq> None \<or> snd (ch_range s) \<noteq> None)
      then ''Release Activity ('' @ shown (fst (ch_range s)) @ '' - '' @ shown (snd (ch_range s)) @ '')''
      else ''Release Activity ('' @ (case presetLabels (ch_preset s) of Some l \<Rightarrow> l | None \<Rightarrow> ''Last 30 Days'') @ '')'')"

text \<open>\<open>chartRange.from || chartRange.to ? chartRange : undefined\<close>, and the request made with it.\<close>

definition chartParams :: "charts \<Rightarrow> chart_range option" where
  "chartParams s = (if fst (ch_range s) \<noteq> None \<or> snd (ch_range s) \<noteq> None then Some (ch_range s) else None)"

definition chart_query :: "charts \<Rightarrow> query" where
  "chart_query s = useChartData (chartParams s)"

text \<open>
  The handlers, each where the page offers it, and a new mount of the charts after a request without
  an answer, which keeps the range of the page alone. The clock does not run backwards and not
  a whole day between two readings in one handler.
\<close>

inductive charts_run :: "(int \<Rightarrow> int) \<Rightarrow> (int \<Rightarrow> int) \<Rightarrow> charts \<Rightarrow> bool" for zone of_local where
  mounted: "charts_run zone of_local mount_charts"
| preset: "charts_run zone of_local s \<Longrightarrow> presetLabels v \<noteq> None \<Longrightarrow> t0 \<le> t1 \<Longrightarrow> t1 \<le> t0 + day_ms \<Longrightarrow>
    charts_run zone of_local (handlePresetChange zone of_local t0 t1 v s)"
| from_opened: "charts_run zone of_local s \<Longrightarrow> isCustom s \<Longrightarrow> charts_run zone of_local (s\<lparr>ch_fromOpen := b\<rparr>)"
| to_opened: "charts_run zone of_local s \<Longrightarrow> isCustom s \<Longrightarrow> ch_from s \<noteq> None \<Longrightarrow> charts_run zone of_local (s\<lparr>ch_toOpen := b\<rparr>)"
| from_picked: "charts_run zone of_local s \<Longrightarrow> isCustom s \<Longrightarrow> \<not> chart_from_disabled now s d \<Longrightarrow>
    charts_run zone of_local (chart_from_select (Some d) s)"
| from_cleared: "charts_run zone of_local s \<Longrightarrow> isCustom s \<Longrightarrow> charts_run zone of_local (chart_from_select None s)"
| to_picked: "charts_run zone of_local s \<Longrightarrow> isCustom s \<Longrightarrow> \<not> chart_to_disabled now s d \<Longrightarrow>
    charts_run zone of_local (chart_to_select (Some d) s)"
| to_cleared: "charts_run zone of_local s \<Longrightarrow> isCustom s \<Longrightarrow> charts_run zone of_local (chart_to_select None s)"
| reset: "charts_run zone of_local s \<Longrightarrow> charts_run zone of_local (chart_reset s)"
| remounted: "charts_run zone of_local s \<Longrightarrow> charts_run zone of_local (mount_charts\<lparr>ch_range := ch_range s\<rparr>)"

section \<open>A range never ends before it begins\<close>

text \<open>The days before a year of the calendar that begins in March.\<close>

definition year_days :: "int \<Rightarrow> int" where
  "year_days y = 365 * y + y div 4 - y div 100 + y div 400"

lemma era_days: "y div 400 * 146097 + (365 * (y mod 400) + y mod 400 div 4 - y mod 400 div 100) = year_days y"
proof -
  define e r where "e = y div 400" and "r = y mod 400"
  have y: "y = r + 100 * e * 4" "y = r + 4 * e * 100" "y = 400 * e + r" by (simp_all add: e_def r_def)
  have "y div 4 = 100 * e + r div 4" by (subst y(1)) (rule div_mult_self1, simp)
  moreover have "y div 100 = 4 * e + r div 100" by (subst y(2)) (rule div_mult_self1, simp)
  moreover have "e * 146097 + (365 * r + a - b) = 365 * (400 * e + r) + (100 * e + a) - (4 * e + b) + e" for a b by simp
  ultimately show ?thesis unfolding year_days_def e_def [symmetric] r_def [symmetric] using y(3) by metis
qed

lemma days_from_civil_alt:
  "days_from_civil y m d = year_days (if m \<le> 2 then y - 1 else y) +
     (153 * (if m > 2 then m - 3 else m + 9) + 2) div 5 + d - 719469"
  unfolding days_from_civil_def Let_def era_days [symmetric] by simp

lemma year_days_step: "year_days (y - 1) + 364 \<le> year_days y"
proof -
  have "(y - 1) div 4 \<le> y div 4" "(y - 1) div 400 \<le> y div 400" by (simp_all add: zdiv_mono1)
  moreover have "y div 100 \<le> (y - 1) div 100 + 1"
    using zdiv_mono1 [of y "(y - 1) + 100" 100] by simp
  moreover have "365 * (y - 1) + a' - b' + c' + 364 \<le> 365 * y + a - b + c" if "a' \<le> a" "c' \<le> c" "b \<le> b' + 1" for a b c a' b' c' :: int
    using that by simp
  ultimately show ?thesis unfolding year_days_def by blast
qed

text \<open>The same day of the month, months earlier, is a month earlier at least.\<close>

lemma half_year_earlier:
  assumes "1 \<le> m" and "m \<le> 12"
  shows "make_day y (m - 1 - 6) d + 30 \<le> days_from_civil y m d"
proof -
  have "m = 1 \<or> m = 2 \<or> m = 3 \<or> m = 4 \<or> m = 5 \<or> m = 6 \<or> m = 7 \<or> m = 8 \<or> m = 9 \<or> m = 10 \<or> m = 11 \<or> m = 12"
    using assms by arith
  then show ?thesis
    using year_days_step [of y] year_days_step [of "y - 1"] unfolding make_day_def days_from_civil_alt by auto
qed

lemma year_earlier:
  assumes "1 \<le> m" and "m \<le> 12"
  shows "make_day (y - 1) (m - 1) d + 30 \<le> days_from_civil y m d"
proof -
  have "(m - 1) div 12 = 0" "(m - 1) mod 12 + 1 = m" using assms by simp_all
  then show ?thesis
    using year_days_step [of y] year_days_step [of "y - 1"] unfolding make_day_def days_from_civil_alt by auto
qed

text \<open>Offsets of local time are less than a day.\<close>

lemma earlier_instant:
  fixes l t z :: int
  assumes "\<bar>z\<bar> \<le> day_ms" and "\<And>l. \<bar>of_local l - l\<bar> \<le> day_ms"
    and "n + 30 \<le> l div day_ms" and "l = t + z"
  shows "of_local (n * day_ms + l mod day_ms) + day_ms \<le> t"
proof -
  have "l = l div day_ms * day_ms + l mod day_ms" by simp
  moreover have "n * day_ms + 30 * day_ms \<le> l div day_ms * day_ms" using assms(3) by (simp add: day_ms_def)
  ultimately show ?thesis using assms(1,4) assms(2) [of "n * day_ms + l mod day_ms"] by (simp add: day_ms_def)
qed

lemma preset_ordered:
  assumes zone: "\<And>t. \<bar>zone t\<bar> \<le> day_ms" "\<And>l. \<bar>of_local l - l\<bar> \<le> day_ms"
    and "t0 \<le> t1" and "t1 \<le> t0 + day_ms"
  shows "\<exists>m n. m \<le> n \<and> getPresetRange zone of_local t0 t1 v = (iso_date m, iso_date n)"
proof -
  have le: "u div day_ms \<le> t0 div day_ms" if "u + day_ms \<le> t1" for u
    using that assms(4) by (intro zdiv_mono1) (auto simp: day_ms_def)
  obtain y m d where c: "civil_from_days ((t1 + zone t1) div day_ms) = (y, m, d)" by (metis prod_cases3)
  have days: "days_from_civil y m d = (t1 + zone t1) div day_ms" using days_civil [of "(t1 + zone t1) div day_ms"] c by simp
  note range = civil_range(1,2) [OF c]
  have six: "months_back zone of_local 6 t1 + day_ms \<le> t1"
    unfolding months_back_def Let_def c prod.case
    by (rule earlier_instant [OF zone(1) [of t1] zone(2)]) (use half_year_earlier [OF range, of y d] days in simp_all)
  have one: "years_back zone of_local 1 t1 + day_ms \<le> t1"
    unfolding years_back_def Let_def c prod.case
    by (rule earlier_instant [OF zone(1) [of t1] zone(2)]) (use year_earlier [OF range, of y d] days in simp_all)
  have ago: "t1 - 86400000 + day_ms \<le> t1" "t1 - 7 * 86400000 + day_ms \<le> t1" "t1 - 14 * 86400000 + day_ms \<le> t1"
    "t1 - 30 * 86400000 + day_ms \<le> t1" "t1 - 90 * 86400000 + day_ms \<le> t1" by (simp_all add: day_ms_def)
  define u where "u = (if v = ''24h'' then t1 - 86400000 else if v = ''7d'' then t1 - 7 * 86400000
    else if v = ''14d'' then t1 - 14 * 86400000 else if v = ''30d'' then t1 - 30 * 86400000
    else if v = ''90d'' then t1 - 90 * 86400000 else if v = ''6m'' then months_back zone of_local 6 t1
    else if v = ''1y'' then years_back zone of_local 1 t1 else t1 - 30 * 86400000)"
  have "u + day_ms \<le> t1" using six one ago unfolding u_def by (simp split: if_split)
  moreover have "getPresetRange zone of_local t0 t1 v = (formatDate u, formatDate t0)"
    by (simp add: getPresetRange_def u_def Let_def)
  ultimately show ?thesis using le unfolding formatDate_def by blast
qed

text \<open>The invariant: the picked days are in order, a preset leaves none picked, and the range is in order.\<close>

definition charts_ok :: "charts \<Rightarrow> bool" where
  "charts_ok s \<longleftrightarrow>
     (case (ch_from s, ch_to s) of (Some f, Some t) \<Rightarrow> f \<le> t | _ \<Rightarrow> True) \<and>
     (\<not> isCustom s \<longrightarrow> ch_from s = None \<and> ch_to s = None) \<and>
     (\<forall>f t. ch_range s = (Some f, Some t) \<longrightarrow> (\<exists>m n. m \<le> n \<and> f = iso_date m \<and> t = iso_date n)) \<and>
     (ch_from s \<noteq> None \<or> ch_to s \<noteq> None \<longrightarrow> ch_range s = (map_option formatDate (ch_from s), map_option formatDate (ch_to s)))"

lemma picked_ordered: "f \<le> t \<Longrightarrow> \<exists>m n. m \<le> n \<and> formatDate f = iso_date m \<and> formatDate t = iso_date n"
  unfolding formatDate_def using zdiv_mono1 [of f t day_ms] by (auto simp: day_ms_def)

lemma charts_run_ok:
  assumes "charts_run zone of_local s" and zone: "\<And>t. \<bar>zone t\<bar> \<le> day_ms" "\<And>l. \<bar>of_local l - l\<bar> \<le> day_ms"
  shows "charts_ok s"
  using assms(1)
proof (induction rule: charts_run.induct)
  case (preset s v t0 t1)
  obtain m n where "m \<le> n" "getPresetRange zone of_local t0 t1 v = (iso_date m, iso_date n)"
    using preset_ordered [where zone = zone and of_local = of_local and v = v, OF zone preset.hyps(3,4)] by blast
  note mn = this
  show ?case
  proof (cases "v = ''custom''")
    case True
    then show ?thesis using preset.IH by (simp add: charts_ok_def handlePresetChange_def isCustom_def Let_def)
  next
    case False
    have "\<exists>m' n'. m' \<le> n' \<and> iso_date m = iso_date m' \<and> iso_date n = iso_date n'" using mn(1) by blast
    then show ?thesis using False mn(2) by (simp add: charts_ok_def handlePresetChange_def isCustom_def Let_def)
  qed
next
  case (from_picked s now d)
  then show ?case
    by (auto simp: charts_ok_def chart_from_select_def chart_from_disabled_def isCustom_def picked_ordered Let_def
        split: option.splits)
next
  case (to_picked s now d)
  then show ?case
    by (auto simp: charts_ok_def chart_to_select_def chart_to_disabled_def isCustom_def picked_ordered Let_def
        split: option.splits)
qed (auto simp: charts_ok_def mount_charts_def chart_from_select_def chart_to_select_def chart_reset_def isCustom_def Let_def
    split: option.splits)

text \<open>Whatever is picked, the charts never ask for a range that ends before it begins. While a start or an
  end is picked, the mode is the custom one and the range is the picked one.\<close>

theorem chart_range_ordered:
  assumes "charts_run zone of_local s" and "\<And>t. \<bar>zone t\<bar> \<le> day_ms" and "\<And>l. \<bar>of_local l - l\<bar> \<le> day_ms"
    and "chartParams s = Some (Some f, Some t)"
  shows "(\<exists>m n. m \<le> n \<and> f = iso_date m \<and> t = iso_date n \<and> chart_query s = useChartData (Some (Some (iso_date m), Some (iso_date n)))) \<and>
    (ch_from s \<noteq> None \<or> ch_to s \<noteq> None \<longrightarrow> isCustom s \<and> ch_range s = (map_option formatDate (ch_from s), map_option formatDate (ch_to s)))"
proof -
  note ok = charts_run_ok [OF assms(1-3), unfolded charts_ok_def]
  have range: "ch_range s = (Some f, Some t)" using assms(4) by (simp add: chartParams_def split: if_splits)
  then obtain m n where mn: "m \<le> n" "f = iso_date m" "t = iso_date n" using ok by blast
  have "chart_query s = useChartData (Some (Some f, Some t))" using assms(4) by (simp add: chart_query_def)
  then have "\<exists>m n. m \<le> n \<and> f = iso_date m \<and> t = iso_date n \<and> chart_query s = useChartData (Some (Some (iso_date m), Some (iso_date n)))"
    using mn by blast
  moreover have "ch_from s \<noteq> None \<or> ch_to s \<noteq> None \<longrightarrow> isCustom s" using ok by metis
  ultimately show ?thesis using ok by blast
qed

lemma chart_range_ordered_witness:
  "chartParams (handlePresetChange (\<lambda>_. 0) (\<lambda>l. l) 1740805200000 1740805200000 ''6m'' mount_charts) =
     Some (Some ''2024-09-01'', Some ''2025-03-01'') \<and>
   (\<exists>m n. m \<le> n \<and> ''2024-09-01'' = iso_date m \<and> ''2025-03-01'' = iso_date n)"
proof -
  let ?s = "handlePresetChange (\<lambda>_. 0) (\<lambda>l. l) 1740805200000 1740805200000 ''6m'' mount_charts"
  have "charts_run (\<lambda>_. 0) (\<lambda>l. l) ?s"
    by (intro charts_run.preset charts_run.mounted) (simp_all add: presetLabels_def day_ms_def)
  moreover have params: "chartParams ?s = Some (Some ''2024-09-01'', Some ''2025-03-01'')" by code_simp
  ultimately have "\<exists>m n. m \<le> n \<and> ''2024-09-01'' = iso_date m \<and> ''2025-03-01'' = iso_date n"
    using chart_range_ordered [of "\<lambda>_. 0" "\<lambda>l. l" ?s "''2024-09-01''" "''2025-03-01''"] by (auto simp: day_ms_def)
  with params show ?thesis by blast
qed

text \<open>Two of the calendar's answers the range does not follow: a day picked east of Greenwich is asked for as
  the day before, and taking back the only picked day leaves its range in force.\<close>

theorem picked_day_shifted:
  assumes "local_midnight = n * day_ms - z" and "0 < z" and "z \<le> day_ms"
  shows "formatDate local_midnight = iso_date (n - 1)"
proof -
  have "(n * day_ms - z) div day_ms = n - 1"
    using assms(2,3) by (intro int_div_pos_eq [where r = "day_ms - z"]) (auto simp: day_ms_def)
  then show ?thesis by (simp add: formatDate_def assms(1))
qed

lemma unpicked_range_stays:
  "ch_to s = None \<Longrightarrow> ch_range (chart_from_select None s) = ch_range s"
  by (simp add: chart_from_select_def Let_def)

text \<open>After a failed request the title names the last thirty days whatever the range is.\<close>

lemma remounted_title: "activityTitle (mount_charts\<lparr>ch_range := r\<rparr>) = ''Release Activity (Last 30 Days)''"
  by (simp add: activityTitle_def mount_charts_def isCustom_def presetLabels_def)

section \<open>The view\<close>

definition chart_total :: "(string \<times> nat) list \<Rightarrow> nat" where
  "chart_total rows = foldl (\<lambda>sum c. sum + snd c) 0 rows"

record DashboardStats =
  totalPackages :: int
  totalReleases :: int
  pendingAnalyses :: int
  activeAlerts :: int
  recentMalicious :: int

text \<open>The cards above the charts: title and target, and the number shown once the statistics are there.\<close>

definition dashboard_cards :: "(string \<times> string) list" where
  "dashboard_cards =
     [(''Packages'', ROUTES PACKAGES), (''Releases'', ROUTES RELEASES),
      (''Pending'', ROUTES RELEASES @ ''?status=in_progress''), (''Active Alerts'', ROUTES ALERTS @ ''?status=new''),
      (''Malicious'', ROUTES RELEASES @ ''?classification=malicious'')]"

definition card_values :: "DashboardStats \<Rightarrow> (string \<times> int) list" where
  "card_values st =
     zip (map fst dashboard_cards)
       [totalPackages st, totalReleases st, pendingAnalyses st, activeAlerts st, recentMalicious st]"

definition pending_invitations :: "string list \<Rightarrow> nat" where
  "pending_invitations states = length (filter (\<lambda>st. st = ''pending'') states)"

definition invitations_offered :: "bool \<Rightarrow> string list \<Rightarrow> bool" where
  "invitations_offered registrationEnabled states \<longleftrightarrow> registrationEnabled \<and> 0 < pending_invitations states"

text \<open>The buttons of a user without a selected workspace.\<close>

definition onboarding_buttons :: "bool \<Rightarrow> (string \<times> string) list" where
  "onboarding_buttons hasAnyWorkspace =
     (if hasAnyWorkspace then [] else [(''Create Workspace'', ROUTES WORKSPACES)]) @
     [(if hasAnyWorkspace then ''Go to Packages'' else ''Browse Packages'', ROUTES PACKAGES)]"

datatype dashboard_page = Dashboard_onboarding bool | Dashboard_data

definition DashboardView :: "'w option \<Rightarrow> 'w list \<Rightarrow> dashboard_page" where
  "DashboardView currentWorkspace ws =
     (if currentWorkspace = None then Dashboard_onboarding (ws \<noteq> []) else Dashboard_data)"

text \<open>
  The two stored settings of the page. A value of another type can only come from outside the
  application; \<open>loose\<close> is the number the comparison and the product make of it.
\<close>

definition AUTO_REFRESH_KEY :: string where "AUTO_REFRESH_KEY = ''vmx-dashboard-auto-refresh''"
definition REFRESH_INTERVAL_KEY :: string where "REFRESH_INTERVAL_KEY = ''vmx-dashboard-refresh-interval''"

definition refetchInterval :: "(json \<Rightarrow> int option) \<Rightarrow> json \<Rightarrow> json \<Rightarrow> int option" where
  "refetchInterval loose autoRefresh intervalSec =
     (if \<not> truthy (Some autoRefresh) then None
      else (case (case intervalSec of JNum n \<Rightarrow> Some n | v \<Rightarrow> loose v) of
              None \<Rightarrow> None
            | Some n \<Rightarrow> if 0 < n then Some (n * 1000) else None))"

definition interval_label :: "json \<Rightarrow> string" where
  "interval_label v =
     (if v = JNum 30 then ''30 Seconds'' else if v = JNum 60 then ''1 Minute''
      else if v = JNum 300 then ''5 Minutes'' else ''10 Minutes'')"

text \<open>\<open>parseInt(settings?.package_count_warning_threshold ?? "0", 10)\<close>, and the warning it brings.\<close>

definition warningThreshold :: "(string \<Rightarrow> string option) option \<Rightarrow> int option" where
  "warningThreshold settings =
     parseInt10 (case Option.bind settings (\<lambda>m. m ''package_count_warning_threshold'') of Some v \<Rightarrow> v | None \<Rightarrow> ''0'')"

definition package_warning :: "(string \<Rightarrow> string option) option \<Rightarrow> DashboardStats option \<Rightarrow> bool" where
  "package_warning settings stats =
     (case (warningThreshold settings, stats) of
        (Some n, Some st) \<Rightarrow> 0 < n \<and> n < totalPackages st
      | _ \<Rightarrow> False)"

definition dashboard_releases :: query where
  "dashboard_releases =
     useDashboardReleases (Some (no_release_params\<lparr>rr_page := Some 1, rr_limit := Some 10, rr_latestPerPackage := True\<rparr>))"

text \<open>The requests of the page, in the order of their hooks.\<close>

definition dashboard_queries :: "bool \<Rightarrow> charts \<Rightarrow> query list" where
  "dashboard_queries registrationEnabled s =
     [useMyInvitations registrationEnabled, useDashboardStats, dashboard_releases, useDashboardStalePackages (Some 6),
      useDashboardSettings, chart_query s]"

text \<open>The heading and the rows of the table of stale packages; a cell of the last column and whether it is marked.\<close>

definition stale_heading :: "'p list \<Rightarrow> string" where
  "stale_heading ps = ''Stale Packages ('' @ show_nat (length ps) @ '')''"

definition stale_rows :: "'p list \<Rightarrow> 'p list" where
  "stale_rows ps = take 5 ps"

definition stale_cell :: "int option \<Rightarrow> string \<times> bool" where
  "stale_cell d = (case d of None \<Rightarrow> (''-'', False) | Some n \<Rightarrow> (show_int n, n > 365))"

text \<open>The card of suggestions: hidden while loading, without an answer and at zero.\<close>

definition suggestions_card :: "bool \<Rightarrow> nat option \<Rightarrow> (nat \<times> string) option" where
  "suggestions_card isLoading count =
     (case count of
        None \<Rightarrow> None
      | Some n \<Rightarrow> if isLoading \<or> n = 0 then None else Some (n, ROUTES PACKAGES_SUGGESTIONS))"

section \<open>The cards and the tables\<close>

definition card_params :: "string \<Rightarrow> params" where
  "card_params title =
     (case map_of dashboard_cards title of
        None \<Rightarrow> []
      | Some href \<Rightarrow> (case read_url href of (_, Some ps) \<Rightarrow> ps | _ \<Rightarrow> []))"

lemma card_params:
  "card_params ''Packages'' = []" "card_params ''Releases'' = []"
  "card_params ''Pending'' = [(''status'', ''in_progress'')]" "card_params ''Active Alerts'' = [(''status'', ''new'')]"
  "card_params ''Malicious'' = [(''classification'', ''malicious'')]"
  by code_simp+

text \<open>Each card of the dashboard opens the table it counts, on its first page and with just the filter it is
  named after: the packages and the releases unfiltered, the releases in progress, the malicious
  releases and the new alerts; and a reload of that table keeps the filter.\<close>

theorem cards_open_filtered:
  "list_all (\<lambda>(t, href). fst (read_url href) \<in> {ROUTES PACKAGES, ROUTES RELEASES, ROUTES ALERTS}) dashboard_cards \<and>
   map (\<lambda>t. (rr_status (releases_request (mount_releases enabled (card_params t))),
             rr_classification (releases_request (mount_releases enabled (card_params t)))))
     [''Releases'', ''Pending'', ''Malicious''] =
     [(None, None), (Some ''in_progress'', None), (None, Some ''malicious'')] \<and>
   ap_status (alerts_request (mount_alerts (card_params ''Active Alerts''))) = Some ''new'' \<and>
   releases_kept (mount_releases enabled (filter_params (releases_filters (mount_releases enabled (card_params ''Pending''))) no_defaults)) =
     releases_kept (mount_releases enabled (card_params ''Pending''))"
proof (intro conjI)
  show "list_all (\<lambda>(t, href). fst (read_url href) \<in> {ROUTES PACKAGES, ROUTES RELEASES, ROUTES ALERTS}) dashboard_cards"
    by code_simp
  show "map (\<lambda>t. (rr_status (releases_request (mount_releases enabled (card_params t))),
             rr_classification (releases_request (mount_releases enabled (card_params t)))))
     [''Releases'', ''Pending'', ''Malicious''] =
     [(None, None), (Some ''in_progress'', None), (None, Some ''malicious'')]"
    by (simp add: card_params releases_request_def mount_releases_def from_url_def or_undefined_def
        VALID_RELEASE_STATUSES_def CLASSIFICATIONS_def)
  show "ap_status (alerts_request (mount_alerts (card_params ''Active Alerts''))) = Some ''new''"
    by (simp add: card_params alerts_request_def mount_alerts_def from_url_def or_undefined_def ALERT_STATUSES_def)
qed (rule releases.written_read [OF releases.mount_ok])

end
