(* ===== verification/Sso_Views.thy ===== *)
theory Sso_Views
  imports Platform_Hooks Validation Account_Views Login
begin

text \<open>
  Single sign-on: the form of a provider (\<open>features/sso-admin/ui/sso-config-form.tsx\<close> with
  \<open>saml-config-form.tsx\<close> and \<open>oauth-config-form.tsx\<close>, and the schemas of
  \<open>domains/sso/schemas/sso.schemas.ts\<close>), the page it belongs to (\<open>sso-admin-view.tsx\<close>,
  \<open>sso-config-list.tsx\<close>, \<open>saml-sp-info.tsx\<close>), the switch for password login
  (\<open>auth-settings-card.tsx\<close>) and the identities of an account (\<open>features/sso/ui/linked-identities.tsx\<close>).
\<close>

section \<open>Providers\<close>

datatype SSOProvider = Saml | Google | Github

fun provider_id :: "SSOProvider \<Rightarrow> string" where
  "provider_id Saml = ''saml''"
| "provider_id Google = ''google''"
| "provider_id Github = ''github''"

fun PROVIDER_LABELS :: "SSOProvider \<Rightarrow> string" where
  "PROVIDER_LABELS Saml = ''SAML 2.0''"
| "PROVIDER_LABELS Google = ''Google OAuth''"
| "PROVIDER_LABELS Github = ''GitHub OAuth''"

definition allProviders :: "SSOProvider list" where
  "allProviders = [Saml, Google, Github]"

record SSOConfig =
  so_id :: string
  so_provider :: SSOProvider
  so_displayName :: string
  so_isEnabled :: bool
  so_autoCreateUser :: bool
  so_allowedDomains :: "string list"
  so_samlEntityId :: "string option"
  so_samlSsoUrl :: "string option"
  so_samlCertificate :: "string option"
  so_samlAttrEmail :: string
  so_samlAttrFirstName :: string
  so_samlAttrLastName :: string
  so_oauthClientId :: "string option"
  so_googleHostedDomain :: "string option"
  so_githubOrgs :: "string list"

section \<open>The form\<close>

record sso_form =
  sf_provider :: SSOProvider
  sf_displayName :: string
  sf_isEnabled :: bool
  sf_autoCreateUser :: bool
  sf_allowedDomains :: string
  sf_samlEntityId :: string
  sf_samlSsoUrl :: string
  sf_samlCertificate :: string
  sf_samlAttrEmail :: string
  sf_samlAttrFirstName :: string
  sf_samlAttrLastName :: string
  sf_oauthClientId :: string
  sf_oauthClientSecret :: string
  sf_googleHostedDomain :: string
  sf_githubOrgs :: string
  sf_errors :: "(string \<times> string) list"
  sf_submitted :: bool
  sf_serverError :: string

definition availableProviders :: "SSOProvider list \<Rightarrow> SSOProvider list" where
  "availableProviders configured = filter (\<lambda>p. p \<notin> set configured) allProviders"

text \<open>\<open>v ?? ""\<close>.\<close>

definition or_empty :: "string option \<Rightarrow> string" where
  "or_empty v = (case v of None \<Rightarrow> [] | Some s \<Rightarrow> s)"

definition mount_sso_form :: "SSOConfig option \<Rightarrow> SSOProvider list \<Rightarrow> sso_form" where
  "mount_sso_form existing configured =
     (let got = (\<lambda>f d. case existing of None \<Rightarrow> d | Some c \<Rightarrow> f c) in
      \<lparr>sf_provider = (case existing of
           Some c \<Rightarrow> so_provider c
         | None \<Rightarrow> (case availableProviders configured of [] \<Rightarrow> Saml | p # _ \<Rightarrow> p)),
       sf_displayName = got so_displayName [],
       sf_isEnabled = (case existing of None \<Rightarrow> True | Some c \<Rightarrow> so_isEnabled c),
       sf_autoCreateUser = (case existing of None \<Rightarrow> False | Some c \<Rightarrow> so_autoCreateUser c),
       sf_allowedDomains = got (\<lambda>c. join_with '', '' (so_allowedDomains c)) [],
       sf_samlEntityId = got (\<lambda>c. or_empty (so_samlEntityId c)) [],
       sf_samlSsoUrl = got (\<lambda>c. or_empty (so_samlSsoUrl c)) [],
       sf_samlCertificate = got (\<lambda>c. or_empty (so_samlCertificate c)) [],
       sf_samlAttrEmail = got so_samlAttrEmail ''email'',
       sf_samlAttrFirstName = got so_samlAttrFirstName ''firstName'',
       sf_samlAttrLastName = got so_samlAttrLastName ''lastName'',
       sf_oauthClientId = got (\<lambda>c. or_empty (so_oauthClientId c)) [],
       sf_oauthClientSecret = [],
       sf_googleHostedDomain = got (\<lambda>c. or_empty (so_googleHostedDomain c)) [],
       sf_githubOrgs = got (\<lambda>c. join_with '', '' (so_githubOrgs c)) [],
       sf_errors = [], sf_submitted = False, sf_serverError = []\<rparr>)"

text \<open>
  The schemas. \<open>url_ok\<close> is the URL format of the validation library; \<open>keeps\<close> says whether the
  library runs the refinement of the base schema in a schema that extends it.
\<close>

definition autoCreateDomainRefinement :: "bool \<Rightarrow> string \<Rightarrow> issues" where
  "autoCreateDomainRefinement autoCreateUser domains =
     (if autoCreateUser \<and> (domains = [] \<or> trim domains = [])
      then [(''allowedDomains'', ''Allowed domains are required when auto-create users is enabled'')] else [])"

definition saml_fields :: "(string \<Rightarrow> bool) \<Rightarrow> sso_form \<Rightarrow> issues" where
  "saml_fields url_ok f =
     checks ''samlEntityId'' [(sf_samlEntityId f \<noteq> [], ''IdP Entity ID is required'')] @
     checks ''samlSsoUrl'' [(url_ok (sf_samlSsoUrl f), ''SSO URL must be a valid URL'')] @
     checks ''samlCertificate'' [(sf_samlCertificate f \<noteq> [], ''IdP certificate is required'')] @
     checks ''samlAttrEmail'' [(sf_samlAttrEmail f \<noteq> [], ''Email attribute is required'')] @
     checks ''samlAttrFirstName'' [(sf_samlAttrFirstName f \<noteq> [], ''First name attribute is required'')] @
     checks ''samlAttrLastName'' [(sf_samlAttrLastName f \<noteq> [], ''Last name attribute is required'')]"

definition oauth_fields :: "bool \<Rightarrow> sso_form \<Rightarrow> issues" where
  "oauth_fields isEditing f =
     checks ''oauthClientId'' [(sf_oauthClientId f \<noteq> [], ''Client ID is required'')] @
     (if isEditing then []
      else checks ''oauthClientSecret'' [(sf_oauthClientSecret f \<noteq> [], ''Client Secret is required'')])"

definition sso_issues :: "bool \<Rightarrow> (string \<Rightarrow> bool) \<Rightarrow> bool \<Rightarrow> sso_form \<Rightarrow> issues" where
  "sso_issues keeps url_ok isEditing f =
     checks ''displayName'' [(sf_displayName f \<noteq> [], ''Display name is required'')] @
     (if sf_provider f = Saml then saml_fields url_ok f else oauth_fields isEditing f) @
     (if keeps then autoCreateDomainRefinement (sf_autoCreateUser f) (sf_allowedDomains f) else [])"

text \<open>The handlers of the two fields that validate as one types: on what the form held before.\<close>

definition validate_sso :: "bool \<Rightarrow> (string \<Rightarrow> bool) \<Rightarrow> bool \<Rightarrow> sso_form \<Rightarrow> (string \<times> string) list" where
  "validate_sso keeps url_ok isEditing f =
     (if \<not> sf_submitted f then sf_errors f else parseFieldErrors (sso_issues keeps url_ok isEditing f))"

definition type_display_name :: "bool \<Rightarrow> (string \<Rightarrow> bool) \<Rightarrow> bool \<Rightarrow> string \<Rightarrow> sso_form \<Rightarrow> sso_form" where
  "type_display_name keeps url_ok isEditing v f =
     f\<lparr>sf_displayName := v, sf_errors := validate_sso keeps url_ok isEditing f\<rparr>"

definition type_domains :: "bool \<Rightarrow> (string \<Rightarrow> bool) \<Rightarrow> bool \<Rightarrow> string \<Rightarrow> sso_form \<Rightarrow> sso_form" where
  "type_domains keeps url_ok isEditing v f =
     f\<lparr>sf_allowedDomains := v, sf_errors := validate_sso keeps url_ok isEditing f\<rparr>"

text \<open>\<open>s.split(",").map((d) => d.trim()).filter(Boolean)\<close>.\<close>

definition comma_list :: "string \<Rightarrow> string list" where
  "comma_list s = filter (\<lambda>d. d \<noteq> []) (map trim (split_char (CHR '','') s))"

definition undef :: "string \<Rightarrow> string option" where
  "undef s = (if s = [] then None else Some s)"

datatype sso_payload = CreateSSO CreateSSOConfigRequest | UpdateSSO UpdateSSOConfigRequest

definition create_payload :: "sso_form \<Rightarrow> CreateSSOConfigRequest" where
  "create_payload f =
     (let r = (\<lambda>(e, u, c, ae, af, al) (ci, cs, hd, orgs).
        \<lparr>sc_provider = provider_id (sf_provider f), sc_displayName = sf_displayName f, sc_isEnabled = sf_isEnabled f,
         sc_autoCreateUser = sf_autoCreateUser f, sc_allowedDomains = comma_list (sf_allowedDomains f),
         sc_samlEntityId = e, sc_samlSsoUrl = u, sc_samlCertificate = c, sc_samlAttrEmail = ae,
         sc_samlAttrFirstName = af, sc_samlAttrLastName = al, sc_oauthClientId = ci, sc_oauthClientSecret = cs,
         sc_googleHostedDomain = hd, sc_githubOrgs = orgs\<rparr>) in
      if sf_provider f = Saml
      then r (undef (sf_samlEntityId f), undef (sf_samlSsoUrl f), undef (sf_samlCertificate f),
              Some (sf_samlAttrEmail f), Some (sf_samlAttrFirstName f), Some (sf_samlAttrLastName f))
             (None, None, None, None)
      else r (None, None, None, None, None, None)
             (undef (sf_oauthClientId f), undef (sf_oauthClientSecret f), undef (sf_googleHostedDomain f),
              Some (comma_list (sf_githubOrgs f))))"

definition update_payload :: "sso_form \<Rightarrow> UpdateSSOConfigRequest" where
  "update_payload f =
     (let r = (\<lambda>(e, u, c, ae, af, al) (ci, cs, hd, orgs).
        \<lparr>us_displayName = Some (sf_displayName f), us_isEnabled = Some (sf_isEnabled f),
         us_autoCreateUser = Some (sf_autoCreateUser f), us_allowedDomains = Some (comma_list (sf_allowedDomains f)),
         us_samlEntityId = e, us_samlSsoUrl = u, us_samlCertificate = c, us_samlAttrEmail = ae,
         us_samlAttrFirstName = af, us_samlAttrLastName = al, us_oauthClientId = ci, us_oauthClientSecret = cs,
         us_googleHostedDomain = hd, us_githubOrgs = orgs\<rparr>) in
      if sf_provider f = Saml
      then r (undef (sf_samlEntityId f), undef (sf_samlSsoUrl f), undef (sf_samlCertificate f),
              Some (sf_samlAttrEmail f), Some (sf_samlAttrFirstName f), Some (sf_samlAttrLastName f))
             (None, None, None, None)
      else r (None, None, None, None, None, None)
             (undef (sf_oauthClientId f), undef (sf_oauthClientSecret f), undef (sf_googleHostedDomain f),
              Some (comma_list (sf_githubOrgs f))))"

definition handleSubmitSSO :: "bool \<Rightarrow> (string \<Rightarrow> bool) \<Rightarrow> bool \<Rightarrow> sso_form \<Rightarrow> sso_payload option \<times> sso_form" where
  "handleSubmitSSO keeps url_ok isEditing f =
     (let f = f\<lparr>sf_submitted := True, sf_errors := [], sf_serverError := []\<rparr>;
          iss = sso_issues keeps url_ok isEditing f in
      if iss \<noteq> [] then (None, f\<lparr>sf_errors := parseFieldErrors iss\<rparr>)
      else (Some (if isEditing then UpdateSSO (update_payload f) else CreateSSO (create_payload f)), f))"

text \<open>The submit button, which the return key needs as well.\<close>

definition sso_submit_enabled :: "bool \<Rightarrow> sso_form \<Rightarrow> bool" where
  "sso_submit_enabled isPending f \<longleftrightarrow> \<not> (isPending \<or> \<not> sf_isEnabled f)"

text \<open>The import of SAML metadata: the request, and what its answer \<open>data\<close> (entity, URL, certificate) writes.\<close>

definition handleImportMetadata :: "string \<Rightarrow> api_call option" where
  "handleImportMetadata url = (if trim url = [] then None else Some (m_call useImportSAMLMetadata (trim url)))"

definition metadata_answered :: "(string \<times> string \<times> string) option \<Rightarrow> sso_form \<Rightarrow> sso_form" where
  "metadata_answered d f =
     (case d of None \<Rightarrow> f
      | Some (entityId, ssoUrl, certificate) \<Rightarrow>
          f\<lparr>sf_samlEntityId := entityId, sf_samlSsoUrl := ssoUrl, sf_samlCertificate := certificate\<rparr>)"

section \<open>The page of the providers\<close>

record sso_page =
  pg_editing :: "SSOConfig option"   \<comment> \<open>\<open>editingConfig\<close>\<close>
  pg_form :: "sso_form option"       \<comment> \<open>the form while \<open>showForm\<close>\<close>

definition mount_sso_page :: sso_page where
  "mount_sso_page = \<lparr>pg_editing = None, pg_form = None\<rparr>"

definition allProvidersConfigured :: "SSOConfig list \<Rightarrow> bool" where
  "allProvidersConfigured configs \<longleftrightarrow>
     length configs \<ge> 3 \<and> list_all (\<lambda>p. list_ex (\<lambda>c. so_provider c = p) configs) [Saml, Google, Github]"

definition handleCreateSSO :: "SSOConfig list \<Rightarrow> sso_page \<Rightarrow> sso_page" where
  "handleCreateSSO configs s =
     s\<lparr>pg_editing := None, pg_form := Some (mount_sso_form None (map so_provider configs))\<rparr>"

definition handleEditSSO :: "SSOConfig list \<Rightarrow> SSOConfig \<Rightarrow> sso_page \<Rightarrow> sso_page" where
  "handleEditSSO configs c s =
     s\<lparr>pg_editing := Some c, pg_form := Some (mount_sso_form (Some c) (map so_provider configs))\<rparr>"

definition handleCancelSSO :: "sso_page \<Rightarrow> sso_page" where
  "handleCancelSSO s = s\<lparr>pg_editing := None, pg_form := None\<rparr>"

text \<open>The request of a payload: a change of the edited configuration, or a new one.\<close>

fun sso_request :: "SSOConfig option \<Rightarrow> sso_payload \<Rightarrow> api_call option" where
  "sso_request (Some c) (UpdateSSO r) = Some (m_call useUpdatePlatformSSOConfig (so_id c, r))"
| "sso_request None (CreateSSO r) = Some (m_call useCreatePlatformSSOConfig r)"
| "sso_request _ _ = None"

definition submit_sso :: "bool \<Rightarrow> (string \<Rightarrow> bool) \<Rightarrow> sso_page \<Rightarrow> api_call option \<times> sso_page" where
  "submit_sso keeps url_ok s =
     (case pg_form s of
        None \<Rightarrow> (None, s)
      | Some f \<Rightarrow>
          (case handleSubmitSSO keeps url_ok (pg_editing s \<noteq> None) f of
             (p, f') \<Rightarrow> (Option.bind p (sso_request (pg_editing s)), s\<lparr>pg_form := Some f'\<rparr>)))"

text \<open>A request that succeeded closes the form.\<close>

definition sso_saved :: "sso_page \<Rightarrow> sso_page" where
  "sso_saved s = s\<lparr>pg_form := None\<rparr>"

definition config_title :: "SSOConfig \<Rightarrow> string" where
  "config_title c = (if so_displayName c = [] then PROVIDER_LABELS (so_provider c) else so_displayName c)"

definition delete_details :: "SSOConfig \<Rightarrow> (string \<times> string) list" where
  "delete_details c =
     (''Provider'', config_title c) #
     (if so_allowedDomains c = [] then [] else [(''Domains'', join_with '', '' (so_allowedDomains c))])"

definition delete_config :: "SSOConfig \<Rightarrow> api_call" where
  "delete_config c = m_call useDeletePlatformSSOConfig (so_id c)"

text \<open>What the form lets a user change; every input but the first switch is disabled with the provider.\<close>

inductive form_change :: "bool \<Rightarrow> (string \<Rightarrow> bool) \<Rightarrow> bool \<Rightarrow> SSOProvider list \<Rightarrow> sso_form \<Rightarrow> sso_form \<Rightarrow> bool"
  for keeps url_ok isEditing configured f where
  enabled: "form_change keeps url_ok isEditing configured f (f\<lparr>sf_isEnabled := b\<rparr>)"
| auto_create: "sf_isEnabled f \<Longrightarrow> form_change keeps url_ok isEditing configured f (f\<lparr>sf_autoCreateUser := b\<rparr>)"
| provider: "sf_isEnabled f \<Longrightarrow> \<not> isEditing \<Longrightarrow> p \<notin> set configured \<Longrightarrow>
    form_change keeps url_ok isEditing configured f (f\<lparr>sf_provider := p\<rparr>)"
| name: "sf_isEnabled f \<Longrightarrow> form_change keeps url_ok isEditing configured f (type_display_name keeps url_ok isEditing v f)"
| domains: "sf_isEnabled f \<Longrightarrow> form_change keeps url_ok isEditing configured f (type_domains keeps url_ok isEditing v f)"
| saml: "sf_isEnabled f \<Longrightarrow> sf_provider f = Saml \<Longrightarrow> form_change keeps url_ok isEditing configured f
    (f\<lparr>sf_samlEntityId := e, sf_samlSsoUrl := u, sf_samlCertificate := c, sf_samlAttrEmail := ae,
       sf_samlAttrFirstName := af, sf_samlAttrLastName := al\<rparr>)"
| imported: "sf_provider f = Saml \<Longrightarrow> form_change keeps url_ok isEditing configured f (metadata_answered d f)"
| oauth: "sf_isEnabled f \<Longrightarrow> sf_provider f \<noteq> Saml \<Longrightarrow> form_change keeps url_ok isEditing configured f
    (f\<lparr>sf_oauthClientId := ci, sf_oauthClientSecret := cs, sf_googleHostedDomain := hosted, sf_githubOrgs := orgs\<rparr>)"

text \<open>Runs of the page with the requests it made; \<open>configs\<close> is what the list shows at the time.\<close>

inductive sso_run :: "bool \<Rightarrow> (string \<Rightarrow> bool) \<Rightarrow> api_call list \<Rightarrow> sso_page \<Rightarrow> bool" for keeps url_ok where
  mounted: "sso_run keeps url_ok [] mount_sso_page"
| create: "sso_run keeps url_ok cs s \<Longrightarrow> pg_form s = None \<Longrightarrow> \<not> allProvidersConfigured configs \<Longrightarrow>
    sso_run keeps url_ok cs (handleCreateSSO configs s)"
| edit: "sso_run keeps url_ok cs s \<Longrightarrow> pg_form s = None \<Longrightarrow> c \<in> set configs \<Longrightarrow>
    sso_run keeps url_ok cs (handleEditSSO configs c s)"
| cancel: "sso_run keeps url_ok cs s \<Longrightarrow> pg_form s \<noteq> None \<Longrightarrow> sso_run keeps url_ok cs (handleCancelSSO s)"
| change: "sso_run keeps url_ok cs s \<Longrightarrow> pg_form s = Some f \<Longrightarrow>
    form_change keeps url_ok (pg_editing s \<noteq> None) configured f f' \<Longrightarrow> sso_run keeps url_ok cs (s\<lparr>pg_form := Some f'\<rparr>)"
| refused: "sso_run keeps url_ok cs s \<Longrightarrow> pg_form s = Some f \<Longrightarrow> sso_submit_enabled False f \<Longrightarrow>
    submit_sso keeps url_ok s = (None, s') \<Longrightarrow> sso_run keeps url_ok cs s'"
| submit: "sso_run keeps url_ok cs s \<Longrightarrow> pg_form s = Some f \<Longrightarrow> sso_submit_enabled False f \<Longrightarrow>
    submit_sso keeps url_ok s = (Some c, s') \<Longrightarrow> sso_run keeps url_ok (c # cs) s'"
| saved: "sso_run keeps url_ok (c # cs) s \<Longrightarrow> sso_run keeps url_ok (c # cs) (sso_saved s)"

section \<open>The switch for password login\<close>

record auth_card =
  ac_open :: bool
  ac_pending :: "bool option"

definition mount_auth_card :: auth_card where
  "mount_auth_card = \<lparr>ac_open = False, ac_pending = None\<rparr>"

definition canDisablePassword :: "SSOConfig list \<Rightarrow> bool" where
  "canDisablePassword configs \<longleftrightarrow> list_ex so_isEnabled configs"

definition password_login :: "bool option \<Rightarrow> bool" where
  "password_login settings = (case settings of None \<Rightarrow> True | Some b \<Rightarrow> b)"

definition switch_disabled :: "bool \<Rightarrow> SSOConfig list \<Rightarrow> bool option \<Rightarrow> bool" where
  "switch_disabled isPending configs settings \<longleftrightarrow>
     isPending \<or> \<not> canDisablePassword configs \<and> password_login settings"

definition handleToggleRequest :: "bool \<Rightarrow> auth_card \<Rightarrow> auth_card" where
  "handleToggleRequest checked s = s\<lparr>ac_pending := Some checked, ac_open := True\<rparr>"

definition handleConfirmAuth :: "auth_card \<Rightarrow> api_call option \<times> auth_card" where
  "handleConfirmAuth s =
     (map_option (\<lambda>b. m_call useUpdateAuthSettings (Some b)) (ac_pending s), s\<lparr>ac_pending := None\<rparr>)"

definition handleOpenChangeAuth :: "bool \<Rightarrow> auth_card \<Rightarrow> auth_card" where
  "handleOpenChangeAuth b s = (let s = s\<lparr>ac_open := b\<rparr> in if b then s else s\<lparr>ac_pending := None\<rparr>)"

definition auth_dialog_title :: "auth_card \<Rightarrow> string" where
  "auth_dialog_title s = (if ac_pending s = Some True then ''Enable password login?'' else ''Disable password login?'')"

text \<open>Toggling, with the configurations and the settings shown at that moment; the switch reports its opposite.\<close>

datatype auth_event = Toggled "SSOConfig list" "bool option" | AuthConfirmed | AuthOpenChanged bool

inductive auth_run :: "auth_event list \<Rightarrow> api_call list \<Rightarrow> auth_card \<Rightarrow> bool" where
  mounted: "auth_run [] [] mount_auth_card"
| toggled: "auth_run es cs s \<Longrightarrow> \<not> switch_disabled False configs settings \<Longrightarrow>
    auth_run (Toggled configs settings # es) cs (handleToggleRequest (\<not> password_login settings) s)"
| confirmed: "auth_run es cs s \<Longrightarrow> ac_open s \<Longrightarrow> handleConfirmAuth s = (c, s') \<Longrightarrow>
    auth_run (AuthConfirmed # es) ((case c of None \<Rightarrow> [] | Some x \<Rightarrow> [x]) @ cs) s'"
| open_changed: "auth_run es cs s \<Longrightarrow> auth_run (AuthOpenChanged b # es) cs (handleOpenChangeAuth b s)"

section \<open>The identities of an account\<close>

record identity =
  id_id :: string
  id_provider :: string
  id_email :: string

record sso_provider_info =
  spi_id :: string
  spi_provider :: SSOProvider
  spi_displayName :: string

definition identity_label :: "string \<Rightarrow> string" where
  "identity_label provider =
     (if provider = ''local'' then ''Email/Password'' else if provider = ''saml'' then ''SAML''
      else if provider = ''google'' then ''Google'' else if provider = ''github'' then ''GitHub'' else provider)"

text \<open>The providers with a link button; the code calls them unlinkable.\<close>

definition unlinkableProviders :: "identity list \<Rightarrow> sso_provider_info list \<Rightarrow> sso_provider_info list" where
  "unlinkableProviders identities providers =
     filter (\<lambda>p. provider_id (spi_provider p) \<notin> id_provider ` set identities) providers"

definition identities_hidden :: "identity list \<Rightarrow> sso_provider_info list \<Rightarrow> bool" where
  "identities_hidden identities providers \<longleftrightarrow> providers = [] \<and> identities = []"

definition link_url :: "string \<Rightarrow> 'a http_world_scheme \<Rightarrow> string \<Rightarrow> string" where
  "link_url origin w i =
     buildLinkIdentityUrl w i
       (Some (origin @ ROUTES SSO_CALLBACK @ ''?redirect='' @ encodeURIComponent (ROUTES ACCOUNT)))
       (getStoredAccessToken w)"

definition unlink :: "identity \<Rightarrow> api_call" where
  "unlink i = m_call useUnlinkIdentity (id_id i)"

text \<open>The dialog's action: what it shows for the outcome of the request.\<close>

definition unlink_toast :: "thrown + json \<Rightarrow> effect" where
  "unlink_toast r =
     (case r of
        Inr _ \<Rightarrow> ToastSuccess ''Identity unlinked successfully.''
      | Inl e \<Rightarrow> ToastError (sanitizeErrorMessage e (Some ''Failed to unlink identity'')))"

section \<open>What the service provider announces\<close>

definition sp_fields :: "'a http_world_scheme \<Rightarrow> string option \<Rightarrow> (string \<times> string \<times> string) list" where
  "sp_fields w configId =
     [(''SP Entity ID'', apiBaseUrl w @ ''/api/auth/saml/metadata'', ''entityId''),
      (''ACS URL (Assertion Consumer Service)'', apiBaseUrl w @ ''/api/auth/saml/acs'', ''acs'')] @
     (case configId of
        None \<Rightarrow> []
      | Some i \<Rightarrow> if i = [] then [] else [(''SP Metadata URL'', apiBaseUrl w @ ''/api/auth/saml/'' @ i @ ''/metadata'', ''metadata'')])"

definition sp_download :: "string \<Rightarrow> (string \<times> string) option" where
  "sp_download spCertificate = (if spCertificate = [] then None else Some (''veilence-mx-saml-sp.pem'', spCertificate))"

section \<open>Lists of domains\<close>

definition plain_entry :: "string \<Rightarrow> bool" where
  "plain_entry d \<longleftrightarrow> d \<noteq> [] \<and> trim d = d \<and> CHR '','' \<notin> set d"

lemma trim_after_blank: "trim (CHR '' '' # d) = trim d"
  by (simp add: trim_def is_space_def)

lemma comma_list_Cons: "CHR '','' \<notin> set d \<Longrightarrow> comma_list (d @ CHR '','' # t) = (if trim d = [] then [] else [trim d]) @ comma_list t"
  by (simp add: comma_list_def split_char_append)

lemma comma_list_blank: "comma_list (CHR '' '' # t) = comma_list t"
  by (cases "split_char (CHR '','') t") (simp_all add: comma_list_def trim_after_blank)

lemma comma_list_join: "list_all plain_entry ds \<Longrightarrow> comma_list (join_with '', '' ds) = ds"
proof (induction ds rule: induct_list012)
  case 1
  then show ?case by (simp add: comma_list_def trim_def)
next
  case (2 x)
  then show ?case by (simp add: comma_list_def plain_entry_def split_char_absent)
next
  case (3 x y zs)
  then show ?case by (simp add: comma_list_Cons comma_list_blank plain_entry_def)
qed

lemma trim_ends:
  assumes "trim s \<noteq> []"
  shows "\<not> is_space (hd (trim s))" and "\<not> is_space (last (trim s))"
proof -
  define t where "t = dropWhile is_space s"
  have u: "trim s = rev (dropWhile is_space (rev t))" by (simp add: trim_def t_def)
  have ne: "dropWhile is_space (rev t) \<noteq> []" using assms u by simp
  then show "\<not> is_space (last (trim s))" unfolding u using hd_dropWhile [OF ne] by (simp add: last_rev)
  have "t = trim s @ rev (takeWhile is_space (rev t))" unfolding u by (metis rev_append rev_rev_ident takeWhile_dropWhile_id)
  then have "hd (trim s) = hd t" "t \<noteq> []" using assms by (metis hd_append2, auto)
  then show "\<not> is_space (hd (trim s))" unfolding t_def by (metis hd_dropWhile)
qed

lemma trim_twice: "trim (trim s) = trim s"
proof (cases "trim s = []")
  case False
  then have "dropWhile is_space (trim s) = trim s" "dropWhile is_space (rev (trim s)) = rev (trim s)"
    using trim_ends by (simp_all add: dropWhile_eq_self_iff hd_rev)
  then show ?thesis by (simp add: trim_def [of "trim s"])
qed (simp add: trim_def [of "[]"])

lemma set_trim: "set (trim s) \<subseteq> set s"
  by (auto simp: trim_def dest!: set_dropWhileD)

lemma comma_list_plain: "list_all plain_entry (comma_list s)"
  using set_trim split_char_parts by (fastforce simp: comma_list_def plain_entry_def list_all_iff trim_twice)

section \<open>What is saved\<close>

lemma form_change_editing: "form_change keeps url_ok True configured f f' \<Longrightarrow> sf_provider f' = sf_provider f"
  by (induction rule: form_change.induct)
    (auto simp: type_display_name_def type_domains_def metadata_answered_def split: option.splits)

text \<open>The provider of an edited configuration stays the form's.\<close>

lemma sso_run_provider:
  assumes "sso_run keeps url_ok cs s" and "pg_editing s = Some c" and "pg_form s = Some f"
  shows "sf_provider f = so_provider c"
  using assms
proof (induction arbitrary: c f rule: sso_run.induct)
  case (change cs s f configured f')
  then show ?case by (auto dest: form_change_editing)
next
  case (refused cs s f s')
  then show ?case by (auto simp: submit_sso_def handleSubmitSSO_def Let_def split: if_splits option.splits)
next
  case (submit cs s f c s')
  then show ?case by (auto simp: submit_sso_def handleSubmitSSO_def Let_def split: if_splits option.splits)
qed (auto simp: mount_sso_page_def handleCreateSSO_def handleEditSSO_def handleCancelSSO_def sso_saved_def mount_sso_form_def)

definition saved_ok :: "(string \<Rightarrow> bool) \<Rightarrow> api_call \<Rightarrow> bool" where
  "saved_ok url_ok c \<longleftrightarrow>
     (\<exists>r. c = apiCreatePlatformSSOConfig r \<and> sc_isEnabled r \<and> sc_displayName r \<noteq> [] \<and> list_all plain_entry (sc_allowedDomains r) \<and>
        (if sc_provider r = ''saml''
         then sc_samlEntityId r \<noteq> None \<and> sc_samlCertificate r \<noteq> None \<and> url_ok (or_empty (sc_samlSsoUrl r))
         else sc_oauthClientId r \<noteq> None \<and> sc_oauthClientSecret r \<noteq> None)) \<or>
     (\<exists>i r. c = apiUpdatePlatformSSOConfig i r \<and> us_isEnabled r = Some True \<and> us_displayName r \<noteq> Some [] \<and>
        list_all (list_all plain_entry) (case us_allowedDomains r of None \<Rightarrow> [] | Some ds \<Rightarrow> [ds]))"

lemma submit_saved_ok:
  assumes "pg_form s = Some f" and "sf_isEnabled f" and "submit_sso keeps url_ok s = (Some c, s')"
  shows "saved_ok url_ok c"
proof -
  let ?f = "f\<lparr>sf_submitted := True, sf_errors := [], sf_serverError := []\<rparr>"
  have iss: "sso_issues keeps url_ok (pg_editing s \<noteq> None) ?f = []"
    using assms(1,3) by (auto simp: submit_sso_def handleSubmitSSO_def Let_def split: if_splits)
  show ?thesis
  proof (cases "pg_editing s")
    case None
    then have "c = apiCreatePlatformSSOConfig (create_payload ?f)"
      using assms(1,3) iss by (auto simp: submit_sso_def handleSubmitSSO_def useCreatePlatformSSOConfig_def Let_def)
    moreover have "sf_displayName f \<noteq> []" using iss by (auto simp: sso_issues_def split: if_splits)
    moreover have "if sf_provider f = Saml then sf_samlEntityId f \<noteq> [] \<and> sf_samlCertificate f \<noteq> [] \<and> url_ok (sf_samlSsoUrl f)
        else sf_oauthClientId f \<noteq> [] \<and> sf_oauthClientSecret f \<noteq> []"
      using iss None by (auto simp: sso_issues_def saml_fields_def oauth_fields_def split: if_splits)
    moreover have "or_empty (undef v) = v" for v by (simp add: or_empty_def undef_def)
    ultimately have "saved_ok url_ok (apiCreatePlatformSSOConfig (create_payload ?f))"
      using assms(2) unfolding saved_ok_def
      by (intro disjI1 exI [of _ "create_payload ?f"])
        (cases "sf_provider f"; auto simp: create_payload_def comma_list_plain undef_def Let_def split: if_splits)
    then show ?thesis using \<open>c = _\<close> by simp
  next
    case (Some e)
    then have "c = apiUpdatePlatformSSOConfig (so_id e) (update_payload ?f)"
      using assms(1,3) iss by (auto simp: submit_sso_def handleSubmitSSO_def useUpdatePlatformSSOConfig_def Let_def)
    moreover have "sf_displayName f \<noteq> []" using iss by (auto simp: sso_issues_def split: if_splits)
    ultimately show ?thesis using assms(2) unfolding saved_ok_def
      by (intro disjI2 exI [of _ "so_id e"] exI [of _ "update_payload ?f"])
        (auto simp: update_payload_def comma_list_plain Let_def)
  qed
qed


definition github_config :: SSOConfig where
  "github_config = \<lparr>so_id = ''c1'', so_provider = Github, so_displayName = ''Company'', so_isEnabled = True,
     so_autoCreateUser = False, so_allowedDomains = [''example.com'', ''corp.example.com''], so_samlEntityId = None,
     so_samlSsoUrl = None, so_samlCertificate = None, so_samlAttrEmail = ''email'', so_samlAttrFirstName = ''firstName'',
     so_samlAttrLastName = ''lastName'', so_oauthClientId = Some ''id'', so_googleHostedDomain = None,
     so_githubOrgs = [''org'']\<rparr>"


text \<open>Opening a configuration and saving it untouched sends back what it says: its name, its switches, its
  domains and organisations entry by entry, and the fields of its protocol; the secret, which the
  form never shows, is left out.\<close>

theorem untouched_config_kept:
  assumes "list_all plain_entry (so_allowedDomains c)" and "list_all plain_entry (so_githubOrgs c)"
  shows "update_payload (mount_sso_form (Some c) configured) =
    (let saml = so_provider c = Saml; given = (\<lambda>b v. if b then Option.bind v undef else None) in
     \<lparr>us_displayName = Some (so_displayName c), us_isEnabled = Some (so_isEnabled c),
      us_autoCreateUser = Some (so_autoCreateUser c), us_allowedDomains = Some (so_allowedDomains c),
      us_samlEntityId = given saml (so_samlEntityId c), us_samlSsoUrl = given saml (so_samlSsoUrl c),
      us_samlCertificate = given saml (so_samlCertificate c),
      us_samlAttrEmail = (if saml then Some (so_samlAttrEmail c) else None),
      us_samlAttrFirstName = (if saml then Some (so_samlAttrFirstName c) else None),
      us_samlAttrLastName = (if saml then Some (so_samlAttrLastName c) else None),
      us_oauthClientId = given (\<not> saml) (so_oauthClientId c), us_oauthClientSecret = None,
      us_googleHostedDomain = given (\<not> saml) (so_googleHostedDomain c),
      us_githubOrgs = (if saml then None else Some (so_githubOrgs c))\<rparr>)"
proof -
  have "undef (or_empty v) = Option.bind v undef" for v by (cases v) (simp_all add: undef_def or_empty_def)
  then show ?thesis using assms
    by (cases "so_provider c") (simp_all add: update_payload_def mount_sso_form_def comma_list_join undef_def [of "[]"] Let_def)
qed

lemma untouched_config_kept_witness:
  "us_allowedDomains (update_payload (mount_sso_form (Some github_config) [])) = Some [''example.com'', ''corp.example.com'']"
proof -
  have plain: "list_all plain_entry (so_allowedDomains github_config)" "list_all plain_entry (so_githubOrgs github_config)"
    by code_simp+
  show ?thesis using untouched_config_kept [OF plain, of "[]"] by (simp add: github_config_def Let_def)
qed

text \<open>A restriction that was emptied in the form is not in the request, so that the one in force stays.\<close>

lemma emptied_domain_unsent: "us_googleHostedDomain (update_payload (f\<lparr>sf_googleHostedDomain := []\<rparr>)) = None"
  by (simp add: update_payload_def undef_def Let_def)

section \<open>Disabling password login\<close>

definition toggled_to :: "auth_event list \<Rightarrow> bool \<Rightarrow> bool" where
  "toggled_to es b \<longleftrightarrow> (\<exists>configs settings. Toggled configs settings \<in> set es \<and>
     \<not> switch_disabled False configs settings \<and> b = (\<not> password_login settings))"

lemma toggled_to_Cons: "toggled_to es b \<Longrightarrow> toggled_to (e # es) b"
  by (auto simp: toggled_to_def)

lemma auth_run_pending:
  assumes "auth_run es cs s"
  shows "(\<forall>b. ac_pending s = Some b \<longrightarrow> toggled_to es b) \<and>
    (\<forall>c \<in> set cs. \<exists>b. toggled_to es b \<and> c = apiUpdateAuthSettings (Some b))"
  using assms
proof (induction rule: auth_run.induct)
  case (toggled es cs s configs settings)
  then have "toggled_to (Toggled configs settings # es) (\<not> password_login settings)" by (auto simp: toggled_to_def)
  with toggled.IH show ?case unfolding handleToggleRequest_def by (simp, blast intro: toggled_to_Cons)
next
  case (confirmed es cs s c s')
  then have "c = map_option (\<lambda>b. apiUpdateAuthSettings (Some b)) (ac_pending s)" "ac_pending s' = None"
    by (auto simp: handleConfirmAuth_def useUpdateAuthSettings_def)
  with confirmed.IH show ?case by (cases "ac_pending s") (simp, blast intro: toggled_to_Cons)+
next
  case (open_changed es cs s b)
  then show ?case unfolding handleOpenChangeAuth_def Let_def by (simp split: if_split, blast intro: toggled_to_Cons)
qed (simp add: mount_auth_card_def)

text \<open>Password login is switched off only by a switch that was on, and only where the list showed an enabled
  single sign-on provider when it was used; each request sets the opposite of what the switch
  showed.\<close>

theorem password_login_guarded:
  assumes "auth_run es cs s"
  shows "list_all (\<lambda>c. \<exists>configs settings. Toggled configs settings \<in> set es \<and>
    c = apiUpdateAuthSettings (Some (\<not> password_login settings)) \<and>
    (password_login settings \<longrightarrow> list_ex so_isEnabled configs)) cs"
proof -
  have "\<exists>configs settings. Toggled configs settings \<in> set es \<and> c = apiUpdateAuthSettings (Some (\<not> password_login settings)) \<and>
      (password_login settings \<longrightarrow> list_ex so_isEnabled configs)" if c: "c \<in> set cs" for c
  proof -
    obtain b where b: "toggled_to es b" "c = apiUpdateAuthSettings (Some b)" using auth_run_pending [OF assms] c by blast
    then obtain configs settings where "Toggled configs settings \<in> set es" "\<not> switch_disabled False configs settings"
      "b = (\<not> password_login settings)" by (auto simp: toggled_to_def)
    then show ?thesis using b(2) by (auto simp: switch_disabled_def canDisablePassword_def)
  qed
  then show ?thesis by (simp add: list_all_iff)
qed

lemma password_login_guarded_witness:
  "\<exists>configs settings. Toggled configs settings \<in> {AuthConfirmed, Toggled [github_config] None} \<and>
    apiUpdateAuthSettings (Some False) = apiUpdateAuthSettings (Some (\<not> password_login settings)) \<and>
    (password_login settings \<longrightarrow> list_ex so_isEnabled configs)"
proof -
  have "auth_run [Toggled [github_config] None] [] (handleToggleRequest (\<not> password_login None) mount_auth_card)"
    by (rule auth_run.toggled [OF auth_run.mounted]) (simp add: switch_disabled_def canDisablePassword_def github_config_def)
  then have "auth_run [AuthConfirmed, Toggled [github_config] None]
      ((case Some (apiUpdateAuthSettings (Some False)) of None \<Rightarrow> [] | Some x \<Rightarrow> [x]) @ []) (mount_auth_card\<lparr>ac_open := True\<rparr>)"
    by (rule auth_run.confirmed)
      (simp_all add: handleToggleRequest_def handleConfirmAuth_def useUpdateAuthSettings_def password_login_def mount_auth_card_def)
  from password_login_guarded [OF this] show ?thesis by simp
qed

section \<open>Linking an identity\<close>

lemma read_url_query:
  assumes "CHR ''?'' \<notin> set p"
  shows "read_url (p @ CHR ''?'' # q) = (p, usp_parse q)"
proof -
  have "\<forall>c \<in> set p. c \<noteq> CHR ''?''" using assms by auto
  then show ?thesis by (simp add: read_url_def takeWhile_append2 dropWhile_append2)
qed

text \<open>A link button leads to the backend with the provider's id, the session's token and a callback address of
  the application; when the backend returns there without an error, the browser ends on the
  account page, and nothing of the session has changed.\<close>

theorem link_flow_returns:
  assumes "CHR ''?'' \<notin> set origin" and "CHR ''?'' \<notin> set (apiBaseUrl w)" and "getStoredAccessToken w \<noteq> Some []"
  shows "\<exists>ps cb cps.
    read_url (link_url origin w i) = (apiBaseUrl w @ ''/api/auth/identities/link'', Some ps) \<and>
    usp_get ps ''configId'' = Some i \<and> usp_get ps ''access_token'' = getStoredAccessToken w \<and>
    usp_get ps ''callback_url'' = Some cb \<and> read_url cb = (origin @ ROUTES SSO_CALLBACK, Some cps) \<and>
    sso_callback cps w' = (Replace (ROUTES ACCOUNT @ ''?linked=true''), w')"
proof -
  define cb where "cb = origin @ ROUTES SSO_CALLBACK @ ''?redirect='' @ encodeURIComponent (ROUTES ACCOUNT)"
  define ps where "ps = set_truthy ''access_token'' (getStoredAccessToken w)
    (set_truthy ''callback_url'' (Some cb) [(''configId'', i)])"
  have path: "CHR ''?'' \<notin> set (apiBaseUrl w @ ''/api/auth/identities/link'')" using assms(2) by simp
  have "link_url origin w i = (apiBaseUrl w @ ''/api/auth/identities/link'') @ CHR ''?'' # usp_toString ps"
    by (simp add: link_url_def buildLinkIdentityUrl_def ps_def cb_def)
  then have url: "read_url (link_url origin w i) = (apiBaseUrl w @ ''/api/auth/identities/link'', Some ps)"
    by (simp only: read_url_query [OF path] usp_parse_toString)
  have ne: "cb \<noteq> []" by (simp add: cb_def)
  have parts: "usp_get ps ''configId'' = Some i" "usp_get ps ''callback_url'' = Some cb"
    "usp_get ps ''access_token'' = getStoredAccessToken w"
    using ne assms(3) by (auto simp: ps_def usp_get_set_truthy split: option.splits)
  have cpath: "CHR ''?'' \<notin> set (origin @ ROUTES SSO_CALLBACK)" using assms(1) by simp
  have q: "usp_parse (''redirect='' @ encodeURIComponent (ROUTES ACCOUNT)) = Some [(''redirect'', ROUTES ACCOUNT)]" by code_simp
  have "cb = (origin @ ROUTES SSO_CALLBACK) @ CHR ''?'' # (''redirect='' @ encodeURIComponent (ROUTES ACCOUNT))"
    by (simp add: cb_def)
  then have cburl: "read_url cb = (origin @ ROUTES SSO_CALLBACK, Some [(''redirect'', ROUTES ACCOUNT)])"
    by (simp only: read_url_query [OF cpath] q)
  have "sso_callback [(''redirect'', ROUTES ACCOUNT)] w' = (Replace (ROUTES ACCOUNT @ ''?linked=true''), w')"
    by (simp add: sso_callback_def sso_error_def or_default_def)
  with url parts cburl show ?thesis by blast
qed

lemma link_flow_returns_witness:
  "\<exists>ps cb. read_url (link_url ''https://app'' demo_world ''c1'') = (apiBaseUrl demo_world @ ''/api/auth/identities/link'', Some ps) \<and>
    usp_get ps ''access_token'' = Some ''old'' \<and> usp_get ps ''callback_url'' = Some cb"
proof -
  have "CHR ''?'' \<notin> set ''https://app''" "CHR ''?'' \<notin> set (apiBaseUrl demo_world)" "getStoredAccessToken demo_world = Some ''old''"
    by (simp_all add: apiBaseUrl_def demo_world_def getStoredAccessToken_def getItem_def TOKEN_KEY_def REFRESH_TOKEN_KEY_def)
  then show ?thesis using link_flow_returns [of "''https://app''" demo_world "''c1''" demo_world] by auto
qed

text \<open>A provider is offered exactly while no identity of its kind is linked.\<close>

lemma linked_or_offered:
  "p \<in> set providers \<Longrightarrow>
     p \<in> set (unlinkableProviders identities providers) \<longleftrightarrow> \<not> list_ex (\<lambda>i. id_provider i = provider_id (spi_provider p)) identities"
  unfolding unlinkableProviders_def list_ex_iff by (simp add: image_iff) metis

end
