(* ===== verification/Detail_Views.thy ===== *)
theory Detail_Views
  imports List_Views Alerts Settings_Views
begin

text \<open>
  The pages of one package, one release and one alert (\<open>features/packages/ui/package-detail-view.tsx\<close>,
  \<open>features/releases/ui/release-detail-view.tsx\<close>, \<open>features/alerts/ui/alert-detail-view.tsx\<close>), the
  texts they share (\<open>domains/packages/utils/packages.utils.ts\<close>, the badges of \<open>ui/feedback\<close>) and the
  status bar of the pipeline (\<open>pipeline-status-bar.tsx\<close>).
\<close>

section \<open>What a detail page shows\<close>

datatype 'a detail_shown =
    DetailMissing                    \<comment> \<open>\<open>notFound()\<close>\<close>
  | DetailFailed string string       \<comment> \<open>\<open>DetailError\<close>: message and way back\<close>
  | DetailLoading
  | DetailShown 'a

definition detail_shown :: "string \<Rightarrow> string \<Rightarrow> string \<Rightarrow> bool \<Rightarrow> 'a option \<Rightarrow> 'a detail_shown" where
  "detail_shown message backHref i isError d =
     (if i = [] then DetailMissing
      else if isError then DetailFailed message backHref
      else case d of None \<Rightarrow> DetailLoading | Some x \<Rightarrow> DetailShown x)"

definition package_page :: "string \<Rightarrow> bool \<Rightarrow> 'a option \<Rightarrow> 'a detail_shown" where
  "package_page = detail_shown
     ''Failed to load package details. The package may not exist or the server is unavailable.'' (ROUTES PACKAGES)"

definition release_page :: "string \<Rightarrow> bool \<Rightarrow> 'a option \<Rightarrow> 'a detail_shown" where
  "release_page = detail_shown
     ''Failed to load release details. The release may not exist or the server is unavailable.'' (ROUTES RELEASES)"

definition alert_page :: "string \<Rightarrow> bool \<Rightarrow> 'a option \<Rightarrow> 'a detail_shown" where
  "alert_page = detail_shown
     ''Failed to load alert details. The alert may not exist or the server is unavailable.'' (ROUTES ALERTS)"

section \<open>Badges\<close>

text \<open>A dash without a value, the label of a known value in any case, and any other value as it is.\<close>

definition badge_text :: "(string \<times> string) list \<Rightarrow> string option \<Rightarrow> string" where
  "badge_text table v =
     (case v of
        None \<Rightarrow> ''-''
      | Some s \<Rightarrow>
          if s = [] then ''-''
          else (case map_of table (toLowerCase s) of None \<Rightarrow> s | Some l \<Rightarrow> l))"

definition ClassificationBadge :: "string option \<Rightarrow> string" where
  "ClassificationBadge = badge_text
     [(''malicious'', ''Malicious''), (''suspicious'', ''Suspicious''), (''benign'', ''Benign''), (''baseline'', ''Baseline'')]"

definition ReleaseStatusBadge :: "string option \<Rightarrow> string" where
  "ReleaseStatusBadge = badge_text
     [(''pending'', ''Pending''), (''diffing'', ''Diffing''), (''analyzing'', ''Analyzing''), (''completed'', ''Completed''),
      (''error'', ''Error''), (''in_progress'', ''In Progress'')]"

definition SeverityBadge :: "string option \<Rightarrow> string" where
  "SeverityBadge = badge_text
     [(''critical'', ''Critical''), (''high'', ''High''), (''medium'', ''Medium''), (''low'', ''Low'')]"

section \<open>Popularity\<close>

text \<open>
  \<open>(count / unit).toFixed(1)\<close> for counts below \<open>10 ^ 14\<close>: the tenth next to the quotient. Where the
  quotient lies in the middle of two tenths, the rounding of the division decides; \<open>up\<close> says
  when it decides for the larger one.
\<close>

definition tenths :: "(int \<Rightarrow> int \<Rightarrow> bool) \<Rightarrow> int \<Rightarrow> int \<Rightarrow> int" where
  "tenths up unit count =
     (let r = 10 * count mod unit in
      10 * count div unit + (if unit < 2 * r \<or> unit = 2 * r \<and> up count unit then 1 else 0))"

definition fixed1 :: "(int \<Rightarrow> int \<Rightarrow> bool) \<Rightarrow> int \<Rightarrow> int \<Rightarrow> string" where
  "fixed1 up unit count =
     (let n = tenths up unit count in show_int (n div 10) @ ''.'' @ show_int (n mod 10))"

definition formatCountWithSuffix :: "(int \<Rightarrow> int \<Rightarrow> bool) \<Rightarrow> int option \<Rightarrow> string \<Rightarrow> string" where
  "formatCountWithSuffix up count suffix =
     (case count of
        None \<Rightarrow> ''-''
      | Some c \<Rightarrow>
          if 1000000000 \<le> c then fixed1 up 1000000000 c @ ''B'' @ suffix
          else if 1000000 \<le> c then fixed1 up 1000000 c @ ''M'' @ suffix
          else if 1000 \<le> c then fixed1 up 1000 c @ ''K'' @ suffix
          else show_int c @ suffix)"

definition formatDownloadCount :: "(int \<Rightarrow> int \<Rightarrow> bool) \<Rightarrow> int option \<Rightarrow> string" where
  "formatDownloadCount up count = formatCountWithSuffix up count ''/m''"

definition formatStarCount :: "(int \<Rightarrow> int \<Rightarrow> bool) \<Rightarrow> int option \<Rightarrow> string" where
  "formatStarCount up count = formatCountWithSuffix up count ''/s''"

definition formatPopularity :: "(int \<Rightarrow> int \<Rightarrow> bool) \<Rightarrow> string \<Rightarrow> int option \<Rightarrow> string" where
  "formatPopularity up ecosystem downloadCount =
     (if downloadCount = None then ''-''
      else if ecosystem = ''go'' then formatStarCount up downloadCount
      else formatDownloadCount up downloadCount)"

text \<open>\<open>parse\<close> reads a date; a text that is none gives \<open>NaN\<close>, which fails every comparison.\<close>

definition formatFreshness :: "(string \<Rightarrow> int option) \<Rightarrow> int \<Rightarrow> string option \<Rightarrow> string" where
  "formatFreshness parse now dateStr =
     (case dateStr of
        None \<Rightarrow> ''Never updated''
      | Some t \<Rightarrow>
          if t = [] then ''Never updated''
          else (case parse t of
              None \<Rightarrow> ''Updated NaNd ago''
            | Some t0 \<Rightarrow>
                (let diffMs = now - t0; diffMin = diffMs div 60000; diffHours = diffMs div 3600000;
                     diffDays = diffMs div 86400000 in
                 if diffMin < 1 then ''Updated just now''
                 else if diffMin < 60 then ''Updated '' @ show_int diffMin @ ''m ago''
                 else if diffHours < 24 then ''Updated '' @ show_int diffHours @ ''h ago''
                 else ''Updated '' @ show_int diffDays @ ''d ago'')))"

definition popularityTooltip ::
  "(int \<Rightarrow> int \<Rightarrow> bool) \<Rightarrow> (string \<Rightarrow> int option) \<Rightarrow> int \<Rightarrow> string \<Rightarrow> int option \<Rightarrow> string option \<Rightarrow> string" where
  "popularityTooltip up parse now ecosystem downloadCount updatedAt =
     (if downloadCount = None then ''No data available''
      else formatCountWithSuffix up downloadCount [] @ '' '' @
        (if ecosystem = ''go'' then ''GitHub stars'' else ''monthly downloads'') @ '' - '' @
        formatFreshness parse now updatedAt)"

section \<open>A package\<close>

record package_info =
  pk_name :: string
  pk_ecosystem :: string
  pk_source :: string
  pk_status :: string
  pk_latestVersion :: string
  pk_blockedReason :: "string option"
  pk_downloadCount :: "int option"

definition source_badge :: "string \<Rightarrow> string" where
  "source_badge s =
     (if s = ''manual'' then ''Manual'' else if s = ''imported'' then ''Imported'' else ''Discovered'')"

definition package_badges :: "package_info \<Rightarrow> string list" where
  "package_badges p =
     [formatEcosystem (pk_ecosystem p), source_badge (pk_source p)] @
     (if pk_status p = ''blocked'' then [''Blocked''] else []) @
     (if pk_status p = ''suggested'' then [''Suggested''] else [])"

definition blocked_note :: "package_info \<Rightarrow> string option" where
  "blocked_note p =
     (if pk_status p = ''blocked'' \<and> truthy_str (pk_blockedReason p)
      then map_option (\<lambda>r. ''Blocked: '' @ r) (pk_blockedReason p) else None)"

definition previously_monitored :: "package_info \<Rightarrow> 'h list \<Rightarrow> bool" where
  "previously_monitored p analysisHistory \<longleftrightarrow> pk_status p = ''suggested'' \<and> analysisHistory \<noteq> []"

definition hash_cell :: "int \<Rightarrow> string" where
  "hash_cell n = (if 0 < n then show_int n @ '' files'' else ''-'')"

section \<open>A release\<close>

datatype diff_class = AddedLine | RemovedLine | HunkLine | HeaderLine | ContextLine

definition diff_class :: "string \<Rightarrow> diff_class" where
  "diff_class line =
     (if startsWith line ''+'' \<and> \<not> startsWith line ''+++'' then AddedLine
      else if startsWith line ''-'' \<and> \<not> startsWith line ''---'' then RemovedLine
      else if startsWith line ''@@'' then HunkLine
      else if startsWith line ''diff '' \<or> startsWith line ''index '' \<or> startsWith line ''---'' \<or> startsWith line ''+++''
      then HeaderLine
      else ContextLine)"

definition newline :: char where "newline = CHR 0x0A"

definition DiffViewer :: "string \<Rightarrow> (diff_class \<times> string) list" where
  "DiffViewer content =
     map (\<lambda>line. (diff_class line, if line = [] then '' '' else line)) (split_char newline content)"

record release_info =
  rl_status :: string
  rl_isBaseline :: bool
  rl_hasAnalysis :: bool
  rl_hasDiff :: bool

definition canReanalyze :: "WorkspaceRole option \<Rightarrow> release_info \<Rightarrow> bool" where
  "canReanalyze role r \<longleftrightarrow> hasMinimumRole role admin \<and> rl_status r = ''completed'' \<and> \<not> rl_isBaseline r"

definition hashesContent :: "(string \<times> string \<times> string) list \<Rightarrow> string" where
  "hashesContent hs = join_with [newline] (map (\<lambda>(filename, algorithm, h). filename @ '' = '' @ algorithm @ '':'' @ h) hs)"

datatype release_card = AnalysisCard | BaselineCard | AnalysisPending | NothingCard | DiffCard

definition release_cards :: "release_info \<Rightarrow> release_card list" where
  "release_cards r =
     (if rl_hasAnalysis r then [AnalysisCard] else []) @
     (if \<not> rl_hasAnalysis r \<and> rl_status r = ''completed'' \<and> rl_isBaseline r then [BaselineCard] else []) @
     (if \<not> rl_hasAnalysis r \<and> rl_hasDiff r \<and> rl_status r = ''completed'' then [AnalysisPending] else []) @
     (if \<not> rl_hasAnalysis r \<and> \<not> rl_hasDiff r \<and> rl_status r = ''completed'' \<and> \<not> rl_isBaseline r then [NothingCard] else []) @
     (if rl_hasDiff r then [DiffCard] else [])"

definition confidenceColor :: "real \<Rightarrow> string" where
  "confidenceColor confidence =
     (if confidence \<ge> 8 / 10 then ''green'' else if confidence \<ge> 1 / 2 then ''amber'' else ''red'')"

text \<open>The requests the page can make for the release it shows.\<close>

definition reanalyze :: "WorkspaceRole option \<Rightarrow> string \<Rightarrow> release_info \<Rightarrow> api_call option" where
  "reanalyze role i r = (if canReanalyze role r then Some (m_call (useReanalyzeRelease i) ()) else None)"

section \<open>An alert\<close>

definition alert_title :: "string \<Rightarrow> string" where
  "alert_title i = ''Alert #'' @ take 8 i"

definition alert_detail_buttons :: "WorkspaceRole option \<Rightarrow> string option \<Rightarrow> string list" where
  "alert_detail_buttons role st =
     (case st of
        None \<Rightarrow> []
      | Some st \<Rightarrow>
          if \<not> hasMinimumRole role member then []
          else (if st = ''new'' then [''acknowledged''] else []) @ (if st \<noteq> ''resolved'' then [''resolved''] else []))"

text \<open>The target of the link to the release; without one the page says so.\<close>

definition alert_release_link :: "string option \<Rightarrow> string option \<Rightarrow> string option" where
  "alert_release_link releaseId analysisId =
     (let i = (case releaseId of Some r \<Rightarrow> Some r | None \<Rightarrow> analysisId) in
      if truthy_str i then map_option (\<lambda>x. ROUTES (RELEASE_DETAIL x)) i else None)"

section \<open>The pipeline\<close>

definition pipeline_segments :: "bool \<Rightarrow> PipelineStatus option \<Rightarrow> int \<Rightarrow> (string \<times> int) list option" where
  "pipeline_segments loading d failures =
     (case d of
        None \<Rightarrow> None
      | Some s \<Rightarrow>
          if loading \<or> \<not> hasActiveJobs d then None
          else Some (filter (\<lambda>(_, n). 0 < n)
            [(''pending'', ps_pending s), (''diffing'', ps_diffing s), (''analyzing'', ps_analyzing s), (''failed'', failures)]))"

section \<open>What holds\<close>

lemma tenths_near:
  assumes "0 < unit"
  shows "2 * \<bar>tenths up unit count * unit - 10 * count\<bar> \<le> unit"
proof -
  define q r where "q = 10 * count div unit" and "r = 10 * count mod unit"
  have c: "10 * count = q * unit + r" "0 \<le> r" "r < unit" using assms by (simp_all add: q_def r_def)
  have "(q + 1) * unit = q * unit + unit" by (simp add: distrib_right)
  then show ?thesis using c unfolding tenths_def Let_def q_def [symmetric] r_def [symmetric]
    by (simp only: c(1)) (auto simp: abs_if)
qed

text \<open>A popularity of a thousand or more is shown in tenths of a thousand, a million or a billion, whichever
  is the largest not above it, and is off by half a tenth at most.\<close>

theorem popularity_rounded:
  assumes "1000 \<le> c"
  shows "\<exists>unit letter n.
    (unit, letter) \<in> {(1000, ''K''), (1000000, ''M''), (1000000000, ''B'')} \<and> unit \<le> c \<and> (unit < 1000000000 \<longrightarrow> c < 1000 * unit) \<and>
    2 * \<bar>n * unit - 10 * c\<bar> \<le> unit \<and>
    formatPopularity up e (Some c) =
      show_int (n div 10) @ ''.'' @ show_int (n mod 10) @ letter @ (if e = ''go'' then ''/s'' else ''/m'')"
proof -
  consider "c < 1000000" | "1000000 \<le> c" "c < 1000000000" | "1000000000 \<le> c" by linarith
  then show ?thesis
  proof cases
    case 1
    then show ?thesis using assms tenths_near [of 1000 up c]
      by (intro exI [of _ 1000] exI [of _ "''K''"] exI [of _ "tenths up 1000 c"])
        (simp add: formatPopularity_def formatStarCount_def formatDownloadCount_def formatCountWithSuffix_def fixed1_def Let_def)
  next
    case 2
    then show ?thesis using tenths_near [of 1000000 up c]
      by (intro exI [of _ 1000000] exI [of _ "''M''"] exI [of _ "tenths up 1000000 c"])
        (simp add: formatPopularity_def formatStarCount_def formatDownloadCount_def formatCountWithSuffix_def fixed1_def Let_def)
  next
    case 3
    then show ?thesis using tenths_near [of 1000000000 up c]
      by (intro exI [of _ 1000000000] exI [of _ "''B''"] exI [of _ "tenths up 1000000000 c"])
        (simp add: formatPopularity_def formatStarCount_def formatDownloadCount_def formatCountWithSuffix_def fixed1_def Let_def)
  qed
qed

lemma popularity_rounded_witness:
  "formatPopularity (\<lambda>_ _. True) ''npm'' (Some 12460000) = ''12.5M/m'' \<and>
   (\<exists>unit letter n. (unit :: int) \<le> 12460000 \<and> 2 * \<bar>n * unit - 10 * 12460000\<bar> \<le> unit \<and>
     ''12.5M/m'' = show_int (n div 10) @ ''.'' @ show_int (n mod 10) @ letter @ ''/m'')"
proof -
  have shown: "formatPopularity (\<lambda>_ _. True) ''npm'' (Some 12460000) = ''12.5M/m''" by code_simp
  have large: "(1000 :: int) \<le> 12460000" by simp
  have suffix: "(if ''npm'' = ''go'' then ''/s'' else ''/m'') = ''/m''" by simp
  show ?thesis using popularity_rounded [OF large, of "\<lambda>_ _. True" "''npm''", unfolded suffix shown] shown by blast
qed

text \<open>The largest counts below a million are shown as a thousand thousands.\<close>

lemma thousand_thousands: "formatPopularity up ''npm'' (Some 999960) = ''1000.0K/m''"
  by code_simp

text \<open>A line of a diff's body is marked by its sign, unless the text after it begins with the same sign twice:
  then it is taken for a file header.\<close>

lemma body_line_marked:
  "diff_class (CHR ''+'' # t) = (if startsWith t ''++'' then HeaderLine else AddedLine)"
  "diff_class (CHR ''-'' # t) = (if startsWith t ''--'' then HeaderLine else RemovedLine)"
  by (auto simp: diff_class_def)

text \<open>The lines of the viewer are those of the diff in their order: put together they give its text, with a
  blank where a line is empty.\<close>

theorem diff_shown_whole:
  "join_with [newline] (map2 (\<lambda>(_, shown) line. if line = [] then [] else shown) (DiffViewer content) (split_char newline content)) = content \<and>
   list_all2 (\<lambda>(k, shown) line. shown = (if line = [] then '' '' else line) \<and>
     (k = AddedLine \<longleftrightarrow> startsWith line ''+'' \<and> \<not> startsWith line ''+++'') \<and>
     (k = RemovedLine \<longleftrightarrow> startsWith line ''-'' \<and> \<not> startsWith line ''---'')) (DiffViewer content) (split_char newline content)"
proof -
  have "map2 (\<lambda>(_, shown) line. if line = [] then [] else shown) (DiffViewer content) (split_char newline content) =
      split_char newline content"
    by (rule nth_equalityI) (auto simp: DiffViewer_def)
  moreover have "\<not> (startsWith line ''+'' \<and> startsWith line ''-'')" for line by (cases line) auto
  ultimately show ?thesis by (auto simp: join_split DiffViewer_def list_all2_conv_all_nth diff_class_def)
qed

text \<open>A completed release always has a card that says how it went; there are two only for a baseline with a
  diff, which is also said to await an analysis.\<close>

lemma completed_release_explained:
  assumes "rl_status r = ''completed''"
  shows "length (filter (\<lambda>c. c \<noteq> DiffCard) (release_cards r)) = (if \<not> rl_hasAnalysis r \<and> rl_isBaseline r \<and> rl_hasDiff r then 2 else 1)"
  using assms by (simp add: release_cards_def)

text \<open>The page of an alert offers the status changes its row in the table offers.\<close>

lemma alert_buttons_agree: "alert_detail_buttons role (Some st) = alert_buttons role st"
  by (simp add: alert_detail_buttons_def alert_buttons_def)

text \<open>Without a release the link leads to the page of a release whose id is that of the analysis.\<close>

lemma link_takes_analysis_id: "a \<noteq> [] \<Longrightarrow> alert_release_link None (Some a) = Some (ROUTES (RELEASE_DETAIL a))"
  by (simp add: alert_release_link_def)

end
