(* ===== verification/Sidebar_State.thy ===== *)
theory Sidebar_State
  imports Browser
begin

text \<open>
  The state of the sidebar (\<open>SidebarProvider\<close> in \<open>ui/components/sidebar.tsx\<close>), which the provider keeps
  in a cookie, and the root layout that reads it when the server renders the page
  (\<open>app/layout.tsx\<close>). The application uses the provider without the properties that would let
  a parent control it.
\<close>

section \<open>The provider\<close>

definition SIDEBAR_COOKIE_NAME :: string where "SIDEBAR_COOKIE_NAME = ''sidebar_state''"
definition SIDEBAR_COOKIE_MAX_AGE :: int where "SIDEBAR_COOKIE_MAX_AGE = 60 * 60 * 24 * 7"
definition SIDEBAR_KEYBOARD_SHORTCUT :: string where "SIDEBAR_KEYBOARD_SHORTCUT = ''b''"

record sidebar_view =
  sb_open :: bool
  sb_openMobile :: bool

definition mount_sidebar :: "bool \<Rightarrow> sidebar_view" where
  "mount_sidebar defaultOpen = \<lparr>sb_open = defaultOpen, sb_openMobile = False\<rparr>"

definition setOpen :: "(bool \<Rightarrow> bool) \<Rightarrow> sidebar_view \<Rightarrow> 'a http_world_scheme \<Rightarrow> sidebar_view \<times> 'a http_world_scheme" where
  "setOpen f s w =
     (let openState = f (sb_open s) in
      (s\<lparr>sb_open := openState\<rparr>,
       assign_cookie SIDEBAR_COOKIE_NAME (if openState then ''true'' else ''false'') SIDEBAR_COOKIE_MAX_AGE False w))"

definition toggleSidebar :: "bool \<Rightarrow> sidebar_view \<Rightarrow> 'a http_world_scheme \<Rightarrow> sidebar_view \<times> 'a http_world_scheme" where
  "toggleSidebar isMobile s w =
     (if isMobile then (s\<lparr>sb_openMobile := \<not> sb_openMobile s\<rparr>, w) else setOpen Not s w)"

text \<open>The keyboard shortcut; whether the default action of the key is prevented comes first.\<close>

definition sidebar_key ::
  "string \<Rightarrow> bool \<Rightarrow> bool \<Rightarrow> bool \<Rightarrow> sidebar_view \<Rightarrow> 'a http_world_scheme \<Rightarrow> bool \<times> sidebar_view \<times> 'a http_world_scheme" where
  "sidebar_key key metaKey ctrlKey isMobile s w =
     (if key = SIDEBAR_KEYBOARD_SHORTCUT \<and> (metaKey \<or> ctrlKey) then (True, toggleSidebar isMobile s w) else (False, s, w))"

definition sidebar_state :: "sidebar_view \<Rightarrow> string" where
  "sidebar_state s = (if sb_open s then ''expanded'' else ''collapsed'')"

section \<open>The layout\<close>

definition sidebarDefaultOpen :: "'a http_world_scheme \<Rightarrow> bool" where
  "sidebarDefaultOpen w \<longleftrightarrow> cookie w SIDEBAR_COOKIE_NAME \<noteq> Some ''false''"

text \<open>
  The life of a page: it is loaded with the cookies of the browser, the handlers run, and the rest of
  the application writes its own cookies.
\<close>

inductive sidebar_run :: "sidebar_view \<Rightarrow> 'a http_world_scheme \<Rightarrow> bool" where
  loaded: "\<not> list_ex (\<lambda>c. ck_name c = SIDEBAR_COOKIE_NAME \<and> ck_secure c) (jar w) \<Longrightarrow>
    sidebar_run (mount_sidebar (sidebarDefaultOpen w)) w"
| toggled: "sidebar_run s w \<Longrightarrow> toggleSidebar isMobile s w = (s', w') \<Longrightarrow> sidebar_run s' w'"
| pressed: "sidebar_run s w \<Longrightarrow> sidebar_key key metaKey ctrlKey isMobile s w = (b, s', w') \<Longrightarrow> sidebar_run s' w'"
| mobile: "sidebar_run s w \<Longrightarrow> sidebar_run (s\<lparr>sb_openMobile := b\<rparr>) w"
| other_cookie: "sidebar_run s w \<Longrightarrow> n \<noteq> SIDEBAR_COOKIE_NAME \<Longrightarrow> sidebar_run s (assign_cookie n v age secure w)"

section \<open>What the cookie says\<close>

lemma secure_after_put:
  "ck_name c \<noteq> n \<or> \<not> ck_secure c \<Longrightarrow> \<not> list_ex (\<lambda>d. ck_name d = n \<and> ck_secure d) cs \<Longrightarrow>
     \<not> list_ex (\<lambda>d. ck_name d = n \<and> ck_secure d) (put_cookie c cs)"
  by (induction cs) auto

lemma secure_after_drop:
  "\<not> list_ex (\<lambda>d. ck_name d = n \<and> ck_secure d) cs \<Longrightarrow> \<not> list_ex (\<lambda>d. ck_name d = n \<and> ck_secure d) (drop_cookie m cs)"
  by (auto simp: drop_cookie_def list_ex_iff)

definition cookie_says :: "sidebar_view \<Rightarrow> 'a http_world_scheme \<Rightarrow> bool" where
  "cookie_says s w \<longleftrightarrow> \<not> list_ex (\<lambda>c. ck_name c = SIDEBAR_COOKIE_NAME \<and> ck_secure c) (jar w) \<and> sidebarDefaultOpen w = sb_open s"

lemma setOpen_says:
  assumes "cookie_says s w" and "setOpen f s w = (s', w')"
  shows "cookie_says s' w'"
proof -
  let ?c = "\<lparr>ck_name = SIDEBAR_COOKIE_NAME, ck_value = if f (sb_open s) then ''true'' else ''false'', ck_secure = False\<rparr>"
  have plain: "\<not> list_ex (\<lambda>c. ck_name c = SIDEBAR_COOKIE_NAME \<and> ck_secure c) (jar w)"
    using assms(1) by (simp add: cookie_says_def)
  then have after: "s' = s\<lparr>sb_open := f (sb_open s)\<rparr>" "w' = w\<lparr>jar := put_cookie ?c (jar w)\<rparr>"
    using assms(2) by (simp_all add: setOpen_def assign_cookie_def SIDEBAR_COOKIE_MAX_AGE_def Let_def)
  have "\<not> list_ex (\<lambda>c. ck_name c = SIDEBAR_COOKIE_NAME \<and> ck_secure c) (put_cookie ?c (jar w))"
    by (rule secure_after_put [OF _ plain]) simp
  moreover have "sidebarDefaultOpen w' = f (sb_open s)"
    by (simp add: after sidebarDefaultOpen_def cookie_def find_put_cookie)
  ultimately show ?thesis by (simp add: cookie_says_def after)
qed

lemma toggle_says:
  assumes "cookie_says s w" and "toggleSidebar isMobile s w = (s', w')"
  shows "cookie_says s' w'"
proof (cases isMobile)
  case True
  then show ?thesis using assms by (auto simp: toggleSidebar_def cookie_says_def)
next
  case False
  then have "setOpen Not s w = (s', w')" using assms(2) by (simp add: toggleSidebar_def)
  then show ?thesis by (rule setOpen_says [OF assms(1)])
qed

lemma sidebar_run_says: "sidebar_run s w \<Longrightarrow> cookie_says s w"
proof (induction rule: sidebar_run.induct)
  case (toggled s w isMobile s' w')
  then show ?case using toggle_says by blast
next
  case (pressed s w key metaKey ctrlKey isMobile b s' w')
  then show ?case using toggle_says [OF pressed.IH] by (auto simp: sidebar_key_def split: if_splits)
next
  case (other_cookie s w n v age secure)
  then show ?case
    by (simp add: cookie_says_def assign_cookie_def sidebarDefaultOpen_def cookie_def find_put_cookie find_drop_cookie
        secure_after_put secure_after_drop)
qed (auto simp: cookie_says_def mount_sidebar_def)

text \<open>A page loaded afresh shows the sidebar as it was left, however it was toggled, on a phone or with the
  keyboard, and whatever other cookies the application wrote.\<close>

theorem sidebar_survives_reload:
  assumes "sidebar_run s w"
  shows "sb_open (mount_sidebar (sidebarDefaultOpen w)) = sb_open s"
  using sidebar_run_says [OF assms] by (simp add: cookie_says_def mount_sidebar_def)

definition first_visit :: http_world where
  "first_visit = \<lparr>ls = Map.empty, jar = [], protocol = ''https:'', secureOrigin = True, windowDefined = True,
     env_api_url = None, isRefreshing = False, refreshPromise = None, sent = []\<rparr>"

lemma sidebar_survives_reload_witness:
  "\<not> sb_open (mount_sidebar (sidebarDefaultOpen (snd (toggleSidebar False (mount_sidebar True) first_visit))))"
proof -
  have "sidebarDefaultOpen first_visit" by (simp add: sidebarDefaultOpen_def cookie_def find_cookie_def first_visit_def)
  moreover have "sidebar_run (mount_sidebar (sidebarDefaultOpen first_visit)) first_visit"
    by (rule sidebar_run.loaded) (simp add: first_visit_def)
  ultimately have "sidebar_run (fst (toggleSidebar False (mount_sidebar True) first_visit))
      (snd (toggleSidebar False (mount_sidebar True) first_visit))"
    using sidebar_run.toggled [of "mount_sidebar True" first_visit False] by simp
  from sidebar_survives_reload [OF this] show ?thesis by (simp add: toggleSidebar_def setOpen_def mount_sidebar_def Let_def)
qed

text \<open>A mount without a load, as after signing in again, still has the default of the last load and may
  contradict the cookie.\<close>

lemma remount_forgets:
  "sidebarDefaultOpen first_visit \<and>
   sb_open (mount_sidebar (sidebarDefaultOpen first_visit)) \<noteq>
   sidebarDefaultOpen (snd (toggleSidebar False (mount_sidebar (sidebarDefaultOpen first_visit)) first_visit))"
  by (simp add: sidebarDefaultOpen_def cookie_def find_cookie_def first_visit_def toggleSidebar_def setOpen_def
      mount_sidebar_def assign_cookie_def SIDEBAR_COOKIE_MAX_AGE_def SIDEBAR_COOKIE_NAME_def Let_def)

end
