(* ===== verification/Notification_Bell.thy ===== *)
theory Notification_Bell
  imports Notifications
begin

text \<open>
  The bell of the header (\<open>features/notifications/ui/notification-bell.tsx\<close>) and the rows of the bell and
  of the notifications page (\<open>notification-item.tsx\<close>, \<open>notification-page-item.tsx\<close>), over the cache,
  the mutations and the page of \<open>Notifications\<close>.
\<close>

section \<open>The bell\<close>

definition hasWorkspace :: "bool \<Rightarrow> 'w option \<Rightarrow> bool" where
  "hasWorkspace authenticated currentWorkspace \<longleftrightarrow> authenticated \<and> currentWorkspace \<noteq> None"

text \<open>The list the bell asks for while it is open.\<close>

definition bell_params :: NotificationListParams where
  "bell_params = no_list_params\<lparr>nl_limit := Some 20, nl_unread := True\<rparr>"

definition bell_query :: "bool \<Rightarrow> bool \<Rightarrow> (query_key \<times> api_call) option" where
  "bell_query has_ws opened = (if has_ws \<and> opened then Some (useNotifications (Some bell_params)) else None)"

definition bell_notifications :: "Notification list option \<Rightarrow> Notification list" where
  "bell_notifications d = filter (\<lambda>n. \<not> isRead n) (case d of None \<Rightarrow> [] | Some ns \<Rightarrow> ns)"

definition unread_badge :: "int \<Rightarrow> string option" where
  "unread_badge n = (if n > 0 then Some (if n > 99 then ''99+'' else show_int n) else None)"

definition bell_label :: "int \<Rightarrow> string" where
  "bell_label n = (if n > 0 then ''Notifications ('' @ show_int n @ '' unread)'' else ''Notifications'')"

definition mark_all_offered :: "int \<Rightarrow> bool" where
  "mark_all_offered n \<longleftrightarrow> n > 0"

datatype bell_body = BellSkeletons | BellEmpty | BellList "Notification list"

definition bell_body :: "bool \<Rightarrow> Notification list option \<Rightarrow> bell_body" where
  "bell_body loading d =
     (let ns = bell_notifications d in
      if loading \<and> ns = [] then BellSkeletons else if ns = [] then BellEmpty else BellList ns)"

definition view_all_link :: "int \<Rightarrow> string" where
  "view_all_link n = (if n > 0 then ROUTES NOTIFICATIONS @ ''?read=unread'' else ROUTES NOTIFICATIONS)"

text \<open>What a handler of the bell does: the mutations it runs, whether the bell stays open, and the page it opens.\<close>

record bell_effect =
  be_mutations :: "notif_action list"
  be_open :: bool
  be_push :: "string option"

definition handleNotificationClick :: "Notification \<Rightarrow> bell_effect" where
  "handleNotificationClick n =
     \<lparr>be_mutations = (if \<not> isRead n then [MarkRead (n_id n)] else []), be_open = False,
      be_push = Some (getNotificationLink n)\<rparr>"

definition handleMarkRead :: "string \<Rightarrow> bell_effect" where
  "handleMarkRead i = \<lparr>be_mutations = [MarkRead i], be_open = True, be_push = None\<rparr>"

definition bell_delete :: "string \<Rightarrow> bell_effect" where
  "bell_delete i = \<lparr>be_mutations = [DeleteOne i], be_open = True, be_push = None\<rparr>"

definition handleMarkAllRead :: bell_effect where
  "handleMarkAllRead = \<lparr>be_mutations = [MarkAllRead], be_open = True, be_push = None\<rparr>"

section \<open>A row of the bell\<close>

text \<open>The places of a row that take a click or a key; the buttons lie inside the row and events bubble to it.\<close>

datatype item_target = ItemBody | MarkButton | DeleteButton

definition item_targets :: "Notification \<Rightarrow> item_target list" where
  "item_targets n = ItemBody # (if \<not> isRead n then [MarkButton] else []) @ [DeleteButton]"

text \<open>A click on a button stops there.\<close>

fun item_click :: "Notification \<Rightarrow> item_target \<Rightarrow> bell_effect" where
  "item_click n ItemBody = handleNotificationClick n"
| "item_click n MarkButton = handleMarkRead (n_id n)"
| "item_click n DeleteButton = bell_delete (n_id n)"

text \<open>
  A key pressed anywhere in the row reaches the row's handler, which takes the return key and the
  space bar for itself and prevents what they would do to a button.
\<close>

definition item_keydown :: "Notification \<Rightarrow> item_target \<Rightarrow> string \<Rightarrow> bell_effect option" where
  "item_keydown n target key =
     (if key = ''Enter'' \<or> key = '' '' then Some (handleNotificationClick n) else None)"

section \<open>A row of the page\<close>

datatype row_button = RowSelect | RowMarkRead | RowDelete

definition page_item_buttons :: "bool \<Rightarrow> Notification \<Rightarrow> row_button list" where
  "page_item_buttons selectMode n =
     (if selectMode then [RowSelect] else []) @ (if \<not> isRead n then [RowMarkRead] else []) @ [RowDelete]"

fun page_item_action :: "Notification \<Rightarrow> row_button \<Rightarrow> notif_action option" where
  "page_item_action n RowSelect = None"
| "page_item_action n RowMarkRead = Some (MarkRead (n_id n))"
| "page_item_action n RowDelete = Some (DeleteOne (n_id n))"

definition item_badge :: "Notification \<Rightarrow> string" where
  "item_badge n = severity_name (classifySeverity n)"

section \<open>The bell and the page\<close>

lemma unread_params: "read_url (ROUTES NOTIFICATIONS @ ''?read=unread'') = (ROUTES NOTIFICATIONS, Some [(''read'', ''unread'')])"
  by code_simp

text \<open>The link under the bell opens the page filtered to what the bell lists: of any notifications the page
  shows the unread ones, in the same order, the first twenty of them on its first page.\<close>

theorem view_all_lists_unread:
  assumes "0 < n"
  shows "\<exists>ps. read_url (view_all_link n) = (ROUTES NOTIFICATIONS, Some ps) \<and>
    filteredNotifications (mount_page ps) ns = bell_notifications (Some ns) \<and>
    paginatedNotifications (mount_page ps) ns = take 20 (bell_notifications (Some ns)) \<and>
    hasActiveFilters (mount_page ps)"
proof -
  let ?ps = "[(''read'', ''unread'')]"
  have page: "mount_page ?ps = \<lparr>readFilter = ''unread'', severityFilter = ''all'', eventTypeFilter = ''all'', pageIndex = 0, pageSize = 20\<rparr>"
    by code_simp
  have "filteredNotifications (mount_page ?ps) ns = bell_notifications (Some ns)"
    by (simp add: page filteredNotifications_def bell_notifications_def)
  then show ?thesis using assms unread_params
    by (intro exI [of _ ?ps]) (simp add: view_all_link_def paginatedNotifications_def hasActiveFilters_def page)
qed

lemma view_all_lists_unread_witness:
  "\<exists>ps. read_url (view_all_link 2) = (''/notifications'', Some ps) \<and>
    paginatedNotifications (mount_page ps) [sample_note ''a'' True, sample_note ''b'' False] = [sample_note ''b'' False]"
proof -
  have unread: "bell_notifications (Some [sample_note ''a'' True, sample_note ''b'' False]) = [sample_note ''b'' False]"
    by (simp add: bell_notifications_def sample_note_def)
  have "take 20 [sample_note ''b'' False] = [sample_note ''b'' False]" by simp
  then show ?thesis
    using view_all_lists_unread [of 2 "[sample_note ''a'' True, sample_note ''b'' False]", unfolded unread] by fastforce
qed

text \<open>The return key on the delete button of a row opens the notification and deletes nothing.\<close>

lemma enter_on_delete_opens:
  "item_keydown n DeleteButton ''Enter'' = Some (handleNotificationClick n) \<and>
   be_mutations (handleNotificationClick n) \<noteq> be_mutations (item_click n DeleteButton)"
  by (simp add: item_keydown_def handleNotificationClick_def bell_delete_def)

end
