(* ===== verification/Guarded_Dialog.thy ===== *)
theory Guarded_Dialog
  imports Prelude
begin

text \<open>
  Pages as machines, and the contract of a dialog that stands between a page and a request. Deleting,
  revoking and removing go through a dialog everywhere in the application: a control of the page opens it,
  its own control sends the request, and dismissing it sends nothing. A step takes an event and a state
  and gives the requests sent and the next state, or nothing when the page does not offer the event.
\<close>

section \<open>Runs of a page\<close>

type_synonym ('e, 's, 'r) machine = "'e \<Rightarrow> 's \<Rightarrow> ('r list \<times> 's) option"

fun run_page :: "('e, 's, 'r) machine \<Rightarrow> 'e list \<Rightarrow> 's \<Rightarrow> ('r list \<times> 's) option" where
  "run_page f [] s = Some ([], s)"
| "run_page f (e # es) s =
     (case f e s of
        None \<Rightarrow> None
      | Some (rs, t) \<Rightarrow> map_option (apfst ((@) rs)) (run_page f es t))"

lemma run_page_append:
  "run_page f (es @ ds) s =
     (case run_page f es s of
        None \<Rightarrow> None
      | Some (rs, t) \<Rightarrow> map_option (apfst ((@) rs)) (run_page f ds t))"
proof (induction es arbitrary: s)
  case Nil
  show ?case by (cases "run_page f ds s") auto
next
  case (Cons e es)
  show ?case
    by (auto simp: Cons.IH option.map_comp apfst_compose [symmetric] comp_def split: option.splits)
      (auto intro!: option.map_cong)
qed

lemma run_page_snocE:
  assumes "run_page f (es @ [e]) s = Some (rs, u)"
  obtains qs t ps where "run_page f es s = Some (qs, t)" "f e t = Some (ps, u)" "rs = qs @ ps"
  using assms by (auto simp: run_page_append split: option.splits)

lemma run_page_invariant:
  assumes "run_page f es s = Some (rs, t)" and "I s"
    and "\<And>e s rs t. e \<in> set es \<Longrightarrow> f e s = Some (rs, t) \<Longrightarrow> I s \<Longrightarrow> I t"
  shows "I t"
  using assms
proof (induction es arbitrary: s rs)
  case (Cons e es)
  obtain qs u ps where "f e s = Some (qs, u)" "run_page f es u = Some (ps, t)"
    using Cons.prems(1) by (auto split: option.splits)
  with Cons.IH [of u ps] Cons.prems(2,3) show ?case by (metis list.set_intros)
qed simp

section \<open>The contract\<close>

text \<open>
  \<open>shown\<close> says that the dialog is on the screen; \<open>opens\<close> and \<open>closes\<close> are the events that do nothing but
  that; \<open>guarded\<close> are the requests the dialog stands for.
\<close>

locale guarded_dialog =
  fixes step :: "('e, 's, 'r) machine"
    and fresh :: "'s \<Rightarrow> bool"
    and shown :: "'s \<Rightarrow> bool"
    and opens :: "'e \<Rightarrow> bool"
    and closes :: "'e \<Rightarrow> bool"
    and guarded :: "'r \<Rightarrow> bool"
  assumes fresh_hidden: "fresh s \<Longrightarrow> \<not> shown s"
    and shown_by: "step e s = Some (rs, t) \<Longrightarrow> shown t \<Longrightarrow> shown s \<or> opens e"
    and hidden_by: "step e s = Some (rs, t) \<Longrightarrow> closes e \<Longrightarrow> \<not> shown t"
    and sent_shown: "step e s = Some (rs, t) \<Longrightarrow> r \<in> set rs \<Longrightarrow> guarded r \<Longrightarrow> shown s"
begin

lemma shown_since:
  assumes "fresh s" "run_page step es s = Some (rs, t)" "shown t"
  shows "\<exists>pre d post. es = pre @ d # post \<and> opens d \<and> list_all (\<lambda>e. \<not> closes e) post"
  using assms(2,3)
proof (induction es arbitrary: rs t rule: rev_induct)
  case Nil
  then show ?case using fresh_hidden [OF assms(1)] by simp
next
  case (snoc e es)
  obtain qs u ps where run: "run_page step es s = Some (qs, u)" and last: "step e u = Some (ps, t)"
    using snoc.prems(1) by (rule run_page_snocE)
  have kept: "\<not> closes e" using hidden_by [OF last] snoc.prems(2) by blast
  show ?case
  proof (cases "opens e")
    case True
    then have "es @ [e] = es @ e # []" "opens e" "list_all (\<lambda>e. \<not> closes e) []" by simp_all
    then show ?thesis by blast
  next
    case False
    then have "shown u" using shown_by [OF last snoc.prems(2)] by blast
    from snoc.IH [OF run this] obtain pre d post
      where "es = pre @ d # post" "opens d" "list_all (\<lambda>e. \<not> closes e) post" by blast
    with kept have "es @ [e] = pre @ d # (post @ [e])" "list_all (\<lambda>e. \<not> closes e) (post @ [e])" by auto
    with \<open>opens d\<close> show ?thesis by blast
  qed
qed

text \<open>No guarded request without the dialog having been opened, and not been dismissed since.\<close>

lemma sent_confirmed:
  assumes "fresh s" "run_page step es s = Some (rs, t)" "step e t = Some (qs, u)" "r \<in> set qs" "guarded r"
  shows "\<exists>pre d post. es = pre @ d # post \<and> opens d \<and> list_all (\<lambda>e. \<not> closes e) post"
  using shown_since [OF assms(1,2)] sent_shown [OF assms(3,4,5)] by blast

end

end
