(* ===== verification/Notification_Page.thy ===== *)
theory Notification_Page
  imports Guarded_Dialog Notification_Bell
begin

text \<open>
  The notifications page as a machine (\<open>features/notifications/ui/notifications-list-view.tsx\<close>): the state
  of the component, the controls it renders, what a press of each does, and the answers of its mutations.
  The filters and pages come from \<open>Notifications\<close>, the rows from \<open>Notification_Bell\<close>. The two dialogs are
  modal, so while one is open its own controls are the only ones.
\<close>

section \<open>State\<close>

record notif_view =
  nv_page :: page_state
  nv_data :: "Notification list option"   \<comment> \<open>the list query and the unread count\<close>
  nv_loading :: bool
  nv_failed :: bool
  nv_unread :: int
  selectMode :: bool
  selectedIds :: "string list"
  showDeleteAllDialog :: bool
  showDeleteSelectedDialog :: bool
  readPending :: bool                     \<comment> \<open>\<open>isPending\<close> of the five mutations\<close>
  readAllPending :: bool
  deletePending :: bool
  deleteAllPending :: bool
  deleteBatchPending :: bool

definition mount_notif_view :: "params \<Rightarrow> notif_view" where
  "mount_notif_view searchParams =
     \<lparr>nv_page = mount_page searchParams, nv_data = None, nv_loading = True, nv_failed = False, nv_unread = 0,
      selectMode = False, selectedIds = [], showDeleteAllDialog = False, showDeleteSelectedDialog = False,
      readPending = False, readAllPending = False, deletePending = False, deleteAllPending = False,
      deleteBatchPending = False\<rparr>"

definition allNotifications :: "notif_view \<Rightarrow> Notification list" where
  "allNotifications v = (case nv_data v of None \<Rightarrow> [] | Some ns \<Rightarrow> ns)"

definition page_rows :: "notif_view \<Rightarrow> Notification list" where
  "page_rows v = paginatedNotifications (nv_page v) (allNotifications v)"

definition currentPageIds :: "notif_view \<Rightarrow> string list" where
  "currentPageIds v = map n_id (page_rows v)"

definition notif_body :: "notif_view \<Rightarrow> list_view" where
  "notif_body v = NotificationsListView (nv_loading v) (nv_failed v) (nv_page v) (allNotifications v)"

section \<open>Handlers\<close>

definition handleExitSelectMode :: "notif_view \<Rightarrow> notif_view" where
  "handleExitSelectMode v = v\<lparr>selectMode := False, selectedIds := []\<rparr>"

text \<open>\<open>onSuccess\<close> of the two bulk deletions.\<close>

definition deleted_all :: "notif_view \<Rightarrow> notif_view" where
  "deleted_all v = handleExitSelectMode (v\<lparr>showDeleteAllDialog := False\<rparr>)"

definition deleted_selected :: "notif_view \<Rightarrow> notif_view" where
  "deleted_selected v = v\<lparr>showDeleteSelectedDialog := False, selectedIds := []\<rparr>"

section \<open>Controls\<close>

datatype notif_control =
    SelectButton | MarkAllButton | DeleteAllButton | DeleteSelectedButton | CancelSelection
  | PickRead string | PickSeverity string | PickType string | RemoveChip nat | ClearChips
  | RetryButton | ClearMatches | HeaderCheckbox | RowControl Notification row_button
  | PreviousPage | NextPage
  | ConfirmDeleteAll | DismissDeleteAll | ConfirmDeleteSelected | DismissDeleteSelected

definition header_controls :: "notif_view \<Rightarrow> notif_control list" where
  "header_controls v =
     (if selectMode v
      then (if length (selectedIds v) = 0 \<or> deleteBatchPending v then [] else [DeleteSelectedButton]) @ [CancelSelection]
      else (if length (allNotifications v) > 0 then [SelectButton] else []) @
           (if nv_unread v > 0 \<and> \<not> readAllPending v then [MarkAllButton] else []) @
           (if length (allNotifications v) > 0 then [DeleteAllButton] else []))"

definition read_items :: "string list" where
  "read_items = [''all'', ''unread'', ''read'']"

definition severity_items :: "string list" where
  "severity_items = [''all'', ''critical'', ''high'', ''medium'', ''info'']"

definition type_items :: "string list" where
  "type_items =
     [''all'', ''alert.created.malicious'', ''alert.created.suspicious'', ''discovery.packages_added'',
      ''analysis.error'', ''diff.error'', ''packages.stale_removed'']"

definition filter_controls :: "notif_view \<Rightarrow> notif_control list" where
  "filter_controls v =
     map PickRead read_items @ map PickSeverity severity_items @ map PickType type_items @
     (if hasActiveFilters (nv_page v)
      then map RemoveChip [0..<length (activeFilters (nv_page v))] @ [ClearChips] else [])"

definition row_enabled :: "notif_view \<Rightarrow> row_button \<Rightarrow> bool" where
  "row_enabled v b =
     (case b of RowSelect \<Rightarrow> True | RowMarkRead \<Rightarrow> \<not> readPending v | RowDelete \<Rightarrow> \<not> deletePending v)"

definition row_controls :: "notif_view \<Rightarrow> Notification \<Rightarrow> notif_control list" where
  "row_controls v n = map (RowControl n) (filter (row_enabled v) (page_item_buttons (selectMode v) n))"

definition pagination_controls :: "notif_view \<Rightarrow> notif_control list" where
  "pagination_controls v =
     (if pageIndex (nv_page v) = 0 then [] else [PreviousPage]) @
     (if int (pageIndex (nv_page v)) \<ge> int (pageCount (nv_page v) (allNotifications v)) - 1 then [] else [NextPage])"

definition body_controls :: "notif_view \<Rightarrow> notif_control list" where
  "body_controls v =
     (case notif_body v of
        ListSkeleton \<Rightarrow> []
      | ListFailed \<Rightarrow> [RetryButton]
      | NoNotifications \<Rightarrow> []
      | NoMatches \<Rightarrow> [ClearMatches]
      | Rows ns paged \<Rightarrow>
          (if selectMode v \<and> length ns > 0 then [HeaderCheckbox] else []) @
          concat (map (row_controls v) ns) @ (if paged then pagination_controls v else []))"

definition controls :: "notif_view \<Rightarrow> notif_control list" where
  "controls v =
     (if showDeleteAllDialog v
      then DismissDeleteAll # (if deleteAllPending v then [] else [ConfirmDeleteAll])
      else if showDeleteSelectedDialog v
      then DismissDeleteSelected # (if deleteBatchPending v then [] else [ConfirmDeleteSelected])
      else header_controls v @ filter_controls v @ body_controls v)"

section \<open>What a press does\<close>

definition row_press :: "Notification \<Rightarrow> row_button \<Rightarrow> notif_view \<Rightarrow> notif_action list \<times> notif_view" where
  "row_press n b v =
     (case page_item_action n b of
        None \<Rightarrow> ([], v\<lparr>selectedIds := handleToggleSelect (n_id n) (selectedIds v)\<rparr>)
      | Some a \<Rightarrow> ([a], if b = RowMarkRead then v\<lparr>readPending := True\<rparr> else v\<lparr>deletePending := True\<rparr>))"

definition remove_chip :: "nat \<Rightarrow> page_state \<Rightarrow> page_state" where
  "remove_chip k p = (if k < length (activeFilters p) then snd (snd (activeFilters p ! k)) p else p)"

definition repage :: "(page_state \<Rightarrow> page_state) \<Rightarrow> notif_view \<Rightarrow> notif_action list \<times> notif_view" where
  "repage f v = ([], v\<lparr>nv_page := f (nv_page v)\<rparr>)"

fun press :: "notif_control \<Rightarrow> notif_view \<Rightarrow> notif_action list \<times> notif_view" where
  "press SelectButton v = ([], v\<lparr>selectMode := True\<rparr>)"
| "press MarkAllButton v = ([MarkAllRead], v\<lparr>readAllPending := True\<rparr>)"
| "press DeleteAllButton v = ([], v\<lparr>showDeleteAllDialog := True\<rparr>)"
| "press DeleteSelectedButton v = ([], v\<lparr>showDeleteSelectedDialog := True\<rparr>)"
| "press CancelSelection v = ([], handleExitSelectMode v)"
| "press (PickRead x) v = repage (if x \<noteq> [] then setReadFilterAndResetPage x else id) v"
| "press (PickSeverity x) v = repage (if x \<noteq> [] then setSeverityFilterAndResetPage x else id) v"
| "press (PickType x) v = repage (if x \<noteq> [] then setEventTypeFilterAndResetPage x else id) v"
| "press (RemoveChip k) v = repage (remove_chip k) v"
| "press ClearChips v = repage clearAllFilters v"
| "press RetryButton v = ([], v)"
| "press ClearMatches v = repage clearAllFilters v"
| "press HeaderCheckbox v = ([], v\<lparr>selectedIds := handleSelectAll (currentPageIds v) (selectedIds v)\<rparr>)"
| "press (RowControl n b) v = row_press n b v"
| "press PreviousPage v = repage previous_page v"
| "press NextPage v = repage (next_page (allNotifications v)) v"
| "press ConfirmDeleteAll v = ([DeleteAll], v\<lparr>deleteAllPending := True\<rparr>)"
| "press DismissDeleteAll v = ([], v\<lparr>showDeleteAllDialog := False\<rparr>)"
| "press ConfirmDeleteSelected v =
     (case handleDeleteSelected (selectedIds v) of
        None \<Rightarrow> ([], v)
      | Some a \<Rightarrow> ([a], v\<lparr>deleteBatchPending := True\<rparr>))"
| "press DismissDeleteSelected v = ([], v\<lparr>showDeleteSelectedDialog := False\<rparr>)"

section \<open>The machine\<close>

text \<open>An event: a press, an answer to a mutation (whether it was accepted), or new results of the queries.\<close>

datatype notif_event =
    Press notif_control
  | ReadAnswered | ReadAllAnswered | DeleteAnswered
  | DeleteAllAnswered bool | DeleteBatchAnswered bool
  | Refetched "Notification list option" bool bool int

fun notif_step :: "(notif_event, notif_view, notif_action) machine" where
  "notif_step (Press c) v = (if c \<in> set (controls v) then Some (press c v) else None)"
| "notif_step ReadAnswered v = (if readPending v then Some ([], v\<lparr>readPending := False\<rparr>) else None)"
| "notif_step ReadAllAnswered v = (if readAllPending v then Some ([], v\<lparr>readAllPending := False\<rparr>) else None)"
| "notif_step DeleteAnswered v = (if deletePending v then Some ([], v\<lparr>deletePending := False\<rparr>) else None)"
| "notif_step (DeleteAllAnswered accepted) v =
     (if deleteAllPending v
      then Some ([], (if accepted then deleted_all v else v)\<lparr>deleteAllPending := False\<rparr>) else None)"
| "notif_step (DeleteBatchAnswered accepted) v =
     (if deleteBatchPending v
      then Some ([], (if accepted then deleted_selected v else v)\<lparr>deleteBatchPending := False\<rparr>) else None)"
| "notif_step (Refetched d loading erroneous unread) v =
     Some ([], v\<lparr>nv_data := d, nv_loading := loading, nv_failed := erroneous, nv_unread := unread\<rparr>)"


section \<open>What a press changes\<close>

lemma page_item_action_cases:
  "page_item_action n b = (case b of RowSelect \<Rightarrow> None | RowMarkRead \<Rightarrow> Some (MarkRead (n_id n)) | RowDelete \<Rightarrow> Some (DeleteOne (n_id n)))"
  by (cases b) simp_all

lemma press_dialogs:
  "showDeleteAllDialog (snd (press c v)) =
     (if c = DeleteAllButton then True else if c = DismissDeleteAll then False else showDeleteAllDialog v)"
  "showDeleteSelectedDialog (snd (press c v)) =
     (if c = DeleteSelectedButton then True else if c = DismissDeleteSelected then False else showDeleteSelectedDialog v)"
  by (cases c; simp add: repage_def handleExitSelectMode_def row_press_def page_item_action_cases
      split: option.split row_button.split)+

lemma press_sends:
  "set (fst (press c v)) =
     (case c of
        MarkAllButton \<Rightarrow> {MarkAllRead}
      | RowControl n b \<Rightarrow> set_option (page_item_action n b)
      | ConfirmDeleteAll \<Rightarrow> {DeleteAll}
      | ConfirmDeleteSelected \<Rightarrow> set_option (handleDeleteSelected (selectedIds v))
      | _ \<Rightarrow> {})"
  by (cases c) (auto simp: repage_def row_press_def split: option.split)

lemma confirm_offered:
  "ConfirmDeleteAll \<in> set (controls v) \<longleftrightarrow> showDeleteAllDialog v \<and> \<not> deleteAllPending v"
  "ConfirmDeleteSelected \<in> set (controls v) \<longleftrightarrow>
     \<not> showDeleteAllDialog v \<and> showDeleteSelectedDialog v \<and> \<not> deleteBatchPending v"
  by (auto simp: controls_def header_controls_def filter_controls_def body_controls_def pagination_controls_def
      row_controls_def split: list_view.split)

lemma open_offered:
  "DeleteAllButton \<in> set (controls v) \<longleftrightarrow> \<not> showDeleteAllDialog v \<and> \<not> showDeleteSelectedDialog v \<and>
     \<not> selectMode v \<and> allNotifications v \<noteq> []"
  "DeleteSelectedButton \<in> set (controls v) \<longleftrightarrow> \<not> showDeleteAllDialog v \<and> \<not> showDeleteSelectedDialog v \<and>
     selectMode v \<and> selectedIds v \<noteq> [] \<and> \<not> deleteBatchPending v"
  by (auto simp: controls_def header_controls_def filter_controls_def body_controls_def pagination_controls_def
      row_controls_def split: list_view.split)

text \<open>The page offers a tick of a row, or of all rows, in selection mode only, and for rows it shows.\<close>

lemma select_offered:
  "RowControl n RowSelect \<in> set (controls v) \<Longrightarrow>
     \<not> showDeleteAllDialog v \<and> \<not> showDeleteSelectedDialog v \<and> selectMode v \<and> n \<in> set (page_rows v)"
  "HeaderCheckbox \<in> set (controls v) \<Longrightarrow>
     \<not> showDeleteAllDialog v \<and> \<not> showDeleteSelectedDialog v \<and> selectMode v"
  by (auto simp: controls_def header_controls_def filter_controls_def body_controls_def pagination_controls_def
      row_controls_def page_item_buttons_def notif_body_def NotificationsListView_def page_rows_def
      split: list_view.splits if_splits)

fun_cases notif_step_PressE: "notif_step (Press c) v = Some p"

interpretation delete_all: guarded_dialog notif_step "\<lambda>v. \<exists>ps. v = mount_notif_view ps" showDeleteAllDialog
  "\<lambda>e. e = Press DeleteAllButton" "\<lambda>e. e = Press DismissDeleteAll" "\<lambda>r. r = DeleteAll"
proof
  fix e v rs w r
  assume step: "notif_step e v = Some (rs, w)"
  show "showDeleteAllDialog w \<Longrightarrow> showDeleteAllDialog v \<or> e = Press DeleteAllButton"
    using step by (cases e)
      (auto simp: press_dialogs deleted_all_def deleted_selected_def handleExitSelectMode_def prod_eq_iff split: if_splits)
  show "e = Press DismissDeleteAll \<Longrightarrow> \<not> showDeleteAllDialog w"
    using step by (auto split: if_splits)
  show "r \<in> set rs \<Longrightarrow> r = DeleteAll \<Longrightarrow> showDeleteAllDialog v"
    using step by (cases e)
      (auto simp: press_sends confirm_offered page_item_action_cases handleDeleteSelected_def prod_eq_iff
        split: if_splits notif_control.splits row_button.splits)
qed (auto simp: mount_notif_view_def)


interpretation delete_selected: guarded_dialog notif_step "\<lambda>v. \<exists>ps. v = mount_notif_view ps" showDeleteSelectedDialog
  "\<lambda>e. e = Press DeleteSelectedButton" "\<lambda>e. e = Press DismissDeleteSelected" "\<lambda>r. \<exists>ids. r = DeleteBatch ids"
proof
  fix e v rs w r
  assume step: "notif_step e v = Some (rs, w)"
  show "showDeleteSelectedDialog w \<Longrightarrow> showDeleteSelectedDialog v \<or> e = Press DeleteSelectedButton"
    using step by (cases e)
      (auto simp: press_dialogs deleted_all_def deleted_selected_def handleExitSelectMode_def prod_eq_iff split: if_splits)
  show "e = Press DismissDeleteSelected \<Longrightarrow> \<not> showDeleteSelectedDialog w"
    using step by (auto split: if_splits)
  show "r \<in> set rs \<Longrightarrow> \<exists>ids. r = DeleteBatch ids \<Longrightarrow> showDeleteSelectedDialog v"
    using step by (cases e)
      (auto simp: press_sends confirm_offered page_item_action_cases prod_eq_iff
        split: if_splits notif_control.splits row_button.splits)
qed (auto simp: mount_notif_view_def)

section \<open>The selection\<close>

text \<open>
  What holds on the page at all times: outside the selection mode nothing is selected, no notification is
  selected twice, at most one dialog is open, and the one for all notifications never over a selection.
\<close>

definition notif_page_ok :: "notif_view \<Rightarrow> bool" where
  "notif_page_ok v \<longleftrightarrow> (selectedIds v = [] \<or> selectMode v) \<and> distinct (selectedIds v) \<and>
     \<not> (showDeleteAllDialog v \<and> (showDeleteSelectedDialog v \<or> selectMode v))"

lemma distinct_selection:
  "distinct sel \<Longrightarrow> distinct (handleToggleSelect i sel)"
  "distinct sel \<Longrightarrow> distinct (handleSelectAll ids sel)"
proof -
  have add: "distinct (fold set_add ids sel)" if "distinct sel" for ids sel
    using that by (induction ids arbitrary: sel) (auto simp: set_add_def)
  have del: "distinct (fold removeAll ids sel)" if "distinct sel" for ids sel
    using that by (induction ids arbitrary: sel) (auto simp: distinct_removeAll)
  show "distinct sel \<Longrightarrow> distinct (handleToggleSelect i sel)"
    by (auto simp: handleToggleSelect_def set_add_def distinct_removeAll)
  show "distinct sel \<Longrightarrow> distinct (handleSelectAll ids sel)"
    by (auto simp: handleSelectAll_def add del)
qed

text \<open>The selection after a press; only the two kinds of checkbox add to it.\<close>

lemma press_selection:
  "selectedIds (snd (press c v)) =
     (case c of
        CancelSelection \<Rightarrow> []
      | HeaderCheckbox \<Rightarrow> handleSelectAll (currentPageIds v) (selectedIds v)
      | RowControl n RowSelect \<Rightarrow> handleToggleSelect (n_id n) (selectedIds v)
      | _ \<Rightarrow> selectedIds v)"
  "selectMode (snd (press c v)) =
     (case c of SelectButton \<Rightarrow> True | CancelSelection \<Rightarrow> False | _ \<Rightarrow> selectMode v)"
  by (cases c; simp add: repage_def handleExitSelectMode_def row_press_def page_item_action_cases
      split: option.split row_button.split)+

lemma press_page_ok:
  assumes "c \<in> set (controls v)" "notif_page_ok v"
  shows "notif_page_ok (snd (press c v))"
proof -
  have mode: "\<not> showDeleteAllDialog v" if "c = SelectButton \<or> c = CancelSelection"
    using that assms(1) by (auto simp: controls_def split: if_splits)
  show ?thesis
    using assms open_offered [of v] select_offered(1) [of _ v] select_offered(2) [of v] mode
    unfolding notif_page_ok_def press_dialogs press_selection
    by (auto simp: distinct_selection split: notif_control.splits row_button.splits)
qed

lemma step_page_ok:
  assumes "notif_step e v = Some (rs, w)" "notif_page_ok v"
  shows "notif_page_ok w"
proof (cases e)
  case (Press c)
  then show ?thesis using assms press_page_ok [of c v] by (auto split: if_splits)
qed (use assms in \<open>auto simp: notif_page_ok_def deleted_all_def deleted_selected_def handleExitSelectMode_def split: if_splits\<close>)

lemma page_ok_reachable:
  assumes "run_page notif_step es (mount_notif_view ps) = Some (rs, v)"
  shows "notif_page_ok v"
  using assms(1)
  by (rule run_page_invariant) (auto simp: notif_page_ok_def mount_notif_view_def dest: step_page_ok [unfolded notif_page_ok_def])


lemma selection_was_shown:
  assumes "run_page notif_step es (mount_notif_view ps) = Some (rs, v)" "i \<in> set (selectedIds v)"
  shows "\<exists>pre post qs u. es = pre @ post \<and> run_page notif_step pre (mount_notif_view ps) = Some (qs, u) \<and>
    selectMode u \<and> i \<in> set (currentPageIds u)"
  using assms
proof (induction es arbitrary: rs v rule: rev_induct)
  case Nil
  then show ?case by (auto simp: mount_notif_view_def)
next
  case (snoc e es)
  obtain qs u ds where run: "run_page notif_step es (mount_notif_view ps) = Some (qs, u)"
    and last: "notif_step e u = Some (ds, v)"
    using snoc.prems(1) by (rule run_page_snocE)
  have "i \<in> set (selectedIds u) \<or> (selectMode u \<and> i \<in> set (currentPageIds u))"
  proof (cases e)
    case (Press c)
    then have "c \<in> set (controls u)" "v = snd (press c u)" using last by (auto split: if_splits)
    then show ?thesis
      using snoc.prems(2) select_offered(1) [of _ u] select_offered(2) [of u]
      by (auto simp: press_selection handleToggleSelect_def set_add_def currentPageIds_def select_all_exact
          split: notif_control.splits row_button.splits if_splits)
  qed (use last snoc.prems(2) in
      \<open>auto simp: deleted_all_def deleted_selected_def handleExitSelectMode_def split: if_splits\<close>)
  then show ?case
  proof
    assume "i \<in> set (selectedIds u)"
    from snoc.IH [OF run this] show ?case by (metis append.assoc)
  next
    assume "selectMode u \<and> i \<in> set (currentPageIds u)"
    with run show ?case by blast
  qed
qed



definition two_notes :: "Notification list" where
  "two_notes = [sample_note ''1'' False, sample_note ''2'' True]"

definition tick_first :: "notif_event list" where
  "tick_first = [Refetched (Some two_notes) False False 1, Press SelectButton,
     Press (RowControl (sample_note ''1'' False) RowSelect), Press DeleteSelectedButton]"

lemma tick_first_runs:
  "\<exists>v w. run_page notif_step tick_first (mount_notif_view []) = Some ([], v) \<and>
     notif_step (Press ConfirmDeleteSelected) v = Some ([DeleteBatch [''1'']], w)"
proof -
  define r where "r = run_page notif_step tick_first (mount_notif_view [])"
  have "map_option fst r = Some []" "map_option (map_option fst \<circ> notif_step (Press ConfirmDeleteSelected) \<circ> snd) r =
      Some (Some [DeleteBatch [''1'']])"
    unfolding r_def by code_simp+
  then show ?thesis unfolding r_def [symmetric] by (auto simp del: notif_step.simps)
qed


text \<open>
  A ticked row that is deleted by its own button stays in the selection: the dialog for the selection counts
  it and the request names it again.
\<close>

lemma deleted_row_stays_selected:
  "map_option fst (run_page notif_step
     ([Refetched (Some two_notes) False False 1, Press SelectButton, Press HeaderCheckbox,
       Press (RowControl (sample_note ''1'' False) RowDelete), DeleteAnswered,
       Refetched (Some [sample_note ''2'' True]) False False 0,
       Press DeleteSelectedButton, Press ConfirmDeleteSelected]) (mount_notif_view [])) =
   Some [DeleteOne ''1'', DeleteBatch [''1'', ''2'']]"
  by code_simp

section \<open>The footer\<close>

definition filtered_total :: "notif_view \<Rightarrow> nat" where
  "filtered_total v = length (filteredNotifications (nv_page v) (allNotifications v))"

definition rangeStart :: "notif_view \<Rightarrow> nat" where
  "rangeStart v = (if filtered_total v = 0 then 0 else pageIndex (nv_page v) * pageSize (nv_page v) + 1)"

definition rangeEnd :: "notif_view \<Rightarrow> nat" where
  "rangeEnd v = min ((pageIndex (nv_page v) + 1) * pageSize (nv_page v)) (filtered_total v)"

definition on_a_page :: "notif_view \<Rightarrow> bool" where
  "on_a_page v \<longleftrightarrow> pageSize (nv_page v) = 20 \<and> pageIndex (nv_page v) < pageCount (nv_page v) (allNotifications v)"

lemma pageCount_pos [simp]: "0 < pageCount p ns"
  by (simp add: pageCount_def Let_def)

lemma chip_resets: "snd (snd (activeFilters p ! k)) p = q \<Longrightarrow> k < length (activeFilters p) \<Longrightarrow>
    pageIndex q = 0 \<and> pageSize q = pageSize p"
  by (auto simp: activeFilters_def nth_append nth_Cons' setReadFilterAndResetPage_def
      setSeverityFilterAndResetPage_def setEventTypeFilterAndResetPage_def split: if_splits)

lemma repaged:
  "on_a_page v \<Longrightarrow> nv_page (snd (press c v)) = nv_page v \<or>
     (pageSize (nv_page (snd (press c v))) = 20 \<and>
      (pageIndex (nv_page (snd (press c v))) = 0 \<or>
       (pageIndex (nv_page (snd (press c v))) < pageCount (nv_page v) (allNotifications v) \<and>
        filteredNotifications (nv_page (snd (press c v))) = filteredNotifications (nv_page v))))"
proof (cases c)
  case (RemoveChip k)
  then show "on_a_page v \<Longrightarrow> ?thesis"
    using chip_resets [OF refl, of k "nv_page v"] by (simp add: repage_def remove_chip_def on_a_page_def)
qed (auto simp: repage_def on_a_page_def handleExitSelectMode_def row_press_def page_item_action_cases
    setReadFilterAndResetPage_def setSeverityFilterAndResetPage_def setEventTypeFilterAndResetPage_def
    clearAllFilters_def previous_page_def next_page_def filteredNotifications_def fun_eq_iff
    split: option.split row_button.split)


lemma press_data: "nv_data (snd (press c v)) = nv_data v"
  by (cases c) (simp_all add: repage_def handleExitSelectMode_def row_press_def page_item_action_cases
      split: option.split row_button.split)

lemma press_on_a_page:
  assumes "on_a_page v"
  shows "on_a_page (snd (press c v))"
proof -
  have "allNotifications (snd (press c v)) = allNotifications v" by (simp add: allNotifications_def press_data)
  with repaged [OF assms, of c] assms show ?thesis by (auto simp: on_a_page_def pageCount_def)
qed

lemma step_on_a_page:
  assumes "notif_step e v = Some (rs, w)" "on_a_page v" "\<forall>d l f u. e \<noteq> Refetched d l f u"
  shows "on_a_page w"
proof (cases e)
  case (Press c)
  then show ?thesis using assms press_on_a_page [of v c] by (auto split: if_splits)
qed (use assms in \<open>auto simp: on_a_page_def allNotifications_def deleted_all_def deleted_selected_def
    handleExitSelectMode_def split: if_splits\<close>)

lemma within_pages:
  assumes "i < max 1 ((n + 20 - 1) div 20)" "0 < (n :: nat)"
  shows "i * 20 < n"
proof -
  have "i < (n + 19) div 20" using assms by (simp add: max_def split: if_splits)
  then have "Suc i * 20 \<le> n + 19" by (simp add: less_eq_div_iff_mult_less_eq Suc_le_eq [symmetric])
  then show ?thesis by simp
qed

definition is_press :: "notif_event \<Rightarrow> bool" where
  "is_press e = (case e of Refetched _ _ _ _ \<Rightarrow> False | _ \<Rightarrow> True)"

text \<open>C7: The footer tells the truth. Whatever is pressed on a list that was loaded, the page shown is one of
  the pages, and when there is something to show it is not empty: the rows are those from the first
  to the last position the footer names, and these lie within the filtered notifications.\<close>

theorem footer_exact:
  assumes "run_page notif_step (Refetched d l f n # es) (mount_notif_view ps) = Some (rs, v)"
    and "list_all is_press es"
  shows "pageIndex (nv_page v) < pageCount (nv_page v) (allNotifications v) \<and>
    page_rows v = drop (rangeStart v - 1) (take (rangeEnd v) (filteredNotifications (nv_page v) (allNotifications v))) \<and>
    (filtered_total v > 0 \<longrightarrow>
       1 \<le> rangeStart v \<and> rangeStart v \<le> rangeEnd v \<and> rangeEnd v \<le> filtered_total v \<and>
       length (page_rows v) = rangeEnd v + 1 - rangeStart v)"
proof -
  define u where "u = (mount_notif_view ps)\<lparr>nv_data := d, nv_loading := l, nv_failed := f, nv_unread := n\<rparr>"
  have run: "run_page notif_step es u = Some (rs, v)" using assms(1) by (auto simp: u_def)
  have "on_a_page u" by (simp add: u_def on_a_page_def mount_notif_view_def mount_page_def)
  have loaded: "\<forall>d l f u. e \<noteq> Refetched d l f u" if "e \<in> set es" for e
    using assms(2) that by (auto simp: list_all_iff is_press_def split: notif_event.splits)
  have page: "on_a_page v"
    by (rule run_page_invariant [where I = on_a_page, OF run \<open>on_a_page u\<close>]) (rule step_on_a_page, assumption+, rule loaded)
  let ?i = "pageIndex (nv_page v)"
  have inside: "?i * 20 < filtered_total v" if "filtered_total v > 0"
  proof -
    have "pageSize (nv_page v) = 20" "?i < pageCount (nv_page v) (allNotifications v)"
      using page by (simp_all add: on_a_page_def)
    then have "?i < max 1 ((filtered_total v + 20 - 1) div 20)"
      by (simp only: pageCount_def filtered_total_def Let_def)
    then show ?thesis using that by (rule within_pages)
  qed
  have rows: "page_rows v = drop (rangeStart v - 1)
      (take (rangeEnd v) (filteredNotifications (nv_page v) (allNotifications v)))"
    using page by (auto simp: page_rows_def paginatedNotifications_def rangeStart_def rangeEnd_def filtered_total_def
        on_a_page_def Let_def take_drop add.commute min_def)
  show ?thesis
    using page inside rows by (auto simp: on_a_page_def rangeStart_def rangeEnd_def filtered_total_def min_def)
qed

lemma footer_exact_witness:
  "\<exists>v. run_page notif_step [Refetched (Some twenty_one) False False 0, Press NextPage] (mount_notif_view []) = Some ([], v) \<and>
     rangeStart v = 21 \<and> rangeEnd v = 21 \<and> length (page_rows v) = 1"
proof -
  define r where "r = run_page notif_step [Refetched (Some twenty_one) False False 0, Press NextPage] (mount_notif_view [])"
  have "map_option (\<lambda>(rs, v). (rs, rangeStart v, rangeEnd v, filtered_total v)) r = Some ([], 21, 21, 21)"
    unfolding r_def by code_simp
  then obtain v where r: "r = Some ([], v)" "rangeStart v = 21" "rangeEnd v = 21" "filtered_total v = 21" by auto
  have "list_all is_press [Press NextPage]" by (simp add: is_press_def)
  from footer_exact [OF r(1) [unfolded r_def] this]
  have "filtered_total v > 0 \<longrightarrow> length (page_rows v) = rangeEnd v + 1 - rangeStart v" by blast
  with r(2-4) have "length (page_rows v) = 1" by simp
  with r show ?thesis unfolding r_def [symmetric] by blast
qed

end
