(* ===== verification/Auth_Session.thy ===== *)
theory Auth_Session
  imports Auth
begin

text \<open>
  The session as a whole: an abstract machine of three kinds of state (a visitor, stored tokens without a
  user, a signed-in user) and the proof that the callbacks of \<open>core/providers/auth-provider.tsx\<close>, run one
  after another in any order and answered in any way, only make steps it allows. The steps are what the
  rest of the application relies on: who may change the user, what can end a session and what cannot
  begin one.
\<close>

section \<open>The callbacks as operations\<close>

datatype session_op =
    SignIn string string
  | SignUp string string string string
  | SignOut
  | LoadUser
  | LoadWorkspaces
  | Start bool            \<comment> \<open>\<open>initAuth\<close>, with the order in which its two requests end\<close>
  | RefreshTokens
  | SelectWorkspace json

fun provider_step :: "server \<Rightarrow> session_op \<Rightarrow> auth_world \<Rightarrow> auth_world" where
  "provider_step srv (SignIn mail pw) w = snd (login srv mail pw w)"
| "provider_step srv (SignUp mail pw f l) w = snd (register srv mail pw f l w)"
| "provider_step srv SignOut w = logout srv w"
| "provider_step srv LoadUser w = refreshUser srv w"
| "provider_step srv LoadWorkspaces w = refreshWorkspaces srv w"
| "provider_step srv (Start userFirst) w = initAuth userFirst srv w"
| "provider_step srv RefreshTokens w = proactive_refresh srv w"
| "provider_step srv (SelectWorkspace ws) w = setCurrentWorkspace ws w"

text \<open>The states a run passes through; the backend may answer differently at every step.\<close>

fun provider_run :: "(server \<times> session_op) list \<Rightarrow> auth_world \<Rightarrow> auth_world list" where
  "provider_run [] w = []"
| "provider_run ((srv, x) # xs) w = (let v = provider_step srv x w in v # provider_run xs v)"

section \<open>The abstract session\<close>

datatype session = Visitor | Holding | SignedIn "json option"

definition holds :: "auth_world \<Rightarrow> bool" where
  "holds w \<longleftrightarrow> getStoredAccessToken w \<noteq> None \<or> getStoredRefreshToken w \<noteq> None"

definition session_of :: "auth_world \<Rightarrow> session" where
  "session_of w = (if isAuthenticated w then SignedIn (user w) else if holds w then Holding else Visitor)"

fun session_step :: "session_op \<Rightarrow> session \<Rightarrow> session \<Rightarrow> bool" where
  "session_step (SignIn _ _) s t = True"
| "session_step (SignUp _ _ _ _) s t = True"
| "session_step SignOut s t = (t = Visitor)"
| "session_step LoadUser s t = (s = Visitor \<longrightarrow> t = Visitor)"
| "session_step (Start _) s t = (s = Visitor \<longrightarrow> t = Visitor)"
| "session_step LoadWorkspaces s t = (t = s \<or> t = Visitor)"
| "session_step RefreshTokens s t = (t = s \<or> t = Visitor)"
| "session_step (SelectWorkspace _) s t = (t = s)"

fun session_run :: "session_op list \<Rightarrow> session \<Rightarrow> session list \<Rightarrow> bool" where
  "session_run [] s ts = (ts = [])"
| "session_run (x # xs) s [] = False"
| "session_run (x # xs) s (t # ts) = (session_step x s t \<and> session_run xs t ts)"

text \<open>
  What the backend is trusted with: a request for the own profile that carries no credentials is refused.
\<close>

definition refuses_visitors :: "server \<Rightarrow> bool" where
  "refuses_visitors srv \<longleftrightarrow>
     (\<forall>h r. map_of (req_headers r) ''Authorization'' = None \<and> (\<exists>base. req_url r = base @ ''/api/auth/me'') \<longrightarrow>
        (case srv h r of Inl _ \<Rightarrow> True | Inr p \<Rightarrow> \<not> ok_status p))"

text \<open>The invariant of the page: a signed-in user is backed by stored tokens.\<close>

definition session_ok :: "auth_world \<Rightarrow> bool" where
  "session_ok w \<longleftrightarrow> windowDefined w \<and> (isAuthenticated w \<longrightarrow> holds w)"

section \<open>What a call does to the session\<close>

lemma holds_simps [simp]:
  "\<not> holds (clearTokens w)" "\<not> holds (end_session w)"
  "holds (w\<lparr>sent := x\<rparr>) = holds w" "holds (w\<lparr>isRefreshing := b\<rparr>) = holds w"
  "holds (w\<lparr>refreshPromise := p\<rparr>) = holds w" "holds (w\<lparr>user := u\<rparr>) = holds w"
  "holds (w\<lparr>isLoading := b\<rparr>) = holds w" "holds (w\<lparr>currentWorkspace := c\<rparr>) = holds w"
  "holds (w\<lparr>workspaces := x2\<rparr>) = holds w" "holds (w\<lparr>workspacesLoading := b\<rparr>) = holds w"
  "holds (w\<lparr>workspacesError := e\<rparr>) = holds w" "holds (w\<lparr>toasts := t\<rparr>) = holds w"
  "holds (w\<lparr>cacheLog := l\<rparr>) = holds w" "holds (storeWorkspaceId i w) = holds w"
  "holds (setSuperAdminHint b w) = holds w"
  by (auto simp: holds_def)

lemma holds_stored [simp]: "windowDefined w \<Longrightarrow> holds (storeTokens a r w)"
  by (simp add: holds_def storeTokens_def Let_def getStoredAccessToken_def http_simps setItem_def getItem_def
      assign_cookie_def)

text \<open>Two worlds with the same session.\<close>

definition same_session :: "auth_world \<Rightarrow> auth_world \<Rightarrow> bool" where
  "same_session w v \<longleftrightarrow> user v = user w \<and> windowDefined v = windowDefined w \<and> holds v = holds w"

definition ended :: "auth_world \<Rightarrow> bool" where
  "ended v \<longleftrightarrow> windowDefined v \<and> \<not> holds v \<and> user v = Some JNull"

lemma ended_end_session [simp]: "ended (end_session w) = windowDefined w"
  using holds_simps(2) [of w] by (simp add: ended_def end_session_def Let_def del: holds_simps(2))

lemma refresh_answer_session:
  assumes "fst (refresh_answer ans w)" "windowDefined w"
  shows "holds (snd (refresh_answer ans w)) \<and> user (snd (refresh_answer ans w)) = user w \<and>
    windowDefined (snd (refresh_answer ans w))"
proof -
  from assms(1) have "refresh_answer ans w = (True, snd (refresh_answer ans w))" by (simp add: prod_eq_iff)
  then obtain a r where "snd (refresh_answer ans w) = storeTokens a r w" by (rule refresh_answer_True)
  with assms(2) show ?thesis by simp
qed

lemma refresh_cases:
  assumes "attemptTokenRefresh srv w = (b, v)"
  obtains (shared) "v = w"
    | (none) "\<not> b" "\<exists>p. v = w\<lparr>isRefreshing := False, refreshPromise := p\<rparr>"
    | (asked) t ans u where "getStoredRefreshToken w = Some t" "u = w\<lparr>isRefreshing := True, sent := sent w @ [refresh_request t (w\<lparr>isRefreshing := True\<rparr>)]\<rparr>"
        "b = fst (refresh_answer ans u)" "v = (snd (refresh_answer ans u))\<lparr>isRefreshing := False, refreshPromise := None\<rparr>"
proof (cases "isRefreshing w \<and> (\<exists>x. refreshPromise w = Some x)")
  case True
  then show ?thesis using assms shared by (auto simp: attemptTokenRefresh_def)
next
  case False
  then have eq: "attemptTokenRefresh srv w =
      (let w1 = w\<lparr>isRefreshing := True\<rparr> in
           case getStoredRefreshToken w1 of
             None \<Rightarrow> (False, w1\<lparr>isRefreshing := False, refreshPromise := Some False\<rparr>)
           | Some t \<Rightarrow>
               (if t = [] then (False, w1\<lparr>isRefreshing := False, refreshPromise := Some False\<rparr>)
                else
                  let (ans, w2) = net_fetch srv (refresh_request t w1) w1;
                      (res, w3) = refresh_answer ans w2
                  in (res, w3\<lparr>isRefreshing := False, refreshPromise := None\<rparr>)))"
    by (cases "isRefreshing w"; cases "refreshPromise w") (auto simp: attemptTokenRefresh_def)
  show ?thesis
  proof (cases "\<exists>t. getStoredRefreshToken w = Some t \<and> t \<noteq> []")
    case True
    then obtain t where "getStoredRefreshToken w = Some t" "t \<noteq> []" by blast
    with assms show ?thesis unfolding eq
      by (intro asked [OF _ refl, where ans = "srv (sent w) (refresh_request t (w\<lparr>isRefreshing := True\<rparr>))"])
        (auto simp: Let_def split_beta net_fetch_def prod_eq_iff)
  next
    case False
    then show ?thesis using none assms unfolding eq by (auto simp: Let_def split: option.splits)
  qed
qed

lemma refresh_keeps_session:
  assumes "windowDefined w" "attemptTokenRefresh srv w = (True, v)"
  shows "same_session w v"
  using assms(2)
proof (cases rule: refresh_cases)
  case (asked t ans u)
  have "holds w" using asked(1) by (simp add: holds_def)
  moreover have "windowDefined u" "user u = user w" using assms(1) asked(2) by simp_all
  ultimately show ?thesis using refresh_answer_session [of ans u] asked(3,4) assms(1)
    by (simp add: same_session_def)
qed (simp_all add: same_session_def)

text \<open>
  A call leaves the session as it is, or ends it, and then it fails.
\<close>

lemma finish_refused: "\<not> ok_status p \<Longrightarrow> \<exists>e. finish p = Inl e"
proof (cases "finish p")
  case (Inr j)
  assume "\<not> ok_status p"
  moreover from Inr have "status p = 204 \<or> ok_status p" by (simp only: finish_returns_iff) blast
  ultimately show ?thesis by (auto simp: ok_status_def)
qed blast

lemma fetch_outcome:
  assumes "windowDefined w" "fetchApi srv (listener srv) e opts w = (res, v)"
  shows "same_session w v \<or> (ended v \<and> (\<exists>x. res = Inl x))"
proof -
  define u where "u = w\<lparr>sent := sent w @ [build_request e opts (build_headers opts w) w]\<rparr>"
  have wu: "same_session w u" by (simp add: same_session_def u_def)
  obtain b t where refr: "attemptTokenRefresh srv u = (b, t)" by (cases "attemptTokenRefresh srv u")
  have "windowDefined (snd (attemptTokenRefresh srv u))" using assms(1) by (simp add: u_def)
  then have win: "windowDefined t" by (simp add: refr)
  consider m where "srv (sent w) (build_request e opts (build_headers opts w) w) = Inl m"
    | p where "srv (sent w) (build_request e opts (build_headers opts w) w) = Inr p" "\<not> (status p = 401 \<and> \<not> skipAuth opts)"
    | p where "srv (sent w) (build_request e opts (build_headers opts w) w) = Inr p" "status p = 401" "\<not> skipAuth opts"
    by (cases "srv (sent w) (build_request e opts (build_headers opts w) w)") auto
  then show ?thesis
  proof cases
    case 3
    show ?thesis
    proof (cases b)
      case True
      then have "same_session w t" using refresh_keeps_session [of u srv t] refr wu assms(1)
        by (auto simp: same_session_def u_def)
      then show ?thesis using 3 True refr assms(2)
        by (auto simp: fetchApi_def net_fetch_def Let_def u_def [symmetric] same_session_def split: sum.splits)
    next
      case False
      obtain x where "finish p = Inl x" using finish_refused [of p] 3 by (auto simp: ok_status_def)
      then have "\<exists>x. finish p = Inl x" by blast
      then show ?thesis using 3 False refr assms(2) win expired_tokenless [of "clearWorkspaceId (clearTokens t)" 1 srv]
        by (auto simp: fetchApi_def net_fetch_def Let_def u_def [symmetric] numeral_2_eq_2 simp del: handleSessionExpired.simps)
    qed
  qed (use assms(2) wu in \<open>auto simp: fetchApi_def net_fetch_def Let_def u_def [symmetric]\<close>)
qed


lemma visitor_headers:
  "\<not> holds w \<Longrightarrow> map_of (build_headers get_options w) ''Authorization'' = None"
  by (simp add: build_headers_lookup get_options_def holds_def)

lemma visitor_refused:
  assumes "refuses_visitors srv" "\<not> holds w"
  shows "\<exists>x. fst (fetchApi srv f ''/api/auth/me'' get_options w) = Inl x"
proof -
  let ?e = "''/api/auth/me''"
  let ?h = "build_headers get_options w"
  define u where "u = w\<lparr>sent := sent w @ [build_request ?e get_options ?h w]\<rparr>"
  have refuse: "\<exists>x. (case srv h (build_request ?e get_options ?h v) of Inl m \<Rightarrow> Inl (ErrorObj m) | Inr p \<Rightarrow> finish p) = Inl x" for h v
  proof (cases "srv h (build_request ?e get_options ?h v)")
    case (Inr p)
    have "map_of (req_headers (build_request ?e get_options ?h v)) ''Authorization'' = None"
      "\<exists>base. req_url (build_request ?e get_options ?h v) = base @ ?e"
      using visitor_headers [OF assms(2)] by (auto simp: build_request_def)
    with Inr assms(1) have "\<not> ok_status p" unfolding refuses_visitors_def by (metis sum.case(2))
    with Inr show ?thesis by (simp add: finish_refused)
  qed simp
  obtain b t where refr: "attemptTokenRefresh srv u = (b, t)" by (cases "attemptTokenRefresh srv u")
  have none: "getStoredAccessToken u = None" "getStoredRefreshToken u = None"
    using assms(2) by (simp_all add: holds_def u_def)
  have same: "set_header ''Authorization'' (bearer (getStoredAccessToken t)) ?h = ?h" if b
    using refr none that
    by (cases rule: refresh_cases) (simp_all add: bearer_def set_header_def)
  show ?thesis
    using refuse [of "sent w" w] refuse [of "sent t" t] same refr
    by (auto simp: fetchApi_def net_fetch_def Let_def u_def [symmetric] split_beta split: sum.splits)
qed

section \<open>Every callback makes a step of the machine\<close>

lemma session_of_same: "same_session w v \<Longrightarrow> session_of v = session_of w"
  by (simp add: session_of_def same_session_def isAuthenticated_def)

lemma session_of_ended: "ended v \<Longrightarrow> session_of v = Visitor"
  by (simp add: session_of_def ended_def isAuthenticated_def)

lemma session_ok_kept: "session_ok w \<Longrightarrow> same_session w v \<Longrightarrow> session_ok v" "ended v \<Longrightarrow> session_ok v"
  by (auto simp: session_ok_def same_session_def isAuthenticated_def ended_def)

lemma same_session_upd [simp]:
  "same_session w (v\<lparr>isLoading := b\<rparr>) = same_session w v" "same_session w (v\<lparr>currentWorkspace := c\<rparr>) = same_session w v"
  "same_session w (v\<lparr>workspaces := x\<rparr>) = same_session w v" "same_session w (v\<lparr>workspacesLoading := b\<rparr>) = same_session w v"
  "same_session w (v\<lparr>workspacesError := e\<rparr>) = same_session w v" "same_session w (v\<lparr>toasts := t\<rparr>) = same_session w v"
  "same_session w (v\<lparr>cacheLog := l\<rparr>) = same_session w v" "same_session w (storeWorkspaceId i v) = same_session w v"
  "same_session w (setSuperAdminHint h v) = same_session w v"
  by (auto simp: same_session_def)

lemma same_session_refl [simp]: "same_session w w"
  by (simp add: same_session_def)

lemma ended_upd [simp]:
  "ended (v\<lparr>isLoading := b\<rparr>) = ended v" "ended (v\<lparr>workspaces := x\<rparr>) = ended v"
  "ended (v\<lparr>workspacesLoading := b\<rparr>) = ended v" "ended (v\<lparr>workspacesError := e\<rparr>) = ended v"
  "ended (v\<lparr>toasts := t\<rparr>) = ended v"
  by (auto simp: ended_def)

lemma same_session_left [simp]: "same_session (w\<lparr>workspaces := x\<rparr>) v = same_session w v"
  by (simp add: same_session_def)

lemma choose_keeps: "same_session w (snd (choose_workspace d w))"
  by (auto simp: choose_workspace_def take_first_def Let_def split: option.split list.split)

lemma workspaces_session:
  assumes "windowDefined w"
  shows "same_session w (refreshWorkspaces srv w) \<or> ended (refreshWorkspaces srv w)"
proof -
  let ?w = "w\<lparr>workspacesLoading := True, workspacesError := None\<rparr>"
  obtain res v where call: "fetchApi srv (listener srv) ''/api/workspaces'' get_options ?w = (res, v)"
    by (cases "fetchApi srv (listener srv) ''/api/workspaces'' get_options ?w")
  have "windowDefined ?w" using assms by simp
  from fetch_outcome [OF this call] have out: "same_session w v \<or> (ended v \<and> (\<exists>x. res = Inl x))"
    by (simp add: same_session_def)
  show ?thesis
  proof (cases res)
    case (Inl x)
    then show ?thesis using out by (auto simp: refreshWorkspaces_def call workspaces_failed_def Let_def)
  next
    case (Inr body)
    then have "same_session w v" using out by blast
    moreover have "same_session v (refreshWorkspaces srv w)"
    proof (cases "data_of body")
      case (Some d)
      let ?v = "v\<lparr>workspaces := (case array_of d of None \<Rightarrow> [] | Some xs \<Rightarrow> xs)\<rparr>"
      show ?thesis
        using choose_keeps [of ?v "array_of d"]
        by (cases "choose_workspace (array_of d) ?v")
          (simp add: refreshWorkspaces_def call Inr Some workspaces_failed_def Let_def)
    qed (simp add: refreshWorkspaces_def call Inr workspaces_failed_def Let_def)
    ultimately show ?thesis by (simp add: same_session_def)
  qed
qed


definition simulates :: "session_op \<Rightarrow> auth_world \<Rightarrow> auth_world \<Rightarrow> bool" where
  "simulates x w v \<longleftrightarrow> session_ok v \<and> session_step x (session_of w) (session_of v)"

lemma simulates_same:
  assumes "session_ok w" "same_session w v \<or> ended v" "\<And>s. session_step x s s" "\<And>s. session_step x s Visitor"
  shows "simulates x w v"
  using assms session_ok_kept session_of_same session_of_ended by (metis simulates_def)

lemma user_loaded:
  assumes "session_ok w" "refuses_visitors srv"
  shows "session_ok (refreshUser srv w) \<and> (session_of w = Visitor \<longrightarrow> session_of (refreshUser srv w) = Visitor)"
proof -
  obtain res v where call: "fetchApi srv (listener srv) ''/api/auth/me'' get_options w = (res, v)"
    by (cases "fetchApi srv (listener srv) ''/api/auth/me'' get_options w")
  have win: "windowDefined w" using assms(1) by (simp add: session_ok_def)
  note out = fetch_outcome [OF win call]
  then have win': "windowDefined v" using win by (auto simp: same_session_def ended_def)
  have failed: "ended (clearTokens (v\<lparr>user := Some JNull\<rparr>))" using win' by (simp add: ended_def)
  show ?thesis
  proof (cases "\<exists>body d. res = Inr body \<and> data_of body = Some d")
    case True
    then obtain body d where res: "res = Inr body" "data_of body = Some d" by blast
    have "holds w" using visitor_refused [OF assms(2), of w "listener srv"] by (auto simp: call res)
    moreover have "same_session w v" using out res by blast
    ultimately have "holds v" by (simp add: same_session_def)
    with win' have "session_ok (refreshUser srv w)"
      by (simp add: refreshUser_def call res Let_def session_ok_def)
    with \<open>holds w\<close> show ?thesis by (simp add: session_of_def)
  next
    case False
    then have "refreshUser srv w = clearTokens (v\<lparr>user := Some JNull\<rparr>)"
      by (auto simp: refreshUser_def call Let_def split: sum.split option.split)
    with failed show ?thesis by (simp add: session_ok_kept session_of_ended)
  qed
qed

lemma adopted:
  assumes "windowDefined w"
  shows "session_ok (snd (adopt_session d w))"
  using assms by (auto simp: adopt_session_def Let_def session_ok_def split: option.split)

lemma signed_in:
  assumes "session_ok w"
  shows "session_ok (snd (login srv mail pw w))" "session_ok (snd (register srv mail pw f l w))"
proof -
  have call: "session_ok v" if "fetchApi srv (listener srv) e opts w = (res, v)" for e opts res v
  proof -
    have "windowDefined w" using assms by (simp add: session_ok_def)
    from fetch_outcome [OF this that] show ?thesis by (auto intro: session_ok_kept(1) [OF assms] session_ok_kept(2))
  qed
  have loaded: "session_ok (refreshWorkspaces srv v)" if "session_ok v" for v
  proof -
    have "windowDefined v" using that by (simp add: session_ok_def)
    from workspaces_session [OF this, of srv] show ?thesis
      by (auto intro: session_ok_kept(1) [OF that] session_ok_kept(2))
  qed
  have adopt: "session_ok u" if "adopt_session d v = (b, u)" "session_ok v" for d v b u
    using adopted [of v d] that by (simp add: session_ok_def)
  let ?o = "post_options True (JObj [(''email'', JStr mail), (''password'', JStr pw)])"
  obtain res v where login: "fetchApi srv (listener srv) ''/api/auth/login'' ?o w = (res, v)"
    by (cases "fetchApi srv (listener srv) ''/api/auth/login'' ?o w")
  show "session_ok (snd (login srv mail pw w))"
    unfolding login_def login Let_def prod.case
    using call [OF login] by (auto intro: loaded dest: adopt split: sum.split option.split prod.split bool.split)
  let ?o = "post_options True (JObj [(''email'', JStr mail), (''password'', JStr pw),
     (''firstName'', JStr f), (''lastName'', JStr l)])"
  obtain res v where reg: "fetchApi srv (listener srv) ''/api/auth/register'' ?o w = (res, v)"
    by (cases "fetchApi srv (listener srv) ''/api/auth/register'' ?o w")
  show "session_ok (snd (register srv mail pw f l w))"
    unfolding register_def reg Let_def prod.case
    using call [OF reg] by (auto intro: loaded dest: adopt split: sum.split option.split prod.split bool.split)
qed


lemma logged_out:
  assumes "windowDefined w"
  shows "ended (logout_with (listener srv) srv w)"
proof -
  have "windowDefined (snd (fetchApi srv (listener srv) e opts w))" for e opts
    using fetch_outcome [OF assms, of srv e opts] assms
    by (cases "fetchApi srv (listener srv) e opts w") (auto simp: same_session_def ended_def)
  then show ?thesis using assms by (simp add: logout_with_def split: option.split)
qed

lemma expired_ended:
  assumes "windowDefined w"
  shows "ended (listener srv w)"
proof -
  have "listener srv w = handleSessionExpired 3 srv w"
    using expired_depth [of 1 srv w] by (simp add: numeral_3_eq_3 del: handleSessionExpired.simps)
  also have "\<dots> = logout_with (listener srv) srv (w\<lparr>toasts := toasts w @ [expired_toast]\<rparr>)"
    by (simp only: numeral_3_eq_3 handleSessionExpired.simps(2) numeral_2_eq_2)
  finally show ?thesis using logged_out [of "w\<lparr>toasts := toasts w @ [expired_toast]\<rparr>" srv] assms by simp
qed

lemma tokens_refreshed:
  assumes "windowDefined w"
  shows "same_session w (proactive_refresh srv w) \<or> ended (proactive_refresh srv w)"
proof (cases "getStoredRefreshToken w")
  case (Some t)
  let ?o = "post_options True (JObj [(''refreshToken'', JStr t)])"
  obtain res v where call: "fetchApi srv (listener srv) ''/api/auth/refresh'' ?o w = (res, v)"
    by (cases "fetchApi srv (listener srv) ''/api/auth/refresh'' ?o w")
  have "same_session w v \<or> ended v" using fetch_outcome [OF assms call] by blast
  moreover have win: "windowDefined v" using fetch_outcome [OF assms call] assms
    by (auto simp: same_session_def ended_def)
  moreover have "same_session w (storeTokens a r v)" if "same_session w v" for a r
    using that Some win by (simp add: same_session_def holds_def [of w])
  moreover have "res = Inr b \<Longrightarrow> same_session w v" for b using fetch_outcome [OF assms call] by blast
  ultimately show ?thesis
    using expired_ended [OF win, of srv] Some unfolding proactive_refresh_def
    by (auto simp: call Let_def simp del: handleSessionExpired.simps split: sum.split option.split)
qed (simp add: proactive_refresh_def)

lemma provider_simulates:
  assumes "session_ok w" "refuses_visitors srv"
  shows "simulates x w (provider_step srv x w)"
proof -
  have win: "windowDefined w" using assms(1) by (simp add: session_ok_def)
  have ws: "session_ok (refreshWorkspaces srv v) \<and>
      (session_of (refreshWorkspaces srv v) = session_of v \<or> session_of (refreshWorkspaces srv v) = Visitor)"
    if "session_ok v" for v
  proof -
    have "windowDefined v" using that by (simp add: session_ok_def)
    from simulates_same [OF that workspaces_session [OF this], of LoadWorkspaces srv] show ?thesis
      by (simp add: simulates_def)
  qed
  have load: "session_ok (refreshUser srv v) \<and> (session_of v = Visitor \<longrightarrow> session_of (refreshUser srv v) = Visitor)"
    if "session_ok v" for v
    using that assms(2) by (rule user_loaded)
  have flag: "session_ok (v\<lparr>isLoading := b\<rparr>) = session_ok v" "session_of (v\<lparr>isLoading := b\<rparr>) = session_of v" for v b
    by (simp_all add: session_ok_def session_of_def isAuthenticated_def)
  show ?thesis
  proof (cases x)
    case SignOut
    then show ?thesis using logged_out [OF win, of srv]
      by (simp add: simulates_def logout_def session_ok_kept session_of_ended)
  next
    case (Start userFirst)
    then show ?thesis using load [of w] ws [of w] load [of "refreshWorkspaces srv w"] ws [of "refreshUser srv w"] assms(1)
      by (auto simp: simulates_def initAuth_def Let_def flag)
  next
    case RefreshTokens
    then show ?thesis using simulates_same [OF assms(1) tokens_refreshed [OF win]] by simp
  next
    case (SelectWorkspace j)
    have "same_session w (setCurrentWorkspace j w)" by (simp add: setCurrentWorkspace_def Let_def)
    with SelectWorkspace show ?thesis using session_ok_kept(1) [OF assms(1)] session_of_same by (simp add: simulates_def)
  qed (use assms load [of w] ws [of w] in \<open>simp_all add: simulates_def signed_in\<close>)
qed

section \<open>Runs\<close>

lemma run_refines:
  assumes "session_ok w" and "list_all (\<lambda>(srv, _). refuses_visitors srv) xs"
  shows "session_run (map snd xs) (session_of w) (map session_of (provider_run xs w)) \<and>
    list_all session_ok (provider_run xs w)"
  using assms
proof (induction xs arbitrary: w)
  case (Cons p xs)
  obtain srv x where p: "p = (srv, x)" by (cases p)
  have "simulates x w (provider_step srv x w)"
    using provider_simulates [OF Cons.prems(1)] Cons.prems(2) p by simp
  with Cons.IH [of "provider_step srv x w"] Cons.prems(2) show ?case
    by (simp add: p Let_def simulates_def del: provider_step.simps)
qed simp


definition demo_backend :: server where
  "demo_backend h r =
     (if req_url r = ''http://localhost:8080/api/auth/login'' then Inr (data_response (JObj [(''accessToken'', JStr ''a''),
        (''refreshToken'', JStr ''r''), (''user'', JObj [(''isSuperAdmin'', JBool False)]), (''mustChangePassword'', JBool False)]))
      else if map_of (req_headers r) ''Authorization'' = None then Inr unauthorized
      else Inr (data_response (JArr [])))"

lemma demo_backend_refuses: "refuses_visitors demo_backend"
  by (auto simp: refuses_visitors_def demo_backend_def unauthorized_def ok_status_def)

definition demo_run :: "(server \<times> session_op) list" where
  "demo_run = [(demo_backend, SignIn ''m'' ''p''), (demo_backend, LoadWorkspaces), (demo_backend, RefreshTokens),
     (demo_backend, SignOut), (demo_backend, LoadUser)]"

lemma auth_demo_ok: "session_ok auth_demo"
  by (simp add: session_ok_def isAuthenticated_def auth_demo_def auth_world.defs http_world.defs demo_world_def)


fun is_sign_in :: "session_op \<Rightarrow> bool" where
  "is_sign_in (SignIn _ _) = True"
| "is_sign_in (SignUp _ _ _ _) = True"
| "is_sign_in _ = False"

lemma visitor_stays:
  "session_run xs Visitor ts \<Longrightarrow> list_all (\<lambda>x. \<not> is_sign_in x) xs \<Longrightarrow> list_all (\<lambda>t. t = Visitor) ts"
proof (induction xs arbitrary: ts)
  case (Cons x xs)
  then obtain t us where ts: "ts = t # us" by (cases ts) auto
  have "t = Visitor" using Cons.prems ts by (cases x) auto
  with Cons ts show ?case by auto
qed simp

lemma visitor_iff: "session_of w = Visitor \<longleftrightarrow> \<not> isAuthenticated w \<and> \<not> holds w"
  by (simp add: session_of_def)



end
