(* ===== verification/Inactivity.thy ===== *)
theory Inactivity
  imports Guarded_Dialog
begin

text \<open>
  The automatic logout of \<open>core/providers/auth-provider.tsx\<close>: two timers that start when a user is signed
  in, start again with every sign of activity, and stop with the session. Time is in milliseconds. A
  timer runs when it is due or later, never before, and a timer that was cleared does not run.
\<close>

section \<open>Timers\<close>

definition INACTIVITY_TIMEOUT_MS :: nat where
  "INACTIVITY_TIMEOUT_MS = 30 * 60 * 1000"

definition INACTIVITY_WARNING_MS :: nat where
  "INACTIVITY_WARNING_MS = 25 * 60 * 1000"

definition ACTIVITY_EVENTS :: "string list" where
  "ACTIVITY_EVENTS = [''mousemove'', ''keydown'', ''touchstart'', ''scroll'', ''click'']"

record idle_state =
  clock :: nat
  signedIn :: bool                  \<comment> \<open>the effect is in force\<close>
  warningTimer :: "nat option"      \<comment> \<open>when it is due\<close>
  logoutTimer :: "nat option"
  warningToast :: bool              \<comment> \<open>\<open>warningToastId.current !== undefined\<close>\<close>

definition idle_start :: idle_state where
  "idle_start = \<lparr>clock = 0, signedIn = False, warningTimer = None, logoutTimer = None, warningToast = False\<rparr>"

definition resetTimers :: "idle_state \<Rightarrow> idle_state" where
  "resetTimers s =
     s\<lparr>warningToast := False, warningTimer := Some (clock s + INACTIVITY_WARNING_MS),
       logoutTimer := Some (clock s + INACTIVITY_TIMEOUT_MS)\<rparr>"

text \<open>The effect and its cleanup.\<close>

definition start_watching :: "idle_state \<Rightarrow> idle_state" where
  "start_watching s = resetTimers (s\<lparr>signedIn := True\<rparr>)"

definition stop_watching :: "idle_state \<Rightarrow> idle_state" where
  "stop_watching s = s\<lparr>signedIn := False, warningTimer := None, logoutTimer := None, warningToast := False\<rparr>"

definition due :: "idle_state \<Rightarrow> nat option \<Rightarrow> bool" where
  "due s t = (case t of None \<Rightarrow> False | Some d \<Rightarrow> d \<le> clock s)"

text \<open>
  The events: time passes, the user becomes signed in or not, the window gets an event, a timer runs.
  What a step sends is the call of \<open>logout\<close>.
\<close>

datatype idle_event = Elapses nat | UserArrives | UserLeaves | WindowEvent string | WarningRuns | LogoutRuns

datatype idle_call = CallLogout

fun idle_step :: "(idle_event, idle_state, idle_call) machine" where
  "idle_step (Elapses n) s = Some ([], s\<lparr>clock := clock s + n\<rparr>)"
| "idle_step UserArrives s = (if signedIn s then None else Some ([], start_watching s))"
| "idle_step UserLeaves s = (if signedIn s then Some ([], stop_watching s) else None)"
| "idle_step (WindowEvent e) s =
     Some ([], if signedIn s \<and> e \<in> set ACTIVITY_EVENTS then resetTimers s else s)"
| "idle_step WarningRuns s =
     (if due s (warningTimer s) then Some ([], s\<lparr>warningTimer := None, warningToast := True\<rparr>) else None)"
| "idle_step LogoutRuns s =
     (if due s (logoutTimer s) then Some ([CallLogout], s\<lparr>logoutTimer := None, warningToast := False\<rparr>) else None)"

section \<open>How long the user has been away\<close>

definition is_reset :: "idle_event \<Rightarrow> bool" where
  "is_reset e = (case e of UserArrives \<Rightarrow> True | WindowEvent x \<Rightarrow> x \<in> set ACTIVITY_EVENTS | _ \<Rightarrow> False)"

definition away_step :: "idle_event \<Rightarrow> nat \<Rightarrow> nat" where
  "away_step e n = (if is_reset e then 0 else case e of Elapses k \<Rightarrow> n + k | _ \<Rightarrow> n)"

text \<open>The time since the user arrived or was last active.\<close>

definition away :: "idle_event list \<Rightarrow> nat" where
  "away es = fold away_step es 0"

definition logged_out_since :: "idle_event list \<Rightarrow> bool" where
  "logged_out_since es \<longleftrightarrow> (\<exists>pre post. es = pre @ LogoutRuns # post \<and> list_all (\<lambda>e. \<not> is_reset e) post)"

lemma away_snoc [simp]: "away (es @ [e]) = away_step e (away es)"
  by (simp add: away_def)

lemma logged_out_since_snoc:
  "logged_out_since (es @ [e]) \<longleftrightarrow> e = LogoutRuns \<or> (logged_out_since es \<and> \<not> is_reset e)"
proof
  assume "logged_out_since (es @ [e])"
  then obtain pre post where split: "es @ [e] = pre @ LogoutRuns # post" "list_all (\<lambda>e. \<not> is_reset e) post"
    by (auto simp: logged_out_since_def)
  show "e = LogoutRuns \<or> (logged_out_since es \<and> \<not> is_reset e)"
  proof (cases post rule: rev_cases)
    case (snoc ps p)
    with split have "es = pre @ LogoutRuns # ps" "e = p" by auto
    with split(2) snoc show ?thesis by (auto simp: logged_out_since_def)
  qed (use split in auto)
next
  assume "e = LogoutRuns \<or> (logged_out_since es \<and> \<not> is_reset e)"
  then show "logged_out_since (es @ [e])"
  proof
    assume "e = LogoutRuns"
    then have "es @ [e] = es @ LogoutRuns # []" by simp
    then show ?thesis unfolding logged_out_since_def by fastforce
  next
    assume "logged_out_since es \<and> \<not> is_reset e"
    then obtain pre post where "es = pre @ LogoutRuns # post" "list_all (\<lambda>e. \<not> is_reset e) (post @ [e])"
      by (auto simp: logged_out_since_def)
    then have "es @ [e] = pre @ LogoutRuns # (post @ [e])" by simp
    with \<open>list_all _ (post @ [e])\<close> show ?thesis unfolding logged_out_since_def by blast
  qed
qed

definition idle_inv :: "idle_event list \<Rightarrow> idle_state \<Rightarrow> bool" where
  "idle_inv es s \<longleftrightarrow>
     (signedIn s \<or> (warningTimer s = None \<and> logoutTimer s = None \<and> \<not> warningToast s)) \<and>
     (\<forall>d. logoutTimer s = Some d \<longrightarrow> d + away es = clock s + INACTIVITY_TIMEOUT_MS) \<and>
     (\<forall>d. warningTimer s = Some d \<longrightarrow> d + away es = clock s + INACTIVITY_WARNING_MS) \<and>
     (signedIn s \<longrightarrow> logoutTimer s = None \<longrightarrow> logged_out_since es) \<and>
     (warningToast s \<longrightarrow> INACTIVITY_WARNING_MS \<le> away es) \<and>
     (signedIn s \<longrightarrow> warningTimer s = None \<longrightarrow> warningToast s \<or> logged_out_since es)"


lemma idle_inv_step:
  assumes "idle_step e s = Some (rs, t)" "idle_inv es s"
  shows "idle_inv (es @ [e]) t"
proof (cases e)
  case (Elapses n)
  then show ?thesis using assms
    by (auto simp: idle_inv_def away_step_def is_reset_def logged_out_since_snoc)
next
  case WarningRuns
  then show ?thesis using assms
    by (auto simp: idle_inv_def away_step_def is_reset_def logged_out_since_snoc due_def split: if_splits option.splits)
next
  case LogoutRuns
  then show ?thesis using assms
    by (auto simp: idle_inv_def away_step_def is_reset_def logged_out_since_snoc due_def split: if_splits option.splits)
qed (use assms in \<open>auto simp: idle_inv_def away_step_def is_reset_def logged_out_since_snoc start_watching_def
    stop_watching_def resetTimers_def split: if_splits\<close>)

lemma idle_inv_run:
  "run_page idle_step es idle_start = Some (rs, s) \<Longrightarrow> idle_inv es s"
proof (induction es arbitrary: rs s rule: rev_induct)
  case Nil
  then show ?case by (auto simp: idle_inv_def idle_start_def)
next
  case (snoc e es)
  obtain qs t ps where "run_page idle_step es idle_start = Some (qs, t)" "idle_step e t = Some (ps, s)"
    using snoc.prems by (rule run_page_snocE)
  with snoc.IH idle_inv_step show ?case by blast
qed

text \<open>C17: An absent user is signed out after thirty minutes, and a present one is not. Whatever happened on the
  page, the timer can call \<open>logout\<close> only when somebody is signed in who has been away for thirty
  minutes, and when that is so and it has not called it yet, it can call it at once. The warning is on
  the screen only after twenty-five minutes away, and nothing is armed or shown for a visitor.\<close>

theorem idle_logout_exact:
  assumes "run_page idle_step es idle_start = Some (rs, s)"
  shows "(idle_step LogoutRuns s \<noteq> None \<longrightarrow> signedIn s \<and> 30 * 60 * 1000 \<le> away es) \<and>
    (signedIn s \<and> 30 * 60 * 1000 \<le> away es \<longrightarrow>
       (\<exists>t. idle_step LogoutRuns s = Some ([CallLogout], t)) \<or> logged_out_since es) \<and>
    (signedIn s \<and> 25 * 60 * 1000 \<le> away es \<longrightarrow>
       warningToast s \<or> idle_step WarningRuns s \<noteq> None \<or> logged_out_since es) \<and>
    (warningToast s \<longrightarrow> signedIn s \<and> 25 * 60 * 1000 \<le> away es) \<and>
    (\<not> signedIn s \<longrightarrow> logoutTimer s = None \<and> warningTimer s = None)"
  using idle_inv_run [OF assms]
  by (auto simp: idle_inv_def due_def INACTIVITY_TIMEOUT_MS_def INACTIVITY_WARNING_MS_def split: option.splits)

definition away_half_an_hour :: "idle_event list" where
  "away_half_an_hour = [UserArrives, Elapses 60000, WindowEvent ''click'', Elapses 1500000, WarningRuns, Elapses 300000]"

lemma idle_logout_exact_witness:
  "\<exists>s t. run_page idle_step away_half_an_hour idle_start = Some ([], s) \<and> warningToast s \<and>
     idle_step LogoutRuns s = Some ([CallLogout], t)"
proof -
  obtain s where run: "run_page idle_step away_half_an_hour idle_start = Some ([], s)" and s: "signedIn s" "warningToast s"
    by (simp add: away_half_an_hour_def idle_start_def start_watching_def resetTimers_def due_def
        ACTIVITY_EVENTS_def INACTIVITY_TIMEOUT_MS_def INACTIVITY_WARNING_MS_def)
  have "away away_half_an_hour = 1800000" "\<not> logged_out_since away_half_an_hour"
    by (auto simp: away_half_an_hour_def away_def away_step_def is_reset_def ACTIVITY_EVENTS_def logged_out_since_def
        Cons_eq_append_conv)
  with idle_logout_exact [OF run] s(1) have "\<exists>t. idle_step LogoutRuns s = Some ([CallLogout], t)"
    by (simp only: simp_thms)
  with run s(2) show ?thesis by blast
qed

end
