(* ===== verification/Table_Pagination.thy ===== *)
theory Table_Pagination
  imports Paged_List
begin

text \<open>
  The bar under the paged tables (\<open>ui/data/data-table-pagination.tsx\<close>). It moves through the pages with the
  functions of the table library, which are arguments here; \<open>table_contract\<close> states what its
  documentation says of them for a table paged by the server.
\<close>

section \<open>The table of the library\<close>

record pagination =
  pg_index :: nat
  pg_size :: nat

text \<open>The functions take the state and the number of pages the page passed as \<open>pageCount\<close>.\<close>

record table_ops =
  getCanPreviousPage :: "nat \<Rightarrow> pagination \<Rightarrow> bool"
  getCanNextPage :: "nat \<Rightarrow> pagination \<Rightarrow> bool"
  firstPage :: "nat \<Rightarrow> pagination \<Rightarrow> pagination"
  previousPage :: "nat \<Rightarrow> pagination \<Rightarrow> pagination"
  nextPage :: "nat \<Rightarrow> pagination \<Rightarrow> pagination"
  lastPage :: "nat \<Rightarrow> pagination \<Rightarrow> pagination"
  setPageSize :: "nat \<Rightarrow> nat \<Rightarrow> pagination \<Rightarrow> pagination"

text \<open>A new page size keeps the first row of the page on the screen.\<close>

definition table_contract :: "table_ops \<Rightarrow> bool" where
  "table_contract t \<longleftrightarrow>
     (\<forall>c p. getCanPreviousPage t c p = (0 < pg_index p) \<and> getCanNextPage t c p = (pg_index p + 1 < c) \<and>
        firstPage t c p = p\<lparr>pg_index := 0\<rparr> \<and> lastPage t c p = p\<lparr>pg_index := c - 1\<rparr> \<and>
        previousPage t c p = p\<lparr>pg_index := pg_index p - 1\<rparr> \<and>
        (pg_index p + 1 < c \<longrightarrow> nextPage t c p = p\<lparr>pg_index := pg_index p + 1\<rparr>) \<and>
        (\<forall>n. 0 < n \<longrightarrow> setPageSize t n c p = \<lparr>pg_index = pg_index p * pg_size p div n, pg_size = n\<rparr>))"

section \<open>The bar\<close>

definition pageSizeOptions :: "nat list" where
  "pageSizeOptions = [10, 20, 50, 100]"

datatype bar_control = PageSize nat | FirstPage | PreviousPage | NextPage | LastPage

datatype bar = NoBar | TotalOnly string | FullBar string string "bar_control list"

definition DataTablePagination :: "table_ops \<Rightarrow> nat \<Rightarrow> nat \<Rightarrow> pagination \<Rightarrow> bar" where
  "DataTablePagination t pageCount total_rows p =
     (if total_rows = 0 then NoBar
      else if total_rows \<le> pg_size p then TotalOnly (show_nat total_rows @ '' total'')
      else FullBar (show_nat total_rows @ '' total'')
        (''Page '' @ show_nat (pg_index p + 1) @ '' of '' @ show_nat pageCount)
        (map PageSize pageSizeOptions @
         (if getCanPreviousPage t pageCount p then [FirstPage, PreviousPage] else []) @
         (if getCanNextPage t pageCount p then [NextPage, LastPage] else [])))"

definition bar_controls :: "bar \<Rightarrow> bar_control list" where
  "bar_controls b = (case b of FullBar _ _ cs \<Rightarrow> cs | _ \<Rightarrow> [])"

fun bar_press :: "table_ops \<Rightarrow> nat \<Rightarrow> bar_control \<Rightarrow> pagination \<Rightarrow> pagination" where
  "bar_press t c (PageSize n) p = setPageSize t n c p"
| "bar_press t c FirstPage p = firstPage t c p"
| "bar_press t c PreviousPage p = previousPage t c p"
| "bar_press t c NextPage p = nextPage t c p"
| "bar_press t c LastPage p = lastPage t c p"

section \<open>The pages of a table\<close>

definition on_page :: "nat \<Rightarrow> pagination \<Rightarrow> bool" where
  "on_page total_rows p \<longleftrightarrow> 0 < pg_size p \<and> pg_index p < page_count total_rows (pg_size p)"

lemma page_count_iff:
  assumes "0 < n" "0 < k"
  shows "i < page_count n k \<longleftrightarrow> i * k < n"
proof -
  have "1 \<le> (n + k - 1) div k" using assms by (simp add: Suc_le_eq div_greater_zero_iff)
  then have "page_count n k = (n + k - 1) div k" by (simp add: page_count_def)
  moreover have "i < (n + k - 1) div k \<longleftrightarrow> (i + 1) * k \<le> n + k - 1"
    using assms(2) by (simp only: Suc_eq_plus1 [symmetric] Suc_le_eq [symmetric] less_eq_div_iff_mult_less_eq)
  moreover have "(i + 1) * k \<le> n + k - 1 \<longleftrightarrow> i * k < n" using assms by (auto simp: algebra_simps)
  ultimately show ?thesis by simp
qed

text \<open>C27: The bar never leads off the table: from a page that exists, every control it offers leads to a page
  that exists, another page size included, and the page then shows at least one row.\<close>

theorem bar_stays_on_table:
  assumes "table_contract t" and "0 < n" and "on_page n p"
    and "c \<in> set (bar_controls (DataTablePagination t (page_count n (pg_size p)) n p))"
  shows "on_page n (bar_press t (page_count n (pg_size p)) c p) \<and>
    pg_index (bar_press t (page_count n (pg_size p)) c p) * pg_size (bar_press t (page_count n (pg_size p)) c p) < n"
proof -
  have pos: "0 < pg_size p" and idx: "pg_index p < page_count n (pg_size p)" using assms(3) by (simp_all add: on_page_def)
  have "on_page n (bar_press t (page_count n (pg_size p)) c p)"
  proof (cases c)
    case (PageSize k)
    have "k \<in> set pageSizeOptions"
      using assms(4) PageSize by (auto simp: DataTablePagination_def bar_controls_def split: if_splits)
    then have k: "0 < k" by (auto simp: pageSizeOptions_def)
    have "pg_index p * pg_size p < n" using idx page_count_iff [OF assms(2) pos] by simp
    then have "pg_index p * pg_size p div k * k < n" by (meson div_times_less_eq_dividend le_less_trans)
    then show ?thesis using PageSize k assms(1,2) page_count_iff [OF assms(2) k] by (simp add: on_page_def table_contract_def)
  qed (use assms idx pos in \<open>auto simp: on_page_def table_contract_def DataTablePagination_def bar_controls_def split: if_splits\<close>)
  then show ?thesis unfolding on_page_def using page_count_iff [OF assms(2)] by blast
qed

definition demo_table :: table_ops where
  "demo_table =
     \<lparr>getCanPreviousPage = (\<lambda>c p. 0 < pg_index p), getCanNextPage = (\<lambda>c p. pg_index p + 1 < c),
      firstPage = (\<lambda>c p. p\<lparr>pg_index := 0\<rparr>), previousPage = (\<lambda>c p. p\<lparr>pg_index := pg_index p - 1\<rparr>),
      nextPage = (\<lambda>c p. p\<lparr>pg_index := min (pg_index p + 1) (c - 1)\<rparr>), lastPage = (\<lambda>c p. p\<lparr>pg_index := c - 1\<rparr>),
      setPageSize = (\<lambda>n c p. \<lparr>pg_index = pg_index p * pg_size p div n, pg_size = n\<rparr>)\<rparr>"

lemma demo_table_contract: "table_contract demo_table"
  by (simp add: table_contract_def demo_table_def)

lemma bar_stays_on_table_witness:
  "on_page 45 (bar_press demo_table 3 (PageSize 50) \<lparr>pg_index = 2, pg_size = 20\<rparr>)"
proof -
  have "page_count 45 20 = 3" by code_simp
  then show ?thesis
    using bar_stays_on_table [OF demo_table_contract, of 45 "\<lparr>pg_index = 2, pg_size = 20\<rparr>" "PageSize 50"]
    by (simp add: on_page_def DataTablePagination_def bar_controls_def pageSizeOptions_def)
qed

text \<open>When the rows that remain fit on one page, the bar has no controls, on whatever page the table is.\<close>

lemma later_page_without_controls:
  "n \<le> pg_size p \<Longrightarrow> bar_controls (DataTablePagination t c n p) = []"
  by (simp add: DataTablePagination_def bar_controls_def)

end
