(* ===== verification/Queue_Page.thy ===== *)
theory Queue_Page
  imports Settings_Views Table_Pagination Guarded_Dialog
begin

text \<open>
  The queue monitor as a machine (\<open>features/settings/ui/queue-view.tsx\<close>, \<open>queue-stats-card.tsx\<close>,
  \<open>queue-jobs-browser.tsx\<close>, \<open>queue-job-detail-dialog.tsx\<close>): the tables of jobs cell by cell, the controls
  of the page in each state, the requests they send and the answers. Dates printed by the host and the
  table library are arguments.
\<close>

section \<open>Jobs and their cells\<close>

record QueueJob =
  job_id :: string
  job_type :: string
  referenceId :: string
  job_status :: string
  attempts :: nat
  maxAttempts :: nat
  lastError :: "string option"
  job_package :: "string option"     \<comment> \<open>\<open>metadata?.package\<close>, \<open>metadata?.version\<close>\<close>
  job_version :: "string option"
  createdAt :: int
  updatedAt :: int
  nextRunAt :: int

text \<open>A cell is text with the badges beside it; \<open>wide\<close> columns are hidden on small screens.\<close>

record cell =
  cell_text :: string
  cell_badges :: "string list"
  wide :: bool

definition plain :: "string \<Rightarrow> cell" where
  "plain t = \<lparr>cell_text = t, cell_badges = [], wide = False\<rparr>"

definition formatTimestamp :: "(int \<Rightarrow> string) \<Rightarrow> int \<Rightarrow> string" where
  "formatTimestamp locale_date unix = (if unix = 0 then ''-'' else locale_date (unix * 1000))"

definition attempts_text :: "QueueJob \<Rightarrow> string" where
  "attempts_text j = show_nat (attempts j) @ ''/'' @ show_nat (maxAttempts j)"

definition package_text :: "QueueJob \<Rightarrow> string" where
  "package_text j =
     (case job_package j of
        None \<Rightarrow> ''#'' @ referenceId j
      | Some p \<Rightarrow>
          (if p = [] then ''#'' @ referenceId j
           else p @ (case job_version j of None \<Rightarrow> [] | Some v \<Rightarrow> if v = [] then [] else '' @'' @ formatVersion v)))"

definition error_text :: "QueueJob \<Rightarrow> string" where
  "error_text j = (if truthy_str (lastError j) then the (lastError j) else ''-'')"

definition pending_head :: "(string \<times> bool) list" where
  "pending_head = [(''ID'', False), (''Package'', False), (''Attempts'', False), (''Last Error'', True), (''Created'', True)]"

definition pending_row :: "(int \<Rightarrow> string) \<Rightarrow> QueueJob \<Rightarrow> cell list" where
  "pending_row date j =
     [plain (job_id j), plain (package_text j),
      (plain (attempts_text j))\<lparr>cell_badges := if truthy_str (lastError j) then [''Retrying''] else []\<rparr>,
      (plain (error_text j))\<lparr>wide := True\<rparr>, (plain (formatTimestamp date (createdAt j)))\<lparr>wide := True\<rparr>]"

definition processing_head :: "(string \<times> bool) list" where
  "processing_head = [(''ID'', False), (''Package'', False), (''Attempts'', True), (''Duration'', False), (''Started'', True)]"

definition processing_row :: "(int \<Rightarrow> string) \<Rightarrow> int \<Rightarrow> QueueJob \<Rightarrow> cell list" where
  "processing_row date nowSeconds j =
     [plain (job_id j), plain (package_text j), (plain (attempts_text j))\<lparr>wide := True\<rparr>,
      (plain (formatDuration (job_duration nowSeconds (updatedAt j))))
        \<lparr>cell_badges := if isPossiblyStuck nowSeconds (updatedAt j) then [''Possibly Stuck''] else []\<rparr>,
      (plain (formatTimestamp date (updatedAt j)))\<lparr>wide := True\<rparr>]"

definition dead_head :: "(string \<times> bool) list" where
  "dead_head = [(''ID'', False), (''Package'', False), (''Attempts'', True), (''Last Error'', False), (''Died At'', True),
     (''Actions'', False)]"

definition dead_row :: "(int \<Rightarrow> string) \<Rightarrow> QueueJob \<Rightarrow> cell list" where
  "dead_row date j =
     [plain (job_id j), plain (''#'' @ referenceId j), (plain (attempts_text j))\<lparr>wide := True\<rparr>, plain (error_text j),
      (plain (formatTimestamp date (updatedAt j)))\<lparr>wide := True\<rparr>, plain (''Retry job '' @ job_id j)]"

definition jobs_head :: "QueueJobStatus \<Rightarrow> (string \<times> bool) list" where
  "jobs_head st = (case st of q_pending \<Rightarrow> pending_head | q_processing \<Rightarrow> processing_head | q_dead \<Rightarrow> dead_head)"

definition jobs_row :: "(int \<Rightarrow> string) \<Rightarrow> int \<Rightarrow> QueueJobStatus \<Rightarrow> QueueJob \<Rightarrow> cell list" where
  "jobs_row date now st j =
     (case st of q_pending \<Rightarrow> pending_row date j | q_processing \<Rightarrow> processing_row date now j | q_dead \<Rightarrow> dead_row date j)"

definition JobsEmptyState :: "QueueJobStatus \<Rightarrow> QueueJobType \<Rightarrow> string \<times> string" where
  "JobsEmptyState st ty =
     (case st of
        q_pending \<Rightarrow> (''No pending jobs.'',
          ''The '' @ queue_type_name ty @ '' queue is empty. Jobs will appear here when new releases are detected.'')
      | q_processing \<Rightarrow> (''No jobs processing.'', ''No '' @ queue_type_name ty @ '' jobs are currently being processed.'')
      | q_dead \<Rightarrow> (''No dead jobs.'',
          ''All systems operational. No '' @ queue_type_name ty @ '' jobs have exceeded their max retry attempts.''))"

text \<open>What the tab shows; the columns of the skeleton and of the error row are counted by hand in the code.\<close>

definition skeleton_head :: "QueueJobStatus \<Rightarrow> string list" where
  "skeleton_head st =
     [''ID'', ''Ref'', ''Attempts'', if st = q_processing then ''Duration'' else ''Last Error'',
      if st = q_processing then ''Started'' else ''Created'']"

definition error_colspan :: "QueueJobStatus \<Rightarrow> nat" where
  "error_colspan st = (if st = q_dead then 6 else 5)"

text \<open>The lines of the dialog of a job: the label, the text and the badges.\<close>

definition status_badges :: "int \<Rightarrow> QueueJob \<Rightarrow> string list" where
  "status_badges now j =
     (if job_status j = ''pending'' then [''Pending''] else []) @
     (if job_status j = ''processing'' then [''Processing''] else []) @
     (if job_status j = ''dead'' then [''Dead''] else []) @
     (if isRetryingJob (job_status j) (lastError j) then [''Retrying''] else []) @
     (if job_status j = ''processing'' \<and> isPossiblyStuck now (updatedAt j) then [''Possibly Stuck''] else [])"

definition package_line :: "QueueJob \<Rightarrow> (string \<times> string) list" where
  "package_line j =
     (case job_package j of
        None \<Rightarrow> []
      | Some p \<Rightarrow>
          if p = [] then []
          else [(''Package'', p @ (case job_version j of None \<Rightarrow> [] | Some v \<Rightarrow> if v = [] then [] else ''@'' @ formatVersion v))])"

definition JobDetailContent :: "(int \<Rightarrow> string) \<Rightarrow> int \<Rightarrow> QueueJob \<Rightarrow> (string \<times> string) list" where
  "JobDetailContent date now j =
     package_line j @
     [(''Reference'', ''#'' @ referenceId j), (''Type'', job_type j),
      (''Attempts'', show_nat (attempts j) @ '' / '' @ show_nat (maxAttempts j)),
      (''Created'', formatTimestamp date (createdAt j)), (''Updated'', formatTimestamp date (updatedAt j))] @
     (if isRetryingJob (job_status j) (lastError j) \<and> nextRunAt j > 0
      then [(''Next Run'', formatTimestamp date (nextRunAt j))] else []) @
     (if job_status j = ''processing'' then [(''Duration'', formatDuration (job_duration now (updatedAt j)))] else []) @
     (if truthy_str (lastError j) then [(''Last Error'', the (lastError j))] else [])"


section \<open>The page\<close>

record queue_view =
  qv_role :: "WorkspaceRole option"
  qv_message :: string
  qv_stats :: "(queue_counts \<times> queue_counts) option"   \<comment> \<open>the diff and the analyze queue\<close>
  qv_loading :: bool
  qv_refetching :: bool
  qv_reanalyzing :: bool                                \<comment> \<open>\<open>isPending\<close> of the two mutations of the page\<close>
  qv_retryingDead :: bool
  qv_browser :: queue_browser
  qv_job :: "QueueJob option"                           \<comment> \<open>\<open>selectedJob\<close>\<close>
  qv_jobs :: "QueueJob list"
  qv_total :: nat
  qv_jobs_loading :: bool
  qv_jobs_failed :: bool
  qv_retryingAll :: bool                                \<comment> \<open>\<open>isPending\<close> of the two mutations of the browser\<close>
  qv_retrying :: "string option"                        \<comment> \<open>the job whose retry is on its way\<close>

definition mount_queue_view :: "WorkspaceRole option \<Rightarrow> params \<Rightarrow> queue_view" where
  "mount_queue_view r ps =
     \<lparr>qv_role = r, qv_message = [], qv_stats = None, qv_loading = True, qv_refetching = False, qv_reanalyzing = False,
      qv_retryingDead = False, qv_browser = mount_queue ps, qv_job = None, qv_jobs = [], qv_total = 0,
      qv_jobs_loading = True, qv_jobs_failed = False, qv_retryingAll = False, qv_retrying = None\<rparr>"

definition stats_of :: "QueueJobType \<Rightarrow> queue_view \<Rightarrow> queue_counts option" where
  "stats_of ty v = map_option (if ty = q_diff then fst else snd) (qv_stats v)"

definition deadCount :: "queue_view \<Rightarrow> nat" where
  "deadCount v = (case stats_of (qb_type (qv_browser v)) v of None \<Rightarrow> 0 | Some q \<Rightarrow> qs_dead q)"

definition tab_labels :: "queue_view \<Rightarrow> string list" where
  "tab_labels v =
     (let n = (\<lambda>f. case stats_of (qb_type (qv_browser v)) v of None \<Rightarrow> 0 | Some q \<Rightarrow> f q) in
      [''Pending ('' @ show_nat (n qs_pending) @ '')'', ''Processing ('' @ show_nat (n qs_processing) @ '')'',
       ''Dead ('' @ show_nat (n qs_dead) @ '')''])"

datatype queue_control =
    ReanalyzeButton | RetryAnalyzeButton | RefreshButton | StatusItem QueueJobType QueueJobStatus
  | QueueItem QueueJobType | RetryAllButton | StatusTab QueueJobStatus | ReloadJobs
  | JobRow QueueJob | RetryJob QueueJob | BarControl bar_control
  | DialogRetry | DialogClose

definition queue_header :: "queue_view \<Rightarrow> queue_control list" where
  "queue_header v =
     (if qv_reanalyzing v then [] else [ReanalyzeButton]) @
     (if retry_button (qv_role v) (stats_of q_analyze v) \<noteq> None \<and> \<not> qv_retryingDead v then [RetryAnalyzeButton] else []) @
     (if qv_refetching v then [] else [RefreshButton])"

text \<open>The cards: pending, processing and dead lead to the browser, completed does not.\<close>

definition queue_cards :: "queue_view \<Rightarrow> queue_control list" where
  "queue_cards v =
     (if qv_loading v \<or> qv_stats v = None then []
      else concat (map (\<lambda>ty. map (StatusItem ty) [q_pending, q_processing, q_dead]) [q_diff, q_analyze]))"

definition job_controls :: "queue_view \<Rightarrow> QueueJob \<Rightarrow> queue_control list" where
  "job_controls v j =
     JobRow j # (if qb_status (qv_browser v) = q_dead \<and> qv_retrying v = None then [RetryJob j] else [])"

definition browser_pagination :: "queue_view \<Rightarrow> pagination" where
  "browser_pagination v = \<lparr>pg_index = ls_pageIndex (qv_browser v), pg_size = ls_pageSize (qv_browser v)\<rparr>"

definition jobs_body :: "table_ops \<Rightarrow> queue_view \<Rightarrow> queue_control list" where
  "jobs_body t v =
     (if qv_jobs_loading v then []
      else if qv_jobs_failed v then [ReloadJobs]
      else if length (qv_jobs v) = 0 then []
      else concat (map (job_controls v) (qv_jobs v)) @
        map BarControl (bar_controls (DataTablePagination t
          (queue_pages (qv_total v) (ls_pageSize (qv_browser v))) (qv_total v) (browser_pagination v))))"

definition browser_controls :: "table_ops \<Rightarrow> queue_view \<Rightarrow> queue_control list" where
  "browser_controls t v =
     map QueueItem [q_diff, q_analyze] @
     (if qb_status (qv_browser v) = q_dead \<and> \<not> retry_all_disabled (qv_retryingAll v) (deadCount v)
      then [RetryAllButton] else []) @
     map StatusTab [q_pending, q_processing, q_dead] @ jobs_body t v"

definition dialog_controls :: "queue_view \<Rightarrow> QueueJob \<Rightarrow> queue_control list" where
  "dialog_controls v j = DialogClose # (if job_status j = ''dead'' \<and> qv_retrying v = None then [DialogRetry] else [])"

text \<open>Without the right the page is a sentence; an open dialog takes every event.\<close>

definition queue_controls :: "table_ops \<Rightarrow> queue_view \<Rightarrow> queue_control list" where
  "queue_controls t v =
     (if \<not> can_operate (qv_role v) then []
      else case qv_job v of
          Some j \<Rightarrow> dialog_controls v j
        | None \<Rightarrow> queue_header v @ queue_cards v @ browser_controls t v)"

section \<open>What the controls do\<close>

text \<open>A change of queue, status or page asks a query of its own, which has no rows until it is answered.\<close>

definition rebrowse :: "(queue_browser \<Rightarrow> queue_browser) \<Rightarrow> queue_view \<Rightarrow> queue_view" where
  "rebrowse f v =
     (let b = queue_effect (qv_browser v) (f (qv_browser v)); v' = v\<lparr>qv_browser := b\<rparr> in
      if queue_request b = queue_request (qv_browser v) then v'
      else v'\<lparr>qv_jobs := [], qv_total := 0, qv_jobs_loading := True, qv_jobs_failed := False\<rparr>)"

definition select_job :: "QueueJob option \<Rightarrow> queue_view \<Rightarrow> queue_view" where
  "select_job j v = v\<lparr>qv_job := j, qv_browser := (qv_browser v)\<lparr>qb_selected := map_option job_id j\<rparr>\<rparr>"

definition retry_one :: "string \<Rightarrow> queue_view \<Rightarrow> api_call list \<times> queue_view" where
  "retry_one i v = ([m_call useRetryDeadJob i], v\<lparr>qv_retrying := Some i\<rparr>)"

fun queue_press :: "table_ops \<Rightarrow> queue_control \<Rightarrow> queue_view \<Rightarrow> api_call list \<times> queue_view" where
  "queue_press t ReanalyzeButton v = ([m_call useReanalyzeAll ()], v\<lparr>qv_message := [], qv_reanalyzing := True\<rparr>)"
| "queue_press t RetryAnalyzeButton v =
     ([m_call useRetryDeadJobs (Some ''analyze'')], v\<lparr>qv_message := [], qv_retryingDead := True\<rparr>)"
| "queue_press t RefreshButton v = ([], v)"
| "queue_press t (StatusItem ty st) v = ([], rebrowse (queue_set_filter ty st) v)"
| "queue_press t (QueueItem ty) v = ([], rebrowse (handleTypeChange (Some ty)) v)"
| "queue_press t RetryAllButton v =
     ([m_call useRetryDeadJobs (Some (queue_type_name (qb_type (qv_browser v))))], v\<lparr>qv_retryingAll := True\<rparr>)"
| "queue_press t (StatusTab st) v = ([], rebrowse (handleTabChange (Some st)) v)"
| "queue_press t ReloadJobs v = ([], v)"
| "queue_press t (JobRow j) v = ([], select_job (Some j) v)"
| "queue_press t (RetryJob j) v = retry_one (job_id j) v"
| "queue_press t (BarControl c) v =
     (let p = bar_press t (queue_pages (qv_total v) (ls_pageSize (qv_browser v))) c (browser_pagination v) in
      ([], rebrowse (set_pagination (pg_index p) (pg_size p)) v))"
| "queue_press t DialogRetry v =
     (case qv_job v of
        None \<Rightarrow> ([], v)
      | Some j \<Rightarrow> apsnd (select_job None) (retry_one (job_id j) v))"
| "queue_press t DialogClose v = ([], select_job None v)"

text \<open>
  Answers and new data. Losing the right unmounts the browser with its dialog and its mutations; with the
  right it is mounted again from the address bar.
\<close>

datatype queue_event =
    QueuePress queue_control
  | ReanalyzeAnswered "thrown + json" | RetryAnalyzeAnswered "thrown + json"
  | RetryAllAnswered | RetryAnswered
  | StatsFetched "(queue_counts \<times> queue_counts) option" bool bool
  | JobsFetched "QueueJob list" nat bool bool
  | RoleIs "WorkspaceRole option"

definition role_is :: "WorkspaceRole option \<Rightarrow> queue_view \<Rightarrow> queue_view" where
  "role_is r v =
     (if can_operate r then v\<lparr>qv_role := r\<rparr>
      else v\<lparr>qv_role := r, qv_browser := mount_queue (ls_query (qv_browser v)), qv_job := None,
             qv_retryingAll := False, qv_retrying := None\<rparr>)"

fun queue_step :: "thrown \<Rightarrow> table_ops \<Rightarrow> (queue_event, queue_view, api_call) machine" where
  "queue_step te t (QueuePress c) v = (if c \<in> set (queue_controls t v) then Some (queue_press t c v) else None)"
| "queue_step te t (ReanalyzeAnswered r) v =
     (if qv_reanalyzing v then Some ([], v\<lparr>qv_reanalyzing := False, qv_message := reanalyze_message te r\<rparr>) else None)"
| "queue_step te t (RetryAnalyzeAnswered r) v =
     (if qv_retryingDead v
      then Some ([], v\<lparr>qv_retryingDead := False, qv_message := retry_message te ''analyze'' r\<rparr>) else None)"
| "queue_step te t RetryAllAnswered v = (if qv_retryingAll v then Some ([], v\<lparr>qv_retryingAll := False\<rparr>) else None)"
| "queue_step te t RetryAnswered v =
     (case qv_retrying v of None \<Rightarrow> None | Some i \<Rightarrow> Some ([], v\<lparr>qv_retrying := None\<rparr>))"
| "queue_step te t (StatsFetched s loading again) v =
     Some ([], v\<lparr>qv_stats := s, qv_loading := loading, qv_refetching := again\<rparr>)"
| "queue_step te t (JobsFetched js n loading erroneous) v =
     Some ([], v\<lparr>qv_jobs := js, qv_total := n, qv_jobs_loading := loading, qv_jobs_failed := erroneous\<rparr>)"
| "queue_step te t (RoleIs r) v = Some ([], role_is r v)"


text \<open>
  The keys of a row: its handler takes the return key and the space bar wherever in the row they were
  pressed, and prevents what they would do to a button.
\<close>

definition row_keydown :: "QueueJob \<Rightarrow> queue_control \<Rightarrow> string \<Rightarrow> queue_control option" where
  "row_keydown j target key = (if key = ''Enter'' \<or> key = '' '' then Some (JobRow j) else None)"

section \<open>The tables\<close>

text \<open>Every table of jobs is well formed: each row has one cell for each column, hidden on small screens
  exactly where the column is, and the row of an error spans them all.\<close>

theorem job_rows_fit:
  "map wide (jobs_row date now st j) = map snd (jobs_head st) \<and> error_colspan st = length (jobs_head st)"
  by (cases st) (simp_all add: jobs_row_def jobs_head_def pending_row_def pending_head_def processing_row_def
      processing_head_def dead_row_def dead_head_def plain_def error_colspan_def)

text \<open>The skeleton of the dead jobs has a column less than their table.\<close>

lemma skeleton_columns: "length (skeleton_head st) = length (jobs_head st) \<longleftrightarrow> st \<noteq> q_dead"
  by (cases st) (simp_all add: skeleton_head_def jobs_head_def pending_head_def processing_head_def dead_head_def)

text \<open>The return key on the retry button of a row opens the job instead.\<close>

lemma enter_on_retry_opens: "row_keydown j (RetryJob j) ''Enter'' = Some (JobRow j)"
  by (simp add: row_keydown_def)

section \<open>Requests\<close>

lemmas queue_control_defs = queue_controls_def queue_header_def queue_cards_def browser_controls_def jobs_body_def
  job_controls_def dialog_controls_def

lemma offered_actions:
  "ReanalyzeButton \<in> set (queue_controls t v) \<Longrightarrow> can_operate (qv_role v) \<and> \<not> qv_reanalyzing v"
  "RetryAnalyzeButton \<in> set (queue_controls t v) \<Longrightarrow>
     can_operate (qv_role v) \<and> (\<exists>q. stats_of q_analyze v = Some q \<and> 0 < qs_dead q)"
  "RetryAllButton \<in> set (queue_controls t v) \<Longrightarrow>
     can_operate (qv_role v) \<and> (\<exists>q. stats_of (qb_type (qv_browser v)) v = Some q \<and> 0 < qs_dead q)"
  "RetryJob j \<in> set (queue_controls t v) \<Longrightarrow>
     can_operate (qv_role v) \<and> qv_retrying v = None \<and> j \<in> set (qv_jobs v) \<and> qb_status (qv_browser v) = q_dead"
  "DialogRetry \<in> set (queue_controls t v) \<Longrightarrow>
     can_operate (qv_role v) \<and> qv_retrying v = None \<and> (\<exists>j. qv_job v = Some j \<and> job_status j = ''dead'')"
  "JobRow j \<in> set (queue_controls t v) \<Longrightarrow> j \<in> set (qv_jobs v)"
  by (auto simp: queue_control_defs retry_button_def retry_all_disabled_def deadCount_def can_operate_def
      split: option.splits if_splits)

lemma press_job:
  "qv_job (snd (queue_press t c v)) =
     (case c of JobRow j \<Rightarrow> Some j | DialogRetry \<Rightarrow> None | DialogClose \<Rightarrow> None | _ \<Rightarrow> qv_job v)"
  by (cases c) (simp_all add: rebrowse_def select_job_def retry_one_def Let_def split: option.split)

lemma selected_was_shown:
  assumes "run_page (queue_step te t) es (mount_queue_view r ps) = Some (rs, v)" "qv_job v = Some j"
  shows "\<exists>pre post ss u. es = pre @ post \<and> run_page (queue_step te t) pre (mount_queue_view r ps) = Some (ss, u) \<and>
    j \<in> set (qv_jobs u)"
  using assms
proof (induction es arbitrary: rs v rule: rev_induct)
  case Nil
  then show ?case by (auto simp: mount_queue_view_def)
next
  case (snoc e es)
  obtain qs u ds where run: "run_page (queue_step te t) es (mount_queue_view r ps) = Some (qs, u)"
    and last: "queue_step te t e u = Some (ds, v)"
    using snoc.prems(1) by (rule run_page_snocE)
  have "qv_job u = Some j \<or> j \<in> set (qv_jobs u)"
  proof (cases e)
    case (QueuePress c)
    then have c: "c \<in> set (queue_controls t u)" "v = snd (queue_press t c u)" using last by (simp_all split: if_splits)
    then have "c = JobRow j \<or> qv_job u = Some j"
      using snoc.prems(2) unfolding c(2) press_job by (simp split: queue_control.splits)
    then show ?thesis using c(1) offered_actions(6) by blast
  qed (use last snoc.prems(2) in \<open>auto simp: role_is_def split: if_splits option.splits\<close>)
  then show ?case
  proof
    assume "qv_job u = Some j"
    from snoc.IH [OF run this] show ?case by (metis append.assoc)
  qed (use run in blast)
qed


lemma press_calls:
  "set (fst (queue_press t c v)) =
     (case c of
        ReanalyzeButton \<Rightarrow> {m_call useReanalyzeAll ()}
      | RetryAnalyzeButton \<Rightarrow> {m_call useRetryDeadJobs (Some (queue_type_name q_analyze))}
      | RetryAllButton \<Rightarrow> {m_call useRetryDeadJobs (Some (queue_type_name (qb_type (qv_browser v))))}
      | RetryJob j \<Rightarrow> {m_call useRetryDeadJob (job_id j)}
      | DialogRetry \<Rightarrow> (\<lambda>j. m_call useRetryDeadJob (job_id j)) ` set_option (qv_job v)
      | _ \<Rightarrow> {})"
  by (cases c) (auto simp: rebrowse_def select_job_def retry_one_def Let_def split: option.splits)



definition dead_job :: QueueJob where
  "dead_job = \<lparr>job_id = ''7'', job_type = ''diff'', referenceId = ''12'', job_status = ''dead'', attempts = 5, maxAttempts = 5,
     lastError = Some ''timeout'', job_package = Some ''left-pad'', job_version = Some ''1.3.0'', createdAt = 1700000000,
     updatedAt = 1700000900, nextRunAt = 0\<rparr>"

definition one_dead :: queue_counts where
  "one_dead = \<lparr>qs_pending = 0, qs_processing = 0, qs_completed = 3, qs_dead = 1\<rparr>"

definition open_dead_job :: "queue_event list" where
  "open_dead_job =
     [StatsFetched (Some (one_dead, one_dead)) False False, QueuePress (StatusTab q_dead),
      JobsFetched [dead_job] 1 False False, QueuePress (JobRow dead_job)]"

lemma open_dead_job_runs:
  "\<exists>v w. run_page (queue_step OtherVal demo_table) open_dead_job (mount_queue_view (Some admin) []) = Some ([], v) \<and>
     queue_step OtherVal demo_table (QueuePress DialogRetry) v = Some ([m_call useRetryDeadJob ''7''], w)"
proof -
  define r where "r = run_page (queue_step OtherVal demo_table) open_dead_job (mount_queue_view (Some admin) [])"
  have "map_option fst r = Some []"
    "map_option (map_option fst \<circ> queue_step OtherVal demo_table (QueuePress DialogRetry) \<circ> snd) r =
      Some (Some [m_call useRetryDeadJob ''7''])"
    unfolding r_def by code_simp+
  then show ?thesis unfolding r_def [symmetric] by (auto simp del: queue_step.simps)
qed


section \<open>One retry at a time\<close>

definition retries :: "api_call list \<Rightarrow> nat" where
  "retries cs = length (filter (\<lambda>c. c \<in> range (m_call useRetryDeadJob)) cs)"

lemma other_calls:
  "m_call useReanalyzeAll u \<notin> range (m_call useRetryDeadJob)"
  "m_call useRetryDeadJobs x \<notin> range (m_call useRetryDeadJob)"
  by (auto simp: useReanalyzeAll_def useRetryDeadJobs_def useRetryDeadJob_def reanalyzeAll_def retryDeadJobs_def
      retryDeadJob_def api_send_def)


definition on_its_way :: "queue_view \<Rightarrow> nat" where
  "on_its_way v = (if qv_retrying v = None then 0 else 1)"

lemma press_retries:
  assumes "c \<in> set (queue_controls t v)"
  shows "retries (fst (queue_press t c v)) + on_its_way v = on_its_way (snd (queue_press t c v))"
proof (cases c)
  case (RetryJob j)
  then show ?thesis using offered_actions(4) assms by (auto simp: retry_one_def retries_def on_its_way_def)
next
  case DialogRetry
  then show ?thesis using offered_actions(5) [of t v] assms
    by (auto simp: retry_one_def retries_def on_its_way_def select_job_def)
qed (auto simp: retries_def on_its_way_def other_calls rebrowse_def select_job_def Let_def)

definition keeps_role :: "queue_event \<Rightarrow> bool" where
  "keeps_role e = (case e of RoleIs _ \<Rightarrow> False | _ \<Rightarrow> True)"

text \<open>C26: Jobs are retried one at a time: while the page stays up, the retries of single jobs that were sent are
  those that were answered and at most one more, the one the page knows to be on its way.\<close>

theorem one_retry_at_a_time:
  assumes "run_page (queue_step te t) es (mount_queue_view r ps) = Some (rs, v)" and "list_all keeps_role es"
  shows "retries rs = count_list es RetryAnswered + (if qv_retrying v = None then 0 else 1)"
  using assms
proof (induction es arbitrary: rs v rule: rev_induct)
  case Nil
  then show ?case by (auto simp: retries_def mount_queue_view_def)
next
  case (snoc e es)
  obtain qs u ds where run: "run_page (queue_step te t) es (mount_queue_view r ps) = Some (qs, u)"
    and last: "queue_step te t e u = Some (ds, v)" and rs: "rs = qs @ ds"
    using snoc.prems(1) by (rule run_page_snocE)
  have IH: "retries qs = count_list es RetryAnswered + on_its_way u"
    using snoc.IH [OF run] snoc.prems(2) by (simp add: on_its_way_def)
  have step: "retries ds + on_its_way u = on_its_way v + (if e = RetryAnswered then 1 else 0)"
  proof (cases e)
    case (QueuePress c)
    then have "c \<in> set (queue_controls t u)" "queue_press t c u = (ds, v)" using last by (auto split: if_splits)
    with press_retries [of c t u] QueuePress show ?thesis by simp
  next
    case (RoleIs x)
    then show ?thesis using snoc.prems(2) by (simp add: keeps_role_def)
  qed (use last in \<open>auto simp: on_its_way_def retries_def split: if_splits option.splits\<close>)
  have "retries rs = retries qs + retries ds" by (simp add: rs retries_def)
  then show ?case using IH step by (auto simp: on_its_way_def [of v])
qed

lemma one_retry_at_a_time_witness:
  "\<exists>v. run_page (queue_step OtherVal demo_table) (open_dead_job @ [QueuePress DialogRetry, RetryAnswered])
       (mount_queue_view (Some admin) []) = Some ([m_call useRetryDeadJob ''7''], v) \<and>
     retries [m_call useRetryDeadJob ''7''] = 1 + (if qv_retrying v = None then 0 else 1)"
proof -
  let ?es = "open_dead_job @ [QueuePress DialogRetry, RetryAnswered]"
  define r where "r = run_page (queue_step OtherVal demo_table) ?es (mount_queue_view (Some admin) [])"
  have "map_option fst r = Some [m_call useRetryDeadJob ''7'']" unfolding r_def by code_simp
  then obtain v where v: "r = Some ([m_call useRetryDeadJob ''7''], v)" by auto
  have "list_all keeps_role ?es" "count_list ?es RetryAnswered = 1"
    by (simp_all add: open_dead_job_def keeps_role_def)
  with one_retry_at_a_time [OF v [unfolded r_def]] v show ?thesis unfolding r_def by auto
qed

end
