(* ===== verification/Backend_Listing.thy ===== *)
theory Backend_Listing
  imports Admin_Tables Table_Pagination Notifications "HOL-Library.Word"
begin

text \<open>
  The other end of the paged tables: how the backend reads page, size and order out of a request
  (\<open>parsePagination\<close> and \<open>parseSort\<close> in \<open>restapi/v1/handlers.go\<close>, the tables of columns the handlers pass them)
  and which rows it then selects. Its integers are 64 bits wide and wrap around. The query of a
  request is the list of its parameters; the rows that match, in the order asked for, are an argument. The database
  is taken to give all pages the same arrangement, which it need not do for rows the order does not tell apart.
\<close>

section \<open>Numbers in a query\<close>

type_synonym go_int = "64 word"

text \<open>\<open>n, _ := strconv.Atoi(s)\<close>: what is left when the error is dropped. A text that is no number gives 0, one that
  is out of range the nearest number.\<close>

definition clamp :: "int \<Rightarrow> int" where
  "clamp n = max (- 9223372036854775808) (min 9223372036854775807 n)"

definition Atoi :: "string \<Rightarrow> go_int" where
  "Atoi s =
     (let (negative, ds) =
        (case s of
           [] \<Rightarrow> (False, [])
         | c # cs \<Rightarrow> if c = CHR ''-'' then (True, cs) else if c = CHR ''+'' then (False, cs) else (False, s))
      in if ds = [] \<or> \<not> list_all is_digit ds then 0
         else word_of_int (clamp (if negative then - int (read_nat ds) else int (read_nat ds))))"

text \<open>\<open>url_text\<close> is \<open>r.URL.Query().Get\<close>: the empty text for a parameter that is not there.\<close>

definition parsePagination :: "params \<Rightarrow> go_int \<times> go_int" where
  "parsePagination q =
     (let page = Atoi (url_text q ''page''); page = (if page <s 1 then 1 else page);
          lim = Atoi (url_text q ''limit''); lim = (if lim <s 1 \<or> 100 <s lim then 20 else lim)
      in (page, lim))"

definition parseSort :: "params \<Rightarrow> (string \<times> string) list \<Rightarrow> string \<Rightarrow> string" where
  "parseSort q allowedColumns defaultSort =
     (case map_of allowedColumns (url_text q ''sort_by'') of
        None \<Rightarrow> defaultSort
      | Some col \<Rightarrow>
          (let dir = url_text q ''sort_dir'' in
           col @ '' '' @ (if dir \<in> set [''asc'', ''desc''] then dir else ''asc'')))"

section \<open>The listings\<close>

record listing =
  sort_columns :: "(string \<times> string) list"
  default_order :: string

definition ListPackages :: listing where
  "ListPackages =
     \<lparr>sort_columns = [(''name'', ''name''), (''ecosystem'', ''ecosystem''), (''latestVersion'', ''latest_version''),
        (''downloadCount'', ''download_count''), (''source'', ''source''), (''status'', ''status''),
        (''createdAt'', ''created_at'')],
      default_order = ''download_count DESC, name ASC''\<rparr>"

definition ListSuggestions :: listing where
  "ListSuggestions =
     \<lparr>sort_columns = [(''name'', ''name''), (''ecosystem'', ''ecosystem''), (''downloadCount'', ''download_count'')],
      default_order = ''download_count DESC, name ASC''\<rparr>"

definition ListStalePackages :: listing where
  "ListStalePackages =
     \<lparr>sort_columns = [(''name'', ''name''), (''ecosystem'', ''ecosystem''), (''latestVersion'', ''latest_version''),
        (''downloadCount'', ''download_count''), (''source'', ''source''), (''createdAt'', ''created_at'')],
      default_order = ''download_count DESC, name ASC''\<rparr>"

definition ListRecentReleases :: listing where
  "ListRecentReleases =
     \<lparr>sort_columns = [(''createdAt'', ''releases.created_at''), (''version'', ''releases.version''),
        (''publishedAt'', ''releases.published_at''), (''status'', ''releases.status''),
        (''packageName'', ''packages.name''), (''packageEcosystem'', ''packages.ecosystem'')],
      default_order = ''releases.created_at DESC''\<rparr>"

definition ListAlerts :: listing where
  "ListAlerts =
     \<lparr>sort_columns = [(''severity'', ''alerts.severity''), (''status'', ''alerts.status''),
        (''createdAt'', ''alerts.created_at''), (''message'', ''alerts.message''), (''packageName'', ''packages.name'')],
      default_order = ''alerts.created_at DESC''\<rparr>"

definition HandleListUsers :: listing where
  "HandleListUsers =
     \<lparr>sort_columns = [(''firstName'', ''first_name''), (''lastName'', ''last_name''), (''email'', ''email''),
        (''isActive'', ''is_active''), (''createdAt'', ''created_at'')],
      default_order = ''created_at DESC''\<rparr>"

definition ListAllAuditLogs :: listing where
  "ListAllAuditLogs =
     \<lparr>sort_columns = [(''createdAt'', ''created_at''), (''action'', ''action''), (''resource'', ''resource'')],
      default_order = ''created_at DESC''\<rparr>"

text \<open>The audit log of a workspace is not asked for an order.\<close>

definition ListAuditLogs :: listing where
  "ListAuditLogs = \<lparr>sort_columns = [], default_order = ''audit_logs.created_at DESC''\<rparr>"

lemmas listing_defs =
  ListPackages_def ListSuggestions_def ListStalePackages_def ListRecentReleases_def ListAlerts_def
  HandleListUsers_def ListAllAuditLogs_def ListAuditLogs_def

section \<open>The rows selected\<close>

record window =
  w_order :: string
  w_offset :: go_int
  w_limit :: go_int

definition listing_window :: "listing \<Rightarrow> params \<Rightarrow> window" where
  "listing_window h q =
     (let (page, lim) = parsePagination q in
      \<lparr>w_order = parseSort q (sort_columns h) (default_order h), w_offset = (page - 1) * lim, w_limit = lim\<rparr>)"

text \<open>\<open>Offset(n).Limit(m)\<close> of the mapper: an offset below zero cancels the clause.\<close>

definition selected_rows :: "window \<Rightarrow> 'a list \<Rightarrow> 'a list" where
  "selected_rows w rows = take (nat (sint (w_limit w))) (drop (nat (sint (w_offset w))) rows)"

section \<open>Numbers arrive as they are\<close>

lemma Atoi_show_int:
  assumes "0 \<le> n" "n \<le> 9223372036854775807"
  shows "Atoi (show_int n) = word_of_int n"
proof -
  obtain c cs where shown: "show_nat (nat n) = c # cs" by (cases "show_nat (nat n)") auto
  have "is_digit c" using show_nat_digits [of c "nat n"] shown by simp
  then have "c \<noteq> CHR ''-''" "c \<noteq> CHR ''+''" by (auto simp: is_digit_def)
  moreover have "list_all is_digit (c # cs)" using show_nat_digits [of _ "nat n"] shown by (auto simp: list_all_iff)
  moreover have "int (read_nat (c # cs)) = n" using assms(1) by (simp flip: shown)
  ultimately show ?thesis using assms shown by (simp add: Atoi_def show_int_def clamp_def Let_def)
qed

lemma sint_of_int:
  assumes "0 \<le> n" "n \<le> 9223372036854775807"
  shows "sint (word_of_int n :: go_int) = n"
  using assms by (simp add: sint_sbintrunc' signed_take_bit_int_eq_self)

lemma parsePagination_exact:
  assumes "usp_get q ''page'' = Some (show_int p)" "usp_get q ''limit'' = Some (show_int k)"
    and "1 \<le> p" "p \<le> 9223372036854775807" "1 \<le> k" "k \<le> 100"
  shows "parsePagination q = (word_of_int p, word_of_int k)"
proof -
  have "\<not> (word_of_int p :: go_int) <s 1" using assms(3,4) by (simp add: word_sless_alt sint_of_int)
  moreover have "\<not> (word_of_int k :: go_int) <s 1" "\<not> 100 <s (word_of_int k :: go_int)"
    using assms(5,6) by (simp_all add: word_sless_alt sint_of_int)
  ultimately show ?thesis
    using assms by (simp add: parsePagination_def url_text_def Atoi_show_int)
qed

text \<open>The rows of a page, for every page whose last row has a number the backend can write.\<close>

lemma listing_window_exact:
  assumes "usp_get q ''page'' = Some (show_int (int i + 1))" "usp_get q ''limit'' = Some (show_int (int k))"
    and "1 \<le> k" "k \<le> 100" "(i + 1) * k \<le> 9223372036854775807"
  shows "selected_rows (listing_window h q) rows = take k (drop (i * k) rows)"
proof -
  have "(i + 1) * 1 \<le> (i + 1) * k" using assms(3) by (intro mult_le_mono2)
  with assms(5) have "i + 1 \<le> 9223372036854775807" by (metis mult.right_neutral order_trans)
  then have i: "int i + 1 \<le> 9223372036854775807" by linarith
  have "i * k \<le> 9223372036854775807" using assms(5) by simp
  then have ik: "int i * int k \<le> 9223372036854775807" by (simp only: of_nat_mult [symmetric])
  have "parsePagination q = (word_of_int (int i + 1), word_of_int (int k))"
    using assms(3,4) by (intro parsePagination_exact [OF assms(1,2) _ i]) simp_all
  moreover have "(word_of_int (int i + 1) - 1) * word_of_int (int k) = (word_of_int (int i * int k) :: go_int)"
    by simp
  moreover have "sint (word_of_int (int i * int k) :: go_int) = int i * int k"
    using ik by (intro sint_of_int) simp_all
  moreover have "sint (word_of_int (int k) :: go_int) = int k" using assms(4) by (intro sint_of_int) simp_all
  ultimately show ?thesis
    by (simp add: selected_rows_def listing_window_def nat_mult_distrib)
qed

section \<open>The pages of the client\<close>

text \<open>
  What a paged table owes the backend: its request names the page after the index on the screen, the size of the
  page, and the first key of its sorting. \<open>query\<close> is the query of the request a state of the table leads to.
\<close>

locale paged_listing =
  fixes query :: "'s list_state_scheme \<Rightarrow> params"
  assumes page_sent: "usp_get (query s) ''page'' = Some (show_int (int (ls_pageIndex s) + 1))"
    and limit_sent: "0 < ls_pageSize s \<Longrightarrow> usp_get (query s) ''limit'' = Some (show_int (int (ls_pageSize s)))"
    and order_sent: "usp_get (query s) ''sort_by'' = (if truthy_str (sort_by s) then sort_by s else None)"
    and direction_sent: "usp_get (query s) ''sort_dir'' = sort_dir s"
begin

lemma rows_exact:
  assumes "1 \<le> ls_pageSize s" "ls_pageSize s \<le> 100" "(ls_pageIndex s + 1) * ls_pageSize s \<le> 9223372036854775807"
  shows "selected_rows (listing_window h (query s)) rows =
    take (ls_pageSize s) (drop (ls_pageIndex s * ls_pageSize s) rows)"
  using assms limit_sent [of s] by (intro listing_window_exact [OF page_sent]) simp_all

lemma pages_cover:
  assumes "1 \<le> k" "k \<le> 100" "length rows + k \<le> 9223372036854775807"
  shows "concat (map (\<lambda>i. selected_rows (listing_window h (query (set_pagination i k s))) rows)
      [0..<page_count (length rows) k]) = rows"
proof -
  let ?n = "page_count (length rows) k"
  have pages: "?n * k \<le> length rows + k"
    using le_trans [OF div_times_less_eq_dividend [of "length rows + k - 1" k], of "length rows + k"]
    by (auto simp: page_count_def max_def)
  have "selected_rows (listing_window h (query (set_pagination i k s))) rows = take k (drop (i * k) rows)"
    if "i < ?n" for i
  proof -
    have "(i + 1) * k \<le> ?n * k" using that by (intro mult_le_mono1) simp
    with pages assms show ?thesis
      using rows_exact [of "set_pagination i k s" h rows] by (simp add: set_pagination_def)
  qed
  then have "concat (map (\<lambda>i. selected_rows (listing_window h (query (set_pagination i k s))) rows) [0..<?n]) =
      concat (map (\<lambda>i. take k (drop (i * k) rows)) [0..<?n])"
    by (intro arg_cong [where f = concat] map_cong) simp_all
  also have "\<dots> = take (?n * k) rows" using assms(1) by (intro pages_concat) simp
  also have "\<dots> = rows"
  proof (cases "rows = []")
    case False
    have "length rows \<le> ?n * k"
    proof (rule ccontr)
      assume "\<not> length rows \<le> ?n * k"
      then show False using page_count_iff [of "length rows" k ?n] False assms(1) by simp
    qed
    then show ?thesis by simp
  qed simp
  finally show ?thesis .
qed

lemma order_exact:
  assumes "map_of (sort_columns h) [] = None"
  shows "w_order (listing_window h (query s)) =
     (case sorting s of
        [] \<Rightarrow> default_order h
      | e # _ \<Rightarrow>
          (case map_of (sort_columns h) (sort_id e) of
             None \<Rightarrow> default_order h
           | Some col \<Rightarrow> col @ (if sort_desc e then '' desc'' else '' asc'')))"
  using assms order_sent [of s] direction_sent [of s]
  by (auto simp: listing_window_def parseSort_def url_text_def sort_by_def sort_dir_def Let_def
      split: list.splits option.splits prod.splits)

end

text \<open>The query of a request, as the backend decodes it.\<close>

definition asked :: "api_call \<Rightarrow> params" where
  "asked c = (case snd (read_url (endpoint c)) of None \<Rightarrow> [] | Some q \<Rightarrow> q)"

lemma asked_reads:
  "asked (api_get (always_query path q)) = q" "asked (api_get (with_query path q)) = q" if "CHR ''?'' \<notin> set path"
  using that by (simp_all add: asked_def read_always_query read_with_query)

lemma sort_sent_reads:
  "truthy_str (sort_dir s) \<longleftrightarrow> sort_dir s \<noteq> None"
  "(if sort_dir s = None then None else sort_dir s) = sort_dir s"
  by (auto simp: sort_dir_def split: list.splits)

lemmas request_reads = asked_reads usp_reads page_param_def limit_param_def sort_sent_reads

interpretation pkgs: paged_listing "\<lambda>s. asked (getPackages (packages_request s))"
  by unfold_locales (simp_all add: getPackages_def package_list_params_def packages_request_def request_reads)

interpretation sugg: paged_listing "\<lambda>s. asked (getPackageSuggestions (suggestions_request s))"
  by unfold_locales (simp_all add: getPackageSuggestions_def suggestion_params_def suggestions_request_def request_reads)

interpretation stale: paged_listing "\<lambda>s. asked (getStalePackages (stale_request s))"
  by unfold_locales (simp_all add: getStalePackages_def stale_params_def stale_request_def request_reads)

interpretation rels: paged_listing "\<lambda>s. asked (getRecentReleases (releases_request s))"
  by unfold_locales (simp_all add: getRecentReleases_def recent_release_params_def releases_request_def request_reads)

interpretation alrt: paged_listing "\<lambda>s. asked (getAlerts (alerts_request s))"
  by unfold_locales (simp_all add: getAlerts_def alert_list_params_def alerts_request_def request_reads)

interpretation usrs: paged_listing "\<lambda>s. asked (apiGetPlatformUsers (users_request s))"
  by unfold_locales (simp_all add: apiGetPlatformUsers_def platform_user_params_def users_request_def request_reads)

interpretation palg: paged_listing "\<lambda>s. asked (apiGetPlatformAuditLogs (platform_audit_request zone s))" for zone
  by unfold_locales
    (simp_all add: apiGetPlatformAuditLogs_def platform_audit_params_def platform_audit_request_def request_reads)

lemma audit_listing:
  assumes "CHR ''?'' \<notin> set ws"
  shows "paged_listing (\<lambda>s. asked (apiGetAuditLogs ws (audit_request zone s)))"
  using assms
  by unfold_locales (simp_all add: apiGetAuditLogs_def audit_log_params_def audit_request_def request_reads)

section \<open>What the two ends agree on\<close>

text \<open>Leafing through a table: the rows of its pages, one after the other, as many as the bar shows.\<close>

definition leafed :: "('s list_state_scheme \<Rightarrow> api_call) \<Rightarrow> listing \<Rightarrow> nat \<Rightarrow> 'r list \<Rightarrow> 's list_state_scheme \<Rightarrow> 'r list" where
  "leafed request h k rows s =
     concat (map (\<lambda>i. selected_rows (listing_window h (asked (request (set_pagination i k s)))) rows)
       [0..<page_count (length rows) k])"

lemma leafed_all:
  assumes "paged_listing (\<lambda>s. asked (request s))" "k \<in> set pageSizeOptions" "length rows \<le> 9223372036854775000"
  shows "leafed request h k rows s = rows"
  using assms(2,3)
  unfolding leafed_def by (intro paged_listing.pages_cover [OF assms(1)]) (auto simp: pageSizeOptions_def)



lemma parseSort_contained:
  "parseSort q cols d \<in> insert d {col @ dir | col dir. col \<in> snd ` set cols \<and> dir \<in> {'' asc'', '' desc''}}"
proof (cases "map_of cols (url_text q ''sort_by'')")
  case (Some col)
  then have "col \<in> snd ` set cols" by (force dest: map_of_SomeD)
  moreover have "parseSort q cols d = col @ '' asc'' \<or> parseSort q cols d = col @ '' desc''"
    using Some by (auto simp: parseSort_def Let_def)
  ultimately show ?thesis by blast
qed (simp add: parseSort_def)

text \<open>C32: No request can make the backend select without bounds or order by a text of its own. Whatever the query
  holds, the page is at least the first, at most a hundred rows are selected, and the order is the default one or a
  column the handler names followed by a direction.\<close>

theorem forged_listing_contained:
  "1 \<le> sint (fst (parsePagination q)) \<and>
   1 \<le> sint (w_limit (listing_window h q)) \<and> sint (w_limit (listing_window h q)) \<le> 100 \<and>
   length (selected_rows (listing_window h q) rows) \<le> 100 \<and>
   w_order (listing_window h q) \<in>
     insert (default_order h) {col @ dir | col dir. col \<in> snd ` set (sort_columns h) \<and> dir \<in> {'' asc'', '' desc''}}"
proof -
  have page: "1 \<le> sint (fst (parsePagination q))"
    by (auto simp: parsePagination_def Let_def word_sless_alt not_less)
  have lim: "w_limit (listing_window h q) = snd (parsePagination q)"
    by (simp add: listing_window_def split: prod.splits)
  have limit_bounds: "1 \<le> sint (snd (parsePagination q))" "sint (snd (parsePagination q)) \<le> 100"
    by (auto simp: parsePagination_def Let_def word_sless_alt not_less)
  then have "length (selected_rows (listing_window h q) rows) \<le> 100"
    by (simp add: selected_rows_def lim)
  moreover have "w_order (listing_window h q) = parseSort q (sort_columns h) (default_order h)"
    by (simp add: listing_window_def split: prod.splits)
  moreover note parseSort_contained [of q "sort_columns h" "default_order h"]
  ultimately show ?thesis using page lim limit_bounds by simp
qed

text \<open>The offset of a page that exists only in a forged query can wrap around to the first page.\<close>

lemma huge_page_wraps:
  "listing_window ListPackages [(''page'', ''2305843009213693953''), (''limit'', ''8'')] =
     \<lparr>w_order = ''download_count DESC, name ASC'', w_offset = 0, w_limit = 8\<rparr>"
proof -
  have "show_int 2305843009213693953 = ''2305843009213693953''" "show_int 8 = ''8''"
    by (simp_all add: show_int_def show_nat.simps digit_char_def) (simp_all add: char_of_def bit_0)
  then have "parsePagination [(''page'', ''2305843009213693953''), (''limit'', ''8'')] =
      (word_of_int 2305843009213693953, word_of_int 8)"
    by (intro parsePagination_exact) simp_all
  then show ?thesis by (simp add: listing_window_def parseSort_def url_text_def ListPackages_def)
qed

text \<open>The bulk import asks for 500 packages to compare with and is given the first 20.\<close>

definition existing_query :: PackageListParams where
  "existing_query =
     \<lparr>pl_ecosystem = None, pl_search = None, pl_status = None, pl_source = None, pl_page = None,
      pl_limit = Some 500, pl_sortBy = None, pl_sortDir = None\<rparr>"

lemma import_compares_with_twenty:
  "selected_rows (listing_window ListPackages (asked (getPackages existing_query))) rows = take 20 rows"
proof -
  have "show_int 500 = ''500''" by (simp add: show_int_def show_nat.simps digit_char_def char_of_def bit_0)
  then have "asked (getPackages existing_query) = [(''limit'', ''500'')]"
    by (simp add: getPackages_def request_reads existing_query_def package_list_params_def set_num_def set_truthy_def
        usp_set.simps)
  moreover have "parsePagination [(''limit'', show_int 500)] = (1, 20)"
    using Atoi_show_int [of 500] by (simp add: parsePagination_def url_text_def Atoi_def [of "[]"] word_sless_alt)
  ultimately show ?thesis
    using \<open>show_int 500 = ''500''\<close> by (simp add: selected_rows_def listing_window_def)
qed

end
