(* ===== verification/Table_Columns.thy ===== *)
theory Table_Columns
  imports Backend_Listing Detail_Views Settings_Views
begin

text \<open>
  The columns of the paged tables and what a table puts on the screen: the column definitions of
  \<open>packages-list-view.tsx\<close>, \<open>package-suggestions-view.tsx\<close>, \<open>stale-packages-view.tsx\<close>,
  \<open>releases-list-view.tsx\<close>, \<open>alerts-list-view.tsx\<close>, \<open>platform-users-list.tsx\<close>, \<open>audit-log-view.tsx\<close> and
  \<open>platform-audit-logs-list.tsx\<close>, the sort buttons (\<open>ui/data/sortable-header.tsx\<close>), the menu of columns
  (\<open>ui/data/data-table-column-toggle.tsx\<close>), the placeholders (\<open>ui/feedback\<close>) and the dialog with the details of an
  audit entry (\<open>ui/data/audit-log-detail-dialog.tsx\<close>).
\<close>

section \<open>Cells and columns\<close>

datatype 'b table_cell =
    Txt string
  | Tag string string                 \<comment> \<open>variant and text of a badge\<close>
  | LinkTo string string              \<comment> \<open>address and text\<close>
  | Tipped "'b table_cell" string
  | Buttons "'b list"
  | Nothing

datatype column_head = Sortable | Plain | ScreenReader

record ('r, 'b) column =
  col_id :: string
  col_title :: string
  col_head :: column_head
  enableSorting :: bool
  enableHiding :: bool
  meta_title :: "string option"
  col_cell :: "'r \<Rightarrow> 'b table_cell"

text \<open>The usual columns: one whose head sorts, one whose head is a text, and the buttons at the end.\<close>

definition sort_column :: "string \<Rightarrow> string \<Rightarrow> ('r \<Rightarrow> 'b table_cell) \<Rightarrow> ('r, 'b) column" where
  "sort_column i heading f =
     \<lparr>col_id = i, col_title = heading, col_head = Sortable, enableSorting = True, enableHiding = True,
      meta_title = None, col_cell = f\<rparr>"

definition plain_column :: "string \<Rightarrow> string \<Rightarrow> ('r \<Rightarrow> 'b table_cell) \<Rightarrow> ('r, 'b) column" where
  "plain_column i heading f = (sort_column i heading f)\<lparr>col_head := Plain, enableSorting := False\<rparr>"

definition actions_column :: "('r \<Rightarrow> 'b table_cell) \<Rightarrow> ('r, 'b) column" where
  "actions_column f = (plain_column ''actions'' ''Actions'' f)\<lparr>col_head := ScreenReader\<rparr>"

text \<open>What the browser and the clock contribute to the texts.\<close>

record browser_text =
  toLocaleDateString :: "string \<Rightarrow> string"
  toLocaleString :: "string \<Rightarrow> string"
  rounds_up :: "int \<Rightarrow> int \<Rightarrow> bool"
  date_value :: "string \<Rightarrow> int option"
  now_ms :: int

section \<open>Packages\<close>

record package_row = package_info +
  pw_id :: string
  pw_downloadCountUpdatedAt :: "string option"

definition sourceVariant :: "string \<Rightarrow> string" where
  "sourceVariant s =
     (if s = ''manual'' then ''default'' else if s = ''discovered'' then ''secondary''
      else if s = ''imported'' then ''outline'' else ''secondary'')"

definition ecosystem_cell :: "string \<Rightarrow> 'b table_cell" where
  "ecosystem_cell e = Tag ''outline'' (formatEcosystem e)"

definition version_cell :: "string \<Rightarrow> 'b table_cell" where
  "version_cell v = Txt (if v \<noteq> [] then formatVersion v else ''-'')"

definition popularity_cell :: "browser_text \<Rightarrow> 'a package_row_scheme \<Rightarrow> 'b table_cell" where
  "popularity_cell bt r =
     Tipped (Txt (formatPopularity (rounds_up bt) (pk_ecosystem r) (pk_downloadCount r)))
       (popularityTooltip (rounds_up bt) (date_value bt) (now_ms bt) (pk_ecosystem r) (pk_downloadCount r)
         (pw_downloadCountUpdatedAt r))"

definition package_link :: "'a package_row_scheme \<Rightarrow> 'b table_cell" where
  "package_link r = LinkTo (ROUTES (PACKAGE_DETAIL (pw_id r))) (pk_name r)"

definition status_cell :: "'a package_row_scheme \<Rightarrow> 'b table_cell" where
  "status_cell r =
     (if pk_status r = ''blocked'' then
        (case pk_blockedReason r of
           None \<Rightarrow> Tag ''destructive'' ''Blocked''
         | Some why \<Rightarrow> if why = [] then Tag ''destructive'' ''Blocked'' else Tipped (Tag ''destructive'' ''Blocked'') why)
      else if pk_status r = ''suggested'' then Tag ''outline'' ''Suggested''
      else Tag ''secondary'' ''Active'')"

definition package_columns :: "browser_text \<Rightarrow> WorkspaceRole option \<Rightarrow> (package_row, row_action) column list" where
  "package_columns bt role =
     [sort_column ''name'' ''Name'' package_link,
      sort_column ''ecosystem'' ''Ecosystem'' (\<lambda>r. ecosystem_cell (pk_ecosystem r)),
      sort_column ''latestVersion'' ''Latest Version'' (\<lambda>r. version_cell (pk_latestVersion r)),
      sort_column ''downloadCount'' ''Popularity'' (popularity_cell bt),
      plain_column ''source'' ''Source'' (\<lambda>r. Tag (sourceVariant (pk_source r)) (formatSource (pk_source r))),
      plain_column ''status'' ''Status'' status_cell,
      actions_column (\<lambda>r. if hasMinimumRole role member then Buttons (package_actions role (pk_status r)) else Nothing)]"

text \<open>A suggestion can be approved or rejected by those who may; while one of either kind is under way, the
  buttons of that kind are disabled.\<close>

datatype suggestion_button = Approve bool string | Reject bool string

definition suggestion_columns ::
  "browser_text \<Rightarrow> bool \<Rightarrow> bool \<Rightarrow> bool \<Rightarrow> (package_row, suggestion_button) column list" where
  "suggestion_columns bt canApprove approving rejecting =
     [sort_column ''name'' ''Name'' (\<lambda>r. Txt (pk_name r)),
      sort_column ''ecosystem'' ''Ecosystem'' (\<lambda>r. ecosystem_cell (pk_ecosystem r)),
      sort_column ''downloadCount'' ''Popularity'' (popularity_cell bt),
      actions_column (\<lambda>r.
        if canApprove then Buttons [Approve (\<not> approving) (pw_id r), Reject (\<not> rejecting) (pw_id r)] else Nothing)]"

record stale_row = package_row +
  sw_lastReleaseAt :: "string option"
  sw_daysSinceLastRelease :: "int option"

definition stale_columns :: "browser_text \<Rightarrow> (stale_row, unit) column list" where
  "stale_columns bt =
     [sort_column ''name'' ''Name'' package_link,
      sort_column ''ecosystem'' ''Ecosystem'' (\<lambda>r. ecosystem_cell (pk_ecosystem r)),
      sort_column ''latestVersion'' ''Latest Version'' (\<lambda>r. version_cell (pk_latestVersion r)),
      plain_column ''lastRelease'' ''Last Release'' (\<lambda>r.
        Txt (case sw_lastReleaseAt r of
            None \<Rightarrow> ''Never'' | Some t \<Rightarrow> if t = [] then ''Never'' else toLocaleDateString bt t)),
      sort_column ''daysSinceLastRelease'' ''Days Since'' (\<lambda>r.
        case sw_daysSinceLastRelease r of
          None \<Rightarrow> Txt ''-''
        | Some d \<Rightarrow> if 365 < d then Tag ''destructive'' (show_int d) else Txt (show_int d)),
      sort_column ''downloadCount'' ''Popularity'' (popularity_cell bt)]"

section \<open>Releases and alerts\<close>

record release_row =
  rw_id :: string
  rw_packageName :: string
  rw_packageEcosystem :: string
  rw_version :: string
  rw_publishedAt :: string
  rw_status :: string
  rw_classification :: "string option"

definition release_columns :: "browser_text \<Rightarrow> (release_row, unit) column list" where
  "release_columns bt =
     [sort_column ''packageName'' ''Package'' (\<lambda>r. LinkTo (ROUTES (RELEASE_DETAIL (rw_id r))) (rw_packageName r)),
      sort_column ''packageEcosystem'' ''Ecosystem'' (\<lambda>r. ecosystem_cell (rw_packageEcosystem r)),
      sort_column ''version'' ''Version'' (\<lambda>r. Txt (formatVersion (rw_version r))),
      sort_column ''publishedAt'' ''Published'' (\<lambda>r. Txt (toLocaleDateString bt (rw_publishedAt r))),
      sort_column ''status'' ''Analysis Status'' (\<lambda>r. Txt (ReleaseStatusBadge (Some (rw_status r)))),
      plain_column ''classification'' ''Classification'' (\<lambda>r. Txt (ClassificationBadge (rw_classification r)))]"

text \<open>A button that sets a status, or the link to the release, disabled where the alert names none:
  \<open>releaseId ?? analysisId\<close>.\<close>

datatype alert_button = Set_status string string | View_release string | No_release

definition alert_row_buttons :: "WorkspaceRole option \<Rightarrow> Alert \<Rightarrow> alert_button list" where
  "alert_row_buttons role a =
     map (Set_status (a_id a)) (alert_buttons role (a_status a)) @
     [case alert_release_link (a_releaseId a) (a_analysisId a) of Some path \<Rightarrow> View_release path | None \<Rightarrow> No_release]"

definition alert_columns :: "browser_text \<Rightarrow> WorkspaceRole option \<Rightarrow> (Alert, alert_button) column list" where
  "alert_columns bt role =
     [sort_column ''severity'' ''Severity'' (\<lambda>a. Txt (SeverityBadge (Some (a_severity a)))),
      sort_column ''packageName'' ''Package'' (\<lambda>a.
        LinkTo (ROUTES (PACKAGE_DETAIL (a_packageId a))) (case a_packageName a of None \<Rightarrow> [] | Some n \<Rightarrow> n)),
      sort_column ''message'' ''Message'' (\<lambda>a. Txt (a_message a)),
      sort_column ''status'' ''Status'' (\<lambda>a. Tag ''outline'' (a_status a)),
      sort_column ''createdAt'' ''Created'' (\<lambda>a. Txt (toLocaleString bt (a_createdAt a))),
      actions_column (\<lambda>a. Buttons (alert_row_buttons role a))]"

section \<open>Platform users and audit logs\<close>

record user_row =
  ur_id :: string
  ur_firstName :: string
  ur_lastName :: string
  ur_email :: string
  ur_isActive :: bool
  ur_isSuperAdmin :: bool
  ur_authMethod :: string
  ur_createdAt :: string

definition user_columns :: "browser_text \<Rightarrow> string option \<Rightarrow> (user_row, prompt) column list" where
  "user_columns bt self =
     [sort_column ''firstName'' ''Name'' (\<lambda>u. Txt (ur_firstName u @ '' '' @ ur_lastName u)),
      sort_column ''email'' ''Email'' (\<lambda>u. Txt (ur_email u)),
      sort_column ''isActive'' ''Status'' (\<lambda>u.
        if ur_isActive u then Tag ''outline'' ''Active'' else Tag ''destructive'' ''Inactive''),
      sort_column ''isSuperAdmin'' ''Role'' (\<lambda>u.
        if ur_isSuperAdmin u then Tag ''default'' ''Super Admin'' else Tag ''outline'' ''User''),
      sort_column ''authMethod'' ''Auth Provider'' (\<lambda>u. Txt (authMethodLabel (ur_authMethod u))),
      sort_column ''createdAt'' ''Created'' (\<lambda>u. Txt (toLocaleDateString bt (ur_createdAt u))),
      actions_column (\<lambda>u.
        if self = Some (ur_id u) then Nothing
        else Buttons (user_menu self (ur_id u) (ur_isSuperAdmin u) (ur_isActive u)))]"

record audit_row =
  ar_id :: string
  ar_userId :: "string option"
  ar_userEmail :: "string option"
  ar_workspaceId :: "string option"
  ar_workspaceName :: "string option"
  ar_action :: string
  ar_resource :: string
  ar_resourceId :: string
  ar_details :: string
  ar_ipAddress :: string
  ar_userAgent :: string
  ar_correlationId :: string
  ar_createdAt :: string

text \<open>\<open>resource.replace(/_/g, " ")\<close>, \<open>v || "-"\<close> and \<open>v || w\<close>.\<close>

definition spaced :: "string \<Rightarrow> string" where
  "spaced s = map (\<lambda>c. if c = CHR ''_'' then CHR '' '' else c) s"

definition or_dash :: "string \<Rightarrow> string" where
  "or_dash v = (if v = [] then ''-'' else v)"

definition text_or :: "string option \<Rightarrow> string option \<Rightarrow> string" where
  "text_or v w = (case v of Some (c # cs) \<Rightarrow> c # cs | _ \<Rightarrow> (case w of Some t \<Rightarrow> t | None \<Rightarrow> []))"

definition fixed_column :: "string \<Rightarrow> string \<Rightarrow> ('r \<Rightarrow> 'b table_cell) \<Rightarrow> ('r, 'b) column" where
  "fixed_column i heading f = (sort_column i heading f)\<lparr>enableHiding := False\<rparr>"

definition audit_log_columns :: "browser_text \<Rightarrow> (audit_row, unit) column list" where
  "audit_log_columns bt =
     [fixed_column ''createdAt'' ''Timestamp'' (\<lambda>r. Txt (toLocaleString bt (ar_createdAt r))),
      fixed_column ''action'' ''Action'' (\<lambda>r. Tag ''outline'' (ar_action r)),
      fixed_column ''resource'' ''Resource'' (\<lambda>r. Tag ''secondary'' (spaced (ar_resource r))),
      plain_column ''details'' ''Details'' (\<lambda>r. Txt (or_dash (ar_details r))),
      plain_column ''ipAddress'' ''IP Address'' (\<lambda>r. Txt (or_dash (ar_ipAddress r)))]"

text \<open>The head of the last column does not sort, though nothing keeps its column from it.\<close>

definition platform_audit_log_columns :: "browser_text \<Rightarrow> (audit_row, unit) column list" where
  "platform_audit_log_columns bt =
     [fixed_column ''createdAt'' ''Timestamp'' (\<lambda>r. Txt (toLocaleString bt (ar_createdAt r))),
      fixed_column ''userEmail'' ''User'' (\<lambda>r. Txt (or_dash (text_or (ar_userEmail r) None))),
      (sort_column ''workspaceId'' ''Workspace'' (\<lambda>r. Txt (or_dash (text_or (ar_workspaceName r) (ar_workspaceId r)))))
        \<lparr>meta_title := Some ''Workspace''\<rparr>,
      fixed_column ''action'' ''Action'' (\<lambda>r. Tag ''outline'' (ar_action r)),
      fixed_column ''resource'' ''Resource'' (\<lambda>r. Tag ''secondary'' (spaced (ar_resource r))),
      plain_column ''details'' ''Details'' (\<lambda>r. Txt (or_dash (ar_details r))),
      (plain_column ''ipAddress'' ''IP Address'' (\<lambda>r. Txt (or_dash (ar_ipAddress r))))\<lparr>enableSorting := True\<rparr>]"

section \<open>The details of an entry\<close>

text \<open>A field with a label and a value that cannot be edited; \<open>time\<close> is the long form of the date. Values that
  are missing or empty get no field.\<close>

definition field_of :: "string \<Rightarrow> string \<Rightarrow> (string \<times> string) list" where
  "field_of caption v = (if v = [] then [] else [(caption, v)])"

definition AuditLogDetailContent :: "(string \<Rightarrow> string) \<Rightarrow> audit_row \<Rightarrow> (string \<times> string) list" where
  "AuditLogDetailContent time r =
     [(''Timestamp'', time (ar_createdAt r))] @
     field_of ''User Email'' (text_or (ar_userEmail r) None) @
     (if text_or (ar_userEmail r) None = [] then field_of ''User ID'' (text_or (ar_userId r) None) else []) @
     field_of ''Workspace'' (text_or (ar_workspaceName r) (ar_workspaceId r)) @
     [(''Action'', ar_action r), (''Resource'', spaced (ar_resource r))] @
     field_of ''Resource ID'' (ar_resourceId r) @ field_of ''Details'' (ar_details r) @
     field_of ''IP Address'' (ar_ipAddress r) @ field_of ''User Agent'' (ar_userAgent r) @
     field_of ''Correlation ID'' (ar_correlationId r)"

text \<open>Nothing without an entry; a sheet on a phone, a dialog elsewhere.\<close>

datatype detail_window = Closed_detail | Detail_sheet string "(string \<times> string) list" | Detail_dialog string "(string \<times> string) list"

definition AuditLogDetailDialog :: "(string \<Rightarrow> string) \<Rightarrow> bool \<Rightarrow> audit_row option \<Rightarrow> detail_window" where
  "AuditLogDetailDialog time isMobile entry =
     (case entry of
        None \<Rightarrow> Closed_detail
      | Some r \<Rightarrow>
          (let subtitle = ar_action r @ '' - '' @ ar_resource r in
           if isMobile then Detail_sheet subtitle (AuditLogDetailContent time r)
           else Detail_dialog subtitle (AuditLogDetailContent time r)))"

section \<open>The table library\<close>

text \<open>
  The state of the columns is the library's; \<open>column_contract\<close> is what its documentation says: a column is sorted in
  the direction of its entry in the sorting, visible unless the state says no, and toggling one writes its entry.
  Without an entry in \<open>enableSorting\<close> or \<open>enableHiding\<close> a column can be sorted and hidden.
\<close>

type_synonym visibility = "string \<Rightarrow> bool option"

record column_ops =
  getIsSorted :: "sorting_state \<Rightarrow> string \<Rightarrow> bool option"   \<comment> \<open>whether descending\<close>
  getIsVisible :: "visibility \<Rightarrow> string \<Rightarrow> bool"
  toggleVisibility :: "string \<Rightarrow> bool \<Rightarrow> visibility \<Rightarrow> visibility"

definition column_contract :: "column_ops \<Rightarrow> bool" where
  "column_contract t \<longleftrightarrow>
     (\<forall>st c. getIsSorted t st c = map_option sort_desc (find (\<lambda>e. sort_id e = c) st)) \<and>
     (\<forall>v c. getIsVisible t v c = (v c \<noteq> Some False)) \<and> (\<forall>v c b. toggleVisibility t c b v = v(c \<mapsto> b))"

definition sample_ops :: column_ops where
  "sample_ops =
     \<lparr>getIsSorted = (\<lambda>st c. map_option sort_desc (find (\<lambda>e. sort_id e = c) st)),
      getIsVisible = (\<lambda>v c. v c \<noteq> Some False), toggleVisibility = (\<lambda>c b v. v(c \<mapsto> b))\<rparr>"

lemma sample_ops_contract: "column_contract sample_ops"
  by (simp add: column_contract_def sample_ops_def)

section \<open>A table on the screen\<close>

datatype head_cell = HeadText string | SrText string | SortButton string string

text \<open>The text of the button and what a screen reader says of it.\<close>

definition SortableHeader :: "bool \<Rightarrow> bool option \<Rightarrow> string \<Rightarrow> head_cell" where
  "SortableHeader canSort srt heading =
     (if \<not> canSort then HeadText heading
      else SortButton heading (''Sort by '' @ heading @
        (case srt of
           Some False \<Rightarrow> '', currently ascending'' | Some True \<Rightarrow> '', currently descending'' | None \<Rightarrow> [])))"

definition aria_sort :: "bool option \<Rightarrow> string option" where
  "aria_sort srt = map_option (\<lambda>desc. if desc then ''descending'' else ''ascending'') srt"

definition column_header :: "column_ops \<Rightarrow> sorting_state \<Rightarrow> ('r, 'b) column \<Rightarrow> string option \<times> head_cell" where
  "column_header t st c =
     (let srt = getIsSorted t st (col_id c) in
      (aria_sort srt,
       case col_head c of
         Sortable \<Rightarrow> SortableHeader (enableSorting c) srt (col_title c)
       | Plain \<Rightarrow> HeadText (col_title c)
       | ScreenReader \<Rightarrow> SrText (col_title c)))"

definition visible_columns :: "column_ops \<Rightarrow> visibility \<Rightarrow> ('r, 'b) column list \<Rightarrow> ('r, 'b) column list" where
  "visible_columns t v cs = filter (\<lambda>c. getIsVisible t v (col_id c)) cs"

text \<open>What a click on a row does, and the texts of a table without rows: title, description, offers.\<close>

datatype row_click = Open_page string | Open_detail | Stay

type_synonym placeholder = "string \<times> string option \<times> string list"

record ('r, 'b) paged_table =
  pt_columns :: "('r, 'b) column list"
  pt_skeleton :: "string list"
  pt_click :: "'r \<Rightarrow> row_click"
  pt_failed :: placeholder
  pt_no_match :: placeholder
  pt_none :: placeholder

datatype 'b table_view =
    Skeleton_table "string list" nat
  | Failed_table nat placeholder
  | Shown_table "(string option \<times> head_cell) list" "(row_click \<times> 'b table_cell list) list"
  | Empty_table "(string option \<times> head_cell) list" nat placeholder

definition render_table ::
  "column_ops \<Rightarrow> bool \<Rightarrow> bool \<Rightarrow> bool \<Rightarrow> visibility \<Rightarrow> sorting_state \<Rightarrow> 'r list \<Rightarrow> ('r, 'b) paged_table \<Rightarrow> 'b table_view" where
  "render_table t loading broken filtered v st rows p =
     (if loading then Skeleton_table (pt_skeleton p) 5
      else if broken then Failed_table (length (pt_columns p)) (pt_failed p)
      else
        (let cs = visible_columns t v (pt_columns p); heads = map (column_header t st) cs in
         if rows \<noteq> [] then Shown_table heads (map (\<lambda>r. (pt_click p r, map (\<lambda>c. col_cell c r) cs)) rows)
         else Empty_table heads (length (pt_columns p)) (if filtered then pt_no_match p else pt_none p)))"

definition TableError :: placeholder where
  "TableError = (''Failed to load data. Please try again.'', None, [''Try again''])"

definition no_match :: "string \<Rightarrow> placeholder" where
  "no_match what = (''No matching '' @ what @ ''.'', Some ''Try adjusting your filters.'', [''Clear filters''])"

definition packages_table :: "browser_text \<Rightarrow> WorkspaceRole option \<Rightarrow> (package_row, row_action) paged_table" where
  "packages_table bt role =
     \<lparr>pt_columns = package_columns bt role,
      pt_skeleton = [''Name'', ''Ecosystem'', ''Latest Version'', ''Popularity'', ''Source'', ''Status'', []],
      pt_click = (\<lambda>r. Open_page (ROUTES (PACKAGE_DETAIL (pw_id r)))),
      pt_failed = TableError, pt_no_match = no_match ''packages'',
      pt_none =
        (if hasMinimumRole role member
         then (''No packages found.'', Some ''Add your first package or discover popular packages to start monitoring.'',
               [''Add Package'', ''Discover Packages''])
         else (''No packages found.'', Some ''No packages are being monitored yet.'', []))\<rparr>"

definition suggestions_table :: "browser_text \<Rightarrow> bool \<Rightarrow> bool \<Rightarrow> bool \<Rightarrow> (package_row, suggestion_button) paged_table" where
  "suggestions_table bt canApprove approving rejecting =
     \<lparr>pt_columns = suggestion_columns bt canApprove approving rejecting,
      pt_skeleton = [''Name'', ''Ecosystem'', ''Popularity'', []],
      pt_click = (\<lambda>_. Stay), pt_failed = TableError, pt_no_match = no_match ''suggestions'',
      pt_none = (''No pending suggestions.'', Some ''Run discovery to find new packages to monitor.'', [])\<rparr>"

definition stale_table :: "browser_text \<Rightarrow> int \<Rightarrow> (stale_row, unit) paged_table" where
  "stale_table bt months =
     \<lparr>pt_columns = stale_columns bt,
      pt_skeleton = [''Name'', ''Ecosystem'', ''Latest Version'', ''Last Release'', ''Days Since'', ''Popularity''],
      pt_click = (\<lambda>r. Open_page (ROUTES (PACKAGE_DETAIL (pw_id r)))),
      pt_failed = TableError, pt_no_match = no_match ''stale packages'',
      pt_none = (''No stale packages.'',
        Some (''All monitored packages have had a release within the last '' @ show_int months @ '' months.''), [])\<rparr>"

definition releases_table :: "browser_text \<Rightarrow> (release_row, unit) paged_table" where
  "releases_table bt =
     \<lparr>pt_columns = release_columns bt,
      pt_skeleton = [''Package'', ''Ecosystem'', ''Version'', ''Published'', ''Analysis Status'', ''Classification''],
      pt_click = (\<lambda>r. Open_page (ROUTES (RELEASE_DETAIL (rw_id r)))),
      pt_failed = TableError, pt_no_match = no_match ''releases'',
      pt_none = (''No releases yet.'', Some ''Add packages to start monitoring releases.'', [''Go to Packages''])\<rparr>"

definition alerts_table :: "browser_text \<Rightarrow> WorkspaceRole option \<Rightarrow> (Alert, alert_button) paged_table" where
  "alerts_table bt role =
     \<lparr>pt_columns = alert_columns bt role,
      pt_skeleton = [''Severity'', ''Package'', ''Message'', ''Status'', ''Created'', []],
      pt_click = (\<lambda>a. Open_page (ROUTES (ALERT_DETAIL (a_id a)))),
      pt_failed = TableError, pt_no_match = (''No alerts match your filters.'', None, [''Clear Filters'']),
      pt_none = (''All clear!'', Some ''No alerts found. Your packages are looking safe.'', [''View Packages''])\<rparr>"

definition users_table :: "browser_text \<Rightarrow> string option \<Rightarrow> (user_row, prompt) paged_table" where
  "users_table bt self =
     \<lparr>pt_columns = user_columns bt self,
      pt_skeleton = [''Name'', ''Email'', ''Status'', ''Role'', ''Auth Provider'', ''Created'', []],
      pt_click = (\<lambda>_. Stay), pt_failed = TableError,
      pt_no_match = (''No users match your filters.'', None, [''Clear Filters'']),
      pt_none = (''No users found'', Some ''No users have been registered yet.'', [])\<rparr>"

definition audit_table :: "browser_text \<Rightarrow> (audit_row, unit) paged_table" where
  "audit_table bt =
     \<lparr>pt_columns = audit_log_columns bt,
      pt_skeleton = [''Timestamp'', ''Action'', ''Resource'', ''Details'', ''IP Address''],
      pt_click = (\<lambda>_. Open_detail),
      pt_failed = (''Failed to load audit logs.'', Some ''An error occurred while fetching data.'', [''Retry'']),
      pt_no_match = no_match ''audit logs'',
      pt_none = (''No audit logs found.'',
        Some ''Activity history will appear here as actions are performed in this workspace.'', [])\<rparr>"

definition platform_audit_table :: "browser_text \<Rightarrow> (audit_row, unit) paged_table" where
  "platform_audit_table bt =
     \<lparr>pt_columns = platform_audit_log_columns bt,
      pt_skeleton = [''Timestamp'', ''User'', ''Workspace'', ''Action'', ''Resource'', ''Details'', ''IP Address''],
      pt_click = (\<lambda>_. Open_detail), pt_failed = TableError, pt_no_match = no_match ''audit logs'',
      pt_none = (''No audit logs found.'', Some ''Activity history across all workspaces will appear here.'', [])\<rparr>"

section \<open>Columns and the width of the window\<close>

definition packageColumnBreakpoints :: "(string \<times> Breakpoint) list" where
  "packageColumnBreakpoints = [(''downloadCount'', desktop), (''source'', tablet), (''status'', tablet)]"

definition staleColumnBreakpoints :: "(string \<times> Breakpoint) list" where
  "staleColumnBreakpoints = [(''downloadCount'', desktop), (''latestVersion'', tablet)]"

definition releaseColumnBreakpoints :: "(string \<times> Breakpoint) list" where
  "releaseColumnBreakpoints = [(''publishedAt'', desktop), (''packageEcosystem'', tablet)]"

definition alertColumnBreakpoints :: "(string \<times> Breakpoint) list" where
  "alertColumnBreakpoints = [(''createdAt'', desktop), (''message'', tablet)]"

definition userColumnBreakpoints :: "(string \<times> Breakpoint) list" where
  "userColumnBreakpoints = [(''authMethod'', desktop), (''createdAt'', desktop)]"

definition platformAuditColumnBreakpoints :: "(string \<times> Breakpoint) list" where
  "platformAuditColumnBreakpoints = [(''userAgent'', desktop), (''correlationId'', desktop)]"

lemmas breakpoint_tables =
  packageColumnBreakpoints_def staleColumnBreakpoints_def releaseColumnBreakpoints_def alertColumnBreakpoints_def
  userColumnBreakpoints_def platformAuditColumnBreakpoints_def

definition fitting :: "int \<Rightarrow> (string \<times> Breakpoint) list \<Rightarrow> visibility" where
  "fitting w breakpoints = map_of (responsive_columns (useBreakpoint w) breakpoints)"

section \<open>The menu of columns\<close>

text \<open>An entry for every column that can be hidden: what it is called and whether it is ticked.\<close>

definition spaced_capitals :: "string \<Rightarrow> string" where
  "spaced_capitals s = trim (concat (map (\<lambda>c. if is_upper c then [CHR '' '', c] else [c]) s))"

definition column_label :: "('r, 'b) column \<Rightarrow> string" where
  "column_label c =
     (case meta_title c of
        Some name \<Rightarrow> name
      | None \<Rightarrow> if col_head c = Plain then col_title c else spaced_capitals (col_id c))"

definition toggle_menu :: "column_ops \<Rightarrow> visibility \<Rightarrow> ('r, 'b) column list \<Rightarrow> (string \<times> string \<times> bool) list" where
  "toggle_menu t v cs =
     map (\<lambda>c. (col_id c, column_label c, getIsVisible t v (col_id c))) (filter enableHiding cs)"

text \<open>A click on an entry: \<open>column.toggleVisibility(!column.getIsVisible())\<close>. Nothing else is offered. The table may
  be handed more than what the menu writes to: \<open>shown\<close> is what becomes of the state before it gets there.\<close>

definition toggle_click ::
  "column_ops \<Rightarrow> (visibility \<Rightarrow> visibility) \<Rightarrow> ('r, 'b) column list \<Rightarrow> string \<Rightarrow> visibility \<Rightarrow> visibility" where
  "toggle_click t shown cs i v =
     (if i \<in> fst ` set (toggle_menu t (shown v) cs)
      then toggleVisibility t i (\<not> getIsVisible t (shown v) i) v else v)"

definition initial_visibility :: visibility where
  "initial_visibility = [''details'' \<mapsto> False]"

section \<open>Lemmas\<close>

lemma column_contract_simps:
  assumes "column_contract t"
  shows "getIsSorted t st c = map_option sort_desc (find (\<lambda>e. sort_id e = c) st)"
    "getIsVisible t v c \<longleftrightarrow> v c \<noteq> Some False" "toggleVisibility t c b v = v(c \<mapsto> b)"
  using assms by (simp_all add: column_contract_def)

lemmas column_shapes = sort_column_def plain_column_def actions_column_def fixed_column_def

lemmas column_tables =
  package_columns_def suggestion_columns_def stale_columns_def release_columns_def alert_columns_def
  user_columns_def audit_log_columns_def platform_audit_log_columns_def

lemmas paged_tables =
  packages_table_def suggestions_table_def stale_table_def releases_table_def alerts_table_def users_table_def
  audit_table_def platform_audit_table_def

subsection \<open>Sort buttons and the backend\<close>

definition sort_buttons :: "('r, 'b) column list \<Rightarrow> string list" where
  "sort_buttons cs = map col_id (filter (\<lambda>c. col_head c = Sortable \<and> enableSorting c) cs)"

definition unknown_to :: "listing \<Rightarrow> string list \<Rightarrow> string list" where
  "unknown_to h ids = filter (\<lambda>i. i \<notin> fst ` set (sort_columns h)) ids"

text \<open>The buttons in the heads of the tables and the orders the backend knows. Every sort button of the tables of
  packages, suggestions, releases and alerts names an order its endpoint accepts. Of the other tables exactly these
  buttons name none, so that a click on one changes the arrows and not the rows: the days since the last release, the
  role and the way users sign in, user and workspace of the platform's log, and all of a workspace's log.\<close>

lemma sort_buttons_known:
  "unknown_to ListPackages (sort_buttons (package_columns bt role)) = [] \<and>
   unknown_to ListSuggestions (sort_buttons (suggestion_columns bt can x y)) = [] \<and>
   unknown_to ListRecentReleases (sort_buttons (release_columns bt)) = [] \<and>
   unknown_to ListAlerts (sort_buttons (alert_columns bt role)) = [] \<and>
   unknown_to ListStalePackages (sort_buttons (stale_columns bt)) = [''daysSinceLastRelease''] \<and>
   unknown_to HandleListUsers (sort_buttons (user_columns bt self)) = [''isSuperAdmin'', ''authMethod''] \<and>
   unknown_to ListAllAuditLogs (sort_buttons (platform_audit_log_columns bt)) = [''userEmail'', ''workspaceId''] \<and>
   unknown_to ListAuditLogs (sort_buttons (audit_log_columns bt)) = [''createdAt'', ''action'', ''resource'']"
  by (simp add: unknown_to_def sort_buttons_def column_tables column_shapes listing_defs)

lemma no_empty_order: "h \<in> {ListPackages, ListSuggestions, ListStalePackages, ListRecentReleases, ListAlerts,
    HandleListUsers, ListAllAuditLogs, ListAuditLogs} \<Longrightarrow> map_of (sort_columns h) [] = None"
  by (auto simp: listing_defs)

lemma known_order:
  assumes "unknown_to h ids = []" "i \<in> set ids"
  obtains col where "map_of (sort_columns h) i = Some col" "col \<in> snd ` set (sort_columns h)"
proof -
  have "i \<in> fst ` set (sort_columns h)" using assms by (auto simp: unknown_to_def filter_empty_conv)
  then obtain col where "map_of (sort_columns h) i = Some col"
    by (cases "map_of (sort_columns h) i") (auto simp: map_of_eq_None_iff)
  with that show ?thesis by (force dest: map_of_SomeD)
qed

lemma known_orderD:
  assumes "unknown_to h ids = []" "i \<in> set ids"
  shows "map_of (sort_columns h) i \<noteq> None"
  using known_order [OF assms] by blast

text \<open>The rows come in the order the head of the table shows: none and the default order, or a button's, up or down.\<close>

definition follows_arrows ::
  "listing \<Rightarrow> ('s list_state_scheme \<Rightarrow> api_call) \<Rightarrow> ('r, 'b) column list \<Rightarrow> 's list_state_scheme \<Rightarrow> bool" where
  "follows_arrows h request cs s \<longleftrightarrow>
     (let order = w_order (listing_window h (asked (request s))) in
      case sorting s of
        [] \<Rightarrow> order = default_order h
      | e # _ \<Rightarrow>
          sort_id e \<notin> set (sort_buttons cs) \<or>
          map_option (\<lambda>col. col @ (if sort_desc e then '' desc'' else '' asc'')) (map_of (sort_columns h) (sort_id e)) =
            Some order)"

lemma follows_arrowsI:
  assumes "paged_listing (\<lambda>s. asked (request s))" "map_of (sort_columns h) [] = None"
    "unknown_to h (sort_buttons cs) = []"
  shows "follows_arrows h request cs s"
proof (cases "sorting s")
  case (Cons e es)
  then show ?thesis
    using known_orderD [OF assms(3), of "sort_id e"]
    by (cases "map_of (sort_columns h) (sort_id e)")
      (auto simp: follows_arrows_def paged_listing.order_exact [OF assms(1,2), of s])
qed (simp add: follows_arrows_def paged_listing.order_exact [OF assms(1,2), of s])


subsection \<open>The head and its placeholder\<close>

fun shown_title :: "head_cell \<Rightarrow> string" where
  "shown_title (HeadText t) = t"
| "shown_title (SortButton t _) = t"
| "shown_title (SrText _) = []"

definition head_titles :: "column_ops \<Rightarrow> sorting_state \<Rightarrow> visibility \<Rightarrow> ('r, 'b) paged_table \<Rightarrow> string list" where
  "head_titles t st v p = map (\<lambda>c. shown_title (snd (column_header t st c))) (visible_columns t v (pt_columns p))"

lemma wide_breakpoint: "1024 \<le> w \<Longrightarrow> useBreakpoint w \<in> {desktop, xl}"
  by (simp add: useBreakpoint_def BREAKPOINT_tablet_def BREAKPOINT_desktop_def)

lemma fitting_wide:
  "1024 \<le> w \<Longrightarrow> list_all (\<lambda>(c, b). b \<in> {tablet, desktop}) bs \<Longrightarrow> fitting w bs c \<noteq> Some False"
  using wide_breakpoint [of w]
  by (induction bs) (auto simp: fitting_def responsive_columns_def isAtLeast_simps)

lemma head_titles_simps:
  assumes "column_contract t"
  shows "head_titles t st v (p :: ('r, 'b) paged_table) = map (\<lambda>c. if col_head c = ScreenReader then [] else col_title c)
    (filter (\<lambda>c. v (col_id c) \<noteq> Some False) (pt_columns p))"
proof -
  have "shown_title (snd (column_header t st c)) = (if col_head c = ScreenReader then [] else col_title c)"
    for c :: "('r, 'b) column"
    by (cases "col_head c") (simp_all add: column_header_def SortableHeader_def Let_def)
  then show ?thesis using assms by (simp add: head_titles_def visible_columns_def column_contract_simps)
qed

lemma head_titles_all:
  assumes "column_contract t" "\<And>c. v c \<noteq> Some False"
  shows "head_titles t st v p = map (\<lambda>c. if col_head c = ScreenReader then [] else col_title c) (pt_columns p)"
  using assms by (simp add: head_titles_simps)

text \<open>The placeholder of a table announces the columns that come. On a window at least 1024 pixels wide it has the
  heads of the table, in their order, in the tables of packages, suggestions, stale packages, releases, alerts and
  users; those of the two audit logs announce the column of details too, which is hidden until its entry in the menu is
  ticked.\<close>

theorem skeleton_announces:
  assumes "column_contract t" "1024 \<le> w"
  shows "head_titles t st (fitting w packageColumnBreakpoints) (packages_table bt role) = pt_skeleton (packages_table bt role) \<and>
    head_titles t st Map.empty (suggestions_table bt can x y) = pt_skeleton (suggestions_table bt can x y) \<and>
    head_titles t st (fitting w staleColumnBreakpoints) (stale_table bt months) = pt_skeleton (stale_table bt months) \<and>
    head_titles t st (fitting w releaseColumnBreakpoints) (releases_table bt) = pt_skeleton (releases_table bt) \<and>
    head_titles t st (fitting w alertColumnBreakpoints) (alerts_table bt role) = pt_skeleton (alerts_table bt role) \<and>
    head_titles t st (fitting w userColumnBreakpoints) (users_table bt self) = pt_skeleton (users_table bt self) \<and>
    head_titles t st initial_visibility (audit_table bt) = remove1 ''Details'' (pt_skeleton (audit_table bt)) \<and>
    head_titles t st (initial_visibility ++ fitting w platformAuditColumnBreakpoints) (platform_audit_table bt) =
      remove1 ''Details'' (pt_skeleton (platform_audit_table bt))"
proof -
  have "fitting w platformAuditColumnBreakpoints c = None" if "c \<notin> {''userAgent'', ''correlationId''}" for c
    using that by (simp add: fitting_def responsive_columns_def platformAuditColumnBreakpoints_def)
  then have platform: "head_titles t st (initial_visibility ++ fitting w platformAuditColumnBreakpoints) (platform_audit_table bt) =
      remove1 ''Details'' (pt_skeleton (platform_audit_table bt))"
    by (simp add: head_titles_simps [OF assms(1)] paged_tables column_tables column_shapes initial_visibility_def
        map_add_def)
  have wide: "\<And>c. fitting w packageColumnBreakpoints c \<noteq> Some False" "\<And>c. fitting w staleColumnBreakpoints c \<noteq> Some False"
    "\<And>c. fitting w releaseColumnBreakpoints c \<noteq> Some False" "\<And>c. fitting w alertColumnBreakpoints c \<noteq> Some False"
    "\<And>c. fitting w userColumnBreakpoints c \<noteq> Some False"
    by (intro fitting_wide assms(2); simp add: breakpoint_tables)+
  have audit: "head_titles t st initial_visibility (audit_table bt) = remove1 ''Details'' (pt_skeleton (audit_table bt))"
    by (simp add: head_titles_simps [OF assms(1)] paged_tables column_tables column_shapes initial_visibility_def)
  show ?thesis
    by (intro conjI platform audit)
      (simp_all add: head_titles_all [OF assms(1)] wide paged_tables column_tables column_shapes)
qed

definition sample_text :: browser_text where
  "sample_text = \<lparr>toLocaleDateString = id, toLocaleString = id, rounds_up = (\<lambda>_ _. True), date_value = (\<lambda>_. None), now_ms = 0\<rparr>"

lemma skeleton_announces_witness:
  "head_titles sample_ops [] (fitting 1280 userColumnBreakpoints) (users_table sample_text None) =
     [''Name'', ''Email'', ''Status'', ''Role'', ''Auth Provider'', ''Created'', []]"
  using skeleton_announces [OF sample_ops_contract, of 1280 "[]" sample_text None False False False 1 None]
  by (simp add: users_table_def)

subsection \<open>The menu of columns\<close>

lemma toggle_click_visible:
  assumes "column_contract t" "\<And>v. shown v = v ++ m" "set (map col_id (filter enableHiding cs)) \<inter> dom m = {}"
  shows "getIsVisible t (shown (toggle_click t shown cs i v)) c \<longleftrightarrow>
    (getIsVisible t (shown v) c \<noteq> (c = i \<and> c \<in> set (map col_id (filter enableHiding cs))))"
proof -
  have "fst ` set (toggle_menu t (shown v) cs) = set (map col_id (filter enableHiding cs))"
    by (simp add: toggle_menu_def image_image)
  moreover have "m i = None" if "i \<in> set (map col_id (filter enableHiding cs))"
    using that assms(3) by (auto simp: domIff)
  ultimately show ?thesis
    using assms(2)
    by (auto simp: toggle_click_def column_contract_simps [OF assms(1)] map_add_def split: option.splits)
qed

lemma toggle_clicks_visible:
  assumes "column_contract t" "\<And>v. shown v = v ++ m" "set (map col_id (filter enableHiding cs)) \<inter> dom m = {}"
  shows "getIsVisible t (shown (fold (toggle_click t shown cs) clicks v)) c \<longleftrightarrow>
    (getIsVisible t (shown v) c \<noteq> (c \<in> set (map col_id (filter enableHiding cs)) \<and> odd (count_list clicks c)))"
  by (induction clicks arbitrary: v) (auto simp: toggle_click_visible [OF assms])

text \<open>C33: The menu of columns does what its ticks say, and no more. After any clicks in the audit log of a workspace,
  the columns of time, action and resource are on the screen, the address is unless its entry was clicked an odd
  number of times, and the details are if theirs was. In the log of the platform the user stays as well and the
  workspace can be hidden, at every width of the window.\<close>

theorem column_menu_exact:
  assumes "column_contract t"
  shows "map col_id (visible_columns t (fold (toggle_click t id (audit_log_columns bt)) clicks initial_visibility)
        (audit_log_columns bt)) =
      [''createdAt'', ''action'', ''resource''] @ (if odd (count_list clicks ''details'') then [''details''] else []) @
      (if even (count_list clicks ''ipAddress'') then [''ipAddress''] else []) \<and>
    map col_id (visible_columns t
        (fold (toggle_click t (\<lambda>v. v ++ fitting w platformAuditColumnBreakpoints) (platform_audit_log_columns bt)) clicks
           initial_visibility ++ fitting w platformAuditColumnBreakpoints) (platform_audit_log_columns bt)) =
      [''createdAt'', ''userEmail''] @ (if even (count_list clicks ''workspaceId'') then [''workspaceId''] else []) @
      [''action'', ''resource''] @ (if odd (count_list clicks ''details'') then [''details''] else []) @
      (if even (count_list clicks ''ipAddress'') then [''ipAddress''] else [])"
proof -
  have hide: "map col_id (filter enableHiding (audit_log_columns bt)) = [''details'', ''ipAddress'']"
    "map col_id (filter enableHiding (platform_audit_log_columns bt)) = [''workspaceId'', ''details'', ''ipAddress'']"
    by (simp_all add: column_tables column_shapes)
  have start: "getIsVisible t initial_visibility c \<longleftrightarrow> c \<noteq> ''details''" for c
    by (simp add: column_contract_simps [OF assms] initial_visibility_def)
  have "getIsVisible t (id (fold (toggle_click t id (audit_log_columns bt)) clicks initial_visibility)) c \<longleftrightarrow>
      (getIsVisible t (id initial_visibility) c \<noteq>
       (c \<in> set (map col_id (filter enableHiding (audit_log_columns bt))) \<and> odd (count_list clicks c)))" for c
    by (rule toggle_clicks_visible [OF assms, of id Map.empty]) simp_all
  then have workspace: "map col_id (visible_columns t
        (fold (toggle_click t id (audit_log_columns bt)) clicks initial_visibility) (audit_log_columns bt)) =
      [''createdAt'', ''action'', ''resource''] @ (if odd (count_list clicks ''details'') then [''details''] else []) @
      (if even (count_list clicks ''ipAddress'') then [''ipAddress''] else [])"
    by (simp add: visible_columns_def hide start) (simp add: audit_log_columns_def column_shapes)
  have m: "fitting w platformAuditColumnBreakpoints c = None" if "c \<notin> {''userAgent'', ''correlationId''}" for c
    using that by (simp add: fitting_def responsive_columns_def platformAuditColumnBreakpoints_def)
  then have "set (map col_id (filter enableHiding (platform_audit_log_columns bt))) \<inter>
      dom (fitting w platformAuditColumnBreakpoints) = {}"
    by (auto simp: hide domIff)
  note eff = toggle_clicks_visible [OF assms _ this, of "\<lambda>v. v ++ fitting w platformAuditColumnBreakpoints" clicks
      initial_visibility, simplified hide, OF refl]
  have "getIsVisible t (initial_visibility ++ fitting w platformAuditColumnBreakpoints) c \<longleftrightarrow> c \<noteq> ''details''"
    if "c \<notin> {''userAgent'', ''correlationId''}" for c
    using m [OF that] by (simp add: column_contract_simps [OF assms] initial_visibility_def map_add_def)
  with eff workspace show ?thesis
    by (simp add: visible_columns_def platform_audit_log_columns_def column_shapes)
qed

lemma column_menu_exact_witness:
  "map col_id (visible_columns sample_ops
      (fold (toggle_click sample_ops id (audit_log_columns sample_text)) [''details'', ''action'', ''ipAddress''] initial_visibility)
      (audit_log_columns sample_text)) = [''createdAt'', ''action'', ''resource'', ''details'']"
  using column_menu_exact [OF sample_ops_contract, where bt = sample_text and clicks = "[''details'', ''action'', ''ipAddress'']"]
  by simp

subsection \<open>Nothing is lost on a narrow screen\<close>

text \<open>A click on an audit entry shows whatever the table has to hide. Every value a column of either audit log shows
  for an entry, the time apart, which the dialog writes out in its own form, is the value of a field of the dialog,
  on a phone and elsewhere, whichever columns are hidden; a dash stands for a value the entry does not have.\<close>

theorem detail_shows_every_column:
  "list_all (\<lambda>c. case col_cell c r of
       Txt v \<Rightarrow> v = ''-'' \<or> v \<in> snd ` set (AuditLogDetailContent time r)
     | Tag _ v \<Rightarrow> v \<in> snd ` set (AuditLogDetailContent time r)
     | _ \<Rightarrow> False)
     (filter (\<lambda>c. col_id c \<noteq> ''createdAt'') (audit_log_columns bt @ platform_audit_log_columns bt)) \<and>
   AuditLogDetailDialog time True (Some r) = Detail_sheet (ar_action r @ '' - '' @ ar_resource r) (AuditLogDetailContent time r) \<and>
   AuditLogDetailDialog time False (Some r) = Detail_dialog (ar_action r @ '' - '' @ ar_resource r) (AuditLogDetailContent time r)"
  by (simp add: column_tables column_shapes AuditLogDetailContent_def AuditLogDetailDialog_def field_of_def or_dash_def)

end
