(* ===== verification/Api_Keys_Page.thy ===== *)
theory Api_Keys_Page
  imports Account_Views Guarded_Dialog
begin

text \<open>
  The page of API keys as a machine (\<open>features/account/ui/api-keys-view.tsx\<close>): its table, the controls it offers in each
  state, what they send and what the answers do. Over the page lie the form that makes a key, the warning about an
  elevated role, the dialog that shows a new key once and the dialog that confirms a deletion. The form's handlers are
  those of \<open>Account_Views\<close>.
\<close>

section \<open>The table\<close>

record ApiKeyInfo =
  ki_id :: string
  ki_name :: string
  ki_keyPrefix :: string
  ki_role :: "WorkspaceRole option"
  ki_lastUsedAt :: "string option"
  ki_expiresAt :: "string option"
  ki_isActive :: bool
  ki_createdAt :: string

definition roleBadgeVariant :: "WorkspaceRole \<Rightarrow> string" where
  "roleBadgeVariant r =
     (case r of owner \<Rightarrow> ''destructive'' | admin \<Rightarrow> ''destructive'' | member \<Rightarrow> ''default'' | viewer \<Rightarrow> ''secondary'')"

definition key_role :: "ApiKeyInfo \<Rightarrow> WorkspaceRole" where
  "key_role k = (case ki_role k of Some r \<Rightarrow> r | None \<Rightarrow> member)"

definition or_never :: "(string \<Rightarrow> string) \<Rightarrow> string option \<Rightarrow> string" where
  "or_never date v = (case v of Some (c # cs) \<Rightarrow> date (c # cs) | _ \<Rightarrow> ''Never'')"

text \<open>The heads, with the width a column needs, and the texts of a row; the last cell has the button.\<close>

definition keys_head :: "(string \<times> string) list" where
  "keys_head =
     [(''Name'', []), (''Key Prefix'', []), (''Role'', []), (''Status'', []), (''Last Used'', ''lg''), (''Expires'', ''md''),
      (''Created'', ''md''), (''Actions'', [])]"

definition key_row :: "(string \<Rightarrow> string) \<Rightarrow> ApiKeyInfo \<Rightarrow> (string \<times> string) list" where
  "key_row date k =
     [(ki_name k, []), (ki_keyPrefix k @ ''...'', []), (role_name (key_role k), []),
      (if ki_isActive k then ''Active'' else ''Revoked'', []), (or_never date (ki_lastUsedAt k), ''lg''),
      (or_never date (ki_expiresAt k), ''md''), (date (ki_createdAt k), ''md''), (''Delete API key '' @ ki_name k, [])]"

definition apiKeysSkeletonColumns :: "string list" where
  "apiKeysSkeletonColumns =
     [''Name'', ''Key Prefix'', ''Role'', ''Status'', ''Last Used'', ''Expires'', ''Created'', []]"

definition key_delete_details :: "(string \<Rightarrow> string) \<Rightarrow> ApiKeyInfo \<Rightarrow> (string \<times> string) list" where
  "key_delete_details date k =
     [(''Name'', ki_name k), (''Key Prefix'', ki_keyPrefix k @ ''...''), (''Role'', role_name (key_role k)),
      (''Created'', date (ki_createdAt k))]"

section \<open>The page\<close>

record keys_page =
  kp_role :: "WorkspaceRole option"        \<comment> \<open>\<open>currentRole\<close>\<close>
  kp_keys :: "ApiKeyInfo list"
  kp_loading :: bool
  kp_failed :: bool
  kp_view :: keys_view
  kp_dateOpen :: bool
  kp_copied :: bool
  kp_creating :: bool                      \<comment> \<open>\<open>createMutation.isPending\<close>\<close>
  kp_deleting :: bool                      \<comment> \<open>\<open>pending\<close> of the confirmation dialog\<close>

definition mount_keys_page :: "WorkspaceRole option \<Rightarrow> keys_page" where
  "mount_keys_page r =
     \<lparr>kp_role = r, kp_keys = [], kp_loading = True, kp_failed = False, kp_view = mount_keys, kp_dateOpen = False,
      kp_copied = False, kp_creating = False, kp_deleting = False\<rparr>"

datatype key_control =
    NewKey | EmptyStateCreate | TryAgain | DeleteKey ApiKeyInfo
  | NameInput string | RoleOption WorkspaceRole | OpenExpiry | DayCell "int option" | HourItem nat | MinuteItem nat
  | ExpiryConfirm | CreateKey | DismissCreate
  | ElevatedCancel | ElevatedContinue
  | CopyKey | KeyDone
  | DeleteCancel | DeleteDismiss | DeleteConfirm

text \<open>What lies over the page. The form goes when the user may no longer create keys; the others stay.\<close>

definition form_shown :: "keys_page \<Rightarrow> bool" where
  "form_shown p \<longleftrightarrow> can_create_key (kp_role p) \<and> kv_createOpen (kp_view p)"

definition delete_shown :: "keys_page \<Rightarrow> bool" where
  "delete_shown p \<longleftrightarrow> kv_deleteTarget (kp_view p) \<noteq> None"

definition overlaid :: "keys_page \<Rightarrow> bool" where
  "overlaid p \<longleftrightarrow> form_shown p \<or> kv_pendingRole (kp_view p) \<noteq> None \<or> kv_showKey (kp_view p) \<or> delete_shown p"

text \<open>Whether the page offers a control: those of the table when nothing lies over it, those of a form or dialog when it
  is there. \<open>today\<close> is the first day the calendar offers.\<close>

definition keys_offered :: "int \<Rightarrow> keys_page \<Rightarrow> key_control \<Rightarrow> bool" where
  "keys_offered today p c =
     (case c of
        NewKey \<Rightarrow> \<not> overlaid p \<and> can_create_key (kp_role p)
      | EmptyStateCreate \<Rightarrow>
          \<not> overlaid p \<and> \<not> kp_loading p \<and> \<not> kp_failed p \<and> kp_keys p = [] \<and> can_create_key (kp_role p)
      | TryAgain \<Rightarrow> \<not> overlaid p \<and> \<not> kp_loading p \<and> kp_failed p
      | DeleteKey k \<Rightarrow> \<not> overlaid p \<and> \<not> kp_loading p \<and> \<not> kp_failed p \<and> k \<in> set (kp_keys p)
      | NameInput _ \<Rightarrow> form_shown p
      | RoleOption r \<Rightarrow> form_shown p \<and> r \<in> set (availableRoles (kp_role p))
      | OpenExpiry \<Rightarrow> form_shown p
      | DayCell d \<Rightarrow> form_shown p \<and> kp_dateOpen p \<and> (case d of None \<Rightarrow> True | Some d \<Rightarrow> \<not> date_disabled today d)
      | HourItem h \<Rightarrow> form_shown p \<and> kp_dateOpen p \<and> h \<in> set hour_options
      | MinuteItem m \<Rightarrow> form_shown p \<and> kp_dateOpen p \<and> m \<in> set minute_options
      | ExpiryConfirm \<Rightarrow> form_shown p \<and> kp_dateOpen p
      | CreateKey \<Rightarrow> form_shown p \<and> \<not> kp_creating p
      | DismissCreate \<Rightarrow> form_shown p
      | ElevatedCancel \<Rightarrow> kv_pendingRole (kp_view p) \<noteq> None
      | ElevatedContinue \<Rightarrow> kv_pendingRole (kp_view p) \<noteq> None
      | CopyKey \<Rightarrow> kv_showKey (kp_view p)
      | KeyDone \<Rightarrow> kv_showKey (kp_view p)
      | DeleteCancel \<Rightarrow> delete_shown p \<and> \<not> kp_deleting p
      | DeleteDismiss \<Rightarrow> delete_shown p
      | DeleteConfirm \<Rightarrow> delete_shown p \<and> \<not> kp_deleting p)"

text \<open>What leaves the page: requests, and texts for the clipboard.\<close>

datatype key_effect = Sent api_call | Clipboard string

definition on_form :: "(keys_view \<Rightarrow> keys_view) \<Rightarrow> keys_page \<Rightarrow> key_effect list \<times> keys_page" where
  "on_form f p = ([], p\<lparr>kp_view := f (kp_view p)\<rparr>)"

fun key_press ::
  "(reading \<Rightarrow> reading) \<Rightarrow> (reading \<Rightarrow> string) \<Rightarrow> key_control \<Rightarrow> keys_page \<Rightarrow> key_effect list \<times> keys_page" where
  "key_press clock toISO NewKey p = on_form (\<lambda>s. s\<lparr>kv_createOpen := True\<rparr>) p"
| "key_press clock toISO EmptyStateCreate p = on_form (\<lambda>s. s\<lparr>kv_createOpen := True\<rparr>) p"
| "key_press clock toISO TryAgain p = ([], p)"
| "key_press clock toISO (DeleteKey k) p = on_form (\<lambda>s. s\<lparr>kv_deleteTarget := Some (ki_id k)\<rparr>) p"
| "key_press clock toISO (NameInput v) p = on_form (change_key_name v) p"
| "key_press clock toISO (RoleOption r) p = on_form (handleRoleSelect r) p"
| "key_press clock toISO OpenExpiry p = ([], p\<lparr>kp_dateOpen := True\<rparr>)"
| "key_press clock toISO (DayCell d) p = on_form (select_date clock d) p"
| "key_press clock toISO (HourItem h) p = on_form (select_hour clock h) p"
| "key_press clock toISO (MinuteItem m) p = on_form (select_minute clock m) p"
| "key_press clock toISO ExpiryConfirm p = ([], p\<lparr>kp_dateOpen := False\<rparr>)"
| "key_press clock toISO CreateKey p =
     (case submit_key toISO (kp_view p) of
        (None, s) \<Rightarrow> ([], p\<lparr>kp_view := s\<rparr>)
      | (Some call, s) \<Rightarrow> ([Sent call], p\<lparr>kp_view := s, kp_creating := True\<rparr>))"
| "key_press clock toISO DismissCreate p = on_form (\<lambda>s. s\<lparr>kv_createOpen := False\<rparr>) p"
| "key_press clock toISO ElevatedCancel p = on_form handleCancelElevatedRole p"
| "key_press clock toISO ElevatedContinue p = on_form handleConfirmElevatedRole p"
| "key_press clock toISO CopyKey p = ([Clipboard (kv_newKey (kp_view p))], p\<lparr>kp_copied := True\<rparr>)"
| "key_press clock toISO KeyDone p = on_form (\<lambda>s. s\<lparr>kv_showKey := False\<rparr>) p"
| "key_press clock toISO DeleteCancel p = on_form (\<lambda>s. s\<lparr>kv_deleteTarget := None\<rparr>) p"
| "key_press clock toISO DeleteDismiss p = on_form (\<lambda>s. s\<lparr>kv_deleteTarget := None\<rparr>) p"
| "key_press clock toISO DeleteConfirm p =
     (case confirm_delete_key (kp_view p) of
        None \<Rightarrow> ([], p) | Some call \<Rightarrow> ([Sent call], p\<lparr>kp_deleting := True\<rparr>))"

text \<open>Answers, timers and new data. A deletion that succeeds closes the dialog, whichever key it is open for.\<close>

datatype keys_event =
    Press key_control
  | KeyMade string | KeyNotMade thrown
  | DeleteAnswered bool
  | CopiedTimeout
  | KeysFetched "ApiKeyInfo list" bool bool
  | RoleNow "WorkspaceRole option"

fun keys_step ::
  "int \<Rightarrow> (reading \<Rightarrow> reading) \<Rightarrow> (reading \<Rightarrow> string) \<Rightarrow> (keys_event, keys_page, key_effect) machine" where
  "keys_step today clock toISO (Press c) p = (if keys_offered today p c then Some (key_press clock toISO c p) else None)"
| "keys_step today clock toISO (KeyMade k) p =
     (if kp_creating p then Some ([], p\<lparr>kp_view := key_created k (kp_view p), kp_creating := False\<rparr>) else None)"
| "keys_step today clock toISO (KeyNotMade e) p =
     (if kp_creating p then Some ([], p\<lparr>kp_view := key_refused e (kp_view p), kp_creating := False\<rparr>) else None)"
| "keys_step today clock toISO (DeleteAnswered ok) p =
     (if kp_deleting p
      then Some ([], p\<lparr>kp_view := (if ok then (kp_view p)\<lparr>kv_deleteTarget := None\<rparr> else kp_view p), kp_deleting := False\<rparr>)
      else None)"
| "keys_step today clock toISO CopiedTimeout p = (if kp_copied p then Some ([], p\<lparr>kp_copied := False\<rparr>) else None)"
| "keys_step today clock toISO (KeysFetched ks loading erroneous) p =
     Some ([], p\<lparr>kp_keys := ks, kp_loading := loading, kp_failed := erroneous\<rparr>)"
| "keys_step today clock toISO (RoleNow r) p = Some ([], p\<lparr>kp_role := r\<rparr>)"

text \<open>The key on the screen.\<close>

definition secret_shown :: "keys_page \<Rightarrow> string option" where
  "secret_shown p = (if kv_showKey (kp_view p) then Some (kv_newKey (kp_view p)) else None)"

section \<open>Lemmas\<close>

lemma keys_table_fits:
  "map snd (key_row date k) = map snd keys_head \<and> length apiKeysSkeletonColumns = length keys_head \<and> length keys_head = 8"
  by (simp add: key_row_def keys_head_def apiKeysSkeletonColumns_def)

lemma submit_keeps:
  "kv_newKey (snd (submit_key toISO s)) = kv_newKey s" "kv_showKey (snd (submit_key toISO s)) = kv_showKey s"
  "kv_deleteTarget (snd (submit_key toISO s)) = kv_deleteTarget s"
  by (simp_all add: submit_key_def Let_def)

lemma create_press:
  "fst (key_press clock toISO CreateKey p) = (case fst (submit_key toISO (kp_view p)) of None \<Rightarrow> [] | Some call \<Rightarrow> [Sent call])"
  "kp_view (snd (key_press clock toISO CreateKey p)) = snd (submit_key toISO (kp_view p))"
  by (auto split: prod.splits option.splits)

lemma delete_press:
  "fst (key_press clock toISO DeleteConfirm p) =
     (case kv_deleteTarget (kp_view p) of None \<Rightarrow> [] | Some i \<Rightarrow> [Sent (m_call useDeleteApiKey i)])"
  "kp_view (snd (key_press clock toISO DeleteConfirm p)) = kp_view p"
  by (auto simp: confirm_delete_key_def split: option.splits)

lemma handlers_keep:
  "kv_newKey (change_key_name v s) = kv_newKey s" "kv_showKey (change_key_name v s) = kv_showKey s"
  "kv_deleteTarget (change_key_name v s) = kv_deleteTarget s"
  "kv_newKey (handleRoleSelect r s) = kv_newKey s" "kv_showKey (handleRoleSelect r s) = kv_showKey s"
  "kv_deleteTarget (handleRoleSelect r s) = kv_deleteTarget s"
  "kv_newKey (handleConfirmElevatedRole s) = kv_newKey s" "kv_showKey (handleConfirmElevatedRole s) = kv_showKey s"
  "kv_deleteTarget (handleConfirmElevatedRole s) = kv_deleteTarget s"
  "kv_newKey (handleCancelElevatedRole s) = kv_newKey s" "kv_showKey (handleCancelElevatedRole s) = kv_showKey s"
  "kv_deleteTarget (handleCancelElevatedRole s) = kv_deleteTarget s"
  "kv_newKey (select_date clock d s) = kv_newKey s" "kv_showKey (select_date clock d s) = kv_showKey s"
  "kv_deleteTarget (select_date clock d s) = kv_deleteTarget s"
  "kv_newKey (select_hour clock h s) = kv_newKey s" "kv_showKey (select_hour clock h s) = kv_showKey s"
  "kv_deleteTarget (select_hour clock h s) = kv_deleteTarget s"
  "kv_newKey (select_minute clock h s) = kv_newKey s" "kv_showKey (select_minute clock h s) = kv_showKey s"
  "kv_deleteTarget (select_minute clock h s) = kv_deleteTarget s"
  by (simp_all add: change_key_name_def handleRoleSelect_def handleConfirmElevatedRole_def
      handleCancelElevatedRole_def select_date_def select_hour_def select_minute_def Let_def split: option.splits prod.splits)

lemmas press_rules = create_press delete_press submit_keeps handlers_keep

declare key_press.simps(12,20) [simp del]

lemma press_keeps:
  "kv_newKey (kp_view (snd (key_press clock toISO c p))) = kv_newKey (kp_view p)"
  "kv_showKey (kp_view (snd (key_press clock toISO c p))) \<longleftrightarrow> kv_showKey (kp_view p) \<and> c \<noteq> KeyDone"
  "kv_deleteTarget (kp_view (snd (key_press clock toISO c p))) =
     (case c of
        DeleteKey k \<Rightarrow> Some (ki_id k) | DeleteCancel \<Rightarrow> None | DeleteDismiss \<Rightarrow> None
      | _ \<Rightarrow> kv_deleteTarget (kp_view p))"
  by (cases c; simp add: on_form_def press_rules)+

lemma key_calls [simp]:
  "m_call useCreateApiKey d \<noteq> m_call useDeleteApiKey i" "m_call useDeleteApiKey i \<noteq> m_call useCreateApiKey d"
  "m_call useDeleteApiKey i = m_call useDeleteApiKey j \<longleftrightarrow> i = j"
  by (auto simp: useCreateApiKey_def useDeleteApiKey_def apiCreateApiKey_def apiDeleteApiKey_def api_send_def)

lemma submit_sends:
  "fst (submit_key toISO s) \<noteq> Some (m_call useDeleteApiKey i)" "Some (m_call useDeleteApiKey i) \<noteq> fst (submit_key toISO s)"
  by (auto simp: submit_key_def Let_def)

lemma key_press_sends:
  "Sent (m_call useDeleteApiKey i) \<in> set (fst (key_press clock toISO c p)) \<longleftrightarrow>
     c = DeleteConfirm \<and> kv_deleteTarget (kp_view p) = Some i"
  "Clipboard k \<in> set (fst (key_press clock toISO c p)) \<longleftrightarrow> c = CopyKey \<and> k = kv_newKey (kp_view p)"
  subgoal by (cases c) (auto simp: on_form_def press_rules submit_sends split: option.splits)
  subgoal by (cases c) (simp_all add: on_form_def press_rules split: option.splits)
  done

lemma key_answers:
  "kv_deleteTarget (key_created k s) = kv_deleteTarget s" "kv_deleteTarget (key_refused e s) = kv_deleteTarget s"
  "kv_showKey (key_created k s)" "kv_showKey (key_refused e s) = kv_showKey s"
  "kv_newKey (key_created k s) = k" "kv_newKey (key_refused e s) = kv_newKey s"
  by (simp_all add: key_created_def key_refused_def)

lemma key_step_press:
  "keys_step today clock toISO (Press c) p = Some (qs, u) \<longleftrightarrow>
     keys_offered today p c \<and> qs = fst (key_press clock toISO c p) \<and> u = snd (key_press clock toISO c p)"
  by (auto simp: prod_eq_iff split: if_splits)

lemmas step_facts = key_step_press press_keeps key_press_sends key_answers

declare keys_step.simps(1) [simp del] key_press.simps [simp del]

section \<open>The two dialogs\<close>

text \<open>The dialog of a deletion, open for the key with id \<open>i\<close>.\<close>

definition deletes_opened :: "string \<Rightarrow> keys_event \<Rightarrow> bool" where
  "deletes_opened i e = (case e of Press (DeleteKey k) \<Rightarrow> ki_id k = i | _ \<Rightarrow> False)"

definition deletes_closed :: "keys_event \<Rightarrow> bool" where
  "deletes_closed e = (case e of Press c \<Rightarrow> c \<in> {DeleteCancel, DeleteDismiss} | DeleteAnswered ok \<Rightarrow> ok | _ \<Rightarrow> False)"

interpretation key_delete: guarded_dialog "keys_step today clock toISO" "\<lambda>p. p = mount_keys_page (kp_role p)"
  "\<lambda>p. kv_deleteTarget (kp_view p) = Some i" "deletes_opened i" deletes_closed
  "\<lambda>r. r = Sent (m_call useDeleteApiKey i)" for today clock toISO i
proof unfold_locales
  fix p assume "p = mount_keys_page (kp_role p)"
  then show "kv_deleteTarget (kp_view p) \<noteq> Some i"
    by (metis keys_page.select_convs(5) keys_view.select_convs(13) mount_keys_def mount_keys_page_def option.distinct(1))
next
  fix e p rs t assume "keys_step today clock toISO e p = Some (rs, t)" "kv_deleteTarget (kp_view t) = Some i"
  then show "kv_deleteTarget (kp_view p) = Some i \<or> deletes_opened i e"
    by (cases e) (auto simp: step_facts deletes_opened_def split: if_splits key_control.splits)
next
  fix e p rs t assume "keys_step today clock toISO e p = Some (rs, t)" "deletes_closed e"
  then show "kv_deleteTarget (kp_view t) \<noteq> Some i"
    by (cases e) (auto simp: step_facts deletes_closed_def split: if_splits)
next
  fix e p rs t r assume "keys_step today clock toISO e p = Some (rs, t)" "r \<in> set rs" "r = Sent (m_call useDeleteApiKey i)"
  then show "kv_deleteTarget (kp_view p) = Some i"
    by (cases e) (auto simp: step_facts split: if_splits)
qed

text \<open>The dialog with a new key.\<close>

definition secret_replaced :: "string \<Rightarrow> keys_event \<Rightarrow> bool" where
  "secret_replaced k e = (case e of Press c \<Rightarrow> c = KeyDone | KeyMade k' \<Rightarrow> k' \<noteq> k | _ \<Rightarrow> False)"

interpretation key_secret: guarded_dialog "keys_step today clock toISO" "\<lambda>p. p = mount_keys_page (kp_role p)"
  "\<lambda>p. secret_shown p = Some k" "\<lambda>e. e = KeyMade k" "secret_replaced k" "\<lambda>r. r = Clipboard k" for today clock toISO k
proof unfold_locales
  fix p assume "p = mount_keys_page (kp_role p)"
  then have "\<not> kv_showKey (kp_view p)"
    by (metis keys_page.select_convs(5) keys_view.select_convs(11) mount_keys_def mount_keys_page_def)
  then show "secret_shown p \<noteq> Some k" by (simp add: secret_shown_def)
next
  fix e p rs t assume "keys_step today clock toISO e p = Some (rs, t)" "secret_shown t = Some k"
  then show "secret_shown p = Some k \<or> e = KeyMade k"
    by (cases e) (auto simp: step_facts secret_shown_def split: if_splits)
next
  fix e p rs t assume "keys_step today clock toISO e p = Some (rs, t)" "secret_replaced k e"
  then show "secret_shown t \<noteq> Some k"
    by (cases e) (auto simp: step_facts secret_shown_def secret_replaced_def split: if_splits)
next
  fix e p rs t r assume "keys_step today clock toISO e p = Some (rs, t)" "r \<in> set rs" "r = Clipboard k"
  then show "secret_shown p = Some k"
    by (cases e) (auto simp: step_facts secret_shown_def keys_offered_def split: if_splits)
qed

section \<open>What the page guarantees\<close>

text \<open>C34: An API key is deleted only through its own dialog. Whenever the page sends the request that deletes a key,
  the delete button of a key with that id was pressed before, and since then the dialog was neither cancelled nor
  dismissed, and no deletion closed it.\<close>

theorem key_deletion_confirmed:
  assumes "run_page (keys_step today clock toISO) es (mount_keys_page role) = Some (rs, p)"
    and "keys_step today clock toISO e p = Some (qs, u)" and "Sent (m_call useDeleteApiKey i) \<in> set qs"
  shows "\<exists>pre k post. es = pre @ Press (DeleteKey k) # post \<and> ki_id k = i \<and> list_all (\<lambda>e. \<not> deletes_closed e) post"
proof -
  have "mount_keys_page role = mount_keys_page (kp_role (mount_keys_page role))" by (simp add: mount_keys_page_def)
  from key_delete.sent_confirmed [OF this assms(1,2,3)] obtain pre d post
    where es: "es = pre @ d # post" and d: "deletes_opened i d" and post: "list_all (\<lambda>e. \<not> deletes_closed e) post" by blast
  from d obtain k where "d = Press (DeleteKey k)" "ki_id k = i"
    by (auto simp: deletes_opened_def split: keys_event.splits key_control.splits)
  with es post show ?thesis by blast
qed

definition sample_key :: "string \<Rightarrow> ApiKeyInfo" where
  "sample_key i =
     \<lparr>ki_id = i, ki_name = ''ci'', ki_keyPrefix = ''vmx'', ki_role = Some viewer, ki_lastUsedAt = None, ki_expiresAt = None,
      ki_isActive = True, ki_createdAt = ''2026-01-01''\<rparr>"

lemma key_deletion_confirmed_witness:
  "\<exists>pre k post. [KeysFetched [sample_key ''k1''] False False, Press (DeleteKey (sample_key ''k1''))] =
     pre @ Press (DeleteKey k) # post \<and> ki_id k = ''k1'' \<and> list_all (\<lambda>e. \<not> deletes_closed e) post"
proof -
  let ?step = "keys_step 0 (\<lambda>x. x) (\<lambda>_. [])"
  let ?es = "[KeysFetched [sample_key ''k1''] False False, Press (DeleteKey (sample_key ''k1''))]"
  obtain rs p where run: "run_page ?step ?es (mount_keys_page (Some member)) = Some (rs, p)"
    and p: "kv_deleteTarget (kp_view p) = Some ''k1''" "\<not> kp_deleting p"
    by (simp add: keys_step.simps keys_offered_def overlaid_def form_shown_def delete_shown_def mount_keys_page_def
        mount_keys_def key_press.simps on_form_def sample_key_def)
  have "?step (Press DeleteConfirm) p = Some (key_press (\<lambda>x. x) (\<lambda>_. []) DeleteConfirm p)"
    using p by (simp add: keys_step.simps keys_offered_def delete_shown_def)
  moreover have "Sent (m_call useDeleteApiKey ''k1'') \<in> set (fst (key_press (\<lambda>x. x) (\<lambda>_. []) DeleteConfirm p))"
    using p by (simp add: key_press_sends)
  ultimately show ?thesis
    using key_deletion_confirmed [OF run, of "Press DeleteConfirm"] by (metis prod.collapse)
qed

text \<open>C35: A new key is shown once. Whenever the page shows a key or puts one on the clipboard, it is the key of the
  last creation that succeeded, and the dialog that shows it has not been closed since: once it is closed, nothing
  but making another key brings a key back on the screen or to the clipboard.\<close>

theorem key_shown_once:
  assumes "run_page (keys_step today clock toISO) es (mount_keys_page role) = Some (rs, p)"
    and "keys_step today clock toISO e p = Some (qs, u)" and "secret_shown p = Some k \<or> Clipboard k \<in> set qs"
  shows "\<exists>pre post. es = pre @ KeyMade k # post \<and>
    list_all (\<lambda>e. e \<noteq> Press KeyDone \<and> (\<forall>k'. e = KeyMade k' \<longrightarrow> k' = k)) post"
proof -
  have fresh: "mount_keys_page role = mount_keys_page (kp_role (mount_keys_page role))" by (simp add: mount_keys_page_def)
  have "secret_shown p = Some k" using key_secret.sent_shown [OF assms(2)] assms(3) by blast
  from key_secret.shown_since [OF fresh assms(1) this] obtain pre post
    where es: "es = pre @ KeyMade k # post" and post: "list_all (\<lambda>e. \<not> secret_replaced k e) post" by blast
  from post have "list_all (\<lambda>e. e \<noteq> Press KeyDone \<and> (\<forall>k'. e = KeyMade k' \<longrightarrow> k' = k)) post"
    by (auto simp: list_all_iff secret_replaced_def split: keys_event.splits)
  with es show ?thesis by blast
qed

text \<open>The run of a user who makes the key \<open>s\<close> and copies it.\<close>

definition making :: "keys_event list" where
  "making = [Press NewKey, Press (NameInput ''ci''), Press CreateKey, KeyMade ''s'']"

lemma making_run:
  "map_option (\<lambda>(rs, p). secret_shown p) (run_page (keys_step 0 (\<lambda>x. x) (\<lambda>_. [])) making (mount_keys_page (Some member))) =
     Some (Some ''s'')"
  by code_simp

lemma key_shown_once_witness:
  "\<exists>pre post. making = pre @ KeyMade ''s'' # post \<and>
     list_all (\<lambda>e. e \<noteq> Press KeyDone \<and> (\<forall>k'. e = KeyMade k' \<longrightarrow> k' = ''s'')) post"
proof -
  obtain rs p where run: "run_page (keys_step 0 (\<lambda>x. x) (\<lambda>_. [])) making (mount_keys_page (Some member)) = Some (rs, p)"
    and "secret_shown p = Some ''s''"
    using making_run by auto
  then have "keys_step 0 (\<lambda>x. x) (\<lambda>_. []) (RoleNow None) p = Some ([], p\<lparr>kp_role := None\<rparr>)" "secret_shown p = Some ''s''"
    by simp_all
  from key_shown_once [OF run this(1) disjI1 [OF this(2)]] show ?thesis .
qed

text \<open>A deletion that succeeds late closes the dialog that is open by then, though it is another key's.\<close>

lemma late_answer_closes_other:
  assumes "kp_deleting p" "kv_deleteTarget (kp_view p) = Some j"
  shows "\<exists>u. keys_step today clock toISO (DeleteAnswered True) p = Some ([], u) \<and> \<not> delete_shown u"
  using assms by (simp add: delete_shown_def)

end
