(* ===== verification/Login_Page.thy ===== *)
theory Login_Page
  imports Login Sso_Views Guarded_Dialog
begin

text \<open>
  The login page as a machine (\<open>features/auth/ui/login-form.tsx\<close>): what it shows, the controls it offers, the calls it
  makes and what the answers do. The throttle, the schema and the messages are those of \<open>Login\<close> and \<open>Validation\<close>;
  here they meet the form. Every step that can change \<open>lockoutUntil\<close> is followed by the effect that watches it.
\<close>

section \<open>The page\<close>

record sso_data =
  sd_passwordLogin :: bool
  sd_registration :: bool
  sd_providers :: "sso_provider_info list"

record login_page =
  lg_throttle :: throttle
  lg_email :: string
  lg_password :: string
  lg_errors :: "(string \<times> string) list"
  lg_submitted :: bool
  lg_serverError :: string
  lg_loading :: bool
  lg_showPassword :: bool
  lg_verification :: bool                 \<comment> \<open>\<open>emailVerificationRequired\<close>\<close>
  lg_resending :: bool
  lg_resent :: bool
  lg_setupBanner :: bool
  lg_registeredBanner :: bool
  lg_sso :: "sso_data option"             \<comment> \<open>\<open>ssoData\<close>\<close>
  lg_ssoMessage :: "string option"
  lg_redirect :: string

definition passwordLoginEnabled :: "login_page \<Rightarrow> bool" where
  "passwordLoginEnabled p = (case lg_sso p of None \<Rightarrow> True | Some d \<Rightarrow> sd_passwordLogin d)"

definition registrationEnabled :: "login_page \<Rightarrow> bool" where
  "registrationEnabled p = (case lg_sso p of None \<Rightarrow> True | Some d \<Rightarrow> sd_registration d)"

definition ssoProviders :: "login_page \<Rightarrow> sso_provider_info list" where
  "ssoProviders p = (case lg_sso p of None \<Rightarrow> [] | Some d \<Rightarrow> sd_providers d)"

text \<open>The page is opened at the time \<open>now\<close> with the store \<open>ss\<close>: the banners are read once and their flags removed. A
  message that cannot be decoded leaves no page at all.\<close>

definition mount_login :: "int \<Rightarrow> session_storage \<Rightarrow> params \<Rightarrow> login_page option" where
  "mount_login now ss ps =
     map_option (\<lambda>msg.
       \<lparr>lg_throttle = lockout_tick now (mount_form (ss(''vmx_just_setup'' := None, ''vmx_just_registered'' := None))),
        lg_email = [], lg_password = [], lg_errors = [], lg_submitted = False, lg_serverError = [], lg_loading = False,
        lg_showPassword = False, lg_verification = False, lg_resending = False, lg_resent = False,
        lg_setupBanner = (ss ''vmx_just_setup'' = Some ''true''),
        lg_registeredBanner = (ss ''vmx_just_registered'' = Some ''true''), lg_sso = None, lg_ssoMessage = msg,
        lg_redirect = safe_redirect (usp_get ps ''redirect'')\<rparr>)
     (ssoErrorMessage ps)"

section \<open>The controls\<close>

datatype login_control =
    EmailField string | PasswordField string | EyeButton | SignIn | ResendButton
  | SsoButton sso_provider_info | RegisterLink | ForgotLink

definition login_offered :: "login_page \<Rightarrow> login_control \<Rightarrow> bool" where
  "login_offered p c =
     (case c of
        EmailField _ \<Rightarrow> passwordLoginEnabled p
      | PasswordField _ \<Rightarrow> passwordLoginEnabled p
      | EyeButton \<Rightarrow> passwordLoginEnabled p
      | SignIn \<Rightarrow> passwordLoginEnabled p \<and> \<not> (lg_loading p \<or> isLockedOut (lg_throttle p))
      | ResendButton \<Rightarrow> passwordLoginEnabled p \<and> lg_verification p \<and> \<not> lg_resent p \<and> \<not> lg_resending p
      | SsoButton v \<Rightarrow> v \<in> set (ssoProviders p)
      | RegisterLink \<Rightarrow> passwordLoginEnabled p \<and> registrationEnabled p
      | ForgotLink \<Rightarrow> passwordLoginEnabled p)"

text \<open>\<open>Authenticate\<close> is the call of \<open>login\<close> of the provider, \<open>Assigned\<close> a change of \<open>window.location\<close>.\<close>

datatype login_effect =
    Authenticate string string | LoginSent api_call | Assigned string | Pushed string | SuccessCallback

definition validate_login :: "(string \<Rightarrow> bool) \<Rightarrow> login_page \<Rightarrow> login_page" where
  "validate_login is_email p =
     (if lg_submitted p then p\<lparr>lg_errors := parseFieldErrors (loginSchema is_email (lg_email p) (lg_password p))\<rparr> else p)"

definition submit_login :: "(string \<Rightarrow> bool) \<Rightarrow> login_page \<Rightarrow> login_effect list \<times> login_page" where
  "submit_login is_email p =
     (let p = p\<lparr>lg_submitted := True, lg_errors := [], lg_serverError := [], lg_verification := False, lg_resent := False\<rparr>;
          iss = loginSchema is_email (lg_email p) (lg_password p)
      in if isLockedOut (lg_throttle p) then ([], p)
         else if iss \<noteq> [] then ([], p\<lparr>lg_errors := parseFieldErrors iss\<rparr>)
         else ([Authenticate (lg_email p) (lg_password p)], p\<lparr>lg_loading := True\<rparr>))"

text \<open>The link of a provider carries the page to come back to, and that one the page to go on to.\<close>

definition sso_login_url :: "string \<Rightarrow> string \<Rightarrow> string \<Rightarrow> string \<Rightarrow> string" where
  "sso_login_url origin apiBase redirect i =
     (let callbackUrl = origin @ ROUTES SSO_CALLBACK @ ''?redirect='' @ encodeURIComponent redirect in
      apiBase @ ''/api/auth/sso/'' @ i @ ''/login?callback_url='' @ encodeURIComponent callbackUrl)"

definition resend_verification :: "login_page \<Rightarrow> login_effect list \<times> login_page" where
  "resend_verification p =
     (if lg_email p = [] \<or> lg_resending p then ([], p)
      else ([LoginSent (apiSendVerificationEmailByEmail (lg_email p))], p\<lparr>lg_resending := True, lg_resent := False\<rparr>))"

fun login_press ::
  "(string \<Rightarrow> bool) \<Rightarrow> string \<Rightarrow> string \<Rightarrow> login_control \<Rightarrow> login_page \<Rightarrow> login_effect list \<times> login_page" where
  "login_press is_email origin api (EmailField v) p = ([], validate_login is_email (p\<lparr>lg_email := v\<rparr>))"
| "login_press is_email origin api (PasswordField v) p = ([], validate_login is_email (p\<lparr>lg_password := v\<rparr>))"
| "login_press is_email origin api EyeButton p = ([], p\<lparr>lg_showPassword := \<not> lg_showPassword p\<rparr>)"
| "login_press is_email origin api SignIn p = submit_login is_email p"
| "login_press is_email origin api ResendButton p = resend_verification p"
| "login_press is_email origin api (SsoButton v) p = ([Assigned (sso_login_url origin api (lg_redirect p) (spi_id v))], p)"
| "login_press is_email origin api RegisterLink p = ([Pushed (ROUTES REGISTER)], p)"
| "login_press is_email origin api ForgotLink p = ([Pushed (ROUTES FORGOT_PASSWORD)], p)"

text \<open>The rest of \<open>handleSubmit\<close>; \<open>callback\<close> says whether the page was given \<open>onLoginSuccess\<close>.\<close>

definition login_answered ::
  "bool \<Rightarrow> int \<Rightarrow> thrown + json option \<Rightarrow> login_page \<Rightarrow> login_effect list \<times> login_page" where
  "login_answered callback now res p =
     (let p = p\<lparr>lg_loading := False\<rparr> in
      case res of
        Inr mustChange \<Rightarrow>
          ([if truthy mustChange then Pushed (ROUTES CHANGE_PASSWORD)
            else if callback then SuccessCallback else Pushed (lg_redirect p)],
           p\<lparr>lg_submitted := False,
             lg_throttle := (lg_throttle p)\<lparr>failedAttempts := Some 0, lockoutUntil := None,
               storage := clearAttempts (storage (lg_throttle p))\<rparr>\<rparr>)
      | Inl err \<Rightarrow>
          (let rawMessage = (case err of ErrorObj m \<Rightarrow> m | _ \<Rightarrow> []) in
           if occurs ''email_verification_required'' rawMessage then ([], p\<lparr>lg_verification := True\<rparr>)
           else ([], p\<lparr>lg_serverError := sanitizeErrorMessage err None,
                       lg_throttle := lockout_tick now (recordFailure now (lg_throttle p))\<rparr>)))"

datatype login_event =
    LgPress login_control
  | LgAnswered int "thrown + json option"
  | LgTick int
  | LgResendAnswered
  | LgProviders "sso_data option"

text \<open>Refused or not, the request for another mail ends as a success.\<close>

fun login_step ::
  "(string \<Rightarrow> bool) \<Rightarrow> string \<Rightarrow> string \<Rightarrow> bool \<Rightarrow> (login_event, login_page, login_effect) machine" where
  "login_step is_email origin api callback (LgPress c) p =
     (if login_offered p c then Some (login_press is_email origin api c p) else None)"
| "login_step is_email origin api callback (LgAnswered now res) p =
     (if lg_loading p then Some (login_answered callback now res p) else None)"
| "login_step is_email origin api callback (LgTick now) p =
     (if lockoutUntil (lg_throttle p) \<noteq> None
      then Some ([], p\<lparr>lg_throttle := lockout_tick now (lg_throttle p)\<rparr>) else None)"
| "login_step is_email origin api callback LgResendAnswered p =
     (if lg_resending p then Some ([], p\<lparr>lg_resending := False, lg_resent := True\<rparr>) else None)"
| "login_step is_email origin api callback (LgProviders d) p = Some ([], p\<lparr>lg_sso := d\<rparr>)"

section \<open>What the page shows\<close>

definition lockout_text :: "int \<Rightarrow> string" where
  "lockout_text n =
     ''Too many failed login attempts. Please try again in '' @ show_int n @ '' second'' @ (if n \<noteq> 1 then ''s'' else []) @ ''.''"

text \<open>The notices above the form, from top to bottom.\<close>

definition login_notices :: "login_page \<Rightarrow> string list" where
  "login_notices p =
     (case lg_ssoMessage p of None \<Rightarrow> [] | Some m \<Rightarrow> if m = [] then [] else [m]) @
     (if \<not> passwordLoginEnabled p then []
      else
        (if lg_serverError p \<noteq> [] then [lg_serverError p] else []) @
        (if lg_setupBanner p then [''Account created successfully. Please sign in.''] else []) @
        (if lg_registeredBanner p \<and> \<not> lg_verification p
         then [''Please check your email to verify your account before signing in.''] else []) @
        (if isLockedOut (lg_throttle p) then [lockout_text (countdown (lg_throttle p))] else []) @
        (if lg_verification p
         then [''Please verify your email address before logging in. Check your inbox for a verification link.''] else []))"

text \<open>The fields: label, kind, value and the message below.\<close>

definition login_fields :: "login_page \<Rightarrow> (string \<times> string \<times> string \<times> string option) list" where
  "login_fields p =
     (if \<not> passwordLoginEnabled p then []
      else [(''Email'', ''email'', lg_email p, map_of (lg_errors p) ''email''),
            (''Password'', if lg_showPassword p then ''text'' else ''password'', lg_password p,
             map_of (lg_errors p) ''password'')])"

section \<open>Lemmas\<close>

text \<open>The two halves of the submit handler are the handler of \<open>Login\<close>.\<close>

lemma submit_then_answer:
  assumes "\<not> isLockedOut (lg_throttle p)" "loginSchema is_email (lg_email p) (lg_password p) = []"
  shows "fst (submit_login is_email p) = [Authenticate (lg_email p) (lg_password p)]"
    "lg_throttle (snd (login_answered callback now res (snd (submit_login is_email p)))) =
       (let (outcome, th) = handleSubmit now True res (lg_throttle p) in
        case outcome of ServerError _ \<Rightarrow> lockout_tick now th | _ \<Rightarrow> th)"
  using assms
  by (auto simp: submit_login_def login_answered_def handleSubmit_def Let_def split: sum.splits)

lemma press_throttle: "lg_throttle (snd (login_press is_email origin api c p)) = lg_throttle p"
  by (cases c) (simp_all add: validate_login_def submit_login_def resend_verification_def Let_def)

lemma press_authenticates:
  "Authenticate m w \<in> set (fst (login_press is_email origin api c p)) \<longleftrightarrow>
     c = SignIn \<and> \<not> isLockedOut (lg_throttle p) \<and> loginSchema is_email m w = [] \<and> m = lg_email p \<and> w = lg_password p"
  by (cases c) (auto simp: validate_login_def submit_login_def resend_verification_def Let_def)

lemma press_loading:
  "lg_loading (snd (login_press is_email origin api c p)) \<longleftrightarrow>
     lg_loading p \<or> c = SignIn \<and> fst (login_press is_email origin api c p) \<noteq> []"
  by (cases c) (auto simp: validate_login_def submit_login_def resend_verification_def Let_def)

text \<open>A sign-in that is refused without a request says why: below a field, or with the countdown.\<close>

lemma refusal_visible:
  assumes "login_press is_email origin api SignIn p = ([], q)" "passwordLoginEnabled p"
  shows "isLockedOut (lg_throttle q) \<or> (\<exists>f \<in> set (login_fields q). snd (snd (snd f)) \<noteq> None)"
  using assms
  by (auto simp: submit_login_def Let_def login_fields_def passwordLoginEnabled_def loginSchema_def checks_def
      parseFieldErrors_def split: if_splits option.splits)

section \<open>The throttle and the page\<close>

definition event_before :: "int \<Rightarrow> login_event \<Rightarrow> bool" where
  "event_before u e = (case e of LgTick t \<Rightarrow> t < u | LgAnswered t _ \<Rightarrow> t < u | _ \<Rightarrow> True)"

definition locked_until :: "int \<Rightarrow> login_page \<Rightarrow> bool" where
  "locked_until u p \<longleftrightarrow>
     lockoutUntil (lg_throttle p) = Some (Some u) \<and> isLockedOut (lg_throttle p) \<and> \<not> lg_loading p"

lemma locked_step:
  assumes "login_step is_email origin api callback e p = Some (rs, q)" "locked_until u p" "0 < u" "event_before u e"
  shows "locked_until u q \<and> (\<forall>m w. Authenticate m w \<notin> set rs)"
proof (cases e)
  case (LgPress c)
  with assms(1) have off: "login_offered p c" and r: "rs = fst (login_press is_email origin api c p)"
    "q = snd (login_press is_email origin api c p)"
    by (auto split: if_splits)
  have "c \<noteq> SignIn" using off assms(2) by (auto simp: login_offered_def locked_until_def)
  with assms(2) show ?thesis
    by (auto simp: r locked_until_def press_throttle press_loading press_authenticates)
next
  case (LgTick t)
  with assms show ?thesis
    using tick_pending [of "lg_throttle p" u t] by (auto simp: locked_until_def event_before_def split: if_splits)
qed (use assms in \<open>auto simp: locked_until_def split: if_splits\<close>)

text \<open>C36: A locked login page is silent. Once the form is locked until a time \<open>u\<close>, whatever is typed and pressed and
  whatever answers and ticks come before \<open>u\<close>, no sign-in is attempted and the form stays locked.\<close>

theorem locked_page_silent:
  assumes "run_page (login_step is_email origin api callback) es p = Some (rs, q)"
    and "locked_until u p" and "0 < u" and "list_all (event_before u) es"
  shows "locked_until u q \<and> list_all (\<lambda>r. \<forall>m w. r \<noteq> Authenticate m w) rs"
  using assms(1,2,4)
proof (induction es arbitrary: p rs)
  case (Cons e es)
  obtain qs t ps where step: "login_step is_email origin api callback e p = Some (qs, t)"
    and run: "run_page (login_step is_email origin api callback) es t = Some (ps, q)" and rs: "rs = qs @ ps"
    using Cons.prems(1) by (auto split: option.splits)
  have "locked_until u t \<and> (\<forall>m w. Authenticate m w \<notin> set qs)"
    using locked_step [OF step Cons.prems(2) assms(3)] Cons.prems(3) by simp
  with Cons.IH [OF run] Cons.prems(3) show ?case by (auto simp: rs list_all_iff)
qed simp

text \<open>A page that is locked for another minute.\<close>

definition locked_page :: login_page where
  "locked_page = (the (mount_login 1 (\<lambda>_. None) []))
     \<lparr>lg_throttle := fresh_form\<lparr>failedAttempts := Some 5, lockoutUntil := Some (Some 60005), countdown := 60\<rparr>\<rparr>"

lemma locked_page_silent_witness:
  "locked_until 60005 locked_page \<and>
   (\<exists>rs q. run_page (login_step (\<lambda>_. True) [] [] False) [LgTick 30000, LgPress (EmailField ''a'')] locked_page = Some (rs, q) \<and>
      list_all (\<lambda>r. \<forall>m w. r \<noteq> Authenticate m w) rs)"
proof -
  have locked: "locked_until 60005 locked_page"
    by (simp add: locked_until_def locked_page_def isLockedOut_def mount_login_def ssoErrorMessage_def usp_get_def)
  have "run_page (login_step (\<lambda>_. True) [] [] False) [LgTick 30000, LgPress (EmailField ''a'')] locked_page \<noteq> None"
    using locked
    by (auto simp: locked_until_def login_offered_def passwordLoginEnabled_def locked_page_def mount_login_def
        ssoErrorMessage_def usp_get_def)
  then obtain rs q where
    run: "run_page (login_step (\<lambda>_. True) [] [] False) [LgTick 30000, LgPress (EmailField ''a'')] locked_page = Some (rs, q)"
    by auto
  have "list_all (event_before 60005) [LgTick 30000, LgPress (EmailField ''a'')]" by (simp add: event_before_def)
  with locked_page_silent [OF run locked] run locked show ?thesis by auto
qed

text \<open>C37: One sign-in at a time. In every run of the page the sign-ins attempted are the answers that came, and one more
  while the form shows that it is waiting; each was attempted with an address and a password the schema accepts.\<close>

theorem one_sign_in_at_a_time:
  assumes "mount_login now ss ps = Some p0" and "run_page (login_step is_email origin api callback) es p0 = Some (rs, p)"
  shows "length (filter (\<lambda>r. case r of Authenticate _ _ \<Rightarrow> True | _ \<Rightarrow> False) rs) =
      length (filter (\<lambda>e. case e of LgAnswered _ _ \<Rightarrow> True | _ \<Rightarrow> False) es) + (if lg_loading p then 1 else 0) \<and>
    list_all (\<lambda>r. case r of Authenticate m w \<Rightarrow> loginSchema is_email m w = [] | _ \<Rightarrow> True) rs"
proof -
  have "\<not> lg_loading p0" using assms(1) by (auto simp: mount_login_def)
  with assms(2) show ?thesis
  proof (induction es arbitrary: rs p rule: rev_induct)
    case (snoc e es)
    obtain qs t ps where run: "run_page (login_step is_email origin api callback) es p0 = Some (qs, t)"
      and last: "login_step is_email origin api callback e t = Some (ps, p)" and rs: "rs = qs @ ps"
      using snoc.prems(1) by (rule run_page_snocE)
    note IH = snoc.IH [OF run snoc.prems(2)]
    show ?case
    proof (cases e)
      case (LgPress c)
      with last have off: "login_offered t c" and r: "ps = fst (login_press is_email origin api c t)"
        "p = snd (login_press is_email origin api c t)"
        by (auto split: if_splits)
      show ?thesis
      proof (cases c)
        case SignIn
        with off have "\<not> lg_loading t" by (simp add: login_offered_def)
        with IH SignIn LgPress show ?thesis
          by (auto simp: rs r submit_login_def Let_def)
      qed (use IH LgPress in \<open>auto simp: rs r validate_login_def resend_verification_def\<close>)
    next
      case (LgAnswered time res)
      with last IH show ?thesis
        by (auto simp: rs login_answered_def Let_def split: if_splits sum.splits)
    qed (use last IH in \<open>auto simp: rs split: if_splits\<close>)
  qed simp
qed

lemma one_sign_in_at_a_time_witness:
  "\<exists>p0 rs p. mount_login 1 (\<lambda>_. None) [] = Some p0 \<and>
     run_page (login_step (\<lambda>_. True) [] [] False) [LgPress (PasswordField ''pw''), LgPress SignIn] p0 = Some (rs, p) \<and>
     length (filter (\<lambda>r. case r of Authenticate _ _ \<Rightarrow> True | _ \<Rightarrow> False) rs) = 1"
proof -
  obtain p0 where p0: "mount_login 1 (\<lambda>_. None) [] = Some p0" "lg_sso p0 = None" "\<not> lg_loading p0" "lg_email p0 = []"
    "\<not> isLockedOut (lg_throttle p0)"
    by (simp add: mount_login_def ssoErrorMessage_def usp_get_def mount_form_def getStoredAttempts_def lockout_tick_def
        isLockedOut_def)
  then obtain rs p where
    run: "run_page (login_step (\<lambda>_. True) [] [] False) [LgPress (PasswordField ''pw''), LgPress SignIn] p0 = Some (rs, p)"
    and "lg_loading p"
    by (simp add: login_offered_def passwordLoginEnabled_def validate_login_def submit_login_def Let_def loginSchema_def
        checks_def split: if_splits)
  with one_sign_in_at_a_time [OF p0(1) run] p0(1) show ?thesis by auto
qed

section \<open>The way through a provider\<close>

lemma component_query:
  assumes "CHR ''&'' \<notin> set k" "CHR ''='' \<notin> set k" "form_decode k = Some k"
  shows "usp_parse (k @ CHR ''='' # encodeURIComponent v) = Some [(k, v)]"
proof -
  let ?q = "k @ CHR ''='' # encodeURIComponent v"
  have amp: "split_char CHR ''&'' ?q = [?q]"
    using component_no_separator [of "CHR ''&''" v] assms(1) by (intro split_char_absent) auto
  have "\<forall>c \<in> set k. c \<noteq> CHR ''=''" using assms(2) by auto
  then have "takeWhile (\<lambda>c. c \<noteq> CHR ''='') ?q = k"
    "drop 1 (dropWhile (\<lambda>c. c \<noteq> CHR ''='') ?q) = encodeURIComponent v"
    by (simp_all add: takeWhile_append2 dropWhile_append2)
  then have "parse_pair ?q = Some (k, v)"
    unfolding parse_pair_def by (simp only: form_decode_component assms(3) option.case option.map)
  then show ?thesis unfolding usp_parse_def amp by simp
qed

text \<open>C38: Signing in through a provider leads back to the page one came for. The link of every provider reads as the
  endpoint of that provider with one parameter, the address to call back; that address reads as the callback page
  with the page the visitor wanted; and when the provider adds its tokens there, the callback page stores them and goes
  on to that page, whatever characters its path has.\<close>

theorem sso_login_returns:
  assumes "CHR ''?'' \<notin> set origin" "CHR ''?'' \<notin> set apiBase" "CHR ''?'' \<notin> set i" "a \<noteq> []" "r \<noteq> []"
  shows "\<exists>cb. read_url (sso_login_url origin apiBase (safe_redirect raw) i) =
      (apiBase @ ''/api/auth/sso/'' @ i @ ''/login'', Some [(''callback_url'', cb)]) \<and>
    read_url cb = (origin @ ROUTES SSO_CALLBACK, Some [(''redirect'', safe_redirect raw)]) \<and>
    sso_callback ([(''redirect'', safe_redirect raw)] @ [(''access_token'', a), (''refresh_token'', r)]) w =
      (Assign (safe_redirect raw), storeTokens a r w)"
proof -
  define cb where "cb = origin @ ROUTES SSO_CALLBACK @ ''?redirect='' @ encodeURIComponent (safe_redirect raw)"
  have k: "form_decode ''callback_url'' = Some ''callback_url''" "form_decode ''redirect'' = Some ''redirect''" by code_simp+
  have path: "CHR ''?'' \<notin> set (apiBase @ ''/api/auth/sso/'' @ i @ ''/login'')" "CHR ''?'' \<notin> set (origin @ ROUTES SSO_CALLBACK)"
    using assms by simp_all
  have "sso_login_url origin apiBase (safe_redirect raw) i =
      (apiBase @ ''/api/auth/sso/'' @ i @ ''/login'') @ CHR ''?'' # (''callback_url'' @ CHR ''='' # encodeURIComponent cb)"
    by (simp add: sso_login_url_def cb_def)
  then have link: "read_url (sso_login_url origin apiBase (safe_redirect raw) i) =
      (apiBase @ ''/api/auth/sso/'' @ i @ ''/login'', Some [(''callback_url'', cb)])"
    by (simp only: read_url_query [OF path(1)]) (subst component_query; simp add: k)
  have "cb = (origin @ ROUTES SSO_CALLBACK) @ CHR ''?'' # (''redirect'' @ CHR ''='' # encodeURIComponent (safe_redirect raw))"
    by (simp add: cb_def)
  then have returned: "read_url cb = (origin @ ROUTES SSO_CALLBACK, Some [(''redirect'', safe_redirect raw)])"
    by (simp only: read_url_query [OF path(2)]) (subst component_query; simp add: k)
  have "startsWith (safe_redirect raw) ''/''" "\<not> startsWith (safe_redirect raw) ''//''" "safe_redirect raw \<noteq> []"
    by (auto simp: safe_redirect_def Let_def startsWith_def)
  then have "sso_callback ([(''redirect'', safe_redirect raw)] @ [(''access_token'', a), (''refresh_token'', r)]) w =
      (Assign (safe_redirect raw), storeTokens a r w)"
    using assms(4,5) by (simp add: sso_callback_def or_default_def Let_def)
  with link returned show ?thesis by blast
qed

lemma sso_login_returns_witness:
  "\<exists>cb. read_url (sso_login_url ''https://app'' ''https://api'' (safe_redirect (Some ''/alerts?page=2'')) ''7'') =
     (''https://api/api/auth/sso/7/login'', Some [(''callback_url'', cb)])"
  using sso_login_returns [of "''https://app''" "''https://api''" "''7''" "''t''" "''u''" "Some ''/alerts?page=2''" demo_world] by auto

text \<open>With password sign-in switched off and no provider left, the page offers nothing.\<close>

lemma no_way_in:
  "lg_sso p = Some \<lparr>sd_passwordLogin = False, sd_registration = b, sd_providers = []\<rparr> \<Longrightarrow> \<not> login_offered p c"
  by (cases c) (simp_all add: login_offered_def passwordLoginEnabled_def ssoProviders_def)

end
