(* ===== verification/Notes_Timeline.thy ===== *)
theory Notes_Timeline
  imports Alerts Roles Guarded_Dialog
begin

text \<open>
  The notes of an alert as a machine (\<open>features/alerts/ui/alert-notes-timeline.tsx\<close>): the form for a new note, the
  items with their menus and edit forms, the dialog of a deletion, the keys the text areas listen to, and the
  answers to the three mutations. The handlers are those of \<open>Alerts\<close>.
\<close>

section \<open>The state\<close>

text \<open>
  A new note can be sent while another one is under way. \<open>isPending\<close> of the mutation speaks of the last one
  sent, \<open>np_olderAdds\<close> counts the others that have no answer yet.
\<close>

record notes_page =
  np_me :: "string option"                 \<comment> \<open>\<open>user?.id\<close>\<close>
  np_role :: "WorkspaceRole option"        \<comment> \<open>\<open>currentRole\<close>\<close>
  np_notes :: "AlertNoteViewModel list"
  np_loading :: bool
  np_view :: timeline
  np_adding :: bool                        \<comment> \<open>\<open>createNoteMutation.isPending\<close>\<close>
  np_olderAdds :: nat
  np_saving :: bool                        \<comment> \<open>\<open>updateNoteMutation.isPending\<close>\<close>
  np_deleting :: bool                      \<comment> \<open>\<open>pending\<close> of the confirmation dialog\<close>

definition mount_notes :: "string option \<Rightarrow> WorkspaceRole option \<Rightarrow> notes_page" where
  "mount_notes me r =
     \<lparr>np_me = me, np_role = r, np_notes = [], np_loading = True, np_view = mount_timeline, np_adding = False,
      np_olderAdds = 0, np_saving = False, np_deleting = False\<rparr>"

definition canWrite :: "notes_page \<Rightarrow> bool" where
  "canWrite p = hasMinimumRole (np_role p) member"

text \<open>\<open>isOwner\<close> of the item.\<close>

definition own_note :: "notes_page \<Rightarrow> AlertNoteViewModel \<Rightarrow> bool" where
  "own_note p n \<longleftrightarrow> canWrite p \<and> np_me p = Some (vm_userId n)"

section \<open>What is on the screen\<close>

text \<open>The edit form of an item: the text, the message under it, and which of its buttons are enabled.\<close>

record edit_form =
  ef_value :: string
  ef_error :: string
  ef_save :: bool
  ef_cancel :: bool

record note_item =
  ni_author :: string
  ni_time :: string
  ni_edited :: bool
  ni_menu :: bool                          \<comment> \<open>the menu with Edit and Delete\<close>
  ni_content :: "string + edit_form"

definition NoteItem :: "notes_page \<Rightarrow> AlertNoteViewModel \<Rightarrow> note_item" where
  "NoteItem p n =
     \<lparr>ni_author = (if vm_userEmail n = [] then ''User #'' @ vm_userId n else vm_userEmail n),
      ni_time = vm_relativeTime n,
      ni_edited = vm_isEdited n,
      ni_menu = (own_note p n \<and> shown_edit (np_view p) n = None),
      ni_content =
        (case shown_edit (np_view p) n of
           None \<Rightarrow> Inl (vm_content n)
         | Some (content, message) \<Rightarrow>
             Inr \<lparr>ef_value = content, ef_error = message, ef_save = canSave content n (np_saving p),
                  ef_cancel = (\<not> np_saving p)\<rparr>)\<rparr>"

definition item_form :: "note_item \<Rightarrow> edit_form option" where
  "item_form n = (case ni_content n of Inl _ \<Rightarrow> None | Inr f \<Rightarrow> Some f)"

datatype notes_list = Placeholders nat | Items "(AlertNoteViewModel \<times> note_item) list" | NoNotes string

definition notes_body :: "notes_page \<Rightarrow> notes_list" where
  "notes_body p =
     (if np_loading p then Placeholders 2
      else if np_notes p \<noteq> [] then Items (map (\<lambda>n. (n, NoteItem p n)) (np_notes p))
      else NoNotes ''No notes yet. Add a note to track investigation progress.'')"

definition notes_heading :: "notes_page \<Rightarrow> string" where
  "notes_heading p = ''Notes ('' @ show_nat (length (np_notes p)) @ '')''"

text \<open>The form of a new note: its text, the message, whether the button is enabled.\<close>

definition add_form :: "notes_page \<Rightarrow> (string \<times> string \<times> bool) option" where
  "add_form p =
     (if canWrite p
      then Some (noteContent (np_view p), noteError (np_view p), trim (noteContent (np_view p)) \<noteq> [] \<and> \<not> np_adding p)
      else None)"

text \<open>The dialog of a deletion. The ellipsis is one character the model has no code unit for: an argument.\<close>

definition truncate :: "string \<Rightarrow> string \<Rightarrow> nat \<Rightarrow> string" where
  "truncate ellipsis str maxLen = (if length str \<le> maxLen then str else take maxLen str @ ellipsis)"

definition note_delete_details :: "string \<Rightarrow> notes_page \<Rightarrow> (string \<times> string) list" where
  "note_delete_details ellipsis p =
     (case deletingNote (np_view p) of
        None \<Rightarrow> []
      | Some n \<Rightarrow> [(''Content'', truncate ellipsis (vm_content n) 80), (''Author'', vm_userEmail n)])"

definition note_delete_shown :: "notes_page \<Rightarrow> bool" where
  "note_delete_shown p \<longleftrightarrow> deletingNote (np_view p) \<noteq> None"

section \<open>Controls\<close>

text \<open>\<open>AddByKey\<close> and \<open>SaveByKey\<close> are Enter with Ctrl or Meta in a text area, \<open>EditEscape\<close> is Escape.\<close>

datatype note_control =
    NoteInput string | AddNote | AddByKey
  | StartEdit AlertNoteViewModel | AskDelete AlertNoteViewModel
  | EditInput AlertNoteViewModel string | SaveByKey AlertNoteViewModel | EditEscape AlertNoteViewModel
  | SaveEdit AlertNoteViewModel | CancelEdit AlertNoteViewModel
  | DeleteCancel | DeleteDismiss | DeleteConfirm

text \<open>The item of a note, where it can be reached.\<close>

definition item_of :: "notes_page \<Rightarrow> AlertNoteViewModel \<Rightarrow> note_item option" where
  "item_of p n =
     (if note_delete_shown p then None
      else case notes_body p of Items xs \<Rightarrow> map_of xs n | _ \<Rightarrow> None)"

definition form_of :: "notes_page \<Rightarrow> AlertNoteViewModel \<Rightarrow> edit_form option" where
  "form_of p n = Option.bind (item_of p n) item_form"

definition notes_offered :: "notes_page \<Rightarrow> note_control \<Rightarrow> bool" where
  "notes_offered p c =
     (case c of
        NoteInput _ \<Rightarrow> add_form p \<noteq> None \<and> \<not> note_delete_shown p
      | AddNote \<Rightarrow>
          (case add_form p of None \<Rightarrow> False | Some (_, _, enabled) \<Rightarrow> enabled \<and> \<not> note_delete_shown p)
      | AddByKey \<Rightarrow> add_form p \<noteq> None \<and> \<not> note_delete_shown p
      | StartEdit n \<Rightarrow> (case item_of p n of None \<Rightarrow> False | Some x \<Rightarrow> ni_menu x)
      | AskDelete n \<Rightarrow> (case item_of p n of None \<Rightarrow> False | Some x \<Rightarrow> ni_menu x)
      | EditInput n _ \<Rightarrow> form_of p n \<noteq> None
      | SaveByKey n \<Rightarrow> form_of p n \<noteq> None
      | EditEscape n \<Rightarrow> form_of p n \<noteq> None
      | SaveEdit n \<Rightarrow> (case form_of p n of None \<Rightarrow> False | Some f \<Rightarrow> ef_save f)
      | CancelEdit n \<Rightarrow> (case form_of p n of None \<Rightarrow> False | Some f \<Rightarrow> ef_cancel f)
      | DeleteCancel \<Rightarrow> note_delete_shown p \<and> \<not> np_deleting p
      | DeleteDismiss \<Rightarrow> note_delete_shown p
      | DeleteConfirm \<Rightarrow> note_delete_shown p \<and> \<not> np_deleting p)"

definition on_timeline :: "(timeline \<Rightarrow> timeline) \<Rightarrow> notes_page \<Rightarrow> api_call list \<times> notes_page" where
  "on_timeline f p = ([], p\<lparr>np_view := f (np_view p)\<rparr>)"

definition press_add :: "string \<Rightarrow> notes_page \<Rightarrow> api_call list \<times> notes_page" where
  "press_add alert p =
     (case handleAddNote alert (np_view p) of
        (s, None) \<Rightarrow> ([], p\<lparr>np_view := s\<rparr>)
      | (s, Some call) \<Rightarrow>
          ([call], p\<lparr>np_view := s, np_adding := True,
             np_olderAdds := (if np_adding p then Suc (np_olderAdds p) else np_olderAdds p)\<rparr>))"

definition press_save :: "string \<Rightarrow> notes_page \<Rightarrow> api_call list \<times> notes_page" where
  "press_save alert p =
     (case handleSaveEdit alert (np_view p) of
        (s, None) \<Rightarrow> ([], p\<lparr>np_view := s\<rparr>)
      | (s, Some call) \<Rightarrow> ([call], p\<lparr>np_view := s, np_saving := True\<rparr>))"

definition press_delete :: "string \<Rightarrow> notes_page \<Rightarrow> api_call list \<times> notes_page" where
  "press_delete alert p =
     (case handleConfirmDelete alert (np_view p) of
        (s, None) \<Rightarrow> ([], p\<lparr>np_view := s\<rparr>)
      | (s, Some call) \<Rightarrow> ([call], p\<lparr>np_view := s, np_deleting := True\<rparr>))"

fun note_press :: "string \<Rightarrow> note_control \<Rightarrow> notes_page \<Rightarrow> api_call list \<times> notes_page" where
  "note_press alert (NoteInput v) p = on_timeline (\<lambda>s. s\<lparr>noteContent := v\<rparr>) p"
| "note_press alert AddNote p = press_add alert p"
| "note_press alert AddByKey p = press_add alert p"
| "note_press alert (StartEdit n) p = on_timeline (handleStartEdit n) p"
| "note_press alert (AskDelete n) p = on_timeline (\<lambda>s. s\<lparr>deletingNote := Some n\<rparr>) p"
| "note_press alert (EditInput n v) p = on_timeline (\<lambda>s. s\<lparr>editContent := v\<rparr>) p"
| "note_press alert (SaveByKey n) p =
     (if canSave (editContent (np_view p)) n (np_saving p) then press_save alert p else ([], p))"
| "note_press alert (EditEscape n) p = on_timeline handleCancelEdit p"
| "note_press alert (SaveEdit n) p = press_save alert p"
| "note_press alert (CancelEdit n) p = on_timeline handleCancelEdit p"
| "note_press alert DeleteCancel p = on_timeline (\<lambda>s. s\<lparr>deletingNote := None\<rparr>) p"
| "note_press alert DeleteDismiss p = on_timeline (\<lambda>s. s\<lparr>deletingNote := None\<rparr>) p"
| "note_press alert DeleteConfirm p = press_delete alert p"

text \<open>
  Presses, answers (to the last new note or to an older one), new data, and a change of the user or the role.
  After a refused request the rest of the handler does not run.
\<close>

datatype note_event =
    Press note_control
  | NoteAnswered bool bool
  | EditAnswered bool
  | DeleteAnswered bool
  | NotesFetched "AlertNoteViewModel list" bool
  | Viewer "string option" "WorkspaceRole option"

fun notes_step :: "string \<Rightarrow> (note_event, notes_page, api_call) machine" where
  "notes_step alert (Press c) p = (if notes_offered p c then Some (note_press alert c p) else None)"
| "notes_step alert (NoteAnswered latest ok) p =
     (if (if latest then np_adding p else 0 < np_olderAdds p)
      then Some ([], p\<lparr>np_view := (if ok then note_added (np_view p) else np_view p),
          np_adding := (np_adding p \<and> \<not> latest),
          np_olderAdds := (if latest then np_olderAdds p else np_olderAdds p - 1)\<rparr>)
      else None)"
| "notes_step alert (EditAnswered ok) p =
     (if np_saving p
      then Some ([], p\<lparr>np_view := (if ok then edit_saved (np_view p) else np_view p), np_saving := False\<rparr>)
      else None)"
| "notes_step alert (DeleteAnswered ok) p =
     (if np_deleting p
      then Some ([], p\<lparr>np_view := (if ok then note_deleted (np_view p) else np_view p), np_deleting := False\<rparr>)
      else None)"
| "notes_step alert (NotesFetched ns loading) p = Some ([], p\<lparr>np_notes := ns, np_loading := loading\<rparr>)"
| "notes_step alert (Viewer me r) p = Some ([], p\<lparr>np_me := me, np_role := r\<rparr>)"

section \<open>Lemmas\<close>

lemma note_calls [simp]:
  "createAlertNote a c \<noteq> updateAlertNote a i d" "createAlertNote a c \<noteq> deleteAlertNote a i"
  "updateAlertNote a i d \<noteq> createAlertNote a c" "updateAlertNote a i d \<noteq> deleteAlertNote a j"
  "deleteAlertNote a j \<noteq> createAlertNote a c" "deleteAlertNote a j \<noteq> updateAlertNote a i d"
  "deleteAlertNote a i = deleteAlertNote a j \<longleftrightarrow> i = j"
  "createAlertNote a c = createAlertNote a d \<longleftrightarrow> c = d"
  "updateAlertNote a i c = updateAlertNote a j d \<longleftrightarrow> i = j \<and> c = d"
  by (auto simp: createAlertNote_def updateAlertNote_def deleteAlertNote_def api_send_def)

lemma handlers_send:
  "fst (press_add a p) =
     (if length (trim (noteContent (np_view p))) \<in> {1..5000} then [createAlertNote a (trim (noteContent (np_view p)))] else [])"
  "fst (press_save a p) =
     (case editingNoteId (np_view p) of None \<Rightarrow> []
      | Some i \<Rightarrow> if length (trim (editContent (np_view p))) \<in> {1..5000}
                  then [updateAlertNote a i (trim (editContent (np_view p)))] else [])"
  "fst (press_delete a p) =
     (case deletingNote (np_view p) of None \<Rightarrow> [] | Some n \<Rightarrow> [deleteAlertNote a (vm_id n)])"
  by (auto simp: press_add_def press_save_def press_delete_def handleAddNote_def handleSaveEdit_def handleConfirmDelete_def
      alertNoteSchema_def useCreateAlertNote_def useUpdateAlertNote_def useDeleteAlertNote_def Let_def Suc_le_eq
      split: option.splits)

lemma handlers_view:
  "editingNoteId (np_view (snd (press_add a p))) = editingNoteId (np_view p)"
  "deletingNote (np_view (snd (press_add a p))) = deletingNote (np_view p)"
  "editingNoteId (np_view (snd (press_save a p))) = editingNoteId (np_view p)"
  "deletingNote (np_view (snd (press_save a p))) = deletingNote (np_view p)"
  "np_view (snd (press_delete a p)) = np_view p"
  by (auto simp: press_add_def press_save_def press_delete_def handleAddNote_def handleSaveEdit_def handleConfirmDelete_def
      Let_def split: option.splits)

lemma answers_view:
  "editingNoteId (note_added s) = editingNoteId s" "deletingNote (note_added s) = deletingNote s"
  "editingNoteId (edit_saved s) = None" "deletingNote (edit_saved s) = deletingNote s"
  "editingNoteId (note_deleted s) = editingNoteId s" "deletingNote (note_deleted s) = None"
  by (simp_all add: note_added_def edit_saved_def note_deleted_def)

declare note_press.simps [simp del]

lemma press_editing:
  "editingNoteId (np_view (snd (note_press a c p))) =
     (case c of StartEdit n \<Rightarrow> Some (vm_id n) | EditEscape _ \<Rightarrow> None | CancelEdit _ \<Rightarrow> None | _ \<Rightarrow> editingNoteId (np_view p))"
  by (cases c) (simp_all add: note_press.simps on_timeline_def handlers_view handleStartEdit_def handleCancelEdit_def)

lemma press_deleting:
  "deletingNote (np_view (snd (note_press a c p))) =
     (case c of AskDelete n \<Rightarrow> Some n | DeleteCancel \<Rightarrow> None | DeleteDismiss \<Rightarrow> None | _ \<Rightarrow> deletingNote (np_view p))"
  by (cases c) (simp_all add: note_press.simps on_timeline_def handlers_view handleStartEdit_def handleCancelEdit_def)

lemma note_press_sends:
  "createAlertNote a x \<in> set (fst (note_press a c p)) \<Longrightarrow>
     (c = AddNote \<or> c = AddByKey) \<and> x = trim (noteContent (np_view p)) \<and> length x \<in> {1..5000}"
  "updateAlertNote a i x \<in> set (fst (note_press a c p)) \<Longrightarrow>
     editingNoteId (np_view p) = Some i \<and> x = trim (editContent (np_view p)) \<and> length x \<in> {1..5000} \<and>
     ((\<exists>n. c = SaveEdit n) \<or> (\<exists>n. c = SaveByKey n \<and> canSave (editContent (np_view p)) n (np_saving p)))"
  "deleteAlertNote a i \<in> set (fst (note_press a c p)) \<Longrightarrow> map_option vm_id (deletingNote (np_view p)) = Some i"
  subgoal by (cases c) (auto simp: note_press.simps on_timeline_def handlers_send split: if_splits option.splits)
  subgoal by (cases c) (auto simp: note_press.simps on_timeline_def handlers_send split: if_splits option.splits)
  subgoal by (cases "deletingNote (np_view p)"; cases c)
      (auto simp: note_press.simps on_timeline_def handlers_send split: if_splits option.splits)
  done

lemma note_step_press:
  "notes_step a (Press c) p = Some (qs, t) \<longleftrightarrow>
     notes_offered p c \<and> qs = fst (note_press a c p) \<and> t = snd (note_press a c p)"
  by (auto simp: prod_eq_iff)

declare notes_step.simps(1) [simp del]

lemma item_ofD: "item_of p n = Some x \<Longrightarrow> n \<in> set (np_notes p) \<and> x = NoteItem p n"
  by (auto simp: item_of_def notes_body_def map_of_map_keys dest: map_of_SomeD split: if_splits notes_list.splits)

lemma form_ofD:
  "form_of p n = Some f \<Longrightarrow> n \<in> set (np_notes p) \<and> editingNoteId (np_view p) = Some (vm_id n) \<and>
     ef_save f = canSave (editContent (np_view p)) n (np_saving p)"
proof -
  assume "form_of p n = Some f"
  then obtain x where x: "item_of p n = Some x" "item_form x = Some f" by (auto simp: form_of_def bind_eq_Some_conv)
  from item_ofD [OF x(1)] have n: "n \<in> set (np_notes p)" "x = NoteItem p n" by blast+
  with x(2) show ?thesis by (auto simp: item_form_def NoteItem_def shown_edit_def split: if_splits)
qed

text \<open>The menu of a note is there for its author alone, while the author may write.\<close>

lemma menu_for_author:
  assumes "notes_offered p (StartEdit n) \<or> notes_offered p (AskDelete n)"
  shows "n \<in> set (np_notes p)" "own_note p n"
  using assms by (auto simp: notes_offered_def NoteItem_def split: option.splits dest!: item_ofD)

section \<open>The edit form and the dialog\<close>

definition edit_left :: "string \<Rightarrow> note_event \<Rightarrow> bool" where
  "edit_left i e =
     (case e of
        Press (StartEdit n) \<Rightarrow> vm_id n \<noteq> i | Press (EditEscape _) \<Rightarrow> True | Press (CancelEdit _) \<Rightarrow> True
      | EditAnswered ok \<Rightarrow> ok | _ \<Rightarrow> False)"

definition edit_begun :: "string \<Rightarrow> note_event \<Rightarrow> bool" where
  "edit_begun i e = (case e of Press (StartEdit n) \<Rightarrow> vm_id n = i | _ \<Rightarrow> False)"

interpretation note_edit: guarded_dialog "notes_step a" "\<lambda>p. \<exists>me r. p = mount_notes me r"
  "\<lambda>p. editingNoteId (np_view p) = Some i" "edit_begun i" "edit_left i" "\<lambda>r. \<exists>x. r = updateAlertNote a i x" for a i
proof unfold_locales
  fix p assume "\<exists>me r. p = mount_notes me r"
  then show "editingNoteId (np_view p) \<noteq> Some i" by (auto simp: mount_notes_def mount_timeline_def)
next
  fix e p rs t assume "notes_step a e p = Some (rs, t)" "editingNoteId (np_view t) = Some i"
  then show "editingNoteId (np_view p) = Some i \<or> edit_begun i e"
    by (cases e) (auto simp: note_step_press press_editing edit_begun_def answers_view split: if_splits note_control.splits)
next
  fix e p rs t assume "notes_step a e p = Some (rs, t)" "edit_left i e"
  then show "editingNoteId (np_view t) \<noteq> Some i"
    by (cases e) (auto simp: note_step_press press_editing edit_left_def answers_view split: if_splits note_control.splits)
next
  fix e p rs t r assume "notes_step a e p = Some (rs, t)" "r \<in> set rs" "\<exists>x. r = updateAlertNote a i x"
  then show "editingNoteId (np_view p) = Some i"
    by (cases e) (auto simp: note_step_press dest: note_press_sends(2) split: if_splits)
qed

definition delete_left :: "note_event \<Rightarrow> bool" where
  "delete_left e =
     (case e of Press c \<Rightarrow> c = DeleteCancel \<or> c = DeleteDismiss | DeleteAnswered ok \<Rightarrow> ok | _ \<Rightarrow> False)"

definition delete_asked :: "string \<Rightarrow> note_event \<Rightarrow> bool" where
  "delete_asked i e = (case e of Press (AskDelete n) \<Rightarrow> vm_id n = i | _ \<Rightarrow> False)"

interpretation note_deletion: guarded_dialog "notes_step a" "\<lambda>p. \<exists>me r. p = mount_notes me r"
  "\<lambda>p. map_option vm_id (deletingNote (np_view p)) = Some i" "delete_asked i" delete_left
  "\<lambda>r. r = deleteAlertNote a i" for a i
proof unfold_locales
  fix p assume "\<exists>me r. p = mount_notes me r"
  then show "map_option vm_id (deletingNote (np_view p)) \<noteq> Some i" by (auto simp: mount_notes_def mount_timeline_def)
next
  fix e p rs t assume "notes_step a e p = Some (rs, t)" "map_option vm_id (deletingNote (np_view t)) = Some i"
  then show "map_option vm_id (deletingNote (np_view p)) = Some i \<or> delete_asked i e"
    by (cases e) (auto simp: note_step_press press_deleting delete_asked_def answers_view split: if_splits note_control.splits)
next
  fix e p rs t assume "notes_step a e p = Some (rs, t)" "delete_left e"
  then show "map_option vm_id (deletingNote (np_view t)) \<noteq> Some i"
    by (cases e) (auto simp: note_step_press press_deleting delete_left_def answers_view split: if_splits note_control.splits)
next
  fix e p rs t r assume "notes_step a e p = Some (rs, t)" "r \<in> set rs" "r = deleteAlertNote a i"
  then show "map_option vm_id (deletingNote (np_view p)) = Some i"
    by (cases e) (auto simp: note_step_press dest: note_press_sends(3) split: if_splits)
qed

section \<open>Whose notes change\<close>

text \<open>
  The control was pressed on a note with this id, when that note was on the page, belonged to the user and the user
  could write; and nothing has ended it since.
\<close>

definition asked_by_author ::
  "string \<Rightarrow> notes_page \<Rightarrow> note_event list \<Rightarrow> (AlertNoteViewModel \<Rightarrow> note_control) \<Rightarrow> (note_event \<Rightarrow> bool) \<Rightarrow>
   string \<Rightarrow> bool" where
  "asked_by_author a p0 es ctl ended i \<longleftrightarrow>
     (\<exists>pre n post qs q. es = pre @ Press (ctl n) # post \<and> vm_id n = i \<and> list_all (\<lambda>e. \<not> ended e) post \<and>
        run_page (notes_step a) pre p0 = Some (qs, q) \<and> n \<in> set (np_notes q) \<and> own_note q n)"

lemma run_page_prefix:
  assumes "run_page f (pre @ d # post) s = Some (rs, t)"
  obtains qs q ps u where "run_page f pre s = Some (qs, q)" "f d q = Some (ps, u)"
  using assms by (auto simp: run_page_append split: option.splits)

lemma asked_by_authorI:
  assumes run: "run_page (notes_step a) (pre @ Press (ctl n) # post) p0 = Some (rs, p)"
    and ctl: "ctl = StartEdit \<or> ctl = AskDelete" and "vm_id n = i" "list_all (\<lambda>e. \<not> ended e) post"
  shows "asked_by_author a p0 (pre @ Press (ctl n) # post) ctl ended i"
proof -
  from run obtain qs q ps u where q: "run_page (notes_step a) pre p0 = Some (qs, q)" and "notes_step a (Press (ctl n)) q = Some (ps, u)"
    by (rule run_page_prefix)
  then have "notes_offered q (ctl n)" by (simp add: note_step_press)
  with ctl have "n \<in> set (np_notes q)" "own_note q n" using menu_for_author [of q n] by auto
  with q assms(3,4) show ?thesis unfolding asked_by_author_def by blast
qed

text \<open>A new note is sent only by those who may write.\<close>

lemma added_by_writer:
  assumes "notes_step a e p = Some (qs, t)" "createAlertNote a x \<in> set qs"
  shows "canWrite p \<and> x = trim (noteContent (np_view p)) \<and> length x \<in> {1..5000}"
proof -
  from assms obtain c where "e = Press c" by (cases e) (auto split: if_splits)
  with assms have c: "notes_offered p c" "createAlertNote a x \<in> set (fst (note_press a c p))" by (auto simp: note_step_press)
  from note_press_sends(1) [OF c(2)] c(1) show ?thesis
    by (auto simp: notes_offered_def add_form_def split: if_splits option.splits)
qed

lemma edit_sent:
  assumes "notes_step a e p = Some (qs, t)" "updateAlertNote a i x \<in> set qs"
  shows "editingNoteId (np_view p) = Some i \<and> x = trim (editContent (np_view p)) \<and> length x \<in> {1..5000} \<and>
    \<not> np_saving p \<and> (\<exists>n \<in> set (np_notes p). vm_id n = i \<and> vm_content n \<noteq> x)"
proof -
  from assms obtain c where "e = Press c" by (cases e) (auto split: if_splits)
  with assms have c: "notes_offered p c" "updateAlertNote a i x \<in> set (fst (note_press a c p))" by (auto simp: note_step_press)
  note sends = note_press_sends(2) [OF c(2)]
  then obtain n where n: "c = SaveEdit n \<or> (c = SaveByKey n \<and> canSave (editContent (np_view p)) n (np_saving p))" by blast
  then obtain f where f: "form_of p n = Some f" "c = SaveEdit n \<longrightarrow> ef_save f"
    using c(1) by (auto simp: notes_offered_def split: option.splits)
  from form_ofD [OF f(1)] f(2) n have "n \<in> set (np_notes p)" "editingNoteId (np_view p) = Some (vm_id n)"
    "canSave (editContent (np_view p)) n (np_saving p)" by auto
  with sends show ?thesis by (auto simp: canSave_def)
qed

lemma note_requests:
  "r \<in> set (fst (note_press a c p)) \<Longrightarrow>
     (\<exists>x. r = createAlertNote a x) \<or> (\<exists>i x. r = updateAlertNote a i x) \<or> (\<exists>i. r = deleteAlertNote a i)"
  by (cases c) (auto simp: note_press.simps on_timeline_def handlers_send split: if_splits option.splits)

lemma deletion_idle:
  assumes "notes_offered p c" "deleteAlertNote a i \<in> set (fst (note_press a c p))"
  shows "\<not> np_deleting p"
  using assms by (cases c) (auto simp: notes_offered_def note_press.simps on_timeline_def handlers_send split: if_splits option.splits)

text \<open>C39: A note of an alert is written only by a member of the workspace, and changed or deleted only by its author.
  Whenever the notes send a new note, the user may write; whenever they send a changed or a deleted one, the user had
  asked for it on a note that was the user's own at that time, and had not left the form or the dialog since. What is sent
  is the text of the form without surrounding blanks, between one and 5000 characters long, for a change a text that
  differs from the note, and one change at a time.\<close>

theorem notes_changed_by_author:
  assumes "run_page (notes_step a) es (mount_notes me role) = Some (rs, p)" and "notes_step a e p = Some (qs, t)"
    and "r \<in> set qs"
  shows "(\<exists>x. r = createAlertNote a x \<and> canWrite p \<and> x = trim (noteContent (np_view p)) \<and> length x \<in> {1..5000}) \<or>
    (\<exists>i x. r = updateAlertNote a i x \<and> asked_by_author a (mount_notes me role) es StartEdit (edit_left i) i \<and>
       x = trim (editContent (np_view p)) \<and> length x \<in> {1..5000} \<and> \<not> np_saving p \<and>
       (\<exists>n \<in> set (np_notes p). vm_id n = i \<and> vm_content n \<noteq> x)) \<or>
    (\<exists>i. r = deleteAlertNote a i \<and> asked_by_author a (mount_notes me role) es AskDelete delete_left i \<and> \<not> np_deleting p)"
proof -
  have fresh: "\<exists>m r. mount_notes me role = mount_notes m r" by blast
  from assms(2,3) obtain c where e: "e = Press c" by (cases e) (auto split: if_splits)
  with assms(2,3) have c: "notes_offered p c" "r \<in> set (fst (note_press a c p))" by (auto simp: note_step_press)
  from note_requests [OF c(2)] show ?thesis
  proof (elim disjE exE)
    fix x assume "r = createAlertNote a x"
    with added_by_writer [OF assms(2)] assms(3) show ?thesis by blast
  next
    fix i x assume r: "r = updateAlertNote a i x"
    from note_edit.sent_confirmed [OF fresh assms] r obtain pre d post
      where es: "es = pre @ d # post" "edit_begun i d" "list_all (\<lambda>e. \<not> edit_left i e) post" by blast
    then obtain n where d: "d = Press (StartEdit n)" "vm_id n = i"
      by (auto simp: edit_begun_def split: note_event.splits note_control.splits)
    have "asked_by_author a (mount_notes me role) es StartEdit (edit_left i) i"
      unfolding es(1) d(1) by (rule asked_by_authorI [OF _ _ d(2) es(3)]) (use assms(1) es(1) d(1) in auto)
    moreover note edit_sent [OF assms(2), of i x]
    ultimately show ?thesis using assms(3) r by blast
  next
    fix i assume r: "r = deleteAlertNote a i"
    from note_deletion.sent_confirmed [OF fresh assms] r obtain pre d post
      where es: "es = pre @ d # post" "delete_asked i d" "list_all (\<lambda>e. \<not> delete_left e) post" by blast
    then obtain n where d: "d = Press (AskDelete n)" "vm_id n = i"
      by (auto simp: delete_asked_def split: note_event.splits note_control.splits)
    have "asked_by_author a (mount_notes me role) es AskDelete delete_left i"
      unfolding es(1) d(1) by (rule asked_by_authorI [OF _ _ d(2) es(3)]) (use assms(1) es(1) d(1) in auto)
    moreover have "\<not> np_deleting p" using deletion_idle c r by blast
    ultimately show ?thesis using r by blast
  qed
qed

text \<open>The author of a note corrects it.\<close>

definition correcting :: "note_event list" where
  "correcting =
     [NotesFetched [sample_view] False, Press (StartEdit sample_view), Press (EditInput sample_view ''better '')]"

definition corrected :: notes_page where
  "corrected = the (map_option snd (run_page (notes_step ''a1'') correcting (mount_notes (Some ''u'') (Some member))))"

lemma correcting_run:
  "run_page (notes_step ''a1'') correcting (mount_notes (Some ''u'') (Some member)) = Some ([], corrected) \<and>
   map_option fst (notes_step ''a1'' (Press (SaveEdit sample_view)) corrected) = Some [updateAlertNote ''a1'' ''n2'' ''better'']"
  by code_simp

lemma notes_changed_by_author_witness:
  "asked_by_author ''a1'' (mount_notes (Some ''u'') (Some member)) correcting StartEdit (edit_left ''n2'') ''n2'' \<and>
   trim (editContent (np_view corrected)) = ''better''"
proof -
  from correcting_run obtain qs t where step: "notes_step ''a1'' (Press (SaveEdit sample_view)) corrected = Some (qs, t)"
    and "updateAlertNote ''a1'' ''n2'' ''better'' \<in> set qs" by auto
  from notes_changed_by_author [OF conjunct1 [OF correcting_run] this] show ?thesis by auto
qed

text \<open>
  The button waits for the answer, the keys do not: while a note is being sent, Enter with Ctrl sends it again.
\<close>

lemma keys_ignore_pending:
  "map_option fst (run_page (notes_step ''a1'') [Press (NoteInput ''seen''), Press AddByKey, Press AddByKey]
     (mount_notes (Some ''u'') (Some member))) = Some [createAlertNote ''a1'' ''seen'', createAlertNote ''a1'' ''seen''] \<and>
   run_page (notes_step ''a1'') [Press (NoteInput ''seen''), Press AddNote, Press AddNote] (mount_notes (Some ''u'') (Some member)) = None"
  by code_simp

end
