(* ===== verification/Channels_Page.thy ===== *)
theory Channels_Page
  imports Channels_View Account_Views Guarded_Dialog
begin

text \<open>
  The page of notification channels as a machine (\<open>features/notifications/ui/channels-view.tsx\<close>): the two sections with
  their rows, the three forms, the dialog each row has for its deletion, and the answers of the six mutations. The
  handlers of the forms are those of \<open>Channels_View\<close>.
\<close>

section \<open>The state\<close>

record NotificationRule =
  nr_id :: string
  nr_workspaceId :: string
  nr_channelId :: string
  nr_severity :: string
  nr_active :: bool
  nr_createdAt :: string
  nr_updatedAt :: string

text \<open>
  A mutation reports the last call only, so of the updates under way the state keeps the last: one of the edit form,
  whose success empties the form, or one of a switch. Every row has a dialog of its own, which is gone with the row.
\<close>

datatype update_run = Saving | Toggling

record channels_state =
  cs_role :: "WorkspaceRole option"
  cs_ws :: "string option"
  cs_channels :: "NotificationChannel list"
  cs_loading :: bool
  cs_rules :: "NotificationRule list"
  cs_rulesLoading :: bool
  cs_form :: channels_form
  cs_creating :: bool
  cs_update :: "update_run option"
  cs_testing :: bool
  cs_deleting :: "string option"
  cs_dialogs :: "string \<Rightarrow> confirm_dialog"
  cs_ruleForm :: rules_form
  cs_ruleCreating :: bool
  cs_ruleDeleting :: "string option"
  cs_ruleDialogs :: "string \<Rightarrow> confirm_dialog"

definition mount_sections :: "channels_state \<Rightarrow> channels_state" where
  "mount_sections p =
     p\<lparr>cs_form := mount_channels, cs_creating := False, cs_update := None, cs_testing := False, cs_deleting := None,
       cs_dialogs := (\<lambda>_. closed_dialog), cs_ruleForm := mount_rules, cs_ruleCreating := False, cs_ruleDeleting := None,
       cs_ruleDialogs := (\<lambda>_. closed_dialog)\<rparr>"

definition mount_channels_page :: "WorkspaceRole option \<Rightarrow> string option \<Rightarrow> channels_state" where
  "mount_channels_page r ws =
     \<lparr>cs_role = r, cs_ws = ws, cs_channels = [], cs_loading = True, cs_rules = [], cs_rulesLoading = True,
      cs_form = mount_channels, cs_creating = False, cs_update = None, cs_testing = False, cs_deleting = None,
      cs_dialogs = (\<lambda>_. closed_dialog), cs_ruleForm = mount_rules, cs_ruleCreating = False, cs_ruleDeleting = None,
      cs_ruleDialogs = (\<lambda>_. closed_dialog)\<rparr>"

definition sections_ws :: "channels_state \<Rightarrow> string option" where
  "sections_ws p = (case channels_view (cs_role p) (cs_ws p) of Sections i \<Rightarrow> Some i | _ \<Rightarrow> None)"

section \<open>What is on the screen\<close>

definition channels_heading :: "channels_state \<Rightarrow> string \<times> string" where
  "channels_heading p =
     (''Notification Channels'',
      case channels_view (cs_role p) (cs_ws p) of
        NoPermission \<Rightarrow> ''You do not have permission to manage notification channels. Admin access is required.''
      | NoWorkspace \<Rightarrow> ''Select a workspace to manage notification channels.''
      | Sections _ \<Rightarrow> ''Manage how and when alerts are delivered to your team.'')"

text \<open>A section: a spinner, a note with a button of its own, or the rows.\<close>

datatype 'r section_body = Spinner | EmptyNote string string "string option" | Rows "'r list"

record 'r page_section =
  ps_title :: string
  ps_note :: string
  ps_add :: "string option"
  ps_body :: "'r section_body"

definition canManage :: "channels_state \<Rightarrow> bool" where
  "canManage p = hasMinimumRole (cs_role p) admin"

definition when_manager :: "channels_state \<Rightarrow> 'a \<Rightarrow> 'a option" where
  "when_manager p x = (if canManage p then Some x else None)"

definition CHANNEL_TYPE_LABELS :: "NotificationChannelType \<Rightarrow> string" where
  "CHANNEL_TYPE_LABELS t = (case t of email \<Rightarrow> ''Email'' | slack \<Rightarrow> ''Slack'' | webhook \<Rightarrow> ''Webhook'')"

text \<open>The buttons of a row with whether they are enabled, and its switch with whether it is on.\<close>

record channel_row =
  cr_name :: string
  cr_badge :: string
  cr_created :: string
  cr_buttons :: "(string \<times> bool) list"
  cr_switch :: "(string \<times> bool) option"

definition channel_row_of :: "(string \<Rightarrow> string) \<Rightarrow> channels_state \<Rightarrow> NotificationChannel \<Rightarrow> channel_row" where
  "channel_row_of date p c =
     \<lparr>cr_name = ch_name c, cr_badge = CHANNEL_TYPE_LABELS (ch_type c), cr_created = ''Created '' @ date (ch_createdAt c),
      cr_buttons =
        (if canManage p
         then [(''Edit channel '' @ ch_name c, True), (''Test channel '' @ ch_name c, \<not> cs_testing p),
               (''Delete channel '' @ ch_name c, cs_deleting p = None)]
         else []),
      cr_switch = when_manager p (''Toggle '' @ ch_name c @ (if ch_active c then '' off'' else '' on''), ch_active c)\<rparr>"

definition ChannelsSection :: "(string \<Rightarrow> string) \<Rightarrow> channels_state \<Rightarrow> channel_row page_section" where
  "ChannelsSection date p =
     \<lparr>ps_title = ''Channels'', ps_note = ''Configure where notifications are sent.'',
      ps_add = when_manager p ''Add Channel'',
      ps_body =
        (if cs_loading p then Spinner
         else if cs_channels p = []
         then EmptyNote ''No channels configured.''
                ''Add a notification channel to start receiving alerts via email, Slack, or webhook.''
                (when_manager p ''Add Channel'')
         else Rows (map (channel_row_of date p) (cs_channels p)))\<rparr>"

text \<open>The message under a field, if it has one.\<close>

definition below :: "(string \<times> string) list \<Rightarrow> string \<Rightarrow> string option" where
  "below es key = (case map_of es key of None \<Rightarrow> None | Some m \<Rightarrow> if m = [] then None else Some m)"

definition type_label :: "NotificationChannelType option \<Rightarrow> string" where
  "type_label t =
     (case t of None \<Rightarrow> ''Select type'' | Some email \<Rightarrow> ''Email (SMTP)'' | Some slack \<Rightarrow> ''Slack (Webhook)''
      | Some webhook \<Rightarrow> ''Webhook'')"

text \<open>A form: its title, the fields with their label, what they show and the message below, and the button.\<close>

record channel_form_screen =
  cf_title :: string
  cf_note :: string
  cf_fields :: "(string \<times> json option \<times> string option) list"
  cf_button :: "string \<times> bool"

definition config_label :: "NotificationChannelType \<Rightarrow> string \<Rightarrow> string" where
  "config_label t key =
     (case t of
        email \<Rightarrow>
          (if key = ''host'' then ''SMTP Host'' else if key = ''port'' then ''SMTP Port''
           else if key = ''username'' then ''SMTP Username (optional)''
           else if key = ''password'' then ''SMTP Password (optional)''
           else if key = ''from'' then ''From Address'' else ''To Address'')
      | slack \<Rightarrow> ''Slack Webhook URL''
      | webhook \<Rightarrow> if key = ''url'' then ''Webhook URL'' else ''Secret (optional)'')"

definition ChannelConfigFields ::
  "formats \<Rightarrow> NotificationChannelType \<Rightarrow> string \<Rightarrow> (string \<times> json option \<times> string option) list" where
  "ChannelConfigFields fm t config =
     map (\<lambda>(key, marked). (config_label t key, input_value config key, if marked then errorFor fm t config key else None))
       (channel_fields t)"

definition create_dialog :: "formats \<Rightarrow> channels_state \<Rightarrow> channel_form_screen option" where
  "create_dialog fm p =
     (let f = cs_form p in
      if canManage p \<and> createOpen f
      then Some \<lparr>cf_title = ''Create Notification Channel'',
        cf_note = ''Add a new channel to receive alert notifications.'',
        cf_fields =
          [(''Name'', Some (JStr (channelName f)), below (channelFieldErrors f) ''name''),
           (''Type'', Some (JStr (type_label (channelType f))), below (channelFieldErrors f) ''type'')] @
          (case channelType f of None \<Rightarrow> [] | Some t \<Rightarrow> ChannelConfigFields fm t (channelConfig f)),
        cf_button = (''Create Channel'', \<not> create_disabled fm (cs_creating p) f)\<rparr>
      else None)"

definition edit_disabled :: "formats \<Rightarrow> channels_state \<Rightarrow> bool" where
  "edit_disabled fm p \<longleftrightarrow>
     (let f = cs_form p in
      editName f = [] \<or> editChannel f = None \<or>
      \<not> isConfigValid fm (map_option ch_type (editChannel f)) (editConfig f) \<or> cs_update p \<noteq> None)"

definition edit_dialog :: "formats \<Rightarrow> channels_state \<Rightarrow> channel_form_screen option" where
  "edit_dialog fm p =
     (let f = cs_form p in
      case editChannel f of
        None \<Rightarrow> None
      | Some c \<Rightarrow> Some \<lparr>cf_title = ''Edit Channel'', cf_note = ''Update the channel name and configuration.'',
          cf_fields = (''Name'', Some (JStr (editName f)), None) # ChannelConfigFields fm (ch_type c) (editConfig f),
          cf_button = (''Save Changes'', \<not> edit_disabled fm p)\<rparr>)"

definition delete_channel_text :: "NotificationChannel \<Rightarrow> string" where
  "delete_channel_text c =
     ''Are you sure you want to delete '' @ [CHR 0x22] @ ch_name c @ [CHR 0x22] @
     ''? Any routing rules using this channel will also be removed.''"

text \<open>The rules.\<close>

definition SEVERITIES :: "string list" where
  "SEVERITIES = [''low'', ''medium'', ''high'', ''critical'']"

record rule_row =
  rr_severity :: string
  rr_icon :: NotificationChannelType
  rr_channel :: string
  rr_delete :: "(string \<times> bool) option"

definition rule_row_of :: "channels_state \<Rightarrow> NotificationRule \<Rightarrow> rule_row" where
  "rule_row_of p r =
     \<lparr>rr_severity = nr_severity r, rr_icon = getChannelType (cs_channels p) (nr_channelId r),
      rr_channel = getChannelName (cs_channels p) (nr_channelId r),
      rr_delete = when_manager p
        (''Delete routing rule for '' @ nr_severity r @ '' severity'', cs_ruleDeleting p = None)\<rparr>"

definition RulesSection :: "channels_state \<Rightarrow> rule_row page_section" where
  "RulesSection p =
     \<lparr>ps_title = ''Routing Rules'',
      ps_note = ''Define which alerts are sent to which channels based on severity.'',
      ps_add = when_manager p ''Add Rule'',
      ps_body =
        (if cs_rulesLoading p then Spinner
         else if cs_rules p = []
         then EmptyNote ''No routing rules configured.''
                ''Add a rule to route alerts of specific severities to your notification channels.''
                (when_manager p ''Add Rule'')
         else Rows (map (rule_row_of p) (cs_rules p)))\<rparr>"

text \<open>
  The list of channels in the form of a rule; without channels there is a note in its place. What it shows is the
  name of the chosen channel, if the page has that channel.
\<close>

definition shown_rule_channel :: "channels_state \<Rightarrow> string" where
  "shown_rule_channel p =
     (let chosen = channel_text (ruleChannel (cs_ruleForm p)) in
      if chosen = [] then ''Select channel''
      else case find (\<lambda>c. ch_id c = chosen) (cs_channels p) of None \<Rightarrow> ''Select channel'' | Some c \<Rightarrow> ch_name c)"

definition rule_create_disabled :: "channels_state \<Rightarrow> bool" where
  "rule_create_disabled p \<longleftrightarrow>
     channel_text (ruleChannel (cs_ruleForm p)) = [] \<or> ruleSeverity (cs_ruleForm p) = [] \<or> cs_channels p = [] \<or>
     cs_ruleCreating p"

definition rule_dialog :: "channels_state \<Rightarrow> channel_form_screen option" where
  "rule_dialog p =
     (let f = cs_ruleForm p in
      if canManage p \<and> ruleCreateOpen f
      then Some \<lparr>cf_title = ''Create Routing Rule'',
        cf_note = ''Route alerts of a specific severity to a notification channel.'',
        cf_fields =
          [(''Severity'', Some (JStr (if ruleSeverity f = [] then ''Select severity'' else ruleSeverity f)),
             below (ruleFieldErrors f) ''severity''),
           (''Channel'',
             Some (JStr (if cs_channels p = [] then ''Create a channel first before adding rules.''
                         else shown_rule_channel p)),
             below (ruleFieldErrors f) ''channelId'')],
        cf_button = (''Create Rule'', \<not> rule_create_disabled p)\<rparr>
      else None)"

definition delete_rule_text :: "channels_state \<Rightarrow> NotificationRule \<Rightarrow> string" where
  "delete_rule_text p r =
     ''Are you sure you want to remove the '' @ nr_severity r @ '' severity routing rule for '' @
     getChannelName (cs_channels p) (nr_channelId r) @ ''?''"

section \<open>Controls\<close>

datatype channels_control =
    AddChannel | EmptyAddChannel | CreateName string | CreateType NotificationChannelType | CreateField string string
  | CreateChannel | CloseCreate
  | EditChannelButton NotificationChannel | EditNameInput string | EditField string string | SaveChannel | CloseEdit
  | TestChannel NotificationChannel | ToggleChannel NotificationChannel bool
  | AskDeleteChannel NotificationChannel | KeepChannel string | DismissChannel string | ConfirmDeleteChannel string
  | AddRule | EmptyAddRule | RuleSeverityOption string | RuleChannelOption string | CreateRule | CloseRule
  | AskDeleteRule NotificationRule | KeepRule string | DismissRule string | ConfirmDeleteRule string

definition channel_rows :: "channels_state \<Rightarrow> NotificationChannel list" where
  "channel_rows p = (if sections_ws p = None \<or> cs_loading p then [] else cs_channels p)"

definition rule_rows :: "channels_state \<Rightarrow> NotificationRule list" where
  "rule_rows p = (if sections_ws p = None \<or> cs_rulesLoading p then [] else cs_rules p)"

text \<open>The form or dialog that lies over the page, if one does.\<close>

definition create_shown :: "channels_state \<Rightarrow> bool" where
  "create_shown p \<longleftrightarrow> sections_ws p \<noteq> None \<and> createOpen (cs_form p)"

definition edit_shown :: "channels_state \<Rightarrow> bool" where
  "edit_shown p \<longleftrightarrow> sections_ws p \<noteq> None \<and> editChannel (cs_form p) \<noteq> None"

definition rule_form_shown :: "channels_state \<Rightarrow> bool" where
  "rule_form_shown p \<longleftrightarrow> sections_ws p \<noteq> None \<and> ruleCreateOpen (cs_ruleForm p)"

definition channel_dialog_shown :: "channels_state \<Rightarrow> string \<Rightarrow> bool" where
  "channel_dialog_shown p i \<longleftrightarrow> i \<in> set (map ch_id (channel_rows p)) \<and> cd_open (cs_dialogs p i)"

definition rule_dialog_shown :: "channels_state \<Rightarrow> string \<Rightarrow> bool" where
  "rule_dialog_shown p i \<longleftrightarrow> i \<in> set (map nr_id (rule_rows p)) \<and> cd_open (cs_ruleDialogs p i)"

definition covered :: "channels_state \<Rightarrow> bool" where
  "covered p \<longleftrightarrow> create_shown p \<or> edit_shown p \<or> rule_form_shown p \<or>
     list_ex (\<lambda>c. channel_dialog_shown p (ch_id c)) (channel_rows p) \<or>
     list_ex (\<lambda>r. rule_dialog_shown p (nr_id r)) (rule_rows p)"

definition config_key :: "NotificationChannelType option \<Rightarrow> string \<Rightarrow> bool" where
  "config_key t key = (case t of None \<Rightarrow> False | Some t \<Rightarrow> key \<in> set (map fst (channel_fields t)))"

text \<open>A row has its buttons where the page is not covered.\<close>

definition channels_offered :: "formats \<Rightarrow> channels_state \<Rightarrow> channels_control \<Rightarrow> bool" where
  "channels_offered fm p c =
     (let uncovered = (sections_ws p \<noteq> None \<and> \<not> covered p); f = cs_form p; rf = cs_ruleForm p in
      case c of
        AddChannel \<Rightarrow> uncovered
      | EmptyAddChannel \<Rightarrow> uncovered \<and> \<not> cs_loading p \<and> cs_channels p = []
      | CreateName _ \<Rightarrow> create_shown p
      | CreateType _ \<Rightarrow> create_shown p
      | CreateField key _ \<Rightarrow> create_shown p \<and> config_key (channelType f) key
      | CreateChannel \<Rightarrow> create_shown p \<and> \<not> create_disabled fm (cs_creating p) f
      | CloseCreate \<Rightarrow> create_shown p
      | EditChannelButton x \<Rightarrow> uncovered \<and> x \<in> set (channel_rows p)
      | EditNameInput _ \<Rightarrow> edit_shown p
      | EditField key _ \<Rightarrow> edit_shown p \<and> config_key (map_option ch_type (editChannel f)) key
      | SaveChannel \<Rightarrow> edit_shown p \<and> \<not> edit_disabled fm p
      | CloseEdit \<Rightarrow> edit_shown p
      | TestChannel x \<Rightarrow> uncovered \<and> x \<in> set (channel_rows p) \<and> \<not> cs_testing p
      | ToggleChannel x b \<Rightarrow> uncovered \<and> x \<in> set (channel_rows p) \<and> b = (\<not> ch_active x)
      | AskDeleteChannel x \<Rightarrow> uncovered \<and> x \<in> set (channel_rows p) \<and> cs_deleting p = None
      | KeepChannel i \<Rightarrow> channel_dialog_shown p i \<and> \<not> cd_pending (cs_dialogs p i)
      | DismissChannel i \<Rightarrow> channel_dialog_shown p i
      | ConfirmDeleteChannel i \<Rightarrow> channel_dialog_shown p i \<and> confirm_enabled None (cs_dialogs p i)
      | AddRule \<Rightarrow> uncovered
      | EmptyAddRule \<Rightarrow> uncovered \<and> \<not> cs_rulesLoading p \<and> cs_rules p = []
      | RuleSeverityOption v \<Rightarrow> rule_form_shown p \<and> v \<in> set SEVERITIES
      | RuleChannelOption v \<Rightarrow> rule_form_shown p \<and> v \<in> set (map ch_id (cs_channels p))
      | CreateRule \<Rightarrow> rule_form_shown p \<and> \<not> rule_create_disabled p
      | CloseRule \<Rightarrow> rule_form_shown p
      | AskDeleteRule x \<Rightarrow> uncovered \<and> x \<in> set (rule_rows p) \<and> cs_ruleDeleting p = None
      | KeepRule i \<Rightarrow> rule_dialog_shown p i \<and> \<not> cd_pending (cs_ruleDialogs p i)
      | DismissRule i \<Rightarrow> rule_dialog_shown p i
      | ConfirmDeleteRule i \<Rightarrow> rule_dialog_shown p i \<and> confirm_enabled None (cs_ruleDialogs p i))"

text \<open>What the page sends: the call of a mutation.\<close>

datatype channels_effect =
    CreatesChannel api_call | UpdatesChannel api_call | TestsChannel string string | DeletesChannel string string
  | CreatesRule api_call | DeletesRule string string

fun effect_call :: "channels_effect \<Rightarrow> api_call" where
  "effect_call (CreatesChannel c) = c"
| "effect_call (UpdatesChannel c) = c"
| "effect_call (TestsChannel ws i) = m_call (useTestChannel ws) i"
| "effect_call (DeletesChannel ws i) = m_call (useDeleteChannel ws) i"
| "effect_call (CreatesRule c) = c"
| "effect_call (DeletesRule ws i) = m_call (useDeleteRule ws) i"

definition on_channels :: "(channels_form \<Rightarrow> channels_form) \<Rightarrow> channels_state \<Rightarrow> channels_effect list \<times> channels_state" where
  "on_channels f p = ([], p\<lparr>cs_form := f (cs_form p)\<rparr>)"

definition on_rules :: "(rules_form \<Rightarrow> rules_form) \<Rightarrow> channels_state \<Rightarrow> channels_effect list \<times> channels_state" where
  "on_rules f p = ([], p\<lparr>cs_ruleForm := f (cs_ruleForm p)\<rparr>)"

definition on_dialog :: "(confirm_dialog \<Rightarrow> confirm_dialog) \<Rightarrow> string \<Rightarrow> channels_state \<Rightarrow> channels_effect list \<times> channels_state" where
  "on_dialog f i p = ([], p\<lparr>cs_dialogs := (cs_dialogs p)(i := f (cs_dialogs p i))\<rparr>)"

definition on_rule_dialog :: "(confirm_dialog \<Rightarrow> confirm_dialog) \<Rightarrow> string \<Rightarrow> channels_state \<Rightarrow> channels_effect list \<times> channels_state" where
  "on_rule_dialog f i p = ([], p\<lparr>cs_ruleDialogs := (cs_ruleDialogs p)(i := f (cs_ruleDialogs p i))\<rparr>)"

definition press_create_channel :: "formats \<Rightarrow> string \<Rightarrow> channels_state \<Rightarrow> channels_effect list \<times> channels_state" where
  "press_create_channel fm ws p =
     (case handleCreate fm ws (cs_form p) of
        (None, f) \<Rightarrow> ([], p\<lparr>cs_form := f\<rparr>)
      | (Some call, f) \<Rightarrow> ([CreatesChannel call], p\<lparr>cs_form := f, cs_creating := True\<rparr>))"

definition press_save_channel :: "formats \<Rightarrow> string \<Rightarrow> channels_state \<Rightarrow> channels_effect list \<times> channels_state" where
  "press_save_channel fm ws p =
     (case handleEditSave fm ws (cs_form p) of
        None \<Rightarrow> ([], p)
      | Some call \<Rightarrow> ([UpdatesChannel call], p\<lparr>cs_update := Some Saving\<rparr>))"

definition press_create_rule :: "string \<Rightarrow> channels_state \<Rightarrow> channels_effect list \<times> channels_state" where
  "press_create_rule ws p =
     (case handleCreateRule ws (cs_ruleForm p) of
        (None, f) \<Rightarrow> ([], p\<lparr>cs_ruleForm := f\<rparr>)
      | (Some call, f) \<Rightarrow> ([CreatesRule call], p\<lparr>cs_ruleForm := f, cs_ruleCreating := True\<rparr>))"

fun channels_press ::
  "formats \<Rightarrow> string \<Rightarrow> channels_control \<Rightarrow> channels_state \<Rightarrow> channels_effect list \<times> channels_state" where
  "channels_press fm ws AddChannel p = on_channels (set_create_open True) p"
| "channels_press fm ws EmptyAddChannel p = on_channels (set_create_open True) p"
| "channels_press fm ws (CreateName v) p = on_channels (change_name v) p"
| "channels_press fm ws (CreateType t) p = on_channels (select_type t) p"
| "channels_press fm ws (CreateField key v) p = on_channels (change_field key v) p"
| "channels_press fm ws CreateChannel p = press_create_channel fm ws p"
| "channels_press fm ws CloseCreate p = on_channels (set_create_open False) p"
| "channels_press fm ws (EditChannelButton x) p = on_channels (handleEditOpen x) p"
| "channels_press fm ws (EditNameInput v) p = on_channels (change_edit_name v) p"
| "channels_press fm ws (EditField key v) p = on_channels (edit_field key v) p"
| "channels_press fm ws SaveChannel p = press_save_channel fm ws p"
| "channels_press fm ws CloseEdit p = on_channels close_edit p"
| "channels_press fm ws (TestChannel x) p = ([TestsChannel ws (ch_id x)], p\<lparr>cs_testing := True\<rparr>)"
| "channels_press fm ws (ToggleChannel x b) p = ([UpdatesChannel (handleToggle ws x b)], p\<lparr>cs_update := Some Toggling\<rparr>)"
| "channels_press fm ws (AskDeleteChannel x) p = on_dialog (set_dialog_open True) (ch_id x) p"
| "channels_press fm ws (KeepChannel i) p = on_dialog (set_dialog_open False) i p"
| "channels_press fm ws (DismissChannel i) p = on_dialog (set_dialog_open False) i p"
| "channels_press fm ws (ConfirmDeleteChannel i) p =
     ([DeletesChannel ws i], (snd (on_dialog begin_confirm i p))\<lparr>cs_deleting := Some i\<rparr>)"
| "channels_press fm ws AddRule p = on_rules (\<lambda>f. f\<lparr>ruleCreateOpen := True\<rparr>) p"
| "channels_press fm ws EmptyAddRule p = on_rules (\<lambda>f. f\<lparr>ruleCreateOpen := True\<rparr>) p"
| "channels_press fm ws (RuleSeverityOption v) p = on_rules (select_severity v) p"
| "channels_press fm ws (RuleChannelOption v) p = on_rules (select_channel v) p"
| "channels_press fm ws CreateRule p = press_create_rule ws p"
| "channels_press fm ws CloseRule p = on_rules (\<lambda>f. f\<lparr>ruleCreateOpen := False\<rparr>) p"
| "channels_press fm ws (AskDeleteRule x) p = on_rule_dialog (set_dialog_open True) (nr_id x) p"
| "channels_press fm ws (KeepRule i) p = on_rule_dialog (set_dialog_open False) i p"
| "channels_press fm ws (DismissRule i) p = on_rule_dialog (set_dialog_open False) i p"
| "channels_press fm ws (ConfirmDeleteRule i) p =
     ([DeletesRule ws i], (snd (on_rule_dialog begin_confirm i p))\<lparr>cs_ruleDeleting := Some i\<rparr>)"

text \<open>
  Answers, new data, and a change of the role or the workspace. The sections go with the role or the workspace and
  come back empty; from one workspace to another they stay. The end of a deletion reaches the dialog that waits for
  it, if its row is still there.
\<close>

datatype channels_event =
    Press channels_control
  | CreateAnswered bool | UpdateAnswered bool | TestAnswered | DeletionAnswered bool
  | RuleAnswered bool | RuleDeletionAnswered bool
  | ChannelsFetched "NotificationChannel list" bool
  | RulesFetched "NotificationRule list" bool
  | Placed "WorkspaceRole option" "string option"

definition kept_dialogs :: "string list \<Rightarrow> (string \<Rightarrow> confirm_dialog) \<Rightarrow> string \<Rightarrow> confirm_dialog" where
  "kept_dialogs ids d = (\<lambda>i. if i \<in> set ids then d i else closed_dialog)"

definition settled_dialogs :: "string \<Rightarrow> bool \<Rightarrow> (string \<Rightarrow> confirm_dialog) \<Rightarrow> string \<Rightarrow> confirm_dialog" where
  "settled_dialogs i ok d = (if cd_pending (d i) then d(i := end_confirm ok (d i)) else d)"

definition place :: "WorkspaceRole option \<Rightarrow> string option \<Rightarrow> channels_state \<Rightarrow> channels_state" where
  "place r w p =
     (let q = p\<lparr>cs_role := r, cs_ws := w\<rparr> in
      if sections_ws p = None \<or> sections_ws q = None then mount_sections q else q)"

fun channels_step :: "formats \<Rightarrow> (channels_event, channels_state, channels_effect) machine" where
  "channels_step fm (Press c) p =
     (case sections_ws p of
        None \<Rightarrow> None
      | Some ws \<Rightarrow> if channels_offered fm p c then Some (channels_press fm ws c p) else None)"
| "channels_step fm (CreateAnswered ok) p =
     (if cs_creating p
      then Some ([], p\<lparr>cs_form := (if ok then channel_created (cs_form p) else cs_form p), cs_creating := False\<rparr>)
      else None)"
| "channels_step fm (UpdateAnswered ok) p =
     (case cs_update p of
        None \<Rightarrow> None
      | Some u \<Rightarrow>
          Some ([], p\<lparr>cs_form := (if ok \<and> u = Saving then channel_saved (cs_form p) else cs_form p), cs_update := None\<rparr>))"
| "channels_step fm TestAnswered p = (if cs_testing p then Some ([], p\<lparr>cs_testing := False\<rparr>) else None)"
| "channels_step fm (DeletionAnswered ok) p =
     (case cs_deleting p of
        None \<Rightarrow> None
      | Some i \<Rightarrow> Some ([], p\<lparr>cs_dialogs := settled_dialogs i ok (cs_dialogs p), cs_deleting := None\<rparr>))"
| "channels_step fm (RuleAnswered ok) p =
     (if cs_ruleCreating p
      then Some ([], p\<lparr>cs_ruleForm := (if ok then rule_created (cs_ruleForm p) else cs_ruleForm p), cs_ruleCreating := False\<rparr>)
      else None)"
| "channels_step fm (RuleDeletionAnswered ok) p =
     (case cs_ruleDeleting p of
        None \<Rightarrow> None
      | Some i \<Rightarrow> Some ([], p\<lparr>cs_ruleDialogs := settled_dialogs i ok (cs_ruleDialogs p), cs_ruleDeleting := None\<rparr>))"
| "channels_step fm (ChannelsFetched cs loading) p =
     Some ([], p\<lparr>cs_channels := cs, cs_loading := loading,
       cs_dialogs := kept_dialogs (if loading then [] else map ch_id cs) (cs_dialogs p)\<rparr>)"
| "channels_step fm (RulesFetched rs loading) p =
     Some ([], p\<lparr>cs_rules := rs, cs_rulesLoading := loading,
       cs_ruleDialogs := kept_dialogs (if loading then [] else map nr_id rs) (cs_ruleDialogs p)\<rparr>)"
| "channels_step fm (Placed r w) p = Some ([], place r w p)"

section \<open>Lemmas\<close>

lemma sections_ws_iff: "sections_ws p = Some ws \<longleftrightarrow> canManage p \<and> cs_ws p = Some ws \<and> ws \<noteq> []"
  by (auto simp: sections_ws_def channels_view_def canManage_def split: option.splits if_splits)

lemma channel_step_press:
  "channels_step fm (Press c) p = Some (qs, t) \<longleftrightarrow>
     (\<exists>ws. sections_ws p = Some ws \<and> channels_offered fm p c \<and>
        qs = fst (channels_press fm ws c p) \<and> t = snd (channels_press fm ws c p))"
  by (auto simp: prod_eq_iff split: option.splits)

declare channels_step.simps(1) [simp del]

lemma form_presses:
  "fst (press_create_channel fm ws p) = (case fst (handleCreate fm ws (cs_form p)) of None \<Rightarrow> [] | Some c \<Rightarrow> [CreatesChannel c])"
  "fst (press_save_channel fm ws p) = (case handleEditSave fm ws (cs_form p) of None \<Rightarrow> [] | Some c \<Rightarrow> [UpdatesChannel c])"
  "fst (press_create_rule ws p) = (case fst (handleCreateRule ws (cs_ruleForm p)) of None \<Rightarrow> [] | Some c \<Rightarrow> [CreatesRule c])"
  "cs_dialogs (snd (press_create_channel fm ws p)) = cs_dialogs p" "cs_ruleDialogs (snd (press_create_channel fm ws p)) = cs_ruleDialogs p"
  "cs_dialogs (snd (press_save_channel fm ws p)) = cs_dialogs p" "cs_ruleDialogs (snd (press_save_channel fm ws p)) = cs_ruleDialogs p"
  "cs_dialogs (snd (press_create_rule ws p)) = cs_dialogs p" "cs_ruleDialogs (snd (press_create_rule ws p)) = cs_ruleDialogs p"
  by (auto simp: press_create_channel_def press_save_channel_def press_create_rule_def split: prod.splits option.splits)

lemma channel_press_dialogs:
  "cs_dialogs (snd (channels_press fm ws c p)) =
     (case c of
        AskDeleteChannel x \<Rightarrow> (cs_dialogs p)(ch_id x := set_dialog_open True (cs_dialogs p (ch_id x)))
      | KeepChannel i \<Rightarrow> (cs_dialogs p)(i := set_dialog_open False (cs_dialogs p i))
      | DismissChannel i \<Rightarrow> (cs_dialogs p)(i := set_dialog_open False (cs_dialogs p i))
      | ConfirmDeleteChannel i \<Rightarrow> (cs_dialogs p)(i := begin_confirm (cs_dialogs p i))
      | _ \<Rightarrow> cs_dialogs p)"
  by (cases c) (simp_all add: on_channels_def on_rules_def on_dialog_def on_rule_dialog_def form_presses)

lemma press_rule_dialogs:
  "cs_ruleDialogs (snd (channels_press fm ws c p)) =
     (case c of
        AskDeleteRule x \<Rightarrow> (cs_ruleDialogs p)(nr_id x := set_dialog_open True (cs_ruleDialogs p (nr_id x)))
      | KeepRule i \<Rightarrow> (cs_ruleDialogs p)(i := set_dialog_open False (cs_ruleDialogs p i))
      | DismissRule i \<Rightarrow> (cs_ruleDialogs p)(i := set_dialog_open False (cs_ruleDialogs p i))
      | ConfirmDeleteRule i \<Rightarrow> (cs_ruleDialogs p)(i := begin_confirm (cs_ruleDialogs p i))
      | _ \<Rightarrow> cs_ruleDialogs p)"
  by (cases c) (simp_all add: on_channels_def on_rules_def on_dialog_def on_rule_dialog_def form_presses)

lemma press_requests:
  "fst (channels_press fm ws c p) =
     (case c of
        CreateChannel \<Rightarrow> (case fst (handleCreate fm ws (cs_form p)) of None \<Rightarrow> [] | Some c \<Rightarrow> [CreatesChannel c])
      | SaveChannel \<Rightarrow> (case handleEditSave fm ws (cs_form p) of None \<Rightarrow> [] | Some c \<Rightarrow> [UpdatesChannel c])
      | TestChannel x \<Rightarrow> [TestsChannel ws (ch_id x)]
      | ToggleChannel x b \<Rightarrow> [UpdatesChannel (handleToggle ws x b)]
      | ConfirmDeleteChannel i \<Rightarrow> [DeletesChannel ws i]
      | CreateRule \<Rightarrow> (case fst (handleCreateRule ws (cs_ruleForm p)) of None \<Rightarrow> [] | Some c \<Rightarrow> [CreatesRule c])
      | ConfirmDeleteRule i \<Rightarrow> [DeletesRule ws i]
      | _ \<Rightarrow> [])"
  by (cases c) (simp_all add: on_channels_def on_rules_def on_dialog_def on_rule_dialog_def form_presses)

declare channels_press.simps [simp del]

lemma dialogs_settled:
  "cd_open (settled_dialogs i ok d j) \<Longrightarrow> cd_open (d j)" "cd_open (kept_dialogs ids d j) \<Longrightarrow> cd_open (d j)"
  by (auto simp: settled_dialogs_def end_confirm_def set_dialog_open_def kept_dialogs_def closed_dialog_def split: if_splits)

lemma dialogs_placed:
  "cd_open (cs_dialogs (place r w p) j) \<Longrightarrow> cd_open (cs_dialogs p j)"
  "cd_open (cs_ruleDialogs (place r w p) j) \<Longrightarrow> cd_open (cs_ruleDialogs p j)"
  by (auto simp: place_def mount_sections_def closed_dialog_def Let_def split: if_splits)

lemma dialog_opened:
  "cd_open (set_dialog_open b d) \<longleftrightarrow> b" "cd_open (begin_confirm d) = cd_open d"
  by (simp_all add: set_dialog_open_def begin_confirm_def)

lemmas dialog_facts = channel_step_press channel_press_dialogs press_rule_dialogs press_requests dialog_opened

section \<open>The dialogs of the rows\<close>

definition asks_channel :: "string \<Rightarrow> channels_event \<Rightarrow> bool" where
  "asks_channel i e = (case e of Press (AskDeleteChannel c) \<Rightarrow> ch_id c = i | _ \<Rightarrow> False)"

definition leaves_channel :: "string \<Rightarrow> channels_event \<Rightarrow> bool" where
  "leaves_channel i e = (e = Press (KeepChannel i) \<or> e = Press (DismissChannel i))"

definition asks_rule :: "string \<Rightarrow> channels_event \<Rightarrow> bool" where
  "asks_rule i e = (case e of Press (AskDeleteRule r) \<Rightarrow> nr_id r = i | _ \<Rightarrow> False)"

definition leaves_rule :: "string \<Rightarrow> channels_event \<Rightarrow> bool" where
  "leaves_rule i e = (e = Press (KeepRule i) \<or> e = Press (DismissRule i))"

interpretation channel_deletion: guarded_dialog "channels_step fm" "\<lambda>p. \<exists>r w. p = mount_channels_page r w"
  "\<lambda>p. cd_open (cs_dialogs p i)" "asks_channel i" "leaves_channel i" "\<lambda>x. \<exists>ws. x = DeletesChannel ws i" for fm i
proof unfold_locales
  fix p assume "\<exists>r w. p = mount_channels_page r w"
  then show "\<not> cd_open (cs_dialogs p i)" by (auto simp: mount_channels_page_def closed_dialog_def)
next
  fix e p rs t assume "channels_step fm e p = Some (rs, t)" "cd_open (cs_dialogs t i)"
  then show "cd_open (cs_dialogs p i) \<or> asks_channel i e"
    by (cases e) (auto simp: dialog_facts asks_channel_def dest: dialogs_settled dialogs_placed
        split: if_splits option.splits channels_control.splits)
next
  fix e p rs t assume "channels_step fm e p = Some (rs, t)" "leaves_channel i e"
  then show "\<not> cd_open (cs_dialogs t i)" by (auto simp: leaves_channel_def dialog_facts)
next
  fix e p rs t x assume "channels_step fm e p = Some (rs, t)" "x \<in> set rs" "\<exists>ws. x = DeletesChannel ws i"
  then show "cd_open (cs_dialogs p i)"
    by (cases e) (auto simp: dialog_facts channels_offered_def confirm_enabled_def split: if_splits option.splits channels_control.splits)
qed

interpretation rule_deletion: guarded_dialog "channels_step fm" "\<lambda>p. \<exists>r w. p = mount_channels_page r w"
  "\<lambda>p. cd_open (cs_ruleDialogs p i)" "asks_rule i" "leaves_rule i" "\<lambda>x. \<exists>ws. x = DeletesRule ws i" for fm i
proof unfold_locales
  fix p assume "\<exists>r w. p = mount_channels_page r w"
  then show "\<not> cd_open (cs_ruleDialogs p i)" by (auto simp: mount_channels_page_def closed_dialog_def)
next
  fix e p rs t assume "channels_step fm e p = Some (rs, t)" "cd_open (cs_ruleDialogs t i)"
  then show "cd_open (cs_ruleDialogs p i) \<or> asks_rule i e"
    by (cases e) (auto simp: dialog_facts asks_rule_def dest: dialogs_settled dialogs_placed
        split: if_splits option.splits channels_control.splits)
next
  fix e p rs t assume "channels_step fm e p = Some (rs, t)" "leaves_rule i e"
  then show "\<not> cd_open (cs_ruleDialogs t i)" by (auto simp: leaves_rule_def dialog_facts)
next
  fix e p rs t x assume "channels_step fm e p = Some (rs, t)" "x \<in> set rs" "\<exists>ws. x = DeletesRule ws i"
  then show "cd_open (cs_ruleDialogs p i)"
    by (cases e) (auto simp: dialog_facts channels_offered_def confirm_enabled_def split: if_splits option.splits channels_control.splits)
qed

section \<open>What the page sends\<close>

lemma created_call:
  assumes "fst (handleCreate fm ws f) = Some call"
  shows "\<exists>t. channelType f = Some t \<and> channelName f \<noteq> [] \<and> isConfigValid fm (Some t) (channelConfig f) \<and>
    call = apiCreateChannel ws (channelName f) (channel_type_name t) (channelConfig f)"
  using assms by (cases "channelType f") (auto simp: handleCreate_def useCreateChannel_def channelSchema_def type_text_def
      isConfigValid_def Let_def split: if_splits)

lemma saved_call:
  assumes "handleEditSave fm ws f = Some call"
  shows "\<exists>c. editChannel f = Some c \<and> editName f \<noteq> [] \<and> isConfigValid fm (Some (ch_type c)) (editConfig f) \<and>
    call = apiUpdateChannel ws (ch_id c) (editName f) (editConfig f) (ch_active c)"
  using assms by (auto simp: handleEditSave_def useUpdateChannel_def split: option.splits if_splits)

lemma rule_call:
  assumes "fst (handleCreateRule ws f) = Some call"
  shows "channel_text (ruleChannel f) \<noteq> [] \<and> ruleSeverity f \<in> set SEVERITIES \<and>
    call = apiCreateRule ws (channel_text (ruleChannel f)) (ruleSeverity f)"
  using assms by (auto simp: handleCreateRule_def useCreateRule_def notificationRuleSchema_def SEVERITIES_def Let_def
      split: if_splits)

text \<open>What a request says, given the page that sends it and the events before.\<close>

definition request_ok ::
  "formats \<Rightarrow> string \<Rightarrow> channels_event list \<Rightarrow> channels_state \<Rightarrow> channels_effect \<Rightarrow> bool" where
  "request_ok fm ws es p x =
     (let f = cs_form p; listed = (\<lambda>i. i \<in> set (map ch_id (cs_channels p))) in
      case x of
        CreatesChannel call \<Rightarrow>
          (\<exists>t. channelType f = Some t \<and> channelName f \<noteq> [] \<and> isConfigValid fm (Some t) (channelConfig f) \<and>
             call = apiCreateChannel ws (channelName f) (channel_type_name t) (channelConfig f))
      | UpdatesChannel call \<Rightarrow>
          (\<exists>c \<in> set (cs_channels p). call = apiUpdateChannel ws (ch_id c) (ch_name c) (ch_config c) (\<not> ch_active c)) \<or>
          (\<exists>c. editChannel f = Some c \<and> editName f \<noteq> [] \<and> isConfigValid fm (Some (ch_type c)) (editConfig f) \<and>
             cs_update p = None \<and> call = apiUpdateChannel ws (ch_id c) (editName f) (editConfig f) (ch_active c))
      | TestsChannel w i \<Rightarrow> w = ws \<and> listed i
      | DeletesChannel w i \<Rightarrow> w = ws \<and> listed i \<and>
          (\<exists>pre c post. es = pre @ Press (AskDeleteChannel c) # post \<and> ch_id c = i \<and>
             list_all (\<lambda>e. \<not> leaves_channel i e) post)
      | CreatesRule call \<Rightarrow>
          (\<exists>c s. c \<noteq> [] \<and> s \<in> set SEVERITIES \<and> ruleChannel (cs_ruleForm p) = Some c \<and> call = apiCreateRule ws c s)
      | DeletesRule w i \<Rightarrow> w = ws \<and> i \<in> set (map nr_id (cs_rules p)) \<and>
          (\<exists>pre r post. es = pre @ Press (AskDeleteRule r) # post \<and> nr_id r = i \<and>
             list_all (\<lambda>e. \<not> leaves_rule i e) post))"

lemma deletion_asked:
  assumes "run_page (channels_step fm) es (mount_channels_page role w) = Some (rs, p)" and "channels_step fm e p = Some (qs, t)"
  shows "DeletesChannel ws i \<in> set qs \<Longrightarrow> \<exists>pre c post. es = pre @ Press (AskDeleteChannel c) # post \<and> ch_id c = i \<and>
      list_all (\<lambda>e. \<not> leaves_channel i e) post"
    and "DeletesRule ws i \<in> set qs \<Longrightarrow> \<exists>pre r post. es = pre @ Press (AskDeleteRule r) # post \<and> nr_id r = i \<and>
      list_all (\<lambda>e. \<not> leaves_rule i e) post"
proof -
  have fresh: "\<exists>r v. mount_channels_page role w = mount_channels_page r v" by blast
  show "\<exists>pre c post. es = pre @ Press (AskDeleteChannel c) # post \<and> ch_id c = i \<and> list_all (\<lambda>e. \<not> leaves_channel i e) post"
    if "DeletesChannel ws i \<in> set qs"
  proof -
    from channel_deletion.sent_confirmed [OF fresh assms that, of i] obtain pre d post
      where es: "es = pre @ d # post" "asks_channel i d" "list_all (\<lambda>e. \<not> leaves_channel i e) post" by blast
    then show ?thesis by (auto simp: asks_channel_def split: channels_event.splits channels_control.splits)
  qed
  show "\<exists>pre r post. es = pre @ Press (AskDeleteRule r) # post \<and> nr_id r = i \<and> list_all (\<lambda>e. \<not> leaves_rule i e) post"
    if "DeletesRule ws i \<in> set qs"
  proof -
    from rule_deletion.sent_confirmed [OF fresh assms that, of i] obtain pre d post
      where es: "es = pre @ d # post" "asks_rule i d" "list_all (\<lambda>e. \<not> leaves_rule i e) post" by blast
    then show ?thesis by (auto simp: asks_rule_def split: channels_event.splits channels_control.splits)
  qed
qed

lemma update_justified:
  assumes "channels_offered fm p c" and "UpdatesChannel call \<in> set (fst (channels_press fm ws c p))"
  shows "request_ok fm ws es p (UpdatesChannel call)"
proof -
  from assms(2) consider (saved) "c = SaveChannel" "handleEditSave fm ws (cs_form p) = Some call"
    | (toggled) y b where "c = ToggleChannel y b" "call = handleToggle ws y b"
    by (auto simp: press_requests split: channels_control.splits option.splits)
  then show ?thesis
  proof cases
    case saved
    from saved_call [OF saved(2)] assms(1) saved(1) show ?thesis
      by (auto simp: request_ok_def channels_offered_def edit_disabled_def Let_def)
  next
    case toggled
    with assms(1) have "y \<in> set (cs_channels p)" "call = apiUpdateChannel ws (ch_id y) (ch_name y) (ch_config y) (\<not> ch_active y)"
      by (auto simp: channels_offered_def channel_rows_def toggle_keeps split: if_splits)
    then show ?thesis unfolding request_ok_def Let_def by auto
  qed
qed

lemma row_requests:
  assumes "channels_offered fm p c" and "x \<in> set (fst (channels_press fm ws c p))"
  shows "x = TestsChannel v i \<or> x = DeletesChannel v i \<Longrightarrow> v = ws \<and> i \<in> set (map ch_id (cs_channels p))"
    and "x = DeletesRule v i \<Longrightarrow> v = ws \<and> i \<in> set (map nr_id (cs_rules p))"
  using assms
  by (auto simp: press_requests channels_offered_def channel_dialog_shown_def rule_dialog_shown_def channel_rows_def rule_rows_def
      split: channels_control.splits option.splits if_splits)

lemma form_requests:
  "CreatesChannel call \<in> set (fst (channels_press fm ws c p)) \<Longrightarrow> request_ok fm ws es p (CreatesChannel call)"
  "CreatesRule call \<in> set (fst (channels_press fm ws c p)) \<Longrightarrow> request_ok fm ws es p (CreatesRule call)"
proof -
  assume "CreatesChannel call \<in> set (fst (channels_press fm ws c p))"
  then have "fst (handleCreate fm ws (cs_form p)) = Some call"
    by (auto simp: press_requests split: channels_control.splits option.splits)
  from created_call [OF this] show "request_ok fm ws es p (CreatesChannel call)" by (simp add: request_ok_def)
next
  assume "CreatesRule call \<in> set (fst (channels_press fm ws c p))"
  then have "fst (handleCreateRule ws (cs_ruleForm p)) = Some call"
    by (auto simp: press_requests split: channels_control.splits option.splits)
  from rule_call [OF this] show "request_ok fm ws es p (CreatesRule call)"
    by (auto simp: request_ok_def channel_text_def split: option.splits)
qed


definition sample_channel :: "string \<Rightarrow> NotificationChannel" where
  "sample_channel i =
     \<lparr>ch_id = i, ch_workspaceId = ''w'', ch_name = ''Team'', ch_type = email, ch_config = [], ch_active = True,
      ch_createdAt = [], ch_updatedAt = []\<rparr>"

text \<open>An administrator deletes a channel.\<close>

definition deleting_channel :: "channels_event list" where
  "deleting_channel =
     [ChannelsFetched [sample_channel ''c1''] False, Press (AskDeleteChannel (sample_channel ''c1''))]"

lemma deleting_channel_run:
  "map_option (\<lambda>(rs, p). map_option fst (channels_step demo_formats (Press (ConfirmDeleteChannel ''c1'')) p))
     (run_page (channels_step demo_formats) deleting_channel (mount_channels_page (Some admin) (Some ''w''))) =
   Some (Some [DeletesChannel ''w'' ''c1''])"
  by code_simp


text \<open>
  The form of a rule remembers a channel that is deleted meanwhile: it shows that no channel is selected, its button is
  enabled, and the rule that is sent names the deleted channel.
\<close>

definition ruling :: "channels_event list" where
  "ruling =
     [ChannelsFetched [sample_channel ''c1'', sample_channel ''c2''] False, RulesFetched [] False, Press AddRule,
      Press (RuleSeverityOption ''high''), Press (RuleChannelOption ''c1''), Press CloseRule,
      ChannelsFetched [sample_channel ''c2''] False, Press AddRule]"

lemma rule_for_deleted_channel:
  "map_option (\<lambda>(rs, p). (shown_rule_channel p, map_option fst (channels_step demo_formats (Press CreateRule) p)))
     (run_page (channels_step demo_formats) ruling (mount_channels_page (Some admin) (Some ''w''))) =
   Some (''Select channel'', Some [CreatesRule (apiCreateRule ''w'' ''c1'' ''high'')])"
  by code_simp

text \<open>From one workspace to another the sections stay: an edit form that was open saves the channel of the first one
  under the address of the second.\<close>

lemma edit_follows_workspace:
  assumes "canManage p" "cs_ws p = Some v" "v \<noteq> []" "w \<noteq> []"
    and "editChannel (cs_form p) = Some c" "editName (cs_form p) \<noteq> []" "isConfigValid fm (Some (ch_type c)) (editConfig (cs_form p))"
    and "cs_update p = None"
  shows "\<exists>q t. channels_step fm (Placed (cs_role p) (Some w)) p = Some ([], q) \<and>
    channels_step fm (Press SaveChannel) q =
      Some ([UpdatesChannel (apiUpdateChannel w (ch_id c) (editName (cs_form p)) (editConfig (cs_form p)) (ch_active c))], t)"
proof -
  define q where "q = p\<lparr>cs_role := cs_role p, cs_ws := Some w\<rparr>"
  have ws: "sections_ws p = Some v" "sections_ws q = Some w"
    using assms(1-4) by (simp_all add: sections_ws_iff canManage_def q_def)
  then have "place (cs_role p) (Some w) p = q" by (simp add: place_def Let_def q_def)
  moreover have "channels_offered fm q SaveChannel"
    using ws(2) assms(5-8) by (simp add: channels_offered_def edit_shown_def edit_disabled_def Let_def q_def)
  moreover have "fst (channels_press fm w SaveChannel q) =
      [UpdatesChannel (apiUpdateChannel w (ch_id c) (editName (cs_form p)) (editConfig (cs_form p)) (ch_active c))]"
    using assms(5-7) by (simp add: press_requests handleEditSave_def useUpdateChannel_def q_def)
  ultimately show ?thesis using ws(2) by (auto simp: channel_step_press)
qed

end
