(* ===== verification/Spec2Isabelle.thy ===== *)
theory Spec2Isabelle
  imports Regex Sanitizer Json Kv_Store Browser Http Refresh_Flight Url Roles Routes Api_Core
    Api_Account Api_Monitor Auth Login Query_Cache Notifications
    Feature_Hooks Package_Hooks Workspace_Hooks Platform_Hooks Alerts Validation Onboarding
    Json_Text Package_Import Channels_View Slugs Account_Forms Single_Call Calendar Paged_List List_Views
    Admin_Tables Shell Account_Views Workspace_Views Settings_Views Local_Storage Dashboard Sso_Views Detail_Views
    Sidebar_State Notification_Bell Guarded_Dialog Notification_Page Auth_Session Inactivity
    Table_Pagination Queue_Page Backend_Listing Table_Columns Api_Keys_Page Login_Page
    Notes_Timeline Channels_Page
begin

text \<open>
  The web client of Veilence-MX, a monitor for compromised packages of a software supply chain:
  the TypeScript code under \<open>src/frontend/src\<close>, and of the backend (Go, \<open>src/backend\<close>) the part that answers
  its paged tables. Paths below are relative to \<open>src/frontend/src\<close> unless they start with \<open>src/\<close>.

  \<^bold>\<open>The program.\<close> A page is a component that reads the backend through query hooks and writes through
  mutation hooks (\<open>features/*/hooks\<close>). A hook calls a request builder (\<open>domains/*/api\<close>), which hands an
  endpoint and options to \<open>fetchApi\<close> (\<open>core/http.ts\<close>). \<open>fetchApi\<close> signs the request with the tokens and the
  workspace kept in localStorage and with the CSRF cookie, refreshes an expired session once for all
  concurrent calls, and turns error bodies into messages that pass the sanitizer
  (\<open>core/error-sanitizer.ts\<close>). The authentication provider (\<open>core/providers/auth-provider.tsx\<close>) owns the
  session and the selected workspace; the proxy (\<open>proxy.ts\<close>) and the client-side guards decide which page a
  visitor sees; filters and sorting of the tables live in the address bar.

  \<^bold>\<open>Foundations.\<close>
  \<^item> \<open>Prelude\<close>, \<open>Regex\<close>, \<open>Json\<close>, \<open>Json_Text\<close>, \<open>Calendar\<close>: the part of the language and its library the code
    uses: strings of code units below 256, decimal numbers, regular expressions with backtracking, JSON
    values and text, days and their ISO form. Collections of rewrite rules: \<open>js_defs\<close>, \<open>http_simps\<close>, \<open>api_defs\<close>.
  \<^item> \<open>Kv_Store\<close>: the locale of key-value stores, interpreted on localStorage and the cookie jar (\<open>Browser\<close>)
    and on query parameters (\<open>Url\<close>). \<open>Query_Cache\<close>: the locale of the cache of the query library, which
    is third-party code and an argument of the definitions that use it, interpreted on a list-backed cache.
    \<open>Paged_List\<close>: the locale \<open>url_table\<close> of a table whose filters the address bar describes, interpreted on the
    five tables of \<open>List_Views\<close>. \<open>Guarded_Dialog\<close>: the locale of a confirmation dialog that stands between a
    button and a request, interpreted on the bulk deletions of the notifications page, on the deletion
    of a key and the display of its secret, on the edit and the deletion of a note, and on the deletions of
    channels and rules.

  \<^bold>\<open>Session and requests.\<close>
  \<^item> \<open>Browser\<close>, \<open>Http\<close>: storage, cookies and one call of \<open>fetchApi\<close> run to its end; the backend is a function
    from the requests so far and the next one to its answer. Which requests are sent, with which
    headers, and what an expired session leaves behind.
  \<^item> \<open>Refresh_Flight\<close>: concurrent calls as a step relation, one step per stretch of code between two
    suspensions. One refresh at a time, no waiting call is stuck, a call never goes backwards.
    \<open>Single_Call\<close>: a call nothing interferes with is \<open>fetchApi\<close> of \<open>Http\<close>.
  \<^item> \<open>Sanitizer\<close>: the pattern table and what can be shown. \<open>Url\<close>: percent coding, \<open>URLSearchParams\<close>, the two
    hooks that keep state in the query string. \<open>Local_Storage\<close>: \<open>core/hooks/use-local-storage.ts\<close> and the tabs
    that share a value. \<open>Sidebar_State\<close>: the cookie of the sidebar and the layout that reads it.
  \<^item> \<open>Roles\<close>, \<open>Routes\<close>: the order of roles, breakpoints, the route table, the proxy and the guards.
  \<^item> \<open>Api_Core\<close>, \<open>Api_Account\<close>, \<open>Api_Monitor\<close>: every request builder; the inductive sets \<open>account_api\<close> and
    \<open>monitor_api\<close> collect them, so that a statement about all requests is one rule induction.
  \<^item> \<open>Auth\<close>, \<open>Login\<close>: the provider's handlers and the login form with its throttle and the SSO callback.
    \<open>Auth_Session\<close>: the provider as a step relation that refines a session automaton (signed out, signing
    in, signed in). \<open>Inactivity\<close>: the timers of \<open>core/hooks/use-inactivity-timeout.ts\<close> on an explicit clock.
    \<open>Login_Page\<close>: the login page as a machine, with what it offers while it is locked, busy or idle.

  \<^bold>\<open>Hooks.\<close> \<open>Feature_Hooks\<close> is the vocabulary (a query is a key, a call and whether it is enabled; a
  mutation is a call and what success and failure do); \<open>Package_Hooks\<close>, \<open>Workspace_Hooks\<close>, \<open>Platform_Hooks\<close>
  list them. \<open>Notifications\<close> and \<open>Alerts\<close> have the optimistic mutations: what they do to the cache and that a
  refused one puts it back.

  \<^bold>\<open>Forms and pages.\<close> The state of a page is a record, a handler a function on it, and what the page
  offers its user an inductive relation or, in the page machines, the list of its controls: a step takes an
  event and gives the requests sent and the next state, or nothing when the page does not offer the event.
  \<^item> \<open>Validation\<close> (the schemas), \<open>Onboarding\<close> (the wizard and its final requests), \<open>Account_Forms\<close>
    (registration, passwords, verification, invitation, first setup), \<open>Slugs\<close> (the three suggestions).
  \<^item> \<open>List_Views\<close> (packages, releases, alerts, stale and suggested packages), \<open>Admin_Tables\<close> (audit logs,
    platform users), \<open>Table_Columns\<close> (their columns, cells, sort buttons and column menus),
    \<open>Table_Pagination\<close> (the bar under a table), \<open>Package_Import\<close> (the manifest parsers and the bulk
    import), \<open>Detail_Views\<close> (one package, release, alert), \<open>Dashboard\<close>, \<open>Notification_Bell\<close>.
  \<^item> \<open>Channels_View\<close> (channels and rules), \<open>Account_Views\<close> (confirmation dialog, API keys, sessions, profile),
    \<open>Workspace_Views\<close> (workspaces, members, invitations), \<open>Settings_Views\<close> (settings and job queue),
    \<open>Sso_Views\<close> (providers, password login, linked identities), \<open>Shell\<close> (sidebar, palette, breadcrumbs).
  \<^item> Page machines: \<open>Notification_Page\<close> (selection, bulk deletion, footer), \<open>Queue_Page\<close> (job browser and its
    retry dialogs), \<open>Api_Keys_Page\<close> (creation, the secret shown once, deletion), \<open>Login_Page\<close>,
    \<open>Notes_Timeline\<close> (the notes of an alert and their authors), \<open>Channels_Page\<close> (channels and rules with their
    forms and the dialogs of their rows).

  \<^bold>\<open>The backend's end.\<close> \<open>Backend_Listing\<close>: \<open>parsePagination\<close>, \<open>parseSort\<close> and the windows the handlers of
  \<open>src/backend/internal/restapi/v1\<close> cut out of a table. The locale \<open>paged_listing\<close> is a table whose requests
  carry a page and a size; interpreted on the request builders of seven tables it says that leafing through
  the pages shows every row once. A forged page or order stays inside the table.

  \<^bold>\<open>Bounds.\<close> The only fuel is that of \<open>handleSessionExpired\<close>, whose logout request can expire again; two
  levels are enough, which \<open>expiry_handling_terminates\<close> shows. The JSON parser and the regular expressions
  recurse on what is left of the text. The integers of \<open>Backend_Listing\<close> are 64-bit words, since the offset
  of a page is a product that can wrap (\<open>huge_page_wraps\<close>). Elsewhere they are unbounded: every number the
  client computes with is a count, an index or an instant far below the exact range of a double; where the
  rounding of a division can be seen (\<open>Detail_Views\<close>), it is an argument. The zone of local time is a function
  of the instant.

  \<^bold>\<open>Arguments.\<close> The backend (its listings apart), the query cache, the functions of the table library that the
  pagination bar calls, the formats of the validation library (email, URL) and whether it runs a refinement
  in an extended schema, what the browser makes of a date it need not understand and how it words one, the
  clock, random numbers and the zone. Timers and event listeners appear as the events that run a handler.

  \<^bold>\<open>Not modelled.\<close> The Go backend other than its listings; the styled wrappers of \<open>ui/components\<close>; the
  markup of the pages where it decides nothing a user can do or read; the drawing of the charts;
  clipboard, file dialogs and themes. Code units above 255 have no character here (the ellipsis of a
  shortened note is an argument).
\<close>

section \<open>Properties across the components\<close>



end
